(* ===== verification/Prelude.thy ===== *)
theory Prelude
  imports Complex_Main
begin

text \<open>
  What every component of the panel front end shares: JavaScript strings and the
  string methods the sources call, decimal numerals, and two interfaces (codecs and
  deterministic machines) that the components instantiate.

  Strings.  A JavaScript string is represented by the bytes of its UTF-8 encoding, a
  HOL \<open>string\<close>.  Literals of the sources are ASCII, so \<open>''tcp''\<close> is \<open>'tcp'\<close>;
  searching, splitting at an ASCII character, prefixes, concatenation and comparison
  agree on the two representations, and the empty string is the empty list.  Lone
  surrogates have no UTF-8 encoding and are not represented.
\<close>

named_theorems wire_simps "equations that evaluate the adapters' field access"

section \<open>String methods\<close>

text \<open>\<open>s.startsWith(p)\<close>, \<open>s.endsWith(p)\<close>.\<close>

definition starts_with :: "string \<Rightarrow> string \<Rightarrow> bool" where
  "starts_with s p \<longleftrightarrow> take (length p) s = p"

definition ends_with :: "string \<Rightarrow> string \<Rightarrow> bool" where
  "ends_with s p \<longleftrightarrow> starts_with (rev s) (rev p)"

lemma starts_with_append [simp]: "starts_with (p @ s) p"
  by (simp add: starts_with_def)

lemma starts_with_Nil [simp]: "starts_with s []"
  by (simp add: starts_with_def)

lemma starts_with_Nil_left [simp]: "starts_with [] p \<longleftrightarrow> p = []"
  by (auto simp: starts_with_def)

lemma starts_with_Cons [simp]: "starts_with (c # s) (d # p) \<longleftrightarrow> c = d \<and> starts_with s p"
  by (auto simp: starts_with_def)

lemma starts_with_iff: "starts_with s p \<longleftrightarrow> (\<exists>t. s = p @ t)"
  by (auto simp: starts_with_def) (metis append_take_drop_id)

text \<open>\<open>s.indexOf(p)\<close> and \<open>s.includes(p)\<close>; \<open>None\<close> is the \<open>-1\<close> of the source.\<close>

fun index_of :: "string \<Rightarrow> string \<Rightarrow> nat option" where
  "index_of [] p = (if p = [] then Some 0 else None)"
| "index_of (c # s) p =
     (if starts_with (c # s) p then Some 0 else map_option Suc (index_of s p))"

definition str_includes :: "string \<Rightarrow> string \<Rightarrow> bool" where
  "str_includes s p \<longleftrightarrow> index_of s p \<noteq> None"

lemma index_of_Some: "index_of s p = Some n \<Longrightarrow> starts_with (drop n s) p"
  by (induction s arbitrary: n) (auto split: if_splits)

lemma index_of_append: "\<exists>n. index_of (a @ p @ b) p = Some n"
proof (induction a)
  case Nil
  have "starts_with (p @ b) p" by simp
  then show ?case by (cases "p @ b") (auto split: if_splits)
next
  case (Cons x a)
  then show ?case by auto
qed

lemma str_includes_append [simp]: "str_includes (a @ p @ b) p"
  using index_of_append [of a p b] by (auto simp: str_includes_def)

text \<open>\<open>s.indexOf(c)\<close> and \<open>s.lastIndexOf(c)\<close> for a one-character string, as a split.\<close>

fun split_first :: "char \<Rightarrow> string \<Rightarrow> (string \<times> string) option" where
  "split_first c [] = None"
| "split_first c (x # xs) =
     (if x = c then Some ([], xs) else map_option (\<lambda>(a, b). (x # a, b)) (split_first c xs))"

definition split_last :: "char \<Rightarrow> string \<Rightarrow> (string \<times> string) option" where
  "split_last c s = map_option (\<lambda>(a, b). (rev b, rev a)) (split_first c (rev s))"

lemma split_first_None [simp]: "split_first c s = None \<longleftrightarrow> c \<notin> set s"
  by (induction s) auto

lemma split_first_append: "c \<notin> set a \<Longrightarrow> split_first c (a @ c # b) = Some (a, b)"
  by (induction a) auto

lemma split_first_Some: "split_first c s = Some (a, b) \<Longrightarrow> s = a @ c # b \<and> c \<notin> set a"
  by (induction s arbitrary: a) (auto split: if_splits)

lemma split_last_None [simp]: "split_last c s = None \<longleftrightarrow> c \<notin> set s"
  by (simp add: split_last_def)

lemma split_last_append: "c \<notin> set b \<Longrightarrow> split_last c (a @ c # b) = Some (a, b)"
  by (simp add: split_last_def split_first_append)

text \<open>\<open>s.split(c)\<close> and \<open>xs.join(sep)\<close>.\<close>

fun split_on :: "char \<Rightarrow> string \<Rightarrow> string list" where
  "split_on c [] = [[]]"
| "split_on c (x # xs) =
     (if x = c then [] # split_on c xs
      else (case split_on c xs of [] \<Rightarrow> [[x]] | w # ws \<Rightarrow> (x # w) # ws))"

fun join :: "string \<Rightarrow> string list \<Rightarrow> string" where
  "join sep [] = []"
| "join sep [x] = x"
| "join sep (x # y # ys) = x @ sep @ join sep (y # ys)"

lemma split_on_nonempty [simp]: "split_on c s \<noteq> []"
  by (induction s) (auto split: list.splits)

lemma split_on_no_sep: "c \<notin> set s \<Longrightarrow> split_on c s = [s]"
  by (induction s) auto

lemma split_on_append: "c \<notin> set a \<Longrightarrow> split_on c (a @ c # b) = a # split_on c b"
  by (induction a) (auto split: list.splits)

lemma split_on_join:
  "xs \<noteq> [] \<Longrightarrow> \<forall>x \<in> set xs. c \<notin> set x \<Longrightarrow> split_on c (join [c] xs) = xs"
  by (induction "[c]" xs rule: join.induct) (auto simp: split_on_no_sep split_on_append)

lemma join_split_on: "join [c] (split_on c s) = s"
proof (induction s)
  case Nil
  show ?case by simp
next
  case (Cons x s)
  obtain w ws where w: "split_on c s = w # ws" by (cases "split_on c s") auto
  with Cons show ?case by (cases ws) auto
qed

lemma split_on_parts: "w \<in> set (split_on c s) \<Longrightarrow> c \<notin> set w"
  by (induction s arbitrary: w) (auto split: list.splits if_splits)

text \<open>\<open>xs.filter(Boolean)\<close> on strings.\<close>

definition nonempty_strings :: "string list \<Rightarrow> string list" where
  "nonempty_strings xs = filter (\<lambda>s. s \<noteq> []) xs"

lemma nonempty_strings_id: "[] \<notin> set xs \<Longrightarrow> nonempty_strings xs = xs"
  by (induction xs) (auto simp: nonempty_strings_def)

text \<open>
  \<open>toLowerCase\<close> and \<open>toUpperCase\<close>, on the ASCII letters (the sources compare the
  results with ASCII constants only).
\<close>

definition lower_char :: "char \<Rightarrow> char" where
  "lower_char c = (let n = of_char c :: nat in if 65 \<le> n \<and> n \<le> 90 then char_of (n + 32) else c)"

definition upper_char :: "char \<Rightarrow> char" where
  "upper_char c = (let n = of_char c :: nat in if 97 \<le> n \<and> n \<le> 122 then char_of (n - 32) else c)"

definition to_lower :: "string \<Rightarrow> string" where
  "to_lower s = map lower_char s"

definition to_upper :: "string \<Rightarrow> string" where
  "to_upper s = map upper_char s"

lemma lower_char_idem [simp]: "lower_char (lower_char c) = lower_char c"
  by (auto simp: lower_char_def Let_def)

lemma to_lower_idem [simp]: "to_lower (to_lower s) = to_lower s"
  by (induction s) (auto simp: to_lower_def)

lemma to_lower_Nil [simp]: "to_lower [] = []"
  by (simp add: to_lower_def)

section \<open>Trimming\<close>

text \<open>
  The UTF-8 sequences of the code points that \<open>String.prototype.trim\<close> removes:
  the white space and line terminators of ECMAScript.
\<close>

definition utf8_bytes :: "nat list \<Rightarrow> string" where
  "utf8_bytes ns = map char_of ns"

definition js_space :: "string list" where
  "js_space = map utf8_bytes
     ([[9], [10], [11], [12], [13], [32], [194, 160], [225, 154, 128]]
      @ map (\<lambda>n. [226, 128, n]) [128, 129, 130, 131, 132, 133, 134, 135, 136, 137, 138]
      @ [[226, 128, 168], [226, 128, 169], [226, 128, 175], [226, 129, 159], [227, 128, 128],
         [239, 187, 191]])"

function strip_left :: "string list \<Rightarrow> string \<Rightarrow> string" where
  "strip_left ws s =
     (case find (\<lambda>w. w \<noteq> [] \<and> starts_with s w) ws of
        None \<Rightarrow> s
      | Some w \<Rightarrow> strip_left ws (drop (length w) s))"
  by pat_completeness auto
termination
proof (relation "measure (\<lambda>(ws, s). length s)")
  fix ws s w
  assume "find (\<lambda>w. w \<noteq> [] \<and> starts_with s w) ws = Some w"
  then have "w \<noteq> []" "starts_with s w" by (auto simp: find_Some_iff)
  then show "((ws, drop (length w) s), ws, s) \<in> measure (\<lambda>(ws, s). length s)"
    by (auto simp: starts_with_iff)
qed simp

declare strip_left.simps [simp del]

definition js_trim :: "string \<Rightarrow> string" where
  "js_trim s = rev (strip_left (map rev js_space) (rev (strip_left js_space s)))"

text \<open>A string that starts and ends with a printable ASCII character is its own trim.\<close>

definition plain_char :: "char \<Rightarrow> bool" where
  "plain_char c \<longleftrightarrow> 32 < (of_char c :: nat) \<and> (of_char c :: nat) < 127"

lemma strip_left_Nil [simp]: "strip_left ws [] = []"
proof -
  have "find (\<lambda>w. w \<noteq> [] \<and> starts_with [] w) ws = None" by (auto simp: find_None_iff)
  then show ?thesis by (subst strip_left.simps) simp
qed

lemma strip_left_id:
  assumes "\<And>w. w \<in> set ws \<Longrightarrow> w \<noteq> [] \<Longrightarrow> hd w \<noteq> c"
  shows "strip_left ws (c # s) = c # s"
proof -
  have "find (\<lambda>w. w \<noteq> [] \<and> starts_with (c # s) w) ws = None"
    using assms by (auto simp: find_None_iff) (metis list.exhaust_sel starts_with_Cons)
  then show ?thesis by (subst strip_left.simps) simp
qed

lemma js_space_hd:
  "w \<in> set js_space \<Longrightarrow> \<not> plain_char (hd w) \<and> \<not> plain_char (hd (rev w)) \<and> w \<noteq> []"
  by (auto simp: js_space_def utf8_bytes_def plain_char_def)

lemma strip_js_space_plain:
  "plain_char c \<Longrightarrow> strip_left js_space (c # s) = c # s"
  "plain_char c \<Longrightarrow> strip_left (map rev js_space) (c # s) = c # s"
  using js_space_hd by (auto intro!: strip_left_id)

lemma js_trim_Nil [simp]: "js_trim [] = []"
  by (simp add: js_trim_def)

lemma js_trim_plain:
  assumes "s \<noteq> []" "plain_char (hd s)" "plain_char (last s)"
  shows "js_trim s = s"
proof -
  obtain a t where a: "s = a # t" using assms by (cases s) auto
  obtain b u where b: "rev s = b # u" using assms by (cases "rev s") auto
  have s: "s = rev (b # u)" using b by (metis rev_rev_ident)
  then have "last s = b" by simp
  then have "strip_left (map rev js_space) (b # u) = b # u"
    using assms(3) by (simp add: strip_js_space_plain)
  moreover have "strip_left js_space s = s"
    using assms(2) a by (simp add: strip_js_space_plain)
  ultimately show ?thesis using b s by (simp only: js_trim_def)
qed

lemma js_trim_all_plain: "\<forall>c \<in> set s. plain_char c \<Longrightarrow> js_trim s = s"
  by (cases "s = []") (simp, rule js_trim_plain, auto)

lemma strip_left_stop: "find (\<lambda>w. w \<noteq> [] \<and> starts_with (strip_left ws s) w) ws = None"
proof (induction ws s rule: strip_left.induct)
  case (1 ws s)
  show ?case
  proof (cases "find (\<lambda>w. w \<noteq> [] \<and> starts_with s w) ws")
    case None
    then have "strip_left ws s = s" by (subst strip_left.simps) simp
    with None show ?thesis by simp
  next
    case (Some w)
    then have "strip_left ws s = strip_left ws (drop (length w) s)" by (subst strip_left.simps) simp
    with 1 [OF Some] show ?thesis by simp
  qed
qed

lemma strip_left_fix: "find (\<lambda>w. w \<noteq> [] \<and> starts_with s w) ws = None \<Longrightarrow> strip_left ws s = s"
  by (subst strip_left.simps) simp

lemma strip_left_suffix: "\<exists>p. s = p @ strip_left ws s"
proof (induction ws s rule: strip_left.induct)
  case (1 ws s)
  show ?case
  proof (cases "find (\<lambda>w. w \<noteq> [] \<and> starts_with s w) ws")
    case None
    then show ?thesis by (simp add: strip_left_fix)
  next
    case (Some w)
    then have e: "strip_left ws s = strip_left ws (drop (length w) s)" by (subst strip_left.simps) simp
    obtain p where "drop (length w) s = p @ strip_left ws (drop (length w) s)" using 1 [OF Some] by blast
    then have "s = (take (length w) s @ p) @ strip_left ws s" using e by (metis append_assoc append_take_drop_id)
    then show ?thesis by blast
  qed
qed

lemma js_trim_idem [simp]: "js_trim (js_trim s) = js_trim s"
proof -
  let ?R = "map rev js_space"
  let ?x = "strip_left js_space s"
  let ?y = "strip_left ?R (rev ?x)"
  obtain p where p: "rev ?x = p @ ?y" using strip_left_suffix by blast
  then have x: "?x = rev ?y @ rev p" by (metis rev_append rev_rev_ident)
  have "find (\<lambda>w. w \<noteq> [] \<and> starts_with (rev ?y) w) js_space = None"
    using strip_left_stop [of js_space s] x by (auto simp: find_None_iff starts_with_iff)
  then have "strip_left js_space (rev ?y) = rev ?y" by (rule strip_left_fix)
  moreover have "strip_left ?R ?y = ?y" by (rule strip_left_fix, rule strip_left_stop)
  ultimately show ?thesis by (simp add: js_trim_def)
qed

section \<open>Decimal numerals\<close>

definition is_digit :: "char \<Rightarrow> bool" where
  "is_digit c \<longleftrightarrow> 48 \<le> (of_char c :: nat) \<and> (of_char c :: nat) \<le> 57"

definition digit_char :: "nat \<Rightarrow> char" where
  "digit_char d = char_of (48 + d)"

definition digit_val :: "char \<Rightarrow> nat" where
  "digit_val c = of_char c - 48"

fun nat_str :: "nat \<Rightarrow> string" where
  "nat_str n = (if n < 10 then [digit_char n] else nat_str (n div 10) @ [digit_char (n mod 10)])"

declare nat_str.simps [simp del]

definition digits_val :: "string \<Rightarrow> nat" where
  "digits_val s = foldl (\<lambda>n c. 10 * n + digit_val c) 0 s"

definition int_str :: "int \<Rightarrow> string" where
  "int_str i = (if i < 0 then CHR ''-'' # nat_str (nat (- i)) else nat_str (nat i))"

lemma of_char_digit_char: "d < 10 \<Longrightarrow> (of_char (digit_char d) :: nat) = 48 + d"
  by (simp add: digit_char_def of_char_of)

lemma is_digit_digit_char [simp]: "d < 10 \<Longrightarrow> is_digit (digit_char d)"
  by (simp add: is_digit_def of_char_digit_char)

lemma digit_val_digit_char [simp]: "d < 10 \<Longrightarrow> digit_val (digit_char d) = d"
  by (simp add: digit_val_def of_char_digit_char)

lemma nat_str_digits: "c \<in> set (nat_str n) \<Longrightarrow> is_digit c"
proof (induction n rule: nat_str.induct)
  case (1 n)
  then show ?case by (subst (asm) (2) nat_str.simps) (auto split: if_splits)
qed

lemma nat_str_nonempty [simp]: "nat_str n \<noteq> []"
  by (subst nat_str.simps) simp

lemma digits_val_append: "digits_val (s @ [c]) = 10 * digits_val s + digit_val c"
  by (simp add: digits_val_def)

lemma digits_val_nat_str [simp]: "digits_val (nat_str n) = n"
proof (induction n rule: nat_str.induct)
  case (1 n)
  show ?case
  proof (cases "n < 10")
    case True
    then show ?thesis by (subst nat_str.simps) (simp add: digits_val_def)
  next
    case False
    with 1 have IH: "digits_val (nat_str (n div 10)) = n div 10" by simp
    have "nat_str n = nat_str (n div 10) @ [digit_char (n mod 10)]"
      using False by (subst nat_str.simps) simp
    with IH show ?thesis by (simp add: digits_val_append)
  qed
qed

lemma nat_str_inj [simp]: "nat_str m = nat_str n \<longleftrightarrow> m = n"
  by (metis digits_val_nat_str)

lemma is_digit_plain: "is_digit c \<Longrightarrow> plain_char c"
  by (simp add: is_digit_def plain_char_def)

lemma hd_nat_str: "n \<noteq> 0 \<Longrightarrow> hd (nat_str n) \<noteq> CHR ''0''"
proof (induction n rule: nat_str.induct)
  case (1 n)
  show ?case
  proof (cases "n < 10")
    case True
    have "CHR ''0'' = digit_char 0" by code_simp
    with True 1 show ?thesis
      by (subst nat_str.simps) (metis digit_val_digit_char list.sel(1) zero_less_numeral)
  next
    case False
    with 1 have "hd (nat_str (n div 10)) \<noteq> CHR ''0''" by simp
    with False show ?thesis by (subst nat_str.simps) simp
  qed
qed

lemma nat_str_0 [simp]: "nat_str 0 = ''0''"
  by code_simp

section \<open>Interfaces\<close>

text \<open>
  A codec: an encoder, a decoder that may fail, and the domain on which decoding undoes
  encoding.  The wire formats (decimal numerals, Base64, UTF-8, percent-encoding, JSON,
  key files) are codecs, and codecs compose.
\<close>

locale codec =
  fixes enc :: "'a \<Rightarrow> 'b" and dec :: "'b \<Rightarrow> 'a option" and ok :: "'a \<Rightarrow> bool"
  assumes dec_enc: "ok x \<Longrightarrow> dec (enc x) = Some x"
begin

lemma enc_inject: "ok x \<Longrightarrow> ok y \<Longrightarrow> enc x = enc y \<longleftrightarrow> x = y"
  by (metis dec_enc option.inject)

lemma enc_inj_on: "inj_on enc {x. ok x}"
  by (rule inj_onI) (simp add: enc_inject)

lemma enc_map: "list_all ok xs \<Longrightarrow> map (dec \<circ> enc) xs = map Some xs"
  by (induction xs) (auto simp: dec_enc)

end

locale codec_comp = first: codec enc1 dec1 ok1 + second: codec enc2 dec2 ok2
  for enc1 :: "'a \<Rightarrow> 'b" and dec1 ok1 and enc2 :: "'b \<Rightarrow> 'c" and dec2 ok2 +
  assumes enc1_ok: "ok1 x \<Longrightarrow> ok2 (enc1 x)"

sublocale codec_comp \<subseteq> both: codec "\<lambda>x. enc2 (enc1 x)" "\<lambda>y. Option.bind (dec2 y) dec1" ok1
  by unfold_locales (simp add: enc1_ok first.dec_enc second.dec_enc)

text \<open>A deterministic machine with an invariant that every step keeps.\<close>

locale machine =
  fixes step :: "'s \<Rightarrow> 'e \<Rightarrow> 's" and inv :: "'s \<Rightarrow> bool"
  assumes step_inv: "inv s \<Longrightarrow> inv (step s e)"
begin

lemma run_inv: "inv s \<Longrightarrow> inv (foldl step s es)"
  by (induction es arbitrary: s) (auto simp: step_inv)

lemma prefix_inv: "inv s \<Longrightarrow> inv (foldl step s (take n es))"
  by (rule run_inv)

end

definition dec_digits :: "string \<Rightarrow> nat option" where
  "dec_digits s = (if s \<noteq> [] \<and> list_all is_digit s then Some (digits_val s) else None)"

interpretation decimal: codec nat_str dec_digits "\<lambda>_. True"
  by unfold_locales (auto simp: dec_digits_def list_all_iff dest: nat_str_digits)

end
