(* ===== verification/JsValue.thy ===== *)
theory JsValue
  imports Prelude
begin

text \<open>
  The values that the adapters and parsers of the front end pass around as
  \<open>unknown\<close>: JSON-shaped JavaScript values, plain objects as ordered property lists,
  and the conversions between values, strings and numbers that the sources use.

  Numbers.  A finite number is a rational; the numbers of the program are ports,
  counters and decimal fractions read from text, which are exact here (rounding to a
  53-bit significand and the sign of zero are not modelled).
\<close>

section \<open>Values\<close>

datatype jnum = Fin rat | NaN | PInf | NInf

datatype js =
    JUndef
  | JNull
  | JBool bool
  | JNum jnum
  | JStr string
  | JArr "js list"
  | JObj "(string \<times> js) list"

type_synonym obj = "(string \<times> js) list"

abbreviation JInt :: "int \<Rightarrow> js" where
  "JInt i \<equiv> JNum (Fin (of_int i))"

fun truthy :: "js \<Rightarrow> bool" where
  "truthy JUndef = False"
| "truthy JNull = False"
| "truthy (JBool b) = b"
| "truthy (JNum (Fin x)) = (x \<noteq> 0)"
| "truthy (JNum NaN) = False"
| "truthy (JNum _) = True"
| "truthy (JStr s) = (s \<noteq> [])"
| "truthy (JArr _) = True"
| "truthy (JObj _) = True"

fun nullish :: "js \<Rightarrow> bool" where
  "nullish JUndef = True"
| "nullish JNull = True"
| "nullish _ = False"

text \<open>\<open>v ?? d\<close> and \<open>v || d\<close>.\<close>

definition js_coalesce :: "js \<Rightarrow> js \<Rightarrow> js" where
  "js_coalesce v d = (if nullish v then d else v)"

definition js_or :: "js \<Rightarrow> js \<Rightarrow> js" where
  "js_or v d = (if truthy v then v else d)"

definition jnum_is_integer :: "jnum \<Rightarrow> bool" where
  "jnum_is_integer n = (case n of Fin x \<Rightarrow> x = of_int \<lfloor>x\<rfloor> | _ \<Rightarrow> False)"

fun jnum_is_finite :: "jnum \<Rightarrow> bool" where
  "jnum_is_finite (Fin _) = True"
| "jnum_is_finite _ = False"

lemma jnum_is_integer_of_int [simp]: "jnum_is_integer (Fin (of_int i))"
  by (simp add: jnum_is_integer_def)

lemma jnum_is_integer_numeral [simp]: "jnum_is_integer (Fin (numeral n))"
  "jnum_is_integer (Fin 0)" "jnum_is_integer (Fin 1)"
  by (simp_all add: jnum_is_integer_def)

section \<open>Objects\<close>

text \<open>
  A plain object is the list of its own properties in enumeration order.  Assigning a
  new property appends it, except that keys which are array indices come first and in
  ascending order, as \<open>Object.keys\<close> lists them.
\<close>

definition is_index_key :: "string \<Rightarrow> bool" where
  "is_index_key k \<longleftrightarrow>
     k \<noteq> [] \<and> list_all is_digit k \<and> (k = ''0'' \<or> hd k \<noteq> CHR ''0'') \<and> digits_val k < 4294967295"

fun put_index :: "string \<Rightarrow> js \<Rightarrow> obj \<Rightarrow> obj" where
  "put_index k v [] = [(k, v)]"
| "put_index k v ((k', v') # kvs) =
     (if is_index_key k' \<and> digits_val k' < digits_val k then (k', v') # put_index k v kvs
      else (k, v) # (k', v') # kvs)"

fun replace_key :: "string \<Rightarrow> js \<Rightarrow> obj \<Rightarrow> obj" where
  "replace_key k v [] = []"
| "replace_key k v ((k', v') # kvs) =
     (if k' = k then (k, v) # kvs else (k', v') # replace_key k v kvs)"

definition js_keys :: "obj \<Rightarrow> string list" where
  "js_keys kvs = map fst kvs"

definition js_has :: "obj \<Rightarrow> string \<Rightarrow> bool" where
  "js_has kvs k \<longleftrightarrow> map_of kvs k \<noteq> None"

definition js_get :: "obj \<Rightarrow> string \<Rightarrow> js" where
  "js_get kvs k = (case map_of kvs k of None \<Rightarrow> JUndef | Some v \<Rightarrow> v)"

definition js_put :: "string \<Rightarrow> js \<Rightarrow> obj \<Rightarrow> obj" where
  "js_put k v kvs =
     (if js_has kvs k then replace_key k v kvs
      else if is_index_key k then put_index k v kvs
      else kvs @ [(k, v)])"

definition js_del :: "string \<Rightarrow> obj \<Rightarrow> obj" where
  "js_del k kvs = filter (\<lambda>(k', _). k' \<noteq> k) kvs"

definition js_put_all :: "obj \<Rightarrow> obj \<Rightarrow> obj" where
  "js_put_all kvs new = foldl (\<lambda>o' (k, v). js_put k v o') kvs new"

definition obj_wf :: "obj \<Rightarrow> bool" where
  "obj_wf kvs \<longleftrightarrow> distinct (map fst kvs)"

lemma map_of_replace_key:
  "map_of kvs k \<noteq> None \<Longrightarrow> map_of (replace_key k v kvs) = (map_of kvs)(k \<mapsto> v)"
  by (induction kvs) (auto simp: fun_eq_iff split: if_splits)

lemma map_of_put_index:
  "map_of kvs k = None \<Longrightarrow> map_of (put_index k v kvs) = (map_of kvs)(k \<mapsto> v)"
  by (induction kvs) (auto simp: fun_eq_iff split: if_splits)

lemma map_of_js_put [simp]: "map_of (js_put k v kvs) = (map_of kvs)(k \<mapsto> v)"
  by (auto simp: js_put_def js_has_def map_of_replace_key map_of_put_index map_add_def fun_eq_iff
      split: option.splits)

lemma map_of_js_del [simp]: "map_of (js_del k kvs) = (map_of kvs)(k := None)"
  by (induction kvs) (auto simp: js_del_def fun_eq_iff)

lemma js_get_put [simp]: "js_get (js_put k v kvs) k' = (if k' = k then v else js_get kvs k')"
  by (simp add: js_get_def)

lemma js_get_del [simp]: "js_get (js_del k kvs) k' = (if k' = k then JUndef else js_get kvs k')"
  by (simp add: js_get_def)

lemma js_has_put [simp]: "js_has (js_put k v kvs) k' \<longleftrightarrow> k' = k \<or> js_has kvs k'"
  by (simp add: js_has_def)

lemma js_has_del [simp]: "js_has (js_del k kvs) k' \<longleftrightarrow> k' \<noteq> k \<and> js_has kvs k'"
  by (simp add: js_has_def)

lemma js_has_iff: "js_has kvs k \<longleftrightarrow> k \<in> fst ` set kvs"
  by (simp add: js_has_def map_of_eq_None_iff)

lemma js_get_Nil [simp]: "js_get [] k = JUndef"
  by (simp add: js_get_def)

lemma js_get_Cons [simp]:
  "js_get ((k', v) # kvs) k = (if k = k' then v else js_get kvs k)"
  by (simp add: js_get_def)

lemma keys_replace_key: "map fst (replace_key k v kvs) = map fst kvs"
  by (induction kvs) auto

lemma keys_put_index: "set (map fst (put_index k v kvs)) = insert k (set (map fst kvs))"
  by (induction k v kvs rule: put_index.induct) (simp_all add: insert_commute)

lemma distinct_put_index:
  "distinct (map fst kvs) \<Longrightarrow> k \<notin> set (map fst kvs) \<Longrightarrow> distinct (map fst (put_index k v kvs))"
  by (induction kvs) (auto simp: keys_put_index simp flip: set_map)

lemma obj_wf_put [simp]: "obj_wf kvs \<Longrightarrow> obj_wf (js_put k v kvs)"
  by (auto simp: js_put_def obj_wf_def keys_replace_key js_has_iff distinct_put_index)

lemma obj_wf_del [simp]: "obj_wf kvs \<Longrightarrow> obj_wf (js_del k kvs)"
  by (auto simp: obj_wf_def js_del_def intro: distinct_map_filter)

lemma obj_wf_Nil [simp]: "obj_wf []"
  by (simp add: obj_wf_def)

text \<open>\<open>v.k\<close> for a value of any type; a primitive has no members of interest.\<close>

definition js_member :: "js \<Rightarrow> string \<Rightarrow> js" where
  "js_member v k = (case v of JObj kvs \<Rightarrow> js_get kvs k | _ \<Rightarrow> JUndef)"

definition js_members :: "js \<Rightarrow> obj" where
  "js_members v = (case v of JObj kvs \<Rightarrow> kvs | _ \<Rightarrow> [])"

lemma js_get_members: "js_get (js_members v) k = js_member v k"
  by (cases v) (simp_all add: js_members_def js_member_def js_get_def)

text \<open>
  Maps with string keys: the contract that plain objects and URL search parameters
  share.  What reading returns after a write or a deletion determines every later read.
\<close>

locale string_map =
  fixes find :: "'m \<Rightarrow> string \<Rightarrow> 'v option"
    and put :: "string \<Rightarrow> 'v \<Rightarrow> 'm \<Rightarrow> 'm"
    and del :: "string \<Rightarrow> 'm \<Rightarrow> 'm"
    and wf :: "'m \<Rightarrow> bool"
  assumes find_put: "wf m \<Longrightarrow> find (put k v m) k' = (if k' = k then Some v else find m k')"
    and find_del: "wf m \<Longrightarrow> find (del k m) k' = (if k' = k then None else find m k')"
    and wf_put: "wf m \<Longrightarrow> wf (put k v m)"
    and wf_del: "wf m \<Longrightarrow> wf (del k m)"
begin

lemma find_put_put: "wf m \<Longrightarrow> find (put k v (put k w m)) = find (put k v m)"
  by (auto simp: find_put wf_put fun_eq_iff)

lemma find_put_comm: "wf m \<Longrightarrow> k \<noteq> l \<Longrightarrow> find (put k v (put l w m)) = find (put l w (put k v m))"
  by (auto simp: find_put wf_put fun_eq_iff)

lemma wf_puts: "wf m \<Longrightarrow> wf (foldl (\<lambda>m (k, v). put k v m) m kvs)"
  by (induction kvs arbitrary: m) (auto simp: wf_put)

lemma find_puts:
  "wf m \<Longrightarrow> find (foldl (\<lambda>m (k, v). put k v m) m kvs) k
     = (case map_of (rev kvs) k of Some v \<Rightarrow> Some v | None \<Rightarrow> find m k)"
  by (induction kvs arbitrary: m) (auto simp: find_put wf_put map_add_def split: option.splits)

lemma wf_dels: "wf m \<Longrightarrow> wf (foldl (\<lambda>m k. del k m) m ks)"
  by (induction ks arbitrary: m) (auto simp: wf_del)

lemma find_dels:
  "wf m \<Longrightarrow> find (foldl (\<lambda>m k. del k m) m ks) k = (if k \<in> set ks then None else find m k)"
  by (induction ks arbitrary: m) (auto simp: find_del wf_del)

end

interpretation js_map: string_map map_of js_put js_del obj_wf
  by unfold_locales auto

lemma map_of_js_put_all:
  "obj_wf kvs \<Longrightarrow> map_of (js_put_all kvs new) k
     = (case map_of (rev new) k of Some v \<Rightarrow> Some v | None \<Rightarrow> map_of kvs k)"
  unfolding js_put_all_def by (rule js_map.find_puts)

lemma obj_wf_put_all [simp]: "obj_wf kvs \<Longrightarrow> obj_wf (js_put_all kvs new)"
  unfolding js_put_all_def by (rule js_map.wf_puts)

section \<open>Numbers and text\<close>

text \<open>\<open>String(n)\<close>: the decimal digits of the number, with the exponent forms of ECMAScript.\<close>

function strip_zeros :: "nat \<Rightarrow> nat \<times> nat" where
  "strip_zeros m = (if m \<noteq> 0 \<and> m mod 10 = 0
     then (case strip_zeros (m div 10) of (s, z) \<Rightarrow> (s, Suc z)) else (m, 0))"
  by pat_completeness auto
termination by (relation "measure id") auto

declare strip_zeros.simps [simp del]

definition digits_form :: "nat \<Rightarrow> int \<Rightarrow> string" where
  "digits_form s n =
     (let ds = nat_str s; k = int (length ds) in
      if k \<le> n \<and> n \<le> 21 then ds @ replicate (nat (n - k)) CHR ''0''
      else if 0 < n \<and> n \<le> 21 then take (nat n) ds @ ''.'' @ drop (nat n) ds
      else if -6 < n \<and> n \<le> 0 then ''0.'' @ replicate (nat (- n)) CHR ''0'' @ ds
      else take 1 ds @ (if k = 1 then '''' else ''.'' @ drop 1 ds) @ ''e''
             @ (if n - 1 < 0 then ''-'' else ''+'') @ nat_str (nat \<bar>n - 1\<bar>))"

definition pos_num_str :: "rat \<Rightarrow> string" where
  "pos_num_str x =
     (let (p, q) = quotient_of x in
      case find (\<lambda>j. q dvd 10 ^ j) [0..<1100] of
        None \<Rightarrow> ''NaN''
      | Some j \<Rightarrow>
          (case strip_zeros (nat (p * 10 ^ j div q)) of
             (s, z) \<Rightarrow> digits_form s (int (length (nat_str s)) + int z - int j)))"

fun num_str :: "jnum \<Rightarrow> string" where
  "num_str (Fin x) =
     (if x = 0 then ''0''
      else if x = of_int \<lfloor>x\<rfloor> \<and> \<bar>x\<bar> < 10 ^ 21 then int_str \<lfloor>x\<rfloor>
      else if x < 0 then ''-'' @ pos_num_str (- x) else pos_num_str x)"
| "num_str NaN = ''NaN''"
| "num_str PInf = ''Infinity''"
| "num_str NInf = ''-Infinity''"

text \<open>\<open>Number(s)\<close> for a string.\<close>

definition hex_val :: "char \<Rightarrow> nat option" where
  "hex_val c = (let n = of_char c :: nat in
     if 48 \<le> n \<and> n \<le> 57 then Some (n - 48)
     else if 97 \<le> n \<and> n \<le> 102 then Some (n - 87)
     else if 65 \<le> n \<and> n \<le> 70 then Some (n - 55)
     else None)"

fun radix_val :: "nat \<Rightarrow> nat \<Rightarrow> string \<Rightarrow> nat option" where
  "radix_val b acc [] = Some acc"
| "radix_val b acc (c # cs) = (case hex_val c of
     Some d \<Rightarrow> if d < b then radix_val b (b * acc + d) cs else None | None \<Rightarrow> None)"

definition scale10 :: "rat \<Rightarrow> int \<Rightarrow> rat" where
  "scale10 x e = (if 0 \<le> e then x * 10 ^ nat e else x / 10 ^ nat (- e))"

definition exponent_part :: "string \<Rightarrow> int option" where
  "exponent_part s = (case s of
     [] \<Rightarrow> Some 0
   | c # r \<Rightarrow>
      if c = CHR ''e'' \<or> c = CHR ''E'' then
        (case r of
           d # r' \<Rightarrow>
             if d = CHR ''+'' then map_option int (dec_digits r')
             else if d = CHR ''-'' then map_option (\<lambda>n. - int n) (dec_digits r')
             else map_option int (dec_digits r)
         | [] \<Rightarrow> None)
      else None)"

definition unsigned_decimal :: "string \<Rightarrow> rat option" where
  "unsigned_decimal s =
     (let ip = takeWhile is_digit s; r = dropWhile is_digit s;
          (fp, r') = (case r of c # t \<Rightarrow> if c = CHR ''.'' then (takeWhile is_digit t, dropWhile is_digit t)
                                 else ([], r) | [] \<Rightarrow> ([], []))
      in if ip = [] \<and> fp = [] then None
         else map_option (\<lambda>e. scale10 (of_nat (digits_val (ip @ fp))) (e - int (length fp)))
                (exponent_part r'))"

definition signed_decimal :: "string \<Rightarrow> jnum" where
  "signed_decimal s =
     (let (neg, u) = (case s of c # r \<Rightarrow> if c = CHR ''-'' then (True, r)
                               else if c = CHR ''+'' then (False, r) else (False, s) | [] \<Rightarrow> (False, []))
      in if u = ''Infinity'' then (if neg then NInf else PInf)
         else (case unsigned_decimal u of
                 None \<Rightarrow> NaN | Some x \<Rightarrow> Fin (if neg then - x else x)))"

definition js_number_of_string :: "string \<Rightarrow> jnum" where
  "js_number_of_string s =
     (let t = js_trim s in
      if t = [] then Fin 0
      else
        (let radix = (\<lambda>b. (case drop 2 t of [] \<Rightarrow> NaN | ds \<Rightarrow>
                        (case radix_val b 0 ds of None \<Rightarrow> NaN | Some n \<Rightarrow> Fin (of_nat n))))
         in if to_lower (take 2 t) = ''0x'' then radix 16
            else if to_lower (take 2 t) = ''0o'' then radix 8
            else if to_lower (take 2 t) = ''0b'' then radix 2
            else signed_decimal t))"

text \<open>\<open>Number(v)\<close> and \<open>String(v)\<close> for the values that reach them.\<close>

fun js_string :: "js \<Rightarrow> string" where
  "js_string JUndef = ''undefined''"
| "js_string JNull = ''null''"
| "js_string (JBool b) = (if b then ''true'' else ''false'')"
| "js_string (JNum n) = num_str n"
| "js_string (JStr s) = s"
| "js_string (JArr xs) = join '','' (map (\<lambda>x. if nullish x then [] else js_string x) xs)"
| "js_string (JObj _) = ''[object Object]''"

definition js_number :: "js \<Rightarrow> jnum" where
  "js_number v = (case v of
     JUndef \<Rightarrow> NaN
   | JNull \<Rightarrow> Fin 0
   | JBool b \<Rightarrow> Fin (if b then 1 else 0)
   | JNum n \<Rightarrow> n
   | _ \<Rightarrow> js_number_of_string (js_string v))"

lemma takeWhile_all_digits: "list_all is_digit s \<Longrightarrow> takeWhile is_digit s = s"
  by (induction s) auto

lemma dropWhile_all_digits: "list_all is_digit s \<Longrightarrow> dropWhile is_digit s = []"
  by (induction s) auto

lemma nat_str_all_digits [simp]: "list_all is_digit (nat_str n)"
  by (auto simp: list_all_iff dest: nat_str_digits)

lemma unsigned_decimal_nat_str [simp]: "unsigned_decimal (nat_str n) = Some (of_nat n)"
  by (simp add: unsigned_decimal_def takeWhile_all_digits dropWhile_all_digits exponent_part_def
      scale10_def)

lemma is_digit_cases:
  "is_digit c \<Longrightarrow> c \<noteq> CHR ''-'' \<and> c \<noteq> CHR ''+'' \<and> c \<noteq> CHR ''I'' \<and> c \<noteq> CHR ''x'' \<and> c \<noteq> CHR ''X''
     \<and> c \<noteq> CHR ''o'' \<and> c \<noteq> CHR ''O'' \<and> c \<noteq> CHR ''b'' \<and> c \<noteq> CHR ''B'' \<and> c \<noteq> CHR ''.''"
  by (auto simp: is_digit_def)

lemma is_digit_numeral_start:
  assumes "is_digit c"
  shows "c \<noteq> CHR ''-'' \<and> c \<noteq> CHR ''+''"
  using is_digit_cases [OF assms] by blast

lemma hd_nat_str_digit: "is_digit (hd (nat_str n))"
  by (rule nat_str_digits) (rule list.set_sel(1), simp)

lemma signed_decimal_nat_str [simp]: "signed_decimal (nat_str n) = Fin (of_nat n)"
proof -
  obtain c r where cr: "nat_str n = c # r" by (cases "nat_str n") auto
  with hd_nat_str_digit [of n] have "c \<noteq> CHR ''-'' \<and> c \<noteq> CHR ''+'' \<and> c \<noteq> CHR ''I''"
    using is_digit_cases by auto
  with cr have "signed_decimal (c # r) = Fin (of_nat n)"
    using unsigned_decimal_nat_str [of n] by (simp add: signed_decimal_def)
  with cr show ?thesis by simp
qed

lemma signed_decimal_int_str [simp]: "signed_decimal (int_str i) = Fin (of_int i)"
proof (cases "i < 0")
  case True
  obtain c r where cr: "nat_str (nat (- i)) = c # r" by (cases "nat_str (nat (- i))") auto
  with hd_nat_str_digit [of "nat (- i)"] have "c \<noteq> CHR ''I''" using is_digit_cases by auto
  with True cr show ?thesis
    using unsigned_decimal_nat_str [of "nat (- i)"]
    by (simp add: signed_decimal_def int_str_def of_nat_nat)
qed (simp add: int_str_def of_nat_nat)

lemma int_str_plain: "\<forall>c \<in> set (int_str i). plain_char c"
  by (auto simp: int_str_def plain_char_def dest!: nat_str_digits) (auto simp: is_digit_def)

lemma int_str_nonempty [simp]: "int_str i \<noteq> []"
  by (simp add: int_str_def)

lemma int_str_not_radix:
  "lower_char (int_str i ! 1) \<notin> {CHR ''x'', CHR ''o'', CHR ''b''}" if "length (int_str i) > 1"
proof -
  have "int_str i ! 1 \<in> set (tl (int_str i))" using that
    by (cases "int_str i") (auto simp: nth_Cons')
  moreover have "set (tl (nat_str n)) \<subseteq> {c. is_digit c}" for n
    using nat_str_digits [of _ n] by (cases "nat_str n") auto
  then have "set (tl (int_str i)) \<subseteq> {c. is_digit c}"
    by (auto simp: int_str_def intro: nat_str_digits)
  ultimately have "is_digit (int_str i ! 1)" by auto
  then show ?thesis by (auto simp: lower_char_def is_digit_def)
qed

lemma take2_not_radix:
  "to_lower (take 2 (int_str i)) \<noteq> ''0x'' \<and> to_lower (take 2 (int_str i)) \<noteq> ''0o''
     \<and> to_lower (take 2 (int_str i)) \<noteq> ''0b''"
proof (cases "length (int_str i) > 1")
  case True
  then obtain a b r where "int_str i = a # b # r"
    by (cases "int_str i"; cases "tl (int_str i)") auto
  then show ?thesis using int_str_not_radix [OF True] by (auto simp: to_lower_def)
next
  case False
  then obtain a where "int_str i = [a]" by (cases "int_str i"; cases "tl (int_str i)") auto
  then show ?thesis by (simp add: to_lower_def)
qed

lemma js_number_of_int_str [simp]: "js_number_of_string (int_str i) = Fin (of_int i)"
  using take2_not_radix [of i] js_trim_all_plain [OF int_str_plain [of i]]
  by (simp add: js_number_of_string_def Let_def)

lemma js_number_of_nat_str [simp]: "js_number_of_string (nat_str n) = Fin (of_nat n)"
  using js_number_of_int_str [of "int n"] by (simp add: int_str_def)

lemma num_str_int [simp]: "\<bar>i\<bar> < 10 ^ 21 \<Longrightarrow> num_str (Fin (of_int i)) = int_str i"
proof -
  assume "\<bar>i\<bar> < 10 ^ 21"
  then have "\<bar>rat_of_int i\<bar> < 10 ^ 21"
    by (metis of_int_abs of_int_less_iff of_int_numeral of_int_power)
  then show ?thesis by (auto simp: int_str_def)
qed

text \<open>Integers of the magnitudes that print without an exponent survive \<open>Number(String(n))\<close>.\<close>

interpretation number_text:
  codec "\<lambda>i. num_str (Fin (of_int i))" "\<lambda>s. case js_number_of_string s of Fin x \<Rightarrow> Some \<lfloor>x\<rfloor> | _ \<Rightarrow> None"
    "\<lambda>i. \<bar>i\<bar> < 10 ^ 21"
  by unfold_locales (simp del: num_str.simps)

declare num_str.simps(1) [simp del]

end
