(* ===== verification/Base64.thy ===== *)
theory Base64
  imports JsValue
begin

text \<open>
  Bytes and text: UTF-8 validity and the decoder of \<open>TextDecoder\<close>, the forgiving Base64
  of \<open>btoa\<close>/\<open>atob\<close>, and the class \<open>Base64\<close> of \<open>frontend/src/utils/index.ts\<close>.  A byte is a
  \<open>char\<close>; a string is already its UTF-8 bytes, so \<open>TextEncoder.encode\<close> is the identity,
  and the binary strings of \<open>btoa\<close> and \<open>atob\<close> are lists of bytes.
\<close>

section \<open>UTF-8\<close>

text \<open>A leading byte fixes the number of continuation bytes and the range of the first.\<close>

definition utf8_lead :: "nat \<Rightarrow> (nat \<times> nat \<times> nat) option" where
  "utf8_lead n =
     (if 194 \<le> n \<and> n \<le> 223 then Some (1, 128, 191)
      else if n = 224 then Some (2, 160, 191)
      else if n = 237 then Some (2, 128, 159)
      else if 225 \<le> n \<and> n \<le> 239 then Some (2, 128, 191)
      else if n = 240 then Some (3, 144, 191)
      else if 241 \<le> n \<and> n \<le> 243 then Some (3, 128, 191)
      else if n = 244 then Some (3, 128, 143)
      else None)"

fun take_cont :: "nat \<Rightarrow> nat \<Rightarrow> nat \<Rightarrow> string \<Rightarrow> bool \<times> string \<times> string" where
  "take_cont 0 lo hi bs = (True, [], bs)"
| "take_cont (Suc n) lo hi [] = (False, [], [])"
| "take_cont (Suc n) lo hi (b # bs) =
     (if lo \<le> of_char b \<and> of_char b \<le> hi
      then (case take_cont n 128 191 bs of (ok, got, rest) \<Rightarrow> (ok, b # got, rest))
      else (False, [], b # bs))"

lemma take_cont_split: "take_cont n lo hi bs = (ok, got, rest) \<Longrightarrow> bs = got @ rest"
  by (induction n lo hi bs arbitrary: ok got rest rule: take_cont.induct)
     (auto split: if_splits prod.splits)

lemma take_cont_append:
  "take_cont n lo hi bs = (True, got, rest) \<Longrightarrow> take_cont n lo hi (bs @ cs) = (True, got, rest @ cs)"
  by (induction n lo hi bs arbitrary: got rest rule: take_cont.induct)
     (auto split: if_splits prod.splits)

text \<open>The maximal chunks of a byte sequence: well-formed sequences, and errors to replace.\<close>

function utf8_scan :: "string \<Rightarrow> (bool \<times> string) list" where
  "utf8_scan [] = []"
| "utf8_scan (b # bs) =
     (if of_char b < (128 :: nat) then (True, [b]) # utf8_scan bs
      else (case utf8_lead (of_char b) of
              None \<Rightarrow> (False, [b]) # utf8_scan bs
            | Some (n, lo, hi) \<Rightarrow>
                (case take_cont n lo hi bs of
                   (ok, got, rest) \<Rightarrow> (ok, b # got) # utf8_scan rest)))"
  by pat_completeness auto
termination
proof (relation "measure length")
  fix b bs x n y lo hi xa ok ya got rest
  assume "(ok, ya) = take_cont n lo hi bs" "(got, rest) = ya"
  then have "bs = got @ rest" using take_cont_split by metis
  then show "(rest, b # bs) \<in> measure length" by simp
qed auto

definition valid_utf8 :: "string \<Rightarrow> bool" where
  "valid_utf8 s \<longleftrightarrow> list_all fst (utf8_scan s)"

definition utf8_lossy :: "string \<Rightarrow> string" where
  "utf8_lossy s = concat (map (\<lambda>(ok, bs). if ok then bs else utf8_bytes [239, 191, 189]) (utf8_scan s))"

definition utf8_bom :: string where
  "utf8_bom = utf8_bytes [239, 187, 191]"

text \<open>\<open>new TextDecoder().decode(bytes)\<close>: a byte order mark is dropped, errors become U+FFFD.\<close>

definition text_decode :: "string \<Rightarrow> string" where
  "text_decode bs = (if starts_with bs utf8_bom then utf8_lossy (drop 3 bs) else utf8_lossy bs)"

lemma concat_utf8_scan: "concat (map snd (utf8_scan s)) = s"
proof (induction s rule: utf8_scan.induct)
  case (2 b bs)
  show ?case
  proof (cases "of_char b < (128 :: nat) \<or> utf8_lead (of_char b) = None")
    case True
    with 2 show ?thesis by auto
  next
    case False
    then obtain n lo hi where l: "utf8_lead (of_char b) = Some (n, lo, hi)"
      and b: "\<not> of_char b < (128 :: nat)" by auto
    obtain ok got rest where t: "take_cont n lo hi bs = (ok, got, rest)"
      by (cases "take_cont n lo hi bs") auto
    from 2(3) [OF b l refl refl t [symmetric] refl] take_cont_split [OF t] l b t
    show ?thesis by simp
  qed
qed simp

lemma utf8_lossy_valid: "valid_utf8 s \<Longrightarrow> utf8_lossy s = s"
proof -
  assume "valid_utf8 s"
  then have "map (\<lambda>(ok, bs). if ok then bs else utf8_bytes [239, 191, 189]) (utf8_scan s)
      = map snd (utf8_scan s)"
    by (intro map_cong refl) (auto simp: valid_utf8_def list_all_iff)
  then show ?thesis using concat_utf8_scan [of s] by (simp only: utf8_lossy_def)
qed

lemma text_decode_valid: "valid_utf8 s \<Longrightarrow> \<not> starts_with s utf8_bom \<Longrightarrow> text_decode s = s"
  by (simp add: text_decode_def utf8_lossy_valid)

lemma utf8_scan_append: "valid_utf8 s \<Longrightarrow> utf8_scan (s @ t) = utf8_scan s @ utf8_scan t"
proof (induction s rule: utf8_scan.induct)
  case (2 b bs)
  show ?case
  proof (cases "of_char b < (128 :: nat)")
    case True
    with 2 show ?thesis by (simp add: valid_utf8_def)
  next
    case False
    with 2(4) obtain n lo hi where l: "utf8_lead (of_char b) = Some (n, lo, hi)"
      by (auto simp: valid_utf8_def split: option.splits)
    obtain ok got rest where t: "take_cont n lo hi bs = (ok, got, rest)"
      by (cases "take_cont n lo hi bs") auto
    with 2(4) False l have ok: ok and rest: "valid_utf8 rest" by (auto simp: valid_utf8_def)
    from t ok have "take_cont n lo hi (bs @ t) = (True, got, rest @ t)"
      by (simp add: take_cont_append)
    with 2(3) [OF False l refl refl t [symmetric] refl rest] False l t ok show ?thesis by simp
  qed
qed simp

lemma valid_utf8_append: "valid_utf8 s \<Longrightarrow> valid_utf8 t \<Longrightarrow> valid_utf8 (s @ t)"
  by (simp add: valid_utf8_def utf8_scan_append)

lemma valid_utf8_Nil [simp]: "valid_utf8 []"
  by (simp add: valid_utf8_def)

lemma valid_utf8_ascii_Cons [simp]: "of_char c < (128 :: nat) \<Longrightarrow> valid_utf8 (c # s) \<longleftrightarrow> valid_utf8 s"
  by (simp add: valid_utf8_def)

lemma valid_utf8_ascii: "\<forall>c \<in> set s. of_char c < (128 :: nat) \<Longrightarrow> valid_utf8 s"
  by (induction s) auto

lemma plain_valid_utf8: "\<forall>c \<in> set s. plain_char c \<Longrightarrow> valid_utf8 s"
  by (rule valid_utf8_ascii) (auto simp: plain_char_def)

section \<open>Base64\<close>

definition b64_alphabet :: string where
  "b64_alphabet = ''ABCDEFGHIJKLMNOPQRSTUVWXYZabcdefghijklmnopqrstuvwxyz0123456789+/''"

definition b64_char :: "nat \<Rightarrow> char" where
  "b64_char n = b64_alphabet ! n"

definition b64_val :: "char \<Rightarrow> nat option" where
  "b64_val c = (let n = of_char c :: nat in
     if 65 \<le> n \<and> n \<le> 90 then Some (n - 65)
     else if 97 \<le> n \<and> n \<le> 122 then Some (n - 71)
     else if 48 \<le> n \<and> n \<le> 57 then Some (n + 4)
     else if n = 43 then Some 62
     else if n = 47 then Some 63
     else None)"

abbreviation byte :: "char \<Rightarrow> nat" where
  "byte c \<equiv> of_char c"

text \<open>\<open>btoa\<close> on a byte sequence.\<close>

fun btoa :: "string \<Rightarrow> string" where
  "btoa [] = []"
| "btoa [a] = [b64_char (byte a div 4), b64_char (byte a mod 4 * 16), CHR ''='', CHR ''='']"
| "btoa [a, b] =
     [b64_char (byte a div 4), b64_char (byte a mod 4 * 16 + byte b div 16),
      b64_char (byte b mod 16 * 4), CHR ''='']"
| "btoa (a # b # c # r) =
     b64_char (byte a div 4) # b64_char (byte a mod 4 * 16 + byte b div 16)
       # b64_char (byte b mod 16 * 4 + byte c div 64) # b64_char (byte c mod 64) # btoa r"

text \<open>
  \<open>atob\<close>: ASCII white space is removed, at most two padding signs of a text whose length
  is a multiple of four are removed, and spare low bits are dropped.
\<close>

definition ascii_space :: "char \<Rightarrow> bool" where
  "ascii_space c \<longleftrightarrow> (of_char c :: nat) \<in> {9, 10, 12, 13, 32}"

definition strip_padding :: "string \<Rightarrow> string" where
  "strip_padding s =
     (if length s mod 4 = 0 then
        (case rev s of
           p # q # r \<Rightarrow> if p = CHR ''='' then (if q = CHR ''='' then rev r else rev (q # r)) else s
         | _ \<Rightarrow> s)
      else s)"

fun b64_bytes :: "nat list \<Rightarrow> string" where
  "b64_bytes (a # b # c # d # r) =
     char_of (a * 4 + b div 16) # char_of (b mod 16 * 16 + c div 4) # char_of (c mod 4 * 64 + d)
       # b64_bytes r"
| "b64_bytes [a, b, c] = [char_of (a * 4 + b div 16), char_of (b mod 16 * 16 + c div 4)]"
| "b64_bytes [a, b] = [char_of (a * 4 + b div 16)]"
| "b64_bytes _ = []"

definition atob :: "string \<Rightarrow> string option" where
  "atob s =
     (let t = strip_padding (filter (\<lambda>c. \<not> ascii_space c) s) in
      if length t mod 4 = 1 \<or> \<not> list_all (\<lambda>c. b64_val c \<noteq> None) t then None
      else Some (b64_bytes (map (\<lambda>c. the (b64_val c)) t)))"

lemma byte_less [simp]: "byte c < 256"
proof -
  have "byte c mod 256 < 256" by (rule mod_less_divisor) simp
  then show ?thesis by (simp only: of_char_mod_256)
qed

lemma b64_val_alphabet: "map b64_val b64_alphabet = map Some [0..<64]"
  by code_simp

lemma b64_alphabet_plain:
  "list_all (\<lambda>c. c \<noteq> CHR ''='' \<and> \<not> ascii_space c \<and> plain_char c) b64_alphabet"
  by code_simp

lemma length_b64_alphabet [simp]: "length b64_alphabet = 64"
  by (simp add: b64_alphabet_def)

lemma b64_val_char [simp]: "n < 64 \<Longrightarrow> b64_val (b64_char n) = Some n"
proof -
  assume n: "n < 64"
  then have "b64_val (b64_char n) = map b64_val b64_alphabet ! n" by (simp add: b64_char_def)
  also have "\<dots> = Some n" using n by (simp add: b64_val_alphabet)
  finally show ?thesis .
qed

lemma b64_char_plain: "n < 64 \<Longrightarrow> b64_char n \<noteq> CHR ''='' \<and> \<not> ascii_space (b64_char n) \<and> plain_char (b64_char n)"
  using b64_alphabet_plain by (simp add: list_all_length b64_char_def)

lemma radix_div_mod: "y < k \<Longrightarrow> (x * k + y) div k = (x :: nat) \<and> (x * k + y) mod k = y"
  by simp

lemma b64_tail1:
  "a < 256 \<Longrightarrow> a div 4 * 4 + (a mod 4 * 16) div 16 = (a :: nat) \<and> a div 4 < 64 \<and> a mod 4 * 16 < 64"
  by simp

lemma b64_tail2:
  assumes "a < 256" "b < 256"
  shows "a div 4 * 4 + (a mod 4 * 16 + b div 16) div 16 = (a :: nat) \<and>
   (a mod 4 * 16 + b div 16) mod 16 * 16 + (b mod 16 * 4) div 4 = b \<and>
   a div 4 < 64 \<and> a mod 4 * 16 + b div 16 < 64 \<and> b mod 16 * 4 < 64"
proof -
  have b: "b div 16 < 16" using assms by simp
  have "a mod 4 < 4" "b mod 16 < 16" by simp_all
  then have "a mod 4 * 16 + b div 16 < 64 \<and> b mod 16 * 4 < 64" using b by linarith
  then show ?thesis using radix_div_mod [OF b, of "a mod 4"] assms by simp
qed

lemma b64_bytes_groups:
  assumes "a < 256" "b < 256" "c < 256"
  shows "a div 4 * 4 + (a mod 4 * 16 + b div 16) div 16 = (a :: nat) \<and>
   (a mod 4 * 16 + b div 16) mod 16 * 16 + (b mod 16 * 4 + c div 64) div 4 = b \<and>
   (b mod 16 * 4 + c div 64) mod 4 * 64 + c mod 64 = c \<and>
   a div 4 < 64 \<and> a mod 4 * 16 + b div 16 < 64 \<and> b mod 16 * 4 + c div 64 < 64"
proof -
  have b: "b div 16 < 16" and c: "c div 64 < 4" using assms by simp_all
  have "a mod 4 < 4" "b mod 16 < 16" by simp_all
  then have "a mod 4 * 16 + b div 16 < 64 \<and> b mod 16 * 4 + c div 64 < 64" using b c by linarith
  then show ?thesis
    using radix_div_mod [OF b, of "a mod 4"] radix_div_mod [OF c, of "b mod 16"] assms by simp
qed

text \<open>The text without its padding, and the six-bit values it stands for.\<close>

fun sextets :: "string \<Rightarrow> nat list" where
  "sextets [] = []"
| "sextets [a] = [byte a div 4, byte a mod 4 * 16]"
| "sextets [a, b] = [byte a div 4, byte a mod 4 * 16 + byte b div 16, byte b mod 16 * 4]"
| "sextets (a # b # c # r) =
     byte a div 4 # (byte a mod 4 * 16 + byte b div 16) # (byte b mod 16 * 4 + byte c div 64)
       # (byte c mod 64) # sextets r"

lemma sextets_less: "n \<in> set (sextets s) \<Longrightarrow> n < 64"
proof (induction s rule: sextets.induct)
  case (2 a)
  then show ?case using b64_tail1 [of "byte a"] by auto
next
  case (3 a b)
  then show ?case using b64_tail2 [of "byte a" "byte b"] by auto
next
  case (4 a b c r)
  then show ?case using b64_bytes_groups [of "byte a" "byte b" "byte c"] by auto
qed simp

lemma b64_bytes_sextets: "b64_bytes (sextets s) = s"
proof (induction s rule: sextets.induct)
  case (2 a)
  show ?case using b64_tail1 [of "byte a"] by simp
next
  case (3 a b)
  show ?case using b64_tail2 [of "byte a" "byte b"] by simp
next
  case (4 a b c r)
  then show ?case using b64_bytes_groups [of "byte a" "byte b" "byte c"] by simp
qed simp

definition padding :: "nat \<Rightarrow> string" where
  "padding n = (if n mod 3 = 1 then ''=='' else if n mod 3 = 2 then ''='' else [])"

lemma btoa_sextets: "btoa s = map b64_char (sextets s) @ padding (length s)"
  by (induction s rule: sextets.induct) (auto simp: padding_def mod_Suc)

lemma length_sextets: "length (sextets s) = length s + (length s + 2) div 3"
  by (induction s rule: sextets.induct) auto

lemma map_b64_char_plain:
  "c \<in> set (map b64_char (sextets s)) \<Longrightarrow> c \<noteq> CHR ''='' \<and> \<not> ascii_space c \<and> plain_char c \<and> b64_val c \<noteq> None"
  using b64_char_plain sextets_less by fastforce

lemma strip_padding_none:
  "length t mod 4 = 0 \<Longrightarrow> CHR ''='' \<notin> set t \<Longrightarrow> strip_padding t = t"
  by (auto simp: strip_padding_def split: list.splits)

lemma strip_padding_one:
  assumes "length (t @ ''='') mod 4 = 0" "CHR ''='' \<notin> set t" "t \<noteq> []"
  shows "strip_padding (t @ ''='') = t"
proof -
  obtain u q where t: "t = u @ [q]" using assms(3) by (cases t rule: rev_cases) auto
  with assms have "q \<noteq> CHR ''=''" by auto
  with t assms show ?thesis by (simp add: strip_padding_def)
qed

lemma strip_padding_two: "length (t @ ''=='') mod 4 = 0 \<Longrightarrow> strip_padding (t @ ''=='') = t"
  by (simp add: strip_padding_def)

lemma strip_padding_btoa: "strip_padding (btoa s) = map b64_char (sextets s)"
proof -
  let ?t = "map b64_char (sextets s)"
  have len: "length (btoa s) mod 4 = 0"
    unfolding btoa_sextets by (simp add: length_sextets padding_def) presburger
  have noeq: "CHR ''='' \<notin> set ?t" using map_b64_char_plain [of _ s] by blast
  consider "length s mod 3 = 0" | "length s mod 3 = 1" | "length s mod 3 = 2" by linarith
  then show ?thesis
  proof cases
    case 1
    then have b: "btoa s = ?t" by (simp add: btoa_sextets padding_def)
    show ?thesis using strip_padding_none [OF _ noeq] len by (simp only: b)
  next
    case 2
    then have b: "btoa s = ?t @ ''==''" by (simp add: btoa_sextets padding_def)
    show ?thesis using strip_padding_two [of ?t] len by (simp only: b)
  next
    case 3
    then have b: "btoa s = ?t @ ''=''" by (simp add: btoa_sextets padding_def)
    from 3 have "?t \<noteq> []" by (cases s rule: sextets.cases) auto
    show ?thesis unfolding b by (rule strip_padding_one [OF len [unfolded b] noeq]) fact
  qed
qed

lemma btoa_chars: "c \<in> set (btoa s) \<Longrightarrow> \<not> ascii_space c \<and> plain_char c"
  using map_b64_char_plain [of c s]
  by (auto simp: btoa_sextets padding_def ascii_space_def plain_char_def split: if_splits)

lemma atob_map_b64:
  "length (sextets s) mod 4 \<noteq> 1"
  by (simp add: length_sextets) presburger

lemma the_b64_sextets: "map (\<lambda>c. the (b64_val c)) (map b64_char (sextets s)) = sextets s"
  using sextets_less [of _ s] by (simp add: map_idI)

lemma atob_btoa [simp]: "atob (btoa s) = Some s"
proof -
  have f: "filter (\<lambda>c. \<not> ascii_space c) (btoa s) = btoa s"
    using btoa_chars by (auto simp: filter_id_conv)
  have v: "list_all (\<lambda>c. b64_val c \<noteq> None) (map b64_char (sextets s))"
    using sextets_less [of _ s] by (auto simp: list_all_iff)
  show ?thesis
    using v atob_map_b64 [of s]
    by (simp only: atob_def f strip_padding_btoa Let_def the_b64_sextets length_map
        b64_bytes_sextets) simp
qed

interpretation base64: codec btoa atob "\<lambda>_. True"
  by unfold_locales simp

section \<open>The class Base64\<close>

text \<open>
  \<open>Base64.encode(content, safe)\<close>: standard Base64 of the UTF-8 bytes, or the URL-safe
  alphabet without padding.
\<close>

definition url_safe :: "string \<Rightarrow> string" where
  "url_safe s =
     map (\<lambda>c. if c = CHR ''/'' then CHR ''_'' else c)
       (filter (\<lambda>c. c \<noteq> CHR ''='')
          (map (\<lambda>c. if c = CHR ''+'' then CHR ''-'' else c) s))"

definition Base64_encode :: "string \<Rightarrow> bool \<Rightarrow> string" where
  "Base64_encode content safe = (if safe then url_safe (btoa content) else btoa content)"

definition Base64_alternativeEncode :: "string \<Rightarrow> string" where
  "Base64_alternativeEncode content = btoa content"

text \<open>\<open>None\<close> is the \<open>InvalidCharacterError\<close> that \<open>atob\<close> throws.\<close>

definition Base64_decode :: "string \<Rightarrow> string option" where
  "Base64_decode content = map_option text_decode (atob content)"

definition text_ok :: "string \<Rightarrow> bool" where
  "text_ok s \<longleftrightarrow> valid_utf8 s \<and> \<not> starts_with s utf8_bom"

lemma Base64_decode_encode: "text_ok s \<Longrightarrow> Base64_decode (Base64_encode s False) = Some s"
  by (simp add: Base64_decode_def Base64_encode_def text_ok_def text_decode_valid)

interpretation base64_text: codec "\<lambda>s. Base64_encode s False" Base64_decode text_ok
  by unfold_locales (rule Base64_decode_encode)

end
