(* ===== verification/Json.thy ===== *)
theory Json
  imports Base64
begin

text \<open>
  \<open>JSON.stringify\<close> and \<open>JSON.parse\<close> as the adapters use them: the serializer with an
  optional indentation step (\<open>JSON.stringify(v)\<close> and \<open>JSON.stringify(v, null, 2)\<close>), a
  recursive-descent parser, and the round trip between them.
\<close>

section \<open>Serialization\<close>

abbreviation quote_char :: char where "quote_char \<equiv> CHR 0x22"
abbreviation backslash_char :: char where "backslash_char \<equiv> CHR 0x5C"

definition hex_char :: "nat \<Rightarrow> char" where
  "hex_char d = (if d < 10 then char_of (48 + d) else char_of (87 + d))"

definition json_char :: "char \<Rightarrow> string" where
  "json_char c = (let n = of_char c :: nat in
     if c = quote_char then [backslash_char, quote_char]
     else if c = backslash_char then [backslash_char, backslash_char]
     else if n = 8 then [backslash_char, CHR ''b'']
     else if n = 12 then [backslash_char, CHR ''f'']
     else if n = 10 then [backslash_char, CHR ''n'']
     else if n = 13 then [backslash_char, CHR ''r'']
     else if n = 9 then [backslash_char, CHR ''t'']
     else if n < 32 then backslash_char # ''u00'' @ [hex_char (n div 16), hex_char (n mod 16)]
     else [c])"

definition json_quote :: "string \<Rightarrow> string" where
  "json_quote s = quote_char # concat (map json_char s) @ [quote_char]"

definition json_wrap :: "char \<Rightarrow> char \<Rightarrow> string \<Rightarrow> string \<Rightarrow> string list \<Rightarrow> string" where
  "json_wrap opening closing gap ind items =
     (if items = [] then [opening, closing]
      else if gap = [] then opening # join '','' items @ [closing]
      else opening # CHR 0x0A # ind @ gap
             @ join (CHR '','' # CHR 0x0A # ind @ gap) items @ CHR 0x0A # ind @ [closing])"

text \<open>\<open>None\<close> is the \<open>undefined\<close> that has no serialization.\<close>

fun json_ser :: "string \<Rightarrow> string \<Rightarrow> js \<Rightarrow> string option" where
  "json_ser gap ind JUndef = None"
| "json_ser gap ind JNull = Some ''null''"
| "json_ser gap ind (JBool b) = Some (if b then ''true'' else ''false'')"
| "json_ser gap ind (JNum n) = Some (if jnum_is_finite n then num_str n else ''null'')"
| "json_ser gap ind (JStr s) = Some (json_quote s)"
| "json_ser gap ind (JArr xs) =
     Some (json_wrap CHR ''['' CHR '']'' gap ind
             (map (\<lambda>x. case json_ser gap (ind @ gap) x of None \<Rightarrow> ''null'' | Some t \<Rightarrow> t) xs))"
| "json_ser gap ind (JObj kvs) =
     Some (json_wrap CHR ''{'' CHR ''}'' gap ind
             (concat (map (\<lambda>kv. case json_ser gap (ind @ gap) (snd kv) of
                  None \<Rightarrow> []
                | Some t \<Rightarrow> [json_quote (fst kv) @ (if gap = [] then '':'' else '': '') @ t]) kvs)))"

definition JSON_stringify :: "js \<Rightarrow> string option" where
  "JSON_stringify v = json_ser [] [] v"

definition JSON_stringify_pretty :: "js \<Rightarrow> string option" where
  "JSON_stringify_pretty v = json_ser ''  '' [] v"

section \<open>Parsing\<close>

definition json_ws :: "char \<Rightarrow> bool" where
  "json_ws c \<longleftrightarrow> (of_char c :: nat) \<in> {9, 10, 13, 32}"

definition skip_ws :: "string \<Rightarrow> string" where
  "skip_ws s = dropWhile json_ws s"

definition utf8_encode :: "nat \<Rightarrow> string" where
  "utf8_encode n = utf8_bytes
     (if n < 128 then [n]
      else if n < 2048 then [192 + n div 64, 128 + n mod 64]
      else if n < 65536 then [224 + n div 4096, 128 + n div 64 mod 64, 128 + n mod 64]
      else [240 + n div 262144, 128 + n div 4096 mod 64, 128 + n div 64 mod 64, 128 + n mod 64])"

fun hex4 :: "string \<Rightarrow> (nat \<times> string) option" where
  "hex4 (a # b # c # d # r) = (case (hex_val a, hex_val b, hex_val c, hex_val d) of
     (Some w, Some x, Some y, Some z) \<Rightarrow> Some (((w * 16 + x) * 16 + y) * 16 + z, r) | _ \<Rightarrow> None)"
| "hex4 _ = None"

text \<open>
  What follows \<open>\u\<close>: a surrogate pair is one code point; a lone surrogate, which has no
  UTF-8 form, is represented by U+FFFD.
\<close>

definition json_unicode :: "string \<Rightarrow> (string \<times> string) option" where
  "json_unicode s = (case hex4 s of
     None \<Rightarrow> None
   | Some (n, r) \<Rightarrow>
       if 55296 \<le> n \<and> n < 56320 then
         (case r of
            p # q # r' \<Rightarrow>
              (case (if p = backslash_char \<and> q = CHR ''u'' then hex4 r' else None) of
                 Some (m, r'') \<Rightarrow>
                   if 56320 \<le> m \<and> m < 57344
                   then Some (utf8_encode (65536 + (n - 55296) * 1024 + (m - 56320)), r'')
                   else Some (utf8_encode 65533, r)
               | None \<Rightarrow> Some (utf8_encode 65533, r))
          | _ \<Rightarrow> Some (utf8_encode 65533, r))
       else if 56320 \<le> n \<and> n < 57344 then Some (utf8_encode 65533, r)
       else Some (utf8_encode n, r))"

definition json_escape :: "string \<Rightarrow> (string \<times> string) option" where
  "json_escape s = (case s of
     [] \<Rightarrow> None
   | e # r \<Rightarrow>
       if e = quote_char \<or> e = backslash_char \<or> e = CHR ''/'' then Some ([e], r)
       else if e = CHR ''b'' then Some ([CHR 0x08], r)
       else if e = CHR ''f'' then Some ([CHR 0x0C], r)
       else if e = CHR ''n'' then Some ([CHR 0x0A], r)
       else if e = CHR ''r'' then Some ([CHR 0x0D], r)
       else if e = CHR ''t'' then Some ([CHR 0x09], r)
       else if e = CHR ''u'' then json_unicode r
       else None)"

lemma hex4_length: "hex4 s = Some (n, r) \<Longrightarrow> length r < length s"
  by (cases s rule: hex4.cases) (auto split: option.splits)

lemma json_unicode_length: "json_unicode s = Some (t, r) \<Longrightarrow> length r < length s"
  by (auto simp: json_unicode_def split: option.splits if_splits prod.splits list.splits
      dest!: hex4_length)

lemma json_escape_length: "json_escape s = Some (t, r) \<Longrightarrow> length r < length s"
  by (auto simp: json_escape_def split: if_splits list.splits dest!: json_unicode_length)

text \<open>The characters of a string literal, after its opening quotation mark.\<close>

function parse_str :: "string \<Rightarrow> (string \<times> string) option" where
  "parse_str [] = None"
| "parse_str (c # cs) =
     (if c = quote_char then Some ([], cs)
      else if c = backslash_char then
        (case json_escape cs of
           None \<Rightarrow> None
         | Some (t, r) \<Rightarrow> map_option (\<lambda>(u, r'). (t @ u, r')) (parse_str r))
      else if of_char c < (32 :: nat) then None
      else map_option (\<lambda>(u, r). (c # u, r)) (parse_str cs))"
  by pat_completeness auto
termination
  by (relation "measure length") (auto dest!: json_escape_length)

text \<open>The longest run of number characters must be a number of the JSON grammar.\<close>

definition num_char :: "char \<Rightarrow> bool" where
  "num_char c \<longleftrightarrow> is_digit c \<or> c \<in> {CHR ''-'', CHR ''+'', CHR ''.'', CHR ''e'', CHR ''E''}"

definition json_exp_ok :: "string \<Rightarrow> bool" where
  "json_exp_ok r \<longleftrightarrow> r = [] \<or> exponent_part r \<noteq> None"

definition json_frac_ok :: "string \<Rightarrow> bool" where
  "json_frac_ok r = (case r of
     [] \<Rightarrow> True
   | c # t \<Rightarrow> if c = CHR ''.'' then takeWhile is_digit t \<noteq> [] \<and> json_exp_ok (dropWhile is_digit t)
              else json_exp_ok r)"

definition json_num_ok :: "string \<Rightarrow> bool" where
  "json_num_ok t =
     (let u = (case t of c # r \<Rightarrow> if c = CHR ''-'' then r else t | [] \<Rightarrow> []);
          ip = takeWhile is_digit u
      in ip \<noteq> [] \<and> (hd ip \<noteq> CHR ''0'' \<or> length ip = 1) \<and> json_frac_ok (dropWhile is_digit u))"

definition parse_number :: "string \<Rightarrow> (js \<times> string) option" where
  "parse_number s =
     (let t = takeWhile num_char s in
      if json_num_ok t then Some (JNum (signed_decimal t), dropWhile num_char s) else None)"

text \<open>
  Values, array elements and object members.  The first argument bounds the recursion:
  every two nested calls read at least one character, so twice the length of the text
  and two more is enough.
\<close>

fun parse_val :: "nat \<Rightarrow> string \<Rightarrow> (js \<times> string) option"
and parse_elems :: "nat \<Rightarrow> js list \<Rightarrow> string \<Rightarrow> (js \<times> string) option"
and parse_members :: "nat \<Rightarrow> obj \<Rightarrow> string \<Rightarrow> (js \<times> string) option"
where
  "parse_val 0 s = None"
| "parse_val (Suc n) s = (case skip_ws s of
     [] \<Rightarrow> None
   | c # r \<Rightarrow>
       if c = CHR ''{'' then
         (case skip_ws r of
            [] \<Rightarrow> None
          | d # r' \<Rightarrow> if d = CHR ''}'' then Some (JObj [], r') else parse_members n [] (d # r'))
       else if c = CHR ''['' then
         (case skip_ws r of
            [] \<Rightarrow> None
          | d # r' \<Rightarrow> if d = CHR '']'' then Some (JArr [], r') else parse_elems n [] (d # r'))
       else if c = quote_char then map_option (\<lambda>(t, r'). (JStr t, r')) (parse_str r)
       else if starts_with (c # r) ''true'' then Some (JBool True, drop 4 (c # r))
       else if starts_with (c # r) ''false'' then Some (JBool False, drop 5 (c # r))
       else if starts_with (c # r) ''null'' then Some (JNull, drop 4 (c # r))
       else parse_number (c # r))"
| "parse_elems 0 acc s = None"
| "parse_elems (Suc n) acc s = (case parse_val n s of
     None \<Rightarrow> None
   | Some (v, r) \<Rightarrow>
       (case skip_ws r of
          [] \<Rightarrow> None
        | d # r' \<Rightarrow>
            if d = CHR '','' then parse_elems n (acc @ [v]) r'
            else if d = CHR '']'' then Some (JArr (acc @ [v]), r') else None))"
| "parse_members 0 acc s = None"
| "parse_members (Suc n) acc s = (case skip_ws s of
     [] \<Rightarrow> None
   | q # r \<Rightarrow>
       if q \<noteq> quote_char then None
       else (case parse_str r of
          None \<Rightarrow> None
        | Some (k, r1) \<Rightarrow>
            (case skip_ws r1 of
               [] \<Rightarrow> None
             | e # r2 \<Rightarrow>
                 if e \<noteq> CHR '':'' then None
                 else (case parse_val n r2 of
                    None \<Rightarrow> None
                  | Some (v, r3) \<Rightarrow>
                      (case skip_ws r3 of
                         [] \<Rightarrow> None
                       | d # r4 \<Rightarrow>
                           if d = CHR '','' then parse_members n (js_put k v acc) r4
                           else if d = CHR ''}'' then Some (JObj (js_put k v acc), r4) else None)))))"

text \<open>\<open>JSON.parse(s)\<close>; \<open>None\<close> is the \<open>SyntaxError\<close>.\<close>

definition JSON_parse :: "string \<Rightarrow> js option" where
  "JSON_parse s = (case parse_val (2 * length s + 2) s of
     None \<Rightarrow> None | Some (v, r) \<Rightarrow> if skip_ws r = [] then Some v else None)"

section \<open>The round trip\<close>

lemma hex_val_char [simp]: "d < 16 \<Longrightarrow> hex_val (hex_char d) = Some d"
  by (simp add: hex_val_def hex_char_def of_char_of Let_def)

lemma json_unicode_control:
  "of_char c < (32 :: nat) \<Longrightarrow>
   json_unicode (''00'' @ hex_char (of_char c div 16) # hex_char (of_char c mod 16) # r) = Some ([c], r)"
proof -
  assume c: "of_char c < (32 :: nat)"
  have z: "hex_val CHR ''0'' = Some 0" by code_simp
  from c have "of_char c div 16 < (16 :: nat)" "of_char c mod 16 < (16 :: nat)" by auto
  then have "hex4 (''00'' @ hex_char (of_char c div 16) # hex_char (of_char c mod 16) # r)
      = Some (of_char c, r)"
    by (simp add: z)
  then show ?thesis using c by (simp add: json_unicode_def utf8_encode_def utf8_bytes_def)
qed

lemma json_escape_simps:
  "json_escape (quote_char # r) = Some ([quote_char], r)"
  "json_escape (backslash_char # r) = Some ([backslash_char], r)"
  "json_escape (CHR ''b'' # r) = Some ([CHR 0x08], r)"
  "json_escape (CHR ''f'' # r) = Some ([CHR 0x0C], r)"
  "json_escape (CHR ''n'' # r) = Some ([CHR 0x0A], r)"
  "json_escape (CHR ''r'' # r) = Some ([CHR 0x0D], r)"
  "json_escape (CHR ''t'' # r) = Some ([CHR 0x09], r)"
  "json_escape (CHR ''u'' # r) = json_unicode r"
  by (simp_all add: json_escape_def)

lemma control_chars:
  "of_char c = (8 :: nat) \<longleftrightarrow> c = CHR 0x08" "of_char c = (9 :: nat) \<longleftrightarrow> c = CHR 0x09"
  "of_char c = (10 :: nat) \<longleftrightarrow> c = CHR 0x0A" "of_char c = (12 :: nat) \<longleftrightarrow> c = CHR 0x0C"
  "of_char c = (13 :: nat) \<longleftrightarrow> c = CHR 0x0D"
proof -
  have "(of_char CHR 0x08 :: nat) = 8" "(of_char CHR 0x09 :: nat) = 9" "(of_char CHR 0x0A :: nat) = 10"
    "(of_char CHR 0x0C :: nat) = 12" "(of_char CHR 0x0D :: nat) = 13" by simp_all
  then show "of_char c = (8 :: nat) \<longleftrightarrow> c = CHR 0x08" "of_char c = (9 :: nat) \<longleftrightarrow> c = CHR 0x09"
    "of_char c = (10 :: nat) \<longleftrightarrow> c = CHR 0x0A" "of_char c = (12 :: nat) \<longleftrightarrow> c = CHR 0x0C"
    "of_char c = (13 :: nat) \<longleftrightarrow> c = CHR 0x0D"
    by (metis of_char_eq_iff)+
qed

lemma parse_str_json_char:
  "parse_str (json_char c @ r) = map_option (\<lambda>(u, r'). (c # u, r')) (parse_str r)"
  using json_unicode_control [of c r]
  by (auto simp: json_char_def Let_def json_escape_simps control_chars split: option.splits prod.splits)

lemma parse_str_quote: "parse_str (concat (map json_char s) @ quote_char # r) = Some (s, r)"
  by (induction s) (auto simp: parse_str_json_char)

lemma skip_ws_append: "list_all json_ws w \<Longrightarrow> skip_ws (w @ s) = skip_ws s"
  by (induction w) (auto simp: skip_ws_def)

lemma skip_ws_Cons [simp]: "skip_ws (c # s) = (if json_ws c then skip_ws s else c # s)"
  by (simp add: skip_ws_def)

lemma skip_ws_Nil [simp]: "skip_ws [] = []"
  by (simp add: skip_ws_def)

lemma is_digit_not_ws: "is_digit c \<Longrightarrow> \<not> json_ws c \<and> num_char c"
  by (auto simp: is_digit_def json_ws_def num_char_def)

text \<open>A text that ends a number: the end, or a character that no number contains.\<close>

definition num_end :: "string \<Rightarrow> bool" where
  "num_end r \<longleftrightarrow> r = [] \<or> \<not> num_char (hd r)"

lemma takeWhile_num_end:
  "list_all num_char t \<Longrightarrow> num_end r \<Longrightarrow> takeWhile num_char (t @ r) = t \<and> dropWhile num_char (t @ r) = r"
  by (induction t) (auto simp: num_end_def, (cases r; simp)+)

lemma json_num_ok_nat_str: "json_num_ok (nat_str n)"
proof -
  obtain c r where cr: "nat_str n = c # r" by (cases "nat_str n") auto
  then have "is_digit c" using hd_nat_str_digit [of n] by simp
  then have "c \<noteq> CHR ''-''" using is_digit_cases by blast
  moreover have "is_digit CHR ''0''" by (simp add: is_digit_def)
  ultimately have "json_num_ok (nat_str n) \<longleftrightarrow> hd (nat_str n) \<noteq> CHR ''0'' \<or> length (nat_str n) = 1"
    using cr nat_str_all_digits [of n]
    by (simp add: json_num_ok_def Let_def takeWhile_all_digits dropWhile_all_digits json_frac_ok_def)
  also have "\<dots>" using hd_nat_str [of n] by (cases "n = 0") auto
  finally show ?thesis .
qed

lemma json_num_ok_minus: "\<not> starts_with t ''-'' \<Longrightarrow> json_num_ok (CHR ''-'' # t) = json_num_ok t"
  by (cases t) (auto simp: json_num_ok_def)

lemma json_num_ok_int_str [simp]: "json_num_ok (int_str i)"
proof -
  have "\<not> starts_with (nat_str n) ''-''" for n
    using hd_nat_str_digit [of n] is_digit_cases by (cases "nat_str n") auto
  then show ?thesis by (simp add: int_str_def json_num_ok_nat_str json_num_ok_minus)
qed

lemma int_str_num_chars: "list_all num_char (int_str i)"
  by (auto simp: int_str_def list_all_iff num_char_def dest: nat_str_digits)

lemma parse_number_int_str: "num_end r \<Longrightarrow> parse_number (int_str i @ r) = Some (JInt i, r)"
  using takeWhile_num_end [OF int_str_num_chars, of r i] by (simp add: parse_number_def Let_def)


text \<open>
  The values that JSON text can hold exactly: no \<open>undefined\<close>, integers that print without
  an exponent, and objects whose property order is the enumeration order.
\<close>

fun json_ok :: "js \<Rightarrow> bool" where
  "json_ok JUndef = False"
| "json_ok (JNum n) = (case n of Fin x \<Rightarrow> x = of_int \<lfloor>x\<rfloor> \<and> \<bar>x\<bar> < 10 ^ 21 | _ \<Rightarrow> False)"
| "json_ok (JArr xs) = list_all json_ok xs"
| "json_ok (JObj kvs) = (list_all (\<lambda>kv. json_ok (snd kv)) kvs \<and> js_put_all [] kvs = kvs)"
| "json_ok _ = True"

lemma json_ok_ser: "json_ok v \<Longrightarrow> \<exists>t. json_ser gap ind v = Some t"
  by (cases v) auto

lemma parse_val_ws: "list_all json_ws w \<Longrightarrow> parse_val n (w @ s) = parse_val n s"
  by (cases n) (simp_all add: skip_ws_append)

lemma parse_elems_ws: "list_all json_ws w \<Longrightarrow> parse_elems n acc (w @ s) = parse_elems n acc s"
  by (cases n) (simp_all add: parse_val_ws)

lemma parse_members_ws: "list_all json_ws w \<Longrightarrow> parse_members n acc (w @ s) = parse_members n acc s"
  by (cases n) (simp_all add: skip_ws_append)

definition val_start :: "char \<Rightarrow> bool" where
  "val_start c \<longleftrightarrow> \<not> json_ws c \<and> c \<noteq> CHR '']''"

lemma int_str_start: "\<exists>c r. int_str i = c # r \<and> (c = CHR ''-'' \<or> is_digit c)"
  using hd_nat_str_digit [of "nat i"]
  by (cases "nat_str (nat i)") (auto simp: int_str_def)

lemma json_int: 
  assumes "json_ok (JNum n)"
  obtains i where "n = Fin (of_int i)" "num_str n = int_str i"
proof -
  obtain x where x: "n = Fin x" "x = of_int \<lfloor>x\<rfloor>" "\<bar>x\<bar> < 10 ^ 21" using assms by (cases n) auto
  then have "\<bar>\<lfloor>x\<rfloor>\<bar> < 10 ^ 21"
    by (metis of_int_abs of_int_less_iff of_int_numeral of_int_power)
  with x that [of "\<lfloor>x\<rfloor>"] num_str_int [of "\<lfloor>x\<rfloor>"] show ?thesis by metis
qed

lemma json_wrap_start: "\<exists>r. json_wrap a b gap ind items = a # r"
  by (simp add: json_wrap_def)

lemma json_ser_start:
  assumes "json_ser gap ind v = Some t" "json_ok v"
  shows "\<exists>c r. t = c # r \<and> val_start c"
proof (cases v)
  case (JNum n)
  then obtain i where "n = Fin (of_int i)" "num_str n = int_str i" using assms json_int by metis
  with JNum assms int_str_start [of i] show ?thesis
    by (auto simp: val_start_def json_ws_def is_digit_def)
next
  case (JBool b)
  have "val_start CHR ''t''" "val_start CHR ''f''" by (simp_all add: val_start_def json_ws_def)
  moreover have "t = (if b then ''true'' else ''false'')" using JBool assms by simp
  ultimately show ?thesis by (cases b) simp_all
next
  case (JArr xs)
  from JArr assms obtain items where "t = json_wrap CHR ''['' CHR '']'' gap ind items" by auto
  with json_wrap_start show ?thesis by (fastforce simp: val_start_def json_ws_def)
next
  case (JObj xs)
  from JObj assms obtain items where "t = json_wrap CHR ''{'' CHR ''}'' gap ind items" by auto
  with json_wrap_start show ?thesis by (fastforce simp: val_start_def json_ws_def)
next
  case (JStr s)
  with assms have "t = json_quote s" by simp
  then show ?thesis by (simp add: json_quote_def val_start_def json_ws_def)
next
  case JUndef
  with assms show ?thesis by simp
next
  case JNull
  with assms have "t = ''null''" by simp
  then show ?thesis by (simp add: val_start_def json_ws_def)
qed

definition reads :: "string \<Rightarrow> js \<Rightarrow> bool" where
  "reads t v \<longleftrightarrow> (\<forall>n r. 2 * length t + 1 \<le> n \<longrightarrow> num_end r \<longrightarrow> parse_val n (t @ r) = Some (v, r))"

lemma num_end_ws: "list_all json_ws w \<Longrightarrow> \<not> num_char c \<Longrightarrow> num_end (w @ c # r)"
  by (cases w) (auto simp: num_end_def json_ws_def num_char_def is_digit_def)

lemma parse_elems_join:
  "xs \<noteq> [] \<Longrightarrow> \<forall>x \<in> set xs. reads (f x) x \<Longrightarrow> list_all json_ws w \<Longrightarrow> list_all json_ws w' \<Longrightarrow>
   2 * length (join (CHR '','' # w) (map f xs)) + 2 \<le> n \<Longrightarrow>
   parse_elems n acc (join (CHR '','' # w) (map f xs) @ w' @ CHR '']'' # r) = Some (JArr (acc @ xs), r)"
proof (induction xs arbitrary: n acc)
  case (Cons x xs)
  then obtain m where m: "n = Suc m" by (cases n) auto
  have ne: "num_end (w' @ CHR '']'' # r)" "\<And>s. num_end (CHR '','' # s)"
    by (rule num_end_ws [OF Cons.prems(4)], simp add: num_char_def is_digit_def)
      (simp add: num_end_def num_char_def is_digit_def)
  have ws: "\<not> json_ws CHR '']''" "\<not> json_ws CHR '',''" by (auto simp: json_ws_def)
  show ?case
  proof (cases xs)
    case Nil
    with Cons.prems m ne ws show ?thesis
      by (simp add: reads_def skip_ws_append)
  next
    case (Cons y ys)
    let ?rest = "join (CHR '','' # w) (map f xs)"
    have j: "join (CHR '','' # w) (map f (x # xs)) = f x @ CHR '','' # w @ ?rest"
      using Cons by simp
    have "parse_val m (f x @ CHR '','' # w @ ?rest @ w' @ CHR '']'' # r)
        = Some (x, CHR '','' # w @ ?rest @ w' @ CHR '']'' # r)"
      using Cons.prems(2,5) m ne(2) unfolding j by (simp add: reads_def)
    moreover have "parse_elems m (acc @ [x]) (?rest @ w' @ CHR '']'' # r) = Some (JArr ((acc @ [x]) @ xs), r)"
      using Cons.prems m Cons unfolding j by (intro Cons.IH) auto
    ultimately show ?thesis
      using m ws Cons.prems(3) unfolding j by (simp add: parse_elems_ws)
  qed
qed simp


lemma parse_member:
  assumes "reads t v" "list_all json_ws w'" "list_all json_ws w''" "\<not> num_char d" "\<not> json_ws d"
    "2 * length t + 1 \<le> n"
  shows "parse_members (Suc n) acc (json_quote k @ CHR '':'' # w' @ t @ w'' @ d # r) =
      (if d = CHR '','' then parse_members n (js_put k v acc) r
       else if d = CHR ''}'' then Some (JObj (js_put k v acc), r) else None)"
proof -
  have ws: "\<not> json_ws quote_char" "\<not> json_ws CHR '':''" by (auto simp: json_ws_def)
  have v: "parse_val n (w' @ t @ w'' @ d # r) = Some (v, w'' @ d # r)"
    using assms num_end_ws [OF assms(3,4)] by (simp add: parse_val_ws reads_def)
  show ?thesis
    using assms(3,5) ws
    by (simp add: skip_ws_append json_quote_def parse_str_quote v)
qed

lemma js_put_all_simps:
  "js_put_all acc [] = acc" "js_put_all acc (x # xs) = js_put_all (js_put (fst x) (snd x) acc) xs"
  by (simp_all add: js_put_all_def split_beta)

lemma parse_members_join:
  "kvs \<noteq> [] \<Longrightarrow> \<forall>kv \<in> set kvs. reads (f (snd kv)) (snd kv) \<Longrightarrow>
   list_all json_ws w \<Longrightarrow> list_all json_ws w' \<Longrightarrow> list_all json_ws w'' \<Longrightarrow>
   g = (\<lambda>kv. json_quote (fst kv) @ CHR '':'' # w'' @ f (snd kv)) \<Longrightarrow>
   2 * length (join (CHR '','' # w) (map g kvs)) + 2 \<le> n \<Longrightarrow>
   parse_members n acc (join (CHR '','' # w) (map g kvs) @ w' @ CHR ''}'' # r)
     = Some (JObj (js_put_all acc kvs), r)"
proof (induction kvs arbitrary: n acc)
  case (Cons x xs)
  obtain m where m: "n = Suc m" using Cons.prems(7) by (cases n) auto
  have nc: "\<not> num_char CHR ''}''" "\<not> num_char CHR '',''" "\<not> json_ws CHR ''}''" "\<not> json_ws CHR '',''"
    by (auto simp: num_char_def is_digit_def json_ws_def)
  have rd: "reads (f (snd x)) (snd x)" using Cons.prems(2) by simp
  have gx: "g x = json_quote (fst x) @ CHR '':'' # w'' @ f (snd x)" using Cons.prems(6) by simp
  note member = parse_member [OF rd Cons.prems(5)]
  show ?case
  proof (cases xs)
    case Nil
    then have "2 * length (f (snd x)) + 1 \<le> m" using Cons.prems(7) m gx by simp
    from member [OF Cons.prems(4) nc(1,3) this] Nil m gx show ?thesis
      by (simp add: js_put_all_simps del: parse_members.simps)
  next
    case (Cons y ys)
    let ?rest = "join (CHR '','' # w) (map g xs)"
    have j: "join (CHR '','' # w) (map g (x # xs)) = g x @ CHR '','' # w @ ?rest"
      using Cons by simp
    have "parse_members m (js_put (fst x) (snd x) acc) (?rest @ w' @ CHR ''}'' # r)
        = Some (JObj (js_put_all acc (x # xs)), r)"
      using Cons.prems m Cons unfolding j js_put_all_simps(2) by (intro Cons.IH) auto
    moreover have "2 * length (f (snd x)) + 1 \<le> m" using Cons.prems(7) m unfolding j gx by simp
    ultimately show ?thesis
      using m member [of "[]" "CHR '',''" m acc "fst x" "w @ ?rest @ w' @ CHR ''}'' # r"] nc Cons.prems(3)
      unfolding j gx by (simp add: parse_members_ws del: parse_members.simps)
  qed
qed simp

text \<open>What \<open>json_wrap\<close> writes between the brackets.\<close>

lemma json_wrap_shape:
  assumes "items \<noteq> []" "list_all json_ws gap" "list_all json_ws ind"
  obtains w w' where "json_wrap a b gap ind items = a # w @ join (CHR '','' # w) items @ w' @ [b]"
    "list_all json_ws w" "list_all json_ws w'"
proof (cases "gap = []")
  case True
  with assms that [of "[]" "[]"] show ?thesis by (simp add: json_wrap_def)
next
  case False
  have "json_ws CHR 0x0A" by (simp add: json_ws_def)
  with False assms that [of "CHR 0x0A # ind @ gap" "CHR 0x0A # ind"] show ?thesis
    by (simp add: json_wrap_def)
qed

lemma join_start:
  "xs \<noteq> [] \<Longrightarrow> \<exists>r. join sep xs = hd xs @ r"
  by (cases xs; cases "tl xs") auto

lemma reads_wrapped:
  assumes "\<And>n r. 2 * length s + 2 \<le> n \<Longrightarrow> p n (s @ w' @ b # r) = Some (v, r)"
    and "\<And>n r. parse_val (Suc n) (a # w @ s @ w' @ b # r) = p n (s @ w' @ b # r)"
  shows "reads (a # w @ s @ w' @ [b]) v"
  unfolding reads_def
proof (intro allI impI)
  fix n r
  assume n: "2 * length (a # w @ s @ w' @ [b]) + 1 \<le> n"
  then obtain m where "n = Suc m" by (cases n) auto
  with n assms show "parse_val n ((a # w @ s @ w' @ [b]) @ r) = Some (v, r)"
    by (simp del: parse_val.simps)
qed

lemma parse_val_bracket:
  assumes "c # s' = s" "\<not> json_ws c" "c \<noteq> CHR '']''" "list_all json_ws w"
  shows "parse_val (Suc n) (CHR ''['' # w @ s @ r) = parse_elems n [] (s @ r)"
proof -
  have "\<not> json_ws CHR ''[''" by (simp add: json_ws_def)
  with assms show ?thesis by (auto simp: skip_ws_append)
qed

lemma parse_val_brace:
  assumes "c # s' = s" "\<not> json_ws c" "c \<noteq> CHR ''}''" "list_all json_ws w"
  shows "parse_val (Suc n) (CHR ''{'' # w @ s @ r) = parse_members n [] (s @ r)"
proof -
  have "\<not> json_ws CHR ''{''" by (simp add: json_ws_def)
  with assms show ?thesis by (auto simp: skip_ws_append)
qed

lemma reads_atoms:
  "reads ''null'' JNull" "reads ''true'' (JBool True)" "reads ''false'' (JBool False)"
proof -
  have ws: "\<not> json_ws CHR ''n''" "\<not> json_ws CHR ''t''" "\<not> json_ws CHR ''f''" by (simp_all add: json_ws_def)
  show "reads ''null'' JNull" "reads ''true'' (JBool True)" "reads ''false'' (JBool False)"
    unfolding reads_def by (intro allI impI, case_tac n, simp, simp add: ws)+
qed

lemma reads_string: "reads (json_quote s) (JStr s)"
proof -
  have ws: "\<not> json_ws quote_char" by (simp add: json_ws_def)
  show ?thesis unfolding reads_def json_quote_def
    by (intro allI impI, case_tac n, simp, simp add: ws parse_str_quote)
qed

lemma reads_int: "reads (int_str i) (JInt i)"
  unfolding reads_def
proof (intro allI impI)
  fix n r
  assume n: "2 * length (int_str i) + 1 \<le> n" and r: "num_end r"
  obtain c s where cs: "int_str i = c # s" "c = CHR ''-'' \<or> is_digit c" using int_str_start by blast
  then have c: "\<not> json_ws c" "c \<noteq> CHR ''{''" "c \<noteq> CHR ''[''" "c \<noteq> quote_char"
      "c \<noteq> CHR ''t''" "c \<noteq> CHR ''f''" "c \<noteq> CHR ''n''"
    by (auto simp: json_ws_def is_digit_def)
  obtain m where m: "n = Suc m" using n by (cases n) auto
  have "parse_val n (int_str i @ r) = parse_number (int_str i @ r)"
    using c m by (simp add: cs)
  then show "parse_val n (int_str i @ r) = Some (JInt i, r)" using parse_number_int_str [OF r] by simp
qed


lemma reads_array:
  assumes xs: "\<forall>x \<in> set xs. reads (f x) x" "\<forall>x \<in> set xs. \<exists>c r. f x = c # r \<and> val_start c"
    and ws: "list_all json_ws gap" "list_all json_ws ind"
  shows "reads (json_wrap CHR ''['' CHR '']'' gap ind (map f xs)) (JArr xs)"
proof (cases "xs = []")
  case True
  have "\<not> json_ws CHR ''[''" "\<not> json_ws CHR '']''" by (simp_all add: json_ws_def)
  with True show ?thesis unfolding reads_def json_wrap_def
    by (intro allI impI, case_tac n, simp, simp)
next
  case False
  then obtain w w' where w: "json_wrap CHR ''['' CHR '']'' gap ind (map f xs)
      = CHR ''['' # w @ join (CHR '','' # w) (map f xs) @ w' @ [CHR '']'']"
    "list_all json_ws w" "list_all json_ws w'" using json_wrap_shape ws by (metis map_is_Nil_conv)
  obtain c s where c: "c # s = join (CHR '','' # w) (map f xs)" "val_start c"
    using join_start [of "map f xs" "CHR '','' # w"] False xs(2)
    by (metis append_Cons hd_in_set list.map_sel(1) map_is_Nil_conv)
  show ?thesis unfolding w(1)
    by (rule reads_wrapped [where p = "\<lambda>n. parse_elems n []"])
      (use parse_elems_join [OF False xs(1) w(2,3), of _ "[]"] c w
        in \<open>simp_all add: val_start_def parse_val_bracket [OF c(1)] del: parse_val.simps parse_elems.simps\<close>)
qed

lemma reads_object:
  assumes xs: "\<forall>kv \<in> set kvs. reads (f (snd kv)) (snd kv)" and wf: "js_put_all [] kvs = kvs"
    and ws: "list_all json_ws gap" "list_all json_ws ind"
  shows "reads (json_wrap CHR ''{'' CHR ''}'' gap ind
      (map (\<lambda>kv. json_quote (fst kv) @ (if gap = [] then '':'' else '': '') @ f (snd kv)) kvs)) (JObj kvs)"
    (is "reads (json_wrap _ _ gap ind (map ?g kvs)) _")
proof (cases "kvs = []")
  case True
  have "\<not> json_ws CHR ''{''" "\<not> json_ws CHR ''}''" by (simp_all add: json_ws_def)
  with True show ?thesis unfolding reads_def json_wrap_def
    by (intro allI impI, case_tac n, simp, simp)
next
  case False
  let ?w'' = "if gap = [] then [] else '' ''"
  have w'': "list_all json_ws ?w''" by (simp add: json_ws_def)
  have g: "?g = (\<lambda>kv. json_quote (fst kv) @ CHR '':'' # ?w'' @ f (snd kv))" by auto
  have ne: "map ?g kvs \<noteq> []" using False by simp
  obtain w w' where w: "json_wrap CHR ''{'' CHR ''}'' gap ind (map ?g kvs)
      = CHR ''{'' # w @ join (CHR '','' # w) (map ?g kvs) @ w' @ [CHR ''}'']"
    "list_all json_ws w" "list_all json_ws w'"
    by (rule json_wrap_shape [where a = "CHR ''{''" and b = "CHR ''}''", OF ne ws])
  obtain u where u: "hd (map ?g kvs) = quote_char # u"
    using False by (cases kvs) (simp_all add: json_quote_def)
  obtain r where "join (CHR '','' # w) (map ?g kvs) = hd (map ?g kvs) @ r"
    using join_start [OF ne] by blast
  then have c: "quote_char # (u @ r) = join (CHR '','' # w) (map ?g kvs)"
    unfolding u by simp
  have q: "\<not> json_ws quote_char" by (simp add: json_ws_def)
  have q2: "quote_char \<noteq> CHR ''}''" by simp
  show ?thesis unfolding w(1)
  proof (rule reads_wrapped [where p = "\<lambda>n. parse_members n []"])
    fix n r
    show "parse_val (Suc n) (CHR ''{'' # w @ join (CHR '','' # w) (map ?g kvs) @ w' @ CHR ''}'' # r)
      = parse_members n [] (join (CHR '','' # w) (map ?g kvs) @ w' @ CHR ''}'' # r)"
      by (rule parse_val_brace [OF c q q2 w(2)])
  next
    fix n r
    assume "2 * length (join (CHR '','' # w) (map ?g kvs)) + 2 \<le> n"
    from parse_members_join [OF False xs(1) w(2,3) w'' g this, of "[]" r]
    show "parse_members n [] (join (CHR '','' # w) (map ?g kvs) @ w' @ CHR ''}'' # r) = Some (JObj kvs, r)"
      unfolding wf .
  qed
qed

lemma concat_map_some:
  "\<forall>x \<in> set xs. \<exists>t. f x = Some t \<Longrightarrow>
   concat (map (\<lambda>x. case f x of None \<Rightarrow> [] | Some t \<Rightarrow> [g x t]) xs) = map (\<lambda>x. g x (the (f x))) xs"
  by (induction xs) auto

theorem json_reads:
  "json_ok v \<Longrightarrow> list_all json_ws gap \<Longrightarrow> list_all json_ws ind \<Longrightarrow>
   reads (the (json_ser gap ind v)) v"
proof (induction gap ind v rule: json_ser.induct)
  case (4 gap ind n)
  from 4(1) obtain i where "n = Fin (of_int i)" "num_str n = int_str i" by (rule json_int)
  then show ?case by (simp add: reads_int del: num_str.simps)
next
  case (6 gap ind xs)
  let ?f = "\<lambda>x. the (json_ser gap (ind @ gap) x)"
  have ok: "\<forall>x \<in> set xs. json_ok x" using 6 by (simp add: list_all_iff)
  then have "map (\<lambda>x. case json_ser gap (ind @ gap) x of None \<Rightarrow> ''null'' | Some t \<Rightarrow> t) xs = map ?f xs"
    using json_ok_ser by (auto split: option.splits) (metis not_None_eq)
  moreover have "\<forall>x \<in> set xs. reads (?f x) x" using 6 ok by simp
  moreover have "\<forall>x \<in> set xs. \<exists>c r. ?f x = c # r \<and> val_start c"
    using ok json_ser_start json_ok_ser by (metis option.sel)
  ultimately show ?case using 6(3,4) reads_array [of xs ?f gap ind]
    by (simp only: json_ser.simps option.sel)
next
  case (7 gap ind kvs)
  let ?f = "\<lambda>x. the (json_ser gap (ind @ gap) x)"
  have ok: "\<forall>kv \<in> set kvs. json_ok (snd kv)" "js_put_all [] kvs = kvs" using 7 by (simp_all add: list_all_iff)
  moreover have "\<forall>kv \<in> set kvs. reads (?f (snd kv)) (snd kv)" using 7 ok by simp
  ultimately show ?case using 7(3,4) reads_object [of kvs ?f gap ind]
    concat_map_some [of kvs "\<lambda>kv. json_ser gap (ind @ gap) (snd kv)"
       "\<lambda>kv t. json_quote (fst kv) @ (if gap = [] then '':'' else '': '') @ t"] json_ok_ser
    by simp
qed (auto simp: reads_atoms reads_string)

lemma JSON_parse_reads:
  assumes "reads t v" shows "JSON_parse t = Some v"
proof -
  have "num_end []" by (simp add: num_end_def)
  moreover have "2 * length t + 1 \<le> 2 * length t + 2" by simp
  ultimately have "parse_val (2 * length t + 2) (t @ []) = Some (v, [])"
    using assms unfolding reads_def by blast
  then show ?thesis by (simp only: JSON_parse_def append_Nil2) simp
qed

theorem JSON_parse_stringify: "json_ok v \<Longrightarrow> JSON_parse (the (JSON_stringify v)) = Some v"
  by (simp add: JSON_parse_reads json_reads JSON_stringify_def)

theorem JSON_parse_stringify_pretty: "json_ok v \<Longrightarrow> JSON_parse (the (JSON_stringify_pretty v)) = Some v"
  by (simp add: JSON_parse_reads json_reads JSON_stringify_pretty_def json_ws_def)

interpretation json: codec "\<lambda>v. the (JSON_stringify v)" JSON_parse json_ok
  by unfold_locales (rule JSON_parse_stringify)

interpretation json_pretty: codec "\<lambda>v. the (JSON_stringify_pretty v)" JSON_parse json_ok
  by unfold_locales (rule JSON_parse_stringify_pretty)

section \<open>ASCII values\<close>

lemma json_ok_int [simp]: "json_ok (JInt i) \<longleftrightarrow> \<bar>i\<bar> < 10 ^ 21"
proof -
  have "(\<bar>of_int i\<bar> < (10 ^ 21 :: rat)) \<longleftrightarrow> \<bar>i\<bar> < 10 ^ 21"
    by (metis of_int_abs of_int_less_iff of_int_numeral of_int_power)
  then show ?thesis by simp
qed

lemma json_ok_numeral [simp]: "json_ok (JNum (Fin (numeral n))) \<longleftrightarrow> (numeral n :: int) < 10 ^ 21"
  using json_ok_int [of "numeral n"] by (simp del: json_ok_int)

text \<open>Text of ASCII strings is ASCII.\<close>

abbreviation ascii :: "string \<Rightarrow> bool" where "ascii \<equiv> list_all (\<lambda>c. byte c < 128)"

fun js_ascii :: "js \<Rightarrow> bool" where
  "js_ascii (JStr s) = ascii s"
| "js_ascii (JArr xs) = list_all js_ascii xs"
| "js_ascii (JObj kvs) = list_all (\<lambda>kv. ascii (fst kv) \<and> js_ascii (snd kv)) kvs"
| "js_ascii _ = True"

lemma ascii_join: "ascii sep \<Longrightarrow> list_all ascii xs \<Longrightarrow> ascii (join sep xs)"
  by (induction sep xs rule: join.induct) auto

lemma ascii_json_char: "byte c < 128 \<Longrightarrow> ascii (json_char c)"
proof -
  have "byte (hex_char d) < 128" if "d < 16" for d using that by (simp add: hex_char_def of_char_of)
  moreover have "byte c div 16 < 16" "byte c mod 16 < 16" using byte_less [of c] by linarith+
  ultimately show "byte c < 128 \<Longrightarrow> ascii (json_char c)" by (simp add: json_char_def Let_def)
qed

lemma ascii_json_quote: "ascii s \<Longrightarrow> ascii (json_quote s)"
proof -
  have "ascii s \<Longrightarrow> ascii (concat (map json_char s))" by (induction s) (auto simp: ascii_json_char)
  then show "ascii s \<Longrightarrow> ascii (json_quote s)" by (simp add: json_quote_def)
qed

lemma ascii_json_wrap:
  "byte a < 128 \<Longrightarrow> byte b < 128 \<Longrightarrow> ascii gap \<Longrightarrow> ascii ind \<Longrightarrow> list_all ascii items \<Longrightarrow> ascii (json_wrap a b gap ind items)"
  by (simp add: json_wrap_def ascii_join)

lemma ascii_int_str: "ascii (int_str i)"
  by (auto simp: int_str_def list_all_iff is_digit_def dest!: nat_str_digits)

lemma ascii_json_ser:
  "json_ok v \<Longrightarrow> js_ascii v \<Longrightarrow> ascii gap \<Longrightarrow> ascii ind \<Longrightarrow> ascii (the (json_ser gap ind v))"
proof (induction gap ind v rule: json_ser.induct)
  case (4 gap ind n)
  from 4(1) obtain i where "n = Fin (of_int i)" "num_str n = int_str i" by (rule json_int)
  then show ?case by (simp add: ascii_int_str del: num_str.simps)
next
  case (6 gap ind xs)
  have "ascii (case json_ser gap (ind @ gap) x of None \<Rightarrow> ''null'' | Some t \<Rightarrow> t)" if "x \<in> set xs" for x
  proof -
    have "json_ok x" "js_ascii x" using 6(2,3) that by (simp_all add: list_all_iff)
    then have "ascii (the (json_ser gap (ind @ gap) x))" using 6(1) [OF that] 6(4,5) by simp
    then show ?thesis using json_ok_ser [OF \<open>json_ok x\<close>, of gap "ind @ gap"] by auto
  qed
  then have "list_all ascii (map (\<lambda>x. case json_ser gap (ind @ gap) x of None \<Rightarrow> ''null'' | Some t \<Rightarrow> t) xs)"
    unfolding list_all_iff [of ascii] by auto
  then show ?case using 6(4,5) by (simp add: ascii_json_wrap)
next
  case (7 gap ind kvs)
  have "ascii t" if "kv \<in> set kvs" "json_ser gap (ind @ gap) (snd kv) = Some t" for kv t
  proof -
    have "json_ok (snd kv)" "js_ascii (snd kv)" using 7(2,3) that by (simp_all add: list_all_iff)
    then show ?thesis using 7(1) [OF that(1)] 7(4,5) that(2) by simp
  qed
  moreover have "ascii (json_quote (fst kv))" if "kv \<in> set kvs" for kv
    by (rule ascii_json_quote) (use 7(3) that in \<open>simp add: list_all_iff\<close>)
  ultimately have "list_all ascii (concat (map (\<lambda>kv. case json_ser gap (ind @ gap) (snd kv) of
                  None \<Rightarrow> []
                | Some t \<Rightarrow> [json_quote (fst kv) @ (if gap = [] then '':'' else '': '') @ t]) kvs))"
    unfolding list_all_iff [of ascii] by (auto split: option.splits)
  then show ?case using 7(4,5) by (simp add: ascii_json_wrap)
qed (auto simp: ascii_json_quote)

lemma text_ok_json:
  assumes "json_ok v" "js_ascii v"
  shows "text_ok (the (JSON_stringify v))" "text_ok (the (JSON_stringify_pretty v))"
proof -
  have ok: "ascii t \<Longrightarrow> text_ok t" for t
    using valid_utf8_ascii [of t] by (cases t) (auto simp: text_ok_def list_all_iff utf8_bom_def utf8_bytes_def)
  show "text_ok (the (JSON_stringify v))" "text_ok (the (JSON_stringify_pretty v))"
    using ascii_json_ser [OF assms] by (simp_all add: ok JSON_stringify_def JSON_stringify_pretty_def)
qed

end
