(* ===== verification/PanelVersion.thy ===== *)
theory PanelVersion
  imports Json
begin

text \<open>
  \<open>lib/panel-version.ts\<close>: whether a release tag is ahead of the running version.  A
  clean tag is read into a \<open>version\<close>, whose linear order is what the source compares
  component by component.
\<close>

datatype version = Version (major: nat) (minor: nat) (patch: nat)

instantiation version :: linorder
begin

definition less_version :: "version \<Rightarrow> version \<Rightarrow> bool" where
  "less_version v w \<longleftrightarrow>
     major v < major w \<or> major v = major w \<and>
       (minor v < minor w \<or> minor v = minor w \<and> patch v < patch w)"

definition less_eq_version :: "version \<Rightarrow> version \<Rightarrow> bool" where
  "less_eq_version v w \<longleftrightarrow> v = w \<or> v < w"

instance
  by standard (auto simp: less_version_def less_eq_version_def intro: version.expand)

end

text \<open>\<open>version.trim().replace(/^v/, '')\<close>.\<close>

definition bare_version :: "string \<Rightarrow> string" where
  "bare_version s = (case js_trim s of [] \<Rightarrow> [] | c # r \<Rightarrow> if c = CHR ''v'' then r else c # r)"

text \<open>\<open>/^\d+$/.test(part)\<close>.\<close>

definition digits_only :: "string \<Rightarrow> bool" where
  "digits_only s \<longleftrightarrow> s \<noteq> [] \<and> list_all is_digit s"

definition parseVersionParts :: "string \<Rightarrow> version option" where
  "parseVersionParts s = (case split_on CHR ''.'' (bare_version s) of
     [a, b, c] \<Rightarrow>
       if digits_only a \<and> digits_only b \<and> digits_only c
       then Some (Version (digits_val a) (digits_val b) (digits_val c)) else None
   | _ \<Rightarrow> None)"

text \<open>The comparison loop of the source, from the most significant component on.\<close>

fun newer_parts :: "(nat \<times> nat) list \<Rightarrow> bool" where
  "newer_parts [] = False"
| "newer_parts ((a, b) # r) = (if b < a then True else if a < b then False else newer_parts r)"

definition isPanelUpdateAvailable :: "string \<Rightarrow> string \<Rightarrow> bool" where
  "isPanelUpdateAvailable latest current =
     (if latest = [] \<or> current = [] then False
      else case (parseVersionParts latest, parseVersionParts current) of
          (Some a, Some b) \<Rightarrow> newer_parts [(major a, major b), (minor a, minor b), (patch a, patch b)]
        | _ \<Rightarrow> bare_version latest \<noteq> bare_version current)"

section \<open>Properties\<close>

lemma newer_parts_less:
  "newer_parts [(major a, major b), (minor a, minor b), (patch a, patch b)] \<longleftrightarrow> b < a"
  by (auto simp: less_version_def)

definition version_tag :: "version \<Rightarrow> string" where
  "version_tag v = CHR ''v'' # join ''.'' [nat_str (major v), nat_str (minor v), nat_str (patch v)]"

lemma nat_str_no: "\<not> is_digit c \<Longrightarrow> c \<notin> set (nat_str n)"
  using nat_str_digits by blast

lemma digits_only_nat_str [simp]: "digits_only (nat_str n)"
  by (auto simp: digits_only_def list_all_iff dest: nat_str_digits)

lemma parse_version_tag: "parseVersionParts (version_tag v) = Some v"
proof -
  let ?parts = "[nat_str (major v), nat_str (minor v), nat_str (patch v)]"
  have dot: "\<not> is_digit CHR ''.''" by (simp add: is_digit_def)
  have "\<forall>c \<in> set (version_tag v). plain_char c"
    by (auto simp: version_tag_def list_all_iff plain_char_def is_digit_def dest!: nat_str_digits)
  then have "js_trim (version_tag v) = version_tag v" by (rule js_trim_all_plain)
  then have "bare_version (version_tag v) = join ''.'' ?parts"
    by (simp add: bare_version_def version_tag_def)
  moreover have "split_on CHR ''.'' (join ''.'' ?parts) = ?parts"
    by (rule split_on_join) (auto simp: nat_str_no dot)
  ultimately show ?thesis by (simp add: parseVersionParts_def)
qed

interpretation version_codec: codec version_tag parseVersionParts "\<lambda>_. True"
  by unfold_locales (rule parse_version_tag)

text \<open>Between two clean version tags an update is offered exactly when the latest version is
  strictly greater in the order of versions.\<close>

theorem update_iff_newer:
  assumes "parseVersionParts latest = Some a" "parseVersionParts current = Some b"
  shows "isPanelUpdateAvailable latest current \<longleftrightarrow> b < a"
proof -
  have "latest \<noteq> []" "current \<noteq> []"
    using assms by (auto simp: parseVersionParts_def bare_version_def js_trim_def)
  with assms show ?thesis by (simp add: isPanelUpdateAvailable_def newer_parts_less del: newer_parts.simps)
qed


lemma update_iff_newer_witness: "isPanelUpdateAvailable ''v2.10.0'' ''v2.9.12'' \<and> Version 2 9 12 < Version 2 10 0"
proof -
  have "version_tag (Version 2 10 0) = ''v2.10.0''" "version_tag (Version 2 9 12) = ''v2.9.12''"
    by code_simp+
  with update_iff_newer [OF parse_version_tag [of "Version 2 10 0"] parse_version_tag [of "Version 2 9 12"]]
  show ?thesis by (simp add: less_version_def)
qed

end
