(* ===== verification/Capabilities.thy ===== *)
theory Capabilities
  imports Json
begin

text \<open>
  \<open>lib/xray/protocol-capabilities.ts\<close>: which protocol, network and security may be
  combined.  An absent (\<open>undefined\<close>) field of a slice is \<open>None\<close>.
\<close>

section \<open>Slices\<close>

record stream_slice =
  sl_network :: "string option"
  sl_security :: "string option"

record protocol_slice =
  sl_protocol :: string
  sl_stream :: "stream_slice option"

text \<open>\<open>settings?.clients\<close>: the flow of every client, where there is a client list.\<close>

record vless_slice = protocol_slice +
  sl_clients :: "string option list option"

record shadowsocks_slice =
  ssl_protocol :: string
  ssl_method :: "string option"

definition TLS_ELIGIBLE_PROTOCOLS :: "string list" where
  "TLS_ELIGIBLE_PROTOCOLS = [''vmess'', ''vless'', ''trojan'', ''shadowsocks'']"

definition TLS_NETWORKS :: "string list" where
  "TLS_NETWORKS = [''tcp'', ''ws'', ''http'', ''grpc'', ''httpupgrade'', ''xhttp'']"

definition REALITY_ELIGIBLE_PROTOCOLS :: "string list" where
  "REALITY_ELIGIBLE_PROTOCOLS = [''vless'', ''trojan'']"

definition REALITY_NETWORKS :: "string list" where
  "REALITY_NETWORKS = [''tcp'', ''http'', ''grpc'', ''xhttp'']"

definition STREAM_PROTOCOLS :: "string list" where
  "STREAM_PROTOCOLS = [''vmess'', ''vless'', ''trojan'', ''shadowsocks'', ''hysteria'']"

definition VISION_FLOW :: string where
  "VISION_FLOW = ''xtls-rprx-vision''"

definition slice_network :: "'a protocol_slice_scheme \<Rightarrow> string option" where
  "slice_network v = Option.bind (sl_stream v) sl_network"

definition slice_security :: "'a protocol_slice_scheme \<Rightarrow> string option" where
  "slice_security v = Option.bind (sl_stream v) sl_security"

section \<open>Predicates\<close>

definition canEnableTls :: "'a protocol_slice_scheme \<Rightarrow> bool" where
  "canEnableTls v =
     (if sl_protocol v = ''hysteria'' then True
      else if sl_protocol v \<notin> set TLS_ELIGIBLE_PROTOCOLS then False
      else case_option [] id (slice_network v) \<in> set TLS_NETWORKS)"

definition canEnableReality :: "'a protocol_slice_scheme \<Rightarrow> bool" where
  "canEnableReality v =
     (if sl_protocol v \<notin> set REALITY_ELIGIBLE_PROTOCOLS then False
      else case_option [] id (slice_network v) \<in> set REALITY_NETWORKS)"

definition canEnableTlsFlow :: "'a protocol_slice_scheme \<Rightarrow> bool" where
  "canEnableTlsFlow v =
     (if slice_security v \<noteq> Some ''tls'' \<and> slice_security v \<noteq> Some ''reality'' then False
      else if slice_network v \<noteq> Some ''tcp'' then False
      else sl_protocol v = ''vless'')"

definition canEnableStream :: "'a protocol_slice_scheme \<Rightarrow> bool" where
  "canEnableStream v \<longleftrightarrow> sl_protocol v \<in> set STREAM_PROTOCOLS"

definition canEnableVisionSeed :: "'a vless_slice_scheme \<Rightarrow> bool" where
  "canEnableVisionSeed v =
     (if \<not> canEnableTlsFlow v then False
      else case sl_clients v of
          None \<Rightarrow> False
        | Some clients \<Rightarrow> list_ex (\<lambda>flow. flow = Some VISION_FLOW) clients)"

definition slice_method :: "shadowsocks_slice \<Rightarrow> string" where
  "slice_method v = (if ssl_protocol v = ''shadowsocks'' then case_option [] id (ssl_method v) else [])"

definition isSSMultiUser :: "shadowsocks_slice \<Rightarrow> bool" where
  "isSSMultiUser v \<longleftrightarrow> slice_method v \<noteq> ''2022-blake3-chacha20-poly1305''"

definition isSS2022 :: "shadowsocks_slice \<Rightarrow> bool" where
  "isSS2022 v \<longleftrightarrow> take 4 (slice_method v) = ''2022''"

lemmas capability_defs =
  canEnableTls_def canEnableReality_def canEnableTlsFlow_def canEnableStream_def
  canEnableVisionSeed_def TLS_ELIGIBLE_PROTOCOLS_def TLS_NETWORKS_def
  REALITY_ELIGIBLE_PROTOCOLS_def REALITY_NETWORKS_def STREAM_PROTOCOLS_def

section \<open>Properties\<close>

lemma reality_implies_tls: "canEnableReality v \<Longrightarrow> canEnableTls v"
  by (auto simp: capability_defs split: if_splits)

lemma tls_implies_stream: "canEnableTls v \<Longrightarrow> canEnableStream v"
  by (auto simp: capability_defs split: if_splits)

lemma flow_implies_reality: "canEnableTlsFlow v \<Longrightarrow> canEnableReality v"
  by (auto simp: capability_defs split: if_splits)

text \<open>The chain of capabilities, from the seed of the vision flow to any stream settings.\<close>

lemmas capability_chain = flow_implies_reality reality_implies_tls tls_implies_stream

lemma reality_not_tls_networks:
  "canEnableTls v \<Longrightarrow> \<not> canEnableReality v \<Longrightarrow>
   sl_protocol v \<in> {''hysteria'', ''vmess'', ''shadowsocks''} \<or>
   slice_network v \<in> {Some ''ws'', Some ''httpupgrade''}"
  by (cases "slice_network v") (auto simp: capability_defs split: if_splits)

text \<open>The vision seed is offered only where the vision flow is, the flow only where both
  REALITY and TLS are, and those only for protocols with stream settings; and then some client
  of the inbound uses exactly the vision flow.\<close>

theorem vision_seed_chain:
  assumes "canEnableVisionSeed v"
  shows "canEnableTlsFlow v \<and> canEnableReality v \<and> canEnableTls v \<and> canEnableStream v \<and>
    (\<exists>flows. sl_clients v = Some flows \<and> Some VISION_FLOW \<in> set flows)"
proof -
  have flow: "canEnableTlsFlow v" using assms by (auto simp: canEnableVisionSeed_def split: if_splits)
  then show ?thesis using assms capability_chain [of v]
    by (auto simp: canEnableVisionSeed_def list_ex_iff split: option.splits)
qed

lemma vision_seed_chain_witness:
  "let v = \<lparr>sl_protocol = ''vless'', sl_stream = Some \<lparr>sl_network = Some ''tcp'', sl_security = Some ''reality''\<rparr>,
            sl_clients = Some [None, Some ''xtls-rprx-vision'']\<rparr>
   in canEnableReality v \<and> canEnableStream v"
  unfolding Let_def by (rule conjI; rule vision_seed_chain [THEN conjunct2, THEN conjunct1]
      vision_seed_chain [THEN conjunct2, THEN conjunct2, THEN conjunct2, THEN conjunct1]) code_simp+

end
