(* ===== verification/InboundTag.thy ===== *)
theory InboundTag
  imports Json
begin

text \<open>
  \<open>lib/xray/inbound-tag.ts\<close>: the derived tag of an inbound,
  \<open>[n<nodeId>-]in-<port>-<transports>\<close>, and the test that a tag is a derived one.  The
  transports are a bit set in a number, as in the source.
\<close>

unbundle bit_operations_syntax

section \<open>Transports\<close>

definition TCP :: nat where "TCP = 1"
definition UDP :: nat where "UDP = 2"

definition asString :: "js \<Rightarrow> string" where
  "asString v = (case v of JStr s \<Rightarrow> s | _ \<Rightarrow> [])"

text \<open>An optional object argument: \<open>o?.key\<close>.\<close>

definition opt_get :: "obj option \<Rightarrow> string \<Rightarrow> js" where
  "opt_get o' k = (case o' of None \<Rightarrow> JUndef | Some kvs \<Rightarrow> js_get kvs k)"

definition network_part_bits :: "nat \<Rightarrow> string \<Rightarrow> nat" where
  "network_part_bits bits part =
     (let p = js_trim part in
      if p = ''tcp'' then bits OR TCP else if p = ''udp'' then bits OR UDP else bits)"

definition inboundTransports :: "string \<Rightarrow> obj option \<Rightarrow> obj option \<Rightarrow> nat" where
  "inboundTransports protocol streamSettings settings =
     (if protocol = ''hysteria'' \<or> protocol = ''wireguard'' then UDP
      else
        let network = asString (opt_get streamSettings ''network'');
            bits = 0 OR (if network = ''kcp'' \<or> network = ''quic'' then UDP else TCP);
            bits' = (case settings of
                None \<Rightarrow> bits
              | Some st \<Rightarrow>
                  if protocol = ''shadowsocks'' \<or> protocol = ''tunnel'' then
                    (let n = asString (js_get st (if protocol = ''tunnel'' then ''allowedNetwork'' else ''network''))
                     in if n \<noteq> [] then foldl network_part_bits 0 (split_on CHR '','' n) else bits)
                  else if protocol = ''mixed'' then
                    (if js_get st ''udp'' = JBool True then bits OR UDP else bits)
                  else bits)
        in if bits' = 0 then TCP else bits')"

definition transportTagSuffix :: "nat \<Rightarrow> string" where
  "transportTagSuffix bits =
     (if bits = TCP then ''tcp'' else if bits = UDP then ''udp''
      else if bits = TCP OR UDP then ''tcpudp'' else ''any'')"

section \<open>Tags\<close>

definition baseInboundTag :: "int \<Rightarrow> string" where
  "baseInboundTag port = ''in-'' @ int_str port"

definition nodeTagPrefix :: "int option \<Rightarrow> string" where
  "nodeTagPrefix nodeId = (case nodeId of None \<Rightarrow> [] | Some n \<Rightarrow> ''n'' @ int_str n @ ''-'')"

text \<open>A missing port reads as 0.\<close>

record inbound_tag_input =
  tag_port :: "int option"
  tag_node :: "int option"
  tag_protocol :: string
  tag_stream :: "obj option"
  tag_settings :: "obj option"

definition composeInboundTag :: "inbound_tag_input \<Rightarrow> string" where
  "composeInboundTag i =
     nodeTagPrefix (tag_node i) @ baseInboundTag (case_option 0 id (tag_port i)) @ ''-''
       @ transportTagSuffix (inboundTransports (tag_protocol i) (tag_stream i) (tag_settings i))"

definition isAutoInboundTag :: "string \<Rightarrow> inbound_tag_input \<Rightarrow> bool" where
  "isAutoInboundTag tag i =
     (if tag = [] then True
      else let base = composeInboundTag i in
        if tag = base then True
        else let prefix = base @ ''-'' in
          if \<not> starts_with tag prefix then False
          else let suffix = drop (length prefix) tag in
            suffix \<noteq> [] \<and> list_all is_digit suffix)"

section \<open>Properties\<close>

lemma network_part_bits_range: "b \<in> {0, 1, 2, 3} \<Longrightarrow> network_part_bits b p \<in> {0, 1, 2, 3}"
  by (auto simp: network_part_bits_def Let_def TCP_def UDP_def)

lemma network_bits_range: "b \<in> {0, 1, 2, 3} \<Longrightarrow> foldl network_part_bits b ps \<in> {0, 1, 2, 3}"
proof (induction ps arbitrary: b)
  case (Cons p ps)
  from Cons.IH [OF network_part_bits_range [OF Cons.prems]] show ?case by simp
qed simp

lemma if_mem: "(c \<Longrightarrow> a \<in> S) \<Longrightarrow> (\<not> c \<Longrightarrow> b \<in> S) \<Longrightarrow> (if c then a else b) \<in> S"
  by simp

lemma inboundTransports_range: "inboundTransports protocol stream st \<in> {1, 2, 3}"
proof -
  have n: "foldl network_part_bits 0 ps \<in> {0, 1, 2, 3}" for ps by (rule network_bits_range) simp
  have bits: "0 OR (if c then UDP else TCP) \<in> {0, 1, 2, 3}"
      "(0 OR (if c then UDP else TCP)) OR UDP \<in> {0, 1, 2, 3}" for c
    by (simp_all add: TCP_def UDP_def)
  have cap: "b \<in> {0, 1, 2, 3} \<Longrightarrow> (if b = 0 then TCP else b) \<in> {1, 2, 3}" for b
    by (auto simp: TCP_def)
  have udp: "UDP \<in> {1, 2, 3}" by (simp add: UDP_def)
  show ?thesis unfolding inboundTransports_def Let_def
    by (cases st) (simp_all only: option.case, (intro if_mem cap n bits udp)+)
qed

lemma transportTagSuffix_cases:
  "b \<in> {1, 2, 3} \<Longrightarrow> transportTagSuffix b \<in> {''tcp'', ''udp'', ''tcpudp''}"
  by (auto simp: transportTagSuffix_def TCP_def UDP_def)

lemma transportTagSuffix_inj:
  "a \<in> {1, 2, 3} \<Longrightarrow> b \<in> {1, 2, 3} \<Longrightarrow> transportTagSuffix a = transportTagSuffix b \<longleftrightarrow> a = b"
  by (auto simp: transportTagSuffix_def TCP_def UDP_def)

text \<open>The fields of a tag: what a split at the hyphens finds.\<close>

definition tag_fields :: "inbound_tag_input \<Rightarrow> string list" where
  "tag_fields i = (case tag_node i of None \<Rightarrow> [] | Some n \<Rightarrow> [''n'' @ int_str n])
     @ [''in'', int_str (case_option 0 id (tag_port i)),
        transportTagSuffix (inboundTransports (tag_protocol i) (tag_stream i) (tag_settings i))]"

lemma composeInboundTag_join: "composeInboundTag i = join ''-'' (tag_fields i)"
  by (simp add: composeInboundTag_def tag_fields_def nodeTagPrefix_def baseInboundTag_def split: option.splits)

definition tag_wf :: "inbound_tag_input \<Rightarrow> bool" where
  "tag_wf i \<longleftrightarrow> 0 \<le> case_option 0 id (tag_port i) \<and> 0 \<le> case_option 0 id (tag_node i)"

lemma int_str_no_hyphen: "0 \<le> n \<Longrightarrow> CHR ''-'' \<notin> set (int_str n)"
  using nat_str_digits [of "CHR ''-''"] by (auto simp: int_str_def is_digit_def)

lemma tag_fields_no_hyphen: "tag_wf i \<Longrightarrow> \<forall>f \<in> set (tag_fields i). CHR ''-'' \<notin> set f"
  using transportTagSuffix_cases [OF inboundTransports_range, of "tag_protocol i" "tag_stream i" "tag_settings i"]
  by (auto simp: tag_fields_def tag_wf_def int_str_no_hyphen split: option.splits)

lemma split_tag: "tag_wf i \<Longrightarrow> split_on CHR ''-'' (composeInboundTag i) = tag_fields i"
  unfolding composeInboundTag_join
  by (rule split_on_join) (use tag_fields_no_hyphen in \<open>auto simp: tag_fields_def\<close>)

lemma join_snoc: "xs \<noteq> [] \<Longrightarrow> join sep (xs @ [y]) = join sep xs @ sep @ y"
  by (induction sep xs rule: join.induct) auto

lemma split_numbered_tag:
  assumes "tag_wf i" "list_all is_digit ds"
  shows "split_on CHR ''-'' (composeInboundTag i @ ''-'' @ ds) = tag_fields i @ [ds]"
proof -
  have ne: "tag_fields i \<noteq> []" by (simp add: tag_fields_def)
  have "\<not> is_digit CHR ''-''" by (simp add: is_digit_def)
  then have "CHR ''-'' \<notin> set ds" using assms(2) by (auto simp: list_all_iff)
  then have "\<forall>f \<in> set (tag_fields i @ [ds]). CHR ''-'' \<notin> set f"
    using tag_fields_no_hyphen [OF assms(1)] by auto
  from split_on_join [OF _ this] show ?thesis
    unfolding composeInboundTag_join using ne by (simp add: join_snoc)
qed

lemma isAutoInboundTag_iff:
  "isAutoInboundTag tag i \<longleftrightarrow>
     tag = [] \<or> tag = composeInboundTag i \<or>
     (\<exists>ds. ds \<noteq> [] \<and> list_all is_digit ds \<and> tag = composeInboundTag i @ ''-'' @ ds)"
  by (auto simp: isAutoInboundTag_def Let_def starts_with_iff)

lemma int_str_inj: "int_str a = int_str b \<Longrightarrow> a = b"
  by (auto simp: int_str_def split: if_splits) (metis hd_nat_str_digit is_digit_cases list.sel(1))+

text \<open>The transport field is never a number, so a numbered tag is not another input's tag.\<close>

lemma suffix_not_digits: "list_all is_digit ds \<Longrightarrow> b \<in> {1, 2, 3} \<Longrightarrow> transportTagSuffix b \<noteq> ds"
  using transportTagSuffix_cases [of b] by (auto simp: is_digit_def)


lemma tag_fields_inject:
  assumes "tag_wf i" "tag_wf j" "tag_fields i = tag_fields j"
  shows "case_option 0 id (tag_port i) = case_option 0 id (tag_port j) \<and> tag_node i = tag_node j \<and>
    inboundTransports (tag_protocol i) (tag_stream i) (tag_settings i)
      = inboundTransports (tag_protocol j) (tag_stream j) (tag_settings j)"
  using assms(3) transportTagSuffix_inj [OF inboundTransports_range inboundTransports_range] int_str_inj
  by (cases "tag_node i"; cases "tag_node j") (auto simp: tag_fields_def)

lemma auto_tag_fields:
  assumes "tag_wf i" "isAutoInboundTag tag i" "tag \<noteq> []"
  obtains ds where "split_on CHR ''-'' tag = tag_fields i @ ds"
    "ds = [] \<or> (\<exists>d. ds = [d] \<and> list_all is_digit d)"
  using assms that [of "[]"] split_tag [OF assms(1)] split_numbered_tag [OF assms(1)]
  by (auto simp: isAutoInboundTag_iff)

text \<open>The derived tags are in one-to-one correspondence with node, port and transports: a
  non-empty tag that is an automatic one (possibly numbered) for two inbounds with non-negative
  numbers comes from the same node, the same port and the same set of transports.\<close>

theorem auto_tag_determines_inbound:
  assumes "tag_wf i" "tag_wf j" "tag \<noteq> []" "isAutoInboundTag tag i" "isAutoInboundTag tag j"
  shows "case_option 0 id (tag_port i) = case_option 0 id (tag_port j) \<and> tag_node i = tag_node j \<and>
    inboundTransports (tag_protocol i) (tag_stream i) (tag_settings i)
      = inboundTransports (tag_protocol j) (tag_stream j) (tag_settings j)"
proof (rule tag_fields_inject [OF assms(1,2)])
  obtain ds where ds: "split_on CHR ''-'' tag = tag_fields i @ ds"
    "ds = [] \<or> (\<exists>d. ds = [d] \<and> list_all is_digit d)" by (rule auto_tag_fields [OF assms(1,4,3)])
  obtain es where es: "split_on CHR ''-'' tag = tag_fields j @ es"
    "es = [] \<or> (\<exists>d. es = [d] \<and> list_all is_digit d)" by (rule auto_tag_fields [OF assms(2,5,3)])
  have last: "last (tag_fields k) \<notin> {d. list_all is_digit d}" for k
    using suffix_not_digits [OF _ inboundTransports_range] by (auto simp: tag_fields_def)
  have ne: "tag_fields k \<noteq> []" for k by (simp add: tag_fields_def)
  have eq: "tag_fields i @ ds = tag_fields j @ es" using ds(1) es(1) by simp
  have "ds = [] \<longleftrightarrow> es = []"
    using arg_cong [OF eq, of last] ds(2) es(2) last ne by (auto split: if_splits)
  with eq ds(2) es(2) show "tag_fields i = tag_fields j" by auto
qed

lemma auto_tag_determines_inbound_witness:
  "let i = \<lparr>tag_port = Some 443, tag_node = Some 7, tag_protocol = ''shadowsocks'', tag_stream = None,
            tag_settings = Some [(''network'', JStr ''udp'')]\<rparr>;
       j = \<lparr>tag_port = Some 443, tag_node = Some 7, tag_protocol = ''hysteria'', tag_stream = None,
            tag_settings = None\<rparr>
   in inboundTransports (tag_protocol i) (tag_stream i) (tag_settings i)
      = inboundTransports (tag_protocol j) (tag_stream j) (tag_settings j)"
  unfolding Let_def
  by (rule auto_tag_determines_inbound [where tag = "''n7-in-443-udp-2''", THEN conjunct2, THEN conjunct2])
    code_simp+

end
