(* ===== verification/XrayTypes.thy ===== *)
theory XrayTypes
  imports Json
begin

text \<open>
  The inbound data model: the types that \<open>schemas/protocols/stream\<close>, \<open>security\<close> and
  \<open>inbound\<close> infer from the Zod schemas, as records, and their tagged unions as datatypes.
  An optional member is an \<open>option\<close>; free-form members (\<open>finalmask\<close>, header maps, socket
  options, certificates) stay JavaScript values.
\<close>

section \<open>Stream settings\<close>

record tcp_request =
  tq_version :: string
  tq_method :: string
  tq_path :: "string list"
  tq_headers :: obj

record tcp_response =
  tr_version :: string
  tr_status :: string
  tr_reason :: string
  tr_headers :: obj

datatype tcp_header = HeaderNone | HeaderHttp "tcp_request option" "tcp_response option"

record tcp_settings =
  tcp_acceptProxyProtocol :: bool
  tcp_header :: "tcp_header option"

record kcp_settings =
  kcp_mtu :: int
  kcp_tti :: int
  kcp_uplinkCapacity :: int
  kcp_downlinkCapacity :: int
  kcp_cwndMultiplier :: int
  kcp_maxSendingWindow :: int

record ws_settings =
  ws_acceptProxyProtocol :: bool
  ws_path :: string
  ws_host :: string
  ws_headers :: obj
  ws_heartbeatPeriod :: int

record grpc_settings =
  grpc_serviceName :: string
  grpc_authority :: string
  grpc_multiMode :: bool

record httpupgrade_settings =
  hu_acceptProxyProtocol :: bool
  hu_path :: string
  hu_host :: string
  hu_headers :: obj

text \<open>
  The many tuning members of xHTTP are read by name, so they are kept as a property list;
  path, host, mode and headers are members of their own.
\<close>

record xhttp_settings =
  xh_path :: string
  xh_host :: string
  xh_mode :: string
  xh_headers :: obj
  xh_knobs :: obj

record hysteria_settings =
  hy_version :: int
  hy_auth :: string
  hy_udpIdleTimeout :: int
  hy_masquerade :: "obj option"

datatype network_settings =
    NetTcp tcp_settings
  | NetKcp kcp_settings
  | NetWs ws_settings
  | NetGrpc grpc_settings
  | NetHttpUpgrade httpupgrade_settings
  | NetXHttp xhttp_settings
  | NetHysteria hysteria_settings

fun network_name :: "network_settings \<Rightarrow> string" where
  "network_name (NetTcp _) = ''tcp''"
| "network_name (NetKcp _) = ''kcp''"
| "network_name (NetWs _) = ''ws''"
| "network_name (NetGrpc _) = ''grpc''"
| "network_name (NetHttpUpgrade _) = ''httpupgrade''"
| "network_name (NetXHttp _) = ''xhttp''"
| "network_name (NetHysteria _) = ''hysteria''"

section \<open>Security settings\<close>

record tls_client_settings =
  tc_fingerprint :: string
  tc_echConfigList :: string
  tc_pinnedPeerCertSha256 :: "string list"

record tls_settings =
  tls_serverName :: string
  tls_minVersion :: string
  tls_maxVersion :: string
  tls_cipherSuites :: string
  tls_rejectUnknownSni :: bool
  tls_disableSystemRoot :: bool
  tls_enableSessionResumption :: bool
  tls_certificates :: "js list"
  tls_alpn :: "string list"
  tls_echServerKeys :: string
  tls_client :: tls_client_settings

record reality_client_settings =
  rc_publicKey :: string
  rc_fingerprint :: string
  rc_serverName :: string
  rc_spiderX :: string
  rc_mldsa65Verify :: string

record reality_settings =
  re_show :: bool
  re_xver :: int
  re_target :: string
  re_serverNames :: "string list"
  re_privateKey :: string
  re_minClientVer :: string
  re_maxClientVer :: string
  re_maxTimediff :: int
  re_shortIds :: "string list"
  re_mldsa65Seed :: string
  re_client :: reality_client_settings

datatype security_settings = SecNone | SecTls tls_settings | SecReality reality_settings

fun security_name :: "security_settings \<Rightarrow> string" where
  "security_name SecNone = ''none''"
| "security_name (SecTls _) = ''tls''"
| "security_name (SecReality _) = ''reality''"

record external_proxy =
  ep_forceTls :: string
  ep_dest :: string
  ep_port :: int
  ep_remark :: string
  ep_sni :: "string option"
  ep_fingerprint :: "string option"
  ep_alpn :: "string list option"
  ep_pinnedPeerCertSha256 :: "string list option"

record stream_settings =
  st_network :: network_settings
  st_security :: security_settings
  st_externalProxy :: "external_proxy list option"
  st_finalmask :: "obj option"
  st_sockopt :: "obj option"

section \<open>Inbounds\<close>

text \<open>The members of a client that links read; each protocol fills the ones it has.\<close>

record client =
  cl_id :: "string option"
  cl_security :: "string option"
  cl_flow :: "string option"
  cl_password :: "string option"
  cl_auth :: "string option"
  cl_email :: "string option"

record wireguard_peer =
  wp_privateKey :: "string option"
  wp_publicKey :: string
  wp_preSharedKey :: "string option"
  wp_allowedIPs :: "string list"
  wp_keepAlive :: "int option"

record wireguard_settings =
  wg_mtu :: "int option"
  wg_secretKey :: string
  wg_peers :: "wireguard_peer list"
  wg_noKernelTun :: bool

datatype inbound_settings =
    Vmess "client list"
  | Vless "client list" string
  | Trojan "client list"
  | Shadowsocks string string "client list"
  | Hysteria int "client list"
  | WireguardIn wireguard_settings
  | OtherInbound string

text \<open>
  \<open>Vless\<close> also holds the encryption; \<open>Shadowsocks\<close> the method and the password;
  \<open>Hysteria\<close> the version; \<open>OtherInbound\<close> is one of \<open>http\<close>, \<open>mixed\<close>, \<open>tunnel\<close>, \<open>tun\<close>.
\<close>

fun inbound_protocol :: "inbound_settings \<Rightarrow> string" where
  "inbound_protocol (Vmess _) = ''vmess''"
| "inbound_protocol (Vless _ _) = ''vless''"
| "inbound_protocol (Trojan _) = ''trojan''"
| "inbound_protocol (Shadowsocks _ _ _) = ''shadowsocks''"
| "inbound_protocol (Hysteria _ _) = ''hysteria''"
| "inbound_protocol (WireguardIn _) = ''wireguard''"
| "inbound_protocol (OtherInbound p) = p"

record inbound =
  ib_port :: int
  ib_listen :: string
  ib_settings :: inbound_settings
  ib_stream :: "stream_settings option"

end
