(* ===== verification/WebUrl.thy ===== *)
theory WebUrl
  imports Json
begin

text \<open>
  The URL interface of the platform as the share links use it: the percent-encode sets,
  \<open>encodeURIComponent\<close> and \<open>decodeURIComponent\<close>, \<open>URLSearchParams\<close>, and \<open>URL\<close> with its
  parser, setters and serializer for the schemes that are not special (\<open>vless\<close>,
  \<open>trojan\<close>, \<open>ss\<close>, \<open>hysteria2\<close>, \<open>wireguard\<close> and the like).
\<close>

section \<open>Percent-encoding\<close>

definition hex_upper :: "nat \<Rightarrow> char" where
  "hex_upper d = (if d < 10 then char_of (48 + d) else char_of (55 + d))"

definition percent_byte :: "char \<Rightarrow> string" where
  "percent_byte c = [CHR ''%'', hex_upper (of_char c div 16), hex_upper (of_char c mod 16)]"

definition percent_encode :: "(char \<Rightarrow> bool) \<Rightarrow> string \<Rightarrow> string" where
  "percent_encode must s = concat (map (\<lambda>c. if must c then percent_byte c else [c]) s)"

text \<open>Percent-decoding leaves an incomplete or malformed escape as it is.\<close>

fun percent_decode :: "string \<Rightarrow> string" where
  "percent_decode (c # s) =
     (if c = CHR ''%'' then
        (case s of
           a # b # r \<Rightarrow>
             (case (hex_val a, hex_val b) of
                (Some x, Some y) \<Rightarrow> char_of (16 * x + y) # percent_decode r
              | _ \<Rightarrow> c # percent_decode s)
         | _ \<Rightarrow> c # percent_decode s)
      else c # percent_decode s)"
| "percent_decode [] = []"

definition is_alnum :: "char \<Rightarrow> bool" where
  "is_alnum c \<longleftrightarrow> (let n = of_char c :: nat in
     48 \<le> n \<and> n \<le> 57 \<or> 65 \<le> n \<and> n \<le> 90 \<or> 97 \<le> n \<and> n \<le> 122)"

definition c0_set :: "char \<Rightarrow> bool" where
  "c0_set c \<longleftrightarrow> (of_char c :: nat) < 32 \<or> 126 < (of_char c :: nat)"

definition fragment_set :: "char \<Rightarrow> bool" where
  "fragment_set c \<longleftrightarrow> c0_set c \<or> c \<in> set '' <>`'' \<or> c = CHR 0x22"

definition query_set :: "char \<Rightarrow> bool" where
  "query_set c \<longleftrightarrow> c0_set c \<or> c \<in> set '' #<>'' \<or> c = CHR 0x22"

definition path_set :: "char \<Rightarrow> bool" where
  "path_set c \<longleftrightarrow> query_set c \<or> c \<in> set ''?^`{}''"

definition userinfo_set :: "char \<Rightarrow> bool" where
  "userinfo_set c \<longleftrightarrow> path_set c \<or> c \<in> set ''/:;=@[]|'' \<or> c = CHR 0x5C"

definition component_plain :: "char \<Rightarrow> bool" where
  "component_plain c \<longleftrightarrow> is_alnum c \<or> c \<in> set ''-_.!~*()'' \<or> c = CHR 0x27"

definition form_plain :: "char \<Rightarrow> bool" where
  "form_plain c \<longleftrightarrow> is_alnum c \<or> c \<in> set ''*-._''"

text \<open>The two functions of the global object; the decoder's \<open>None\<close> is its \<open>URIError\<close>.\<close>

definition encodeURIComponent :: "string \<Rightarrow> string" where
  "encodeURIComponent s = percent_encode (\<lambda>c. \<not> component_plain c) s"

fun percent_strict :: "string \<Rightarrow> string option" where
  "percent_strict [] = Some []"
| "percent_strict (c # s) =
     (if c = CHR ''%'' then
        (case s of
           a # b # r \<Rightarrow>
             (case (hex_val a, hex_val b) of
                (Some x, Some y) \<Rightarrow> map_option (\<lambda>t. char_of (16 * x + y) # t) (percent_strict r)
              | _ \<Rightarrow> None)
         | _ \<Rightarrow> None)
      else map_option (\<lambda>t. c # t) (percent_strict s))"

definition decodeURIComponent :: "string \<Rightarrow> string option" where
  "decodeURIComponent s = (case percent_strict s of
     None \<Rightarrow> None | Some t \<Rightarrow> if valid_utf8 t then Some t else None)"

section \<open>Search parameters\<close>

type_synonym params = "(string \<times> string) list"

definition form_encode :: "string \<Rightarrow> string" where
  "form_encode s = concat (map (\<lambda>c. if c = CHR '' '' then ''+'' else if form_plain c then [c] else percent_byte c) s)"

definition form_decode :: "string \<Rightarrow> string" where
  "form_decode s = utf8_lossy (percent_decode (map (\<lambda>c. if c = CHR ''+'' then CHR '' '' else c) s))"

definition params_serialize :: "params \<Rightarrow> string" where
  "params_serialize ps = join ''&'' (map (\<lambda>(k, v). form_encode k @ ''='' @ form_encode v) ps)"

definition parse_pair :: "string \<Rightarrow> string \<times> string" where
  "parse_pair s = (case split_first CHR ''='' s of
     None \<Rightarrow> (form_decode s, []) | Some (k, v) \<Rightarrow> (form_decode k, form_decode v))"

definition params_parse :: "string \<Rightarrow> params" where
  "params_parse s = map parse_pair (nonempty_strings (split_on CHR ''&'' s))"

definition params_get :: "params \<Rightarrow> string \<Rightarrow> string option" where
  "params_get ps k = map_of ps k"

definition params_del :: "string \<Rightarrow> params \<Rightarrow> params" where
  "params_del k ps = filter (\<lambda>p. fst p \<noteq> k) ps"

fun params_set :: "string \<Rightarrow> string \<Rightarrow> params \<Rightarrow> params" where
  "params_set k v [] = [(k, v)]"
| "params_set k v (p # ps) = (if fst p = k then (k, v) # params_del k ps else p # params_set k v ps)"

definition params_set_all :: "params \<Rightarrow> params \<Rightarrow> params" where
  "params_set_all ps new = foldl (\<lambda>ps (k, v). params_set k v ps) ps new"

lemma params_get_del [simp]: "params_get (params_del k ps) k' = (if k' = k then None else params_get ps k')"
  by (induction ps) (auto simp: params_get_def params_del_def)

lemma params_get_Nil [simp]: "params_get [] k = None"
  by (simp add: params_get_def)

lemma params_get_Cons [simp]: "params_get ((k', v) # ps) k = (if k = k' then Some v else params_get ps k)"
  by (simp add: params_get_def)

lemma params_get_set [simp]: "params_get (params_set k v ps) k' = (if k' = k then Some v else params_get ps k')"
  by (induction ps) auto

interpretation url_params: string_map params_get params_set params_del "\<lambda>_. True"
  by unfold_locales auto

lemma params_set_new: "params_get ps k = None \<Longrightarrow> params_set k v ps = ps @ [(k, v)]"
  by (induction ps) (auto split: if_splits)

lemma distinct_params_set: "distinct (map fst ps) \<Longrightarrow> distinct (map fst (params_set k v ps))"
proof (induction ps)
  case (Cons p ps)
  have "set (map fst (params_del k qs)) = set (map fst qs) - {k}" for qs
    by (auto simp: params_del_def)
  moreover have "set (map fst (params_set k v qs)) = insert k (set (map fst qs))" for qs
    by (induction qs) (auto simp: params_del_def)
  moreover have "distinct (map fst (params_del k ps))"
    using Cons.prems by (auto simp: params_del_def intro: distinct_map_filter)
  ultimately show ?case using Cons by auto
qed simp

text \<open>Copying parameters with distinct names into an empty list keeps the list.\<close>

lemma params_set_all_fresh:
  "distinct (map fst (qs @ ps)) \<Longrightarrow> params_set_all qs ps = qs @ ps"
proof (induction ps arbitrary: qs)
  case (Cons p ps)
  obtain k v where p: "p = (k, v)" by force
  have "params_get qs k = None" using Cons.prems p
    by (auto simp: params_get_def map_of_eq_None_iff)
  then show ?case using Cons.IH [of "qs @ [p]"] Cons.prems p
    by (simp add: params_set_all_def params_set_new)
qed (simp add: params_set_all_def)

section \<open>Round trips of the encodings\<close>

lemma hex_val_upper [simp]: "d < 16 \<Longrightarrow> hex_val (hex_upper d) = Some d"
  by (simp add: hex_val_def hex_upper_def of_char_of Let_def)

lemma byte_split: "16 * (byte c div 16) + byte c mod 16 = byte c"
  by simp

lemma byte_digits: "byte c div 16 < 16" "byte c mod 16 < 16"
proof -
  have "byte c < 256" by simp
  then show "byte c div 16 < 16" by linarith
qed simp

lemma percent_decode_byte [simp]: "percent_decode (percent_byte c @ s) = c # percent_decode s"
  using byte_digits [of c] by (simp add: percent_byte_def)

lemma percent_strict_byte [simp]:
  "percent_strict (percent_byte c @ s) = map_option (\<lambda>t. c # t) (percent_strict s)"
  using byte_digits [of c] by (simp add: percent_byte_def)

lemma percent_decode_encode: "must CHR ''%'' \<Longrightarrow> percent_decode (percent_encode must s) = s"
  by (induction s) (auto simp: percent_encode_def)

lemma percent_strict_encode: "must CHR ''%'' \<Longrightarrow> percent_strict (percent_encode must s) = Some s"
  by (induction s) (auto simp: percent_encode_def)

lemma percent_not_plain: "\<not> component_plain CHR ''%''" "\<not> form_plain CHR ''%''" "\<not> form_plain CHR ''+''"
  by (simp_all add: component_plain_def form_plain_def is_alnum_def)

lemma decode_encode_component: "valid_utf8 s \<Longrightarrow> decodeURIComponent (encodeURIComponent s) = Some s"
  by (simp add: decodeURIComponent_def encodeURIComponent_def percent_strict_encode percent_not_plain)

interpretation uri_component: codec encodeURIComponent decodeURIComponent valid_utf8
  by unfold_locales (rule decode_encode_component)

lemma percent_byte_chars: "x \<in> set (percent_byte c) \<Longrightarrow> x = CHR ''%'' \<or> is_alnum x"
proof -
  have "is_alnum (hex_upper d)" if "d < 16" for d
    using that by (simp add: is_alnum_def hex_upper_def of_char_of Let_def)
  then show "x \<in> set (percent_byte c) \<Longrightarrow> x = CHR ''%'' \<or> is_alnum x"
    using byte_digits [of c] by (auto simp: percent_byte_def)
qed

lemma percent_byte_no_plus: "map (\<lambda>c. if c = CHR ''+'' then CHR '' '' else c) (percent_byte c) = percent_byte c"
  by (rule map_idI) (auto dest: percent_byte_chars simp: is_alnum_def)

lemma form_decode_encode: "valid_utf8 s \<Longrightarrow> form_decode (form_encode s) = s"
proof -
  have "percent_decode (map (\<lambda>c. if c = CHR ''+'' then CHR '' '' else c) (form_encode s)) = s"
  proof (induction s)
    case (Cons c s)
    then show ?case using percent_not_plain by (auto simp: form_encode_def percent_byte_no_plus)
  qed (simp add: form_encode_def)
  then show "valid_utf8 s \<Longrightarrow> form_decode (form_encode s) = s" by (simp add: form_decode_def utf8_lossy_valid)
qed

text \<open>The characters an encoded parameter can have.\<close>

definition form_char :: "char \<Rightarrow> bool" where
  "form_char c \<longleftrightarrow> form_plain c \<or> c = CHR ''+'' \<or> c = CHR ''%''"

lemma form_encode_chars: "x \<in> set (form_encode s) \<Longrightarrow> form_char x"
  by (auto simp: form_encode_def form_char_def form_plain_def dest: percent_byte_chars split: if_splits)

lemma form_char_not: "\<not> form_char CHR ''&''" "\<not> form_char CHR ''=''"
  by (simp_all add: form_char_def form_plain_def is_alnum_def)

definition params_ok :: "params \<Rightarrow> bool" where
  "params_ok ps \<longleftrightarrow> (\<forall>(k, v) \<in> set ps. valid_utf8 k \<and> valid_utf8 v)"

lemma parse_pair_encoded:
  "valid_utf8 k \<Longrightarrow> valid_utf8 v \<Longrightarrow> parse_pair (form_encode k @ ''='' @ form_encode v) = (k, v)"
proof -
  have "CHR ''='' \<notin> set (form_encode k)" using form_encode_chars form_char_not by blast
  then show "valid_utf8 k \<Longrightarrow> valid_utf8 v \<Longrightarrow> parse_pair (form_encode k @ ''='' @ form_encode v) = (k, v)"
    by (simp add: parse_pair_def split_first_append form_decode_encode)
qed

lemma params_parse_serialize: "params_ok ps \<Longrightarrow> params_parse (params_serialize ps) = ps"
proof (cases "ps = []")
  case True
  then show ?thesis by (simp add: params_parse_def params_serialize_def nonempty_strings_def)
next
  case False
  assume ok: "params_ok ps"
  let ?f = "\<lambda>(k, v). form_encode k @ ''='' @ form_encode v"
  have "\<forall>x \<in> set (map ?f ps). CHR ''&'' \<notin> set x"
    using form_encode_chars form_char_not by fastforce
  then have "split_on CHR ''&'' (params_serialize ps) = map ?f ps"
    unfolding params_serialize_def using False by (intro split_on_join) auto
  moreover have "nonempty_strings (map ?f ps) = map ?f ps"
    by (rule nonempty_strings_id) auto
  moreover have "map parse_pair (map ?f ps) = ps"
    using ok parse_pair_encoded by (auto simp: params_ok_def intro!: map_idI)
  ultimately show ?thesis by (simp add: params_parse_def)
qed

interpretation form_codec: codec params_serialize "\<lambda>s. Some (params_parse s)" params_ok
  by unfold_locales (simp add: params_parse_serialize)

section \<open>URLs\<close>

text \<open>
  A URL record of a scheme that is not special.  The host is \<open>None\<close> when the URL has no
  authority; the path is opaque or a list of segments; query and fragment are absent or
  percent-encoded strings.
\<close>

datatype url_path = Opaque string | Segments "string list"

record url =
  u_scheme :: string
  u_username :: string
  u_password :: string
  u_host :: "string option"
  u_port :: "nat option"
  u_path :: url_path
  u_query :: "string option"
  u_fragment :: "string option"

definition special_schemes :: "string list" where
  "special_schemes = [''ftp'', ''file'', ''http'', ''https'', ''ws'', ''wss'']"

definition is_alpha :: "char \<Rightarrow> bool" where
  "is_alpha c \<longleftrightarrow> is_alnum c \<and> \<not> is_digit c"

definition scheme_char :: "char \<Rightarrow> bool" where
  "scheme_char c \<longleftrightarrow> is_alnum c \<or> c \<in> set ''+-.''"

definition valid_scheme :: "string \<Rightarrow> bool" where
  "valid_scheme s = (case s of [] \<Rightarrow> False | c # r \<Rightarrow> is_alpha c \<and> list_all scheme_char r)"

subsection \<open>Hosts\<close>

text \<open>IPv6 addresses: groups of hexadecimal digits, possibly with one \<open>::\<close> and an IPv4 tail.\<close>

definition ipv4_byte :: "string \<Rightarrow> nat option" where
  "ipv4_byte s =
     (if s \<noteq> [] \<and> list_all is_digit s \<and> length s \<le> 3 \<and> (s = ''0'' \<or> hd s \<noteq> CHR ''0'') \<and> digits_val s \<le> 255
      then Some (digits_val s) else None)"

definition ipv4_tail :: "string \<Rightarrow> nat list option" where
  "ipv4_tail s = (case map ipv4_byte (split_on CHR ''.'' s) of
     [Some a, Some b, Some c, Some d] \<Rightarrow> Some [256 * a + b, 256 * c + d] | _ \<Rightarrow> None)"

definition ipv6_group :: "string \<Rightarrow> nat option" where
  "ipv6_group s = (if s \<noteq> [] \<and> length s \<le> 4 then radix_val 16 0 s else None)"

fun ipv6_groups :: "bool \<Rightarrow> string list \<Rightarrow> nat list option" where
  "ipv6_groups tail [] = Some []"
| "ipv6_groups tail (g # gs) =
     (if gs = [] \<and> tail \<and> CHR ''.'' \<in> set g then ipv4_tail g
      else case (ipv6_group g, ipv6_groups tail gs) of
          (Some n, Some ns) \<Rightarrow> Some (n # ns) | _ \<Rightarrow> None)"

definition ipv6_side :: "bool \<Rightarrow> string \<Rightarrow> nat list option" where
  "ipv6_side tail s = (if s = [] then Some [] else ipv6_groups tail (split_on CHR '':'' s))"

definition ipv6_parse :: "string \<Rightarrow> nat list option" where
  "ipv6_parse s = (case index_of s ''::'' of
     None \<Rightarrow> (case ipv6_groups True (split_on CHR '':'' s) of
         Some ns \<Rightarrow> if length ns = 8 then Some ns else None | None \<Rightarrow> None)
   | Some i \<Rightarrow> (case (ipv6_side False (take i s), ipv6_side True (drop (i + 2) s)) of
         (Some l, Some r) \<Rightarrow>
           if length l + length r \<le> 7 then Some (l @ replicate (8 - (length l + length r)) 0 @ r) else None
       | _ \<Rightarrow> None))"

fun hex_str :: "nat \<Rightarrow> string" where
  "hex_str n = (if n < 16 then [hex_char n] else hex_str (n div 16) @ [hex_char (n mod 16)])"

declare hex_str.simps [simp del]

text \<open>The first longest run of at least two zero groups, as its start and length.\<close>

fun zero_runs :: "nat \<Rightarrow> nat list \<Rightarrow> (nat \<times> nat) list" where
  "zero_runs i [] = []"
| "zero_runs i (n # ns) = (i, length (takeWhile (\<lambda>m. m = 0) (n # ns))) # zero_runs (Suc i) ns"

definition longest_zeros :: "nat list \<Rightarrow> (nat \<times> nat) option" where
  "longest_zeros ns =
     (let best = foldl (\<lambda>b r. if snd b < snd r then r else b) (0, 1) (zero_runs 0 ns)
      in if 2 \<le> snd best then Some best else None)"

definition ipv6_serialize :: "nat list \<Rightarrow> string" where
  "ipv6_serialize ns = (case longest_zeros ns of
     None \<Rightarrow> join '':'' (map hex_str ns)
   | Some (i, n) \<Rightarrow> join '':'' (map hex_str (take i ns)) @ ''::'' @ join '':'' (map hex_str (drop (i + n) ns)))"

definition forbidden_host :: "char \<Rightarrow> bool" where
  "forbidden_host c \<longleftrightarrow> (of_char c :: nat) \<in> {0, 9, 10, 13, 32} \<or> c \<in> set ''#/:<>?@[]^|'' \<or> c = CHR 0x5C"

text \<open>The host parser for a scheme that is not special: an IPv6 address or an opaque host.\<close>

definition host_parse :: "string \<Rightarrow> string option" where
  "host_parse s = (case s of
     c # r \<Rightarrow>
       if c = CHR ''['' then
         (if r \<noteq> [] \<and> last r = CHR '']'' then
            map_option (\<lambda>ns. ''['' @ ipv6_serialize ns @ '']'') (ipv6_parse (butlast r))
          else None)
       else if list_ex forbidden_host s then None else Some (percent_encode c0_set s)
   | [] \<Rightarrow> Some [])"

subsection \<open>Authority and path\<close>

text \<open>The first colon outside square brackets ends the host.\<close>

fun split_port :: "bool \<Rightarrow> string \<Rightarrow> string \<times> string option" where
  "split_port inside [] = ([], None)"
| "split_port inside (c # s) =
     (if c = CHR '':'' \<and> \<not> inside then ([], Some s)
      else (case split_port (if c = CHR ''['' then True else if c = CHR '']'' then False else inside) s of
              (h, p) \<Rightarrow> (c # h, p)))"

definition port_parse :: "string \<Rightarrow> nat option option" where
  "port_parse s =
     (if s = [] then Some None
      else if list_all is_digit s \<and> digits_val s \<le> 65535 then Some (Some (digits_val s)) else None)"

definition userinfo_parse :: "string \<Rightarrow> string \<times> string" where
  "userinfo_parse s = (case split_first CHR '':'' s of
     None \<Rightarrow> (percent_encode userinfo_set s, [])
   | Some (u, p) \<Rightarrow> (percent_encode userinfo_set u, percent_encode userinfo_set p))"

definition hostport_parse :: "string \<Rightarrow> (string \<times> nat option) option" where
  "hostport_parse s = (case split_port False s of
     (h, None) \<Rightarrow> map_option (\<lambda>h'. (h', None)) (host_parse h)
   | (h, Some p) \<Rightarrow>
       if h = [] then None
       else (case (host_parse h, port_parse p) of
               (Some h', Some p') \<Rightarrow> Some (h', p') | _ \<Rightarrow> None))"

definition authority_parse :: "string \<Rightarrow> (string \<times> string \<times> string \<times> nat option) option" where
  "authority_parse s = (case split_last CHR ''@'' s of
     None \<Rightarrow> map_option (\<lambda>(h, p). ([], [], h, p)) (hostport_parse s)
   | Some (ui, hp) \<Rightarrow>
       if hp = [] then None
       else (case userinfo_parse ui of
               (u, w) \<Rightarrow> map_option (\<lambda>(h, p). (u, w, h, p)) (hostport_parse hp)))"

definition single_dot :: "string \<Rightarrow> bool" where
  "single_dot s \<longleftrightarrow> to_lower s \<in> {''.'', ''%2e''}"

definition double_dot :: "string \<Rightarrow> bool" where
  "double_dot s \<longleftrightarrow> to_lower s \<in> {''..'', ''.%2e'', ''%2e.'', ''%2e%2e''}"

fun path_fold :: "string list \<Rightarrow> string list \<Rightarrow> string list" where
  "path_fold acc [] = acc"
| "path_fold acc [seg] =
     (if double_dot seg then butlast acc @ [[]]
      else if single_dot seg then acc @ [[]]
      else acc @ [percent_encode path_set seg])"
| "path_fold acc (seg # seg' # segs) =
     path_fold
       (if double_dot seg then butlast acc else if single_dot seg then acc
        else acc @ [percent_encode path_set seg])
       (seg' # segs)"

definition path_parse :: "string \<Rightarrow> string list" where
  "path_parse s = (if s = [] then [] else path_fold [] (split_on CHR ''/'' (tl s)))"

subsection \<open>Parsing and serialization\<close>

definition drop_c0 :: "string \<Rightarrow> string" where
  "drop_c0 s = dropWhile (\<lambda>c. (of_char c :: nat) \<le> 32) s"

text \<open>Control characters and spaces around the input, and tabs and newlines anywhere, go.\<close>

definition url_clean :: "string \<Rightarrow> string" where
  "url_clean s = filter (\<lambda>c. (of_char c :: nat) \<notin> {9, 10, 13}) (rev (drop_c0 (rev (drop_c0 s))))"

definition split_tail :: "char \<Rightarrow> string \<Rightarrow> string \<times> string option" where
  "split_tail c s = (case split_first c s of None \<Rightarrow> (s, None) | Some (a, b) \<Rightarrow> (a, Some b))"

text \<open>
  \<open>new URL(s)\<close>; \<open>None\<close> is the \<open>TypeError\<close>.  A special scheme is outside the model (its
  caller turns every other scheme than its own into \<open>null\<close>) and also gives \<open>None\<close>.
\<close>

definition URL_parse :: "string \<Rightarrow> url option" where
  "URL_parse input = (case split_first CHR '':'' (url_clean input) of
     None \<Rightarrow> None
   | Some (sch, rest) \<Rightarrow>
       if \<not> valid_scheme sch \<or> to_lower sch \<in> set special_schemes then None
       else
         let (rest', frag) = split_tail CHR ''#'' rest;
             (main, query) = split_tail CHR ''?'' rest';
             q = map_option (percent_encode query_set) query;
             f = map_option (percent_encode fragment_set) frag
         in if starts_with main ''//'' then
              (let auth = takeWhile (\<lambda>c. c \<noteq> CHR ''/'') (drop 2 main);
                   path = dropWhile (\<lambda>c. c \<noteq> CHR ''/'') (drop 2 main)
               in map_option (\<lambda>(u, w, h, p).
                    \<lparr>u_scheme = to_lower sch, u_username = u, u_password = w, u_host = Some h, u_port = p,
                     u_path = Segments (path_parse path), u_query = q, u_fragment = f\<rparr>)
                    (authority_parse auth))
            else if starts_with main ''/'' then
              Some \<lparr>u_scheme = to_lower sch, u_username = [], u_password = [], u_host = None, u_port = None,
                    u_path = Segments (path_parse main), u_query = q, u_fragment = f\<rparr>
            else
              Some \<lparr>u_scheme = to_lower sch, u_username = [], u_password = [], u_host = None, u_port = None,
                    u_path = Opaque (percent_encode c0_set main), u_query = q, u_fragment = f\<rparr>)"

definition url_credentials :: "url \<Rightarrow> string" where
  "url_credentials u =
     (if u_username u = [] \<and> u_password u = [] then []
      else u_username u @ (if u_password u = [] then [] else CHR '':'' # u_password u) @ ''@'')"

definition path_serialize :: "url_path \<Rightarrow> string" where
  "path_serialize p = (case p of Opaque s \<Rightarrow> s | Segments ss \<Rightarrow> concat (map (\<lambda>s. CHR ''/'' # s) ss))"

text \<open>\<open>url.toString()\<close>.\<close>

definition URL_href :: "url \<Rightarrow> string" where
  "URL_href u = u_scheme u @ '':'' @
     (case u_host u of
        Some h \<Rightarrow> ''//'' @ url_credentials u @ h @
          (case u_port u of None \<Rightarrow> [] | Some p \<Rightarrow> CHR '':'' # nat_str p)
      | None \<Rightarrow> (case u_path u of Segments ([] # _ # _) \<Rightarrow> ''/.'' | _ \<Rightarrow> [])) @
     path_serialize (u_path u) @
     (case u_query u of None \<Rightarrow> [] | Some q \<Rightarrow> CHR ''?'' # q) @
     (case u_fragment u of None \<Rightarrow> [] | Some f \<Rightarrow> CHR ''#'' # f)"

subsection \<open>Getters and setters\<close>

definition URL_protocol :: "url \<Rightarrow> string" where
  "URL_protocol u = u_scheme u @ '':''"

definition URL_hostname :: "url \<Rightarrow> string" where
  "URL_hostname u = (case u_host u of None \<Rightarrow> [] | Some h \<Rightarrow> h)"

definition URL_port :: "url \<Rightarrow> string" where
  "URL_port u = (case u_port u of None \<Rightarrow> [] | Some p \<Rightarrow> nat_str p)"

definition URL_hash :: "url \<Rightarrow> string" where
  "URL_hash u = (case u_fragment u of None \<Rightarrow> [] | Some f \<Rightarrow> if f = [] then [] else CHR ''#'' # f)"

definition URL_searchParams :: "url \<Rightarrow> params" where
  "URL_searchParams u = (case u_query u of None \<Rightarrow> [] | Some q \<Rightarrow> params_parse q)"

definition URL_set_username :: "string \<Rightarrow> url \<Rightarrow> url" where
  "URL_set_username s u =
     (if u_host u = None \<or> u_host u = Some [] then u else u\<lparr>u_username := percent_encode userinfo_set s\<rparr>)"

definition URL_set_hash :: "string \<Rightarrow> url \<Rightarrow> url" where
  "URL_set_hash s u =
     (if s = [] then u\<lparr>u_fragment := None\<rparr>
      else let s' = (if hd s = CHR ''#'' then tl s else s) in
        u\<lparr>u_fragment := Some (percent_encode fragment_set
            (filter (\<lambda>c. (of_char c :: nat) \<notin> {9, 10, 13}) s'))\<rparr>)"

text \<open>\<open>url.searchParams.set(k, v)\<close>, which rewrites the query.\<close>

definition URL_set_param :: "string \<Rightarrow> string \<Rightarrow> url \<Rightarrow> url" where
  "URL_set_param k v u =
     (let q = params_serialize (params_set k v (URL_searchParams u))
      in u\<lparr>u_query := (if q = [] then None else Some q)\<rparr>)"

section \<open>The serialization parses back\<close>

text \<open>
  The records that serialization keeps: an authority with a stable host, and components
  that hold no character their percent-encode set would escape.
\<close>

definition host_stable :: "string \<Rightarrow> bool" where
  "host_stable h \<longleftrightarrow> h \<noteq> [] \<and> host_parse h = Some h \<and> split_port False (h @ '':'') = (h, Some []) \<and>
     list_all (\<lambda>c. \<not> c0_set c \<and> c \<notin> set '' @/?#'') h"

definition segment_stable :: "string \<Rightarrow> bool" where
  "segment_stable s \<longleftrightarrow> \<not> single_dot s \<and> \<not> double_dot s \<and> list_all (\<lambda>c. \<not> path_set c \<and> c \<noteq> CHR ''/'') s"

definition url_stable :: "url \<Rightarrow> bool" where
  "url_stable u \<longleftrightarrow>
     valid_scheme (u_scheme u) \<and> to_lower (u_scheme u) = u_scheme u \<and> u_scheme u \<notin> set special_schemes \<and>
     list_all (\<lambda>c. \<not> userinfo_set c) (u_username u) \<and> list_all (\<lambda>c. \<not> userinfo_set c) (u_password u) \<and>
     (case u_host u of None \<Rightarrow> False | Some h \<Rightarrow> host_stable h) \<and>
     (case u_port u of None \<Rightarrow> True | Some p \<Rightarrow> p \<le> 65535) \<and>
     (case u_path u of Opaque _ \<Rightarrow> False | Segments ss \<Rightarrow> list_all segment_stable ss) \<and>
     (case u_query u of None \<Rightarrow> True | Some q \<Rightarrow> list_all (\<lambda>c. \<not> query_set c) q) \<and>
     (case u_fragment u of None \<Rightarrow> True | Some f \<Rightarrow> list_all (\<lambda>c. \<not> fragment_set c) f)"

lemma percent_encode_id: "list_all (\<lambda>c. \<not> must c) s \<Longrightarrow> percent_encode must s = s"
  by (induction s) (auto simp: percent_encode_def)

lemma split_port_stable:
  "split_port i (h @ '':'') = (h, Some []) \<Longrightarrow>
   split_port i (h @ CHR '':'' # p) = (h, Some p) \<and> split_port i h = (h, None)"
  by (induction h arbitrary: i) (auto split: if_splits prod.splits)

lemma nat_str_port: "p \<le> 65535 \<Longrightarrow> port_parse (nat_str p) = Some (Some p)"
  by (auto simp: port_parse_def list_all_iff dest: nat_str_digits)

lemma hostport_parse_stable:
  assumes "host_stable h" "case p of None \<Rightarrow> True | Some n \<Rightarrow> n \<le> 65535"
  shows "hostport_parse (h @ (case p of None \<Rightarrow> [] | Some n \<Rightarrow> CHR '':'' # nat_str n)) = Some (h, p)"
  using assms split_port_stable [of False h] nat_str_port
  by (auto simp: hostport_parse_def host_stable_def split: option.splits)

lemma userinfo_set_cases:
  "\<not> userinfo_set c \<Longrightarrow> c \<notin> set ''/:;=@[]|?#<>`{}^ '' \<and> \<not> c0_set c \<and> c \<noteq> CHR 0x22"
  by (auto simp: userinfo_set_def path_set_def query_set_def)

lemma userinfo_parse_stable:
  assumes "list_all (\<lambda>c. \<not> userinfo_set c) u" "list_all (\<lambda>c. \<not> userinfo_set c) w"
  shows "userinfo_parse (u @ (if w = [] then [] else CHR '':'' # w)) = (u, w)"
proof -
  have "CHR '':'' \<notin> set u" using assms(1) userinfo_set_cases by (fastforce simp: list_all_iff)
  moreover from this have "split_first CHR '':'' u = None" by (rule split_first_None [THEN iffD2])
  ultimately show ?thesis using assms
    by (simp add: userinfo_parse_def split_first_append percent_encode_id del: split_first_None)
qed

lemma authority_parse_stable:
  assumes "url_stable u" "u_host u = Some h"
  shows "authority_parse (url_credentials u @ h @ (case u_port u of None \<Rightarrow> [] | Some n \<Rightarrow> CHR '':'' # nat_str n))
    = Some (u_username u, u_password u, h, u_port u)"
proof -
  let ?hp = "h @ (case u_port u of None \<Rightarrow> [] | Some n \<Rightarrow> CHR '':'' # nat_str n)"
  have h: "host_stable h" "case u_port u of None \<Rightarrow> True | Some n \<Rightarrow> n \<le> 65535"
    using assms by (simp_all add: url_stable_def)
  have hp: "hostport_parse ?hp = Some (h, u_port u)" by (rule hostport_parse_stable [OF h])
  have "\<not> is_digit CHR ''@''" by (simp add: is_digit_def)
  then have at: "CHR ''@'' \<notin> set ?hp"
    using h(1) nat_str_digits by (fastforce simp: host_stable_def list_all_iff split: option.splits)
  have ne: "?hp \<noteq> []" using h(1) by (simp add: host_stable_def)
  show ?thesis
  proof (cases "u_username u = [] \<and> u_password u = []")
    case True
    moreover have "split_last CHR ''@'' ?hp = None" by (rule split_last_None [THEN iffD2, OF at])
    ultimately show ?thesis
      using hp by (simp add: authority_parse_def url_credentials_def del: split_last_None)
  next
    case False
    let ?ui = "u_username u @ (if u_password u = [] then [] else CHR '':'' # u_password u)"
    have "url_credentials u @ ?hp = ?ui @ CHR ''@'' # ?hp" using False by (auto simp: url_credentials_def)
    moreover have "userinfo_parse ?ui = (u_username u, u_password u)"
      by (rule userinfo_parse_stable) (use assms(1) in \<open>simp_all add: url_stable_def\<close>)
    ultimately show ?thesis
      using split_last_append [OF at, of ?ui] hp ne by (simp add: authority_parse_def)
  qed
qed

lemma path_fold_stable: "list_all segment_stable ss \<Longrightarrow> path_fold acc ss = acc @ ss"
proof (induction acc ss rule: path_fold.induct)
  case (2 acc seg)
  then have "percent_encode path_set seg = seg" by (intro percent_encode_id) (auto simp: segment_stable_def list_all_iff)
  with 2 show ?case by (simp add: segment_stable_def)
next
  case (3 acc seg seg' segs)
  then have "percent_encode path_set seg = seg" by (intro percent_encode_id) (auto simp: segment_stable_def list_all_iff)
  with 3 show ?case by (simp add: segment_stable_def)
qed simp

lemma concat_slashes: "ss \<noteq> [] \<Longrightarrow> concat (map (\<lambda>s. CHR ''/'' # s) ss) = CHR ''/'' # join ''/'' ss"
  by (induction "''/''" ss rule: join.induct) auto

lemma path_parse_stable:
  "list_all segment_stable ss \<Longrightarrow> path_parse (concat (map (\<lambda>s. CHR ''/'' # s) ss)) = ss"
proof (cases "ss = []")
  case False
  assume ss: "list_all segment_stable ss"
  have "split_on CHR ''/'' (join ''/'' ss) = ss"
    by (rule split_on_join [OF False]) (use ss in \<open>auto simp: segment_stable_def list_all_iff\<close>)
  with ss show ?thesis by (simp add: concat_slashes [OF False] path_parse_def path_fold_stable)
qed (simp add: path_parse_def)


definition plain_url_char :: "char \<Rightarrow> bool" where
  "plain_url_char c \<longleftrightarrow> 32 < (of_char c :: nat)"

lemma url_clean_id: "list_all plain_url_char s \<Longrightarrow> url_clean s = s"
proof -
  have drop: "drop_c0 t = t" if "list_all plain_url_char t" for t
    using that by (cases t) (auto simp: drop_c0_def plain_url_char_def)
  assume s: "list_all plain_url_char s"
  then have "list_all plain_url_char (rev s)" by simp
  with s have "url_clean s = filter (\<lambda>c. byte c \<notin> {9, 10, 13}) s" by (simp add: url_clean_def drop)
  also have "\<dots> = s" using s by (intro filter_True) (auto simp: list_all_iff plain_url_char_def)
  finally show ?thesis .
qed

lemma split_tail_some: "c \<notin> set a \<Longrightarrow> split_tail c (a @ (case b of None \<Rightarrow> [] | Some t \<Rightarrow> c # t)) = (a, b)"
proof (cases b)
  case None
  assume "c \<notin> set a"
  then have "split_first c a = None" by (rule split_first_None [THEN iffD2])
  with None show ?thesis by (simp add: split_tail_def del: split_first_None)
qed (simp add: split_tail_def split_first_append)

lemma stable_chars:
  "\<not> c0_set c \<Longrightarrow> c \<noteq> CHR '' '' \<Longrightarrow> plain_url_char c"
proof -
  have "of_char CHR '' '' = (32 :: nat)" by simp
  then show "\<not> c0_set c \<Longrightarrow> c \<noteq> CHR '' '' \<Longrightarrow> plain_url_char c"
    unfolding c0_set_def plain_url_char_def using of_char_eq_iff [of c "CHR '' ''", where 'a = nat]
    by linarith
qed

text \<open>The characters of each component: printable, and without the delimiters that end it.\<close>

definition free_of :: "string \<Rightarrow> string \<Rightarrow> bool" where
  "free_of ds s \<longleftrightarrow> list_all (\<lambda>c. plain_url_char c \<and> c \<notin> set ds) s"

lemma free_of_append [simp]: "free_of ds (a @ b) \<longleftrightarrow> free_of ds a \<and> free_of ds b"
  by (simp add: free_of_def)

lemma free_of_Cons [simp]: "free_of ds (c # b) \<longleftrightarrow> plain_url_char c \<and> c \<notin> set ds \<and> free_of ds b"
  by (simp add: free_of_def)

lemma free_of_Nil [simp]: "free_of ds []"
  by (simp add: free_of_def)

lemma free_of_mono: "free_of ds s \<Longrightarrow> set es \<subseteq> set ds \<Longrightarrow> free_of es s"
  by (auto simp: free_of_def list_all_iff)

lemma free_ofI: "list_all P s \<Longrightarrow> (\<And>c. P c \<Longrightarrow> plain_url_char c \<and> c \<notin> set ds) \<Longrightarrow> free_of ds s"
  by (auto simp: free_of_def list_all_iff)

lemma free_ofD: "free_of ds s \<Longrightarrow> c \<in> set ds \<Longrightarrow> c \<notin> set s"
  by (auto simp: free_of_def list_all_iff)

lemma free_nat_str: "(\<And>c. c \<in> set ds \<Longrightarrow> \<not> is_digit c) \<Longrightarrow> free_of ds (nat_str n)"
  by (auto simp: free_of_def list_all_iff plain_url_char_def is_digit_def dest!: nat_str_digits) 

lemma free_parts:
  "list_all (\<lambda>c. \<not> userinfo_set c) s \<Longrightarrow> free_of ''/?#@'' s"
  "list_all segment_stable ss \<Longrightarrow> free_of ''?#'' (concat (map (\<lambda>s. CHR ''/'' # s) ss))"
  "list_all (\<lambda>c. \<not> query_set c) s \<Longrightarrow> free_of ''#'' s"
  "list_all (\<lambda>c. \<not> fragment_set c) s \<Longrightarrow> free_of [] s"
  "host_stable h \<Longrightarrow> free_of ''/?#@'' h"
proof -
  show "list_all (\<lambda>c. \<not> userinfo_set c) s \<Longrightarrow> free_of ''/?#@'' s"
    by (rule free_ofI, assumption) (use userinfo_set_cases stable_chars in fastforce)
  show "list_all (\<lambda>c. \<not> query_set c) s \<Longrightarrow> free_of ''#'' s"
    by (rule free_ofI, assumption) (auto simp: query_set_def intro: stable_chars)
  show "list_all (\<lambda>c. \<not> fragment_set c) s \<Longrightarrow> free_of [] s"
    by (rule free_ofI, assumption) (auto simp: fragment_set_def intro: stable_chars)
  show "host_stable h \<Longrightarrow> free_of ''/?#@'' h"
    unfolding host_stable_def by (elim conjE, rule free_ofI, assumption) (auto intro: stable_chars)
  have "segment_stable t \<Longrightarrow> free_of ''?#'' t" for t
    unfolding segment_stable_def
    by (elim conjE, rule free_ofI, assumption) (auto simp: path_set_def query_set_def intro: stable_chars)
  moreover have "plain_url_char CHR ''/''" by (simp add: plain_url_char_def)
  ultimately show "list_all segment_stable ss \<Longrightarrow> free_of ''?#'' (concat (map (\<lambda>s. CHR ''/'' # s) ss))"
    by (induction ss) auto
qed


lemma takeWhile_slash:
  "CHR ''/'' \<notin> set a \<Longrightarrow>
   takeWhile (\<lambda>c. c \<noteq> CHR ''/'') (a @ concat (map (\<lambda>s. CHR ''/'' # s) ss)) = a \<and>
   dropWhile (\<lambda>c. c \<noteq> CHR ''/'') (a @ concat (map (\<lambda>s. CHR ''/'' # s) ss)) = concat (map (\<lambda>s. CHR ''/'' # s) ss)"
proof (induction a)
  case Nil
  show ?case by (cases ss) auto
qed auto

lemma scheme_chars: "valid_scheme sch \<Longrightarrow> free_of '':'' sch"
proof -
  have "scheme_char c \<Longrightarrow> plain_url_char c \<and> c \<notin> set '':''" for c
    by (auto simp: scheme_char_def is_alnum_def plain_url_char_def Let_def)
  moreover have "is_alpha c \<Longrightarrow> scheme_char c" for c by (simp add: is_alpha_def scheme_char_def)
  ultimately show "valid_scheme sch \<Longrightarrow> free_of '':'' sch"
    by (auto simp: valid_scheme_def free_of_def list_all_iff split: list.splits)
qed

theorem URL_parse_href:
  assumes "url_stable u"
  shows "URL_parse (URL_href u) = Some u"
proof -
  obtain h ss where h: "u_host u = Some h" and ss: "u_path u = Segments ss"
    using assms by (auto simp: url_stable_def split: option.splits url_path.splits)
  note st = assms [unfolded url_stable_def h ss option.case url_path.case]
  let ?auth = "url_credentials u @ h @ (case u_port u of None \<Rightarrow> [] | Some n \<Rightarrow> CHR '':'' # nat_str n)"
  let ?path = "concat (map (\<lambda>s. CHR ''/'' # s) ss)"
  let ?main = "''//'' @ ?auth @ ?path"
  let ?rest = "?main @ (case u_query u of None \<Rightarrow> [] | Some q \<Rightarrow> CHR ''?'' # q)"
  have punct: "plain_url_char c" if "c \<in> set '':/?#@''" for c
    using that by (auto simp: plain_url_char_def)
  have digit: "c \<in> set ''/?#@'' \<Longrightarrow> \<not> is_digit c" for c by (auto simp: is_digit_def)
  have um: "free_of ''/?#'' (u_username u)" "free_of ''/?#'' (u_password u)"
    by (rule free_of_mono [OF free_parts(1)], use st in simp, simp)+
  have "free_of ''/?#@'' (nat_str n)" for n by (rule free_nat_str) (rule digit)
  then have pm: "free_of ''/?#'' (nat_str n)" for n by (rule free_of_mono) simp
  have hm: "free_of ''/?#'' h" by (rule free_of_mono [OF free_parts(5)]) (use st in simp_all)
  have creds: "free_of ''/?#'' (url_credentials u)"
    using um punct by (simp add: url_credentials_def)
  have auth: "free_of ''/?#'' ?auth"
    using creds hm pm punct by (cases "u_port u") simp_all
  have path: "free_of ''?#'' ?path" by (rule free_parts(2)) (use st in simp)
  have "free_of ''?#'' ?auth" by (rule free_of_mono [OF auth]) simp
  with path punct have main: "free_of ''?#'' ?main" by (simp only: free_of_append) simp
  have qm: "free_of ''#'' (case u_query u of None \<Rightarrow> [] | Some q \<Rightarrow> CHR ''?'' # q)"
    using st free_parts(3) punct by (cases "u_query u") simp_all
  have "free_of ''#'' ?main" by (rule free_of_mono [OF main]) simp
  with qm have rest: "free_of ''#'' ?rest" by (simp only: free_of_append)
  have fm: "free_of [] (case u_fragment u of None \<Rightarrow> [] | Some f \<Rightarrow> CHR ''#'' # f)"
    using st free_parts(4) punct by (cases "u_fragment u") simp_all
  have href: "URL_href u = u_scheme u @ CHR '':'' # ?rest @ (case u_fragment u of None \<Rightarrow> [] | Some f \<Rightarrow> CHR ''#'' # f)"
    by (simp add: URL_href_def h ss path_serialize_def)
  have scheme: "free_of '':'' (u_scheme u)" by (rule scheme_chars) (use st in simp)
  have "free_of [] (u_scheme u)" "free_of [] ?rest"
    by (rule free_of_mono [OF scheme], simp) (rule free_of_mono [OF rest], simp)
  with fm punct have "free_of [] (URL_href u)"
    unfolding href by (simp only: free_of_append free_of_Cons) simp
  then have clean: "url_clean (URL_href u) = URL_href u" by (intro url_clean_id) (simp add: free_of_def list_all_iff)
  have sch: "split_first CHR '':'' (URL_href u)
      = Some (u_scheme u, ?rest @ (case u_fragment u of None \<Rightarrow> [] | Some f \<Rightarrow> CHR ''#'' # f))"
    unfolding href by (rule split_first_append) (rule free_ofD [OF scheme], simp)
  have frag: "split_tail CHR ''#'' (?rest @ (case u_fragment u of None \<Rightarrow> [] | Some f \<Rightarrow> CHR ''#'' # f)) = (?rest, u_fragment u)"
    by (rule split_tail_some) (rule free_ofD [OF rest], simp)
  have query: "split_tail CHR ''?'' ?rest = (?main, u_query u)"
    by (rule split_tail_some) (rule free_ofD [OF main], simp)
  have enc: "map_option (percent_encode query_set) (u_query u) = u_query u"
    "map_option (percent_encode fragment_set) (u_fragment u) = u_fragment u"
    using st by (auto simp: percent_encode_id split: option.splits)
  have slash: "CHR ''/'' \<notin> set ?auth" by (rule free_ofD [OF auth]) simp
  have parts: "takeWhile (\<lambda>c. c \<noteq> CHR ''/'') (drop 2 ?main) = ?auth" "dropWhile (\<lambda>c. c \<noteq> CHR ''/'') (drop 2 ?main) = ?path"
    using takeWhile_slash [OF slash, of ss] by simp_all
  have ap: "authority_parse ?auth = Some (u_username u, u_password u, h, u_port u)"
    by (rule authority_parse_stable [OF assms h])
  have pp: "path_parse ?path = ss" by (rule path_parse_stable) (use st in simp)
  have sw: "starts_with ?main ''//''" by simp
  show ?thesis
    unfolding URL_parse_def clean sch option.case prod.case Let_def frag query if_P [OF sw] parts ap pp enc
    using st h ss by (simp add: url.equality)
qed

interpretation url_text: codec URL_href URL_parse url_stable
  by unfold_locales (rule URL_parse_href)

section \<open>URLs built from a template\<close>

text \<open>
  How the share links use the interface: a URL of a template \<open>scheme://userinfo@host:port\<close>,
  the parameters copied one by one, and the encoded remark as the fragment.
\<close>

definition template_url :: "string \<Rightarrow> string \<Rightarrow> string \<Rightarrow> int \<Rightarrow> url" where
  "template_url sch ui h port =
     \<lparr>u_scheme = sch, u_username = ui, u_password = [], u_host = Some h, u_port = Some (nat port),
      u_path = Segments [], u_query = None, u_fragment = None\<rparr>"

definition template_ok :: "string \<Rightarrow> string \<Rightarrow> string \<Rightarrow> int \<Rightarrow> bool" where
  "template_ok sch ui h port \<longleftrightarrow>
     valid_scheme sch \<and> to_lower sch = sch \<and> sch \<notin> set special_schemes \<and>
     ui \<noteq> [] \<and> list_all (\<lambda>c. \<not> userinfo_set c) ui \<and> host_stable h \<and> 0 \<le> port \<and> port \<le> 65535"

lemma URL_parse_template:
  assumes "template_ok sch ui h port"
  shows "URL_parse (sch @ ''://'' @ ui @ ''@'' @ h @ '':'' @ int_str port) = Some (template_url sch ui h port)"
proof -
  have "url_stable (template_url sch ui h port)"
    using assms by (auto simp: url_stable_def template_url_def template_ok_def)
  moreover have "URL_href (template_url sch ui h port) = sch @ ''://'' @ ui @ ''@'' @ h @ '':'' @ int_str port"
    using assms by (simp add: URL_href_def template_url_def template_ok_def url_credentials_def
        path_serialize_def int_str_def)
  ultimately show ?thesis using URL_parse_href by metis
qed

lemma params_serialize_nonempty: "ps \<noteq> [] \<Longrightarrow> params_serialize ps \<noteq> []"
  by (cases ps; cases "tl ps") (auto simp: params_serialize_def)

lemma set_param_fresh:
  assumes "URL_searchParams u = qs" "params_ok (qs @ [(k, v)])" "params_get qs k = None"
  shows "URL_set_param k v u = u\<lparr>u_query := Some (params_serialize (qs @ [(k, v)]))\<rparr>
    \<and> URL_searchParams (URL_set_param k v u) = qs @ [(k, v)]"
  using assms params_serialize_nonempty [of "qs @ [(k, v)]"]
  by (simp add: URL_set_param_def params_set_new URL_searchParams_def params_parse_serialize)

lemma set_params_fresh:
  assumes "URL_searchParams u = qs" "params_ok (qs @ ps)" "distinct (map fst (qs @ ps))" "ps \<noteq> []"
  shows "foldl (\<lambda>u (k, v). URL_set_param k v u) u ps = u\<lparr>u_query := Some (params_serialize (qs @ ps))\<rparr>"
  using assms
proof (induction ps arbitrary: u qs)
  case (Cons p ps)
  obtain k v where p: "p = (k, v)" by force
  have "params_get qs k = None" using Cons.prems(3) p by (auto simp: params_get_def map_of_eq_None_iff)
  moreover have "params_ok (qs @ [(k, v)])" using Cons.prems(2) p by (auto simp: params_ok_def)
  ultimately have step: "URL_set_param k v u = u\<lparr>u_query := Some (params_serialize (qs @ [(k, v)]))\<rparr>"
      "URL_searchParams (URL_set_param k v u) = qs @ [(k, v)]"
    using set_param_fresh [OF Cons.prems(1)] by blast+
  show ?case
  proof (cases "ps = []")
    case True
    then show ?thesis using step p by simp
  next
    case False
    have "foldl (\<lambda>u (k, v). URL_set_param k v u) (URL_set_param k v u) ps
        = (URL_set_param k v u)\<lparr>u_query := Some (params_serialize ((qs @ [(k, v)]) @ ps))\<rparr>"
      by (rule Cons.IH [OF step(2)]) (use Cons.prems p False in simp_all)
    then show ?thesis using p step(1) by simp
  qed
qed simp

lemma component_chars:
  "component_plain c \<or> c = CHR ''%'' \<Longrightarrow> \<not> fragment_set c \<and> \<not> userinfo_set c \<and> plain_url_char c \<and> c \<noteq> CHR ''#''"
  by (auto simp: component_plain_def is_alnum_def Let_def fragment_set_def userinfo_set_def path_set_def
      query_set_def c0_set_def plain_url_char_def)

lemma encodeURIComponent_chars: "c \<in> set (encodeURIComponent s) \<Longrightarrow> component_plain c \<or> c = CHR ''%''"
  by (auto simp: encodeURIComponent_def percent_encode_def component_plain_def
      split: if_splits dest: percent_byte_chars)

lemma encodeURIComponent_fragment: "list_all (\<lambda>c. \<not> fragment_set c) (encodeURIComponent s)"
  using encodeURIComponent_chars component_chars by (auto simp: list_all_iff)

lemma encodeURIComponent_userinfo: "list_all (\<lambda>c. \<not> userinfo_set c) (encodeURIComponent s)"
  using encodeURIComponent_chars component_chars by (auto simp: list_all_iff)

lemma encodeURIComponent_Nil: "encodeURIComponent s = [] \<longleftrightarrow> s = []"
  by (cases s) (auto simp: encodeURIComponent_def percent_encode_def percent_byte_def)

lemma set_hash_component:
  "URL_set_hash (encodeURIComponent s) u =
     u\<lparr>u_fragment := (if s = [] then None else Some (encodeURIComponent s))\<rparr>"
proof (cases "s = []")
  case False
  let ?e = "encodeURIComponent s"
  have ne: "?e \<noteq> []" using False by (simp add: encodeURIComponent_Nil)
  have "hd ?e \<noteq> CHR ''#''" using ne encodeURIComponent_chars [of "hd ?e" s] component_chars by auto
  moreover have "filter (\<lambda>c. byte c \<notin> {9, 10, 13}) ?e = ?e"
    by (rule filter_True) (use encodeURIComponent_chars component_chars in \<open>fastforce simp: plain_url_char_def\<close>)
  moreover have "percent_encode fragment_set ?e = ?e"
    by (rule percent_encode_id) (rule encodeURIComponent_fragment)
  ultimately show ?thesis using False ne by (simp add: URL_set_hash_def Let_def)
qed (simp add: URL_set_hash_def encodeURIComponent_def percent_encode_def)

lemma form_char_query: "form_char c \<or> c \<in> set ''&='' \<Longrightarrow> \<not> query_set c"
  by (auto simp: form_char_def form_plain_def is_alnum_def Let_def query_set_def c0_set_def)

lemma params_serialize_query: "list_all (\<lambda>c. \<not> query_set c) (params_serialize ps)"
proof -
  have "list_all (\<lambda>c. \<not> query_set c) (join ''&'' xs)"
    if "\<forall>x \<in> set xs. list_all (\<lambda>c. \<not> query_set c) x" for xs
    using that form_char_query [of "CHR ''&''"] by (induction "''&''" xs rule: join.induct) auto
  moreover have "list_all (\<lambda>c. \<not> query_set c) (form_encode s)" for s
    using form_encode_chars form_char_query by (auto simp: list_all_iff)
  ultimately show ?thesis
    using form_char_query [of "CHR ''=''"] unfolding params_serialize_def by (auto simp: split_beta)
qed

text \<open>A finished link parses back to the template with its parameters and fragment.\<close>

definition finished_url :: "string \<Rightarrow> string \<Rightarrow> string \<Rightarrow> int \<Rightarrow> params \<Rightarrow> string \<Rightarrow> url" where
  "finished_url sch ui h port ps remark =
     (template_url sch ui h port)\<lparr>u_query := Some (params_serialize ps),
       u_fragment := (if remark = [] then None else Some (encodeURIComponent remark))\<rparr>"

theorem finished_url_parses:
  assumes "template_ok sch ui h port"
  shows "URL_parse (URL_href (finished_url sch ui h port ps remark)) = Some (finished_url sch ui h port ps remark)"
proof (rule URL_parse_href)
  show "url_stable (finished_url sch ui h port ps remark)"
    using assms params_serialize_query encodeURIComponent_fragment
    by (auto simp: url_stable_def finished_url_def template_url_def template_ok_def)
qed

lemma finished_url_build:
  assumes "params_ok ps" "distinct (map fst ps)" "ps \<noteq> []"
  shows "URL_set_hash (encodeURIComponent remark)
      (foldl (\<lambda>u (k, v). URL_set_param k v u) (template_url sch ui h port) ps)
    = finished_url sch ui h port ps remark"
  using set_params_fresh [of "template_url sch ui h port" "[]" ps] assms
  by (simp add: set_hash_component finished_url_def URL_searchParams_def template_url_def)

lemma finished_url_fields [simp]:
  "u_scheme (finished_url sch ui h port ps remark) = sch"
  "u_username (finished_url sch ui h port ps remark) = ui"
  "URL_hostname (finished_url sch ui h port ps remark) = h"
  "URL_port (finished_url sch ui h port ps remark) = nat_str (nat port)"
  "URL_hash (finished_url sch ui h port ps remark)
     = (if remark = [] then [] else CHR ''#'' # encodeURIComponent remark)"
  by (simp_all add: finished_url_def template_url_def URL_hostname_def URL_port_def URL_hash_def
      encodeURIComponent_Nil)

lemma finished_url_params [simp]:
  "params_ok ps \<Longrightarrow> URL_searchParams (finished_url sch ui h port ps remark) = ps"
  by (simp add: finished_url_def URL_searchParams_def params_parse_serialize)

end
