(* ===== verification/Headers.thy ===== *)
theory Headers
  imports Json
begin

text \<open>
  \<open>lib/xray/headers.ts\<close>: header lists of the forms and header maps of the wire.  A header
  map is a plain object whose values are strings or arrays of strings; a map built from the
  literal \<open>{}\<close> also answers \<open>in\<close> for the properties of \<open>Object.prototype\<close>.
\<close>

section \<open>Conversions\<close>

record header_entry =
  hd_name :: string
  hd_value :: string

definition object_prototype_keys :: "string list" where
  "object_prototype_keys =
     [''constructor'', ''__defineGetter__'', ''__defineSetter__'', ''hasOwnProperty'',
      ''__lookupGetter__'', ''__lookupSetter__'', ''isPrototypeOf'', ''propertyIsEnumerable'',
      ''toString'', ''valueOf'', ''__proto__'', ''toLocaleString'']"

text \<open>\<open>Object.keys\<close> with the values: an array is an object, its keys are the indices.\<close>

definition js_entries :: "js \<Rightarrow> obj" where
  "js_entries v = (case v of
     JObj kvs \<Rightarrow> kvs | JArr xs \<Rightarrow> zip (map nat_str [0..<length xs]) xs | _ \<Rightarrow> [])"

fun js_strings :: "js list \<Rightarrow> string list" where
  "js_strings [] = []"
| "js_strings (v # vs) = (case v of JStr s \<Rightarrow> s # js_strings vs | _ \<Rightarrow> js_strings vs)"

definition header_values :: "js \<Rightarrow> string list" where
  "header_values v = (case v of JStr s \<Rightarrow> [s] | JArr vs \<Rightarrow> js_strings vs | _ \<Rightarrow> [])"

definition toHeaders :: "js \<Rightarrow> header_entry list" where
  "toHeaders v2Headers =
     concat (map (\<lambda>(key, values). map (\<lambda>v. \<lparr>hd_name = key, hd_value = v\<rparr>) (header_values values))
       (js_entries v2Headers))"

text \<open>The loop of \<open>getHeaderValue\<close>: a matching key whose value is neither form is passed over.\<close>

fun header_lookup :: "string \<Rightarrow> obj \<Rightarrow> string" where
  "header_lookup lower [] = []"
| "header_lookup lower ((key, value) # rest) =
     (if to_lower key \<noteq> lower then header_lookup lower rest
      else case value of
          JStr s \<Rightarrow> s
        | JArr [] \<Rightarrow> []
        | JArr (JStr s # _) \<Rightarrow> s
        | JArr (_ # _) \<Rightarrow> []
        | _ \<Rightarrow> header_lookup lower rest)"

definition getHeaderValue :: "js \<Rightarrow> string \<Rightarrow> string" where
  "getHeaderValue headers name = header_lookup (to_lower name) (js_entries headers)"

definition js_in :: "obj \<Rightarrow> string \<Rightarrow> bool" where
  "js_in out name \<longleftrightarrow> js_has out name \<or> name \<in> set object_prototype_keys"

text \<open>Assigning a string to \<open>__proto__\<close> of a plain object changes nothing.\<close>

definition js_assign :: "string \<Rightarrow> js \<Rightarrow> obj \<Rightarrow> obj" where
  "js_assign name v out = (if name = ''__proto__'' then out else js_put name v out)"

definition add_header :: "bool \<Rightarrow> obj \<Rightarrow> header_entry \<Rightarrow> obj" where
  "add_header arr out h =
     (let name = hd_name h; value = hd_value h in
      if name = [] \<or> value = [] then out
      else if \<not> js_in out name then js_assign name (if arr then JArr [JStr value] else JStr value) out
      else (case js_get out name of
          JArr existing \<Rightarrow>
            if arr then js_put name (JArr (existing @ [JStr value])) out
            else js_assign name (JStr value) out
        | _ \<Rightarrow> js_assign name (JStr value) out))"

definition toV2Headers :: "header_entry list \<Rightarrow> bool \<Rightarrow> obj" where
  "toV2Headers headers arr = foldl (add_header arr) [] headers"

section \<open>Properties\<close>

text \<open>The values a map holds under a name, and those a list gives it.\<close>

definition values_at :: "obj \<Rightarrow> string \<Rightarrow> string list" where
  "values_at out n = header_values (js_get out n)"

definition values_of :: "header_entry list \<Rightarrow> string \<Rightarrow> string list" where
  "values_of hs n = map hd_value (filter (\<lambda>h. hd_name h = n \<and> hd_value h \<noteq> []) hs)"

text \<open>An ordinary name: not empty and not a property of \<open>Object.prototype\<close>.\<close>

definition plain_name :: "string \<Rightarrow> bool" where
  "plain_name n \<longleftrightarrow> n \<noteq> [] \<and> n \<notin> set object_prototype_keys"

definition list_at :: "obj \<Rightarrow> string \<Rightarrow> bool" where
  "list_at out n \<longleftrightarrow> js_has out n \<longrightarrow> (\<exists>ss. js_get out n = JArr (map JStr ss))"

lemma js_strings_map [simp]: "js_strings (map JStr ss) = ss"
  by (induction ss) auto

lemma js_strings_append [simp]: "js_strings (xs @ ys) = js_strings xs @ js_strings ys"
  by (induction xs) (auto split: js.splits)

lemma add_header_shape: "add_header arr out h = out \<or> (\<exists>v. add_header arr out h = js_put (hd_name h) v out)"
  by (cases "js_get out (hd_name h)") (simp_all add: add_header_def Let_def js_assign_def, blast+)

lemma add_header_wf: "obj_wf out \<Longrightarrow> obj_wf (add_header arr out h)"
  using add_header_shape [of arr out h] by auto

lemma add_header_other: "hd_name h \<noteq> n \<Longrightarrow> map_of (add_header arr out h) n = map_of out n"
  using add_header_shape [of arr out h] by auto

lemma values_of_Cons:
  "values_of (h # hs) n = (if hd_name h = n \<and> hd_value h \<noteq> [] then [hd_value h] else []) @ values_of hs n"
  by (simp add: values_of_def)

lemma no_key: "\<not> js_has out n \<Longrightarrow> js_get out n = JUndef"
  by (simp add: js_has_def js_get_def)

lemma add_header_list:
  assumes "plain_name n" "list_at out n"
  shows "list_at (add_header True out h) n \<and>
    values_at (add_header True out h) n = values_at out n @ values_of [h] n"
proof (cases "hd_name h = n \<and> hd_value h \<noteq> []")
  case False
  then have "map_of (add_header True out h) n = map_of out n"
    using add_header_other [of h n] by (auto simp: add_header_def)
  with False assms show ?thesis
    by (auto simp: list_at_def values_at_def values_of_def js_has_def js_get_def)
next
  case True
  with assms have name: "n \<noteq> []" "n \<notin> set object_prototype_keys" "n \<noteq> ''__proto__''"
    by (auto simp: plain_name_def object_prototype_keys_def)
  show ?thesis
  proof (cases "js_has out n")
    case False
    with True name have "add_header True out h = js_put n (JArr [JStr (hd_value h)]) out"
      by (simp add: add_header_def js_in_def js_assign_def)
    with False True show ?thesis
      by (auto simp: list_at_def values_at_def values_of_def header_values_def no_key intro: exI [of _ "[_]"])
  next
    case has: True
    then obtain ss where ss: "js_get out n = JArr (map JStr ss)" using assms(2) by (auto simp: list_at_def)
    with True name has have "add_header True out h = js_put n (JArr (map JStr (ss @ [hd_value h]))) out"
      by (simp add: add_header_def js_in_def)
    with True ss show ?thesis
      by (simp add: list_at_def values_at_def values_of_def header_values_def del: map_append)
        (metis)
  qed
qed

lemma toV2Headers_values:
  assumes "plain_name n"
  shows "values_at (toV2Headers hs True) n = values_of hs n"
proof -
  have "list_at out n \<Longrightarrow> values_at (foldl (add_header True) out hs) n = values_at out n @ values_of hs n" for out
  proof (induction hs arbitrary: out)
    case Nil
    show ?case by (simp add: values_of_def)
  next
    case (Cons h hs)
    from add_header_list [OF assms Cons.prems, of h] Cons.IH [of "add_header True out h"] show ?case
      by (simp add: values_of_Cons [of h hs] values_of_Cons [of h "[]"] values_of_def)
  qed
  from this [of "[]"] show ?thesis
    by (simp add: toV2Headers_def list_at_def js_has_def values_at_def header_values_def)
qed

lemma toV2Headers_wf: "obj_wf (toV2Headers hs arr)"
proof -
  have "obj_wf out \<Longrightarrow> obj_wf (foldl (add_header arr) out hs)" for out
    by (induction hs arbitrary: out) (auto simp: add_header_wf)
  then show ?thesis by (simp add: toV2Headers_def)
qed

lemma toHeaders_values:
  "obj_wf out \<Longrightarrow> map hd_value (filter (\<lambda>h. hd_name h = n) (toHeaders (JObj out))) = values_at out n"
proof (induction out)
  case Nil
  show ?case by (simp add: toHeaders_def js_entries_def values_at_def header_values_def)
next
  case (Cons kv out)
  obtain k v where kv: "kv = (k, v)" by force
  have head: "toHeaders (JObj ((k, v) # out)) = map (\<lambda>w. \<lparr>hd_name = k, hd_value = w\<rparr>) (header_values v) @ toHeaders (JObj out)"
    by (simp add: toHeaders_def js_entries_def kv)
  have wf: "obj_wf out" "k \<notin> fst ` set out" using Cons.prems kv by (auto simp: obj_wf_def)
  then have "values_at out k = []" by (simp add: values_at_def no_key js_has_iff header_values_def)
  then show ?case using Cons.IH [OF wf(1)] kv
    by (simp add: head filter_map o_def values_at_def)
qed

text \<open>Writing a header list as a wire map and reading it back keeps, under every ordinary name,
  exactly the non-empty values of the list in their order.\<close>

theorem headers_roundtrip:
  assumes "plain_name n"
  shows "map hd_value (filter (\<lambda>h. hd_name h = n) (toHeaders (JObj (toV2Headers hs True)))) = values_of hs n"
  by (simp add: toHeaders_values toV2Headers_wf toV2Headers_values assms)

lemma headers_roundtrip_witness:
  "map hd_value (filter (\<lambda>h. hd_name h = ''Host'') (toHeaders (JObj (toV2Headers
     [\<lparr>hd_name = ''Host'', hd_value = ''a''\<rparr>, \<lparr>hd_name = ''X'', hd_value = ''b''\<rparr>, \<lparr>hd_name = ''Host'', hd_value = ''c''\<rparr>]
     True)))) = [''a'', ''c'']"
  by (subst headers_roundtrip) code_simp+

text \<open>The shadowed names are a real exception: \<open>'constructor' in {}\<close> holds, so the first value is
  stored as a string and every later one replaces it.\<close>

lemma headers_constructor:
  "toV2Headers [\<lparr>hd_name = ''constructor'', hd_value = ''a''\<rparr>, \<lparr>hd_name = ''constructor'', hd_value = ''b''\<rparr>] True
     = [(''constructor'', JStr ''b'')]"
  by code_simp

lemma header_lookup_miss:
  "(\<forall>k \<in> fst ` set out. to_lower k \<noteq> lower) \<Longrightarrow> header_lookup lower out = []"
  by (induction out) auto

lemma header_lookup_hit:
  "obj_wf out \<Longrightarrow> (\<forall>k \<in> fst ` set out. to_lower k = lower \<longrightarrow> k = n) \<Longrightarrow> to_lower n = lower \<Longrightarrow>
   js_get out n = JArr (map JStr ss) \<Longrightarrow> header_lookup lower out = (case ss of [] \<Rightarrow> [] | s # _ \<Rightarrow> s)"
proof (induction out)
  case (Cons kv out)
  obtain k v where kv: "kv = (k, v)" by force
  show ?case
  proof (cases "k = n")
    case True
    then have "v = JArr (map JStr ss)" using Cons.prems(4) kv by simp
    with True Cons.prems(3) kv show ?thesis by (cases ss) simp_all
  next
    case False
    have "header_lookup lower out = (case ss of [] \<Rightarrow> [] | s # _ \<Rightarrow> s)"
      by (rule Cons.IH) (use Cons.prems False kv in \<open>simp_all add: obj_wf_def\<close>)
    moreover have "to_lower k \<noteq> lower" using Cons.prems(2) False kv by auto
    ultimately show ?thesis by (simp add: kv)
  qed
qed simp

end
