(* ===== verification/Wireguard.thy ===== *)
theory Wireguard
  imports WebUrl "HOL-Library.Word"
begin

text \<open>
  The class \<open>Wireguard\<close> of \<open>utils/index.ts\<close>: Curve25519 keys.  A field element is a
  \<open>Float64Array(16)\<close> of base-65536 limbs, represented by a list of 16 integers (every limb
  the program computes is far below \<open>2^53\<close>, where a double is exact); the bitwise operators
  first convert their operands to signed 32-bit integers.  Keys are byte lists.
\<close>

unbundle bit_operations_syntax

section \<open>Limbs\<close>

type_synonym fe = "int list"

definition to_int32 :: "int \<Rightarrow> int" where
  "to_int32 x = (x + 2147483648) mod 4294967296 - 2147483648"

definition gf :: "int list \<Rightarrow> fe" where
  "gf init = take 16 (init @ replicate 16 0)"

definition carry_step :: "fe \<Rightarrow> nat \<Rightarrow> fe" where
  "carry_step o' i =
     (let j = (i + 1) mod 16;
          o1 = o'[j := o' ! j + (if i < 15 then 1 else 38) * (o' ! i div 65536)]
      in o1[i := to_int32 (o1 ! i) AND 65535])"

definition carry :: "fe \<Rightarrow> fe" where
  "carry o' = foldl carry_step o' [0..<16]"

text \<open>\<open>cswap\<close> updates both of its arguments.\<close>

definition cswap :: "fe \<Rightarrow> fe \<Rightarrow> int \<Rightarrow> fe \<times> fe" where
  "cswap p q b =
     (let c = NOT (b - 1);
          t = map2 (\<lambda>x y. c AND (to_int32 x XOR to_int32 y)) p q
      in (map2 (\<lambda>x s. to_int32 x XOR s) p t, map2 (\<lambda>y s. to_int32 y XOR s) q t))"

definition fe_add :: "fe \<Rightarrow> fe \<Rightarrow> fe" where
  "fe_add a b = map2 (\<lambda>x y. to_int32 (x + y)) a b"

definition fe_subtract :: "fe \<Rightarrow> fe \<Rightarrow> fe" where
  "fe_subtract a b = map2 (\<lambda>x y. to_int32 (x - y)) a b"

definition mult_row :: "fe \<Rightarrow> fe \<Rightarrow> int list \<Rightarrow> nat \<Rightarrow> int list" where
  "mult_row a b t i = foldl (\<lambda>t j. t[i + j := t ! (i + j) + a ! i * b ! j]) t [0..<16]"

definition mult_fold :: "int list \<Rightarrow> int list" where
  "mult_fold t = foldl (\<lambda>t i. t[i := t ! i + 38 * t ! (i + 16)]) t [0..<15]"

definition multmod :: "fe \<Rightarrow> fe \<Rightarrow> fe" where
  "multmod a b = carry (carry (take 16 (mult_fold (foldl (mult_row a b) (replicate 31 0) [0..<16]))))"

definition invert_step :: "fe \<Rightarrow> fe \<Rightarrow> nat \<Rightarrow> fe" where
  "invert_step i c a = (let c2 = multmod c c in if a \<noteq> 2 \<and> a \<noteq> 4 then multmod c2 i else c2)"

definition invert :: "fe \<Rightarrow> fe" where
  "invert i = foldl (invert_step i) i (rev [0..<254])"

text \<open>One conditional subtraction of the modulus in \<open>pack\<close>.\<close>

definition pack_borrow :: "fe \<Rightarrow> fe \<Rightarrow> nat \<Rightarrow> fe" where
  "pack_borrow t m i =
     (let m1 = m[i := t ! i - 65535 - (drop_bit 16 (to_int32 (m ! (i - 1))) AND 1)]
      in m1[i - 1 := to_int32 (m1 ! (i - 1)) AND 65535])"

definition pack_round :: "fe \<Rightarrow> fe" where
  "pack_round t =
     (let m0 = (gf [])[0 := t ! 0 - 65517];
          m1 = foldl (pack_borrow t) m0 [1..<15];
          m2 = m1[15 := t ! 15 - 32767 - (drop_bit 16 (to_int32 (m1 ! 14)) AND 1)];
          b = drop_bit 16 (to_int32 (m2 ! 15)) AND 1;
          m3 = m2[14 := to_int32 (m2 ! 14) AND 65535]
      in fst (cswap t m3 (1 - b)))"

text \<open>Writing a number into a \<open>Uint8Array\<close> keeps its low byte.\<close>

definition uint8 :: "int \<Rightarrow> char" where
  "uint8 x = char_of (nat (x mod 256))"

definition pack :: "fe \<Rightarrow> string" where
  "pack n =
     (let t = pack_round (pack_round (carry (carry (carry n))))
      in concat (map (\<lambda>x. [uint8 (to_int32 x AND 255), uint8 (drop_bit 8 (to_int32 x))]) t))"

section \<open>Keys\<close>

definition ubyte :: "char \<Rightarrow> int" where
  "ubyte c = int (of_char c)"

definition key_clamp :: "string \<Rightarrow> string" where
  "key_clamp z =
     (let z1 = z[31 := uint8 ((ubyte (z ! 31) AND 127) OR 64)]
      in z1[0 := uint8 (ubyte (z1 ! 0) AND 248)])"

text \<open>The working registers of the ladder.\<close>

record ladder =
  l_a :: fe
  l_b :: fe
  l_c :: fe
  l_d :: fe

definition ladder_swap :: "int \<Rightarrow> ladder \<Rightarrow> ladder" where
  "ladder_swap r s =
     (let (a, b) = cswap (l_a s) (l_b s) r; (c, d) = cswap (l_c s) (l_d s) r
      in \<lparr>l_a = a, l_b = b, l_c = c, l_d = d\<rparr>)"

definition ladder_arith :: "ladder \<Rightarrow> ladder" where
  "ladder_arith s =
     (let a = l_a s; b = l_b s; c = l_c s; d = l_d s;
          e = fe_add a c;
          a = fe_subtract a c;
          c = fe_add b d;
          b = fe_subtract b d;
          d = multmod e e;
          f = multmod a a;
          a = multmod c a;
          c = multmod b e;
          e = fe_add a c;
          a = fe_subtract a c;
          b = multmod a a;
          c = fe_subtract d f;
          a = multmod c (gf [56129, 1]);
          a = fe_add a d;
          c = multmod c a;
          a = multmod d f;
          d = multmod b (gf [9]);
          b = multmod e e
      in \<lparr>l_a = a, l_b = b, l_c = c, l_d = d\<rparr>)"

definition ladder_step :: "string \<Rightarrow> ladder \<Rightarrow> nat \<Rightarrow> ladder" where
  "ladder_step z s i =
     (let r = drop_bit (i mod 8) (ubyte (z ! (i div 8))) AND 1
      in ladder_swap r (ladder_arith (ladder_swap r s)))"

definition generatePublicKey :: "string \<Rightarrow> string" where
  "generatePublicKey privateKey =
     (let z = key_clamp (take 32 (privateKey @ replicate 32 (CHR 0x00)));
          s = foldl (ladder_step z) \<lparr>l_a = gf [1], l_b = gf [9], l_c = gf [], l_d = gf [1]\<rparr> (rev [0..<255])
      in pack (multmod (l_a s) (invert (l_c s))))"

text \<open>The random bytes of \<open>crypto.getRandomValues\<close> are an argument.\<close>

definition generatePresharedKey :: "string \<Rightarrow> string" where
  "generatePresharedKey random = take 32 (random @ replicate 32 (CHR 0x00))"

definition generatePrivateKey :: "string \<Rightarrow> string" where
  "generatePrivateKey random = key_clamp (generatePresharedKey random)"

section \<open>Base64 of keys\<close>

text \<open>A read past the end of the array is \<open>undefined\<close>, which the operators turn into 0.\<close>

definition byte_at :: "string \<Rightarrow> nat \<Rightarrow> int" where
  "byte_at src i = (if i < length src then ubyte (src ! i) else 0)"

definition key_sextets :: "string \<Rightarrow> int list" where
  "key_sextets src =
     (let s0 = byte_at src 0; s1 = byte_at src 1; s2 = byte_at src 2 in
      [drop_bit 2 s0 AND 63,
       (push_bit 4 s0 OR drop_bit 4 s1) AND 63,
       (push_bit 2 s1 OR drop_bit 6 s2) AND 63,
       s2 AND 63])"

definition key_char :: "int \<Rightarrow> char" where
  "key_char x = uint8 (x + 65
     + (drop_bit 8 (25 - x) AND 6)
     - (drop_bit 8 (51 - x) AND 75)
     - (drop_bit 8 (61 - x) AND 15)
     + (drop_bit 8 (62 - x) AND 3))"

definition encodeBase64 :: "string \<Rightarrow> string" where
  "encodeBase64 src = map key_char (key_sextets src)"

text \<open>
  The loop runs for \<open>i = 0 .. 10\<close> (\<open>i < 32 / 3\<close>); the call after it writes past the end of the
  44 characters, and the last character is then set to \<open>=\<close>.
\<close>

definition keyToBase64 :: "string \<Rightarrow> string" where
  "keyToBase64 key =
     (concat (map (\<lambda>i. encodeBase64 (drop (3 * i) key)) [0..<11]))[43 := CHR ''='']"

definition keyFromBase64 :: "string \<Rightarrow> string option" where
  "keyFromBase64 encoded = atob encoded"

record keypair =
  kp_public :: string
  kp_private :: string

text \<open>\<open>None\<close> is the exception of \<open>atob\<close>.\<close>

definition generateKeypair :: "string \<Rightarrow> string \<Rightarrow> keypair option" where
  "generateKeypair random secretKey =
     (let privateKey = (if secretKey \<noteq> [] then keyFromBase64 secretKey else Some (generatePrivateKey random))
      in map_option (\<lambda>k. \<lparr>kp_public = keyToBase64 (generatePublicKey k),
                          kp_private = (if secretKey \<noteq> [] then secretKey else keyToBase64 k)\<rparr>) privateKey)"

section \<open>Field arithmetic\<close>

definition fe_val :: "int list \<Rightarrow> int" where
  "fe_val o' = (\<Sum>k < length o'. o' ! k * 65536 ^ k)"

definition p25519 :: int where
  "p25519 = 2 ^ 255 - 19"

lemma fe_val_update:
  assumes "k < length o'"
  shows "fe_val (o'[k := x]) = fe_val o' + (x - o' ! k) * 65536 ^ k"
proof -
  have "fe_val (o'[k := x]) = (\<Sum>j < length o'. o' ! j * 65536 ^ j + (if j = k then (x - o' ! k) * 65536 ^ k else 0))"
    unfolding fe_val_def using assms by (auto intro!: sum.cong simp: nth_list_update algebra_simps)
  also have "\<dots> = fe_val o' + (x - o' ! k) * 65536 ^ k"
    using assms by (simp add: sum.distrib fe_val_def)
  finally show ?thesis .
qed

lemma to_int32_and: "to_int32 x AND 65535 = x mod 65536"
proof -
  have "to_int32 x AND 65535 = to_int32 x mod 2 ^ 16"
    using take_bit_eq_mask [of 16 "to_int32 x"] by (simp add: take_bit_eq_mod mask_eq_exp_minus_1)
  also have "to_int32 x mod 2 ^ 16 = ((x + 2147483648) mod 4294967296 mod 65536 - 2147483648) mod 65536"
    by (simp add: to_int32_def mod_diff_left_eq)
  also have "(x + 2147483648) mod 4294967296 mod 65536 = (x + 2147483648) mod 65536"
    by (rule mod_mod_cancel) simp
  also have "((x + 2147483648) mod 65536 - 2147483648) mod 65536 = x mod 65536"
    by (simp only: mod_diff_left_eq add_diff_cancel_right')
  finally show ?thesis .
qed

definition cong_p :: "int \<Rightarrow> int \<Rightarrow> bool" where
  "cong_p x y \<longleftrightarrow> p25519 dvd x - y"

lemma cong_p_refl [simp]: "cong_p x x"
  by (simp add: cong_p_def)

lemma cong_p_sym: "cong_p x y \<Longrightarrow> cong_p y x"
  by (simp add: cong_p_def dvd_diff_commute)

lemma cong_p_trans: "cong_p x y \<Longrightarrow> cong_p y z \<Longrightarrow> cong_p x z"
  unfolding cong_p_def by (metis diff_add_cancel dvd_add_right_iff add_diff_eq)

lemma cong_p_mult: "cong_p x x' \<Longrightarrow> cong_p y y' \<Longrightarrow> cong_p (x * y) (x' * y')"
proof -
  have "x * y - x' * y' = (x - x') * y + x' * (y - y')" by (simp add: algebra_simps)
  then show "cong_p x x' \<Longrightarrow> cong_p y y' \<Longrightarrow> cong_p (x * y) (x' * y')" by (simp add: cong_p_def)
qed

lemma cong_p_add: "cong_p x x' \<Longrightarrow> cong_p y y' \<Longrightarrow> cong_p (x + y) (x' + y')"
  unfolding cong_p_def by (metis add_diff_add dvd_add)

lemma cong_p_mod: "cong_p x y \<longleftrightarrow> x mod p25519 = y mod p25519"
  by (simp add: cong_p_def mod_eq_dvd_iff)

text \<open>The top carry wraps around because \<open>2^256\<close> is \<open>38\<close> modulo the prime.\<close>

lemma wrap_p: "cong_p (38 * x) (x * 65536 ^ 16)"
proof -
  have "38 * x - x * 65536 ^ 16 = p25519 * (- 2 * x)" by (simp add: p25519_def)
  then show ?thesis unfolding cong_p_def by (metis dvd_triv_left)
qed

lemma length_carry_step [simp]: "length (carry_step o' i) = length o'"
  by (simp add: carry_step_def Let_def)

lemma carry_step_val:
  assumes "length o' = 16" "i < 16"
  shows "cong_p (fe_val (carry_step o' i)) (fe_val o')"
proof -
  define x where "x = o' ! i div 65536"
  define j where "j = (i + 1) mod 16"
  define m :: int where "m = (if i < 15 then 1 else 38)"
  have "j = (if i < 15 then i + 1 else 0)" using assms(2) by (cases "i = 15") (auto simp: j_def)
  then have j: "j < length o'" "j \<noteq> i" using assms by auto
  let ?o1 = "o'[j := o' ! j + m * x]"
  have step: "carry_step o' i = ?o1[i := o' ! i mod 65536]"
    using j assms by (simp add: carry_step_def x_def j_def m_def to_int32_and Let_def)
  have rem: "o' ! i mod 65536 - o' ! i = - (65536 * x)"
    by (simp add: x_def minus_mult_div_eq_mod [symmetric])
  have "fe_val (carry_step o' i) = fe_val ?o1 + (o' ! i mod 65536 - o' ! i) * 65536 ^ i"
    unfolding step using fe_val_update [of i ?o1 "o' ! i mod 65536"] assms j by simp
  also have "fe_val ?o1 = fe_val o' + m * x * 65536 ^ j"
    using fe_val_update [OF j(1)] by simp
  finally have val: "fe_val (carry_step o' i) = fe_val o' + (m * x * 65536 ^ j - x * 65536 ^ (i + 1))"
    unfolding rem by simp
  show ?thesis
  proof (cases "i < 15")
    case True
    then have "j = i + 1" by (simp add: j_def)
    with True val show ?thesis by (simp add: m_def)
  next
    case False
    with assms have "i = 15" by simp
    then have "fe_val (carry_step o' i) - fe_val o' = 38 * x - x * 65536 ^ 16"
      using val by (simp add: m_def j_def)
    then show ?thesis using wrap_p [of x] by (simp only: cong_p_def)
  qed
qed

lemma carry_val:
  assumes "length o' = 16"
  shows "length (carry o') = 16 \<and> cong_p (fe_val (carry o')) (fe_val o')"
proof -
  have "n \<le> 16 \<Longrightarrow> length (foldl carry_step o' [0..<n]) = 16
      \<and> cong_p (fe_val (foldl carry_step o' [0..<n])) (fe_val o')" for n
  proof (induction n)
    case (Suc n)
    then show ?case using carry_step_val [of "foldl carry_step o' [0..<n]" n]
      by (auto intro: cong_p_trans)
  qed (use assms in simp)
  from this [of 16] show ?thesis by (simp add: carry_def)
qed

subsection \<open>Multiplication\<close>

lemma mult_row_val:
  assumes "length t = 31" "i < 16" "length b = 16"
  shows "length (mult_row a b t i) = 31 \<and> fe_val (mult_row a b t i) = fe_val t + a ! i * 65536 ^ i * fe_val b"
proof -
  let ?step = "\<lambda>t j. t[i + j := t ! (i + j) + a ! i * b ! j]"
  have "n \<le> 16 \<Longrightarrow> length (foldl ?step t [0..<n]) = 31 \<and>
      fe_val (foldl ?step t [0..<n]) = fe_val t + a ! i * 65536 ^ i * (\<Sum>j < n. b ! j * 65536 ^ j)" for n
  proof (induction n)
    case (Suc n)
    define T where "T = foldl ?step t [0..<n]"
    have T: "length T = 31" "fe_val T = fe_val t + a ! i * 65536 ^ i * (\<Sum>j < n. b ! j * 65536 ^ j)"
      using Suc by (simp_all add: T_def)
    have "fe_val (?step T n) = fe_val T + a ! i * b ! n * 65536 ^ (i + n)"
      using fe_val_update [of "i + n" T] T(1) Suc.prems assms(2) by simp
    also have "\<dots> = fe_val t + a ! i * 65536 ^ i * (\<Sum>j < Suc n. b ! j * 65536 ^ j)"
      by (simp add: T(2) distrib_left power_add)
    finally show ?case using T(1) by (simp add: T_def)
  qed (use assms in simp)
  moreover have "fe_val b = (\<Sum>j < 16. b ! j * 65536 ^ j)" using assms by (simp add: fe_val_def)
  ultimately show ?thesis by (simp add: mult_row_def)
qed

lemma mult_rows_val:
  assumes "length a = 16" "length b = 16"
  shows "length (foldl (mult_row a b) (replicate 31 0) [0..<16]) = 31 \<and>
    fe_val (foldl (mult_row a b) (replicate 31 0) [0..<16]) = fe_val a * fe_val b"
proof -
  let ?f = "\<lambda>n. foldl (mult_row a b) (replicate 31 0) [0..<n]"
  have "n \<le> 16 \<Longrightarrow> length (?f n) = 31 \<and> fe_val (?f n) = (\<Sum>i < n. a ! i * 65536 ^ i) * fe_val b" for n
  proof (induction n)
    case (Suc n)
    then show ?case using mult_row_val [of "?f n" n b a] assms by (simp add: algebra_simps)
  next
    case 0
    show ?case by (simp add: fe_val_def)
  qed
  moreover have "fe_val a = (\<Sum>i < 16. a ! i * 65536 ^ i)" using assms by (simp add: fe_val_def)
  ultimately show ?thesis by simp
qed

lemma sum_split_at: "(\<Sum>k < m + n. f k) = (\<Sum>k < m. f k) + (\<Sum>i < (n :: nat). f (m + i) :: int)"
  by (induction n) (auto simp: add.assoc)

lemma fe_val_split:
  assumes "length t = 31"
  shows "fe_val t = fe_val (take 16 t) + (\<Sum>i < 15. t ! (i + 16) * 65536 ^ i) * 65536 ^ 16"
proof -
  have "fe_val t = (\<Sum>k < 16 + 15. t ! k * 65536 ^ k)" using assms by (simp add: fe_val_def)
  also have "\<dots> = (\<Sum>k < 16. t ! k * 65536 ^ k) + (\<Sum>i < 15. t ! (16 + i) * 65536 ^ (16 + i))"
    by (rule sum_split_at)
  also have "(\<Sum>k < 16. t ! k * 65536 ^ k) = fe_val (take 16 t)"
    using assms by (simp add: fe_val_def)
  also have "(\<Sum>i < 15. t ! (16 + i) * 65536 ^ (16 + i)) = (\<Sum>i < 15. t ! (i + 16) * 65536 ^ i) * 65536 ^ 16"
    unfolding sum_distrib_right by (rule sum.cong) (simp_all add: power_add add.commute)
  finally show ?thesis .
qed


lemma mult_fold_val:
  assumes "length t = 31"
  shows "length (mult_fold t) = 31 \<and>
    fe_val (take 16 (mult_fold t)) = fe_val (take 16 t) + 38 * (\<Sum>i < 15. t ! (i + 16) * 65536 ^ i)"
proof -
  let ?step = "\<lambda>t i. t[i := t ! i + 38 * t ! (i + 16)]"
  let ?f = "\<lambda>n. foldl ?step t [0..<n]"
  have "n \<le> 15 \<Longrightarrow> length (?f n) = 31 \<and> (\<forall>k \<ge> n. ?f n ! k = t ! k) \<and>
      fe_val (take 16 (?f n)) = fe_val (take 16 t) + 38 * (\<Sum>i < n. t ! (i + 16) * 65536 ^ i)" for n
  proof (induction n)
    case (Suc n)
    define T where "T = ?f n"
    have T: "length T = 31" "\<forall>k \<ge> n. T ! k = t ! k"
        "fe_val (take 16 T) = fe_val (take 16 t) + 38 * (\<Sum>i < n. t ! (i + 16) * 65536 ^ i)"
      using Suc by (simp_all add: T_def)
    have "fe_val (take 16 (?step T n)) = fe_val (take 16 T) + 38 * T ! (n + 16) * 65536 ^ n"
      using fe_val_update [of n "take 16 T"] T(1) Suc.prems by (simp add: take_update_swap)
    with T show ?case by (simp add: T_def distrib_left)
  qed (use assms in simp)
  from this [of 15] show ?thesis by (simp add: mult_fold_def)
qed

lemma cong_p_fold:
  assumes "length t = 31"
  shows "cong_p (fe_val (take 16 (mult_fold t))) (fe_val t)"
  using mult_fold_val [OF assms] fe_val_split [OF assms] wrap_p
  by (auto intro: cong_p_add)

lemma multmod_val:
  assumes "length a = 16" "length b = 16"
  shows "length (multmod a b) = 16 \<and> cong_p (fe_val (multmod a b)) (fe_val a * fe_val b)"
proof -
  let ?t = "foldl (mult_row a b) (replicate 31 0) [0..<16]"
  have t: "length ?t = 31" "fe_val ?t = fe_val a * fe_val b" using mult_rows_val [OF assms] by auto
  let ?o = "take 16 (mult_fold ?t)"
  have o': "length ?o = 16" "cong_p (fe_val ?o) (fe_val ?t)"
    using mult_fold_val [OF t(1)] cong_p_fold [OF t(1)] by auto
  from carry_val [OF o'(1)] have c1: "length (carry ?o) = 16" "cong_p (fe_val (carry ?o)) (fe_val ?o)" by auto
  from carry_val [OF c1(1)] c1(2) o'(2) show ?thesis
    unfolding multmod_def t(2) by (blast intro: cong_p_trans)
qed

subsection \<open>Inversion\<close>

definition invert_exp :: "nat \<Rightarrow> nat \<Rightarrow> nat" where
  "invert_exp e a = (if a \<noteq> 2 \<and> a \<noteq> 4 then 2 * e + 1 else 2 * e)"

lemma invert_step_val:
  assumes "length c = 16" "length i = 16" "cong_p (fe_val c) (fe_val i ^ e)"
  shows "length (invert_step i c a) = 16 \<and> cong_p (fe_val (invert_step i c a)) (fe_val i ^ invert_exp e a)"
proof -
  have sq: "length (multmod c c) = 16" "cong_p (fe_val (multmod c c)) (fe_val i ^ (2 * e))"
    using multmod_val [OF assms(1,1)] cong_p_mult [OF assms(3,3)]
    by (auto simp: mult_2 power_add intro: cong_p_trans)
  then show ?thesis
    using multmod_val [OF sq(1) assms(2)] cong_p_mult [OF sq(2) cong_p_refl [of "fe_val i"]]
    by (auto simp: invert_step_def invert_exp_def mult.commute intro: cong_p_trans)
qed

lemma invert_steps_val:
  "length c = 16 \<Longrightarrow> length i = 16 \<Longrightarrow> cong_p (fe_val c) (fe_val i ^ e) \<Longrightarrow>
   length (foldl (invert_step i) c as) = 16 \<and>
   cong_p (fe_val (foldl (invert_step i) c as)) (fe_val i ^ foldl invert_exp e as)"
proof (induction as arbitrary: c e)
  case (Cons a as)
  have st: "length (invert_step i c a) = 16" "cong_p (fe_val (invert_step i c a)) (fe_val i ^ invert_exp e a)"
    using invert_step_val [OF Cons.prems, of a] by auto
  show ?case using Cons.IH [OF st(1) Cons.prems(2) st(2)] by simp
qed simp

lemma invert_exponent: "foldl invert_exp 1 (rev [0..<254]) = 2 ^ 255 - 21"
  by (simp add: upt_rec invert_exp_def)

text \<open>C35. Multiplication of limbs is multiplication modulo the prime \<open>2^255 - 19\<close>, and the inversion
  chain raises to the power \<open>p - 2\<close>, for all limb values.\<close>

theorem field_operations:
  assumes "length a = 16" "length b = 16"
  shows "fe_val (multmod a b) mod p25519 = fe_val a * fe_val b mod p25519 \<and>
    fe_val (invert a) mod p25519 = fe_val a ^ nat (p25519 - 2) mod p25519"
proof -
  have "cong_p (fe_val (invert a)) (fe_val a ^ (2 ^ 255 - 21))"
    using invert_steps_val [OF assms(1,1), of 1 "rev [0..<254]"] invert_exponent by (simp add: invert_def)
  moreover have "nat (p25519 - 2) = 2 ^ 255 - 21" by (simp add: p25519_def)
  ultimately show ?thesis using multmod_val [OF assms] by (simp add: cong_p_mod)
qed


lemma field_operations_witness:
  "fe_val (multmod (gf [3]) (gf [5])) mod p25519 = 15 \<and> fe_val (invert (gf [1])) mod p25519 = 1"
proof -
  have v: "length (gf [n]) = 16" "fe_val (gf [n]) = n" for n
    by (simp_all add: gf_def fe_val_def numeral_eq_Suc lessThan_Suc)
  have "fe_val (invert (gf [1])) mod p25519 = 1 mod p25519"
    using field_operations [OF v(1) v(1), of 1 1, THEN conjunct2] unfolding v(2) power_one .
  moreover have "fe_val (multmod (gf [3]) (gf [5])) mod p25519 = 15 mod p25519"
    using field_operations [OF v(1) v(1), of 3 5, THEN conjunct1] unfolding v(2) by simp
  ultimately show ?thesis by (simp add: p25519_def)
qed

section \<open>Key text\<close>

lemma mask_of_sign:
  "0 \<le> y \<Longrightarrow> y < 256 \<Longrightarrow> drop_bit 8 y AND k = (0 :: int)"
  "-256 \<le> y \<Longrightarrow> y < 0 \<Longrightarrow> drop_bit 8 y AND k = (k :: int)"
proof -
  show "0 \<le> y \<Longrightarrow> y < 256 \<Longrightarrow> drop_bit 8 y AND k = 0" by (simp add: drop_bit_eq_div)
  assume "-256 \<le> y" "y < 0"
  then have "y div 256 = -1" by (intro int_div_pos_eq [of y 256 "-1" "y + 256"]) simp_all
  then show "drop_bit 8 y AND k = k" by (simp add: drop_bit_eq_div)
qed

lemma b64_val_inj: "b64_val c = Some n \<Longrightarrow> b64_val d = Some n \<Longrightarrow> c = d"
proof -
  assume "b64_val c = Some n" "b64_val d = Some n"
  then have "byte c = byte d" unfolding b64_val_def Let_def
    by (auto split: if_splits simp del: of_char_eq_iff)
  then show "c = d" by simp
qed

lemma key_char_cases:
  assumes "x < 64"
  shows "key_char (int x) = char_of (if x \<le> 25 then x + 65 else if x \<le> 51 then x + 71
    else if x \<le> 61 then x - 4 else if x = 62 then 43 else 47)"
proof -
  have m: "drop_bit 8 (m - int x) AND k = (if int x \<le> m then 0 else k)" if "0 \<le> m" "m < 64" for m k
    using that assms mask_of_sign [of "m - int x" k] by auto
  show ?thesis using assms
    by (auto simp: key_char_def uint8_def m nat_add_distrib)
qed

lemma key_chars: "x < 64 \<Longrightarrow> key_char (int x) = b64_char x"
proof -
  assume x: "x < 64"
  have "b64_val (key_char (int x)) = Some x"
    unfolding key_char_cases [OF x] using x
    by (cases "x \<le> 25"; cases "x \<le> 51"; cases "x \<le> 61"; cases "x = 62")
      (simp_all add: b64_val_def of_char_of Let_def, arith)
  moreover have "b64_val (b64_char x) = Some x" using x by (rule b64_val_char)
  ultimately show "key_char (int x) = b64_char x" by (rule b64_val_inj)
qed

lemma and_63: "(x :: int) AND 63 = x mod 64"
  using take_bit_eq_mask [of 6 x] by (simp add: take_bit_eq_mod mask_eq_exp_minus_1)

lemma push_or: "0 \<le> b \<Longrightarrow> b < 2 ^ n \<Longrightarrow> push_bit n a OR b = a * 2 ^ n + (b :: int)"
proof -
  assume b: "0 \<le> b" "b < 2 ^ n"
  then have "take_bit n b = b" by (simp add: take_bit_int_eq_self)
  then have k: "bit b k \<Longrightarrow> k < n" for k by (metis bit_take_bit_iff)
  then have "push_bit n a + b = push_bit n a OR b"
    by (intro disjunctive_add) (use k in \<open>force simp: bit_push_bit_iff\<close>)
  then show ?thesis by (simp add: push_bit_eq_mult)
qed

lemma ubyte_byte: "ubyte c = int (byte c)" "byte c < 256"
  by (simp_all add: ubyte_def)

lemma digit_mod:
  "0 \<le> d \<Longrightarrow> d < b \<Longrightarrow> 0 < m \<Longrightarrow> (x * b + d) mod (b * m) = (x mod m) * b + (d :: int)"
  by (simp add: zmod_zmult2_eq)

lemma key_sextets_3:
  "key_sextets (a # b # c # r) = map int [byte a div 4, (byte a mod 4) * 16 + byte b div 16,
     (byte b mod 16) * 4 + byte c div 64, byte c mod 64]"
proof -
  have s: "byte_at (a # b # c # r) 0 = int (byte a)" "byte_at (a # b # c # r) 1 = int (byte b)"
      "byte_at (a # b # c # r) 2 = int (byte c)"
    by (simp_all add: byte_at_def ubyte_def)
  have lt: "byte a < 256" "byte b < 256" "byte c < 256" by simp_all
  have q: "int (byte b) div 16 < 16" "int (byte c) div 64 < 4" using lt by linarith+
  have "int (byte a) div 4 mod 64 = int (byte a) div 4" using lt by (intro mod_pos_pos_trivial) linarith+
  then have "drop_bit 2 (int (byte a)) AND 63 = int (byte a div 4)"
    by (simp add: and_63 drop_bit_eq_div zdiv_int)
  moreover have "(push_bit 4 (int (byte a)) OR drop_bit 4 (int (byte b))) AND 63
      = int ((byte a mod 4) * 16 + byte b div 16)"
    using lt push_or [of "int (byte b) div 16" 4 "int (byte a)"] digit_mod [of "int (byte b) div 16" 16 4 "int (byte a)"] q
    by (simp add: and_63 drop_bit_eq_div zdiv_int zmod_int)
  moreover have "(push_bit 2 (int (byte b)) OR drop_bit 6 (int (byte c))) AND 63
      = int ((byte b mod 16) * 4 + byte c div 64)"
    using lt push_or [of "int (byte c) div 64" 2 "int (byte b)"] digit_mod [of "int (byte c) div 64" 4 16 "int (byte b)"] q
    by (simp add: and_63 drop_bit_eq_div zdiv_int zmod_int)
  moreover have "int (byte c) AND 63 = int (byte c mod 64)" by (simp add: and_63 zmod_int)
  ultimately show ?thesis by (simp only: key_sextets_def Let_def s list.map)
qed


lemma encodeBase64_3:
  "encodeBase64 (a # b # c # r) = map b64_char [byte a div 4, byte a mod 4 * 16 + byte b div 16,
     byte b mod 16 * 4 + byte c div 64, byte c mod 64]"
proof -
  have "byte a div 4 < 64" "byte a mod 4 * 16 + byte b div 16 < 64"
      "byte b mod 16 * 4 + byte c div 64 < 64" "byte c mod 64 < 64"
    by (rule sextets_less [of _ "[a, b, c]"], simp)+
  then show ?thesis
    by (simp only: encodeBase64_def key_sextets_3 list.map key_chars)
qed

lemma encodeBase64_2: "encodeBase64 [a, b] = map b64_char (sextets [a, b]) @ [b64_char 0]"
proof -
  have "key_sextets [a, b] = key_sextets [a, b, CHR 0x00]"
    by (simp add: key_sextets_def byte_at_def ubyte_def)
  then show ?thesis using encodeBase64_3 [of a b "CHR 0x00" "[]"] by (simp add: encodeBase64_def)
qed

lemma encode_blocks:
  "length key = 3 * n + 2 \<Longrightarrow>
   concat (map (\<lambda>i. encodeBase64 (drop (3 * i) key)) [0..<Suc n]) = map b64_char (sextets key) @ [b64_char 0]"
proof (induction n arbitrary: key)
  case 0
  then obtain a b where "key = [a, b]" by (auto simp: length_Suc_conv numeral_eq_Suc)
  then show ?case by (simp add: encodeBase64_2)
next
  case (Suc n)
  then obtain a b c r where key: "key = a # b # c # r" "length r = 3 * n + 2"
    by (auto simp: length_Suc_conv numeral_eq_Suc)
  have "[0..<Suc (Suc n)] = 0 # map Suc [0..<Suc n]" by (simp add: upt_conv_Cons map_Suc_upt del: upt_Suc)
  then have "concat (map (\<lambda>i. encodeBase64 (drop (3 * i) key)) [0..<Suc (Suc n)])
      = encodeBase64 key @ concat (map (\<lambda>i. encodeBase64 (drop (3 * i) r)) [0..<Suc n])"
    by (simp add: key o_def numeral_eq_Suc del: upt_Suc)
  then show ?case using Suc.IH [OF key(2)] by (simp add: key encodeBase64_3 del: upt_Suc)
qed

text \<open>The hand-written Base64 of a 32-byte key is the standard Base64, and reading it gives the
  key back.\<close>

theorem key_text_roundtrip:
  assumes "length key = 32"
  shows "keyToBase64 key = btoa key \<and> keyFromBase64 (keyToBase64 key) = Some key"
proof -
  have "concat (map (\<lambda>i. encodeBase64 (drop (3 * i) key)) [0..<Suc 10]) = map b64_char (sextets key) @ [b64_char 0]"
    by (rule encode_blocks) (use assms in simp)
  moreover have "length (sextets key) = 43" using assms by (simp add: length_sextets)
  ultimately have "keyToBase64 key = btoa key"
    using assms by (simp add: keyToBase64_def btoa_sextets padding_def list_update_append del: upt_Suc)
  then show ?thesis by (simp add: keyFromBase64_def)
qed

lemma key_text_roundtrip_witness:
  "keyFromBase64 (keyToBase64 (replicate 32 CHR ''k'')) = Some (replicate 32 CHR ''k'')"
  by (rule key_text_roundtrip [THEN conjunct2]) simp

section \<open>Clamping\<close>

lemma byte_uint8: "0 \<le> y \<Longrightarrow> y < 256 \<Longrightarrow> byte (uint8 y) = nat y"
  by (simp add: uint8_def of_char_of)

lemma clamp_low: "byte (uint8 (ubyte x AND 248)) mod 8 = 0"
proof -
  have b: "0 \<le> ubyte x AND 248" "ubyte x AND 248 < 256"
    using AND_upper2 [of 248 "ubyte x"] by simp_all
  have "(ubyte x AND 248) mod 8 = take_bit 3 (ubyte x AND 248)" by (simp add: take_bit_eq_mod)
  also have "\<dots> = 0" by (simp add: take_bit_and)
  finally show ?thesis using b by (simp add: byte_uint8 nat_mod_distrib [of _ 8, simplified, symmetric])
qed

lemma clamp_high: "64 \<le> byte (uint8 ((ubyte x AND 127) OR 64)) \<and> byte (uint8 ((ubyte x AND 127) OR 64)) < 128"
proof -
  have a: "0 \<le> ubyte x AND 127" "ubyte x AND 127 < 2 ^ 7"
    using AND_upper2 [of 127 "ubyte x"] by simp_all
  then have "(ubyte x AND 127) OR 64 < 2 ^ 7" by (intro OR_upper) simp_all
  moreover have "64 \<le> (ubyte x AND 127) OR 64"
    using or_greater_eq [of "ubyte x AND 127" 64] a(1) by (simp add: or.commute)
  ultimately show ?thesis using byte_uint8 [of "(ubyte x AND 127) OR 64"] by auto
qed

text \<open>A generated private key is a clamped scalar: 32 bytes whose first is a multiple of 8 and
  whose last lies between 64 and 127.\<close>

theorem private_key_clamped:
  "let z = generatePrivateKey random in
     length z = 32 \<and> byte (z ! 0) mod 8 = 0 \<and> 64 \<le> byte (z ! 31) \<and> byte (z ! 31) < 128"
  using clamp_low clamp_high
  by (simp add: generatePrivateKey_def generatePresharedKey_def key_clamp_def Let_def)

end
