(* ===== verification/InboundLink.thy ===== *)
theory InboundLink
  imports XrayTypes WebUrl Headers Wireguard
begin

text \<open>
  \<open>lib/xray/inbound-link.ts\<close>: the generators of share links.  A generator whose URL
  constructor may throw gives a \<open>string option\<close>, \<open>None\<close> being the \<open>TypeError\<close>; the empty
  string means that the inbound has no link of that kind.  An argument with a default is an
  \<open>option\<close>.
\<close>

section \<open>xHTTP and finalmask payloads\<close>

definition xhttpHostFallback :: "xhttp_settings \<Rightarrow> string" where
  "xhttpHostFallback xhttp = getHeaderValue (JObj (xh_headers xhttp)) ''host''"

definition copy_string :: "obj \<Rightarrow> obj \<Rightarrow> string \<Rightarrow> obj" where
  "copy_string xhttp extra k = (case js_get xhttp k of
     JStr v \<Rightarrow> if v \<noteq> [] then js_put k (JStr v) extra else extra | _ \<Rightarrow> extra)"

definition extra_headers :: "obj \<Rightarrow> obj" where
  "extra_headers headers = foldl (\<lambda>m (name, value).
     if to_lower name = ''host'' then m else js_assign name value m) [] headers"

definition buildXhttpExtra :: "xhttp_settings \<Rightarrow> obj option" where
  "buildXhttpExtra xhttp =
     (let knobs = xh_knobs xhttp;
          e1 = copy_string knobs [] ''xPaddingBytes'';
          e2 = (if js_get knobs ''xPaddingObfsMode'' = JBool True
                then foldl (copy_string knobs) (js_put ''xPaddingObfsMode'' (JBool True) e1)
                       [''xPaddingKey'', ''xPaddingHeader'', ''xPaddingPlacement'', ''xPaddingMethod'']
                else e1);
          e3 = foldl (copy_string knobs) e2
                 [''uplinkHTTPMethod'', ''sessionPlacement'', ''sessionKey'', ''seqPlacement'', ''seqKey'',
                  ''uplinkDataPlacement'', ''uplinkDataKey'', ''scMaxEachPostBytes''];
          headersMap = extra_headers (xh_headers xhttp);
          e4 = (if headersMap \<noteq> [] then js_put ''headers'' (JObj headersMap) e3 else e3)
      in if e4 = [] then None else Some e4)"

definition applyXhttpExtraToObj :: "xhttp_settings \<Rightarrow> obj \<Rightarrow> obj" where
  "applyXhttpExtraToObj xhttp o' =
     (let o1 = (case js_get (xh_knobs xhttp) ''xPaddingBytes'' of
                  JStr v \<Rightarrow> if v \<noteq> [] then js_put ''x_padding_bytes'' (JStr v) o' else o' | _ \<Rightarrow> o')
      in case buildXhttpExtra xhttp of None \<Rightarrow> o1 | Some extra \<Rightarrow> js_put_all o1 extra)"

fun hasShareableFinalMaskValue :: "js \<Rightarrow> bool" where
  "hasShareableFinalMaskValue JUndef = False"
| "hasShareableFinalMaskValue JNull = False"
| "hasShareableFinalMaskValue (JArr xs) = list_ex hasShareableFinalMaskValue xs"
| "hasShareableFinalMaskValue (JObj kvs) = list_ex (\<lambda>kv. hasShareableFinalMaskValue (snd kv)) kvs"
| "hasShareableFinalMaskValue (JStr s) = (s \<noteq> [])"
| "hasShareableFinalMaskValue _ = True"

definition serializeFinalMask :: "obj option \<Rightarrow> string" where
  "serializeFinalMask finalmask = (case finalmask of
     None \<Rightarrow> []
   | Some fm \<Rightarrow> if hasShareableFinalMaskValue (JObj fm) then the (JSON_stringify (JObj fm)) else [])"

definition applyFinalMaskToObj :: "obj option \<Rightarrow> obj \<Rightarrow> obj" where
  "applyFinalMaskToObj finalmask o' =
     (let payload = serializeFinalMask finalmask in if payload \<noteq> [] then js_put ''fm'' (JStr payload) o' else o')"

definition externalProxyAlpn :: "string list option \<Rightarrow> string" where
  "externalProxyAlpn value = (case value of Some xs \<Rightarrow> join '','' (nonempty_strings xs) | None \<Rightarrow> [])"

definition externalProxyPins :: "string list option \<Rightarrow> string" where
  "externalProxyPins value = (case value of Some xs \<Rightarrow> join '','' (nonempty_strings xs) | None \<Rightarrow> [])"

definition proxy_sni :: "external_proxy \<Rightarrow> string" where
  "proxy_sni ep = (case ep_sni ep of Some s \<Rightarrow> if s \<noteq> [] then s else ep_dest ep | None \<Rightarrow> ep_dest ep)"

definition opt_str :: "string option \<Rightarrow> string" where
  "opt_str s = (case s of Some t \<Rightarrow> t | None \<Rightarrow> [])"

text \<open>\<open>if (v.length > 0) set(k, v)\<close>, on the object and on the parameters of a link.\<close>

definition put_nonempty :: "string \<Rightarrow> string \<Rightarrow> obj \<Rightarrow> obj" where
  "put_nonempty k v o' = (if v \<noteq> [] then js_put k (JStr v) o' else o')"

definition set_nonempty :: "string \<Rightarrow> string \<Rightarrow> params \<Rightarrow> params" where
  "set_nonempty k v ps = (if v \<noteq> [] then params_set k v ps else ps)"

definition applyExternalProxyTLSObj :: "external_proxy option \<Rightarrow> obj \<Rightarrow> string \<Rightarrow> obj" where
  "applyExternalProxyTLSObj externalProxy o' security = (case externalProxy of
     None \<Rightarrow> o'
   | Some ep \<Rightarrow>
       if security \<noteq> ''tls'' then o'
       else put_nonempty ''pcs'' (externalProxyPins (ep_pinnedPeerCertSha256 ep))
              (put_nonempty ''alpn'' (externalProxyAlpn (ep_alpn ep))
                (put_nonempty ''fp'' (opt_str (ep_fingerprint ep))
                  (put_nonempty ''sni'' (proxy_sni ep) o'))))"

definition applyExternalProxyTLSParams :: "external_proxy option \<Rightarrow> params \<Rightarrow> string \<Rightarrow> params" where
  "applyExternalProxyTLSParams externalProxy ps security = (case externalProxy of
     None \<Rightarrow> ps
   | Some ep \<Rightarrow>
       if security \<noteq> ''tls'' then ps
       else set_nonempty ''pcs'' (externalProxyPins (ep_pinnedPeerCertSha256 ep))
              (set_nonempty ''alpn'' (externalProxyAlpn (ep_alpn ep))
                (set_nonempty ''fp'' (opt_str (ep_fingerprint ep))
                  (set_nonempty ''sni'' (proxy_sni ep) ps))))"

section \<open>VMess links\<close>

definition the_default :: "'a \<Rightarrow> 'a option \<Rightarrow> 'a" where
  "the_default d x = (case x of Some y \<Rightarrow> y | None \<Rightarrow> d)"

definition http_host :: "tcp_request \<Rightarrow> tcp_response option \<Rightarrow> string" where
  "http_host request response =
     (let h = (case response of Some r \<Rightarrow> getHeaderValue (JObj (tr_headers r)) ''host'' | None \<Rightarrow> [])
      in if h \<noteq> [] then h else getHeaderValue (JObj (tq_headers request)) ''host'')"

definition vmess_network :: "network_settings \<Rightarrow> obj \<Rightarrow> obj" where
  "vmess_network net o' = (case net of
     NetTcp tcp \<Rightarrow>
       (case tcp_header tcp of
          None \<Rightarrow> js_put ''type'' (JStr ''none'') o'
        | Some HeaderNone \<Rightarrow> js_put ''type'' (JStr ''none'') o'
        | Some (HeaderHttp request response) \<Rightarrow>
            (let o1 = js_put ''type'' (JStr ''http'') o' in
             case request of
               None \<Rightarrow> o1
             | Some rq \<Rightarrow> put_nonempty ''host'' (http_host rq response)
                 (js_put ''path'' (JStr (join '','' (tq_path rq))) o1)))
   | NetKcp kcp \<Rightarrow> js_put ''tti'' (JInt (kcp_tti kcp)) (js_put ''mtu'' (JInt (kcp_mtu kcp)) o')
   | NetWs ws \<Rightarrow>
       js_put ''host'' (JStr (if ws_host ws \<noteq> [] then ws_host ws else getHeaderValue (JObj (ws_headers ws)) ''host''))
         (js_put ''path'' (JStr (ws_path ws)) o')
   | NetGrpc grpc \<Rightarrow>
       (let o1 = js_put ''authority'' (JStr (grpc_authority grpc)) (js_put ''path'' (JStr (grpc_serviceName grpc)) o')
        in if grpc_multiMode grpc then js_put ''type'' (JStr ''multi'') o1 else o1)
   | NetHttpUpgrade hu \<Rightarrow>
       js_put ''host'' (JStr (if hu_host hu \<noteq> [] then hu_host hu else getHeaderValue (JObj (hu_headers hu)) ''host''))
         (js_put ''path'' (JStr (hu_path hu)) o')
   | NetXHttp xh \<Rightarrow>
       applyXhttpExtraToObj xh
         (js_put ''type'' (JStr (xh_mode xh))
           (js_put ''host'' (JStr (if xh_host xh \<noteq> [] then xh_host xh else xhttpHostFallback xh))
             (js_put ''path'' (JStr (xh_path xh)) o')))
   | NetHysteria _ \<Rightarrow> o')"

definition vmess_tls :: "tls_settings \<Rightarrow> obj \<Rightarrow> obj" where
  "vmess_tls tls o' =
     (let c = tls_client tls;
          o1 = put_nonempty ''sni'' (tls_serverName tls) o';
          o2 = put_nonempty ''fp'' (tc_fingerprint c) o1;
          o3 = (if tls_alpn tls \<noteq> [] then js_put ''alpn'' (JStr (join '','' (tls_alpn tls))) o2 else o2)
      in if tc_pinnedPeerCertSha256 c \<noteq> []
         then js_put ''pcs'' (JStr (join '','' (tc_pinnedPeerCertSha256 c))) o3 else o3)"

text \<open>The object whose JSON text is the payload of a VMess link.\<close>

definition vmess_payload ::
  "inbound \<Rightarrow> stream_settings \<Rightarrow> string \<Rightarrow> int option \<Rightarrow> string \<Rightarrow> string \<Rightarrow> string \<Rightarrow> string option
    \<Rightarrow> external_proxy option \<Rightarrow> obj" where
  "vmess_payload ib stream address port forceTls remark clientId security externalProxy =
     (let tls = (if forceTls = ''same'' then security_name (st_security stream) else forceTls);
          o0 = [(''v'', JStr ''2''), (''ps'', JStr remark), (''add'', JStr address),
                (''port'', JInt (the_default (ib_port ib) port)), (''id'', JStr clientId),
                (''scy'', case security of Some s \<Rightarrow> JStr s | None \<Rightarrow> JUndef),
                (''net'', JStr (network_name (st_network stream))), (''tls'', JStr tls)];
          o1 = applyFinalMaskToObj (st_finalmask stream) (vmess_network (st_network stream) o0);
          o2 = (case st_security stream of SecTls t \<Rightarrow> if tls = ''tls'' then vmess_tls t o1 else o1 | _ \<Rightarrow> o1)
      in applyExternalProxyTLSObj externalProxy o2 tls)"

definition genVmessLink ::
  "inbound \<Rightarrow> string \<Rightarrow> int option \<Rightarrow> string option \<Rightarrow> string option \<Rightarrow> string \<Rightarrow> string option
    \<Rightarrow> external_proxy option \<Rightarrow> string" where
  "genVmessLink ib address port forceTls remark clientId security externalProxy =
     (case (ib_settings ib, ib_stream ib) of
        (Vmess _, Some stream) \<Rightarrow>
          ''vmess://'' @ Base64_encode (the (JSON_stringify_pretty (JObj
             (vmess_payload ib stream address port (the_default ''same'' forceTls) (the_default [] remark)
                clientId security externalProxy)))) False
      | _ \<Rightarrow> [])"

section \<open>Parameters of the URL links\<close>

definition applyXhttpExtraToParams :: "xhttp_settings \<Rightarrow> params \<Rightarrow> params" where
  "applyXhttpExtraToParams xhttp ps =
     (let p1 = params_set ''path'' (xh_path xhttp) ps;
          p2 = params_set ''host'' (if xh_host xhttp \<noteq> [] then xh_host xhttp else xhttpHostFallback xhttp) p1;
          p3 = params_set ''mode'' (xh_mode xhttp) p2;
          p4 = (case js_get (xh_knobs xhttp) ''xPaddingBytes'' of
                  JStr v \<Rightarrow> set_nonempty ''x_padding_bytes'' v p3 | _ \<Rightarrow> p3)
      in case buildXhttpExtra xhttp of
           None \<Rightarrow> p4 | Some extra \<Rightarrow> params_set ''extra'' (the (JSON_stringify (JObj extra))) p4)"

definition applyFinalMaskToParams :: "obj option \<Rightarrow> params \<Rightarrow> params" where
  "applyFinalMaskToParams finalmask ps = set_nonempty ''fm'' (serializeFinalMask finalmask) ps"

text \<open>\<open>writeNetworkParams\<close>; \<open>genVlessLink\<close> has the same statements inline.\<close>

definition writeNetworkParams :: "network_settings \<Rightarrow> params \<Rightarrow> params" where
  "writeNetworkParams net ps = (case net of
     NetTcp tcp \<Rightarrow>
       (case tcp_header tcp of
          Some (HeaderHttp (Some request) response) \<Rightarrow>
            params_set ''headerType'' ''http''
              (set_nonempty ''host'' (http_host request response)
                (params_set ''path'' (join '','' (tq_path request)) ps))
        | _ \<Rightarrow> ps)
   | NetKcp kcp \<Rightarrow>
       params_set ''tti'' (int_str (kcp_tti kcp)) (params_set ''mtu'' (int_str (kcp_mtu kcp)) ps)
   | NetWs ws \<Rightarrow>
       params_set ''host'' (if ws_host ws \<noteq> [] then ws_host ws else getHeaderValue (JObj (ws_headers ws)) ''host'')
         (params_set ''path'' (ws_path ws) ps)
   | NetGrpc grpc \<Rightarrow>
       (let p1 = params_set ''authority'' (grpc_authority grpc) (params_set ''serviceName'' (grpc_serviceName grpc) ps)
        in if grpc_multiMode grpc then params_set ''mode'' ''multi'' p1 else p1)
   | NetHttpUpgrade hu \<Rightarrow>
       params_set ''host'' (if hu_host hu \<noteq> [] then hu_host hu else getHeaderValue (JObj (hu_headers hu)) ''host'')
         (params_set ''path'' (hu_path hu) ps)
   | NetXHttp xh \<Rightarrow> applyXhttpExtraToParams xh ps
   | NetHysteria _ \<Rightarrow> ps)"

definition writeTlsParams :: "security_settings \<Rightarrow> params \<Rightarrow> params" where
  "writeTlsParams sec ps = (case sec of
     SecTls tls \<Rightarrow>
       (let c = tls_client tls;
            p1 = params_set ''fp'' (tc_fingerprint c) ps;
            p2 = params_set ''alpn'' (join '','' (tls_alpn tls)) p1;
            p3 = set_nonempty ''ech'' (tc_echConfigList c) p2;
            p4 = set_nonempty ''sni'' (tls_serverName tls) p3
        in if tc_pinnedPeerCertSha256 c \<noteq> []
           then params_set ''pcs'' (join '','' (tc_pinnedPeerCertSha256 c)) p4 else p4)
   | _ \<Rightarrow> ps)"

text \<open>The server name of a REALITY link: the client's, else the first listed, else the target's host.\<close>

definition reality_sni :: "reality_settings \<Rightarrow> string" where
  "reality_sni r =
     (let client = rc_serverName (re_client r);
          listed = (case re_serverNames r of [] \<Rightarrow> [] | s # _ \<Rightarrow> s)
      in if client \<noteq> [] then client
         else if listed \<noteq> [] then listed
         else hd (split_on CHR '':'' (re_target r)))"

definition writeRealityParams :: "security_settings \<Rightarrow> params \<Rightarrow> params" where
  "writeRealityParams sec ps = (case sec of
     SecReality r \<Rightarrow>
       (let c = re_client r;
            p1 = params_set ''pbk'' (rc_publicKey c) ps;
            p2 = params_set ''fp'' (rc_fingerprint c) p1;
            p3 = set_nonempty ''sni'' (reality_sni r) p2;
            p4 = (case re_shortIds r of [] \<Rightarrow> p3 | sid # _ \<Rightarrow> params_set ''sid'' sid p3);
            p5 = set_nonempty ''spx'' (rc_spiderX c) p4
        in set_nonempty ''pqv'' (rc_mldsa65Verify c) p5)
   | _ \<Rightarrow> ps)"

text \<open>The last lines of every generator: the URL of the template, its parameters, its hash.\<close>

definition link_of_template :: "string \<Rightarrow> params \<Rightarrow> string \<Rightarrow> string option" where
  "link_of_template template ps remark = map_option (\<lambda>u.
     URL_href (URL_set_hash (encodeURIComponent remark) (foldl (\<lambda>u (k, v). URL_set_param k v u) u ps)))
     (URL_parse template)"

definition link_template :: "string \<Rightarrow> string \<Rightarrow> string \<Rightarrow> int \<Rightarrow> string" where
  "link_template sch userinfo address port = sch @ ''://'' @ userinfo @ ''@'' @ address @ '':'' @ int_str port"

section \<open>VLESS, Trojan, Shadowsocks\<close>

text \<open>
  The TLS and REALITY members of a VLESS link: those of the shared writers (with \<open>sni\<close>
  before \<open>ech\<close>) and, on TCP, the flow.
\<close>

definition vless_tls_params :: "network_settings \<Rightarrow> tls_settings \<Rightarrow> string \<Rightarrow> params \<Rightarrow> params" where
  "vless_tls_params net tls flow ps =
     (let c = tls_client tls;
          p1 = params_set ''fp'' (tc_fingerprint c) ps;
          p2 = params_set ''alpn'' (join '','' (tls_alpn tls)) p1;
          p3 = set_nonempty ''sni'' (tls_serverName tls) p2;
          p4 = set_nonempty ''ech'' (tc_echConfigList c) p3;
          p5 = (if tc_pinnedPeerCertSha256 c \<noteq> []
                then params_set ''pcs'' (join '','' (tc_pinnedPeerCertSha256 c)) p4 else p4)
      in if network_name net = ''tcp'' then set_nonempty ''flow'' flow p5 else p5)"

definition vless_security_params ::
  "stream_settings \<Rightarrow> string \<Rightarrow> string \<Rightarrow> external_proxy option \<Rightarrow> params \<Rightarrow> params" where
  "vless_security_params stream security flow externalProxy ps =
     (if security = ''tls'' then
        (let p1 = params_set ''security'' ''tls'' ps;
             p2 = (case st_security stream of
                     SecTls tls \<Rightarrow> vless_tls_params (st_network stream) tls flow p1 | _ \<Rightarrow> p1)
         in applyExternalProxyTLSParams externalProxy p2 security)
      else if security = ''reality'' then
        (let p1 = params_set ''security'' ''reality'' ps
         in case st_security stream of
              SecReality r \<Rightarrow>
                (let p2 = writeRealityParams (SecReality r) p1
                 in if network_name (st_network stream) = ''tcp'' then set_nonempty ''flow'' flow p2 else p2)
            | _ \<Rightarrow> p1)
      else params_set ''security'' ''none'' ps)"

definition vless_params ::
  "stream_settings \<Rightarrow> string \<Rightarrow> string \<Rightarrow> string \<Rightarrow> external_proxy option \<Rightarrow> params" where
  "vless_params stream encryption forceTls flow externalProxy =
     (let security = (if forceTls = ''same'' then security_name (st_security stream) else forceTls);
          p1 = params_set ''encryption'' encryption (params_set ''type'' (network_name (st_network stream)) []);
          p2 = applyFinalMaskToParams (st_finalmask stream) (writeNetworkParams (st_network stream) p1)
      in vless_security_params stream security flow externalProxy p2)"

definition genVlessLink ::
  "inbound \<Rightarrow> string \<Rightarrow> int option \<Rightarrow> string option \<Rightarrow> string option \<Rightarrow> string \<Rightarrow> string option
    \<Rightarrow> external_proxy option \<Rightarrow> string option" where
  "genVlessLink ib address port forceTls remark clientId flow externalProxy =
     (case (ib_settings ib, ib_stream ib) of
        (Vless _ encryption, Some stream) \<Rightarrow>
          link_of_template (link_template ''vless'' clientId address (the_default (ib_port ib) port))
            (vless_params stream encryption (the_default ''same'' forceTls) (the_default [] flow) externalProxy)
            (the_default [] remark)
      | _ \<Rightarrow> Some [])"

definition trojan_params :: "stream_settings \<Rightarrow> string \<Rightarrow> external_proxy option \<Rightarrow> params" where
  "trojan_params stream forceTls externalProxy =
     (let security = (if forceTls = ''same'' then security_name (st_security stream) else forceTls);
          p1 = params_set ''type'' (network_name (st_network stream)) [];
          p2 = applyFinalMaskToParams (st_finalmask stream) (writeNetworkParams (st_network stream) p1)
      in if security = ''tls'' then
           applyExternalProxyTLSParams externalProxy
             (writeTlsParams (st_security stream) (params_set ''security'' ''tls'' p2)) security
         else if security = ''reality'' then
           writeRealityParams (st_security stream) (params_set ''security'' ''reality'' p2)
         else params_set ''security'' ''none'' p2)"

definition genTrojanLink ::
  "inbound \<Rightarrow> string \<Rightarrow> int option \<Rightarrow> string option \<Rightarrow> string option \<Rightarrow> string
    \<Rightarrow> external_proxy option \<Rightarrow> string option" where
  "genTrojanLink ib address port forceTls remark clientPassword externalProxy =
     (case (ib_settings ib, ib_stream ib) of
        (Trojan _, Some stream) \<Rightarrow>
          link_of_template
            (link_template ''trojan'' (encodeURIComponent clientPassword) address (the_default (ib_port ib) port))
            (trojan_params stream (the_default ''same'' forceTls) externalProxy)
            (the_default [] remark)
      | _ \<Rightarrow> Some [])"

definition shadowsocks_params :: "stream_settings \<Rightarrow> string \<Rightarrow> external_proxy option \<Rightarrow> params" where
  "shadowsocks_params stream forceTls externalProxy =
     (let security = (if forceTls = ''same'' then security_name (st_security stream) else forceTls);
          p1 = params_set ''type'' (network_name (st_network stream)) [];
          p2 = applyFinalMaskToParams (st_finalmask stream) (writeNetworkParams (st_network stream) p1)
      in if security = ''tls'' then
           applyExternalProxyTLSParams externalProxy
             (writeTlsParams (st_security stream) (params_set ''security'' ''tls'' p2)) security
         else p2)"

definition ss_multi_user :: "string \<Rightarrow> bool" where
  "ss_multi_user method \<longleftrightarrow> method \<noteq> ''2022-blake3-chacha20-poly1305''"

definition ss_userinfo :: "string \<Rightarrow> string \<Rightarrow> string \<Rightarrow> string" where
  "ss_userinfo method password clientPassword =
     method @ '':'' @ join '':''
       ((if take 4 method = ''2022'' then [password] else [])
        @ (if ss_multi_user method then [clientPassword] else []))"

definition genShadowsocksLink ::
  "inbound \<Rightarrow> string \<Rightarrow> int option \<Rightarrow> string option \<Rightarrow> string option \<Rightarrow> string option
    \<Rightarrow> external_proxy option \<Rightarrow> string option" where
  "genShadowsocksLink ib address port forceTls remark clientPassword externalProxy =
     (case (ib_settings ib, ib_stream ib) of
        (Shadowsocks method password _, Some stream) \<Rightarrow>
          link_of_template
            (link_template ''ss'' (Base64_encode (ss_userinfo method password (the_default [] clientPassword)) True)
               address (the_default (ib_port ib) port))
            (shadowsocks_params stream (the_default ''same'' forceTls) externalProxy)
            (the_default [] remark)
      | _ \<Rightarrow> Some [])"

section \<open>Hysteria\<close>

definition is_hex64 :: "string \<Rightarrow> bool" where
  "is_hex64 s \<longleftrightarrow> length s = 64 \<and> list_all (\<lambda>c. hex_val c \<noteq> None) s"

definition replace_char :: "char \<Rightarrow> char \<Rightarrow> string \<Rightarrow> string" where
  "replace_char a b s = map (\<lambda>c. if c = a then b else c) s"

definition byte_hex :: "char \<Rightarrow> string" where
  "byte_hex c = [hex_char (byte c div 16), hex_char (byte c mod 16)]"

definition hysteriaPinHex :: "string \<Rightarrow> string" where
  "hysteriaPinHex pin =
     (let stripped = filter (\<lambda>c. c \<noteq> CHR '':'') (js_trim pin) in
      if is_hex64 stripped then to_lower stripped
      else (case atob (replace_char CHR ''_'' CHR ''/'' (replace_char CHR ''-'' CHR ''+'' (js_trim pin))) of
              None \<Rightarrow> pin
            | Some binary \<Rightarrow> if length binary \<noteq> 32 then pin else concat (map byte_hex binary)))"

text \<open>\<open>finalmask.udp.find((m) => m?.type === 'salamander')?.settings?.password\<close>.\<close>

definition finalmask_member :: "obj option \<Rightarrow> string \<Rightarrow> js" where
  "finalmask_member fm k = (case fm of Some kvs \<Rightarrow> js_get kvs k | None \<Rightarrow> JUndef)"

definition member_of :: "js \<Rightarrow> string \<Rightarrow> js" where
  "member_of v k = (case v of JObj kvs \<Rightarrow> js_get kvs k | _ \<Rightarrow> JUndef)"

definition salamander_password :: "obj option \<Rightarrow> js" where
  "salamander_password fm = (case finalmask_member fm ''udp'' of
     JArr masks \<Rightarrow>
       (case find (\<lambda>m. member_of m ''type'' = JStr ''salamander'') masks of
          Some m \<Rightarrow> member_of (member_of m ''settings'') ''password''
        | None \<Rightarrow> JUndef)
   | _ \<Rightarrow> JUndef)"

definition hop_ports :: "obj option \<Rightarrow> string" where
  "hop_ports fm = (case member_of (member_of (finalmask_member fm ''quicParams'') ''udpHop'') ''ports'' of
     JStr s \<Rightarrow> js_trim s | _ \<Rightarrow> [])"

definition hysteria_params :: "stream_settings \<Rightarrow> tls_settings \<Rightarrow> external_proxy option \<Rightarrow> params" where
  "hysteria_params stream tls externalProxy =
     (let c = tls_client tls; fm = st_finalmask stream;
          p1 = params_set ''security'' ''tls'' [];
          p2 = set_nonempty ''fp'' (tc_fingerprint c) p1;
          p3 = (if tls_alpn tls \<noteq> [] then params_set ''alpn'' (join '','' (tls_alpn tls)) p2 else p2);
          p4 = set_nonempty ''ech'' (tc_echConfigList c) p3;
          p5 = set_nonempty ''sni'' (tls_serverName tls) p4;
          p6 = (if tc_pinnedPeerCertSha256 c \<noteq> []
                then params_set ''pinSHA256'' (join '','' (map hysteriaPinHex (tc_pinnedPeerCertSha256 c))) p5
                else p5);
          p7 = (case Option.bind externalProxy ep_pinnedPeerCertSha256 of
                  None \<Rightarrow> p6
                | Some pins \<Rightarrow> (let epPins = map hysteriaPinHex (nonempty_strings pins)
                               in if epPins \<noteq> [] then params_set ''pinSHA256'' (join '','' epPins) p6 else p6));
          p8 = (case salamander_password fm of
                  JStr pw \<Rightarrow> if pw \<noteq> [] then params_set ''obfs-password'' pw (params_set ''obfs'' ''salamander'' p7) else p7
                | _ \<Rightarrow> p7);
          p9 = applyFinalMaskToParams fm p8
      in set_nonempty ''mport'' (hop_ports fm) p9)"

definition genHysteriaLink ::
  "inbound \<Rightarrow> string \<Rightarrow> int option \<Rightarrow> string option \<Rightarrow> string \<Rightarrow> external_proxy option \<Rightarrow> string option" where
  "genHysteriaLink ib address port remark clientAuth externalProxy =
     (case (ib_settings ib, ib_stream ib) of
        (Hysteria version _, Some stream) \<Rightarrow>
          (case st_security stream of
             SecTls tls \<Rightarrow>
               link_of_template
                 (link_template (if version = 2 then ''hysteria2'' else ''hysteria'') clientAuth address
                    (the_default (ib_port ib) port))
                 (hysteria_params stream tls externalProxy) (the_default [] remark)
           | _ \<Rightarrow> Some [])
      | _ \<Rightarrow> Some [])"

section \<open>WireGuard\<close>

text \<open>The public key of the server; \<open>None\<close> is the exception of \<open>atob\<close> on a malformed secret key.\<close>

definition server_public_key :: "wireguard_settings \<Rightarrow> string option" where
  "server_public_key st =
     (if wg_secretKey st \<noteq> [] then map_option kp_public (generateKeypair [] (wg_secretKey st)) else Some [])"

definition first_allowed :: "wireguard_peer \<Rightarrow> string" where
  "first_allowed peer = (case wp_allowedIPs peer of [] \<Rightarrow> [] | a # _ \<Rightarrow> a)"

definition wireguard_mtu :: "wireguard_settings \<Rightarrow> string" where
  "wireguard_mtu st = (case wg_mtu st of Some m \<Rightarrow> if 0 < m then int_str m else [] | None \<Rightarrow> [])"

definition set_param_nonempty :: "string \<Rightarrow> string \<Rightarrow> url \<Rightarrow> url" where
  "set_param_nonempty k v u = (if v \<noteq> [] then URL_set_param k v u else u)"

definition genWireguardLink ::
  "wireguard_settings \<Rightarrow> string \<Rightarrow> int \<Rightarrow> string option \<Rightarrow> nat \<Rightarrow> string option" where
  "genWireguardLink st address port remark peerIndex =
     (if length (wg_peers st) \<le> peerIndex then Some []
      else
        let peer = wg_peers st ! peerIndex in
        case (URL_parse (''wireguard://'' @ address @ '':'' @ int_str port), server_public_key st) of
          (Some u, Some pubKey) \<Rightarrow>
            (let u1 = URL_set_username (opt_str (wp_privateKey peer)) u;
                 u2 = set_param_nonempty ''publickey'' pubKey u1;
                 u3 = set_param_nonempty ''address'' (first_allowed peer) u2;
                 u4 = set_param_nonempty ''mtu'' (wireguard_mtu st) u3
             in Some (URL_href (URL_set_hash (encodeURIComponent (the_default [] remark)) u4)))
        | _ \<Rightarrow> None)"

abbreviation newline :: string where "newline \<equiv> [CHR 0x0A]"

definition genWireguardConfig ::
  "wireguard_settings \<Rightarrow> string \<Rightarrow> int \<Rightarrow> string option \<Rightarrow> nat \<Rightarrow> string option" where
  "genWireguardConfig st address port remark peerIndex =
     (if length (wg_peers st) \<le> peerIndex then Some []
      else
        let peer = wg_peers st ! peerIndex in
        map_option (\<lambda>pubKey.
          ''[Interface]'' @ newline
          @ ''PrivateKey = '' @ opt_str (wp_privateKey peer) @ newline
          @ ''Address = '' @ first_allowed peer @ newline
          @ ''DNS = 1.1.1.1, 1.0.0.1'' @ newline
          @ (if wireguard_mtu st \<noteq> [] then ''MTU = '' @ wireguard_mtu st @ newline else [])
          @ newline @ ''# '' @ the_default [] remark @ newline
          @ ''[Peer]'' @ newline
          @ ''PublicKey = '' @ pubKey @ newline
          @ ''AllowedIPs = 0.0.0.0/0, ::/0'' @ newline
          @ ''Endpoint = '' @ address @ '':'' @ int_str port
          @ (case wp_preSharedKey peer of
               Some k \<Rightarrow> if k \<noteq> [] then newline @ ''PresharedKey = '' @ k else [] | None \<Rightarrow> [])
          @ (case wp_keepAlive peer of
               Some n \<Rightarrow> if 0 < n then newline @ ''PersistentKeepalive = '' @ int_str n @ newline else []
             | None \<Rightarrow> []))
          (server_public_key st))"

section \<open>Orchestration\<close>

definition isUnixSocketListen :: "string \<Rightarrow> bool" where
  "isUnixSocketListen listen \<longleftrightarrow> starts_with listen ''/'' \<or> starts_with listen ''@''"

definition resolveAddr :: "inbound \<Rightarrow> string \<Rightarrow> string \<Rightarrow> string" where
  "resolveAddr ib hostOverride fallbackHostname =
     (if hostOverride \<noteq> [] then hostOverride
      else if ib_listen ib \<noteq> [] \<and> ib_listen ib \<noteq> ''0.0.0.0'' \<and> \<not> isUnixSocketListen (ib_listen ib)
      then ib_listen ib
      else fallbackHostname)"

text \<open>\<open>host.trim().replace(/^\[|\]$/g, '')\<close>.\<close>

definition strip_brackets :: "string \<Rightarrow> string" where
  "strip_brackets s =
     (let s1 = (case s of c # r \<Rightarrow> if c = CHR ''['' then r else s | [] \<Rightarrow> [])
      in if s1 \<noteq> [] \<and> last s1 = CHR '']'' then butlast s1 else s1)"

definition isLoopbackHost :: "string \<Rightarrow> bool" where
  "isLoopbackHost host \<longleftrightarrow>
     (let h = to_lower (strip_brackets (js_trim host))
      in h = ''localhost'' \<or> h = ''::1'' \<or> starts_with h ''127.'')"

definition preferPublicHost :: "string \<Rightarrow> string \<Rightarrow> string" where
  "preferPublicHost browserHost publicHost =
     (if publicHost \<noteq> [] \<and> isLoopbackHost browserHost then publicHost else browserHost)"

definition getInboundClients :: "inbound \<Rightarrow> client list option" where
  "getInboundClients ib = (case ib_settings ib of
     Vmess cs \<Rightarrow> Some cs
   | Vless cs _ \<Rightarrow> Some cs
   | Trojan cs \<Rightarrow> Some cs
   | Hysteria _ cs \<Rightarrow> Some cs
   | Shadowsocks method _ cs \<Rightarrow> if ss_multi_user method then Some cs else None
   | _ \<Rightarrow> None)"

definition genLink ::
  "inbound \<Rightarrow> string \<Rightarrow> int option \<Rightarrow> string option \<Rightarrow> string option \<Rightarrow> client
    \<Rightarrow> external_proxy option \<Rightarrow> string option" where
  "genLink ib address port0 forceTls0 remark0 cl externalProxy =
     (let port = Some (the_default (ib_port ib) port0);
          forceTls = Some (the_default ''same'' forceTls0);
          remark = Some (the_default [] remark0)
      in case ib_settings ib of
        Vmess _ \<Rightarrow> Some (genVmessLink ib address port forceTls remark (opt_str (cl_id cl)) (cl_security cl) externalProxy)
      | Vless _ _ \<Rightarrow> genVlessLink ib address port forceTls remark (opt_str (cl_id cl)) (cl_flow cl) externalProxy
      | Shadowsocks method _ _ \<Rightarrow>
          genShadowsocksLink ib address port forceTls remark
            (Some (if ss_multi_user method then opt_str (cl_password cl) else [])) externalProxy
      | Trojan _ \<Rightarrow> genTrojanLink ib address port forceTls remark (opt_str (cl_password cl)) externalProxy
      | Hysteria _ _ \<Rightarrow> genHysteriaLink ib address port remark (opt_str (cl_auth cl)) externalProxy
      | _ \<Rightarrow> Some [])"

text \<open>
  The remark of a link.  The separator and the order are the first and the remaining
  characters of \<open>remarkModel\<close> (ASCII); a character that selects nothing gives an empty part.
\<close>

definition composeRemark :: "string \<Rightarrow> string \<Rightarrow> string \<Rightarrow> string \<Rightarrow> string" where
  "composeRemark remarkModel remark email proxyRemark =
     join (take 1 remarkModel) (nonempty_strings (map
       (\<lambda>c. if c = CHR ''i'' then remark else if c = CHR ''e'' then email
            else if c = CHR ''o'' then proxyRemark else []) (drop 1 remarkModel)))"

record link_entry =
  le_remark :: string
  le_link :: string

definition link_entry_of :: "string \<Rightarrow> string option \<Rightarrow> link_entry option" where
  "link_entry_of r link = map_option (\<lambda>l. \<lparr>le_remark = r, le_link = l\<rparr>) link"

definition genAllLinks ::
  "inbound \<Rightarrow> string option \<Rightarrow> string option \<Rightarrow> client \<Rightarrow> string option \<Rightarrow> string \<Rightarrow> link_entry list option" where
  "genAllLinks ib remark remarkModel cl hostOverride fallbackHostname =
     (let addr = resolveAddr ib (the_default [] hostOverride) fallbackHostname;
          compose = composeRemark (the_default ''-io'' remarkModel) (the_default [] remark) (opt_str (cl_email cl));
          externals = the_default [] (Option.bind (ib_stream ib) st_externalProxy)
      in if externals = [] then
           (let r = compose [] in
            map_option (\<lambda>e. [e]) (link_entry_of r
              (genLink ib addr (Some (ib_port ib)) (Some ''same'') (Some r) cl None)))
         else those (map (\<lambda>ep.
            (let r = compose (ep_remark ep) in
             link_entry_of r (genLink ib (ep_dest ep) (Some (ep_port ep)) (Some (ep_forceTls ep)) (Some r) cl (Some ep))))
            externals))"

abbreviation crlf :: string where "crlf \<equiv> [CHR 0x0D, CHR 0x0A]"

definition wireguard_fanout ::
  "(wireguard_settings \<Rightarrow> string \<Rightarrow> int \<Rightarrow> string option \<Rightarrow> nat \<Rightarrow> string option)
    \<Rightarrow> inbound \<Rightarrow> string option \<Rightarrow> string option \<Rightarrow> string option \<Rightarrow> string \<Rightarrow> string option" where
  "wireguard_fanout gen ib remark remarkModel hostOverride fallbackHostname =
     (case ib_settings ib of
        WireguardIn st \<Rightarrow>
          (let addr = resolveAddr ib (the_default [] hostOverride) fallbackHostname;
               sep = take 1 (the_default ''-io'' remarkModel)
           in map_option (join crlf) (those (map (\<lambda>i.
                gen st addr (ib_port ib) (Some (the_default [] remark @ sep @ nat_str (i + 1))) i)
                [0..<length (wg_peers st)])))
      | _ \<Rightarrow> Some [])"

definition genWireguardLinks ::
  "inbound \<Rightarrow> string option \<Rightarrow> string option \<Rightarrow> string option \<Rightarrow> string \<Rightarrow> string option" where
  "genWireguardLinks = wireguard_fanout genWireguardLink"

definition genWireguardConfigs ::
  "inbound \<Rightarrow> string option \<Rightarrow> string option \<Rightarrow> string option \<Rightarrow> string \<Rightarrow> string option" where
  "genWireguardConfigs = wireguard_fanout genWireguardConfig"

definition genInboundLinks ::
  "inbound \<Rightarrow> string option \<Rightarrow> string option \<Rightarrow> string option \<Rightarrow> string \<Rightarrow> string option" where
  "genInboundLinks ib remark remarkModel hostOverride fallbackHostname =
     (case getInboundClients ib of
        Some clients \<Rightarrow>
          map_option (\<lambda>ess. join crlf (map le_link (concat ess)))
            (those (map (\<lambda>cl. genAllLinks ib remark remarkModel cl hostOverride fallbackHostname) clients))
      | None \<Rightarrow>
          (case ib_settings ib of
             Shadowsocks _ _ _ \<Rightarrow>
               genShadowsocksLink ib (resolveAddr ib (the_default [] hostOverride) fallbackHostname)
                 (Some (ib_port ib)) (Some ''same'') remark None None
           | WireguardIn _ \<Rightarrow> genWireguardConfigs ib remark remarkModel hostOverride fallbackHostname
           | _ \<Rightarrow> Some []))"

definition isPostQuantumLink :: "string \<Rightarrow> bool" where
  "isPostQuantumLink link \<longleftrightarrow>
     str_includes link ''?pqv='' \<or> str_includes link ''&pqv='' \<or>
     str_includes link ''mlkem768'' \<or> str_includes link ''mldsa65'' \<or> str_includes link ''ML-KEM-768''"

end
