(* ===== verification/OutboundLinkParser.thy ===== *)
theory OutboundLinkParser
  imports WebUrl
begin

text \<open>
  \<open>lib/xray/outbound-link-parser.ts\<close>: the parsers of share links.  Each takes a link and
  gives the wire form of an outbound, a plain object, or \<open>None\<close> for \<open>null\<close>; an
  exception inside a \<open>try\<close> block is the \<open>None\<close> of its \<open>catch\<close>.  The objects under
  \<open>streamSettings\<close> are built by \<open>buildStream\<close> and updated in place by the later steps, which
  here return the updated object.
\<close>

section \<open>Object access\<close>

text \<open>\<open>(o.k as Raw).m = v\<close> for a member \<open>k\<close> that holds an object.\<close>

definition put_in :: "string \<Rightarrow> string \<Rightarrow> js \<Rightarrow> obj \<Rightarrow> obj" where
  "put_in k m v o' = js_put k (JObj (js_put m v (js_members (js_get o' k)))) o'"

definition param_str :: "params \<Rightarrow> string \<Rightarrow> string \<Rightarrow> string" where
  "param_str ps k d = (case params_get ps k of None \<Rightarrow> d | Some v \<Rightarrow> v)"

definition js_strs :: "string list \<Rightarrow> js" where
  "js_strs ss = JArr (map JStr ss)"

section \<open>xHTTP members\<close>

definition XHTTP_STRING_KEYS :: "string list" where
  "XHTTP_STRING_KEYS =
     [''xPaddingBytes'', ''xPaddingKey'', ''xPaddingHeader'', ''xPaddingPlacement'',
      ''xPaddingMethod'', ''sessionPlacement'', ''sessionKey'', ''seqPlacement'',
      ''seqKey'', ''uplinkDataPlacement'', ''uplinkDataKey'', ''scMaxEachPostBytes'',
      ''scMinPostsIntervalMs'', ''scStreamUpServerSecs'', ''uplinkHTTPMethod'']"

definition XHTTP_NUMBER_KEYS :: "string list" where
  "XHTTP_NUMBER_KEYS = [''scMaxBufferedPosts'', ''serverMaxHeaderBytes'', ''uplinkChunkSize'']"

definition XHTTP_BOOL_KEYS :: "string list" where
  "XHTTP_BOOL_KEYS = [''xPaddingObfsMode'', ''noSSEHeader'', ''noGRPCHeader'']"

definition asBool :: "string option \<Rightarrow> js" where
  "asBool s = (case s of None \<Rightarrow> JUndef | Some t \<Rightarrow> JBool (t = ''true'' \<or> t = ''1''))"

definition is_jstr :: "js \<Rightarrow> bool" where "is_jstr v = (case v of JStr _ \<Rightarrow> True | _ \<Rightarrow> False)"
definition is_jnum :: "js \<Rightarrow> bool" where "is_jnum v = (case v of JNum _ \<Rightarrow> True | _ \<Rightarrow> False)"
definition is_jbool :: "js \<Rightarrow> bool" where "is_jbool v = (case v of JBool _ \<Rightarrow> True | _ \<Rightarrow> False)"

definition copy_if :: "(js \<Rightarrow> bool) \<Rightarrow> js \<Rightarrow> obj \<Rightarrow> string \<Rightarrow> obj" where
  "copy_if is_type json xhttp k =
     (if is_type (js_member json k) then js_put k (js_member json k) xhttp else xhttp)"

definition applyXhttpStringFromJson :: "obj \<Rightarrow> js \<Rightarrow> obj" where
  "applyXhttpStringFromJson xhttp json =
     foldl (copy_if is_jbool json)
       (foldl (copy_if is_jnum json)
         (foldl (copy_if is_jstr json) xhttp XHTTP_STRING_KEYS)
         XHTTP_NUMBER_KEYS)
       XHTTP_BOOL_KEYS"

definition jnum_or_zero :: "jnum \<Rightarrow> js" where
  "jnum_or_zero n = js_or (JNum n) (JInt 0)"

definition param_member :: "(string \<Rightarrow> js) \<Rightarrow> params \<Rightarrow> obj \<Rightarrow> string \<Rightarrow> obj" where
  "param_member conv ps xhttp k = (case params_get ps k of
     None \<Rightarrow> xhttp | Some v \<Rightarrow> if v = [] then xhttp else js_put k (conv v) xhttp)"

text \<open>
  The \<open>extra\<close> payload: text that is not JSON, or JSON \<open>null\<close>, throws before anything is
  assigned and changes nothing.
\<close>

definition apply_extra :: "obj \<Rightarrow> string \<Rightarrow> obj" where
  "apply_extra xhttp extra = (case JSON_parse extra of
     None \<Rightarrow> xhttp
   | Some JNull \<Rightarrow> xhttp
   | Some parsed \<Rightarrow>
       (let xhttp' = applyXhttpStringFromJson xhttp parsed; h = js_member parsed ''headers''
        in case h of
             JObj _ \<Rightarrow> js_put ''headers'' h xhttp'
           | JArr _ \<Rightarrow> js_put ''headers'' h xhttp'
           | _ \<Rightarrow> xhttp'))"

definition applyXhttpStringFromParams :: "obj \<Rightarrow> params \<Rightarrow> obj" where
  "applyXhttpStringFromParams xhttp ps =
     (let x1 = (case params_get ps ''x_padding_bytes'' of
                  None \<Rightarrow> xhttp | Some v \<Rightarrow> if v = [] then xhttp else js_put ''xPaddingBytes'' (JStr v) xhttp);
          x2 = (case params_get ps ''extra'' of
                  None \<Rightarrow> x1 | Some extra \<Rightarrow> if extra = [] then x1 else apply_extra x1 extra);
          x3 = foldl (param_member JStr ps) x2 XHTTP_STRING_KEYS;
          x4 = foldl (param_member (\<lambda>v. jnum_or_zero (js_number_of_string v)) ps) x3 XHTTP_NUMBER_KEYS
      in foldl (param_member (\<lambda>v. asBool (Some v)) ps) x4 XHTTP_BOOL_KEYS)"

section \<open>Stream settings\<close>

definition default_network_member :: "js \<Rightarrow> obj" where
  "default_network_member network =
     (if network = JStr ''kcp'' then
        [(''kcpSettings'', JObj [(''mtu'', JInt 1350), (''tti'', JInt 20), (''uplinkCapacity'', JInt 5),
           (''downlinkCapacity'', JInt 20), (''cwndMultiplier'', JInt 1), (''maxSendingWindow'', JInt 2097152)])]
      else if network = JStr ''ws'' then
        [(''wsSettings'', JObj [(''path'', JStr ''/''), (''host'', JStr []), (''headers'', JObj []),
           (''heartbeatPeriod'', JInt 0)])]
      else if network = JStr ''grpc'' then
        [(''grpcSettings'', JObj [(''serviceName'', JStr []), (''authority'', JStr []), (''multiMode'', JBool False)])]
      else if network = JStr ''httpupgrade'' then
        [(''httpupgradeSettings'', JObj [(''path'', JStr ''/''), (''host'', JStr []), (''headers'', JObj [])])]
      else if network = JStr ''xhttp'' then
        [(''xhttpSettings'', JObj [(''path'', JStr ''/''), (''host'', JStr []), (''mode'', JStr ''auto''),
           (''headers'', JObj []), (''xPaddingBytes'', JStr ''100-1000''), (''scMaxEachPostBytes'', JStr ''1000000'')])]
      else [(''tcpSettings'', JObj [(''header'', JObj [(''type'', JStr ''none'')])])])"

definition default_security_member :: "string \<Rightarrow> obj" where
  "default_security_member security =
     (if security = ''tls'' then
        [(''tlsSettings'', JObj [(''serverName'', JStr []), (''alpn'', JArr []), (''fingerprint'', JStr []),
           (''echConfigList'', JStr []), (''verifyPeerCertByName'', JStr []), (''pinnedPeerCertSha256'', JStr [])])]
      else if security = ''reality'' then
        [(''realitySettings'', JObj [(''publicKey'', JStr []), (''fingerprint'', JStr ''chrome''),
           (''serverName'', JStr []), (''shortId'', JStr []), (''spiderX'', JStr []), (''mldsa65Verify'', JStr [])])]
      else [])"

definition buildStream :: "js \<Rightarrow> string \<Rightarrow> obj" where
  "buildStream network security =
     [(''network'', network), (''security'', JStr security)]
       @ default_network_member network @ default_security_member security"

definition http_header :: "string \<Rightarrow> string \<Rightarrow> js" where
  "http_header path host =
     JObj [(''type'', JStr ''http''),
       (''request'', JObj [(''version'', JStr ''1.1''), (''method'', JStr ''GET''),
          (''path'', js_strs (nonempty_strings (split_on CHR '','' path))),
          (''headers'', JObj (if host = [] then []
             else [(''Host'', js_strs (nonempty_strings (split_on CHR '','' host)))]))])]"

definition applyTransportParams :: "obj \<Rightarrow> params \<Rightarrow> obj" where
  "applyTransportParams stream ps =
     (let network = js_get stream ''network'';
          host = param_str ps ''host'' [];
          path = param_str ps ''path'' ''/''
      in if network = JStr ''ws'' then
           put_in ''wsSettings'' ''path'' (JStr path) (put_in ''wsSettings'' ''host'' (JStr host) stream)
         else if network = JStr ''grpc'' then
           (let serviceName = (case params_get ps ''serviceName'' of Some s \<Rightarrow> s | None \<Rightarrow> param_str ps ''path'' [])
            in put_in ''grpcSettings'' ''multiMode'' (JBool (params_get ps ''mode'' = Some ''multi''))
                 (put_in ''grpcSettings'' ''authority'' (JStr (param_str ps ''authority'' []))
                   (put_in ''grpcSettings'' ''serviceName'' (JStr serviceName) stream)))
         else if network = JStr ''httpupgrade'' then
           put_in ''httpupgradeSettings'' ''path'' (JStr path)
             (put_in ''httpupgradeSettings'' ''host'' (JStr host) stream)
         else if network = JStr ''xhttp'' then
           (let x1 = js_members (js_get stream ''xhttpSettings'');
                x2 = js_put ''path'' (JStr path) (js_put ''host'' (JStr host) x1);
                x3 = (case params_get ps ''mode'' of
                        None \<Rightarrow> x2 | Some m \<Rightarrow> if m = [] then x2 else js_put ''mode'' (JStr m) x2)
            in js_put ''xhttpSettings'' (JObj (applyXhttpStringFromParams x3 ps)) stream)
         else if network = JStr ''tcp'' then
           (if params_get ps ''headerType'' = Some ''http'' \<or> params_get ps ''type'' = Some ''http''
            then put_in ''tcpSettings'' ''header'' (http_header path host) stream else stream)
         else stream)"

definition applyFinalMaskParam :: "obj \<Rightarrow> params \<Rightarrow> obj" where
  "applyFinalMaskParam stream ps = (case params_get ps ''fm'' of
     None \<Rightarrow> stream
   | Some fm \<Rightarrow>
       if fm = [] then stream
       else (case JSON_parse fm of
          Some (JObj kvs) \<Rightarrow> js_put ''finalmask'' (JObj kvs) stream
        | Some (JArr xs) \<Rightarrow> js_put ''finalmask'' (JArr xs) stream
        | _ \<Rightarrow> stream))"

definition applySecurityParams :: "obj \<Rightarrow> params \<Rightarrow> obj" where
  "applySecurityParams stream ps =
     (if js_get stream ''security'' = JStr ''tls'' then
        (let tls = js_members (js_get stream ''tlsSettings'');
             t1 = js_put ''serverName'' (JStr (param_str ps ''sni'' [])) tls;
             t2 = js_put ''fingerprint'' (JStr (param_str ps ''fp'' [])) t1;
             alpn = param_str ps ''alpn'' [];
             t3 = (if alpn = [] then t2 else js_put ''alpn'' (js_strs (split_on CHR '','' alpn)) t2)
         in js_put ''tlsSettings'' (JObj t3) stream)
      else if js_get stream ''security'' = JStr ''reality'' then
        (let r1 = js_members (js_get stream ''realitySettings'');
             r2 = js_put ''serverName'' (JStr (param_str ps ''sni'' [])) r1;
             r3 = js_put ''fingerprint'' (JStr (param_str ps ''fp'' ''chrome'')) r2;
             r4 = js_put ''publicKey'' (JStr (param_str ps ''pbk'' [])) r3;
             r5 = js_put ''shortId'' (JStr (param_str ps ''sid'' [])) r4;
             r6 = js_put ''spiderX'' (JStr (param_str ps ''spx'' [])) r5;
             r7 = js_put ''mldsa65Verify'' (JStr (param_str ps ''pqv'' [])) r6
         in js_put ''realitySettings'' (JObj r7) stream)
      else stream)"

definition without_hash :: "string \<Rightarrow> string" where
  "without_hash s = (case s of [] \<Rightarrow> [] | c # r \<Rightarrow> if c = CHR ''#'' then r else c # r)"

definition decodeRemark :: "url \<Rightarrow> string" where
  "decodeRemark u = (let h = without_hash (URL_hash u) in
     case decodeURIComponent h of Some s \<Rightarrow> s | None \<Rightarrow> h)"

section \<open>VMess links\<close>

text \<open>\<open>v.split(',')\<close>, which throws (\<open>None\<close>) when \<open>v\<close> is not a string.\<close>

definition js_split_comma :: "js \<Rightarrow> string list option" where
  "js_split_comma v = (case v of JStr s \<Rightarrow> Some (split_on CHR '','' s) | _ \<Rightarrow> None)"

definition vmess_http_header :: "js \<Rightarrow> js option" where
  "vmess_http_header json =
     (case js_split_comma (js_coalesce (js_member json ''path'') (JStr ''/'')) of
        None \<Rightarrow> None
      | Some path \<Rightarrow>
          map_option (\<lambda>headers.
            JObj [(''type'', JStr ''http''),
              (''request'', JObj [(''version'', JStr ''1.1''), (''method'', JStr ''GET''),
                 (''path'', js_strs (nonempty_strings path)), (''headers'', JObj headers)])])
            (if truthy (js_member json ''host'')
             then map_option (\<lambda>h. [(''Host'', js_strs (nonempty_strings h))]) (js_split_comma (js_member json ''host''))
             else Some []))"

definition applyVmessNetwork :: "js \<Rightarrow> js \<Rightarrow> obj \<Rightarrow> obj option" where
  "applyVmessNetwork network json stream =
     (let field = (\<lambda>k d. js_coalesce (js_member json k) d) in
      if network = JStr ''tcp'' \<and> js_member json ''type'' = JStr ''http'' then
        map_option (\<lambda>h. put_in ''tcpSettings'' ''header'' h stream) (vmess_http_header json)
      else if network = JStr ''ws'' then
        Some (put_in ''wsSettings'' ''path'' (field ''path'' (JStr ''/''))
               (put_in ''wsSettings'' ''host'' (field ''host'' (JStr [])) stream))
      else if network = JStr ''grpc'' then
        Some (put_in ''grpcSettings'' ''multiMode'' (JBool (js_member json ''type'' = JStr ''multi''))
               (put_in ''grpcSettings'' ''authority'' (field ''authority'' (JStr []))
                 (put_in ''grpcSettings'' ''serviceName'' (field ''path'' (JStr [])) stream)))
      else if network = JStr ''httpupgrade'' then
        Some (put_in ''httpupgradeSettings'' ''path'' (field ''path'' (JStr ''/''))
               (put_in ''httpupgradeSettings'' ''host'' (field ''host'' (JStr [])) stream))
      else if network = JStr ''xhttp'' then
        (let x1 = js_put ''host'' (field ''host'' (JStr [])) (js_members (js_get stream ''xhttpSettings''));
             x2 = js_put ''path'' (field ''path'' (JStr ''/'')) x1;
             x3 = (if truthy (js_member json ''mode'') then js_put ''mode'' (js_member json ''mode'') x2 else x2)
         in Some (js_put ''xhttpSettings'' (JObj (applyXhttpStringFromJson x3 json)) stream))
      else Some stream)"

definition applyVmessTls :: "string \<Rightarrow> js \<Rightarrow> obj \<Rightarrow> obj option" where
  "applyVmessTls security json stream =
     (if security = ''tls'' then
        (let s1 = put_in ''tlsSettings'' ''fingerprint'' (js_coalesce (js_member json ''fp'') (JStr []))
                   (put_in ''tlsSettings'' ''serverName'' (js_coalesce (js_member json ''sni'') (JStr [])) stream)
         in if truthy (js_member json ''alpn'')
            then map_option (\<lambda>a. put_in ''tlsSettings'' ''alpn'' (js_strs a) s1) (js_split_comma (js_member json ''alpn''))
            else Some s1)
      else Some stream)"

definition vmess_outbound :: "js \<Rightarrow> obj \<Rightarrow> js" where
  "vmess_outbound json stream =
     (let port = js_or (JNum (js_number (js_member json ''port''))) (JInt 443);
          ps = js_member json ''ps''
      in JObj
       [(''protocol'', JStr ''vmess''),
        (''tag'', if is_jstr ps then ps else JStr []),
        (''settings'', JObj [(''vnext'', JArr [JObj
           [(''address'', js_coalesce (js_member json ''add'') (JStr [])),
            (''port'', port),
            (''users'', JArr [JObj [(''id'', js_coalesce (js_member json ''id'') (JStr [])),
                                   (''security'', js_or (js_member json ''scy'') (JStr ''auto''))]])]])]),
        (''streamSettings'', JObj stream)])"

definition parseVmessLink :: "string \<Rightarrow> js option" where
  "parseVmessLink link =
     (if \<not> starts_with link ''vmess://'' then None
      else (case Option.bind (Base64_decode (drop 8 link)) JSON_parse of
         None \<Rightarrow> None
       | Some JNull \<Rightarrow> None
       | Some json \<Rightarrow>
           (let network = js_or (js_member json ''net'') (JStr ''tcp'');
                security = (if js_member json ''tls'' = JStr ''tls'' then ''tls'' else ''none'')
            in map_option (vmess_outbound json)
                 (Option.bind (applyVmessNetwork network json (buildStream network security))
                    (applyVmessTls security json)))))"

section \<open>URL links\<close>

definition parseUrlLink :: "string \<Rightarrow> string \<Rightarrow> url option" where
  "parseUrlLink link expectedProto = (case URL_parse link of
     None \<Rightarrow> None
   | Some u \<Rightarrow> if u_scheme u \<noteq> expectedProto then None else Some u)"

definition url_port_number :: "url \<Rightarrow> js" where
  "url_port_number u = js_or (JNum (js_number_of_string (URL_port u))) (JInt 443)"

definition link_stream :: "params \<Rightarrow> string \<Rightarrow> obj" where
  "link_stream ps default_security =
     (let stream = buildStream (JStr (param_str ps ''type'' ''tcp'')) (param_str ps ''security'' default_security)
      in applyFinalMaskParam (applySecurityParams (applyTransportParams stream ps) ps) ps)"

definition parseVlessLink :: "string \<Rightarrow> js option" where
  "parseVlessLink link = map_option (\<lambda>u.
     (let ps = URL_searchParams u in
      JObj [(''protocol'', JStr ''vless''),
            (''tag'', JStr (decodeRemark u)),
            (''settings'', JObj
               [(''address'', JStr (URL_hostname u)), (''port'', url_port_number u),
                (''id'', JStr (u_username u)),
                (''flow'', JStr (param_str ps ''flow'' [])),
                (''encryption'', JStr (param_str ps ''encryption'' ''none''))]),
            (''streamSettings'', JObj (link_stream ps ''none''))]))
     (parseUrlLink link ''vless'')"

definition parseTrojanLink :: "string \<Rightarrow> js option" where
  "parseTrojanLink link = map_option (\<lambda>u.
     (let ps = URL_searchParams u in
      JObj [(''protocol'', JStr ''trojan''),
            (''tag'', JStr (decodeRemark u)),
            (''settings'', JObj [(''servers'', JArr [JObj
               [(''address'', JStr (URL_hostname u)), (''port'', url_port_number u),
                (''password'', JStr (u_username u))]])]),
            (''streamSettings'', JObj (link_stream ps ''tls''))]))
     (parseUrlLink link ''trojan'')"

text \<open>\<open>host:port\<close> of a shadowsocks link.\<close>

definition ss_hostport :: "string \<Rightarrow> (string \<times> js) option" where
  "ss_hostport hostPort = map_option
     (\<lambda>(h, p). (h, js_or (JNum (js_number_of_string p)) (JInt 443))) (split_last CHR '':'' hostPort)"

definition ss_outbound :: "string \<Rightarrow> string \<Rightarrow> string \<times> js \<Rightarrow> js" where
  "ss_outbound remark userInfo hp =
     (let (method, password) = (case split_first CHR '':'' userInfo of
            None \<Rightarrow> (''2022-blake3-aes-128-gcm'', userInfo) | Some (m, p) \<Rightarrow> (m, p))
      in JObj [(''protocol'', JStr ''shadowsocks''),
               (''tag'', JStr remark),
               (''settings'', JObj [(''servers'', JArr [JObj
                  [(''address'', JStr (fst hp)), (''port'', snd hp),
                   (''password'', JStr password), (''method'', JStr method)]])])])"

definition parseShadowsocksLink :: "string \<Rightarrow> js option" where
  "parseShadowsocksLink link =
     (if \<not> starts_with link ''ss://'' then None
      else
        (let (linkNoHash, hash) = split_tail CHR ''#'' link;
             remark = (case hash of None \<Rightarrow> [] | Some h \<Rightarrow> (case decodeURIComponent h of Some r \<Rightarrow> r | None \<Rightarrow> []));
             core = drop 5 (fst (split_tail CHR ''?'' linkNoHash))
         in case split_first CHR ''@'' core of
              Some (info, hostPort) \<Rightarrow>
                (let userInfo = (case Base64_decode info of Some d \<Rightarrow> d | None \<Rightarrow> info)
                 in map_option (ss_outbound remark userInfo) (ss_hostport hostPort))
            | None \<Rightarrow>
                (case Base64_decode core of
                   None \<Rightarrow> None
                 | Some decoded \<Rightarrow>
                     (case split_first CHR ''@'' decoded of
                        None \<Rightarrow> None
                      | Some (userInfo, hostPort) \<Rightarrow>
                          map_option (ss_outbound remark userInfo) (ss_hostport hostPort)))))"

definition orelse :: "'a option \<Rightarrow> 'a option \<Rightarrow> 'a option" where
  "orelse a b = (case a of Some x \<Rightarrow> Some x | None \<Rightarrow> b)"

definition parseHysteria2Link :: "string \<Rightarrow> js option" where
  "parseHysteria2Link link = map_option (\<lambda>u.
     (let ps = URL_searchParams u;
          alpn = param_str ps ''alpn'' [];
          stream =
            [(''network'', JStr ''hysteria''),
             (''security'', JStr ''tls''),
             (''hysteriaSettings'', JObj [(''version'', JInt 2), (''auth'', JStr (u_username u)),
                (''udpIdleTimeout'', JInt 60)]),
             (''tlsSettings'', JObj
                [(''serverName'', JStr (param_str ps ''sni'' [])),
                 (''alpn'', if alpn = [] then js_strs [''h3''] else js_strs (split_on CHR '','' alpn)),
                 (''fingerprint'', JStr (param_str ps ''fp'' [])),
                 (''echConfigList'', JStr (param_str ps ''ech'' [])),
                 (''verifyPeerCertByName'', JStr []),
                 (''pinnedPeerCertSha256'', JStr (param_str ps ''pinSHA256'' []))])]
      in JObj [(''protocol'', JStr ''hysteria''),
               (''tag'', JStr (decodeRemark u)),
               (''settings'', JObj [(''address'', JStr (URL_hostname u)), (''port'', url_port_number u),
                                   (''version'', JInt 2)]),
               (''streamSettings'', JObj (applyFinalMaskParam stream ps))]))
     (orelse (parseUrlLink link ''hysteria2'') (parseUrlLink link ''hy2''))"

fun firstParam :: "params \<Rightarrow> string list \<Rightarrow> string option" where
  "firstParam ps [] = None"
| "firstParam ps (k # ks) = (case params_get ps k of
     None \<Rightarrow> firstParam ps ks | Some v \<Rightarrow> if v \<noteq> [] then Some v else firstParam ps ks)"

definition comma_list :: "string \<Rightarrow> string list" where
  "comma_list s = nonempty_strings (map js_trim (split_on CHR '','' s))"

definition finite_number :: "string option \<Rightarrow> js option" where
  "finite_number raw = (case raw of
     None \<Rightarrow> None
   | Some s \<Rightarrow> (let n = js_number_of_string s in if jnum_is_finite n then Some (JNum n) else None))"

definition wireguard_peer_obj :: "url \<Rightarrow> obj" where
  "wireguard_peer_obj u =
     (let ps = URL_searchParams u;
          host = URL_hostname u; port = URL_port u;
          endpoint = (if host = [] then [] else if port = [] then host else host @ '':'' @ port);
          allowed = (case firstParam ps [''allowedips'', ''allowed_ips''] of
              Some s \<Rightarrow> comma_list s | None \<Rightarrow> [''0.0.0.0/0'', ''::/0'']);
          pub = (case firstParam ps [''publickey'', ''publicKey'', ''public_key'', ''peerPublicKey''] of
              Some s \<Rightarrow> s | None \<Rightarrow> [])
      in [(''publicKey'', JStr pub), (''endpoint'', JStr endpoint), (''allowedIPs'', js_strs allowed)]
         @ (case firstParam ps [''presharedkey'', ''preshared_key'', ''pre-shared-key'', ''psk''] of
              Some s \<Rightarrow> [(''preSharedKey'', JStr s)] | None \<Rightarrow> [])
         @ (case finite_number (firstParam ps [''keepalive'', ''persistentkeepalive'', ''persistent_keepalive'']) of
              Some n \<Rightarrow> [(''keepAlive'', n)] | None \<Rightarrow> []))"

definition parseWireguardLink :: "string \<Rightarrow> js option" where
  "parseWireguardLink link = map_option (\<lambda>u.
     (let ps = URL_searchParams u;
          secretKey = (case decodeURIComponent (u_username u) of Some s \<Rightarrow> s | None \<Rightarrow> u_username u);
          address = comma_list (case firstParam ps [''address'', ''ip''] of Some s \<Rightarrow> s | None \<Rightarrow> []);
          reserved = (case firstParam ps [''reserved''] of
              None \<Rightarrow> []
            | Some s \<Rightarrow> filter jnum_is_finite (map (\<lambda>x. js_number_of_string (js_trim x)) (split_on CHR '','' s)))
      in JObj [(''protocol'', JStr ''wireguard''),
               (''tag'', JStr (decodeRemark u)),
               (''settings'', JObj
                  ([(''secretKey'', JStr secretKey), (''address'', js_strs address),
                    (''peers'', JArr [JObj (wireguard_peer_obj u)])]
                   @ (case finite_number (firstParam ps [''mtu'']) of Some n \<Rightarrow> [(''mtu'', n)] | None \<Rightarrow> [])
                   @ (if reserved = [] then [] else [(''reserved'', JArr (map JNum reserved))])))]))
     (orelse (parseUrlLink link ''wireguard'') (parseUrlLink link ''wg''))"

definition parseOutboundLink :: "string \<Rightarrow> js option" where
  "parseOutboundLink link =
     (let trimmed = js_trim link in
      if trimmed = [] then None
      else orelse (parseVmessLink trimmed)
            (orelse (parseVlessLink trimmed)
              (orelse (parseTrojanLink trimmed)
                (orelse (parseShadowsocksLink trimmed)
                  (orelse (parseHysteria2Link trimmed) (parseWireguardLink trimmed))))))"

end
