(* ===== verification/LinkRoundTrip.thy ===== *)
theory LinkRoundTrip
  imports InboundLink OutboundLinkParser
begin

text \<open>
  What the outbound parser reads from the links the inbound generators write: the fields that
  come back, and the ones that do not.
\<close>

section \<open>The parameters the generators write\<close>

named_theorems params_frame "what the writers of parameters leave alone"

lemma distinct_set [params_frame]: "distinct (map fst ps) \<Longrightarrow> distinct (map fst (params_set k v ps))"
  by (rule distinct_params_set)

lemma distinct_set_nonempty [params_frame]: "distinct (map fst ps) \<Longrightarrow> distinct (map fst (set_nonempty k v ps))"
  by (simp add: set_nonempty_def distinct_params_set)

lemma params_set_not_Nil [simp]: "params_set k v ps \<noteq> []"
  by (cases ps) auto

lemma set_nonempty_not_Nil [params_frame]: "ps \<noteq> [] \<Longrightarrow> set_nonempty k v ps \<noteq> []"
  by (simp add: set_nonempty_def)

lemma params_get_set_nonempty [simp]:
  "params_get (set_nonempty k v ps) k' = (if k' = k \<and> v \<noteq> [] then Some v else params_get ps k')"
  by (simp add: set_nonempty_def)

definition network_keys :: "string set" where
  "network_keys = {''path'', ''host'', ''headerType'', ''mtu'', ''tti'', ''serviceName'', ''authority'',
     ''mode'', ''x_padding_bytes'', ''extra''}"

lemma network_key [simp]:
  "k \<notin> network_keys \<Longrightarrow> k \<noteq> ''path'' \<and> k \<noteq> ''host'' \<and> k \<noteq> ''headerType'' \<and> k \<noteq> ''mtu'' \<and> k \<noteq> ''tti'' \<and>
    k \<noteq> ''serviceName'' \<and> k \<noteq> ''authority'' \<and> k \<noteq> ''mode'' \<and> k \<noteq> ''x_padding_bytes'' \<and> k \<noteq> ''extra''"
  by (auto simp: network_keys_def)

text \<open>A writer keeps the names distinct, and the values of the names it does not write.\<close>

definition kept :: "string set \<Rightarrow> params \<Rightarrow> params \<Rightarrow> bool" where
  "kept ks ps ps' \<longleftrightarrow> (distinct (map fst ps) \<longrightarrow> distinct (map fst ps')) \<and> (ps \<noteq> [] \<longrightarrow> ps' \<noteq> []) \<and>
     (\<forall>k. k \<notin> ks \<longrightarrow> params_get ps' k = params_get ps k)"

lemma kept_refl: "kept ks ps ps"
  by (simp add: kept_def)

lemma kept_set: "k \<in> ks \<Longrightarrow> kept ks ps q \<Longrightarrow> kept ks ps (params_set k v q)"
  by (auto simp: kept_def distinct_params_set)

lemma kept_set_nonempty: "k \<in> ks \<Longrightarrow> kept ks ps q \<Longrightarrow> kept ks ps (set_nonempty k v q)"
  by (auto simp: kept_def distinct_set_nonempty set_nonempty_not_Nil)

lemma kept_trans: "kept ks p q \<Longrightarrow> kept ks q r \<Longrightarrow> kept ks p r"
  by (auto simp: kept_def)

lemma kept_mono: "kept ks p q \<Longrightarrow> ks \<subseteq> ks' \<Longrightarrow> kept ks' p q"
  unfolding kept_def by blast

lemma kept_get: "kept ks p q \<Longrightarrow> k \<notin> ks \<Longrightarrow> params_get q k = params_get p k"
  by (simp add: kept_def)

lemmas kept_intros = kept_set kept_set_nonempty kept_refl

lemma kept_xhttp: "kept network_keys ps (applyXhttpExtraToParams xh ps)"
  unfolding applyXhttpExtraToParams_def Let_def network_keys_def
  by (auto intro!: kept_intros split: option.split js.split)

lemma kept_network: "kept network_keys ps (writeNetworkParams net ps)"
proof (cases net)
  case (NetXHttp xh)
  then show ?thesis using kept_xhttp by (simp add: writeNetworkParams_def)
qed (auto simp: writeNetworkParams_def Let_def network_keys_def intro!: kept_intros
      split: option.split tcp_header.split)

definition tls_keys :: "string set" where
  "tls_keys = {''fp'', ''alpn'', ''ech'', ''sni'', ''pcs'', ''pbk'', ''sid'', ''spx'', ''pqv'', ''flow''}"

lemma kept_tls: "kept tls_keys ps (writeTlsParams sec ps)"
  by (cases sec) (auto simp: writeTlsParams_def Let_def tls_keys_def intro!: kept_intros)

lemma kept_vless_tls: "kept tls_keys ps (vless_tls_params net tls flow ps)"
  by (auto simp: vless_tls_params_def Let_def tls_keys_def intro!: kept_intros)

lemma kept_reality: "kept tls_keys ps (writeRealityParams sec ps)"
  by (cases sec) (auto simp: writeRealityParams_def Let_def tls_keys_def intro!: kept_intros split: list.split)

lemma kept_proxy: "kept tls_keys ps (applyExternalProxyTLSParams ep ps security)"
  by (auto simp: applyExternalProxyTLSParams_def tls_keys_def intro!: kept_intros split: option.split)

lemma kept_finalmask: "kept {''fm''} ps (applyFinalMaskToParams fm ps)"
  by (auto simp: applyFinalMaskToParams_def intro!: kept_intros)

lemma kept_vless_security:
  "kept (insert ''security'' tls_keys) ps (vless_security_params stream security flow ep ps)"
proof -
  note mono = kept_mono [where ks' = "insert ''security'' tls_keys"]
  have s: "kept (insert ''security'' tls_keys) ps (params_set ''security'' v ps)" for v
    by (auto intro!: kept_intros)
  have f: "kept (insert ''security'' tls_keys) q (set_nonempty ''flow'' v q)" for v q
    by (auto intro!: kept_intros simp: tls_keys_def)
  show ?thesis
    unfolding vless_security_params_def Let_def
    by (auto split: security_settings.split
        intro!: kept_trans [OF _ mono [OF kept_proxy]] kept_trans [OF _ mono [OF kept_vless_tls]]
          kept_trans [OF _ mono [OF kept_reality]] kept_trans [OF _ f] s)
qed

section \<open>Links of a template\<close>

lemma link_of_template_ok:
  assumes "template_ok sch ui h port" "params_ok ps" "distinct (map fst ps)" "ps \<noteq> []"
  shows "link_of_template (link_template sch ui h port) ps remark = Some (URL_href (finished_url sch ui h port ps remark))"
  unfolding link_of_template_def link_template_def URL_parse_template [OF assms(1)] option.map
    finished_url_build [OF assms(2-)] ..

lemma parse_link:
  assumes "template_ok sch ui h port"
  shows "parseUrlLink (URL_href (finished_url sch ui h port ps remark)) sch = Some (finished_url sch ui h port ps remark)"
  by (simp add: parseUrlLink_def finished_url_parses [OF assms])

lemma decode_remark:
  "valid_utf8 remark \<Longrightarrow> decodeRemark (finished_url sch ui h port ps remark) = remark"
proof (cases "remark = []")
  case False
  assume "valid_utf8 remark"
  with False show ?thesis
    by (simp add: decodeRemark_def without_hash_def decode_encode_component)
next
  case True
  have "decodeURIComponent [] = Some []" by (simp add: decodeURIComponent_def valid_utf8_def)
  with True show ?thesis by (simp add: decodeRemark_def without_hash_def)
qed

lemma port_number:
  assumes "0 < port"
  shows "url_port_number (finished_url sch ui h port ps remark) = JInt port"
proof -
  have "js_number_of_string (nat_str (nat port)) = Fin (of_int port)"
    using assms js_number_of_nat_str [of "nat port"] by simp
  then show ?thesis using assms by (simp add: url_port_number_def js_or_def)
qed

section \<open>VLESS\<close>

lemma vless_params_kept:
  "kept (insert ''fm'' (insert ''security'' (network_keys \<union> tls_keys)))
     [(''type'', network_name (st_network stream)), (''encryption'', encryption)]
     (vless_params stream encryption forceTls flow ep)" (is "kept ?ks _ _")
proof -
  have base: "params_set ''encryption'' encryption (params_set ''type'' (network_name (st_network stream)) [])
      = [(''type'', network_name (st_network stream)), (''encryption'', encryption)]" by simp
  have net: "kept ?ks p (writeNetworkParams net p)" for net p
    by (rule kept_mono [OF kept_network]) auto
  have fm: "kept ?ks p (applyFinalMaskToParams fm p)" for fm p
    by (rule kept_mono [OF kept_finalmask]) auto
  have sec: "kept ?ks p (vless_security_params stream security flow ep p)" for security p
    by (rule kept_mono [OF kept_vless_security]) auto
  show ?thesis
    unfolding vless_params_def Let_def base by (rule kept_trans [OF kept_trans [OF net fm] sec])
qed

lemma vless_params_wf:
  "distinct (map fst (vless_params stream encryption forceTls flow ep))"
  "vless_params stream encryption forceTls flow ep \<noteq> []"
  "params_get (vless_params stream encryption forceTls flow ep) ''type'' = Some (network_name (st_network stream))"
  "params_get (vless_params stream encryption forceTls flow ep) ''encryption'' = Some encryption"
proof -
  note k = vless_params_kept [of stream encryption forceTls flow ep]
  show "distinct (map fst (vless_params stream encryption forceTls flow ep))"
    "vless_params stream encryption forceTls flow ep \<noteq> []"
    using k by (simp_all add: kept_def)
  show "params_get (vless_params stream encryption forceTls flow ep) ''type'' = Some (network_name (st_network stream))"
    "params_get (vless_params stream encryption forceTls flow ep) ''encryption'' = Some encryption"
    by (subst kept_get [OF k], simp add: network_keys_def tls_keys_def, simp)+
qed

text \<open>C5. A VLESS link parses back to an outbound with the address, port, user id and remark it was
  made from and the encryption of the inbound; the stream settings are those the parser builds
  from exactly the parameters the generator wrote.\<close>

theorem vless_link_roundtrip:
  assumes "ib_settings ib = Vless cs encryption" "ib_stream ib = Some stream"
    and "template_ok ''vless'' clientId address p" "0 < p" "valid_utf8 remark"
    and "params_ok (vless_params stream encryption forceTls flow ep)"
  shows "Option.bind (genVlessLink ib address (Some p) (Some forceTls) (Some remark) clientId (Some flow) ep) parseVlessLink
    = Some (JObj [(''protocol'', JStr ''vless''), (''tag'', JStr remark),
        (''settings'', JObj [(''address'', JStr address), (''port'', JInt p), (''id'', JStr clientId),
           (''flow'', JStr (param_str (vless_params stream encryption forceTls flow ep) ''flow'' [])),
           (''encryption'', JStr encryption)]),
        (''streamSettings'', JObj (link_stream (vless_params stream encryption forceTls flow ep) ''none''))])"
proof -
  let ?ps = "vless_params stream encryption forceTls flow ep"
  have "genVlessLink ib address (Some p) (Some forceTls) (Some remark) clientId (Some flow) ep
      = Some (URL_href (finished_url ''vless'' clientId address p ?ps remark))"
    using assms(1,2) link_of_template_ok [OF assms(3,6) vless_params_wf(1,2)]
    by (simp add: genVlessLink_def the_default_def)
  moreover have "param_str ?ps ''encryption'' ''none'' = encryption"
    by (simp add: param_str_def vless_params_wf)
  ultimately show ?thesis
    using parse_link [OF assms(3)] decode_remark [OF assms(5)] port_number [OF assms(4)] assms(6)
    by (simp add: parseVlessLink_def Let_def)
qed

section \<open>Trojan\<close>

lemma trojan_params_kept:
  "kept (insert ''fm'' (insert ''security'' (network_keys \<union> tls_keys)))
     [(''type'', network_name (st_network stream))] (trojan_params stream forceTls ep)" (is "kept ?ks _ _")
proof -
  have base: "params_set ''type'' (network_name (st_network stream)) []
      = [(''type'', network_name (st_network stream))]" by simp
  have net: "kept ?ks p (writeNetworkParams net p)" for net p
    by (rule kept_mono [OF kept_network]) auto
  have fm: "kept ?ks p (applyFinalMaskToParams fm p)" for fm p
    by (rule kept_mono [OF kept_finalmask]) auto
  have s: "kept ?ks p (params_set ''security'' v p)" for v p by (auto intro!: kept_intros)
  have tls: "kept ?ks p (writeTlsParams sec p)" for sec p by (rule kept_mono [OF kept_tls]) auto
  have re: "kept ?ks p (writeRealityParams sec p)" for sec p by (rule kept_mono [OF kept_reality]) auto
  have px: "kept ?ks p (applyExternalProxyTLSParams e p security)" for e p security
    by (rule kept_mono [OF kept_proxy]) auto
  note nf = kept_trans [OF net fm]
  show ?thesis
    unfolding trojan_params_def Let_def base
    by (simp split: if_split add: kept_trans [OF nf kept_trans [OF s kept_trans [OF tls px]]]
        kept_trans [OF nf kept_trans [OF s re]] kept_trans [OF nf s])
qed

lemma trojan_params_wf:
  "distinct (map fst (trojan_params stream forceTls ep))"
  "trojan_params stream forceTls ep \<noteq> []"
  using trojan_params_kept [of stream forceTls ep] by (simp_all add: kept_def)

text \<open>The parser of Trojan links keeps the percent-encoding of the password: what comes back is
  the encoded password, so it is the password itself exactly when no character needed encoding.\<close>

theorem trojan_password_stays_encoded:
  assumes "ib_settings ib = Trojan cs" "ib_stream ib = Some stream"
    and "template_ok ''trojan'' (encodeURIComponent pw) address p" "0 < p" "valid_utf8 remark"
    and "params_ok (trojan_params stream forceTls ep)"
  shows "Option.bind (genTrojanLink ib address (Some p) (Some forceTls) (Some remark) pw ep) parseTrojanLink
    = Some (JObj [(''protocol'', JStr ''trojan''), (''tag'', JStr remark),
        (''settings'', JObj [(''servers'', JArr [JObj [(''address'', JStr address), (''port'', JInt p),
           (''password'', JStr (encodeURIComponent pw))]])]),
        (''streamSettings'', JObj (link_stream (trojan_params stream forceTls ep) ''tls''))])
    \<and> (encodeURIComponent pw = pw \<longleftrightarrow> list_all component_plain pw)"
proof -
  let ?ps = "trojan_params stream forceTls ep"
  have "genTrojanLink ib address (Some p) (Some forceTls) (Some remark) pw ep
      = Some (URL_href (finished_url ''trojan'' (encodeURIComponent pw) address p ?ps remark))"
    using assms(1,2) link_of_template_ok [OF assms(3,6) trojan_params_wf]
    by (simp add: genTrojanLink_def the_default_def)
  moreover have "encodeURIComponent pw = pw \<longleftrightarrow> list_all component_plain pw"
  proof
    assume "encodeURIComponent pw = pw"
    moreover have "length (percent_encode (\<lambda>c. \<not> component_plain c) s)
        = length s + 2 * length (filter (\<lambda>c. \<not> component_plain c) s)" for s
      by (induction s) (auto simp: percent_encode_def percent_byte_def)
    ultimately have "filter (\<lambda>c. \<not> component_plain c) pw = []"
      by (metis add_cancel_right_right encodeURIComponent_def length_0_conv mult_is_0 zero_neq_numeral)
    then show "list_all component_plain pw" by (simp add: filter_empty_conv list_all_iff)
  next
    assume "list_all component_plain pw"
    then show "encodeURIComponent pw = pw" by (simp add: encodeURIComponent_def percent_encode_id list_all_iff)
  qed
  ultimately show ?thesis
    using parse_link [OF assms(3)] decode_remark [OF assms(5)] port_number [OF assms(4)] assms(6)
    by (simp add: parseTrojanLink_def Let_def)
qed

section \<open>Transport and security settings\<close>

lemma buildStream_get:
  "js_get (buildStream net sec) ''network'' = net" "js_get (buildStream net sec) ''security'' = JStr sec"
  by (simp_all add: buildStream_def)

lemma link_stream_get:
  "k \<notin> {''tlsSettings'', ''realitySettings'', ''finalmask''} \<Longrightarrow>
   js_get (link_stream ps d) k
     = js_get (applyTransportParams (buildStream (JStr (param_str ps ''type'' ''tcp'')) (param_str ps ''security'' d)) ps) k"
proof -
  assume k: "k \<notin> {''tlsSettings'', ''realitySettings'', ''finalmask''}"
  have f: "js_get (applyFinalMaskParam s ps) k = js_get s k" for s
    using k by (auto simp: applyFinalMaskParam_def split: option.split js.split)
  have s: "js_get (applySecurityParams s ps) k = js_get s k" for s
    using k by (auto simp: applySecurityParams_def Let_def)
  show ?thesis by (simp add: link_stream_def Let_def f s)
qed

lemma transport_ws:
  assumes "params_get ps ''type'' = Some ''ws''"
  shows "js_get (link_stream ps d) ''wsSettings'' = JObj [(''path'', JStr (param_str ps ''path'' ''/'')),
    (''host'', JStr (param_str ps ''host'' [])), (''headers'', JObj []), (''heartbeatPeriod'', JInt 0)]"
proof -
  have "param_str ps ''type'' ''tcp'' = ''ws''" using assms by (simp add: param_str_def)
  then show ?thesis
    by (subst link_stream_get, simp)
      (simp add: applyTransportParams_def buildStream_get Let_def put_in_def,
       simp add: buildStream_def default_network_member_def js_members_def js_put_def js_has_def)
qed

lemma transport_httpupgrade:
  assumes "params_get ps ''type'' = Some ''httpupgrade''"
  shows "js_get (link_stream ps d) ''httpupgradeSettings'' = JObj [(''path'', JStr (param_str ps ''path'' ''/'')),
    (''host'', JStr (param_str ps ''host'' [])), (''headers'', JObj [])]"
proof -
  have "param_str ps ''type'' ''tcp'' = ''httpupgrade''" using assms by (simp add: param_str_def)
  then show ?thesis
    by (subst link_stream_get, simp)
      (simp add: applyTransportParams_def buildStream_get Let_def put_in_def,
       simp add: buildStream_def default_network_member_def js_members_def js_put_def js_has_def)
qed

lemma transport_grpc:
  assumes "params_get ps ''type'' = Some ''grpc''" "params_get ps ''serviceName'' = Some sn"
  shows "js_get (link_stream ps d) ''grpcSettings'' = JObj [(''serviceName'', JStr sn),
    (''authority'', JStr (param_str ps ''authority'' [])),
    (''multiMode'', JBool (params_get ps ''mode'' = Some ''multi''))]"
proof -
  have "param_str ps ''type'' ''tcp'' = ''grpc''" using assms by (simp add: param_str_def)
  then show ?thesis using assms(2)
    by (subst link_stream_get, simp)
      (simp add: applyTransportParams_def buildStream_get Let_def put_in_def,
       simp add: buildStream_def default_network_member_def js_members_def js_put_def js_has_def)
qed

lemma vless_params_network:
  assumes "k \<notin> insert ''fm'' (insert ''security'' tls_keys)"
  shows "params_get (vless_params stream encryption forceTls flow ep) k
    = params_get (writeNetworkParams (st_network stream)
        [(''type'', network_name (st_network stream)), (''encryption'', encryption)]) k"
proof -
  have base: "params_set ''encryption'' encryption (params_set ''type'' (network_name (st_network stream)) [])
      = [(''type'', network_name (st_network stream)), (''encryption'', encryption)]" by simp
  show ?thesis
    unfolding vless_params_def Let_def base
    using assms by (simp add: kept_get [OF kept_vless_security] kept_get [OF kept_finalmask])
qed

lemma not_security_keys:
  "k \<in> {''path'', ''host'', ''mode'', ''serviceName'', ''authority''} \<Longrightarrow> k \<notin> insert ''fm'' (insert ''security'' tls_keys)"
  by (auto simp: tls_keys_def)

definition ws_host_header :: "string \<Rightarrow> obj \<Rightarrow> string" where
  "ws_host_header host headers = (if host \<noteq> [] then host else getHeaderValue (JObj headers) ''host'')"

text \<open>WebSocket, gRPC and HTTPUpgrade transports survive a VLESS link: path, service name, authority
  and multi mode come back as they were, and the host as the configured host or else the Host
  header of the inbound.\<close>

theorem vless_transport_roundtrip:
  "let P = vless_params stream encryption forceTls flow ep; S = link_stream P ''none'' in
   case st_network stream of
     NetWs ws \<Rightarrow> js_get S ''wsSettings'' = JObj [(''path'', JStr (ws_path ws)),
         (''host'', JStr (ws_host_header (ws_host ws) (ws_headers ws))), (''headers'', JObj []), (''heartbeatPeriod'', JInt 0)]
   | NetGrpc g \<Rightarrow> js_get S ''grpcSettings'' = JObj [(''serviceName'', JStr (grpc_serviceName g)),
         (''authority'', JStr (grpc_authority g)), (''multiMode'', JBool (grpc_multiMode g))]
   | NetHttpUpgrade hu \<Rightarrow> js_get S ''httpupgradeSettings'' = JObj [(''path'', JStr (hu_path hu)),
         (''host'', JStr (ws_host_header (hu_host hu) (hu_headers hu))), (''headers'', JObj [])]
   | _ \<Rightarrow> js_get S ''network'' = JStr (network_name (st_network stream))"
proof -
  note ty = vless_params_wf(3) [of stream encryption forceTls flow ep]
  have get: "k \<in> {''path'', ''host'', ''mode'', ''serviceName'', ''authority''} \<Longrightarrow>
      params_get (vless_params stream encryption forceTls flow ep) k
        = params_get (writeNetworkParams (st_network stream)
            [(''type'', network_name (st_network stream)), (''encryption'', encryption)]) k" for k
    by (rule vless_params_network [OF not_security_keys])
  have net: "js_get (link_stream (vless_params stream encryption forceTls flow ep) ''none'') ''network''
      = JStr (network_name (st_network stream))"
    using ty by (subst link_stream_get, simp)
      (auto simp: param_str_def applyTransportParams_def Let_def buildStream_get put_in_def)
  show ?thesis
  proof (cases "st_network stream")
    case (NetWs ws)
    then show ?thesis using ty get
      by (simp add: Let_def transport_ws param_str_def writeNetworkParams_def ws_host_header_def)
  next
    case (NetGrpc g)
    then show ?thesis using ty get
      by (simp add: Let_def transport_grpc [where sn = "grpc_serviceName g"] param_str_def writeNetworkParams_def)
  next
    case (NetHttpUpgrade hu)
    then show ?thesis using ty get
      by (simp add: Let_def transport_httpupgrade param_str_def writeNetworkParams_def ws_host_header_def)
  qed (use net in \<open>simp_all add: Let_def\<close>)
qed

lemma vless_params_tls:
  assumes "st_security stream = SecTls tls" and P_def: "P = vless_params stream encryption ''same'' flow None"
  shows "params_get P ''security'' = Some ''tls''" "params_get P ''fp'' = Some (tc_fingerprint (tls_client tls))"
    "params_get P ''alpn'' = Some (join '','' (tls_alpn tls))"
    "param_str P ''sni'' [] = tls_serverName tls"
proof -
  have k: "params_get (writeNetworkParams net p) x = params_get p x" if "x \<in> {''sni''}" for net p x
    using that by (simp add: kept_get [OF kept_network] network_keys_def)
  show "params_get P ''security'' = Some ''tls''" "params_get P ''fp'' = Some (tc_fingerprint (tls_client tls))"
    "params_get P ''alpn'' = Some (join '','' (tls_alpn tls))"
    "param_str P ''sni'' [] = tls_serverName tls"
    unfolding P_def vless_params_def vless_security_params_def vless_tls_params_def Let_def
    by (simp_all add: assms(1) applyExternalProxyTLSParams_def param_str_def applyFinalMaskToParams_def k)
qed

text \<open>Of the TLS settings of a VLESS inbound the server name, the fingerprint and the ALPN list
  survive the link; the ECH configuration and the pinned certificates are written to it
  (\<open>ech\<close>, \<open>pcs\<close>) but the parser leaves both empty.\<close>

theorem vless_tls_roundtrip:
  assumes "st_security stream = SecTls tls" "tls_alpn tls \<noteq> []"
    and "list_all (\<lambda>a. a \<noteq> [] \<and> CHR '','' \<notin> set a) (tls_alpn tls)"
  shows "js_get (link_stream (vless_params stream encryption ''same'' flow None) ''none'') ''tlsSettings''
    = JObj [(''serverName'', JStr (tls_serverName tls)), (''alpn'', js_strs (tls_alpn tls)),
        (''fingerprint'', JStr (tc_fingerprint (tls_client tls))), (''echConfigList'', JStr []),
        (''verifyPeerCertByName'', JStr []), (''pinnedPeerCertSha256'', JStr [])]"
proof -
  let ?P = "vless_params stream encryption ''same'' flow None"
  note P = vless_params_tls [OF assms(1) refl, of encryption flow]
  have "split_on CHR '','' (join '','' (tls_alpn tls)) = tls_alpn tls"
    by (rule split_on_join [OF assms(2)]) (use assms(3) in \<open>simp add: list_all_iff\<close>)
  moreover have "join '','' (tls_alpn tls) \<noteq> []"
    using assms(2,3) by (cases "tls_alpn tls"; cases "tl (tls_alpn tls)") auto
  moreover have "js_get (applyFinalMaskParam s ?P) ''tlsSettings'' = js_get s ''tlsSettings''" for s
    by (auto simp: applyFinalMaskParam_def split: option.split js.split)
  moreover have "js_get (applyTransportParams s ?P) k = js_get s k" if "k \<in> {''tlsSettings'', ''security''}" for s k
    using that by (auto simp: applyTransportParams_def Let_def put_in_def)
  ultimately show ?thesis using P
    by (simp add: link_stream_def Let_def applySecurityParams_def buildStream_get param_str_def)
      (simp add: buildStream_def default_network_member_def default_security_member_def js_members_def
        js_put_def js_has_def)
qed

section \<open>Shadowsocks\<close>

lemma shadowsocks_params_kept:
  "kept (insert ''fm'' (insert ''security'' (network_keys \<union> tls_keys)))
     [(''type'', network_name (st_network stream))] (shadowsocks_params stream forceTls ep)" (is "kept ?ks _ _")
proof -
  have base: "params_set ''type'' (network_name (st_network stream)) []
      = [(''type'', network_name (st_network stream))]" by simp
  have net: "kept ?ks p (writeNetworkParams net p)" for net p
    by (rule kept_mono [OF kept_network]) auto
  have fm: "kept ?ks p (applyFinalMaskToParams fm p)" for fm p
    by (rule kept_mono [OF kept_finalmask]) auto
  have s: "kept ?ks p (params_set ''security'' v p)" for v p by (auto intro!: kept_intros)
  have tls: "kept ?ks p (writeTlsParams sec p)" for sec p by (rule kept_mono [OF kept_tls]) auto
  have px: "kept ?ks p (applyExternalProxyTLSParams e p security)" for e p security
    by (rule kept_mono [OF kept_proxy]) auto
  note nf = kept_trans [OF net fm]
  show ?thesis
    unfolding shadowsocks_params_def Let_def base
    by (simp split: if_split add: nf kept_trans [OF nf kept_trans [OF s kept_trans [OF tls px]]])
qed

lemma shadowsocks_params_wf:
  "distinct (map fst (shadowsocks_params stream forceTls ep))"
  "shadowsocks_params stream forceTls ep \<noteq> []"
  using shadowsocks_params_kept [of stream forceTls ep] by (simp_all add: kept_def)

lemma unpadded: "filter (\<lambda>c. c \<noteq> CHR ''='') (btoa s) = map b64_char (sextets s)"
proof -
  have "filter (\<lambda>c. c \<noteq> CHR ''='') (map b64_char (sextets s)) = map b64_char (sextets s)"
    by (rule filter_True) (use map_b64_char_plain in blast)
  moreover have "filter (\<lambda>c. c \<noteq> CHR ''='') (padding n) = []" for n by (simp add: padding_def)
  ultimately show ?thesis by (simp only: btoa_sextets filter_append) simp
qed

lemma strip_padding_plain: "CHR ''='' \<notin> set t \<Longrightarrow> strip_padding t = t"
proof (cases "rev t")
  case (Cons a u)
  assume "CHR ''='' \<notin> set t"
  then have "CHR ''='' \<notin> set (rev t)" by simp
  with Cons show ?thesis by (cases u) (auto simp: strip_padding_def)
qed (simp add: strip_padding_def)

lemma atob_unpadded: "atob (map b64_char (sextets s)) = Some s"
proof -
  let ?t = "map b64_char (sextets s)"
  have f: "filter (\<lambda>c. \<not> ascii_space c) ?t = ?t"
    by (rule filter_True) (use map_b64_char_plain in blast)
  have noeq: "CHR ''='' \<notin> set ?t" using map_b64_char_plain by blast
  have p: "strip_padding ?t = ?t"
    by (rule strip_padding_plain [OF noeq])
  have v: "list_all (\<lambda>c. b64_val c \<noteq> None) ?t"
    using sextets_less [of _ s] by (auto simp: list_all_iff)
  show ?thesis
    using v atob_map_b64 [of s]
    by (simp only: atob_def f p Let_def the_b64_sextets length_map b64_bytes_sextets) simp
qed


lemma map_replace_id: "a \<notin> set s \<Longrightarrow> map (\<lambda>c. if c = a then b else c) s = s"
  by (induction s) auto

text \<open>A URL-safe text decodes when the standard text has none of the two replaced characters, and
  is rejected otherwise.\<close>

lemma decode_url_safe_plain:
  assumes "text_ok s" "CHR ''+'' \<notin> set (btoa s)" "CHR ''/'' \<notin> set (btoa s)"
  shows "Base64_decode (Base64_encode s True) = Some s"
proof -
  have t: "map b64_char (sextets s) = filter (\<lambda>c. c \<noteq> CHR ''='') (btoa s)" by (rule unpadded [symmetric])
  then have "CHR ''/'' \<notin> set (map b64_char (sextets s))" using assms(3) by auto
  then have "Base64_encode s True = map b64_char (sextets s)"
    unfolding Base64_encode_def url_safe_def if_True map_replace_id [OF assms(2)] unpadded
    by (rule map_replace_id)
  then show ?thesis using assms(1) atob_unpadded [of s]
    by (simp only: Base64_decode_def) (simp add: text_ok_def text_decode_valid)
qed

lemma decode_url_safe_reject:
  assumes "CHR ''+'' \<in> set (btoa s) \<or> CHR ''/'' \<in> set (btoa s)"
  shows "Base64_decode (Base64_encode s True) = None"
proof -
  let ?u = "Base64_encode s True"
  have "CHR ''-'' \<in> set ?u \<or> CHR ''_'' \<in> set ?u"
    using assms by (force simp: Base64_encode_def url_safe_def)
  then obtain c where c: "c \<in> set ?u" "b64_val c = None" "\<not> ascii_space c"
    by (auto simp: b64_val_def ascii_space_def)
  have "CHR ''='' \<notin> set ?u" by (auto simp: Base64_encode_def url_safe_def)
  then have eq: "CHR ''='' \<notin> set (filter (\<lambda>c. \<not> ascii_space c) ?u)" by simp
  from c have "\<not> list_all (\<lambda>c. b64_val c \<noteq> None) (filter (\<lambda>c. \<not> ascii_space c) ?u)"
    by (auto simp: list_all_iff)
  then have "atob ?u = None" by (simp only: atob_def Let_def strip_padding_plain [OF eq]) simp
  then show ?thesis by (simp only: Base64_decode_def option.map)
qed

lemma finished_href:
  "URL_href (finished_url sch ui h port ps remark)
    = sch @ ''://'' @ (if ui = [] then [] else ui @ ''@'') @ h @ '':'' @ nat_str (nat port) @ ''?'' @ params_serialize ps
      @ (if remark = [] then [] else CHR ''#'' # encodeURIComponent remark)"
  by (simp add: finished_url_def template_url_def URL_href_def url_credentials_def path_serialize_def)

definition ss_object :: "string \<Rightarrow> string \<Rightarrow> js \<Rightarrow> string \<Rightarrow> string \<Rightarrow> js" where
  "ss_object remark address port password method =
     JObj [(''protocol'', JStr ''shadowsocks''), (''tag'', JStr remark),
        (''settings'', JObj [(''servers'', JArr [JObj
           [(''address'', JStr address), (''port'', port), (''password'', JStr password), (''method'', JStr method)]])])]"

lemma ss_outbound_split:
  "CHR '':'' \<notin> set m \<Longrightarrow> ss_outbound r (m @ CHR '':'' # pw) hp = ss_object r (fst hp) (snd hp) pw m"
  by (simp add: ss_outbound_def split_first_append ss_object_def)

lemma ss_outbound_whole:
  "CHR '':'' \<notin> set t \<Longrightarrow> ss_outbound r t hp = ss_object r (fst hp) (snd hp) t ''2022-blake3-aes-128-gcm''"
proof -
  assume "CHR '':'' \<notin> set t"
  then have "split_first CHR '':'' t = None" by (rule split_first_None [THEN iffD2])
  then show ?thesis by (simp add: ss_outbound_def ss_object_def del: split_first_None)
qed

lemma parse_ss_finished:
  assumes "template_ok ''ss'' ui h port" "0 < port" "valid_utf8 remark"
  shows "parseShadowsocksLink (URL_href (finished_url ''ss'' ui h port ps remark))
    = Some (ss_outbound remark (case Base64_decode ui of Some d \<Rightarrow> d | None \<Rightarrow> ui) (h, JInt port))"
proof -
  let ?hash = "if remark = [] then None else Some (encodeURIComponent remark)"
  let ?hp = "h @ '':'' @ nat_str (nat port)"
  let ?core = "ui @ CHR ''@'' # ?hp"
  let ?q = "params_serialize ps"
  have ui: "ui \<noteq> []" "free_of ''/?#@'' ui" and h: "free_of ''/?#@'' h"
    using assms(1) free_parts(1,5) by (auto simp: template_ok_def)
  have q: "free_of ''#'' ?q" by (rule free_parts(3)) (rule params_serialize_query)
  have digit: "c \<in> set ''/?#@:'' \<Longrightarrow> \<not> is_digit c" for c by (auto simp: is_digit_def)
  have n: "free_of ''/?#@:'' (nat_str k)" for k by (rule free_nat_str) (rule digit)
  have notin: "CHR ''#'' \<notin> set ui" "CHR ''?'' \<notin> set ui" "CHR ''@'' \<notin> set ui" "CHR ''#'' \<notin> set h"
      "CHR ''?'' \<notin> set h" "CHR ''@'' \<notin> set h" "CHR ''#'' \<notin> set ?q" "CHR ''#'' \<notin> set (nat_str k)"
      "CHR ''?'' \<notin> set (nat_str k)" "CHR ''@'' \<notin> set (nat_str k)" "CHR '':'' \<notin> set (nat_str k)" for k
    using free_ofD [OF ui(2)] free_ofD [OF h] free_ofD [OF q] free_ofD [OF n] by auto
  have href: "URL_href (finished_url ''ss'' ui h port ps remark)
      = (''ss://'' @ ?core @ CHR ''?'' # ?q) @ (case ?hash of None \<Rightarrow> [] | Some f \<Rightarrow> CHR ''#'' # f)"
    using ui(1) by (simp add: finished_href)
  have hash: "split_tail CHR ''#'' (URL_href (finished_url ''ss'' ui h port ps remark))
      = (''ss://'' @ ?core @ CHR ''?'' # ?q, ?hash)"
    unfolding href by (rule split_tail_some) (use notin in auto)
  have "split_tail CHR ''?'' ((''ss://'' @ ?core) @ (case Some ?q of None \<Rightarrow> [] | Some f \<Rightarrow> CHR ''?'' # f))
      = (''ss://'' @ ?core, Some ?q)"
    by (rule split_tail_some) (use notin in auto)
  then have query: "split_tail CHR ''?'' (''ss://'' @ ?core @ CHR ''?'' # ?q) = (''ss://'' @ ?core, Some ?q)" by simp
  have at: "split_first CHR ''@'' ?core = Some (ui, ?hp)" by (rule split_first_append) (use notin in simp)
  have hp: "ss_hostport ?hp = Some (h, JInt port)"
    using split_last_append [of "CHR '':''" "nat_str (nat port)" h] notin js_number_of_nat_str [of "nat port"] assms(2)
    by (simp add: ss_hostport_def js_or_def)
  have remark: "(case ?hash of None \<Rightarrow> [] | Some f \<Rightarrow> (case decodeURIComponent f of Some r \<Rightarrow> r | None \<Rightarrow> [])) = remark"
    using decode_encode_component [OF assms(3)] by simp
  have sw: "starts_with (URL_href (finished_url ''ss'' ui h port ps remark)) ''ss://''"
    unfolding href append_assoc by (rule starts_with_append)
  show ?thesis
    unfolding parseShadowsocksLink_def hash prod.case Let_def query fst_conv remark
    using sw at hp by simp
qed


text \<open>C26. A Shadowsocks link carries method and passwords in URL-safe Base64, which its parser decodes
  with \<open>atob\<close>: they come back when the standard Base64 text has neither a plus sign nor a slash;
  otherwise the whole encoded text becomes the password, with a method that was never set.\<close>

theorem shadowsocks_link_roundtrip:
  assumes "ib_settings ib = Shadowsocks cipher password cs" "ib_stream ib = Some stream"
    and "info = ss_userinfo cipher password pw" "ui = Base64_encode info True"
    and "template_ok ''ss'' ui address p" "0 < p" "valid_utf8 remark"
    and "params_ok (shadowsocks_params stream forceTls ep)" "text_ok info" "CHR '':'' \<notin> set cipher"
  shows "Option.bind (genShadowsocksLink ib address (Some p) (Some forceTls) (Some remark) (Some pw) ep)
      parseShadowsocksLink
    = Some (if CHR ''+'' \<in> set (btoa info) \<or> CHR ''/'' \<in> set (btoa info)
            then ss_object remark address (JInt p) ui ''2022-blake3-aes-128-gcm''
            else ss_object remark address (JInt p) (drop (length cipher + 1) info) cipher)"
proof -
  have link: "genShadowsocksLink ib address (Some p) (Some forceTls) (Some remark) (Some pw) ep
      = Some (URL_href (finished_url ''ss'' ui address p (shadowsocks_params stream forceTls ep) remark))"
    using assms(1-4) link_of_template_ok [OF assms(5,8) shadowsocks_params_wf]
    by (simp add: genShadowsocksLink_def the_default_def)
  have info: "info = cipher @ CHR '':'' # drop (length cipher + 1) info"
    by (simp add: assms(3) ss_userinfo_def)
  have "list_all (\<lambda>c. \<not> userinfo_set c) ui" using assms(5) by (simp add: template_ok_def)
  then have colon: "CHR '':'' \<notin> set ui" using userinfo_set_cases by (fastforce simp: list_all_iff)
  show ?thesis
  proof (cases "CHR ''+'' \<in> set (btoa info) \<or> CHR ''/'' \<in> set (btoa info)")
    case True
    then have "Base64_decode ui = None" using decode_url_safe_reject assms(4) by simp
    with True show ?thesis
      by (simp add: link parse_ss_finished [OF assms(5,6,7)] ss_outbound_whole [OF colon])
  next
    case False
    then have "Base64_decode ui = Some info" using decode_url_safe_plain [OF assms(9)] assms(4) by simp
    then have "parseShadowsocksLink (URL_href (finished_url ''ss'' ui address p (shadowsocks_params stream forceTls ep) remark))
        = Some (ss_outbound remark info (address, JInt p))"
      by (simp add: parse_ss_finished [OF assms(5,6,7)])
    also have "ss_outbound remark info (address, JInt p)
        = ss_object remark address (JInt p) (drop (length cipher + 1) info) cipher"
      by (subst info) (simp only: ss_outbound_split [OF assms(10)] fst_conv snd_conv)
    finally show ?thesis using False by (simp add: link)
  qed
qed

section \<open>VMess\<close>

text \<open>A writer of the payload keeps the members it does not name.\<close>

definition okept :: "string set \<Rightarrow> obj \<Rightarrow> obj \<Rightarrow> bool" where
  "okept ks o1 o2 \<longleftrightarrow> (\<forall>k. k \<notin> ks \<longrightarrow> js_get o2 k = js_get o1 k)"

lemma okept_refl: "okept ks p p"
  by (simp add: okept_def)

lemma okept_put: "k \<in> ks \<Longrightarrow> okept ks p q \<Longrightarrow> okept ks p (js_put k v q)"
  by (auto simp: okept_def)

lemma okept_put_nonempty: "k \<in> ks \<Longrightarrow> okept ks p q \<Longrightarrow> okept ks p (put_nonempty k v q)"
  by (simp add: put_nonempty_def okept_put)

lemma okept_trans: "okept ks p q \<Longrightarrow> okept ks q r \<Longrightarrow> okept ks p r"
  by (simp add: okept_def)

lemma okept_put_all: "fst ` set new \<subseteq> ks \<Longrightarrow> okept ks p q \<Longrightarrow> okept ks p (js_put_all q new)"
  unfolding js_put_all_def by (induction new arbitrary: q) (auto simp: okept_put)

lemmas okept_intros = okept_put okept_put_nonempty okept_refl

definition extra_keys :: "string set" where
  "extra_keys = {''xPaddingBytes'', ''xPaddingObfsMode'', ''xPaddingKey'', ''xPaddingHeader'',
     ''xPaddingPlacement'', ''xPaddingMethod'', ''uplinkHTTPMethod'', ''sessionPlacement'', ''sessionKey'',
     ''seqPlacement'', ''seqKey'', ''uplinkDataPlacement'', ''uplinkDataKey'', ''scMaxEachPostBytes'', ''headers''}"

lemma keys_put: "fst ` set (js_put k v q) = insert k (fst ` set q)"
proof -
  have "x \<in> fst ` set (js_put k v q) \<longleftrightarrow> x = k \<or> x \<in> fst ` set q" for x
    using js_has_put [of k v q x] unfolding js_has_iff .
  then show ?thesis by auto
qed

lemma keys_copy_string: "fst ` set (copy_string kn q k) \<subseteq> insert k (fst ` set q)"
  by (auto simp: copy_string_def keys_put split: js.split)

lemma keys_copy_strings: "fst ` set (foldl (copy_string kn) q ks) \<subseteq> set ks \<union> fst ` set q"
proof (induction ks arbitrary: q)
  case (Cons k ks)
  from Cons [of "copy_string kn q k"] keys_copy_string [of kn q k] show ?case by auto
qed simp

lemma keys_copies_within:
  "set ks \<subseteq> S \<Longrightarrow> fst ` set q \<subseteq> S \<Longrightarrow> fst ` set (foldl (copy_string kn) q ks) \<subseteq> S"
  using keys_copy_strings [of kn q ks] by blast

lemma keys_put_within: "k \<in> S \<Longrightarrow> fst ` set q \<subseteq> S \<Longrightarrow> fst ` set (js_put k v q) \<subseteq> S"
  by (simp add: keys_put)

lemma keys_copy_within: "k \<in> S \<Longrightarrow> fst ` set q \<subseteq> S \<Longrightarrow> fst ` set (copy_string kn q k) \<subseteq> S"
  using keys_copy_string [of kn q k] by blast

lemma keys_if_within: "fst ` set p \<subseteq> S \<Longrightarrow> fst ` set q \<subseteq> S \<Longrightarrow> fst ` set (if c then p else q) \<subseteq> S"
  by simp

lemma if_Some_elim: "(if e = [] then None else Some e) = Some x \<Longrightarrow> P e \<Longrightarrow> P x"
  by (simp split: if_splits)

lemma keys_extra: "buildXhttpExtra xh = Some extra \<Longrightarrow> fst ` set extra \<subseteq> extra_keys"
  unfolding buildXhttpExtra_def Let_def
  by (erule if_Some_elim, (intro keys_if_within keys_put_within keys_copies_within keys_copy_within;
      simp add: extra_keys_def))

definition payload_keys :: "string set" where
  "payload_keys = {''type'', ''path'', ''host'', ''mtu'', ''tti'', ''authority'', ''x_padding_bytes'', ''fm'',
     ''sni'', ''fp'', ''alpn'', ''pcs''} \<union> extra_keys"

lemma okept_network: "okept payload_keys p (vmess_network net p)"
proof (cases net)
  case (NetXHttp xh)
  have *: "okept payload_keys p (applyXhttpExtraToObj xh q)" if "okept payload_keys p q" for q
  proof -
    have "fst ` set extra \<subseteq> payload_keys" if "buildXhttpExtra xh = Some extra" for extra
      using keys_extra [OF that] by (auto simp: payload_keys_def)
    with that show ?thesis unfolding applyXhttpExtraToObj_def Let_def
      by (auto split: option.split js.split intro!: okept_put_all okept_put simp: payload_keys_def)
  qed
  show ?thesis unfolding vmess_network_def NetXHttp network_settings.case
    by (intro * okept_intros) (simp_all add: payload_keys_def)
qed (auto simp: vmess_network_def Let_def payload_keys_def intro!: okept_intros
      split: option.split tcp_header.split)

lemma okept_payload:
  "okept payload_keys
     [(''v'', JStr ''2''), (''ps'', JStr remark), (''add'', JStr address),
      (''port'', JInt (the_default (ib_port ib) port)), (''id'', JStr clientId),
      (''scy'', case security of Some s \<Rightarrow> JStr s | None \<Rightarrow> JUndef),
      (''net'', JStr (network_name (st_network stream))),
      (''tls'', JStr (if forceTls = ''same'' then security_name (st_security stream) else forceTls))]
     (vmess_payload ib stream address port forceTls remark clientId security ep)"
proof -
  have tls: "okept payload_keys p (vmess_tls t p)" for t p
    by (auto simp: vmess_tls_def Let_def payload_keys_def intro!: okept_intros)
  have fm: "okept payload_keys p (applyFinalMaskToObj f p)" for f p
    by (auto simp: applyFinalMaskToObj_def Let_def payload_keys_def intro!: okept_intros)
  have px: "okept payload_keys p (applyExternalProxyTLSObj e p sec)" for e p sec
    by (auto simp: applyExternalProxyTLSObj_def payload_keys_def intro!: okept_intros split: option.split)
  show ?thesis
    unfolding vmess_payload_def Let_def
    by (cases "st_security stream")
      (simp_all split: if_split add: okept_trans [OF okept_trans [OF okept_network fm] px]
        okept_trans [OF okept_trans [OF okept_trans [OF okept_network fm] tls] px])
qed

text \<open>The payload of a VMess link: JSON, then Base64.\<close>

interpretation vmess_text:
  codec_comp "\<lambda>v. the (JSON_stringify_pretty v)" JSON_parse "\<lambda>v. json_ok v \<and> text_ok (the (JSON_stringify_pretty v))"
    "\<lambda>s. Base64_encode s False" Base64_decode text_ok
  by unfold_locales (simp_all add: JSON_parse_stringify_pretty Base64_decode_encode)

text \<open>What the payload says of the transport: the members that a later writer does not touch.\<close>

definition tls_payload_keys :: "string set" where
  "tls_payload_keys = {''fm'', ''sni'', ''fp'', ''alpn'', ''pcs''}"

definition payload_base :: "string \<Rightarrow> string \<Rightarrow> int \<Rightarrow> string \<Rightarrow> js \<Rightarrow> stream_settings \<Rightarrow> string \<Rightarrow> obj" where
  "payload_base remark address port clientId scy stream tls =
     [(''v'', JStr ''2''), (''ps'', JStr remark), (''add'', JStr address), (''port'', JInt port),
      (''id'', JStr clientId), (''scy'', scy), (''net'', JStr (network_name (st_network stream))), (''tls'', JStr tls)]"

lemma okept_vmess_tls: "okept tls_payload_keys p (vmess_tls t p)"
  by (auto simp: vmess_tls_def Let_def tls_payload_keys_def intro!: okept_intros)

lemma okept_finalmask: "okept {''fm''} p (applyFinalMaskToObj f p)"
  by (auto simp: applyFinalMaskToObj_def Let_def intro!: okept_intros)

lemma okept_proxy: "okept tls_payload_keys p (applyExternalProxyTLSObj e p sec)"
  by (auto simp: applyExternalProxyTLSObj_def tls_payload_keys_def intro!: okept_intros split: option.split)

lemma okept_mono: "okept ks p q \<Longrightarrow> ks \<subseteq> ks' \<Longrightarrow> okept ks' p q"
  by (auto simp: okept_def)

lemma payload_transport:
  "okept tls_payload_keys
     (vmess_network (st_network stream) (payload_base remark address (the_default (ib_port ib) port) clientId
        (case security of Some s \<Rightarrow> JStr s | None \<Rightarrow> JUndef) stream
        (if forceTls = ''same'' then security_name (st_security stream) else forceTls)))
     (vmess_payload ib stream address port forceTls remark clientId security ep)"
proof -
  have fm: "okept tls_payload_keys p (applyFinalMaskToObj f p)" for f p
    by (rule okept_mono [OF okept_finalmask]) (simp add: tls_payload_keys_def)
  show ?thesis
    unfolding vmess_payload_def payload_base_def Let_def
    by (cases "st_security stream")
      (simp_all split: if_split add: okept_trans [OF fm okept_proxy] okept_trans [OF okept_trans [OF fm okept_vmess_tls] okept_proxy])
qed

lemma payload_alpn: "js_get (vmess_payload ib stream address port forceTls remark clientId security ep) ''alpn''
   \<in> insert JUndef (range JStr)"
proof -
  have net: "js_get (vmess_network net (payload_base r a p i c st t)) ''alpn'' = JUndef" for net r a p i c st t
  proof -
    have "js_get (payload_base r a p i c st t) ''alpn'' = JUndef" by (simp add: payload_base_def)
    moreover have "okept (payload_keys - {''alpn''}) q (vmess_network net q)" for q
    proof (cases net)
      case (NetXHttp xh)
      have *: "okept (payload_keys - {''alpn''}) q (applyXhttpExtraToObj xh q')" if "okept (payload_keys - {''alpn''}) q q'" for q'
      proof -
        have "fst ` set extra \<subseteq> payload_keys - {''alpn''}" if "buildXhttpExtra xh = Some extra" for extra
          using keys_extra [OF that] by (auto simp: payload_keys_def extra_keys_def)
        with that show ?thesis unfolding applyXhttpExtraToObj_def Let_def
          by (auto split: option.split js.split intro!: okept_put_all okept_put simp: payload_keys_def)
      qed
      show ?thesis unfolding vmess_network_def NetXHttp network_settings.case
        by (intro * okept_intros) (simp_all add: payload_keys_def)
    qed (auto simp: vmess_network_def Let_def payload_keys_def intro!: okept_intros split: option.split tcp_header.split)
    ultimately show ?thesis by (simp add: okept_def)
  qed
  have fm: "js_get (applyFinalMaskToObj f q) ''alpn'' = js_get q ''alpn''" for f q
    using okept_finalmask [of q f] by (simp add: okept_def)
  have tls: "js_get (vmess_tls t q) ''alpn'' \<in> insert JUndef (range JStr)" if "js_get q ''alpn'' \<in> insert JUndef (range JStr)" for t q
    using that by (auto simp: vmess_tls_def Let_def put_nonempty_def)
  have px: "js_get (applyExternalProxyTLSObj e q sec) ''alpn'' \<in> insert JUndef (range JStr)"
    if "js_get q ''alpn'' \<in> insert JUndef (range JStr)" for e q sec
    using that by (auto simp: applyExternalProxyTLSObj_def put_nonempty_def split: option.split)
  show ?thesis
    unfolding vmess_payload_def Let_def payload_base_def [symmetric]
    by (rule px) (use net fm tls in \<open>auto split: security_settings.split\<close>)
qed

text \<open>The transport of the generator in the stream settings of the parser.\<close>

definition transport_kept :: "network_settings \<Rightarrow> obj \<Rightarrow> bool" where
  "transport_kept net s =
     (let m = (\<lambda>k. js_member (js_get s k))
      in case net of
        NetTcp tcp \<Rightarrow>
          (case tcp_header tcp of
             Some (HeaderHttp (Some rq) response) \<Rightarrow>
               m ''tcpSettings'' ''header'' = http_header (join '','' (tq_path rq)) (http_host rq response)
           | _ \<Rightarrow> True)
      | NetWs w \<Rightarrow>
          m ''wsSettings'' ''path'' = JStr (ws_path w) \<and>
          m ''wsSettings'' ''host'' = JStr (if ws_host w \<noteq> [] then ws_host w else getHeaderValue (JObj (ws_headers w)) ''host'')
      | NetGrpc g \<Rightarrow>
          m ''grpcSettings'' ''serviceName'' = JStr (grpc_serviceName g) \<and>
          m ''grpcSettings'' ''authority'' = JStr (grpc_authority g) \<and>
          m ''grpcSettings'' ''multiMode'' = JBool (grpc_multiMode g)
      | NetHttpUpgrade u \<Rightarrow>
          m ''httpupgradeSettings'' ''path'' = JStr (hu_path u) \<and>
          m ''httpupgradeSettings'' ''host'' = JStr (if hu_host u \<noteq> [] then hu_host u else getHeaderValue (JObj (hu_headers u)) ''host'')
      | NetXHttp xh \<Rightarrow>
          m ''xhttpSettings'' ''path'' = JStr (xh_path xh) \<and>
          m ''xhttpSettings'' ''host'' = JStr (if xh_host xh \<noteq> [] then xh_host xh else xhttpHostFallback xh)
      | _ \<Rightarrow> True)"

lemma xhttp_json_other:
  assumes "k \<notin> set XHTTP_BOOL_KEYS \<union> set XHTTP_NUMBER_KEYS \<union> set XHTTP_STRING_KEYS"
  shows "js_get (applyXhttpStringFromJson q j) k = js_get q k"
proof -
  have "k \<notin> set ks \<Longrightarrow> js_get (foldl (copy_if ty j) q ks) k = js_get q k" for ks ty q
    by (induction ks arbitrary: q) (auto simp: copy_if_def)
  then show ?thesis using assms by (simp add: applyXhttpStringFromJson_def)
qed

lemma okept_xhttp: "okept (insert ''x_padding_bytes'' extra_keys) q (applyXhttpExtraToObj xh q)"
proof -
  have "fst ` set extra \<subseteq> insert ''x_padding_bytes'' extra_keys" if "buildXhttpExtra xh = Some extra" for extra
    using keys_extra [OF that] by blast
  then show ?thesis unfolding applyXhttpExtraToObj_def Let_def
    by (auto split: option.split js.split intro!: okept_put_all okept_put okept_refl)
qed

lemma transport_parsed:
  assumes "okept tls_payload_keys (vmess_network net (payload_base r a p i c st t)) payload"
  shows "\<exists>s. applyVmessNetwork (JStr (network_name net)) (JObj payload) (buildStream (JStr (network_name net)) tls) = Some s \<and>
    transport_kept net s \<and> js_get s ''network'' = JStr (network_name net) \<and> js_get s ''security'' = JStr tls \<and>
    js_get s ''tlsSettings'' = js_get (buildStream (JStr (network_name net)) tls) ''tlsSettings''"
proof -
  have g: "js_member (JObj payload) k = js_get (vmess_network net (payload_base r a p i c st t)) k" if "k \<notin> tls_payload_keys" for k
    using assms that by (simp add: okept_def js_member_def)
  have base: "js_get (payload_base r a p i c st t) k = JUndef" if "k \<in> {''type'', ''path'', ''host'', ''authority''}" for k
    using that by (auto simp: payload_base_def)
  note defs = applyVmessNetwork_def transport_kept_def Let_def put_in_def js_coalesce_def buildStream_get
  show ?thesis
  proof (cases net)
    case (NetTcp tcp)
    consider "tcp_header tcp = None" | "tcp_header tcp = Some HeaderNone"
      | resp where "tcp_header tcp = Some (HeaderHttp None resp)"
      | rq resp where "tcp_header tcp = Some (HeaderHttp (Some rq) resp)"
      by (metis option.exhaust tcp_header.exhaust)
    then show ?thesis
    proof cases
      case 4
      have "js_member (JObj payload) ''path'' = JStr (join '','' (tq_path rq))"
        "js_member (JObj payload) ''type'' = JStr ''http''"
        "js_member (JObj payload) ''host'' = (if http_host rq resp = [] then JUndef else JStr (http_host rq resp))"
        by (simp_all add: g tls_payload_keys_def NetTcp 4 vmess_network_def base put_nonempty_def Let_def)
      then show ?thesis using 4
        by (simp add: NetTcp defs vmess_http_header_def js_split_comma_def http_header_def js_member_def [of "JObj x" for x])
    qed (simp_all add: NetTcp g tls_payload_keys_def vmess_network_def base defs vmess_http_header_def js_split_comma_def)
  next
    case (NetXHttp xh)
    have x: "js_get (applyXhttpExtraToObj xh q) k = js_get q k" if "k \<in> {''path'', ''host''}" for k q
      by (rule okept_xhttp [unfolded okept_def, rule_format]) (use that in \<open>auto simp: extra_keys_def\<close>)
    have "js_member (JObj payload) ''mode'' = JUndef"
      using okept_network [of "payload_base r a p i c st t" net]
      by (simp add: g tls_payload_keys_def okept_def payload_keys_def extra_keys_def) (simp add: payload_base_def)
    moreover have "js_member (JObj payload) ''path'' = JStr (xh_path xh)"
      "js_member (JObj payload) ''host'' = JStr (if xh_host xh \<noteq> [] then xh_host xh else xhttpHostFallback xh)"
      by (simp_all add: g tls_payload_keys_def NetXHttp vmess_network_def x)
    ultimately show ?thesis
      by (simp add: NetXHttp defs js_member_def xhttp_json_other XHTTP_BOOL_KEYS_def XHTTP_NUMBER_KEYS_def XHTTP_STRING_KEYS_def)
  qed (simp_all add: defs g tls_payload_keys_def vmess_network_def base, simp_all add: js_member_def js_members_def)
qed

text \<open>The names of TLS in the stream settings of the parser.\<close>

definition tls_names_kept :: "tls_settings \<Rightarrow> obj \<Rightarrow> bool" where
  "tls_names_kept t s =
     (let m = js_member (js_get s ''tlsSettings''); protocols = join '','' (tls_alpn t)
      in m ''serverName'' = JStr (tls_serverName t) \<and>
         m ''fingerprint'' = JStr (tc_fingerprint (tls_client t)) \<and>
         m ''alpn'' = js_strs (if protocols = [] then [] else split_on CHR '','' protocols))"

lemma transport_kept_tls [simp]: "transport_kept net (js_put ''tlsSettings'' v s) = transport_kept net s"
  by (cases net) (simp_all add: transport_kept_def Let_def)

lemma vmess_tls_members:
  assumes "\<And>k. k \<in> {''sni'', ''fp'', ''alpn''} \<Longrightarrow> js_get q k = JUndef"
  shows "js_get (vmess_tls t q) ''sni'' = (if tls_serverName t = [] then JUndef else JStr (tls_serverName t))"
    "js_get (vmess_tls t q) ''fp'' = (if tc_fingerprint (tls_client t) = [] then JUndef else JStr (tc_fingerprint (tls_client t)))"
    "js_get (vmess_tls t q) ''alpn'' = (if tls_alpn t = [] then JUndef else JStr (join '','' (tls_alpn t)))"
  using assms by (simp_all add: vmess_tls_def put_nonempty_def Let_def)

lemma payload_tls:
  assumes "st_security stream = SecTls t" "(if forceTls = ''same'' then security_name (st_security stream) else forceTls) = ''tls''"
  shows "\<exists>q. vmess_payload ib stream address port forceTls remark clientId security None = vmess_tls t q \<and>
    (\<forall>k \<in> {''sni'', ''fp'', ''alpn''}. js_get q k = JUndef)"
proof -
  have net: "js_get (applyFinalMaskToObj f (vmess_network net (payload_base r a p i c st tls))) k = JUndef"
    if "k \<in> {''sni'', ''fp'', ''alpn''}" for f net r a p i c st tls k
  proof -
    have "js_get (applyFinalMaskToObj f q) k = js_get q k" for q
      by (rule okept_finalmask [unfolded okept_def, rule_format]) (use that in auto)
    moreover have "js_get (vmess_network net q) k = js_get q k" for q
    proof (cases net)
      case (NetXHttp xh)
      have "js_get (applyXhttpExtraToObj xh q') k = js_get q' k" for q'
        by (rule okept_xhttp [unfolded okept_def, rule_format]) (use that in \<open>auto simp: extra_keys_def\<close>)
      then show ?thesis using that by (auto simp: NetXHttp vmess_network_def)
    qed (use that in \<open>auto simp: vmess_network_def put_nonempty_def Let_def split: option.split tcp_header.split\<close>)
    ultimately show ?thesis using that by (auto simp: payload_base_def)
  qed
  have "vmess_payload ib stream address port forceTls remark clientId security None =
    vmess_tls t (applyFinalMaskToObj (st_finalmask stream) (vmess_network (st_network stream)
      (payload_base remark address (the_default (ib_port ib) port) clientId
        (case security of Some s \<Rightarrow> JStr s | None \<Rightarrow> JUndef) stream ''tls'')))"
    using assms by (simp add: vmess_payload_def payload_base_def Let_def applyExternalProxyTLSObj_def split: if_splits)
  with net show ?thesis by blast
qed

lemma tls_parsed:
  assumes "js_get payload ''alpn'' \<in> insert JUndef (range JStr)"
  shows "\<exists>s'. applyVmessTls ''tls'' (JObj payload) s = Some s' \<and> transport_kept net s' = transport_kept net s \<and>
    js_get s' ''network'' = js_get s ''network'' \<and> js_get s' ''security'' = js_get s ''security'' \<and>
    js_member (js_get s' ''tlsSettings'') ''serverName'' = js_coalesce (js_get payload ''sni'') (JStr []) \<and>
    js_member (js_get s' ''tlsSettings'') ''fingerprint'' = js_coalesce (js_get payload ''fp'') (JStr []) \<and>
    js_member (js_get s' ''tlsSettings'') ''alpn'' =
      (case js_get payload ''alpn'' of
         JStr a \<Rightarrow> if a = [] then js_member (js_get s ''tlsSettings'') ''alpn'' else js_strs (split_on CHR '','' a)
       | _ \<Rightarrow> js_member (js_get s ''tlsSettings'') ''alpn'')"
proof -
  consider "js_get payload ''alpn'' = JUndef" | a where "js_get payload ''alpn'' = JStr a" using assms by blast
  then show ?thesis
    by cases (simp_all add: applyVmessTls_def js_split_comma_def Let_def put_in_def js_member_def [of "JObj x" for x]
        js_members_def [of "JObj x" for x] js_get_members)
qed

text \<open>C25. A VMess link parses back to an outbound: it is never refused, and the outbound has the remark,
  address, port, user id and cipher that the link was made from, the network and TLS or no security,
  the path, host, service name, authority and mode of the transport (for TCP the request of its HTTP
  header), and, without an external proxy, the server name, fingerprint and protocols of TLS.  The
  payload is one that reads back from its own JSON text, as every value with integer numbers does.\<close>

theorem vmess_link_roundtrip:
  fixes ib stream address p forceTls remark clientId sec ep
  defines "payload \<equiv> vmess_payload ib stream address (Some p) forceTls remark clientId (Some sec) ep"
    and "tls \<equiv> if forceTls = ''same'' then security_name (st_security stream) else forceTls"
  assumes "ib_settings ib = Vmess cs" "ib_stream ib = Some stream" "0 < p" "sec \<noteq> []"
    and "JSON_parse (the (JSON_stringify_pretty (JObj payload))) = Some (JObj payload)"
    and "text_ok (the (JSON_stringify_pretty (JObj payload)))"
  shows "\<exists>s. parseVmessLink (genVmessLink ib address (Some p) (Some forceTls) (Some remark) clientId (Some sec) ep)
    = Some (JObj
        [(''protocol'', JStr ''vmess''), (''tag'', JStr remark),
         (''settings'', JObj [(''vnext'', JArr [JObj [(''address'', JStr address), (''port'', JInt p),
            (''users'', JArr [JObj [(''id'', JStr clientId), (''security'', JStr sec)]])]])]),
         (''streamSettings'', JObj s)]) \<and>
    js_get s ''network'' = JStr (network_name (st_network stream)) \<and>
    js_get s ''security'' = JStr (if tls = ''tls'' then ''tls'' else ''none'') \<and>
    transport_kept (st_network stream) s \<and>
    (case st_security stream of SecTls t \<Rightarrow> tls \<noteq> ''tls'' \<or> ep \<noteq> None \<or> tls_names_kept t s | _ \<Rightarrow> True)"
proof -
  let ?text = "the (JSON_stringify_pretty (JObj payload))" and ?net = "network_name (st_network stream)"
  let ?sec = "if tls = ''tls'' then ''tls'' else ''none''"
  have link: "genVmessLink ib address (Some p) (Some forceTls) (Some remark) clientId (Some sec) ep
      = ''vmess://'' @ Base64_encode ?text False"
    by (simp add: genVmessLink_def assms(3,4) the_default_def payload_def)
  have dec: "Base64_decode (Base64_encode ?text False) = Some ?text"
    by (rule Base64_decode_encode [OF assms(8)])
  have get: "js_get payload k = js_get
     [(''v'', JStr ''2''), (''ps'', JStr remark), (''add'', JStr address),
      (''port'', JInt (the_default (ib_port ib) (Some p))), (''id'', JStr clientId),
      (''scy'', JStr sec), (''net'', JStr ?net), (''tls'', JStr tls)] k"
    if "k \<notin> payload_keys" for k
    using okept_payload [of remark address ib "Some p" clientId "Some sec" stream forceTls ep] that
    unfolding payload_def tls_def okept_def by simp
  have m: "js_member (JObj payload) ''net'' = JStr ?net" "js_member (JObj payload) ''tls'' = JStr tls"
      "js_member (JObj payload) ''ps'' = JStr remark" "js_member (JObj payload) ''add'' = JStr address"
      "js_member (JObj payload) ''port'' = JInt p" "js_member (JObj payload) ''id'' = JStr clientId"
      "js_member (JObj payload) ''scy'' = JStr sec"
    by (simp_all add: js_member_def get payload_keys_def extra_keys_def the_default_def)
  have net: "js_or (JStr (network_name n)) d = JStr (network_name n)" for n d
    by (cases n) (simp_all add: js_or_def)
  have out: "vmess_outbound (JObj payload) s = JObj
        [(''protocol'', JStr ''vmess''), (''tag'', JStr remark),
         (''settings'', JObj [(''vnext'', JArr [JObj [(''address'', JStr address), (''port'', JInt p),
            (''users'', JArr [JObj [(''id'', JStr clientId), (''security'', JStr sec)]])]])]),
         (''streamSettings'', JObj s)]" for s
    using assms(5,6) by (simp add: vmess_outbound_def m is_jstr_def js_number_def js_or_def js_coalesce_def)
  obtain s where s: "applyVmessNetwork (JStr ?net) (JObj payload) (buildStream (JStr ?net) ?sec) = Some s"
    "transport_kept (st_network stream) s" "js_get s ''network'' = JStr ?net" "js_get s ''security'' = JStr ?sec"
    "js_get s ''tlsSettings'' = js_get (buildStream (JStr ?net) ?sec) ''tlsSettings''"
    using transport_parsed [OF payload_transport [of stream remark address ib "Some p" clientId "Some sec" forceTls ep]]
    unfolding payload_def by blast
  have a: "js_get payload ''alpn'' \<in> insert JUndef (range JStr)" unfolding payload_def by (rule payload_alpn)
  have parse: "parseVmessLink (genVmessLink ib address (Some p) (Some forceTls) (Some remark) clientId (Some sec) ep) =
      map_option (vmess_outbound (JObj payload)) (applyVmessTls ?sec (JObj payload) s)"
    by (simp add: parseVmessLink_def link dec assms(7) m net s(1) Let_def)
  show ?thesis
  proof (cases "tls = ''tls''")
    case False
    have "applyVmessTls ''none'' (JObj payload) s = Some s" by (simp add: applyVmessTls_def)
    then show ?thesis using s False by (auto simp: parse out split: security_settings.split)
  next
    case True
    obtain s' where s': "applyVmessTls ''tls'' (JObj payload) s = Some s'" "transport_kept (st_network stream) s'"
      "js_get s' ''network'' = JStr ?net" "js_get s' ''security'' = JStr ''tls''"
      "js_member (js_get s' ''tlsSettings'') ''serverName'' = js_coalesce (js_get payload ''sni'') (JStr [])"
      "js_member (js_get s' ''tlsSettings'') ''fingerprint'' = js_coalesce (js_get payload ''fp'') (JStr [])"
      "js_member (js_get s' ''tlsSettings'') ''alpn'' =
        (case js_get payload ''alpn'' of
           JStr a \<Rightarrow> if a = [] then js_member (js_get s ''tlsSettings'') ''alpn'' else js_strs (split_on CHR '','' a)
         | _ \<Rightarrow> js_member (js_get s ''tlsSettings'') ''alpn'')"
      using tls_parsed [OF a, of s "st_network stream"] s(2-4) True by auto
    have d: "js_member (js_get s ''tlsSettings'') ''alpn'' = js_strs []"
      using s(5) True by (simp add: buildStream_def default_network_member_def default_security_member_def js_member_def js_strs_def)
    have "tls_names_kept t s'" if st: "st_security stream = SecTls t" and ep: "ep = None" for t
    proof -
      obtain q where q: "payload = vmess_tls t q" "\<forall>k \<in> {''sni'', ''fp'', ''alpn''}. js_get q k = JUndef"
        using payload_tls [OF st, of forceTls] True ep unfolding payload_def tls_def by blast
      have "join '','' [] = []" by simp
      then show ?thesis
        using s'(5-7) d vmess_tls_members [of q t] q by (auto simp: tls_names_kept_def js_coalesce_def Let_def)
    qed
    then show ?thesis using s' True by (auto simp: parse out split: security_settings.split)
  qed
qed

lemma foldl_copy_if_other: "k \<notin> set ks \<Longrightarrow> js_get (foldl (copy_if ty j) q ks) k = js_get q k"
  by (induction ks arbitrary: q) (auto simp: copy_if_def)

lemma xhttp_json_mode: "js_get (applyXhttpStringFromJson q j) ''mode'' = js_get q ''mode''"
proof -
  have "''mode'' \<notin> set XHTTP_BOOL_KEYS" "''mode'' \<notin> set XHTTP_NUMBER_KEYS" "''mode'' \<notin> set XHTTP_STRING_KEYS"
    by (simp_all add: XHTTP_BOOL_KEYS_def XHTTP_NUMBER_KEYS_def XHTTP_STRING_KEYS_def)
  then show ?thesis by (simp add: applyXhttpStringFromJson_def foldl_copy_if_other)
qed

text \<open>The mode of an xHTTP transport does not survive a VMess link: the generator writes it to
  \<open>type\<close>, the parser reads \<open>mode\<close>, and the imported transport is always in mode \<open>auto\<close>.\<close>

theorem vmess_xhttp_mode_lost:
  assumes "st_network stream = NetXHttp xh"
    and "applyVmessNetwork (JStr ''xhttp'')
      (JObj (vmess_payload ib stream address port forceTls remark clientId sec ep))
      (buildStream (JStr ''xhttp'') tls) = Some s"
  shows "js_get (js_members (js_get s ''xhttpSettings'')) ''mode'' = JStr ''auto''"
proof -
  have "js_member (JObj (vmess_payload ib stream address port forceTls remark clientId sec ep)) ''mode'' = JUndef"
    using okept_payload [of remark address ib port clientId sec stream forceTls ep]
    by (simp add: js_member_def okept_def payload_keys_def extra_keys_def)
  with assms(2) show ?thesis
    by (auto simp: applyVmessNetwork_def Let_def js_members_def xhttp_json_mode
        buildStream_def default_network_member_def)
qed

section \<open>Witnesses\<close>

definition sample_stream :: "network_settings \<Rightarrow> security_settings \<Rightarrow> stream_settings" where
  "sample_stream net sec = \<lparr>st_network = net, st_security = sec, st_externalProxy = None,
     st_finalmask = None, st_sockopt = None\<rparr>"

definition sample_ws :: network_settings where
  "sample_ws = NetWs \<lparr>ws_acceptProxyProtocol = False, ws_path = ''/chat'', ws_host = [],
     ws_headers = [(''Host'', JStr ''cdn.example'')], ws_heartbeatPeriod = 0\<rparr>"

definition sample_tls :: tls_settings where
  "sample_tls = \<lparr>tls_serverName = ''sni.example'', tls_minVersion = ''1.2'', tls_maxVersion = ''1.3'',
     tls_cipherSuites = [], tls_rejectUnknownSni = False, tls_disableSystemRoot = False,
     tls_enableSessionResumption = False, tls_certificates = [], tls_alpn = [''h2'', ''http/1.1''],
     tls_echServerKeys = [], tls_client = \<lparr>tc_fingerprint = ''chrome'', tc_echConfigList = ''ECH'',
       tc_pinnedPeerCertSha256 = [''pin'']\<rparr>\<rparr>"

definition sample_inbound :: "inbound_settings \<Rightarrow> stream_settings \<Rightarrow> inbound" where
  "sample_inbound st stream = \<lparr>ib_port = 443, ib_listen = [], ib_settings = st, ib_stream = Some stream\<rparr>"

lemma vless_link_roundtrip_witness:
  "Option.bind (genVlessLink (sample_inbound (Vless [] ''none'') (sample_stream sample_ws (SecTls sample_tls)))
      ''vpn.example'' (Some 8443) (Some ''same'') (Some ''my link'') ''uuid-1'' (Some []) None) parseVlessLink \<noteq> None"
  by (subst vless_link_roundtrip [where ib = "sample_inbound (Vless [] ''none'') (sample_stream sample_ws (SecTls sample_tls))"
        and cs = "[]" and encryption = "''none''" and stream = "sample_stream sample_ws (SecTls sample_tls)"])
    (simp_all add: sample_inbound_def, code_simp+)

lemma trojan_password_stays_encoded_witness:
  "Option.bind (genTrojanLink (sample_inbound (Trojan []) (sample_stream sample_ws (SecTls sample_tls)))
      ''vpn.example'' (Some 8443) (Some ''same'') (Some ''my link'') ''p/w'' None) parseTrojanLink \<noteq> None
   \<and> encodeURIComponent ''p/w'' \<noteq> ''p/w''"
proof -
  have "template_ok ''trojan'' (encodeURIComponent ''p/w'') ''vpn.example'' 8443" by code_simp
  moreover have "params_ok (trojan_params (sample_stream sample_ws (SecTls sample_tls)) ''same'' None)" by code_simp
  moreover have "valid_utf8 ''my link''" by code_simp
  moreover have "\<not> list_all component_plain ''p/w''" by code_simp
  ultimately show ?thesis
    using trojan_password_stays_encoded [of "sample_inbound (Trojan []) (sample_stream sample_ws (SecTls sample_tls))"
        "[]" "sample_stream sample_ws (SecTls sample_tls)" "''p/w''" "''vpn.example''" 8443 "''my link''" "''same''" None]
    by (simp add: sample_inbound_def)
qed

lemma vless_tls_roundtrip_witness:
  "js_get (link_stream (vless_params (sample_stream sample_ws (SecTls sample_tls)) ''none'' ''same'' [] None) ''none'')
     ''tlsSettings''
   = JObj [(''serverName'', JStr ''sni.example''), (''alpn'', js_strs [''h2'', ''http/1.1'']),
       (''fingerprint'', JStr ''chrome''), (''echConfigList'', JStr []),
       (''verifyPeerCertByName'', JStr []), (''pinnedPeerCertSha256'', JStr [])]"
  by (subst vless_tls_roundtrip [where tls = sample_tls]) (simp_all add: sample_stream_def sample_tls_def)

lemma shadowsocks_link_roundtrip_witness:
  "Option.bind (genShadowsocksLink (sample_inbound (Shadowsocks ''aes-256-gcm'' [] []) (sample_stream sample_ws SecNone))
      ''vpn.example'' (Some 8443) (Some ''same'') (Some ''ss'') (Some ''secret'') None) parseShadowsocksLink
    = Some (ss_object ''ss'' ''vpn.example'' (JInt 8443) ''secret'' ''aes-256-gcm'')"
proof -
  have b: "btoa ''aes-256-gcm:secret'' = ''YWVzLTI1Ni1nY206c2VjcmV0''" by code_simp
  show ?thesis
    by (subst shadowsocks_link_roundtrip [where cs = "[]" and cipher = "''aes-256-gcm''" and password = "[]"
          and stream = "sample_stream sample_ws SecNone" and info = "''aes-256-gcm:secret''"
          and ui = "Base64_encode ''aes-256-gcm:secret'' True"])
      (simp_all add: sample_inbound_def b, code_simp+)
qed

lemma vmess_xhttp_mode_lost_witness:
  "let xh = \<lparr>xh_path = ''/'', xh_host = ''h'', xh_mode = ''packet-up'', xh_headers = [], xh_knobs = []\<rparr>;
       stream = sample_stream (NetXHttp xh) SecNone;
       payload = vmess_payload (sample_inbound (Vmess []) stream) stream ''a'' None ''same'' ''r'' ''i'' (Some ''auto'') None
   in js_get (js_members (js_get (the (applyVmessNetwork (JStr ''xhttp'') (JObj payload) (buildStream (JStr ''xhttp'') ''none'')))
        ''xhttpSettings'')) ''mode'' = JStr ''auto''"
  unfolding Let_def
  by (rule vmess_xhttp_mode_lost [where tls = "''none''"])
    (simp_all add: sample_stream_def applyVmessNetwork_def Let_def)

lemma vmess_link_roundtrip_witness:
  "\<exists>s. parseVmessLink (genVmessLink (sample_inbound (Vmess []) (sample_stream (NetGrpc
       \<lparr>grpc_serviceName = ''svc'', grpc_authority = [], grpc_multiMode = True\<rparr>) SecNone))
     ''vpn.example'' (Some 8443) (Some ''same'') (Some ''r'') ''id1'' (Some ''auto'') None) = Some s"
proof -
  let ?stream = "sample_stream (NetGrpc \<lparr>grpc_serviceName = ''svc'', grpc_authority = [], grpc_multiMode = True\<rparr>) SecNone"
  let ?payload = "[(''v'', JStr ''2''), (''ps'', JStr ''r''), (''add'', JStr ''vpn.example''), (''port'', JInt 8443),
     (''id'', JStr ''id1''), (''scy'', JStr ''auto''), (''net'', JStr ''grpc''), (''tls'', JStr ''none''),
     (''path'', JStr ''svc''), (''authority'', JStr []), (''type'', JStr ''multi'')]"
  have payload: "vmess_payload (sample_inbound (Vmess []) ?stream) ?stream ''vpn.example'' (Some 8443) ''same'' ''r'' ''id1'' (Some ''auto'') None = ?payload"
    by (simp add: vmess_payload_def sample_stream_def vmess_network_def applyFinalMaskToObj_def serializeFinalMask_def
        applyExternalProxyTLSObj_def the_default_def js_put_def js_has_def is_index_key_def is_digit_def)
  have ok: "json_ok (JObj ?payload)" "js_ascii (JObj ?payload)"
    by (simp_all add: js_put_all_def js_put_def js_has_def is_index_key_def is_digit_def del: json_ok.simps(2))
  have utf: "text_ok (the (JSON_stringify_pretty (JObj ?payload)))" by (rule text_ok_json(2) [OF ok])
  have stream: "ib_settings (sample_inbound (Vmess []) ?stream) = Vmess []"
    "ib_stream (sample_inbound (Vmess []) ?stream) = Some ?stream" by (simp_all add: sample_inbound_def)
  have p: "JSON_parse (the (JSON_stringify_pretty (JObj ?payload))) = Some (JObj ?payload)"
    using vmess_text.both.dec_enc [of "JObj ?payload"] ok(1) utf by (simp add: Base64_decode_encode)
  from vmess_link_roundtrip [OF stream _ _ p [folded payload] utf [folded payload]] show ?thesis by auto
qed

end
