(* ===== verification/Schema.thy ===== *)
theory Schema
  imports Json
begin

text \<open>
  The schemas of \<open>src/frontend/src/schemas\<close> are values of the Zod library.  This theory
  holds the schema language the sources use, as a datatype, and the contract of
  \<open>safeParse\<close> the callers rely on.

  Zod itself is a third-party package, so parsing is a parameter \<open>P\<close> of every definition
  that calls it (\<open>P s v = Some r\<close>: success with \<open>data\<close> \<open>r\<close>; \<open>None\<close>: failure).  The locale
  \<open>zod\<close> states its documented behaviour, one law per schema constructor; \<open>zparse\<close> is the
  reference parser that these laws determine, and it interprets the locale.
\<close>

section \<open>Schemas\<close>

text \<open>Checks on numbers, on array lengths, and the functions given to \<open>z.preprocess\<close>.\<close>

datatype zcheck = CInt | CMin int | CMax int | CPositive

datatype zlen = AnyLen | MinLen nat | ExactLen nat

datatype zpre =
    EmptyTo js          \<comment> \<open>\<open>val === '' ? d : val\<close>\<close>
  | NumberToString      \<comment> \<open>\<open>typeof v === 'number' ? String(v) : v\<close>\<close>
  | EmptyToUndef        \<comment> \<open>\<open>value === '' || value == null ? undefined : value\<close>\<close>
  | ExpectIPs           \<comment> \<open>the legacy \<open>expectIPs\<close> of a DNS server under its new name\<close>

text \<open>The checks of a string, in their order: \<open>.trim()\<close>, \<open>.min(1)\<close>, \<open>.regex\<close> and \<open>.refine\<close>.\<close>

datatype ztext = TTrim | TNonEmpty | TLeadingSlash | TSixDigits | TAlias | TClientChars

text \<open>The refinement of an object: \<open>v.addDays !== 0 || v.addGB !== 0\<close>.\<close>

datatype zpred = SomeAdjustment

datatype zschema =
    ZString
  | ZNonEmpty           \<comment> \<open>\<open>z.string().min(1)\<close>\<close>
  | ZUuid
  | ZNumber "zcheck list"
  | ZBoolean
  | ZUnknown
  | ZEnum "string list"
  | ZLiteral js
  | ZArray zlen zschema
  | ZRecord zschema     \<comment> \<open>\<open>z.record(z.string(), s)\<close>\<close>
  | ZObject "(string \<times> zschema) list"
  | ZUnion "zschema list"
  | ZDiscriminated string "zschema list"
  | ZAnd zschema zschema
  | ZOptional zschema
  | ZNullable zschema
  | ZDefault zschema js
  | ZPreprocess zpre zschema
  | ZText "ztext list"
  | ZLoose "(string \<times> zschema) list"  \<comment> \<open>\<open>z.object({...}).loose()\<close>\<close>
  | ZOrElse zschema js  \<comment> \<open>\<open>s.transform((v) => v ?? d)\<close>\<close>
  | ZTuple "zschema list"
  | ZRefine zpred zschema

abbreviation ZInt :: "zcheck list \<Rightarrow> zschema" where
  "ZInt cs \<equiv> ZNumber (CInt # cs)"

abbreviation ZBool_default :: "bool \<Rightarrow> zschema" where
  "ZBool_default b \<equiv> ZDefault ZBoolean (JBool b)"

abbreviation ZString_default :: "string \<Rightarrow> zschema" where
  "ZString_default s \<equiv> ZDefault ZString (JStr s)"

abbreviation ZInt_default :: "zcheck list \<Rightarrow> int \<Rightarrow> zschema" where
  "ZInt_default cs i \<equiv> ZDefault (ZInt cs) (JInt i)"

section \<open>What one layer of a schema does\<close>

fun check_ok :: "zcheck \<Rightarrow> rat \<Rightarrow> bool" where
  "check_ok CInt x \<longleftrightarrow> x = of_int \<lfloor>x\<rfloor> \<and> \<bar>x\<bar> \<le> 9007199254740991"
| "check_ok (CMin m) x \<longleftrightarrow> of_int m \<le> x"
| "check_ok (CMax m) x \<longleftrightarrow> x \<le> of_int m"
| "check_ok CPositive x \<longleftrightarrow> 0 < x"

fun len_ok :: "zlen \<Rightarrow> nat \<Rightarrow> bool" where
  "len_ok AnyLen n \<longleftrightarrow> True"
| "len_ok (MinLen m) n \<longleftrightarrow> m \<le> n"
| "len_ok (ExactLen m) n \<longleftrightarrow> n = m"

fun run_pre :: "zpre \<Rightarrow> js \<Rightarrow> js" where
  "run_pre (EmptyTo d) v = (if v = JStr [] then d else v)"
| "run_pre NumberToString v = (case v of JNum n \<Rightarrow> JStr (num_str n) | _ \<Rightarrow> v)"
| "run_pre EmptyToUndef v = (if v = JStr [] \<or> nullish v then JUndef else v)"
| "run_pre ExpectIPs v =
     (case v of
        JObj m \<Rightarrow>
          if truthy (js_get m ''expectIPs'') \<and> \<not> truthy (js_get m ''expectedIPs'')
          then JObj (js_put ''expectedIPs'' (js_get m ''expectIPs'') m) else v
      | _ \<Rightarrow> v)"

definition hasForbiddenClientChars :: "string \<Rightarrow> bool" where
  "hasForbiddenClientChars value \<longleftrightarrow>
     list_ex (\<lambda>c. c = CHR ''/'' \<or> c = CHR 0x5C \<or> c = CHR '' '' \<or> (of_char c :: nat) < 0x20 \<or> (of_char c :: nat) = 0x7F)
       value"

fun text_ok :: "ztext \<Rightarrow> string \<Rightarrow> bool" where
  "text_ok TTrim s = True"
| "text_ok TNonEmpty s = (s \<noteq> [])"
| "text_ok TLeadingSlash s = starts_with s ''/''"
| "text_ok TSixDigits s = (length s = 6 \<and> list_all is_digit s)"
| "text_ok TAlias s = (s \<noteq> [] \<and> list_all (\<lambda>c. is_digit c \<or> of_char c \<in> {97..122::nat} \<or> c = CHR ''_'' \<or> c = CHR ''-'') s)"
| "text_ok TClientChars s = (\<not> hasForbiddenClientChars s)"

fun run_text :: "ztext list \<Rightarrow> string \<Rightarrow> string option" where
  "run_text [] s = Some s"
| "run_text (c # cs) s =
     (if c = TTrim then run_text cs (js_trim s)
      else if text_ok c s then run_text cs s else None)"

fun pred_ok :: "zpred \<Rightarrow> js \<Rightarrow> bool" where
  "pred_ok SomeAdjustment v =
     (case v of JObj m \<Rightarrow> js_get m ''addDays'' \<noteq> JInt 0 \<or> js_get m ''addGB'' \<noteq> JInt 0 | _ \<Rightarrow> False)"

definition keep_if :: "bool \<Rightarrow> js \<Rightarrow> js option" where
  "keep_if b v = (if b then Some v else None)"

definition number_ok :: "zcheck list \<Rightarrow> js \<Rightarrow> bool" where
  "number_ok cs v = (case v of JNum (Fin x) \<Rightarrow> list_all (\<lambda>c. check_ok c x) cs | _ \<Rightarrow> False)"

definition is_bool :: "js \<Rightarrow> bool" where
  "is_bool v = (case v of JBool _ \<Rightarrow> True | _ \<Rightarrow> False)"

definition is_str :: "js \<Rightarrow> bool" where
  "is_str v = (case v of JStr _ \<Rightarrow> True | _ \<Rightarrow> False)"

definition str_where :: "(string \<Rightarrow> bool) \<Rightarrow> js \<Rightarrow> bool" where
  "str_where p v = (case v of JStr s \<Rightarrow> p s | _ \<Rightarrow> False)"

text \<open>
  Members of an object, in the order of the schema: a member that parses to \<open>undefined\<close> is
  dropped unless the input has the key, and keys the schema does not name are stripped.
\<close>

fun fields_of ::
  "(zschema \<Rightarrow> js \<Rightarrow> js option) \<Rightarrow> (string \<times> zschema) list \<Rightarrow> obj \<Rightarrow> obj option" where
  "fields_of P [] m = Some []"
| "fields_of P ((k, s) # fs) m =
     (case P s (js_get m k) of
        None \<Rightarrow> None
      | Some v \<Rightarrow> map_option (\<lambda>r. if v = JUndef \<and> \<not> js_has m k then r else (k, v) # r)
                    (fields_of P fs m))"

fun elems_of :: "(js \<Rightarrow> js option) \<Rightarrow> js list \<Rightarrow> js list option" where
  "elems_of f [] = Some []"
| "elems_of f (x # xs) =
     (case f x of None \<Rightarrow> None | Some y \<Rightarrow> map_option (\<lambda>r. y # r) (elems_of f xs))"

fun values_of :: "(js \<Rightarrow> js option) \<Rightarrow> obj \<Rightarrow> obj option" where
  "values_of f [] = Some []"
| "values_of f ((k, x) # m) =
     (case f x of None \<Rightarrow> None | Some y \<Rightarrow> map_option (\<lambda>r. (k, y) # r) (values_of f m))"

fun first_of :: "(zschema \<Rightarrow> js option) \<Rightarrow> zschema list \<Rightarrow> js option" where
  "first_of f [] = None"
| "first_of f (s # ss) = (case f s of Some r \<Rightarrow> Some r | None \<Rightarrow> first_of f ss)"

text \<open>
  A loose object keeps the keys its schema does not name, after the ones it names; keys
  that are array indices come first, as in every object.
\<close>

definition loose_result :: "(string \<times> zschema) list \<Rightarrow> obj \<Rightarrow> obj \<Rightarrow> obj" where
  "loose_result fs m r =
     (let extra = filter (\<lambda>(k, v). k \<notin> set (map fst fs)) m
      in filter (\<lambda>(k, v). is_index_key k) extra @ r @ filter (\<lambda>(k, v). \<not> is_index_key k) extra)"

text \<open>Tuples of required items.\<close>

fun tuple_of :: "(zschema \<Rightarrow> js \<Rightarrow> js option) \<Rightarrow> zschema list \<Rightarrow> js list \<Rightarrow> js list option" where
  "tuple_of P [] [] = Some []"
| "tuple_of P (s # ss) (x # xs) =
     (case P s x of None \<Rightarrow> None | Some y \<Rightarrow> map_option (\<lambda>r. y # r) (tuple_of P ss xs))"
| "tuple_of P _ _ = None"

definition option_literal :: "string \<Rightarrow> zschema \<Rightarrow> js option" where
  "option_literal k s = (case s of
     ZObject fs \<Rightarrow> (case map_of fs k of Some (ZLiteral l) \<Rightarrow> Some l | _ \<Rightarrow> None) | _ \<Rightarrow> None)"

definition option_for :: "string \<Rightarrow> js \<Rightarrow> zschema list \<Rightarrow> zschema option" where
  "option_for k v ss = (case v of
     JObj m \<Rightarrow> find (\<lambda>s. option_literal k s = Some (js_get m k)) ss | _ \<Rightarrow> None)"

lemma fields_of_cong [fundef_cong]:
  "fs = gs \<Longrightarrow> m = n \<Longrightarrow> (\<And>k s v. (k, s) \<in> set gs \<Longrightarrow> P s v = Q s v)
     \<Longrightarrow> fields_of P fs m = fields_of Q gs n"
proof (induction gs arbitrary: fs)
  case (Cons a gs)
  obtain k s where a: "a = (k, s)" by (cases a)
  have "fields_of P gs n = fields_of Q gs n" using Cons by auto
  moreover have "P s (js_get n k) = Q s (js_get n k)" by (rule Cons.prems(3) [of k]) (simp add: a)
  ultimately show ?case using Cons.prems(1,2) a by (simp split: option.splits)
qed simp

lemma elems_of_cong [fundef_cong]:
  "xs = ys \<Longrightarrow> (\<And>x. x \<in> set ys \<Longrightarrow> f x = g x) \<Longrightarrow> elems_of f xs = elems_of g ys"
  by (induction ys arbitrary: xs) (auto split: option.splits)

lemma values_of_cong [fundef_cong]:
  "m = n \<Longrightarrow> (\<And>k x. (k, x) \<in> set n \<Longrightarrow> f x = g x) \<Longrightarrow> values_of f m = values_of g n"
proof (induction n arbitrary: m)
  case (Cons a n)
  obtain k x where a: "a = (k, x)" by (cases a)
  have "values_of f n = values_of g n" using Cons by auto
  moreover have "f x = g x" by (rule Cons.prems(2) [of k]) (simp add: a)
  ultimately show ?case using Cons.prems(1) a by (simp split: option.splits)
qed simp

lemma first_of_cong [fundef_cong]:
  "ss = ts \<Longrightarrow> (\<And>s. s \<in> set ts \<Longrightarrow> f s = g s) \<Longrightarrow> first_of f ss = first_of g ts"
  by (induction ts arbitrary: ss) (auto split: option.splits)

lemma tuple_of_cong [fundef_cong]:
  "ss = ts \<Longrightarrow> xs = ys \<Longrightarrow> (\<And>s v. s \<in> set ts \<Longrightarrow> P s v = Q s v)
     \<Longrightarrow> tuple_of P ss xs = tuple_of Q ts ys"
proof (induction P ts ys arbitrary: ss xs rule: tuple_of.induct)
  case (2 P s ts x ys)
  have "P s x = Q s x" using 2 by simp
  moreover have "tuple_of P ts ys = tuple_of Q ts ys" if "P s x = Some y" for y
    using 2 that by simp
  ultimately show ?case using 2 by (auto split: option.splits)
qed auto

lemma option_for_mem: "option_for k v ss = Some s \<Longrightarrow> s \<in> set ss"
  by (auto simp: option_for_def find_Some_iff split: js.splits)

section \<open>The contract of \<open>safeParse\<close>\<close>

text \<open>
  \<open>uuid\<close> is the format test of \<open>z.uuid()\<close>.  Intersections (\<open>.and\<close>) are only built by the
  sources covered here, never parsed by them, so they have no law.
\<close>

locale zod =
  fixes P :: "zschema \<Rightarrow> js \<Rightarrow> js option" and uuid :: "string \<Rightarrow> bool"
  assumes string: "P ZString v = keep_if (is_str v) v"
    and nonempty: "P ZNonEmpty v = keep_if (str_where (\<lambda>s. s \<noteq> []) v) v"
    and uuid: "P ZUuid v = keep_if (str_where uuid v) v"
    and number: "P (ZNumber cs) v = keep_if (number_ok cs v) v"
    and boolean: "P ZBoolean v = keep_if (is_bool v) v"
    and unknown: "P ZUnknown v = Some v"
    and enum: "P (ZEnum es) v = keep_if (str_where (\<lambda>s. s \<in> set es) v) v"
    and literal: "P (ZLiteral l) v = keep_if (v = l) v"
    and array: "P (ZArray n s) v = (case v of
        JArr xs \<Rightarrow> if len_ok n (length xs) then map_option JArr (elems_of (P s) xs) else None
      | _ \<Rightarrow> None)"
    and rec: "P (ZRecord s) v = (case v of JObj m \<Rightarrow> map_option JObj (values_of (P s) m) | _ \<Rightarrow> None)"
    and object: "P (ZObject fs) v = (case v of JObj m \<Rightarrow> map_option JObj (fields_of P fs m) | _ \<Rightarrow> None)"
    and union: "P (ZUnion ss) v = first_of (\<lambda>s. P s v) ss"
    and discriminated: "P (ZDiscriminated k ss) v =
        (case option_for k v ss of None \<Rightarrow> None | Some s \<Rightarrow> P s v)"
    and optional: "P (ZOptional s) v = (if v = JUndef then Some JUndef else P s v)"
    and nullable: "P (ZNullable s) v = (if v = JNull then Some JNull else P s v)"
    and default: "P (ZDefault s d) v = (if v = JUndef then Some d else P s v)"
    and preprocess: "P (ZPreprocess p s) v = P s (run_pre p v)"
    and string_checks: "P (ZText ts) v = (case v of JStr t \<Rightarrow> map_option JStr (run_text ts t) | _ \<Rightarrow> None)"
    and loose: "P (ZLoose fs) v =
        (case v of JObj m \<Rightarrow> map_option (\<lambda>r. JObj (loose_result fs m r)) (fields_of P fs m) | _ \<Rightarrow> None)"
    and or_else: "P (ZOrElse s d) v = map_option (\<lambda>r. js_coalesce r d) (P s v)"
    and tuple: "P (ZTuple ss) v = (case v of JArr xs \<Rightarrow> map_option JArr (tuple_of P ss xs) | _ \<Rightarrow> None)"
    and refine: "P (ZRefine q s) v = (case P s v of None \<Rightarrow> None | Some r \<Rightarrow> keep_if (pred_ok q r) r)"

text \<open>The reference parser.\<close>

definition merge_results :: "js \<Rightarrow> js \<Rightarrow> js option" where
  "merge_results a b = (case (a, b) of
     (JObj m, JObj n) \<Rightarrow> Some (JObj (js_put_all m n)) | _ \<Rightarrow> keep_if (a = b) a)"

lemma size_list_mem [termination_simp]: "x \<in> set xs \<Longrightarrow> f x < Suc (size_list f xs)"
  by (induction xs) auto

lemma size_field_mem [termination_simp]:
  "(k, s) \<in> set fs \<Longrightarrow> size s < Suc (size_list (size_prod (\<lambda>_. 0) size) fs)"
  by (induction fs) auto

lemma size_option_for [termination_simp]:
  "option_for k v ss = Some s \<Longrightarrow> size s < Suc (size_list size ss)"
  using option_for_mem [of k v ss s] by (simp add: size_list_mem)

fun zparse :: "(string \<Rightarrow> bool) \<Rightarrow> zschema \<Rightarrow> js \<Rightarrow> js option" where
  "zparse u ZString v = keep_if (is_str v) v"
| "zparse u ZNonEmpty v = keep_if (str_where (\<lambda>s. s \<noteq> []) v) v"
| "zparse u ZUuid v = keep_if (str_where u v) v"
| "zparse u (ZNumber cs) v = keep_if (number_ok cs v) v"
| "zparse u ZBoolean v = keep_if (is_bool v) v"
| "zparse u ZUnknown v = Some v"
| "zparse u (ZEnum es) v = keep_if (str_where (\<lambda>s. s \<in> set es) v) v"
| "zparse u (ZLiteral l) v = keep_if (v = l) v"
| "zparse u (ZArray n s) v = (case v of
      JArr xs \<Rightarrow> if len_ok n (length xs) then map_option JArr (elems_of (zparse u s) xs) else None
    | _ \<Rightarrow> None)"
| "zparse u (ZRecord s) v =
     (case v of JObj m \<Rightarrow> map_option JObj (values_of (zparse u s) m) | _ \<Rightarrow> None)"
| "zparse u (ZObject fs) v =
     (case v of JObj m \<Rightarrow> map_option JObj (fields_of (zparse u) fs m) | _ \<Rightarrow> None)"
| "zparse u (ZUnion ss) v = first_of (\<lambda>s. zparse u s v) ss"
| "zparse u (ZDiscriminated k ss) v =
     (case option_for k v ss of None \<Rightarrow> None | Some s \<Rightarrow> zparse u s v)"
| "zparse u (ZAnd s t) v = (case zparse u s v of None \<Rightarrow> None | Some a \<Rightarrow>
     (case zparse u t v of None \<Rightarrow> None | Some b \<Rightarrow> merge_results a b))"
| "zparse u (ZOptional s) v = (if v = JUndef then Some JUndef else zparse u s v)"
| "zparse u (ZNullable s) v = (if v = JNull then Some JNull else zparse u s v)"
| "zparse u (ZDefault s d) v = (if v = JUndef then Some d else zparse u s v)"
| "zparse u (ZPreprocess p s) v = zparse u s (run_pre p v)"
| "zparse u (ZText cs) v = (case v of JStr t \<Rightarrow> map_option JStr (run_text cs t) | _ \<Rightarrow> None)"
| "zparse u (ZLoose fs) v =
     (case v of JObj m \<Rightarrow> map_option (\<lambda>r. JObj (loose_result fs m r)) (fields_of (zparse u) fs m) | _ \<Rightarrow> None)"
| "zparse u (ZOrElse s d) v = map_option (\<lambda>r. js_coalesce r d) (zparse u s v)"
| "zparse u (ZTuple ss) v = (case v of JArr xs \<Rightarrow> map_option JArr (tuple_of (zparse u) ss xs) | _ \<Rightarrow> None)"
| "zparse u (ZRefine p s) v = (case zparse u s v of None \<Rightarrow> None | Some r \<Rightarrow> keep_if (pred_ok p r) r)"

interpretation zod_reference: zod "zparse u" u for u
  by unfold_locales simp_all

text \<open>Schemas without intersections: there the laws leave no choice.\<close>

fun zfree :: "zschema \<Rightarrow> bool" where
  "zfree (ZAnd s t) = False"
| "zfree (ZArray n s) = zfree s"
| "zfree (ZRecord s) = zfree s"
| "zfree (ZObject fs) = list_all (\<lambda>(k, s). zfree s) fs"
| "zfree (ZUnion ss) = list_all zfree ss"
| "zfree (ZDiscriminated k ss) = list_all zfree ss"
| "zfree (ZOptional s) = zfree s"
| "zfree (ZNullable s) = zfree s"
| "zfree (ZDefault s d) = zfree s"
| "zfree (ZPreprocess p s) = zfree s"
| "zfree (ZLoose fs) = list_all (\<lambda>(k, s). zfree s) fs"
| "zfree (ZOrElse s d) = zfree s"
| "zfree (ZTuple ss) = list_all zfree ss"
| "zfree (ZRefine p s) = zfree s"
| "zfree _ = True"

context zod
begin

lemma laws_determine_aux: "zfree s \<Longrightarrow> u = uuid \<Longrightarrow> P s v = zparse u s v"
proof (induction u s v rule: zparse.induct)
  case (9 u n s v)
  have "elems_of (P s) xs = elems_of (zparse u s) xs" if "v = JArr xs" "len_ok n (length xs)" for xs
    using 9 that by (intro elems_of_cong) auto
  then show ?case by (simp add: array split: js.splits)
next
  case (10 u s v)
  have "values_of (P s) m = values_of (zparse u s) m" if "v = JObj m" for m
    using 10 that by (intro values_of_cong) auto
  then show ?case by (simp add: rec split: js.splits)
next
  case (11 u fs v)
  have "fields_of P fs m = fields_of (zparse u) fs m" if "v = JObj m" for m
    using 11 that by (intro fields_of_cong) (auto simp: list_all_iff)
  then show ?case by (simp add: object split: js.splits)
next
  case (12 u ss v)
  have "first_of (\<lambda>s. P s v) ss = first_of (\<lambda>s. zparse u s v) ss"
    using 12 by (intro first_of_cong) (auto simp: list_all_iff)
  then show ?case by (simp add: union)
next
  case (13 u k ss v)
  show ?case
    using 13 option_for_mem [of k v ss] by (auto simp: discriminated list_all_iff split: option.splits)
next
  case (20 u fs v)
  have "fields_of P fs m = fields_of (zparse u) fs m" if "v = JObj m" for m
    using 20 that by (intro fields_of_cong) (auto simp: list_all_iff)
  then show ?case by (simp add: loose split: js.splits)
next
  case (22 u ss v)
  have "tuple_of P ss xs = tuple_of (zparse u) ss xs" if "v = JArr xs" for xs
    using 22 that by (intro tuple_of_cong) (auto simp: list_all_iff)
  then show ?case by (simp add: tuple split: js.splits)
qed (simp_all add: string nonempty uuid number boolean unknown enum literal optional nullable
       default preprocess string_checks or_else refine)

lemma laws_determine: "zfree s \<Longrightarrow> P s v = zparse uuid s v"
  by (rule laws_determine_aux) simp_all

end

section \<open>Parsing twice\<close>

text \<open>
  \<open>zwf\<close> collects the conditions under which parsing a parsed value returns it unchanged:
  defaults that parse to themselves, object schemas with distinct keys, preprocessing that
  leaves parsed values alone, and unions whose options do not accept each other's results.
\<close>

fun rigid :: "zschema \<Rightarrow> bool" where
  "rigid (ZArray n s) = False"
| "rigid (ZRecord s) = False"
| "rigid (ZObject fs) = False"
| "rigid (ZUnion ss) = list_all rigid ss"
| "rigid (ZDiscriminated k ss) = False"
| "rigid (ZAnd s t) = False"
| "rigid (ZOptional s) = rigid s"
| "rigid (ZNullable s) = rigid s"
| "rigid (ZDefault s d) = False"
| "rigid (ZPreprocess p s) = False"
| "rigid (ZText cs) = False"
| "rigid (ZLoose fs) = False"
| "rigid (ZOrElse s d) = False"
| "rigid (ZTuple ss) = False"
| "rigid (ZRefine p s) = rigid s"
| "rigid _ = True"

fun definite :: "zschema \<Rightarrow> bool" where
  "definite ZUnknown = False"
| "definite (ZLiteral l) = (l \<noteq> JUndef)"
| "definite (ZUnion ss) = list_all definite ss"
| "definite (ZDiscriminated k ss) = list_all definite ss"
| "definite (ZAnd s t) = False"
| "definite (ZOptional s) = False"
| "definite (ZNullable s) = definite s"
| "definite (ZDefault s d) = (definite s \<and> d \<noteq> JUndef)"
| "definite (ZPreprocess p s) = definite s"
| "definite (ZOrElse s d) = (\<not> nullish d)"
| "definite (ZRefine p s) = definite s"
| "definite _ = True"

fun never_empty :: "zschema \<Rightarrow> bool" where
  "never_empty (ZEnum es) = ([] \<notin> set es)"
| "never_empty (ZOptional s) = never_empty s"
| "never_empty _ = False"

fun pre_ok :: "zpre \<Rightarrow> zschema \<Rightarrow> bool" where
  "pre_ok (EmptyTo d) s = never_empty s"
| "pre_ok NumberToString s = (s = ZString)"
| "pre_ok EmptyToUndef s = (case s of ZOptional (ZNumber cs) \<Rightarrow> True | _ \<Rightarrow> False)"
| "pre_ok ExpectIPs s = (case s of ZObject fs \<Rightarrow> ''expectIPs'' \<notin> set (map fst fs) | _ \<Rightarrow> False)"

text \<open>The kind of value a schema yields; \<open>takes\<close> when it accepts no other kind either.\<close>

datatype zkind = KString | KNumber | KBool | KArray | KObject

fun yields :: "zschema \<Rightarrow> zkind option" where
  "yields (ZPreprocess p s) = yields s"
| "yields ZString = Some KString"
| "yields ZNonEmpty = Some KString"
| "yields (ZNumber cs) = Some KNumber"
| "yields ZBoolean = Some KBool"
| "yields (ZArray n s) = Some KArray"
| "yields (ZObject fs) = Some KObject"
| "yields _ = None"

definition takes :: "zschema \<Rightarrow> zkind option" where
  "takes s = (case s of ZPreprocess p t \<Rightarrow> None | _ \<Rightarrow> yields s)"

definition kind_of :: "js \<Rightarrow> zkind option" where
  "kind_of v = (case v of JStr t \<Rightarrow> Some KString | JNum n \<Rightarrow> Some KNumber | JBool b \<Rightarrow> Some KBool
     | JArr xs \<Rightarrow> Some KArray | JObj m \<Rightarrow> Some KObject | _ \<Rightarrow> None)"

definition rejects :: "(string \<Rightarrow> bool) \<Rightarrow> zschema \<Rightarrow> zschema \<Rightarrow> bool" where
  "rejects u s t = (case (s, t) of
     (ZObject fs, ZObject gs) \<Rightarrow> list_ex (\<lambda>(k, x). zparse u x JUndef = None \<and> k \<notin> set (map fst gs)) fs
   | _ \<Rightarrow> takes s \<noteq> None \<and> yields t \<noteq> None \<and> takes s \<noteq> yields t)"

definition default_fits :: "zschema \<Rightarrow> bool" where
  "default_fits s = (case s of ZOptional t \<Rightarrow> definite t | _ \<Rightarrow> definite s)"

fun separated :: "(string \<Rightarrow> bool) \<Rightarrow> zschema list \<Rightarrow> bool" where
  "separated u [] = True"
| "separated u (s # ss) = (list_all (rejects u s) ss \<and> separated u ss)"

fun zwf :: "(string \<Rightarrow> bool) \<Rightarrow> zschema \<Rightarrow> bool" where
  "zwf u (ZArray n s) = zwf u s"
| "zwf u (ZRecord s) = zwf u s"
| "zwf u (ZObject fs) = (distinct (map fst fs) \<and> list_all (\<lambda>(k, s). zwf u s) fs)"
| "zwf u (ZUnion ss) = (list_all (zwf u) ss \<and> (list_all rigid ss \<or> separated u ss))"
| "zwf u (ZDiscriminated k ss) = list_all (zwf u) ss"
| "zwf u (ZAnd s t) = False"
| "zwf u (ZOptional s) = zwf u s"
| "zwf u (ZNullable s) = zwf u s"
| "zwf u (ZDefault s d) = (zwf u s \<and> default_fits s \<and> zparse u s d = Some d)"
| "zwf u (ZPreprocess p s) = (zwf u s \<and> pre_ok p s)"
| "zwf u (ZText cs) = (TTrim \<notin> set (tl cs))"
| "zwf u (ZLoose fs) =
     (distinct (map fst fs) \<and> list_all (\<lambda>(k, s). \<not> is_index_key k \<and> zwf u s) fs)"
| "zwf u (ZOrElse s d) = (zwf u s \<and> zparse u s d = Some d)"
| "zwf u (ZTuple ss) = list_all (zwf u) ss"
| "zwf u (ZRefine p s) = zwf u s"
| "zwf u _ = True"

lemma keep_if_Some [simp]: "keep_if b v = Some r \<longleftrightarrow> b \<and> r = v"
  by (auto simp: keep_if_def)

lemma first_of_Some: "first_of f ss = Some r \<Longrightarrow> \<exists>s \<in> set ss. f s = Some r"
  by (induction ss) (auto split: option.splits)

lemma rigid_parse: "rigid s \<Longrightarrow> zparse u s v = Some r \<Longrightarrow> r = v"
proof (induction u s v rule: zparse.induct)
  case (12 u ss v)
  then show ?case by (auto simp: list_all_iff dest!: first_of_Some)
qed (auto split: if_splits option.splits)

lemma definite_parse: "definite s \<Longrightarrow> zparse u s v \<noteq> Some JUndef"
proof (induction u s v rule: zparse.induct)
  case (12 u ss v)
  then show ?case by (auto simp: list_all_iff dest!: first_of_Some)
next
  case (13 u k ss v)
  then show ?case by (auto simp: list_all_iff dest: option_for_mem split: option.splits)
qed (auto simp: str_where_def number_ok_def is_bool_def is_str_def js_coalesce_def split: js.splits if_splits option.splits)

lemma never_empty_parse: "never_empty s \<Longrightarrow> zparse u s v \<noteq> Some (JStr [])"
  by (induction s arbitrary: v rule: never_empty.induct) (auto simp: str_where_def)

lemma fields_of_Cons_Some:
  "fields_of P ((k, s) # fs) m = Some r \<Longrightarrow>
     \<exists>v r'. P s (js_get m k) = Some v \<and> fields_of P fs m = Some r'
       \<and> r = (if v = JUndef \<and> \<not> js_has m k then r' else (k, v) # r')"
  by (auto split: option.splits)

lemma fields_of_keys: "fields_of P fs m = Some r \<Longrightarrow> set (map fst r) \<subseteq> set (map fst fs)"
proof (induction fs arbitrary: r)
  case (Cons a fs)
  obtain k' s' where a: "a = (k', s')" by (cases a)
  obtain v r' where f: "fields_of P fs m = Some r'"
    and r: "r = (if v = JUndef \<and> \<not> js_has m k' then r' else (k', v) # r')"
    using fields_of_Cons_Some [of P k' s' fs m r] Cons.prems a by auto
  from f have "set (map fst r') \<subseteq> set (map fst fs)" by (rule Cons.IH)
  then show ?case using a r by auto
qed simp

lemma fields_of_each:
  "fields_of P fs m = Some r \<Longrightarrow> (k, s) \<in> set fs \<Longrightarrow> \<exists>w. P s (js_get m k) = Some w"
proof (induction fs arbitrary: r)
  case (Cons a fs)
  obtain k' s' where a: "a = (k', s')" by (cases a)
  show ?case
    using fields_of_Cons_Some [of P k' s' fs m r] Cons a by (cases "(k, s) = a") auto
qed simp

lemma fields_of_lookup:
  assumes "distinct (map fst fs)" "fields_of P fs m = Some r" "(k, s) \<in> set fs"
    "P s (js_get m k) = Some w"
  shows "map_of r k = (if w = JUndef \<and> \<not> js_has m k then None else Some w)"
  using assms
proof (induction fs arbitrary: r)
  case (Cons a fs)
  obtain k' s' where a: "a = (k', s')" by (cases a)
  obtain v r' where v: "P s' (js_get m k') = Some v" "fields_of P fs m = Some r'"
    and r: "r = (if v = JUndef \<and> \<not> js_has m k' then r' else (k', v) # r')"
    using fields_of_Cons_Some [of P k' s' fs m r] Cons.prems(2) a by auto
  show ?case
  proof (cases "k' = k")
    case True
    then have "k \<notin> set (map fst fs)" using Cons.prems(1) a by simp
    then have "k \<notin> set (map fst r')" using fields_of_keys [OF v(2)] by blast
    then have "map_of r' k = None" by (simp add: map_of_eq_None_iff)
    moreover have "s' = s" using True \<open>k \<notin> set (map fst fs)\<close> Cons.prems(3) a by force
    ultimately show ?thesis using True r v(1) Cons.prems(4) by auto
  next
    case False
    then have "(k, s) \<in> set fs" using Cons.prems(3) a by auto
    with Cons v have "map_of r' k = (if w = JUndef \<and> \<not> js_has m k then None else Some w)" by simp
    with False r show ?thesis by auto
  qed
qed simp

lemma fields_of_get:
  assumes "distinct (map fst fs)" "fields_of P fs m = Some r" "(k, s) \<in> set fs"
  shows "P s (js_get m k) = Some (js_get r k)"
    and "js_has r k \<longleftrightarrow> js_get r k \<noteq> JUndef \<or> js_has m k"
proof -
  obtain w where w: "P s (js_get m k) = Some w" using fields_of_each [OF assms(2,3)] by blast
  have "map_of r k = (if w = JUndef \<and> \<not> js_has m k then None else Some w)"
    by (rule fields_of_lookup [OF assms w])
  then show "P s (js_get m k) = Some (js_get r k)" "js_has r k \<longleftrightarrow> js_get r k \<noteq> JUndef \<or> js_has m k"
    using w by (auto simp: js_get_def js_has_def)
qed

lemma fields_of_eqI:
  "(\<And>k s. (k, s) \<in> set fs \<Longrightarrow> P s (js_get m k) = P s (js_get n k)
       \<and> (P s (js_get m k) = Some JUndef \<longrightarrow> js_has m k = js_has n k))
     \<Longrightarrow> fields_of P fs m = fields_of P fs n"
proof (induction fs)
  case (Cons a fs)
  obtain k s where a: "a = (k, s)" by (cases a)
  have "fields_of P fs m = fields_of P fs n" by (rule Cons.IH, rule Cons.prems) simp
  moreover have "P s (js_get m k) = P s (js_get n k)
       \<and> (P s (js_get m k) = Some JUndef \<longrightarrow> js_has m k = js_has n k)"
    by (rule Cons.prems [of k]) (simp add: a)
  ultimately show ?case using a by (auto split: option.splits)
qed simp

lemma fields_of_again:
  assumes "distinct (map fst fs)" "fields_of P fs m = Some r"
    and idem: "\<And>k s v w. (k, s) \<in> set fs \<Longrightarrow> P s v = Some w \<Longrightarrow> P s w = Some w"
  shows "fields_of P fs r = Some r"
proof -
  have "fields_of P fs r = fields_of P fs m"
  proof (rule fields_of_eqI)
    fix k s
    assume "(k, s) \<in> set fs"
    with assms fields_of_get have g: "P s (js_get m k) = Some (js_get r k)"
      "js_has r k \<longleftrightarrow> js_get r k \<noteq> JUndef \<or> js_has m k" by blast+
    with idem \<open>(k, s) \<in> set fs\<close> have "P s (js_get r k) = Some (js_get r k)" by blast
    with g show "P s (js_get r k) = P s (js_get m k)
       \<and> (P s (js_get r k) = Some JUndef \<longrightarrow> js_has r k = js_has m k)" by auto
  qed
  with assms(2) show ?thesis by simp
qed

lemma values_of_again:
  "values_of f m = Some r \<Longrightarrow> (\<And>x y. f x = Some y \<Longrightarrow> f y = Some y) \<Longrightarrow> values_of f r = Some r"
proof (induction m arbitrary: r)
  case (Cons a m)
  obtain k x where a: "a = (k, x)" by (cases a)
  with Cons show ?case by (auto split: option.splits)
qed simp

lemma elems_of_again:
  "elems_of f xs = Some r \<Longrightarrow> (\<And>x y. f x = Some y \<Longrightarrow> f y = Some y)
     \<Longrightarrow> elems_of f r = Some r \<and> length r = length xs"
  by (induction xs arbitrary: r) (auto split: option.splits)

lemma first_of_again:
  assumes "separated u ss" "first_of (\<lambda>s. zparse u s v) ss = Some r"
    "\<And>s. s \<in> set ss \<Longrightarrow> zparse u s v = Some r \<Longrightarrow> zparse u s r = Some r"
    and reject: "\<And>s t. rejects u s t \<Longrightarrow> zparse u t v = Some r \<Longrightarrow> zparse u s r = None"
  shows "first_of (\<lambda>s. zparse u s r) ss = Some r"
  using assms(1-3)
proof (induction ss)
  case (Cons s ss)
  show ?case
  proof (cases "zparse u s v")
    case None
    then have f: "first_of (\<lambda>s. zparse u s v) ss = Some r" using Cons.prems(2) by simp
    then obtain t where "t \<in> set ss" "zparse u t v = Some r" using first_of_Some by blast
    then have "zparse u s r = None" using reject Cons.prems(1) by (auto simp: list_all_iff)
    moreover have "first_of (\<lambda>s. zparse u s r) ss = Some r" using Cons f by simp
    ultimately show ?thesis by simp
  next
    case (Some a)
    then show ?thesis using Cons.prems(2,3) by simp
  qed
qed simp

lemma yields_kind: "yields s = Some k \<Longrightarrow> zparse u s v = Some r \<Longrightarrow> kind_of r = Some k"
  by (induction s arbitrary: v rule: yields.induct)
    (auto simp: kind_of_def is_str_def str_where_def number_ok_def is_bool_def split: js.splits if_splits)

lemma takes_kind: "takes s = Some k \<Longrightarrow> kind_of v \<noteq> Some k \<Longrightarrow> zparse u s v = None"
  by (cases s)
    (auto simp: takes_def kind_of_def keep_if_def is_str_def str_where_def number_ok_def is_bool_def
      split: js.splits)

lemma rejects_kind:
  assumes "takes s \<noteq> None" "yields t \<noteq> None" "takes s \<noteq> yields t" "zparse u t v = Some r"
  shows "zparse u s r = None"
  using assms takes_kind [of s _ r u] yields_kind [of t _ u v r] by fastforce

lemma rejects_cases:
  assumes "rejects u s t"
  obtains (fields) fs gs k x where "s = ZObject fs" "t = ZObject gs" "(k, x) \<in> set fs"
      "zparse u x JUndef = None" "k \<notin> set (map fst gs)"
    | (kinds) "takes s \<noteq> None" "yields t \<noteq> None" "takes s \<noteq> yields t"
proof (cases "\<exists>fs gs. s = ZObject fs \<and> t = ZObject gs")
  case True
  then show ?thesis using assms fields by (auto simp: rejects_def list_ex_iff)
next
  case False
  then show ?thesis using assms kinds by (auto simp: rejects_def split: zschema.splits)
qed

lemma rejects_parse:
  assumes "rejects u s t" "zparse u t v = Some r"
  shows "zparse u s r = None"
  using assms(1)
proof (cases rule: rejects_cases)
  case kinds
  then show ?thesis using assms(2) by (rule rejects_kind)
next
  case (fields fs gs k x)
  then obtain fs gs k x where st: "s = ZObject fs" "t = ZObject gs" and k: "(k, x) \<in> set fs"
      "zparse u x JUndef = None" "k \<notin> set (map fst gs)"
    by blast
  obtain m n where m: "v = JObj m" "r = JObj n" "fields_of (zparse u) gs m = Some n"
    using assms(2) st by (auto split: js.splits)
  have "k \<notin> set (map fst n)" using fields_of_keys [OF m(3)] k(3) by blast
  then have "map_of n k = None" by (simp add: map_of_eq_None_iff)
  then have "js_get n k = JUndef" by (simp add: js_get_def)
  then have "fields_of (zparse u) fs n = None"
    using fields_of_each [of "zparse u" fs n _ k x] k by (cases "fields_of (zparse u) fs n") auto
  then show ?thesis using st m by simp
qed

lemma option_again:
  assumes "option_for k v ss = Some s" "zwf u s" "zparse u s v = Some r"
  shows "option_for k r ss = Some s"
proof -
  obtain m where v: "v = JObj m" and f: "find (\<lambda>s. option_literal k s = Some (js_get m k)) ss = Some s"
    using assms(1) by (auto simp: option_for_def split: js.splits)
  then have "option_literal k s = Some (js_get m k)" by (auto simp: find_Some_iff)
  then obtain fs l where s: "s = ZObject fs" "map_of fs k = Some (ZLiteral l)" "js_get m k = l"
    by (auto simp: option_literal_def split: zschema.splits option.splits)
  obtain n where n: "r = JObj n" "fields_of (zparse u) fs m = Some n" using assms(3) s v by auto
  have "zparse u (ZLiteral l) (js_get m k) = Some (js_get n k)"
    by (rule fields_of_get(1) [OF _ n(2) map_of_SomeD [OF s(2)]]) (use assms(2) s in simp)
  then have "js_get n k = js_get m k" using s(3) by simp
  then show ?thesis using f v n by (simp add: option_for_def)
qed

lemma run_text_again: "TTrim \<notin> set (tl cs) \<Longrightarrow> run_text cs s = Some t \<Longrightarrow> run_text cs t = Some t"
proof -
  have plain: "TTrim \<notin> set cs \<Longrightarrow> run_text cs s = Some t \<Longrightarrow> t = s" for cs s
    by (induction cs) (auto split: if_splits)
  show "TTrim \<notin> set (tl cs) \<Longrightarrow> run_text cs s = Some t \<Longrightarrow> run_text cs t = Some t"
    using plain [of "tl cs" s] plain [of "tl cs" "js_trim s"]
    by (cases cs) (auto split: if_splits)
qed

lemma loose_result_get:
  assumes "k \<in> set (map fst fs)"
  shows "map_of (loose_result fs m r) k = map_of r k"
proof -
  let ?e = "filter (\<lambda>(k, v). k \<notin> set (map fst fs)) m"
  have "\<forall>x \<in> set (filter Q ?e). fst x \<notin> set (map fst fs)" for Q
    by (simp add: case_prod_unfold)
  then have "k \<notin> fst ` set (filter Q ?e)" for Q using assms by blast
  then have "map_of (filter Q ?e) k = None" for Q by (simp add: map_of_eq_None_iff)
  then show ?thesis by (simp add: loose_result_def Let_def map_add_def split: option.splits)
qed

lemma loose_again:
  assumes "distinct (map fst fs)" "list_all (\<lambda>(k, s). \<not> is_index_key k) fs" "fields_of P fs m = Some r"
    and "\<And>k s v w. (k, s) \<in> set fs \<Longrightarrow> P s v = Some w \<Longrightarrow> P s w = Some w"
  defines "n \<equiv> loose_result fs m r"
  shows "fields_of P fs n = Some r" and "loose_result fs n r = n"
proof -
  let ?e = "filter (\<lambda>(k, v). k \<notin> set (map fst fs)) m"
  have keys: "set (map fst r) \<subseteq> set (map fst fs)" by (rule fields_of_keys [OF assms(3)])
  have "fields_of P fs n = fields_of P fs r"
  proof (rule fields_of_eqI)
    fix k t
    assume "(k, t) \<in> set fs"
    then have "map_of n k = map_of r k" unfolding n_def by (intro loose_result_get) force
    then show "P t (js_get n k) = P t (js_get r k) \<and> (P t (js_get n k) = Some JUndef \<longrightarrow> js_has n k = js_has r k)"
      by (simp add: js_get_def js_has_def)
  qed
  also have "\<dots> = Some r" by (rule fields_of_again [OF assms(1,3,4)])
  finally show "fields_of P fs n = Some r" .
  have "fst x \<in> set (map fst fs)" if "x \<in> set r" for x
    using keys imageI [OF that, of fst] unfolding set_map by blast
  then have r: "filter (\<lambda>(k, v). k \<notin> set (map fst fs)) r = []"
    by (simp add: filter_empty_conv case_prod_unfold)
  have e: "filter (\<lambda>(k, v). k \<notin> set (map fst fs)) (filter Q ?e) = filter Q ?e" for Q
    by (rule filter_True) auto
  have f: "filter (\<lambda>(k, v). k \<notin> set (map fst fs)) n =
      filter (\<lambda>(k, v). is_index_key k) ?e @ filter (\<lambda>(k, v). \<not> is_index_key k) ?e"
    unfolding n_def loose_result_def Let_def filter_append r e by simp
  have i: "filter (\<lambda>(k, v). is_index_key k) (filter (\<lambda>(k, v). \<not> is_index_key k) ?e) = []"
    "filter (\<lambda>(k, v). \<not> is_index_key k) (filter (\<lambda>(k, v). is_index_key k) ?e) = []"
    by (auto simp: filter_empty_conv)
  have j: "filter Q (filter Q ?e) = filter Q ?e" for Q by (rule filter_True) simp
  show "loose_result fs n r = n"
    unfolding loose_result_def [of fs n r] f Let_def filter_append i j
    by (simp add: n_def loose_result_def Let_def)
qed

lemma tuple_of_again:
  "tuple_of P ss xs = Some ys \<Longrightarrow> (\<And>s v w. s \<in> set ss \<Longrightarrow> P s v = Some w \<Longrightarrow> P s w = Some w)
     \<Longrightarrow> tuple_of P ss ys = Some ys"
proof (induction P ss xs arbitrary: ys rule: tuple_of.induct)
  case (2 P s ss x xs)
  obtain y zs where y: "P s x = Some y" "tuple_of P ss xs = Some zs" "ys = y # zs"
    using 2(2) by (auto split: option.splits)
  have "tuple_of P ss zs = Some zs" by (rule 2(1) [OF y(1,2)]) (rule 2(3), simp)
  moreover have "P s y = Some y" by (rule 2(3) [OF _ y(1)]) simp
  ultimately show ?case using y(3) by simp
qed simp_all

lemma default_fits_parse:
  assumes "default_fits s" "v \<noteq> JUndef" "zparse u s v = Some r"
  shows "r \<noteq> JUndef"
proof (cases "\<exists>t. s = ZOptional t")
  case True
  then obtain t where "s = ZOptional t" by blast
  then show ?thesis using assms definite_parse [of t u v] by (auto simp: default_fits_def)
next
  case False
  then have "definite s" using assms(1) by (auto simp: default_fits_def split: zschema.splits)
  then show ?thesis using assms(3) definite_parse [of s u v] by auto
qed

lemma pre_again:
  assumes "pre_ok p s" "zparse u s v = Some r"
  shows "run_pre p r = r"
proof (cases p)
  case (EmptyTo d)
  then show ?thesis using assms never_empty_parse [of s u v] by auto
next
  case NumberToString
  then show ?thesis using assms by (auto simp: is_str_def split: js.splits)
next
  case EmptyToUndef
  then show ?thesis using assms
    by (auto simp: number_ok_def split: zschema.splits js.splits if_splits)
next
  case ExpectIPs
  then obtain fs where s: "s = ZObject fs" "''expectIPs'' \<notin> set (map fst fs)"
    using assms(1) by (auto split: zschema.splits)
  then obtain m n where m: "v = JObj m" "fields_of (zparse u) fs m = Some n" "r = JObj n"
    using assms(2) by (auto split: js.splits)
  have "''expectIPs'' \<notin> set (map fst n)" using fields_of_keys [OF m(2)] s(2) by blast
  then have "map_of n ''expectIPs'' = None" by (simp add: map_of_eq_None_iff)
  then have "js_get n ''expectIPs'' = JUndef" by (simp add: js_get_def)
  then show ?thesis using ExpectIPs m by simp
qed

theorem zparse_again: "zwf u s \<Longrightarrow> zparse u s v = Some r \<Longrightarrow> zparse u s r = Some r"
proof (induction s arbitrary: v r)
  case (ZArray n s)
  then obtain xs ys where "v = JArr xs" "len_ok n (length xs)" "elems_of (zparse u s) xs = Some ys" "r = JArr ys"
    by (auto split: js.splits if_split_asm)
  with elems_of_again [of "zparse u s" xs ys] ZArray.IH ZArray.prems(1) show ?case by simp
next
  case (ZRecord s)
  then obtain m n where "v = JObj m" "values_of (zparse u s) m = Some n" "r = JObj n"
    by (auto split: js.splits)
  with values_of_again [of "zparse u s" m n] ZRecord.IH ZRecord.prems(1) show ?case by simp
next
  case (ZObject fs)
  then obtain m n where m: "v = JObj m" "fields_of (zparse u) fs m = Some n" "r = JObj n"
    by (auto split: js.splits)
  have "fields_of (zparse u) fs n = Some n"
  proof (rule fields_of_again [OF _ m(2)])
    fix k s v w
    assume ks: "(k, s) \<in> set fs" and w: "zparse u s v = Some w"
    have "zwf u s" using ZObject.prems(1) ks by (auto simp: list_all_iff)
    then show "zparse u s w = Some w" using ZObject.IH ks w by fastforce
  qed (use ZObject.prems in simp)
  with m show ?case by simp
next
  case (ZUnion ss)
  have "list_all rigid ss \<Longrightarrow> r = v" using rigid_parse [of "ZUnion ss" u v r] ZUnion.prems by simp
  moreover have "separated u ss \<Longrightarrow> zparse u (ZUnion ss) r = Some r"
  proof -
    assume "separated u ss"
    moreover have "\<And>s. s \<in> set ss \<Longrightarrow> zparse u s v = Some r \<Longrightarrow> zparse u s r = Some r"
      using ZUnion by (simp add: list_all_iff)
    ultimately have "first_of (\<lambda>s. zparse u s r) ss = Some r"
      using ZUnion.prems(2) rejects_parse by (intro first_of_again [of u ss v r]) simp_all
    then show ?thesis by simp
  qed
  ultimately show ?case using ZUnion.prems by (cases "list_all rigid ss") simp_all
next
  case (ZDiscriminated k ss)
  then obtain s where s: "option_for k v ss = Some s" "zparse u s v = Some r" by (auto split: option.splits)
  then have "s \<in> set ss" by (auto dest: option_for_mem)
  then have "zwf u s" using ZDiscriminated.prems by (auto simp: list_all_iff)
  with s ZDiscriminated.IH \<open>s \<in> set ss\<close> have "zparse u s r = Some r" by blast
  with option_again [OF s(1) \<open>zwf u s\<close> s(2)] show ?case by simp
next
  case (ZDefault s d)
  have "zparse u s d = Some d" "zwf u s" "default_fits s" using ZDefault.prems by simp_all
  then show ?case
  proof (cases "v = JUndef")
    case True
    then show ?thesis using ZDefault.prems by simp
  next
    case False
    then have r: "zparse u s v = Some r" using ZDefault.prems by simp
    have "r \<noteq> JUndef" by (rule default_fits_parse [OF \<open>default_fits s\<close> False r])
    then show ?thesis using ZDefault.IH [OF \<open>zwf u s\<close> r] by simp
  qed
next
  case (ZPreprocess p s)
  then have "zparse u s r = Some r" by simp
  moreover have "run_pre p r = r" using ZPreprocess.prems pre_again [of p s u "run_pre p v" r] by simp
  ultimately show ?case by simp
next
  case (ZText cs)
  then obtain t t' where "v = JStr t" "run_text cs t = Some t'" "r = JStr t'" by (auto split: js.splits)
  then show ?case using run_text_again [of cs t t'] ZText.prems(1) by simp
next
  case (ZLoose fs)
  then obtain m n where m: "v = JObj m" "fields_of (zparse u) fs m = Some n" "r = JObj (loose_result fs m n)"
    by (auto split: js.splits)
  have wf: "distinct (map fst fs)" "list_all (\<lambda>(k, s). \<not> is_index_key k) fs" "list_all (\<lambda>(k, s). zwf u s) fs"
    using ZLoose.prems(1) by (auto simp: list_all_iff)
  have "zparse u s w = Some w" if "(k, s) \<in> set fs" "zparse u s v = Some w" for k s v w
    using ZLoose.IH that wf(3) by (fastforce simp: list_all_iff)
  note again = loose_again [OF wf(1,2) m(2) this]
  show ?case using m(3) again by simp
next
  case (ZOrElse s d)
  then obtain r' where r': "zparse u s v = Some r'" "r = js_coalesce r' d" by auto
  have "zwf u s" "zparse u s d = Some d" using ZOrElse.prems(1) by simp_all
  moreover from this(1) have "zparse u s r' = Some r'" using r'(1) by (rule ZOrElse.IH)
  ultimately show ?case using r'(2) by (simp add: js_coalesce_def)
next
  case (ZTuple ss)
  then obtain xs ys where x: "v = JArr xs" "tuple_of (zparse u) ss xs = Some ys" "r = JArr ys"
    by (auto split: js.splits)
  have "tuple_of (zparse u) ss ys = Some ys"
    by (rule tuple_of_again [OF x(2)]) (use ZTuple in \<open>simp add: list_all_iff\<close>)
  then show ?case using x by simp
next
  case (ZRefine p s)
  then obtain r' where r': "zparse u s v = Some r'" "pred_ok p r'" "r = r'" by (auto split: option.splits)
  have "zwf u s" using ZRefine.prems(1) by simp
  then have "zparse u s r' = Some r'" using r'(1) by (rule ZRefine.IH)
  then show ?case using r' by simp
qed (auto split: if_splits)

context zod
begin

lemma parse_again: "zfree s \<Longrightarrow> zwf uuid s \<Longrightarrow> P s v = Some r \<Longrightarrow> P s r = Some r"
  by (simp add: laws_determine zparse_again)

end

end
