(* ===== verification/Schemas.thy ===== *)
theory Schemas
  imports Schema
begin

text \<open>
  The schemas of \<open>schemas/primitives\<close>, \<open>schemas/protocols\<close>, \<open>schemas/api/inbound.ts\<close> and
  \<open>schemas/forms\<close>, as values of the schema language, under their names in the source.

  The lemmas after each group check that its schemas satisfy the conditions of
  \<open>zparse_again\<close>: parsing what was parsed changes nothing.
\<close>

named_theorems schema_defs "the schema constants"

lemmas keep_rules = keep_if_def number_ok_def str_where_def is_bool_def is_str_def rejects_def
  default_fits_def takes_def

section \<open>Primitives\<close>

definition PortSchema :: zschema where [schema_defs]:
  "PortSchema = ZInt [CMin 1, CMax 65535]"

definition InboundPortSchema :: zschema where [schema_defs]:
  "InboundPortSchema = ZInt [CMin 0, CMax 65535]"

definition FlowSchema :: zschema where [schema_defs]:
  "FlowSchema = ZEnum ['''', ''xtls-rprx-vision'', ''xtls-rprx-vision-udp443'']"

definition ProtocolSchema :: zschema where [schema_defs]:
  "ProtocolSchema = ZEnum [''vmess'', ''vless'', ''trojan'', ''shadowsocks'', ''wireguard'',
      ''hysteria'', ''http'', ''mixed'', ''tunnel'', ''tun'']"

definition SniffingDestSchema :: zschema where [schema_defs]:
  "SniffingDestSchema = ZEnum [''http'', ''tls'', ''quic'', ''fakedns'']"

definition SniffingSchema :: zschema where [schema_defs]:
  "SniffingSchema = ZObject
     [(''enabled'', ZBool_default False),
      (''destOverride'', ZDefault (ZArray AnyLen SniffingDestSchema) (JArr [JStr ''http'', JStr
          ''tls'', JStr ''quic'', JStr ''fakedns''])),
      (''metadataOnly'', ZBool_default False),
      (''routeOnly'', ZBool_default False),
      (''ipsExcluded'', ZDefault (ZArray AnyLen ZString) (JArr [])),
      (''domainsExcluded'', ZDefault (ZArray AnyLen ZString) (JArr []))]"

definition SSMethodSchema :: zschema where [schema_defs]:
  "SSMethodSchema = ZEnum [''aes-256-gcm'', ''chacha20-poly1305'', ''chacha20-ietf-poly1305'',
      ''xchacha20-ietf-poly1305'', ''2022-blake3-aes-128-gcm'', ''2022-blake3-aes-256-gcm'',
      ''2022-blake3-chacha20-poly1305'']"

definition VmessSecurityEnum :: zschema where [schema_defs]:
  "VmessSecurityEnum = ZEnum [''aes-128-gcm'', ''chacha20-poly1305'', ''auto'', ''none'', ''zero'']"

definition VmessSecuritySchema :: zschema where [schema_defs]:
  "VmessSecuritySchema = ZPreprocess (EmptyTo (JStr ''auto'')) VmessSecurityEnum"

lemma primitives_wf [simp]:
  "zwf u PortSchema"
  "zwf u InboundPortSchema"
  "zwf u FlowSchema"
  "zwf u ProtocolSchema"
  "zwf u SniffingDestSchema"
  "zwf u SniffingSchema"
  "zwf u SSMethodSchema"
  "zwf u VmessSecurityEnum"
  "zwf u VmessSecuritySchema"
  by (simp_all add: schema_defs keep_rules)

lemma primitives_free [simp]:
  "zfree PortSchema"
  "zfree InboundPortSchema"
  "zfree FlowSchema"
  "zfree ProtocolSchema"
  "zfree SniffingDestSchema"
  "zfree SniffingSchema"
  "zfree SSMethodSchema"
  "zfree VmessSecurityEnum"
  "zfree VmessSecuritySchema"
  by (simp_all add: schema_defs)

section \<open>Security\<close>

definition NoneSecuritySettingsSchema :: zschema where [schema_defs]:
  "NoneSecuritySettingsSchema = ZObject
     []"

definition TlsVersionSchema :: zschema where [schema_defs]:
  "TlsVersionSchema = ZEnum [''1.0'', ''1.1'', ''1.2'', ''1.3'']"

definition UtlsFingerprintSchema :: zschema where [schema_defs]:
  "UtlsFingerprintSchema = ZEnum [''chrome'', ''firefox'', ''safari'', ''ios'', ''android'',
      ''edge'', ''360'', ''qq'', ''random'', ''randomized'', ''randomizednoalpn'', ''unsafe'']"

definition AlpnSchema :: zschema where [schema_defs]:
  "AlpnSchema = ZEnum [''h3'', ''h2'', ''http/1.1'']"

definition TlsCertUsageSchema :: zschema where [schema_defs]:
  "TlsCertUsageSchema = ZEnum [''encipherment'', ''verify'', ''issue'']"

definition TlsCertFileSchema :: zschema where [schema_defs]:
  "TlsCertFileSchema = ZObject
     [(''certificateFile'', ZNonEmpty),
      (''keyFile'', ZNonEmpty),
      (''ocspStapling'', ZDefault (ZNumber []) (JInt 3600)),
      (''oneTimeLoading'', ZBool_default False),
      (''usage'', ZDefault TlsCertUsageSchema (JStr ''encipherment'')),
      (''buildChain'', ZBool_default False)]"

definition TlsCertInlineSchema :: zschema where [schema_defs]:
  "TlsCertInlineSchema = ZObject
     [(''certificate'', ZArray AnyLen ZString),
      (''key'', ZArray AnyLen ZString),
      (''ocspStapling'', ZDefault (ZNumber []) (JInt 3600)),
      (''oneTimeLoading'', ZBool_default False),
      (''usage'', ZDefault TlsCertUsageSchema (JStr ''encipherment'')),
      (''buildChain'', ZBool_default False)]"

definition TlsCertSchema :: zschema where [schema_defs]:
  "TlsCertSchema = ZUnion [TlsCertFileSchema, TlsCertInlineSchema]"

definition TlsClientSettingsSchema :: zschema where [schema_defs]:
  "TlsClientSettingsSchema = ZObject
     [(''fingerprint'', ZDefault UtlsFingerprintSchema (JStr ''chrome'')),
      (''echConfigList'', ZString_default ''''),
      (''pinnedPeerCertSha256'', ZDefault (ZArray AnyLen ZString) (JArr []))]"

definition TlsStreamSettingsSchema :: zschema where [schema_defs]:
  "TlsStreamSettingsSchema = ZObject
     [(''serverName'', ZString_default ''''),
      (''minVersion'', ZDefault TlsVersionSchema (JStr ''1.2'')),
      (''maxVersion'', ZDefault TlsVersionSchema (JStr ''1.3'')),
      (''cipherSuites'', ZString_default ''''),
      (''rejectUnknownSni'', ZBool_default False),
      (''disableSystemRoot'', ZBool_default False),
      (''enableSessionResumption'', ZBool_default False),
      (''certificates'', ZDefault (ZArray AnyLen TlsCertSchema) (JArr [])),
      (''alpn'', ZDefault (ZArray AnyLen AlpnSchema) (JArr [JStr ''h2'', JStr ''http/1.1''])),
      (''echServerKeys'', ZString_default ''''),
      (''settings'', ZDefault TlsClientSettingsSchema (JObj [(''fingerprint'', JStr ''chrome''),
          (''echConfigList'', JStr ''''), (''pinnedPeerCertSha256'', JArr [])]))]"

definition RealityClientSettingsSchema :: zschema where [schema_defs]:
  "RealityClientSettingsSchema = ZObject
     [(''publicKey'', ZString_default ''''),
      (''fingerprint'', ZDefault UtlsFingerprintSchema (JStr ''chrome'')),
      (''serverName'', ZString_default ''''),
      (''spiderX'', ZString_default ''/''),
      (''mldsa65Verify'', ZString_default '''')]"

definition RealityStreamSettingsSchema :: zschema where [schema_defs]:
  "RealityStreamSettingsSchema = ZObject
     [(''show'', ZBool_default False),
      (''xver'', ZInt_default [CMin 0] 0),
      (''target'', ZString_default ''''),
      (''serverNames'', ZDefault (ZArray AnyLen ZString) (JArr [])),
      (''privateKey'', ZString_default ''''),
      (''minClientVer'', ZString_default ''''),
      (''maxClientVer'', ZString_default ''''),
      (''maxTimediff'', ZInt_default [CMin 0] 0),
      (''shortIds'', ZDefault (ZArray AnyLen ZString) (JArr [])),
      (''mldsa65Seed'', ZString_default ''''),
      (''settings'', ZDefault RealityClientSettingsSchema (JObj [(''publicKey'', JStr ''''),
          (''fingerprint'', JStr ''chrome''), (''serverName'', JStr ''''), (''spiderX'', JStr
          ''/''), (''mldsa65Verify'', JStr '''')]))]"

definition SecuritySchema :: zschema where [schema_defs]:
  "SecuritySchema = ZEnum [''none'', ''tls'', ''reality'']"

definition SecuritySettingsSchema :: zschema where [schema_defs]:
  "SecuritySettingsSchema = ZDiscriminated ''security''
     [ZObject [(''security'', ZLiteral (JStr ''none''))],
      ZObject [(''security'', ZLiteral (JStr ''tls'')), (''tlsSettings'', TlsStreamSettingsSchema)],
      ZObject [(''security'', ZLiteral (JStr ''reality'')), (''realitySettings'',
          RealityStreamSettingsSchema)]]"

lemma security_wf [simp]:
  "zwf u NoneSecuritySettingsSchema"
  "zwf u TlsVersionSchema"
  "zwf u UtlsFingerprintSchema"
  "zwf u AlpnSchema"
  "zwf u TlsCertUsageSchema"
  "zwf u TlsCertFileSchema"
  "zwf u TlsCertInlineSchema"
  "zwf u TlsCertSchema"
  "zwf u TlsClientSettingsSchema"
  "zwf u TlsStreamSettingsSchema"
  "zwf u RealityClientSettingsSchema"
  "zwf u RealityStreamSettingsSchema"
  "zwf u SecuritySchema"
  "zwf u SecuritySettingsSchema"
  by (simp_all add: schema_defs keep_rules)

lemma security_free [simp]:
  "zfree NoneSecuritySettingsSchema"
  "zfree TlsVersionSchema"
  "zfree UtlsFingerprintSchema"
  "zfree AlpnSchema"
  "zfree TlsCertUsageSchema"
  "zfree TlsCertFileSchema"
  "zfree TlsCertInlineSchema"
  "zfree TlsCertSchema"
  "zfree TlsClientSettingsSchema"
  "zfree TlsStreamSettingsSchema"
  "zfree RealityClientSettingsSchema"
  "zfree RealityStreamSettingsSchema"
  "zfree SecuritySchema"
  "zfree SecuritySettingsSchema"
  by (simp_all add: schema_defs)

section \<open>Streams\<close>

definition ExternalProxyForceTlsSchema :: zschema where [schema_defs]:
  "ExternalProxyForceTlsSchema = ZEnum [''same'', ''tls'', ''none'']"

definition ExternalProxyEntrySchema :: zschema where [schema_defs]:
  "ExternalProxyEntrySchema = ZObject
     [(''forceTls'', ZDefault ExternalProxyForceTlsSchema (JStr ''same'')),
      (''dest'', ZString_default ''''),
      (''port'', ZDefault PortSchema (JInt 443)),
      (''remark'', ZString_default ''''),
      (''sni'', ZOptional ZString),
      (''fingerprint'', ZPreprocess (EmptyTo JUndef) (ZOptional UtlsFingerprintSchema)),
      (''alpn'', ZOptional (ZArray AnyLen AlpnSchema)),
      (''pinnedPeerCertSha256'', ZOptional (ZArray AnyLen ZString))]"

definition TcpMaskTypeSchema :: zschema where [schema_defs]:
  "TcpMaskTypeSchema = ZEnum [''fragment'', ''sudoku'', ''header-custom'']"

definition TcpMaskSchema :: zschema where [schema_defs]:
  "TcpMaskSchema = ZObject
     [(''type'', TcpMaskTypeSchema),
      (''settings'', ZOptional (ZRecord ZUnknown))]"

definition UdpMaskTypeSchema :: zschema where [schema_defs]:
  "UdpMaskTypeSchema = ZEnum [''salamander'', ''mkcp-legacy'', ''header-custom'', ''xdns'',
      ''xicmp'', ''noise'', ''sudoku'', ''realm'']"

definition UdpMaskSchema :: zschema where [schema_defs]:
  "UdpMaskSchema = ZObject
     [(''type'', UdpMaskTypeSchema),
      (''settings'', ZOptional (ZRecord ZUnknown))]"

definition QuicCongestionSchema :: zschema where [schema_defs]:
  "QuicCongestionSchema = ZEnum [''reno'', ''bbr'', ''brutal'', ''force-brutal'']"

definition BbrProfileSchema :: zschema where [schema_defs]:
  "BbrProfileSchema = ZEnum [''conservative'', ''standard'', ''aggressive'']"

definition StringRangeSchema :: zschema where [schema_defs]:
  "StringRangeSchema = ZPreprocess NumberToString ZString"

definition QuicUdpHopSchema :: zschema where [schema_defs]:
  "QuicUdpHopSchema = ZObject
     [(''ports'', ZDefault StringRangeSchema (JStr ''20000-50000'')),
      (''interval'', ZDefault StringRangeSchema (JStr ''5-10''))]"

definition QuicParamsSchema :: zschema where [schema_defs]:
  "QuicParamsSchema = ZObject
     [(''congestion'', ZDefault QuicCongestionSchema (JStr ''bbr'')),
      (''bbrProfile'', ZOptional BbrProfileSchema),
      (''debug'', ZOptional ZBoolean),
      (''brutalUp'', ZOptional ZString),
      (''brutalDown'', ZOptional ZString),
      (''udpHop'', ZOptional QuicUdpHopSchema),
      (''initStreamReceiveWindow'', ZOptional (ZInt [CMin 0])),
      (''maxStreamReceiveWindow'', ZOptional (ZInt [CMin 0])),
      (''initConnectionReceiveWindow'', ZOptional (ZInt [CMin 0])),
      (''maxConnectionReceiveWindow'', ZOptional (ZInt [CMin 0])),
      (''maxIdleTimeout'', ZOptional (ZInt [CMin 4, CMax 120])),
      (''keepAlivePeriod'', ZOptional (ZInt [CMin 2, CMax 60])),
      (''disablePathMTUDiscovery'', ZOptional ZBoolean),
      (''maxIncomingStreams'', ZOptional (ZInt [CMin 8]))]"

definition FinalMaskStreamSettingsSchema :: zschema where [schema_defs]:
  "FinalMaskStreamSettingsSchema = ZObject
     [(''tcp'', ZDefault (ZArray AnyLen TcpMaskSchema) (JArr [])),
      (''udp'', ZDefault (ZArray AnyLen UdpMaskSchema) (JArr [])),
      (''quicParams'', ZOptional QuicParamsSchema)]"

definition GrpcStreamSettingsSchema :: zschema where [schema_defs]:
  "GrpcStreamSettingsSchema = ZObject
     [(''serviceName'', ZString_default ''''),
      (''authority'', ZString_default ''''),
      (''multiMode'', ZBool_default False)]"

definition WsHeaderMapSchema :: zschema where [schema_defs]:
  "WsHeaderMapSchema = ZRecord ZString"

definition WsStreamSettingsSchema :: zschema where [schema_defs]:
  "WsStreamSettingsSchema = ZObject
     [(''acceptProxyProtocol'', ZBool_default False),
      (''path'', ZString_default ''/''),
      (''host'', ZString_default ''''),
      (''headers'', ZDefault WsHeaderMapSchema (JObj [])),
      (''heartbeatPeriod'', ZInt_default [CMin 0] 0)]"

definition HttpUpgradeStreamSettingsSchema :: zschema where [schema_defs]:
  "HttpUpgradeStreamSettingsSchema = ZObject
     [(''acceptProxyProtocol'', ZBool_default False),
      (''path'', ZString_default ''/''),
      (''host'', ZString_default ''''),
      (''headers'', ZDefault WsHeaderMapSchema (JObj []))]"

definition HysteriaMasqueradeSchema :: zschema where [schema_defs]:
  "HysteriaMasqueradeSchema = ZObject
     [(''type'', ZDefault (ZEnum ['''', ''proxy'', ''file'', ''string'']) (JStr '''')),
      (''dir'', ZString_default ''''),
      (''url'', ZString_default ''''),
      (''rewriteHost'', ZBool_default False),
      (''insecure'', ZBool_default False),
      (''content'', ZString_default ''''),
      (''headers'', ZDefault (ZRecord ZString) (JObj [])),
      (''statusCode'', ZInt_default [CMin 0] 0)]"

definition HysteriaStreamSettingsSchema :: zschema where [schema_defs]:
  "HysteriaStreamSettingsSchema = ZObject
     [(''version'', ZDefault (ZLiteral (JInt 2)) (JInt 2)),
      (''auth'', ZString_default ''''),
      (''udpIdleTimeout'', ZInt_default [CMin 1] 60),
      (''masquerade'', ZOptional HysteriaMasqueradeSchema)]"

definition KcpStreamSettingsSchema :: zschema where [schema_defs]:
  "KcpStreamSettingsSchema = ZObject
     [(''mtu'', ZInt_default [CMin 576, CMax 1460] 1350),
      (''tti'', ZInt_default [CMin 10, CMax 100] 20),
      (''uplinkCapacity'', ZInt_default [CMin 0] 5),
      (''downlinkCapacity'', ZInt_default [CMin 0] 20),
      (''cwndMultiplier'', ZInt_default [CMin 1] 1),
      (''maxSendingWindow'', ZInt_default [CMin 0] 2097152)]"

definition SockoptDomainStrategySchema :: zschema where [schema_defs]:
  "SockoptDomainStrategySchema = ZEnum [''AsIs'', ''UseIP'', ''UseIPv6v4'', ''UseIPv6'',
      ''UseIPv4v6'', ''UseIPv4'', ''ForceIP'', ''ForceIPv6v4'', ''ForceIPv6'', ''ForceIPv4v6'',
      ''ForceIPv4'']"

definition TcpCongestionSchema :: zschema where [schema_defs]:
  "TcpCongestionSchema = ZEnum [''bbr'', ''cubic'', ''reno'']"

definition TproxyModeSchema :: zschema where [schema_defs]:
  "TproxyModeSchema = ZEnum [''off'', ''redirect'', ''tproxy'']"

definition AddressPortStrategySchema :: zschema where [schema_defs]:
  "AddressPortStrategySchema = ZEnum [''none'', ''SrvPortOnly'', ''SrvAddressOnly'',
      ''SrvPortAndAddress'', ''TxtPortOnly'', ''TxtAddressOnly'', ''TxtPortAndAddress'']"

definition HappyEyeballsSchema :: zschema where [schema_defs]:
  "HappyEyeballsSchema = ZObject
     [(''tryDelayMs'', ZInt_default [CMin 0] 0),
      (''prioritizeIPv6'', ZBool_default False),
      (''interleave'', ZInt_default [CMin 1] 1),
      (''maxConcurrentTry'', ZInt_default [CMin 0] 4)]"

definition CustomSockoptSchema :: zschema where [schema_defs]:
  "CustomSockoptSchema = ZObject
     [(''system'', ZOptional (ZEnum [''linux'', ''windows'', ''darwin''])),
      (''type'', ZEnum [''int'', ''str'']),
      (''level'', ZString_default ''6''),
      (''opt'', ZString),
      (''value'', ZUnion [ZString, ZNumber []])]"

definition SockoptStreamSettingsSchema :: zschema where [schema_defs]:
  "SockoptStreamSettingsSchema = ZObject
     [(''acceptProxyProtocol'', ZBool_default False),
      (''tcpFastOpen'', ZDefault (ZUnion [ZBoolean, ZInt []]) (JBool False)),
      (''mark'', ZInt_default [] 0),
      (''tproxy'', ZDefault TproxyModeSchema (JStr ''off'')),
      (''tcpMptcp'', ZBool_default False),
      (''penetrate'', ZBool_default False),
      (''domainStrategy'', ZDefault SockoptDomainStrategySchema (JStr ''AsIs'')),
      (''tcpMaxSeg'', ZInt_default [CMin 0] 1440),
      (''dialerProxy'', ZString_default ''''),
      (''tcpKeepAliveInterval'', ZInt_default [CMin 0] 45),
      (''tcpKeepAliveIdle'', ZInt_default [CMin 0] 45),
      (''tcpUserTimeout'', ZInt_default [CMin 0] 10000),
      (''tcpcongestion'', ZDefault TcpCongestionSchema (JStr ''bbr'')),
      (''V6Only'', ZBool_default False),
      (''tcpWindowClamp'', ZInt_default [CMin 0] 600),
      (''interface'', ZString_default ''''),
      (''trustedXForwardedFor'', ZDefault (ZArray AnyLen ZString) (JArr [])),
      (''addressPortStrategy'', ZDefault AddressPortStrategySchema (JStr ''none'')),
      (''happyEyeballs'', ZOptional HappyEyeballsSchema),
      (''customSockopt'', ZDefault (ZArray AnyLen CustomSockoptSchema) (JArr []))]"

definition V2HeaderMapSchema :: zschema where [schema_defs]:
  "V2HeaderMapSchema = ZRecord (ZArray AnyLen ZString)"

definition TcpRequestSchema :: zschema where [schema_defs]:
  "TcpRequestSchema = ZObject
     [(''version'', ZString_default ''1.1''),
      (''method'', ZString_default ''GET''),
      (''path'', ZDefault (ZArray (MinLen 1) ZString) (JArr [JStr ''/''])),
      (''headers'', ZDefault V2HeaderMapSchema (JObj []))]"

definition TcpResponseSchema :: zschema where [schema_defs]:
  "TcpResponseSchema = ZObject
     [(''version'', ZString_default ''1.1''),
      (''status'', ZString_default ''200''),
      (''reason'', ZString_default ''OK''),
      (''headers'', ZDefault V2HeaderMapSchema (JObj []))]"

definition TcpHeaderHttpSchema :: zschema where [schema_defs]:
  "TcpHeaderHttpSchema = ZObject
     [(''type'', ZLiteral (JStr ''http'')),
      (''request'', ZOptional TcpRequestSchema),
      (''response'', ZOptional TcpResponseSchema)]"

definition TcpHeaderNoneSchema :: zschema where [schema_defs]:
  "TcpHeaderNoneSchema = ZObject
     [(''type'', ZLiteral (JStr ''none''))]"

definition TcpHeaderSchema :: zschema where [schema_defs]:
  "TcpHeaderSchema = ZDiscriminated ''type''
     [TcpHeaderNoneSchema,
      TcpHeaderHttpSchema]"

definition TcpStreamSettingsSchema :: zschema where [schema_defs]:
  "TcpStreamSettingsSchema = ZObject
     [(''acceptProxyProtocol'', ZBool_default False),
      (''header'', ZOptional TcpHeaderSchema)]"

definition XHttpModeSchema :: zschema where [schema_defs]:
  "XHttpModeSchema = ZEnum [''auto'', ''packet-up'', ''stream-up'', ''stream-one'']"

definition XHttpXmuxSchema :: zschema where [schema_defs]:
  "XHttpXmuxSchema = ZObject
     [(''maxConcurrency'', ZString_default ''16-32''),
      (''maxConnections'', ZDefault (ZUnion [ZString, ZNumber []]) (JInt 0)),
      (''cMaxReuseTimes'', ZDefault (ZUnion [ZString, ZNumber []]) (JInt 0)),
      (''hMaxRequestTimes'', ZString_default ''600-900''),
      (''hMaxReusableSecs'', ZString_default ''1800-3000''),
      (''hKeepAlivePeriod'', ZInt_default [CMin 0] 0)]"

definition XHttpStreamSettingsSchema :: zschema where [schema_defs]:
  "XHttpStreamSettingsSchema = ZObject
     [(''path'', ZString_default ''/''),
      (''host'', ZString_default ''''),
      (''mode'', ZDefault XHttpModeSchema (JStr ''auto'')),
      (''xPaddingBytes'', ZString_default ''100-1000''),
      (''xPaddingObfsMode'', ZBool_default False),
      (''xPaddingKey'', ZString_default ''''),
      (''xPaddingHeader'', ZString_default ''''),
      (''xPaddingPlacement'', ZString_default ''''),
      (''xPaddingMethod'', ZString_default ''''),
      (''sessionPlacement'', ZString_default ''''),
      (''sessionKey'', ZString_default ''''),
      (''seqPlacement'', ZString_default ''''),
      (''seqKey'', ZString_default ''''),
      (''uplinkDataPlacement'', ZString_default ''''),
      (''uplinkDataKey'', ZString_default ''''),
      (''scMaxEachPostBytes'', ZString_default ''1000000''),
      (''noSSEHeader'', ZBool_default False),
      (''scMaxBufferedPosts'', ZInt_default [CMin 0] 30),
      (''scStreamUpServerSecs'', ZString_default ''20-80''),
      (''serverMaxHeaderBytes'', ZInt_default [CMin 0] 0),
      (''uplinkHTTPMethod'', ZString_default ''''),
      (''headers'', ZDefault WsHeaderMapSchema (JObj [])),
      (''scMinPostsIntervalMs'', ZString_default ''30''),
      (''uplinkChunkSize'', ZInt_default [CMin 0] 0),
      (''noGRPCHeader'', ZBool_default False),
      (''xmux'', ZOptional XHttpXmuxSchema),
      (''enableXmux'', ZBool_default False)]"

definition NetworkSchema :: zschema where [schema_defs]:
  "NetworkSchema = ZEnum [''tcp'', ''kcp'', ''ws'', ''grpc'', ''httpupgrade'', ''xhttp'',
      ''hysteria'']"

definition NetworkSettingsSchema :: zschema where [schema_defs]:
  "NetworkSettingsSchema = ZDiscriminated ''network''
     [ZObject [(''network'', ZLiteral (JStr ''tcp'')), (''tcpSettings'', TcpStreamSettingsSchema)],
      ZObject [(''network'', ZLiteral (JStr ''kcp'')), (''kcpSettings'', KcpStreamSettingsSchema)],
      ZObject [(''network'', ZLiteral (JStr ''ws'')), (''wsSettings'', WsStreamSettingsSchema)],
      ZObject [(''network'', ZLiteral (JStr ''grpc'')), (''grpcSettings'',
          GrpcStreamSettingsSchema)],
      ZObject [(''network'', ZLiteral (JStr ''httpupgrade'')), (''httpupgradeSettings'',
          HttpUpgradeStreamSettingsSchema)],
      ZObject [(''network'', ZLiteral (JStr ''xhttp'')), (''xhttpSettings'',
          XHttpStreamSettingsSchema)],
      ZObject [(''network'', ZLiteral (JStr ''hysteria'')), (''hysteriaSettings'',
          HysteriaStreamSettingsSchema)]]"

definition StreamExtrasSchema :: zschema where [schema_defs]:
  "StreamExtrasSchema = ZObject
     [(''externalProxy'', ZOptional (ZArray AnyLen ExternalProxyEntrySchema)),
      (''finalmask'', ZOptional FinalMaskStreamSettingsSchema),
      (''sockopt'', ZOptional SockoptStreamSettingsSchema)]"

lemma streams_wf [simp]:
  "zwf u ExternalProxyForceTlsSchema"
  "zwf u ExternalProxyEntrySchema"
  "zwf u TcpMaskTypeSchema"
  "zwf u TcpMaskSchema"
  "zwf u UdpMaskTypeSchema"
  "zwf u UdpMaskSchema"
  "zwf u QuicCongestionSchema"
  "zwf u BbrProfileSchema"
  "zwf u StringRangeSchema"
  "zwf u QuicUdpHopSchema"
  "zwf u QuicParamsSchema"
  "zwf u FinalMaskStreamSettingsSchema"
  "zwf u GrpcStreamSettingsSchema"
  "zwf u WsHeaderMapSchema"
  "zwf u WsStreamSettingsSchema"
  "zwf u HttpUpgradeStreamSettingsSchema"
  "zwf u HysteriaMasqueradeSchema"
  "zwf u HysteriaStreamSettingsSchema"
  "zwf u KcpStreamSettingsSchema"
  "zwf u SockoptDomainStrategySchema"
  "zwf u TcpCongestionSchema"
  "zwf u TproxyModeSchema"
  "zwf u AddressPortStrategySchema"
  "zwf u HappyEyeballsSchema"
  "zwf u CustomSockoptSchema"
  "zwf u SockoptStreamSettingsSchema"
  "zwf u V2HeaderMapSchema"
  "zwf u TcpRequestSchema"
  "zwf u TcpResponseSchema"
  "zwf u TcpHeaderHttpSchema"
  "zwf u TcpHeaderNoneSchema"
  "zwf u TcpHeaderSchema"
  "zwf u TcpStreamSettingsSchema"
  "zwf u XHttpModeSchema"
  "zwf u XHttpXmuxSchema"
  "zwf u XHttpStreamSettingsSchema"
  "zwf u NetworkSchema"
  "zwf u NetworkSettingsSchema"
  "zwf u StreamExtrasSchema"
  by (simp_all add: schema_defs keep_rules)

lemma streams_free [simp]:
  "zfree ExternalProxyForceTlsSchema"
  "zfree ExternalProxyEntrySchema"
  "zfree TcpMaskTypeSchema"
  "zfree TcpMaskSchema"
  "zfree UdpMaskTypeSchema"
  "zfree UdpMaskSchema"
  "zfree QuicCongestionSchema"
  "zfree BbrProfileSchema"
  "zfree StringRangeSchema"
  "zfree QuicUdpHopSchema"
  "zfree QuicParamsSchema"
  "zfree FinalMaskStreamSettingsSchema"
  "zfree GrpcStreamSettingsSchema"
  "zfree WsHeaderMapSchema"
  "zfree WsStreamSettingsSchema"
  "zfree HttpUpgradeStreamSettingsSchema"
  "zfree HysteriaMasqueradeSchema"
  "zfree HysteriaStreamSettingsSchema"
  "zfree KcpStreamSettingsSchema"
  "zfree SockoptDomainStrategySchema"
  "zfree TcpCongestionSchema"
  "zfree TproxyModeSchema"
  "zfree AddressPortStrategySchema"
  "zfree HappyEyeballsSchema"
  "zfree CustomSockoptSchema"
  "zfree SockoptStreamSettingsSchema"
  "zfree V2HeaderMapSchema"
  "zfree TcpRequestSchema"
  "zfree TcpResponseSchema"
  "zfree TcpHeaderHttpSchema"
  "zfree TcpHeaderNoneSchema"
  "zfree TcpHeaderSchema"
  "zfree TcpStreamSettingsSchema"
  "zfree XHttpModeSchema"
  "zfree XHttpXmuxSchema"
  "zfree XHttpStreamSettingsSchema"
  "zfree NetworkSchema"
  "zfree NetworkSettingsSchema"
  "zfree StreamExtrasSchema"
  by (simp_all add: schema_defs)

section \<open>Inbound settings\<close>

definition HttpAccountSchema :: zschema where [schema_defs]:
  "HttpAccountSchema = ZObject
     [(''user'', ZNonEmpty),
      (''pass'', ZNonEmpty)]"

definition HttpInboundSettingsSchema :: zschema where [schema_defs]:
  "HttpInboundSettingsSchema = ZObject
     [(''accounts'', ZDefault (ZArray AnyLen HttpAccountSchema) (JArr [])),
      (''allowTransparent'', ZBool_default False)]"

definition HysteriaClientSchema :: zschema where [schema_defs]:
  "HysteriaClientSchema = ZObject
     [(''auth'', ZNonEmpty),
      (''email'', ZNonEmpty),
      (''limitIp'', ZInt_default [CMin 0] 0),
      (''totalGB'', ZInt_default [CMin 0] 0),
      (''expiryTime'', ZInt_default [] 0),
      (''enable'', ZBool_default True),
      (''tgId'', ZInt_default [] 0),
      (''subId'', ZString_default ''''),
      (''comment'', ZString_default ''''),
      (''reset'', ZInt_default [CMin 0] 0),
      (''created_at'', ZOptional (ZInt [])),
      (''updated_at'', ZOptional (ZInt []))]"

definition HysteriaInboundSettingsSchema :: zschema where [schema_defs]:
  "HysteriaInboundSettingsSchema = ZObject
     [(''version'', ZInt_default [CMin 1] 2),
      (''clients'', ZDefault (ZArray AnyLen HysteriaClientSchema) (JArr []))]"

definition MixedAuthSchema :: zschema where [schema_defs]:
  "MixedAuthSchema = ZEnum [''password'', ''noauth'']"

definition MixedAccountSchema :: zschema where [schema_defs]:
  "MixedAccountSchema = ZObject
     [(''user'', ZNonEmpty),
      (''pass'', ZNonEmpty)]"

definition MixedInboundSettingsSchema :: zschema where [schema_defs]:
  "MixedInboundSettingsSchema = ZObject
     [(''auth'', ZDefault MixedAuthSchema (JStr ''password'')),
      (''accounts'', ZOptional (ZArray AnyLen MixedAccountSchema)),
      (''udp'', ZBool_default False),
      (''ip'', ZString_default ''127.0.0.1'')]"

definition SSNetworkSchema :: zschema where [schema_defs]:
  "SSNetworkSchema = ZEnum [''tcp'', ''udp'', ''tcp,udp'']"

definition ShadowsocksClientSchema :: zschema where [schema_defs]:
  "ShadowsocksClientSchema = ZObject
     [(''method'', ZString_default ''''),
      (''password'', ZString_default ''''),
      (''email'', ZNonEmpty),
      (''limitIp'', ZInt_default [CMin 0] 0),
      (''totalGB'', ZInt_default [CMin 0] 0),
      (''expiryTime'', ZInt_default [] 0),
      (''enable'', ZBool_default True),
      (''tgId'', ZInt_default [] 0),
      (''subId'', ZString_default ''''),
      (''comment'', ZString_default ''''),
      (''reset'', ZInt_default [CMin 0] 0),
      (''created_at'', ZOptional (ZInt [])),
      (''updated_at'', ZOptional (ZInt []))]"

definition ShadowsocksInboundSettingsSchema :: zschema where [schema_defs]:
  "ShadowsocksInboundSettingsSchema = ZObject
     [(''method'', ZDefault SSMethodSchema (JStr ''2022-blake3-aes-256-gcm'')),
      (''password'', ZString_default ''''),
      (''network'', ZDefault SSNetworkSchema (JStr ''tcp,udp'')),
      (''clients'', ZDefault (ZArray AnyLen ShadowsocksClientSchema) (JArr [])),
      (''ivCheck'', ZBool_default False)]"

definition TrojanFallbackSchema :: zschema where [schema_defs]:
  "TrojanFallbackSchema = ZObject
     [(''name'', ZString_default ''''),
      (''alpn'', ZString_default ''''),
      (''path'', ZString_default ''''),
      (''dest'', ZDefault (ZUnion [ZString, ZNumber []]) (JStr '''')),
      (''xver'', ZInt_default [CMin 0] 0)]"

definition TrojanClientSchema :: zschema where [schema_defs]:
  "TrojanClientSchema = ZObject
     [(''password'', ZNonEmpty),
      (''email'', ZNonEmpty),
      (''limitIp'', ZInt_default [CMin 0] 0),
      (''totalGB'', ZInt_default [CMin 0] 0),
      (''expiryTime'', ZInt_default [] 0),
      (''enable'', ZBool_default True),
      (''tgId'', ZInt_default [] 0),
      (''subId'', ZString_default ''''),
      (''comment'', ZString_default ''''),
      (''reset'', ZInt_default [CMin 0] 0),
      (''created_at'', ZOptional (ZInt [])),
      (''updated_at'', ZOptional (ZInt []))]"

definition TrojanInboundSettingsSchema :: zschema where [schema_defs]:
  "TrojanInboundSettingsSchema = ZObject
     [(''clients'', ZDefault (ZArray AnyLen TrojanClientSchema) (JArr [])),
      (''fallbacks'', ZDefault (ZArray AnyLen TrojanFallbackSchema) (JArr []))]"

definition TunInboundSettingsSchema :: zschema where [schema_defs]:
  "TunInboundSettingsSchema = ZObject
     [(''name'', ZString_default ''xray0''),
      (''mtu'', ZInt_default [CMin 0] 1500),
      (''gateway'', ZDefault (ZArray AnyLen ZString) (JArr [])),
      (''dns'', ZDefault (ZArray AnyLen ZString) (JArr [])),
      (''userLevel'', ZInt_default [CMin 0] 0),
      (''autoSystemRoutingTable'', ZDefault (ZArray AnyLen ZString) (JArr [])),
      (''autoOutboundsInterface'', ZString_default ''auto'')]"

definition TunnelNetworkSchema :: zschema where [schema_defs]:
  "TunnelNetworkSchema = ZEnum [''tcp'', ''udp'', ''tcp,udp'']"

definition TunnelInboundSettingsSchema :: zschema where [schema_defs]:
  "TunnelInboundSettingsSchema = ZObject
     [(''rewriteAddress'', ZOptional ZString),
      (''rewritePort'', ZOptional PortSchema),
      (''portMap'', ZDefault (ZRecord ZString) (JObj [])),
      (''allowedNetwork'', ZDefault TunnelNetworkSchema (JStr ''tcp,udp'')),
      (''followRedirect'', ZBool_default False)]"

definition VlessFallbackSchema :: zschema where [schema_defs]:
  "VlessFallbackSchema = ZObject
     [(''name'', ZString_default ''''),
      (''alpn'', ZString_default ''''),
      (''path'', ZString_default ''''),
      (''dest'', ZDefault (ZUnion [ZString, ZNumber []]) (JStr '''')),
      (''xver'', ZInt_default [CMin 0] 0)]"

definition VlessClientSchema :: zschema where [schema_defs]:
  "VlessClientSchema = ZObject
     [(''id'', ZUuid),
      (''email'', ZNonEmpty),
      (''flow'', ZDefault FlowSchema (JStr '''')),
      (''limitIp'', ZInt_default [CMin 0] 0),
      (''totalGB'', ZInt_default [CMin 0] 0),
      (''expiryTime'', ZInt_default [] 0),
      (''enable'', ZBool_default True),
      (''tgId'', ZInt_default [] 0),
      (''subId'', ZString_default ''''),
      (''comment'', ZString_default ''''),
      (''reset'', ZInt_default [CMin 0] 0),
      (''reverse'', ZOptional (ZObject
         [(''tag'', ZString),
          (''sniffing'', ZOptional SniffingSchema)])),
      (''created_at'', ZOptional (ZInt [])),
      (''updated_at'', ZOptional (ZInt []))]"

definition VlessInboundSettingsSchema :: zschema where [schema_defs]:
  "VlessInboundSettingsSchema = ZObject
     [(''clients'', ZDefault (ZArray AnyLen VlessClientSchema) (JArr [])),
      (''decryption'', ZDefault ZNonEmpty (JStr ''none'')),
      (''encryption'', ZDefault ZNonEmpty (JStr ''none'')),
      (''fallbacks'', ZDefault (ZArray AnyLen VlessFallbackSchema) (JArr [])),
      (''testseed'', ZOptional (ZArray (ExactLen 4) (ZInt [CPositive])))]"

definition VmessClientSchema :: zschema where [schema_defs]:
  "VmessClientSchema = ZObject
     [(''id'', ZUuid),
      (''security'', ZDefault VmessSecuritySchema (JStr ''auto'')),
      (''email'', ZNonEmpty),
      (''limitIp'', ZInt_default [CMin 0] 0),
      (''totalGB'', ZInt_default [CMin 0] 0),
      (''expiryTime'', ZInt_default [] 0),
      (''enable'', ZBool_default True),
      (''tgId'', ZInt_default [] 0),
      (''subId'', ZString_default ''''),
      (''comment'', ZString_default ''''),
      (''reset'', ZInt_default [CMin 0] 0),
      (''created_at'', ZOptional (ZInt [])),
      (''updated_at'', ZOptional (ZInt []))]"

definition VmessInboundSettingsSchema :: zschema where [schema_defs]:
  "VmessInboundSettingsSchema = ZObject
     [(''clients'', ZDefault (ZArray AnyLen VmessClientSchema) (JArr []))]"

definition WireguardInboundPeerSchema :: zschema where [schema_defs]:
  "WireguardInboundPeerSchema = ZObject
     [(''privateKey'', ZOptional ZString),
      (''publicKey'', ZNonEmpty),
      (''preSharedKey'', ZOptional ZString),
      (''allowedIPs'', ZDefault (ZArray AnyLen ZString) (JArr [])),
      (''keepAlive'', ZOptional (ZInt [CMin 0]))]"

definition WireguardInboundSettingsSchema :: zschema where [schema_defs]:
  "WireguardInboundSettingsSchema = ZObject
     [(''mtu'', ZOptional (ZInt [CMin 1])),
      (''secretKey'', ZNonEmpty),
      (''peers'', ZDefault (ZArray AnyLen WireguardInboundPeerSchema) (JArr [])),
      (''noKernelTun'', ZBool_default False)]"

definition InboundSettingsSchema :: zschema where [schema_defs]:
  "InboundSettingsSchema = ZDiscriminated ''protocol''
     [ZObject [(''protocol'', ZLiteral (JStr ''vmess'')), (''settings'',
         VmessInboundSettingsSchema)],
      ZObject [(''protocol'', ZLiteral (JStr ''vless'')), (''settings'',
          VlessInboundSettingsSchema)],
      ZObject [(''protocol'', ZLiteral (JStr ''trojan'')), (''settings'',
          TrojanInboundSettingsSchema)],
      ZObject [(''protocol'', ZLiteral (JStr ''shadowsocks'')), (''settings'',
          ShadowsocksInboundSettingsSchema)],
      ZObject [(''protocol'', ZLiteral (JStr ''wireguard'')), (''settings'',
          WireguardInboundSettingsSchema)],
      ZObject [(''protocol'', ZLiteral (JStr ''hysteria'')), (''settings'',
          HysteriaInboundSettingsSchema)],
      ZObject [(''protocol'', ZLiteral (JStr ''http'')), (''settings'', HttpInboundSettingsSchema)],
      ZObject [(''protocol'', ZLiteral (JStr ''mixed'')), (''settings'',
          MixedInboundSettingsSchema)],
      ZObject [(''protocol'', ZLiteral (JStr ''tunnel'')), (''settings'',
          TunnelInboundSettingsSchema)],
      ZObject [(''protocol'', ZLiteral (JStr ''tun'')), (''settings'', TunInboundSettingsSchema)]]"

lemma inbound_settings_wf [simp]:
  "zwf u HttpAccountSchema"
  "zwf u HttpInboundSettingsSchema"
  "zwf u HysteriaClientSchema"
  "zwf u HysteriaInboundSettingsSchema"
  "zwf u MixedAuthSchema"
  "zwf u MixedAccountSchema"
  "zwf u MixedInboundSettingsSchema"
  "zwf u SSNetworkSchema"
  "zwf u ShadowsocksClientSchema"
  "zwf u ShadowsocksInboundSettingsSchema"
  "zwf u TrojanFallbackSchema"
  "zwf u TrojanClientSchema"
  "zwf u TrojanInboundSettingsSchema"
  "zwf u TunInboundSettingsSchema"
  "zwf u TunnelNetworkSchema"
  "zwf u TunnelInboundSettingsSchema"
  "zwf u VlessFallbackSchema"
  "zwf u VlessClientSchema"
  "zwf u VlessInboundSettingsSchema"
  "zwf u VmessClientSchema"
  "zwf u VmessInboundSettingsSchema"
  "zwf u WireguardInboundPeerSchema"
  "zwf u WireguardInboundSettingsSchema"
  "zwf u InboundSettingsSchema"
  by (simp_all add: schema_defs keep_rules)

lemma inbound_settings_free [simp]:
  "zfree HttpAccountSchema"
  "zfree HttpInboundSettingsSchema"
  "zfree HysteriaClientSchema"
  "zfree HysteriaInboundSettingsSchema"
  "zfree MixedAuthSchema"
  "zfree MixedAccountSchema"
  "zfree MixedInboundSettingsSchema"
  "zfree SSNetworkSchema"
  "zfree ShadowsocksClientSchema"
  "zfree ShadowsocksInboundSettingsSchema"
  "zfree TrojanFallbackSchema"
  "zfree TrojanClientSchema"
  "zfree TrojanInboundSettingsSchema"
  "zfree TunInboundSettingsSchema"
  "zfree TunnelNetworkSchema"
  "zfree TunnelInboundSettingsSchema"
  "zfree VlessFallbackSchema"
  "zfree VlessClientSchema"
  "zfree VlessInboundSettingsSchema"
  "zfree VmessClientSchema"
  "zfree VmessInboundSettingsSchema"
  "zfree WireguardInboundPeerSchema"
  "zfree WireguardInboundSettingsSchema"
  "zfree InboundSettingsSchema"
  by (simp_all add: schema_defs)

section \<open>Outbound settings\<close>

definition BlackholeResponseTypeSchema :: zschema where [schema_defs]:
  "BlackholeResponseTypeSchema = ZEnum [''none'', ''http'']"

definition BlackholeOutboundSettingsSchema :: zschema where [schema_defs]:
  "BlackholeOutboundSettingsSchema = ZObject
     [(''response'', ZOptional (ZObject
         [(''type'', BlackholeResponseTypeSchema)]))]"

definition DNSRuleActionSchema :: zschema where [schema_defs]:
  "DNSRuleActionSchema = ZEnum [''direct'', ''drop'', ''return'', ''hijack'']"

definition DNSRuleSchema :: zschema where [schema_defs]:
  "DNSRuleSchema = ZObject
     [(''action'', ZDefault DNSRuleActionSchema (JStr ''direct'')),
      (''qType'', ZOptional (ZUnion [ZString, ZInt []])),
      (''domain'', ZOptional (ZArray AnyLen ZString)),
      (''rCode'', ZOptional (ZInt [CMin 0, CMax 65535]))]"

definition DNSOutboundSettingsSchema :: zschema where [schema_defs]:
  "DNSOutboundSettingsSchema = ZObject
     [(''rewriteNetwork'', ZOptional ZString),
      (''rewriteAddress'', ZOptional ZString),
      (''rewritePort'', ZOptional PortSchema),
      (''userLevel'', ZOptional (ZInt [CMin 0])),
      (''rules'', ZOptional (ZArray AnyLen DNSRuleSchema))]"

definition OutboundDomainStrategySchema :: zschema where [schema_defs]:
  "OutboundDomainStrategySchema = ZEnum [''AsIs'', ''UseIP'', ''UseIPv4'', ''UseIPv6'',
      ''UseIPv6v4'', ''UseIPv4v6'', ''ForceIP'', ''ForceIPv6v4'', ''ForceIPv6'', ''ForceIPv4v6'',
      ''ForceIPv4'']"

definition FreedomFragmentSchema :: zschema where [schema_defs]:
  "FreedomFragmentSchema = ZObject
     [(''packets'', ZString_default ''1-3''),
      (''length'', ZString_default ''''),
      (''interval'', ZString_default ''''),
      (''maxSplit'', ZString_default '''')]"

definition FreedomNoiseTypeSchema :: zschema where [schema_defs]:
  "FreedomNoiseTypeSchema = ZEnum [''rand'', ''str'', ''base64'', ''hex'']"

definition FreedomNoiseApplyToSchema :: zschema where [schema_defs]:
  "FreedomNoiseApplyToSchema = ZEnum [''ip'', ''ipv4'', ''ipv6'']"

definition FreedomNoiseSchema :: zschema where [schema_defs]:
  "FreedomNoiseSchema = ZObject
     [(''type'', ZDefault FreedomNoiseTypeSchema (JStr ''rand'')),
      (''packet'', ZString_default ''10-20''),
      (''delay'', ZString_default ''10-16''),
      (''applyTo'', ZDefault FreedomNoiseApplyToSchema (JStr ''ip''))]"

definition FreedomFinalRuleActionSchema :: zschema where [schema_defs]:
  "FreedomFinalRuleActionSchema = ZEnum [''allow'', ''block'']"

definition FreedomFinalRuleSchema :: zschema where [schema_defs]:
  "FreedomFinalRuleSchema = ZObject
     [(''action'', ZDefault FreedomFinalRuleActionSchema (JStr ''block'')),
      (''network'', ZOptional ZString),
      (''port'', ZOptional ZString),
      (''ip'', ZDefault (ZArray AnyLen ZString) (JArr [])),
      (''blockDelay'', ZOptional ZString)]"

definition FreedomOutboundSettingsSchema :: zschema where [schema_defs]:
  "FreedomOutboundSettingsSchema = ZObject
     [(''domainStrategy'', ZOptional OutboundDomainStrategySchema),
      (''redirect'', ZOptional ZString),
      (''userLevel'', ZOptional (ZInt [CMin 0])),
      (''proxyProtocol'', ZOptional (ZNumber [])),
      (''fragment'', ZOptional FreedomFragmentSchema),
      (''noises'', ZOptional (ZArray AnyLen FreedomNoiseSchema)),
      (''finalRules'', ZOptional (ZArray AnyLen FreedomFinalRuleSchema))]"

definition HttpOutboundUserSchema :: zschema where [schema_defs]:
  "HttpOutboundUserSchema = ZObject
     [(''user'', ZNonEmpty),
      (''pass'', ZNonEmpty)]"

definition HttpOutboundServerSchema :: zschema where [schema_defs]:
  "HttpOutboundServerSchema = ZObject
     [(''address'', ZNonEmpty),
      (''port'', PortSchema),
      (''users'', ZDefault (ZArray AnyLen HttpOutboundUserSchema) (JArr []))]"

definition HttpOutboundSettingsSchema :: zschema where [schema_defs]:
  "HttpOutboundSettingsSchema = ZObject
     [(''servers'', ZArray (MinLen 1) HttpOutboundServerSchema)]"

definition HysteriaOutboundSettingsSchema :: zschema where [schema_defs]:
  "HysteriaOutboundSettingsSchema = ZObject
     [(''address'', ZNonEmpty),
      (''port'', PortSchema),
      (''version'', ZInt_default [CMin 1] 2)]"

definition LoopbackOutboundSettingsSchema :: zschema where [schema_defs]:
  "LoopbackOutboundSettingsSchema = ZObject
     [(''inboundTag'', ZOptional ZString)]"

definition ShadowsocksOutboundServerSchema :: zschema where [schema_defs]:
  "ShadowsocksOutboundServerSchema = ZObject
     [(''address'', ZNonEmpty),
      (''port'', PortSchema),
      (''password'', ZNonEmpty),
      (''method'', SSMethodSchema),
      (''uot'', ZOptional ZBoolean),
      (''UoTVersion'', ZOptional (ZInt [CMin 1, CMax 2]))]"

definition ShadowsocksOutboundSettingsSchema :: zschema where [schema_defs]:
  "ShadowsocksOutboundSettingsSchema = ZObject
     [(''servers'', ZArray (MinLen 1) ShadowsocksOutboundServerSchema)]"

definition SocksOutboundUserSchema :: zschema where [schema_defs]:
  "SocksOutboundUserSchema = ZObject
     [(''user'', ZNonEmpty),
      (''pass'', ZNonEmpty)]"

definition SocksOutboundServerSchema :: zschema where [schema_defs]:
  "SocksOutboundServerSchema = ZObject
     [(''address'', ZNonEmpty),
      (''port'', PortSchema),
      (''users'', ZDefault (ZArray AnyLen SocksOutboundUserSchema) (JArr []))]"

definition SocksOutboundSettingsSchema :: zschema where [schema_defs]:
  "SocksOutboundSettingsSchema = ZObject
     [(''servers'', ZArray (MinLen 1) SocksOutboundServerSchema)]"

definition TrojanOutboundServerSchema :: zschema where [schema_defs]:
  "TrojanOutboundServerSchema = ZObject
     [(''address'', ZNonEmpty),
      (''port'', PortSchema),
      (''password'', ZNonEmpty)]"

definition TrojanOutboundSettingsSchema :: zschema where [schema_defs]:
  "TrojanOutboundSettingsSchema = ZObject
     [(''servers'', ZArray (MinLen 1) TrojanOutboundServerSchema)]"

definition VlessOutboundSettingsSchema :: zschema where [schema_defs]:
  "VlessOutboundSettingsSchema = ZObject
     [(''address'', ZString),
      (''port'', ZInt [CMin 1, CMax 65535]),
      (''id'', ZUuid),
      (''flow'', ZDefault FlowSchema (JStr '''')),
      (''encryption'', ZDefault ZNonEmpty (JStr ''none'')),
      (''reverse'', ZOptional (ZObject
         [(''tag'', ZString),
          (''sniffing'', ZOptional SniffingSchema)])),
      (''testpre'', ZOptional (ZInt [CMin 0])),
      (''testseed'', ZOptional (ZArray (ExactLen 4) (ZInt [CPositive])))]"

definition VmessOutboundUserSchema :: zschema where [schema_defs]:
  "VmessOutboundUserSchema = ZObject
     [(''id'', ZUuid),
      (''security'', ZDefault VmessSecuritySchema (JStr ''auto''))]"

definition VmessOutboundServerSchema :: zschema where [schema_defs]:
  "VmessOutboundServerSchema = ZObject
     [(''address'', ZNonEmpty),
      (''port'', PortSchema),
      (''users'', ZArray (MinLen 1) VmessOutboundUserSchema)]"

definition VmessOutboundSettingsSchema :: zschema where [schema_defs]:
  "VmessOutboundSettingsSchema = ZObject
     [(''vnext'', ZArray (MinLen 1) VmessOutboundServerSchema)]"

definition WireguardDomainStrategySchema :: zschema where [schema_defs]:
  "WireguardDomainStrategySchema = ZEnum [''ForceIP'', ''ForceIPv4'', ''ForceIPv4v6'',
      ''ForceIPv6'', ''ForceIPv6v4'']"

definition WireguardOutboundPeerSchema :: zschema where [schema_defs]:
  "WireguardOutboundPeerSchema = ZObject
     [(''publicKey'', ZNonEmpty),
      (''preSharedKey'', ZOptional ZString),
      (''allowedIPs'', ZDefault (ZArray AnyLen ZString) (JArr [JStr ''0.0.0.0/0'', JStr ''::/0''])),
      (''endpoint'', ZNonEmpty),
      (''keepAlive'', ZOptional (ZInt [CMin 0]))]"

definition WireguardOutboundSettingsSchema :: zschema where [schema_defs]:
  "WireguardOutboundSettingsSchema = ZObject
     [(''mtu'', ZOptional (ZInt [CMin 1])),
      (''secretKey'', ZNonEmpty),
      (''address'', ZDefault (ZArray AnyLen ZString) (JArr [])),
      (''workers'', ZOptional (ZInt [CMin 1])),
      (''domainStrategy'', ZOptional WireguardDomainStrategySchema),
      (''reserved'', ZOptional (ZArray AnyLen (ZInt []))),
      (''peers'', ZArray (MinLen 1) WireguardOutboundPeerSchema),
      (''noKernelTun'', ZBool_default False)]"

definition OutboundSettingsSchema :: zschema where [schema_defs]:
  "OutboundSettingsSchema = ZDiscriminated ''protocol''
     [ZObject [(''protocol'', ZLiteral (JStr ''vmess'')), (''settings'',
         VmessOutboundSettingsSchema)],
      ZObject [(''protocol'', ZLiteral (JStr ''vless'')), (''settings'',
          VlessOutboundSettingsSchema)],
      ZObject [(''protocol'', ZLiteral (JStr ''trojan'')), (''settings'',
          TrojanOutboundSettingsSchema)],
      ZObject [(''protocol'', ZLiteral (JStr ''shadowsocks'')), (''settings'',
          ShadowsocksOutboundSettingsSchema)],
      ZObject [(''protocol'', ZLiteral (JStr ''wireguard'')), (''settings'',
          WireguardOutboundSettingsSchema)],
      ZObject [(''protocol'', ZLiteral (JStr ''hysteria'')), (''settings'',
          HysteriaOutboundSettingsSchema)],
      ZObject [(''protocol'', ZLiteral (JStr ''http'')), (''settings'',
          HttpOutboundSettingsSchema)],
      ZObject [(''protocol'', ZLiteral (JStr ''socks'')), (''settings'',
          SocksOutboundSettingsSchema)],
      ZObject [(''protocol'', ZLiteral (JStr ''freedom'')), (''settings'',
          FreedomOutboundSettingsSchema)],
      ZObject [(''protocol'', ZLiteral (JStr ''blackhole'')), (''settings'',
          BlackholeOutboundSettingsSchema)],
      ZObject [(''protocol'', ZLiteral (JStr ''dns'')), (''settings'', DNSOutboundSettingsSchema)],
      ZObject [(''protocol'', ZLiteral (JStr ''loopback'')), (''settings'',
          LoopbackOutboundSettingsSchema)]]"

lemma outbound_settings_wf [simp]:
  "zwf u BlackholeResponseTypeSchema"
  "zwf u BlackholeOutboundSettingsSchema"
  "zwf u DNSRuleActionSchema"
  "zwf u DNSRuleSchema"
  "zwf u DNSOutboundSettingsSchema"
  "zwf u OutboundDomainStrategySchema"
  "zwf u FreedomFragmentSchema"
  "zwf u FreedomNoiseTypeSchema"
  "zwf u FreedomNoiseApplyToSchema"
  "zwf u FreedomNoiseSchema"
  "zwf u FreedomFinalRuleActionSchema"
  "zwf u FreedomFinalRuleSchema"
  "zwf u FreedomOutboundSettingsSchema"
  "zwf u HttpOutboundUserSchema"
  "zwf u HttpOutboundServerSchema"
  "zwf u HttpOutboundSettingsSchema"
  "zwf u HysteriaOutboundSettingsSchema"
  "zwf u LoopbackOutboundSettingsSchema"
  "zwf u ShadowsocksOutboundServerSchema"
  "zwf u ShadowsocksOutboundSettingsSchema"
  "zwf u SocksOutboundUserSchema"
  "zwf u SocksOutboundServerSchema"
  "zwf u SocksOutboundSettingsSchema"
  "zwf u TrojanOutboundServerSchema"
  "zwf u TrojanOutboundSettingsSchema"
  "zwf u VlessOutboundSettingsSchema"
  "zwf u VmessOutboundUserSchema"
  "zwf u VmessOutboundServerSchema"
  "zwf u VmessOutboundSettingsSchema"
  "zwf u WireguardDomainStrategySchema"
  "zwf u WireguardOutboundPeerSchema"
  "zwf u WireguardOutboundSettingsSchema"
  "zwf u OutboundSettingsSchema"
  by (simp_all add: schema_defs keep_rules)

lemma outbound_settings_free [simp]:
  "zfree BlackholeResponseTypeSchema"
  "zfree BlackholeOutboundSettingsSchema"
  "zfree DNSRuleActionSchema"
  "zfree DNSRuleSchema"
  "zfree DNSOutboundSettingsSchema"
  "zfree OutboundDomainStrategySchema"
  "zfree FreedomFragmentSchema"
  "zfree FreedomNoiseTypeSchema"
  "zfree FreedomNoiseApplyToSchema"
  "zfree FreedomNoiseSchema"
  "zfree FreedomFinalRuleActionSchema"
  "zfree FreedomFinalRuleSchema"
  "zfree FreedomOutboundSettingsSchema"
  "zfree HttpOutboundUserSchema"
  "zfree HttpOutboundServerSchema"
  "zfree HttpOutboundSettingsSchema"
  "zfree HysteriaOutboundSettingsSchema"
  "zfree LoopbackOutboundSettingsSchema"
  "zfree ShadowsocksOutboundServerSchema"
  "zfree ShadowsocksOutboundSettingsSchema"
  "zfree SocksOutboundUserSchema"
  "zfree SocksOutboundServerSchema"
  "zfree SocksOutboundSettingsSchema"
  "zfree TrojanOutboundServerSchema"
  "zfree TrojanOutboundSettingsSchema"
  "zfree VlessOutboundSettingsSchema"
  "zfree VmessOutboundUserSchema"
  "zfree VmessOutboundServerSchema"
  "zfree VmessOutboundSettingsSchema"
  "zfree WireguardDomainStrategySchema"
  "zfree WireguardOutboundPeerSchema"
  "zfree WireguardOutboundSettingsSchema"
  "zfree OutboundSettingsSchema"
  by (simp_all add: schema_defs)

section \<open>Wire and form documents\<close>

definition StreamSettingsSchema :: zschema where [schema_defs]:
  "StreamSettingsSchema = ZAnd (ZAnd NetworkSettingsSchema SecuritySettingsSchema)
      StreamExtrasSchema"

definition InboundCoreSchema :: zschema where [schema_defs]:
  "InboundCoreSchema = ZObject
     [(''id'', ZOptional (ZInt [])),
      (''up'', ZInt_default [CMin 0] 0),
      (''down'', ZInt_default [CMin 0] 0),
      (''total'', ZInt_default [CMin 0] 0),
      (''remark'', ZString_default ''''),
      (''enable'', ZBool_default True),
      (''expiryTime'', ZInt_default [] 0),
      (''listen'', ZString_default ''''),
      (''port'', InboundPortSchema),
      (''tag'', ZString_default ''''),
      (''sniffing'', ZDefault SniffingSchema (JObj [(''enabled'', JBool False), (''destOverride'',
          JArr [JStr ''http'', JStr ''tls'', JStr ''quic'', JStr ''fakedns'']), (''metadataOnly'',
          JBool False), (''routeOnly'', JBool False), (''ipsExcluded'', JArr []),
          (''domainsExcluded'', JArr [])])),
      (''streamSettings'', ZOptional StreamSettingsSchema),
      (''clientStats'', ZOptional ZString)]"

definition InboundSchema :: zschema where [schema_defs]:
  "InboundSchema = ZAnd InboundCoreSchema InboundSettingsSchema"

definition InboundStreamFormSchema :: zschema where [schema_defs]:
  "InboundStreamFormSchema = ZAnd (ZAnd NetworkSettingsSchema SecuritySettingsSchema)
      StreamExtrasSchema"

definition TrafficResetSchema :: zschema where [schema_defs]:
  "TrafficResetSchema = ZEnum [''never'', ''hourly'', ''daily'', ''weekly'', ''monthly'']"

definition InboundDbFieldsSchema :: zschema where [schema_defs]:
  "InboundDbFieldsSchema = ZObject
     [(''up'', ZInt_default [CMin 0] 0),
      (''down'', ZInt_default [CMin 0] 0),
      (''total'', ZInt_default [CMin 0] 0),
      (''trafficReset'', ZDefault TrafficResetSchema (JStr ''never'')),
      (''lastTrafficResetTime'', ZInt_default [] 0),
      (''userId'', ZOptional (ZNullable (ZInt [CPositive]))),
      (''nodeId'', ZOptional (ZNullable (ZInt [])))]"

definition InboundFormBaseSchema :: zschema where [schema_defs]:
  "InboundFormBaseSchema = ZObject
     [(''remark'', ZString_default ''''),
      (''enable'', ZBool_default True),
      (''port'', InboundPortSchema),
      (''listen'', ZString_default ''''),
      (''tag'', ZString_default ''''),
      (''expiryTime'', ZInt_default [] 0),
      (''clientStats'', ZOptional ZString),
      (''sniffing'', ZDefault SniffingSchema (JObj [(''enabled'', JBool False), (''destOverride'',
          JArr [JStr ''http'', JStr ''tls'', JStr ''quic'', JStr ''fakedns'']), (''metadataOnly'',
          JBool False), (''routeOnly'', JBool False), (''ipsExcluded'', JArr []),
          (''domainsExcluded'', JArr [])])),
      (''streamSettings'', ZOptional InboundStreamFormSchema)]"

definition InboundFormSchema :: zschema where [schema_defs]:
  "InboundFormSchema = ZAnd (ZAnd InboundFormBaseSchema InboundDbFieldsSchema)
      InboundSettingsSchema"

definition FallbackRowSchema :: zschema where [schema_defs]:
  "FallbackRowSchema = ZObject
     [(''rowKey'', ZString),
      (''childId'', ZNullable (ZInt [])),
      (''name'', ZString_default ''''),
      (''alpn'', ZString_default ''''),
      (''path'', ZString_default ''''),
      (''dest'', ZString_default ''''),
      (''xver'', ZInt_default [CMin 0, CMax 2] 0)]"

definition VmessOutboundFormSettingsSchema :: zschema where [schema_defs]:
  "VmessOutboundFormSettingsSchema = ZObject
     [(''address'', ZString_default ''''),
      (''port'', ZDefault PortSchema (JInt 443)),
      (''id'', ZString_default ''''),
      (''security'', ZDefault VmessSecuritySchema (JStr ''auto''))]"

definition ReverseSniffingFormSchema :: zschema where [schema_defs]:
  "ReverseSniffingFormSchema = ZObject
     [(''enabled'', ZBool_default False),
      (''destOverride'', ZDefault (ZArray AnyLen ZString) (JArr [JStr ''http'', JStr ''tls'', JStr
          ''quic'', JStr ''fakedns''])),
      (''metadataOnly'', ZBool_default False),
      (''routeOnly'', ZBool_default False),
      (''ipsExcluded'', ZDefault (ZArray AnyLen ZString) (JArr [])),
      (''domainsExcluded'', ZDefault (ZArray AnyLen ZString) (JArr []))]"

definition VlessOutboundFormSettingsSchema :: zschema where [schema_defs]:
  "VlessOutboundFormSettingsSchema = ZObject
     [(''address'', ZString_default ''''),
      (''port'', ZDefault PortSchema (JInt 443)),
      (''id'', ZString_default ''''),
      (''flow'', ZString_default ''''),
      (''encryption'', ZDefault ZNonEmpty (JStr ''none'')),
      (''reverseTag'', ZString_default ''''),
      (''reverseSniffing'', ZDefault ReverseSniffingFormSchema (JObj [(''enabled'', JBool False),
          (''destOverride'', JArr [JStr ''http'', JStr ''tls'', JStr ''quic'', JStr ''fakedns'']),
          (''metadataOnly'', JBool False), (''routeOnly'', JBool False), (''ipsExcluded'', JArr
          []), (''domainsExcluded'', JArr [])])),
      (''testpre'', ZInt_default [CMin 0] 0),
      (''testseed'', ZDefault (ZArray AnyLen (ZInt [CPositive])) (JArr []))]"

definition TrojanOutboundFormSettingsSchema :: zschema where [schema_defs]:
  "TrojanOutboundFormSettingsSchema = ZObject
     [(''address'', ZString_default ''''),
      (''port'', ZDefault PortSchema (JInt 443)),
      (''password'', ZString_default '''')]"

definition ShadowsocksOutboundFormSettingsSchema :: zschema where [schema_defs]:
  "ShadowsocksOutboundFormSettingsSchema = ZObject
     [(''address'', ZString_default ''''),
      (''port'', ZDefault PortSchema (JInt 443)),
      (''password'', ZString_default ''''),
      (''method'', ZDefault SSMethodSchema (JStr ''2022-blake3-aes-128-gcm'')),
      (''uot'', ZBool_default False),
      (''UoTVersion'', ZInt_default [CMin 1, CMax 2] 1)]"

definition SocksOutboundFormSettingsSchema :: zschema where [schema_defs]:
  "SocksOutboundFormSettingsSchema = ZObject
     [(''address'', ZString_default ''''),
      (''port'', ZDefault PortSchema (JInt 1080)),
      (''user'', ZString_default ''''),
      (''pass'', ZString_default '''')]"

definition HttpOutboundFormSettingsSchema :: zschema where [schema_defs]:
  "HttpOutboundFormSettingsSchema = ZObject
     [(''address'', ZString_default ''''),
      (''port'', ZDefault PortSchema (JInt 8080)),
      (''user'', ZString_default ''''),
      (''pass'', ZString_default '''')]"

definition WireguardOutboundFormPeerSchema :: zschema where [schema_defs]:
  "WireguardOutboundFormPeerSchema = ZObject
     [(''publicKey'', ZString_default ''''),
      (''psk'', ZString_default ''''),
      (''allowedIPs'', ZDefault (ZArray AnyLen ZString) (JArr [JStr ''0.0.0.0/0'', JStr ''::/0''])),
      (''endpoint'', ZString_default ''''),
      (''keepAlive'', ZInt_default [CMin 0] 0)]"

definition WireguardOutboundFormSettingsSchema :: zschema where [schema_defs]:
  "WireguardOutboundFormSettingsSchema = ZObject
     [(''mtu'', ZInt_default [CMin 0] 1420),
      (''secretKey'', ZString_default ''''),
      (''pubKey'', ZString_default ''''),
      (''address'', ZString_default ''''),
      (''workers'', ZInt_default [CMin 0] 2),
      (''domainStrategy'', ZDefault (ZUnion [WireguardDomainStrategySchema, ZLiteral (JStr '''')])
          (JStr '''')),
      (''reserved'', ZString_default ''''),
      (''peers'', ZDefault (ZArray AnyLen WireguardOutboundFormPeerSchema) (JArr [])),
      (''noKernelTun'', ZBool_default False)]"

definition HysteriaOutboundFormSettingsSchema :: zschema where [schema_defs]:
  "HysteriaOutboundFormSettingsSchema = ZObject
     [(''address'', ZString_default ''''),
      (''port'', ZDefault PortSchema (JInt 443)),
      (''version'', ZDefault (ZLiteral (JInt 2)) (JInt 2))]"

definition FreedomFinalRuleFormSchema :: zschema where [schema_defs]:
  "FreedomFinalRuleFormSchema = ZObject
     [(''action'', ZDefault FreedomFinalRuleActionSchema (JStr ''block'')),
      (''network'', ZString_default ''''),
      (''port'', ZString_default ''''),
      (''ip'', ZDefault (ZArray AnyLen ZString) (JArr [])),
      (''blockDelay'', ZString_default '''')]"

definition FreedomOutboundFormSettingsSchema :: zschema where [schema_defs]:
  "FreedomOutboundFormSettingsSchema = ZObject
     [(''domainStrategy'', ZDefault (ZUnion [OutboundDomainStrategySchema, ZLiteral (JStr '''')])
         (JStr '''')),
      (''redirect'', ZString_default ''''),
      (''userLevel'', ZInt_default [CMin 0] 0),
      (''proxyProtocol'', ZInt_default [CMin 0, CMax 2] 0),
      (''fragment'', ZDefault FreedomFragmentSchema (JObj [(''packets'', JStr ''1-3''),
          (''length'', JStr ''''), (''interval'', JStr ''''), (''maxSplit'', JStr '''')])),
      (''noises'', ZDefault (ZArray AnyLen FreedomNoiseSchema) (JArr [])),
      (''finalRules'', ZDefault (ZArray AnyLen FreedomFinalRuleFormSchema) (JArr []))]"

definition BlackholeOutboundFormSettingsSchema :: zschema where [schema_defs]:
  "BlackholeOutboundFormSettingsSchema = ZObject
     [(''type'', ZDefault (ZUnion [BlackholeResponseTypeSchema, ZLiteral (JStr '''')]) (JStr
         ''''))]"

definition DnsRuleFormSchema :: zschema where [schema_defs]:
  "DnsRuleFormSchema = ZObject
     [(''action'', ZDefault DNSRuleActionSchema (JStr ''direct'')),
      (''qType'', ZString_default ''''),
      (''domain'', ZString_default ''''),
      (''rCode'', ZInt_default [CMin 0, CMax 65535] 0)]"

definition DnsOutboundFormSettingsSchema :: zschema where [schema_defs]:
  "DnsOutboundFormSettingsSchema = ZObject
     [(''rewriteNetwork'', ZDefault (ZUnion [ZEnum [''udp'', ''tcp''], ZLiteral (JStr '''')]) (JStr
         '''')),
      (''rewriteAddress'', ZString_default ''''),
      (''rewritePort'', ZInt_default [CMin 0, CMax 65535] 53),
      (''userLevel'', ZInt_default [CMin 0] 0),
      (''rules'', ZDefault (ZArray AnyLen DnsRuleFormSchema) (JArr []))]"

definition LoopbackOutboundFormSettingsSchema :: zschema where [schema_defs]:
  "LoopbackOutboundFormSettingsSchema = ZObject
     [(''inboundTag'', ZString_default '''')]"

definition OutboundFormSettingsSchema :: zschema where [schema_defs]:
  "OutboundFormSettingsSchema = ZDiscriminated ''protocol''
     [ZObject [(''protocol'', ZLiteral (JStr ''vmess'')), (''settings'',
         VmessOutboundFormSettingsSchema)],
      ZObject [(''protocol'', ZLiteral (JStr ''vless'')), (''settings'',
          VlessOutboundFormSettingsSchema)],
      ZObject [(''protocol'', ZLiteral (JStr ''trojan'')), (''settings'',
          TrojanOutboundFormSettingsSchema)],
      ZObject [(''protocol'', ZLiteral (JStr ''shadowsocks'')), (''settings'',
          ShadowsocksOutboundFormSettingsSchema)],
      ZObject [(''protocol'', ZLiteral (JStr ''socks'')), (''settings'',
          SocksOutboundFormSettingsSchema)],
      ZObject [(''protocol'', ZLiteral (JStr ''http'')), (''settings'',
          HttpOutboundFormSettingsSchema)],
      ZObject [(''protocol'', ZLiteral (JStr ''wireguard'')), (''settings'',
          WireguardOutboundFormSettingsSchema)],
      ZObject [(''protocol'', ZLiteral (JStr ''hysteria'')), (''settings'',
          HysteriaOutboundFormSettingsSchema)],
      ZObject [(''protocol'', ZLiteral (JStr ''freedom'')), (''settings'',
          FreedomOutboundFormSettingsSchema)],
      ZObject [(''protocol'', ZLiteral (JStr ''blackhole'')), (''settings'',
          BlackholeOutboundFormSettingsSchema)],
      ZObject [(''protocol'', ZLiteral (JStr ''dns'')), (''settings'',
          DnsOutboundFormSettingsSchema)],
      ZObject [(''protocol'', ZLiteral (JStr ''loopback'')), (''settings'',
          LoopbackOutboundFormSettingsSchema)]]"

definition MuxFormSchema :: zschema where [schema_defs]:
  "MuxFormSchema = ZObject
     [(''enabled'', ZBool_default False),
      (''concurrency'', ZInt_default [] 8),
      (''xudpConcurrency'', ZInt_default [] 16),
      (''xudpProxyUDP443'', ZDefault (ZEnum [''reject'', ''allow'', ''skip'']) (JStr ''reject''))]"

definition OutboundStreamFormSchema :: zschema where [schema_defs]:
  "OutboundStreamFormSchema = ZAnd (ZAnd NetworkSettingsSchema SecuritySettingsSchema)
      StreamExtrasSchema"

definition OutboundFormBaseSchema :: zschema where [schema_defs]:
  "OutboundFormBaseSchema = ZObject
     [(''tag'', ZString_default ''''),
      (''sendThrough'', ZString_default ''''),
      (''streamSettings'', ZOptional OutboundStreamFormSchema),
      (''mux'', ZDefault MuxFormSchema (JObj [(''enabled'', JBool False), (''concurrency'', JInt
          8), (''xudpConcurrency'', JInt 16), (''xudpProxyUDP443'', JStr ''reject'')]))]"

definition OutboundFormSchema :: zschema where [schema_defs]:
  "OutboundFormSchema = ZAnd OutboundFormBaseSchema OutboundFormSettingsSchema"

lemma wire_and_form_documents_wf [simp]:
  "zwf u TrafficResetSchema"
  "zwf u InboundDbFieldsSchema"
  "zwf u FallbackRowSchema"
  "zwf u VmessOutboundFormSettingsSchema"
  "zwf u ReverseSniffingFormSchema"
  "zwf u VlessOutboundFormSettingsSchema"
  "zwf u TrojanOutboundFormSettingsSchema"
  "zwf u ShadowsocksOutboundFormSettingsSchema"
  "zwf u SocksOutboundFormSettingsSchema"
  "zwf u HttpOutboundFormSettingsSchema"
  "zwf u WireguardOutboundFormPeerSchema"
  "zwf u WireguardOutboundFormSettingsSchema"
  "zwf u HysteriaOutboundFormSettingsSchema"
  "zwf u FreedomFinalRuleFormSchema"
  "zwf u FreedomOutboundFormSettingsSchema"
  "zwf u BlackholeOutboundFormSettingsSchema"
  "zwf u DnsRuleFormSchema"
  "zwf u DnsOutboundFormSettingsSchema"
  "zwf u LoopbackOutboundFormSettingsSchema"
  "zwf u OutboundFormSettingsSchema"
  "zwf u MuxFormSchema"
  by (simp_all add: schema_defs keep_rules)

lemma wire_and_form_documents_free [simp]:
  "zfree TrafficResetSchema"
  "zfree InboundDbFieldsSchema"
  "zfree FallbackRowSchema"
  "zfree VmessOutboundFormSettingsSchema"
  "zfree ReverseSniffingFormSchema"
  "zfree VlessOutboundFormSettingsSchema"
  "zfree TrojanOutboundFormSettingsSchema"
  "zfree ShadowsocksOutboundFormSettingsSchema"
  "zfree SocksOutboundFormSettingsSchema"
  "zfree HttpOutboundFormSettingsSchema"
  "zfree WireguardOutboundFormPeerSchema"
  "zfree WireguardOutboundFormSettingsSchema"
  "zfree HysteriaOutboundFormSettingsSchema"
  "zfree FreedomFinalRuleFormSchema"
  "zfree FreedomOutboundFormSettingsSchema"
  "zfree BlackholeOutboundFormSettingsSchema"
  "zfree DnsRuleFormSchema"
  "zfree DnsOutboundFormSettingsSchema"
  "zfree LoopbackOutboundFormSettingsSchema"
  "zfree OutboundFormSettingsSchema"
  "zfree MuxFormSchema"
  by (simp_all add: schema_defs)

end
