(* ===== verification/OutboundForm.thy ===== *)
theory OutboundForm
  imports Schemas Wireguard
begin

text \<open>
  \<open>lib/xray/outbound-form-adapter.ts\<close>: the outbound editor's form values and the wire
  configuration they are read from and written to.

  The form types of \<open>schemas/forms/outbound-form.ts\<close> are records, one per protocol, and the
  tagged union is a datatype.  Wire values are JavaScript values: reading never fails on a
  malformed row (every member is coerced or defaulted) except where
  \<open>Wireguard.generateKeypair\<close> throws on a key that is not Base64, which is \<open>None\<close> here.
  Numbers of the form that the adapter does not restrict to integers are rationals.
\<close>

section \<open>Coercions\<close>

definition as_object :: "js \<Rightarrow> obj" where
  "as_object v = (case v of JObj m \<Rightarrow> m | _ \<Rightarrow> [])"

definition as_array :: "js \<Rightarrow> js list" where
  "as_array v = (case v of JArr xs \<Rightarrow> xs | _ \<Rightarrow> [])"

definition as_string_or :: "string \<Rightarrow> js \<Rightarrow> string" where
  "as_string_or d v = (case v of JStr s \<Rightarrow> s | _ \<Rightarrow> d)"

abbreviation as_string :: "js \<Rightarrow> string" where
  "as_string \<equiv> as_string_or []"

definition as_number :: "rat \<Rightarrow> js \<Rightarrow> rat" where
  "as_number d v = (case v of
     JNum (Fin x) \<Rightarrow> x
   | JStr s \<Rightarrow> if js_trim s \<noteq> [] then (case js_number_of_string s of Fin x \<Rightarrow> x | _ \<Rightarrow> d) else d
   | _ \<Rightarrow> d)"

definition as_bool :: "js \<Rightarrow> bool" where
  "as_bool v \<longleftrightarrow> v = JBool True"

definition as_port :: "int \<Rightarrow> js \<Rightarrow> int" where
  "as_port d v = (let n = as_number (of_int d) v in
     if n \<noteq> of_int \<lfloor>n\<rfloor> \<or> n < 1 \<or> n > 65535 then d else \<lfloor>n\<rfloor>)"

text \<open>\<open>xs[0]\<close> of an array that may be empty.\<close>

definition first_elem :: "js list \<Rightarrow> js" where
  "first_elem xs = (case xs of [] \<Rightarrow> JUndef | x # _ \<Rightarrow> x)"

definition one_of :: "string list \<Rightarrow> string \<Rightarrow> string \<Rightarrow> string" where
  "one_of allowed d s = (if s \<in> set allowed then s else d)"

text \<open>\<open>{ ...v }\<close> for an object or an array.\<close>

definition spread :: "js \<Rightarrow> obj" where
  "spread v = (case v of
     JObj m \<Rightarrow> m
   | JArr xs \<Rightarrow> map (\<lambda>i. (nat_str i, xs ! i)) [0..<length xs]
   | _ \<Rightarrow> [])"

definition is_object :: "js \<Rightarrow> bool" where
  "is_object v = (case v of JObj _ \<Rightarrow> True | _ \<Rightarrow> False)"

definition is_object_or_array :: "js \<Rightarrow> bool" where
  "is_object_or_array v = (case v of JObj _ \<Rightarrow> True | JArr _ \<Rightarrow> True | _ \<Rightarrow> False)"

section \<open>Form values\<close>

record vmess_form =
  mf_address :: string
  mf_port :: int
  mf_id :: string
  mf_security :: string

record reverse_sniffing =
  rs_enabled :: bool
  rs_destOverride :: "string list"
  rs_metadataOnly :: bool
  rs_routeOnly :: bool
  rs_ipsExcluded :: "string list"
  rs_domainsExcluded :: "string list"

record vless_form =
  lf_address :: string
  lf_port :: int
  lf_id :: string
  lf_flow :: string
  lf_encryption :: string
  lf_reverseTag :: string
  lf_reverseSniffing :: reverse_sniffing
  lf_testpre :: rat
  lf_testseed :: "rat list"

record trojan_form =
  tf_address :: string
  tf_port :: int
  tf_password :: string

record ss_form =
  sf_address :: string
  sf_port :: int
  sf_password :: string
  sf_method :: string
  sf_uot :: bool
  sf_UoTVersion :: rat

record auth_form =
  af_address :: string
  af_port :: int
  af_user :: string
  af_pass :: string

record wg_peer_form =
  wpf_publicKey :: string
  wpf_psk :: string
  wpf_allowedIPs :: "string list"
  wpf_endpoint :: string
  wpf_keepAlive :: rat

record wg_form =
  wf_mtu :: rat
  wf_secretKey :: string
  wf_pubKey :: string
  wf_address :: string
  wf_workers :: rat
  wf_domainStrategy :: string
  wf_reserved :: string
  wf_peers :: "wg_peer_form list"
  wf_noKernelTun :: bool

record hysteria_form =
  hf_address :: string
  hf_port :: int
  hf_version :: int

record noise_form =
  nf_type :: string
  nf_packet :: string
  nf_delay :: string
  nf_applyTo :: string

record final_rule_form =
  ff_action :: string
  ff_network :: string
  ff_port :: string
  ff_ip :: "string list"
  ff_blockDelay :: string

text \<open>
  The fragment is the property list the form holds: \<open>getFieldsValue\<close> may leave the whole
  object or some of its members out.
\<close>

record freedom_form =
  fr_domainStrategy :: string
  fr_redirect :: string
  fr_userLevel :: rat
  fr_proxyProtocol :: rat
  fr_fragment :: "obj option"
  fr_noises :: "noise_form list"
  fr_finalRules :: "final_rule_form list"

record dns_rule_form =
  dr_action :: string
  dr_qType :: string
  dr_domain :: string
  dr_rCode :: rat

record dns_form =
  df_rewriteNetwork :: string
  df_rewriteAddress :: string
  df_rewritePort :: int
  df_userLevel :: rat
  df_rules :: "dns_rule_form list"

record mux_form =
  xf_enabled :: bool
  xf_concurrency :: rat
  xf_xudpConcurrency :: rat
  xf_xudpProxyUDP443 :: string

datatype outbound_form_settings =
    FVmess vmess_form
  | FVless vless_form
  | FTrojan trojan_form
  | FShadowsocks ss_form
  | FSocks auth_form
  | FHttp auth_form
  | FWireguard wg_form
  | FHysteria hysteria_form
  | FFreedom freedom_form
  | FBlackhole string
  | FDns dns_form
  | FLoopback string

fun form_protocol :: "outbound_form_settings \<Rightarrow> string" where
  "form_protocol (FVmess _) = ''vmess''"
| "form_protocol (FVless _) = ''vless''"
| "form_protocol (FTrojan _) = ''trojan''"
| "form_protocol (FShadowsocks _) = ''shadowsocks''"
| "form_protocol (FSocks _) = ''socks''"
| "form_protocol (FHttp _) = ''http''"
| "form_protocol (FWireguard _) = ''wireguard''"
| "form_protocol (FHysteria _) = ''hysteria''"
| "form_protocol (FFreedom _) = ''freedom''"
| "form_protocol (FBlackhole _) = ''blackhole''"
| "form_protocol (FDns _) = ''dns''"
| "form_protocol (FLoopback _) = ''loopback''"

record outbound_form =
  of_settings :: outbound_form_settings
  of_tag :: string
  of_sendThrough :: string
  of_mux :: "mux_form option"
  of_stream :: "obj option"

section \<open>From the wire\<close>

definition DEST_OVERRIDE :: "string list" where
  "DEST_OVERRIDE = [''http'', ''tls'', ''quic'', ''fakedns'']"

definition REVERSE_SNIFFING_DEFAULT :: reverse_sniffing where
  "REVERSE_SNIFFING_DEFAULT =
     \<lparr>rs_enabled = False, rs_destOverride = DEST_OVERRIDE, rs_metadataOnly = False,
      rs_routeOnly = False, rs_ipsExcluded = [], rs_domainsExcluded = []\<rparr>"

definition strings_of :: "js \<Rightarrow> string list" where
  "strings_of v = map as_string (as_array v)"

definition reverseSniffingFromWire :: "js \<Rightarrow> reverse_sniffing" where
  "reverseSniffingFromWire raw =
     (let r = as_object raw; dest = strings_of (js_get r ''destOverride'') in
      \<lparr>rs_enabled = as_bool (js_get r ''enabled''),
       rs_destOverride = (if dest \<noteq> [] then dest else DEST_OVERRIDE),
       rs_metadataOnly = as_bool (js_get r ''metadataOnly''),
       rs_routeOnly = as_bool (js_get r ''routeOnly''),
       rs_ipsExcluded = strings_of (js_get r ''ipsExcluded''),
       rs_domainsExcluded = strings_of (js_get r ''domainsExcluded'')\<rparr>)"

definition vmessFromWire :: "obj \<Rightarrow> vmess_form" where
  "vmessFromWire raw =
     (let v = as_object (first_elem (as_array (js_get raw ''vnext'')));
          u = as_object (first_elem (as_array (js_get v ''users''))) in
      \<lparr>mf_address = as_string (js_get v ''address''),
       mf_port = as_port 443 (js_get v ''port''),
       mf_id = as_string (js_get u ''id''),
       mf_security = one_of [''aes-128-gcm'', ''chacha20-poly1305'', ''auto'', ''none'', ''zero''] ''auto''
                       (as_string (js_get u ''security''))\<rparr>)"

definition positive_integer :: "js \<Rightarrow> bool" where
  "positive_integer v = (case v of JNum (Fin x) \<Rightarrow> x = of_int \<lfloor>x\<rfloor> \<and> 0 < x | _ \<Rightarrow> False)"

definition num_of :: "js \<Rightarrow> rat" where
  "num_of v = (case v of JNum (Fin x) \<Rightarrow> x | _ \<Rightarrow> 0)"

definition testseed_from :: "js \<Rightarrow> rat list" where
  "testseed_from v =
     (let saved = as_array v in
      if length saved = 4 \<and> list_all positive_integer saved then map num_of saved
      else [900, 500, 900, 256])"

definition vlessFromWire :: "obj \<Rightarrow> vless_form" where
  "vlessFromWire raw =
     (let vnext = as_array (js_get raw ''vnext'');
          v = (if vnext \<noteq> [] then as_object (first_elem vnext) else raw);
          u = (if vnext \<noteq> [] then as_object (first_elem (as_array (js_get v ''users''))) else raw);
          encryption = as_string_or ''none'' (js_get u ''encryption'');
          reverse = as_object (js_get raw ''reverse'');
          reverseTag = as_string (js_get reverse ''tag'')
      in
      \<lparr>lf_address = as_string (js_get v ''address''),
       lf_port = as_port 443 (js_get v ''port''),
       lf_id = as_string (js_get u ''id''),
       lf_flow = as_string (js_get u ''flow''),
       lf_encryption = (if encryption = [] then ''none'' else encryption),
       lf_reverseTag = reverseTag,
       lf_reverseSniffing = (if reverseTag \<noteq> [] then reverseSniffingFromWire (js_get reverse ''sniffing'')
                             else REVERSE_SNIFFING_DEFAULT),
       lf_testpre = as_number 0 (js_get raw ''testpre''),
       lf_testseed = testseed_from (js_get raw ''testseed'')\<rparr>)"

definition first_server :: "obj \<Rightarrow> obj" where
  "first_server raw = as_object (first_elem (as_array (js_get raw ''servers'')))"

definition trojanFromWire :: "obj \<Rightarrow> trojan_form" where
  "trojanFromWire raw =
     (let s = first_server raw in
      \<lparr>tf_address = as_string (js_get s ''address''),
       tf_port = as_port 443 (js_get s ''port''),
       tf_password = as_string (js_get s ''password'')\<rparr>)"

definition shadowsocksFromWire :: "obj \<Rightarrow> ss_form" where
  "shadowsocksFromWire raw =
     (let s = first_server raw in
      \<lparr>sf_address = as_string (js_get s ''address''),
       sf_port = as_port 443 (js_get s ''port''),
       sf_password = as_string (js_get s ''password''),
       sf_method = as_string_or ''2022-blake3-aes-128-gcm'' (js_get s ''method''),
       sf_uot = as_bool (js_get s ''uot''),
       sf_UoTVersion = as_number 1 (js_get s ''UoTVersion'')\<rparr>)"

definition simpleAuthFromWire :: "obj \<Rightarrow> int \<Rightarrow> auth_form" where
  "simpleAuthFromWire raw defaultPort =
     (let s = first_server raw; u = as_object (first_elem (as_array (js_get s ''users''))) in
      \<lparr>af_address = as_string (js_get s ''address''),
       af_port = as_port defaultPort (js_get s ''port''),
       af_user = as_string (js_get u ''user''),
       af_pass = as_string (js_get u ''pass'')\<rparr>)"

definition text_or_number :: "js \<Rightarrow> string" where
  "text_or_number x = (case x of JNum n \<Rightarrow> num_str n | _ \<Rightarrow> as_string x)"

definition wireguardPeerFromWire :: "js \<Rightarrow> wg_peer_form" where
  "wireguardPeerFromWire p =
     (let pp = as_object p; allowed = strings_of (js_get pp ''allowedIPs'') in
      \<lparr>wpf_publicKey = as_string (js_get pp ''publicKey''),
       wpf_psk = as_string (js_get pp ''preSharedKey''),
       wpf_allowedIPs = (if allowed \<noteq> [] then allowed else [''0.0.0.0/0'', ''::/0'']),
       wpf_endpoint = as_string (js_get pp ''endpoint''),
       wpf_keepAlive = as_number 0 (js_get pp ''keepAlive'')\<rparr>)"

definition WG_STRATEGIES :: "string list" where
  "WG_STRATEGIES = [''ForceIP'', ''ForceIPv4'', ''ForceIPv4v6'', ''ForceIPv6'', ''ForceIPv6v4'']"

text \<open>
  \<open>Wireguard.generateKeypair(secretKey)\<close> with a non-empty key draws no random bytes;
  \<open>None\<close> is the exception it throws when the key is not Base64.
\<close>

definition secret_public_key :: "string \<Rightarrow> string option" where
  "secret_public_key k = (if k = [] then Some [] else map_option kp_public (generateKeypair [] k))"

definition wireguardFromWire :: "obj \<Rightarrow> wg_form option" where
  "wireguardFromWire raw =
     (let secretKey = as_string (js_get raw ''secretKey'') in
      map_option (\<lambda>pubKey.
        \<lparr>wf_mtu = as_number 1420 (js_get raw ''mtu''),
         wf_secretKey = secretKey,
         wf_pubKey = pubKey,
         wf_address = join '','' (map text_or_number (as_array (js_get raw ''address''))),
         wf_workers = as_number 2 (js_get raw ''workers''),
         wf_domainStrategy = one_of WG_STRATEGIES [] (as_string (js_get raw ''domainStrategy'')),
         wf_reserved = join '','' (map text_or_number (as_array (js_get raw ''reserved''))),
         wf_peers = map wireguardPeerFromWire (as_array (js_get raw ''peers'')),
         wf_noKernelTun = as_bool (js_get raw ''noKernelTun'')\<rparr>)
      (secret_public_key secretKey))"

definition hysteriaFromWire :: "obj \<Rightarrow> hysteria_form" where
  "hysteriaFromWire raw =
     \<lparr>hf_address = as_string (js_get raw ''address''),
      hf_port = as_port 443 (js_get raw ''port''),
      hf_version = 2\<rparr>"

definition noiseFromWire :: "js \<Rightarrow> noise_form" where
  "noiseFromWire n =
     (let nn = as_object n in
      \<lparr>nf_type = as_string_or ''rand'' (js_get nn ''type''),
       nf_packet = as_string_or ''10-20'' (js_get nn ''packet''),
       nf_delay = as_string_or ''10-16'' (js_get nn ''delay''),
       nf_applyTo = as_string_or ''ip'' (js_get nn ''applyTo'')\<rparr>)"

definition joined_or_string :: "(js \<Rightarrow> string) \<Rightarrow> js \<Rightarrow> string" where
  "joined_or_string f v = (case v of JArr xs \<Rightarrow> join '','' (map f xs) | _ \<Rightarrow> as_string v)"

definition finalRuleFromWire :: "js \<Rightarrow> final_rule_form" where
  "finalRuleFromWire r =
     (let rr = as_object r in
      \<lparr>ff_action = (if as_string_or ''block'' (js_get rr ''action'') = ''allow'' then ''allow'' else ''block''),
       ff_network = joined_or_string as_string (js_get rr ''network''),
       ff_port = as_string (js_get rr ''port''),
       ff_ip = strings_of (js_get rr ''ip''),
       ff_blockDelay = as_string (js_get rr ''blockDelay'')\<rparr>)"

definition finalRulesFromWire :: "obj \<Rightarrow> final_rule_form list" where
  "finalRulesFromWire raw =
     (let rules = map finalRuleFromWire (as_array (js_get raw ''finalRules''));
          blocked = strings_of (js_get raw ''ipsBlocked'') in
      if rules = [] \<and> blocked \<noteq> []
      then [\<lparr>ff_action = ''block'', ff_network = [], ff_port = [], ff_ip = blocked, ff_blockDelay = []\<rparr>]
      else rules)"

definition fragment_fields :: "string \<Rightarrow> string \<Rightarrow> string \<Rightarrow> string \<Rightarrow> obj" where
  "fragment_fields p l i x =
     [(''packets'', JStr p), (''length'', JStr l), (''interval'', JStr i), (''maxSplit'', JStr x)]"

text \<open>An array is an object whose \<open>asObject\<close> is empty, so it has no fragment either.\<close>

definition fragmentFromWire :: "js \<Rightarrow> obj" where
  "fragmentFromWire v =
     (let f = as_object v in
      if f \<noteq> [] then
        fragment_fields (as_string_or ''1-3'' (js_get f ''packets'')) (as_string (js_get f ''length''))
          (as_string (js_get f ''interval'')) (as_string (js_get f ''maxSplit''))
      else fragment_fields [] [] [] [])"

definition FREEDOM_STRATEGIES :: "string list" where
  "FREEDOM_STRATEGIES =
     [''AsIs'', ''UseIP'', ''UseIPv4'', ''UseIPv6'', ''UseIPv6v4'', ''UseIPv4v6'',
      ''ForceIP'', ''ForceIPv6v4'', ''ForceIPv6'', ''ForceIPv4v6'', ''ForceIPv4'']"

definition freedomFromWire :: "obj \<Rightarrow> freedom_form" where
  "freedomFromWire raw =
     (let n = as_number 0 (js_get raw ''proxyProtocol'') in
      \<lparr>fr_domainStrategy = one_of FREEDOM_STRATEGIES [] (as_string (js_get raw ''domainStrategy'')),
       fr_redirect = as_string (js_get raw ''redirect''),
       fr_userLevel = as_number 0 (js_get raw ''userLevel''),
       fr_proxyProtocol = (if n = 1 \<or> n = 2 then n else 0),
       fr_fragment = Some (fragmentFromWire (js_get raw ''fragment'')),
       fr_noises = map noiseFromWire (as_array (js_get raw ''noises'')),
       fr_finalRules = finalRulesFromWire raw\<rparr>)"

definition blackholeFromWire :: "obj \<Rightarrow> string" where
  "blackholeFromWire raw =
     (let t = as_string (js_get (as_object (js_get raw ''response'')) ''type'') in
      if t = ''none'' \<or> t = ''http'' then t else [])"

definition DNS_ACTIONS :: "string list" where
  "DNS_ACTIONS = [''direct'', ''drop'', ''return'', ''hijack'']"

definition dnsRuleFromWire :: "js \<Rightarrow> dns_rule_form" where
  "dnsRuleFromWire raw =
     (let r = as_object raw; rawQType = js_coalesce (js_get r ''qType'') (js_get r ''qtype'') in
      \<lparr>dr_action = one_of DNS_ACTIONS ''direct'' (as_string_or ''direct'' (js_get r ''action'')),
       dr_qType = (case rawQType of JArr xs \<Rightarrow> join '','' (map js_string xs) | _ \<Rightarrow> text_or_number rawQType),
       dr_domain = joined_or_string as_string (js_get r ''domain''),
       dr_rCode = as_number 0 (js_get r ''rCode'')\<rparr>)"

definition dnsFromWire :: "obj \<Rightarrow> dns_form" where
  "dnsFromWire raw =
     (let s = as_string (js_coalesce (js_get raw ''rewriteNetwork'') (js_get raw ''network'')) in
      \<lparr>df_rewriteNetwork = (if s = ''udp'' \<or> s = ''tcp'' then s else []),
       df_rewriteAddress = as_string (js_coalesce (js_get raw ''rewriteAddress'') (js_get raw ''address'')),
       df_rewritePort = as_port 53 (js_coalesce (js_get raw ''rewritePort'') (js_get raw ''port'')),
       df_userLevel = as_number 0 (js_get raw ''userLevel''),
       df_rules = map dnsRuleFromWire (as_array (js_get raw ''rules''))\<rparr>)"

definition loopbackFromWire :: "obj \<Rightarrow> string" where
  "loopbackFromWire raw = as_string (js_get raw ''inboundTag'')"

definition muxFromWire :: "js \<Rightarrow> mux_form" where
  "muxFromWire raw =
     (let m = as_object raw in
      \<lparr>xf_enabled = as_bool (js_get m ''enabled''),
       xf_concurrency = as_number 8 (js_get m ''concurrency''),
       xf_xudpConcurrency = as_number 16 (js_get m ''xudpConcurrency''),
       xf_xudpProxyUDP443 = one_of [''reject'', ''allow'', ''skip''] ''reject''
         (as_string_or ''reject'' (js_get m ''xudpProxyUDP443''))\<rparr>)"

text \<open>
  \<open>XMUX_DEFAULTS = XHttpXmuxSchema.parse({})\<close>, computed by the schema library \<open>P\<close> when the
  module is loaded.
\<close>

definition XMUX_DEFAULTS :: "(zschema \<Rightarrow> js \<Rightarrow> js option) \<Rightarrow> obj" where
  "XMUX_DEFAULTS P = (case P XHttpXmuxSchema (JObj []) of Some (JObj m) \<Rightarrow> m | _ \<Rightarrow> [])"

definition hydrateXhttp :: "(zschema \<Rightarrow> js \<Rightarrow> js option) \<Rightarrow> obj \<Rightarrow> obj" where
  "hydrateXhttp P xhttp = (case js_get xhttp ''xmux'' of
     JObj xmux \<Rightarrow> js_put ''xmux'' (JObj (js_put_all (XMUX_DEFAULTS P) xmux))
                   (js_put ''enableXmux'' (JBool True) xhttp)
   | _ \<Rightarrow> xhttp)"

definition hydrateStreamForm :: "(zschema \<Rightarrow> js \<Rightarrow> js option) \<Rightarrow> obj \<Rightarrow> obj" where
  "hydrateStreamForm P stream = (case js_get stream ''xhttpSettings'' of
     JObj xh \<Rightarrow> js_put ''xhttpSettings'' (JObj (hydrateXhttp P xh)) stream
   | _ \<Rightarrow> stream)"

definition settingsFromWire :: "string \<Rightarrow> obj \<Rightarrow> outbound_form_settings option" where
  "settingsFromWire protocol s =
     (if protocol = ''vmess'' then Some (FVmess (vmessFromWire s))
      else if protocol = ''vless'' then Some (FVless (vlessFromWire s))
      else if protocol = ''trojan'' then Some (FTrojan (trojanFromWire s))
      else if protocol = ''shadowsocks'' then Some (FShadowsocks (shadowsocksFromWire s))
      else if protocol = ''socks'' then Some (FSocks (simpleAuthFromWire s 1080))
      else if protocol = ''http'' then Some (FHttp (simpleAuthFromWire s 8080))
      else if protocol = ''wireguard'' then map_option FWireguard (wireguardFromWire s)
      else if protocol = ''hysteria'' then Some (FHysteria (hysteriaFromWire s))
      else if protocol = ''freedom'' then Some (FFreedom (freedomFromWire s))
      else if protocol = ''blackhole'' then Some (FBlackhole (blackholeFromWire s))
      else if protocol = ''dns'' then Some (FDns (dnsFromWire s))
      else if protocol = ''loopback'' then Some (FLoopback (loopbackFromWire s))
      else Some (FVless (vlessFromWire s)))"

definition rawOutboundToFormValues :: "(zschema \<Rightarrow> js \<Rightarrow> js option) \<Rightarrow> obj \<Rightarrow> outbound_form option" where
  "rawOutboundToFormValues P raw =
     (let stream = js_get raw ''streamSettings'' in
      map_option (\<lambda>typed.
        \<lparr>of_settings = typed,
         of_tag = as_string (js_get raw ''tag''),
         of_sendThrough = as_string (js_get raw ''sendThrough''),
         of_mux = Some (muxFromWire (js_get raw ''mux'')),
         of_stream = (if is_object_or_array stream \<and> spread stream \<noteq> []
                      then Some (hydrateStreamForm P (spread stream)) else None)\<rparr>)
      (settingsFromWire (as_string_or ''vless'' (js_get raw ''protocol''))
         (as_object (js_get raw ''settings''))))"

section \<open>To the wire\<close>

text \<open>\<open>x || undefined\<close> for strings and numbers, and arrays that are left out when empty.\<close>

definition str_or_undef :: "string \<Rightarrow> js" where
  "str_or_undef s = (if s = [] then JUndef else JStr s)"

definition num_or_undef :: "rat \<Rightarrow> js" where
  "num_or_undef x = (if x = 0 then JUndef else JNum (Fin x))"

definition JStrs :: "string list \<Rightarrow> js" where
  "JStrs xs = JArr (map JStr xs)"

definition strs_or_undef :: "string list \<Rightarrow> js" where
  "strs_or_undef xs = (if xs = [] then JUndef else JStrs xs)"

definition vmessToWire :: "vmess_form \<Rightarrow> obj" where
  "vmessToWire s =
     [(''vnext'', JArr [JObj
        [(''address'', JStr (mf_address s)),
         (''port'', JInt (mf_port s)),
         (''users'', JArr [JObj [(''id'', JStr (mf_id s)), (''security'', JStr (mf_security s))]])]])]"

definition reverseSniffingToWire :: "reverse_sniffing \<Rightarrow> js" where
  "reverseSniffingToWire s = JObj
     [(''enabled'', JBool (rs_enabled s)),
      (''destOverride'', JStrs (rs_destOverride s)),
      (''metadataOnly'', JBool (rs_metadataOnly s)),
      (''routeOnly'', JBool (rs_routeOnly s)),
      (''ipsExcluded'', strs_or_undef (rs_ipsExcluded s)),
      (''domainsExcluded'', strs_or_undef (rs_domainsExcluded s))]"

definition vless_reverse :: "vless_form \<Rightarrow> obj" where
  "vless_reverse s =
     (let sn = reverseSniffingToWire (lf_reverseSniffing s);
          defaultSn = reverseSniffingToWire REVERSE_SNIFFING_DEFAULT in
      [(''tag'', JStr (lf_reverseTag s)),
       (''sniffing'', if JSON_stringify sn = JSON_stringify defaultSn then JObj [] else sn)])"

definition seed_ok :: "rat list \<Rightarrow> bool" where
  "seed_ok xs \<longleftrightarrow> length xs = 4 \<and> list_all (\<lambda>v. v = of_int \<lfloor>v\<rfloor> \<and> 0 < v) xs"

definition vlessToWire :: "vless_form \<Rightarrow> obj" where
  "vlessToWire s =
     [(''address'', JStr (lf_address s)),
      (''port'', JInt (lf_port s)),
      (''id'', JStr (lf_id s)),
      (''flow'', JStr (lf_flow s)),
      (''encryption'', JStr (if lf_encryption s = [] then ''none'' else lf_encryption s))]
     @ (if lf_reverseTag s \<noteq> [] then [(''reverse'', JObj (vless_reverse s))] else [])
     @ (if lf_flow s = ''xtls-rprx-vision'' then
          (if lf_testpre s > 0 then [(''testpre'', JNum (Fin (lf_testpre s)))] else [])
          @ (if seed_ok (lf_testseed s)
             then [(''testseed'', JArr (map (\<lambda>v. JNum (Fin v)) (lf_testseed s)))] else [])
        else [])"

definition one_server :: "obj \<Rightarrow> obj" where
  "one_server s = [(''servers'', JArr [JObj s])]"

definition trojanToWire :: "trojan_form \<Rightarrow> obj" where
  "trojanToWire s = one_server
     [(''address'', JStr (tf_address s)), (''port'', JInt (tf_port s)), (''password'', JStr (tf_password s))]"

definition shadowsocksToWire :: "ss_form \<Rightarrow> obj" where
  "shadowsocksToWire s = one_server
     [(''address'', JStr (sf_address s)),
      (''port'', JInt (sf_port s)),
      (''password'', JStr (sf_password s)),
      (''method'', JStr (sf_method s)),
      (''uot'', JBool (sf_uot s)),
      (''UoTVersion'', JNum (Fin (sf_UoTVersion s)))]"

definition simpleAuthToWire :: "auth_form \<Rightarrow> obj" where
  "simpleAuthToWire s = one_server
     [(''address'', JStr (af_address s)),
      (''port'', JInt (af_port s)),
      (''users'', JArr (if af_user s = [] then []
                        else [JObj [(''user'', JStr (af_user s)), (''pass'', JStr (af_pass s))]]))]"

definition comma_parts :: "string \<Rightarrow> string list" where
  "comma_parts s = nonempty_strings (map js_trim (split_on CHR '','' s))"

definition finite_numbers :: "string list \<Rightarrow> js list" where
  "finite_numbers xs = map JNum (filter jnum_is_finite (map (\<lambda>x. js_number_of_string (js_trim x)) xs))"

definition wireguardPeerToWire :: "wg_peer_form \<Rightarrow> js" where
  "wireguardPeerToWire p = JObj
     [(''publicKey'', JStr (wpf_publicKey p)),
      (''preSharedKey'', str_or_undef (wpf_psk p)),
      (''allowedIPs'', strs_or_undef (wpf_allowedIPs p)),
      (''endpoint'', JStr (wpf_endpoint p)),
      (''keepAlive'', num_or_undef (wpf_keepAlive p))]"

definition wireguardToWire :: "wg_form \<Rightarrow> obj" where
  "wireguardToWire s =
     [(''mtu'', num_or_undef (wf_mtu s)),
      (''secretKey'', JStr (wf_secretKey s)),
      (''address'', JStrs (if wf_address s = [] then [] else comma_parts (wf_address s))),
      (''workers'', num_or_undef (wf_workers s)),
      (''domainStrategy'', str_or_undef (wf_domainStrategy s)),
      (''reserved'', if wf_reserved s = [] then JUndef
                     else JArr (finite_numbers (split_on CHR '','' (wf_reserved s)))),
      (''peers'', JArr (map wireguardPeerToWire (wf_peers s))),
      (''noKernelTun'', JBool (wf_noKernelTun s))]"

definition hysteriaToWire :: "hysteria_form \<Rightarrow> obj" where
  "hysteriaToWire s =
     [(''address'', JStr (hf_address s)), (''port'', JInt (hf_port s)), (''version'', JInt (hf_version s))]"

definition fragmentToWire :: "obj option \<Rightarrow> js" where
  "fragmentToWire fragment =
     (let f = (case fragment of None \<Rightarrow> [] | Some m \<Rightarrow> m);
          entries = filter (\<lambda>(k, v). v \<noteq> JStr [] \<and> \<not> nullish v) f
      in if truthy (js_get f ''length'') \<or> truthy (js_get f ''interval'') \<or> truthy (js_get f ''maxSplit'')
         then JObj (js_put_all [] entries) else JUndef)"

definition noiseToWire :: "noise_form \<Rightarrow> js" where
  "noiseToWire n = JObj
     [(''type'', JStr (nf_type n)), (''packet'', JStr (nf_packet n)),
      (''delay'', JStr (nf_delay n)), (''applyTo'', JStr (nf_applyTo n))]"

definition finalRuleToWire :: "final_rule_form \<Rightarrow> js" where
  "finalRuleToWire r = JObj
     [(''action'', JStr (ff_action r)),
      (''network'', str_or_undef (ff_network r)),
      (''port'', str_or_undef (ff_port r)),
      (''ip'', strs_or_undef (ff_ip r)),
      (''blockDelay'', if ff_action r = ''block'' \<and> ff_blockDelay r \<noteq> [] then JStr (ff_blockDelay r) else JUndef)]"

definition freedomToWire :: "freedom_form \<Rightarrow> obj" where
  "freedomToWire s =
     [(''domainStrategy'', str_or_undef (fr_domainStrategy s)),
      (''redirect'', str_or_undef (fr_redirect s)),
      (''userLevel'', num_or_undef (fr_userLevel s)),
      (''proxyProtocol'', num_or_undef (fr_proxyProtocol s)),
      (''fragment'', fragmentToWire (fr_fragment s)),
      (''noises'', if fr_noises s = [] then JUndef else JArr (map noiseToWire (fr_noises s))),
      (''finalRules'', if fr_finalRules s = [] then JUndef
                       else JArr (map finalRuleToWire (fr_finalRules s)))]"

definition blackholeToWire :: "string \<Rightarrow> obj" where
  "blackholeToWire t = [(''response'', if t = [] then JUndef else JObj [(''type'', JStr t)])]"

definition dnsRuleToWire :: "dns_rule_form \<Rightarrow> js" where
  "dnsRuleToWire r =
     (let qType = js_trim (dr_qType r); domains = comma_parts (dr_domain r) in
      JObj ([(''action'', JStr (one_of DNS_ACTIONS ''direct'' (dr_action r)))]
       @ (if qType = [] then []
          else [(''qType'', if list_all is_digit qType then JNum (js_number_of_string qType) else JStr qType)])
       @ (if domains = [] then [] else [(''domain'', JStrs domains)])
       @ (if dr_rCode r > 0 then [(''rCode'', JNum (Fin (dr_rCode r)))] else [])))"

definition dnsToWire :: "dns_form \<Rightarrow> obj" where
  "dnsToWire s =
     (if df_rewriteNetwork s = [] then [] else [(''rewriteNetwork'', JStr (df_rewriteNetwork s))])
     @ (if df_rewriteAddress s = [] then [] else [(''rewriteAddress'', JStr (df_rewriteAddress s))])
     @ (if df_rewritePort s = 0 then [] else [(''rewritePort'', JInt (df_rewritePort s))])
     @ (if df_userLevel s = 0 then [] else [(''userLevel'', JNum (Fin (df_userLevel s)))])
     @ (if df_rules s = [] then [] else [(''rules'', JArr (map dnsRuleToWire (df_rules s)))])"

definition loopbackToWire :: "string \<Rightarrow> obj" where
  "loopbackToWire t = [(''inboundTag'', str_or_undef t)]"

definition MUX_PROTOCOLS :: "string list" where
  "MUX_PROTOCOLS = [''vmess'', ''vless'', ''trojan'', ''shadowsocks'', ''http'', ''socks'']"

definition FORM_STREAM_PROTOCOLS :: "string list" where
  "FORM_STREAM_PROTOCOLS = [''vmess'', ''vless'', ''trojan'', ''shadowsocks'', ''hysteria'']"

definition dropEmptyStrings :: "obj \<Rightarrow> obj" where
  "dropEmptyStrings m = js_put_all [] (filter (\<lambda>(k, v). v \<noteq> JStr []) m)"

definition clean_xhttp :: "obj \<Rightarrow> obj" where
  "clean_xhttp xh =
     (let xmuxEnabled = js_get xh ''enableXmux'' = JBool True;
          cleaned = js_del ''enableXmux'' xh
      in dropEmptyStrings (if xmuxEnabled then cleaned else js_del ''xmux'' cleaned))"

definition stripUiOnlyStreamFields :: "obj \<Rightarrow> obj" where
  "stripUiOnlyStreamFields stream =
     (let xh = js_get stream ''xhttpSettings'' in
      if is_object_or_array xh then js_put ''xhttpSettings'' (JObj (clean_xhttp (spread xh))) stream
      else stream)"

definition muxAllowed :: "outbound_form \<Rightarrow> bool" where
  "muxAllowed v \<longleftrightarrow>
     form_protocol (of_settings v) \<in> set MUX_PROTOCOLS
     \<and> (case of_settings v of FVless s \<Rightarrow> lf_flow s = [] | _ \<Rightarrow> True)
     \<and> (case of_stream v of Some m \<Rightarrow> js_get m ''network'' \<noteq> JStr ''xhttp'' | None \<Rightarrow> True)"

fun settingsToWire :: "outbound_form_settings \<Rightarrow> obj" where
  "settingsToWire (FVmess s) = vmessToWire s"
| "settingsToWire (FVless s) = vlessToWire s"
| "settingsToWire (FTrojan s) = trojanToWire s"
| "settingsToWire (FShadowsocks s) = shadowsocksToWire s"
| "settingsToWire (FSocks s) = simpleAuthToWire s"
| "settingsToWire (FHttp s) = simpleAuthToWire s"
| "settingsToWire (FWireguard s) = wireguardToWire s"
| "settingsToWire (FHysteria s) = hysteriaToWire s"
| "settingsToWire (FFreedom s) = freedomToWire s"
| "settingsToWire (FBlackhole t) = blackholeToWire t"
| "settingsToWire (FDns s) = dnsToWire s"
| "settingsToWire (FLoopback t) = loopbackToWire t"

definition streamToWire :: "outbound_form \<Rightarrow> obj" where
  "streamToWire v = (case of_stream v of
     None \<Rightarrow> []
   | Some m \<Rightarrow>
       if form_protocol (of_settings v) \<in> set FORM_STREAM_PROTOCOLS
       then [(''streamSettings'', JObj (stripUiOnlyStreamFields m))]
       else if truthy (js_get m ''sockopt'')
       then [(''streamSettings'', JObj [(''sockopt'', js_get m ''sockopt'')])]
       else [])"

definition muxToJs :: "mux_form \<Rightarrow> js" where
  "muxToJs m = JObj
     [(''enabled'', JBool (xf_enabled m)),
      (''concurrency'', JNum (Fin (xf_concurrency m))),
      (''xudpConcurrency'', JNum (Fin (xf_xudpConcurrency m))),
      (''xudpProxyUDP443'', JStr (xf_xudpProxyUDP443 m))]"

definition formValuesToWirePayload :: "outbound_form \<Rightarrow> obj" where
  "formValuesToWirePayload v =
     [(''protocol'', JStr (form_protocol (of_settings v))),
      (''settings'', JObj (settingsToWire (of_settings v)))]
     @ (if of_tag v = [] then [] else [(''tag'', JStr (of_tag v))])
     @ streamToWire v
     @ (if of_sendThrough v = [] then [] else [(''sendThrough'', JStr (of_sendThrough v))])
     @ (case of_mux v of
          Some m \<Rightarrow> if xf_enabled m \<and> muxAllowed v then [(''mux'', muxToJs m)] else []
        | None \<Rightarrow> [])"

end
