(* ===== verification/JsOrder.thy ===== *)
theory JsOrder
  imports Json
begin

text \<open>
  Property order.  A property list is in enumeration order when its keys are distinct, the
  keys that are array indices come first and ascend.  Such lists are the ones that
  rebuilding an object property by property leaves alone, which is how JSON text, object
  spreads and the adapters' copies rebuild them.
\<close>

definition key_before :: "string \<Rightarrow> string \<Rightarrow> bool" where
  "key_before k l \<longleftrightarrow> k \<noteq> l \<and> (is_index_key l \<longrightarrow> is_index_key k \<and> digits_val k < digits_val l)"

definition enum_order :: "obj \<Rightarrow> bool" where
  "enum_order m \<longleftrightarrow> sorted_wrt key_before (map fst m)"

lemma enum_order_wf: "enum_order m \<Longrightarrow> obj_wf m"
  by (induction m) (auto simp: enum_order_def obj_wf_def key_before_def)

lemma put_index_last:
  "is_index_key k \<Longrightarrow> \<forall>l \<in> fst ` set m. key_before l k \<Longrightarrow> put_index k v m = m @ [(k, v)]"
  by (induction m) (auto simp: key_before_def)

lemma js_put_last: "\<forall>l \<in> fst ` set m. key_before l k \<Longrightarrow> js_put k v m = m @ [(k, v)]"
proof -
  assume b: "\<forall>l \<in> fst ` set m. key_before l k"
  then have "\<not> js_has m k" by (auto simp: js_has_iff key_before_def)
  then show ?thesis using b put_index_last [of k m v] by (simp add: js_put_def)
qed

lemma put_all_enum: "enum_order (acc @ m) \<Longrightarrow> js_put_all acc m = acc @ m"
proof (induction m arbitrary: acc)
  case (Cons a m)
  obtain k v where a: "a = (k, v)" by (cases a)
  have "\<forall>l \<in> fst ` set acc. key_before l k"
    using Cons.prems a by (simp add: enum_order_def sorted_wrt_append)
  then have "js_put k v acc = acc @ [(k, v)]" by (rule js_put_last)
  moreover have "enum_order ((acc @ [(k, v)]) @ m)" using Cons.prems a by simp
  ultimately show ?case using Cons.IH [of "acc @ [(k, v)]"] a by (simp add: js_put_all_simps)
qed (simp add: js_put_all_simps)

lemma put_all_Nil [simp]: "enum_order m \<Longrightarrow> js_put_all [] m = m"
  using put_all_enum [of "[]" m] by simp

lemma enum_order_Nil [simp]: "enum_order []"
  by (simp add: enum_order_def)

lemma enum_order_filter [simp]: "enum_order m \<Longrightarrow> enum_order (filter p m)"
  by (simp add: enum_order_def sorted_wrt_map sorted_wrt_filter)

lemma enum_order_del [simp]: "enum_order m \<Longrightarrow> enum_order (js_del k m)"
  by (simp add: js_del_def)

lemma enum_order_map [simp]: "enum_order (map (\<lambda>(k, v). (k, f v)) m) \<longleftrightarrow> enum_order m"
  by (simp add: enum_order_def o_def split_beta)

lemma enum_order_put [simp]: "enum_order m \<Longrightarrow> \<not> is_index_key k \<Longrightarrow> enum_order (js_put k v m)"
  by (auto simp: enum_order_def js_put_def keys_replace_key sorted_wrt_append key_before_def js_has_iff)

lemma js_del_put_new: "\<not> js_has m k \<Longrightarrow> \<not> is_index_key k \<Longrightarrow> js_del k (js_put k v m) = m"
  by (simp add: js_put_def js_del_def js_has_iff) (rule filter_True, force)

lemma js_put_same: "map_of m k = Some v \<Longrightarrow> js_put k v m = m"
proof -
  assume h: "map_of m k = Some v"
  then have "replace_key k v m = m" by (induction m) (auto split: if_splits)
  then show ?thesis using h by (simp add: js_put_def js_has_def)
qed

lemma js_del_absent: "\<not> js_has m k \<Longrightarrow> js_del k m = m"
  by (simp add: js_del_def js_has_iff) (rule filter_True, force)

lemma js_put_put [simp]: "js_put k v (js_put k w m) = js_put k v m" if "\<not> is_index_key k"
  using that by (induction m) (auto simp: js_put_def js_has_def split: if_splits)

text \<open>
  Values that JSON text holds exactly, in a form that the adapters' operations preserve.
\<close>

fun json_plain :: "js \<Rightarrow> bool" where
  "json_plain JUndef = False"
| "json_plain (JNum n) = (case n of Fin x \<Rightarrow> x = of_int \<lfloor>x\<rfloor> \<and> \<bar>x\<bar> < 10 ^ 21 | _ \<Rightarrow> False)"
| "json_plain (JArr xs) = list_all json_plain xs"
| "json_plain (JObj m) = (list_all (\<lambda>kv. json_plain (snd kv)) m \<and> enum_order m)"
| "json_plain _ = True"

lemma json_plain_ok: "json_plain v \<Longrightarrow> json_ok v"
  by (induction v rule: json_plain.induct) (auto simp: list_all_iff)

abbreviation obj_plain :: "obj \<Rightarrow> bool" where
  "obj_plain m \<equiv> json_plain (JObj m)"

lemma obj_plain_member: "obj_plain m \<Longrightarrow> map_of m k = Some v \<Longrightarrow> json_plain v"
  by (force simp: list_all_iff dest: map_of_SomeD)

lemma obj_plain_get: "obj_plain m \<Longrightarrow> js_get m k = v \<Longrightarrow> v \<noteq> JUndef \<Longrightarrow> json_plain v"
  by (auto simp: js_get_def simp del: json_plain.simps split: option.splits dest: obj_plain_member)

lemma obj_plain_has: "obj_plain m \<Longrightarrow> js_has m k \<longleftrightarrow> js_get m k \<noteq> JUndef"
  using obj_plain_member [of m k JUndef]
  by (auto simp: js_get_def js_has_def simp del: json_plain.simps(2-) split: option.splits)

lemma set_js_put: "set (js_put k v m) \<subseteq> insert (k, v) (set m)"
proof -
  have "set (replace_key k v m) \<subseteq> insert (k, v) (set m)" by (induction m) (auto split: if_splits)
  moreover have "set (put_index k v m) \<subseteq> insert (k, v) (set m)" by (induction m) (auto split: if_splits)
  ultimately show ?thesis by (auto simp: js_put_def)
qed

lemma obj_plain_put: "obj_plain m \<Longrightarrow> json_plain v \<Longrightarrow> \<not> is_index_key k \<Longrightarrow> obj_plain (js_put k v m)"
  using set_js_put [of k v m] by (auto simp: list_all_iff)

lemma obj_plain_del: "obj_plain m \<Longrightarrow> obj_plain (js_del k m)"
  by (auto simp: list_all_iff js_del_def)

lemma obj_plain_filter: "obj_plain m \<Longrightarrow> obj_plain (filter p m)"
  by (auto simp: list_all_iff)

text \<open>The adapters turn the text of an object back into the object, white space trimmed.\<close>

lemma json_text_braces: "\<exists>t. the (JSON_stringify (JObj m)) = CHR ''{'' # t @ [CHR ''}'']"
  by (simp add: JSON_stringify_def json_wrap_def)

lemma js_trim_json_text: "js_trim (the (JSON_stringify (JObj m))) = the (JSON_stringify (JObj m))"
  using json_text_braces [of m] by (auto intro!: js_trim_plain simp: plain_char_def)

lemma map_of_filter_distinct:
  "distinct (map fst m) \<Longrightarrow> map_of (filter p m) k = (case map_of m k of Some v \<Rightarrow> if p (k, v) then Some v else None | None \<Rightarrow> None)"
proof (induction m)
  case (Cons a m)
  obtain k' v where "a = (k', v)" by (cases a)
  moreover from this Cons.prems have "map_of m k' = None" by (simp add: map_of_eq_None_iff)
  ultimately show ?case using Cons by (auto split: option.splits)
qed simp

lemma map_of_rev_distinct: "distinct (map fst m) \<Longrightarrow> map_of (rev m) k = map_of m k"
proof (induction m)
  case (Cons a m)
  obtain k' v where "a = (k', v)" by (cases a)
  moreover from this Cons.prems have "map_of m k' = None" by (simp add: map_of_eq_None_iff)
  ultimately show ?case using Cons by (auto simp: map_add_def split: option.splits)
qed simp

lemma map_of_put_all_Nil: "obj_wf m \<Longrightarrow> map_of (js_put_all [] m) k = map_of m k"
  using map_of_js_put_all [of "[]" m k] map_of_rev_distinct [of m k]
  by (simp add: obj_wf_def split: option.splits)

text \<open>Members that are \<open>undefined\<close> leave no trace in JSON text.\<close>

definition visible :: "obj \<Rightarrow> obj" where
  "visible m = filter (\<lambda>kv. snd kv \<noteq> JUndef) m"

lemma JSON_stringify_visible: "JSON_stringify (JObj m) = JSON_stringify (JObj (visible m))"
proof -
  have "concat (map f m) = concat (map f (visible m))" if "\<And>k. f (k, JUndef) = []" for f :: "string \<times> js \<Rightarrow> string list"
    using that by (induction m) (auto simp: visible_def)
  then show ?thesis by (simp add: JSON_stringify_def)
qed

lemma JSON_stringify_inject:
  assumes "json_ok (JObj (visible m))" "json_ok (JObj (visible n))"
    "JSON_stringify (JObj m) = JSON_stringify (JObj n)"
  shows "visible m = visible n"
proof -
  have "the (JSON_stringify (JObj (visible m))) = the (JSON_stringify (JObj (visible n)))"
    using assms(3) JSON_stringify_visible by metis
  then show ?thesis using json.enc_inject [OF assms(1,2)] by simp
qed

lemma js_get_visible: "obj_wf m \<Longrightarrow> js_get (visible m) k = js_get m k"
  by (simp add: js_get_def visible_def map_of_filter_distinct obj_wf_def split: option.splits)

end
