(* ===== verification/OutboundFormProps.thy ===== *)
theory OutboundFormProps
  imports OutboundForm JsOrder
begin

text \<open>
  What the outbound form adapter promises: reading undoes writing on every form the editor
  produces, UI-only members stay off the wire, and complete forms satisfy the wire schema.
\<close>

section \<open>Coercions undo the constructors\<close>

named_theorems coerce_simps "coercions applied to the values the adapter writes"

lemma as_string_JStr [coerce_simps]: "as_string_or d (JStr s) = s" "as_string_or d JUndef = d"
  by (simp_all add: as_string_or_def)

lemma as_object_JObj [coerce_simps]: "as_object (JObj m) = m" "as_object JUndef = []"
  by (simp_all add: as_object_def)

lemma as_array_JArr [coerce_simps]: "as_array (JArr xs) = xs" "as_array JUndef = []"
  by (simp_all add: as_array_def)

lemma as_bool_JBool [coerce_simps]: "as_bool (JBool b) = b" "\<not> as_bool JUndef"
  by (auto simp: as_bool_def)

lemma as_number_Fin [coerce_simps]: "as_number d (JNum (Fin x)) = x" "as_number d JUndef = d"
  by (simp_all add: as_number_def)

lemma first_elem_Cons [coerce_simps]: "first_elem (x # xs) = x" "first_elem [] = JUndef"
  by (simp_all add: first_elem_def)

definition port_ok :: "int \<Rightarrow> bool" where
  "port_ok p \<longleftrightarrow> 1 \<le> p \<and> p \<le> 65535"

lemma as_port_JInt [coerce_simps]: "port_ok p \<Longrightarrow> as_port d (JInt p) = p"
proof -
  assume "port_ok p"
  then have "\<not> rat_of_int p < 1" "\<not> rat_of_int p > 65535"
    by (auto simp: port_ok_def)
  then show ?thesis by (simp add: as_port_def as_number_def)
qed

lemma as_port_range: "port_ok d \<Longrightarrow> port_ok (as_port d v)"
  by (auto simp: as_port_def port_ok_def Let_def le_floor_iff floor_le_iff)

lemma as_string_comp [coerce_simps]: "as_string_or d \<circ> JStr = id"
  by (simp add: fun_eq_iff coerce_simps)

lemma strings_of_JStrs [coerce_simps]: "strings_of (JStrs xs) = xs" "strings_of JUndef = []"
  by (simp_all add: strings_of_def JStrs_def coerce_simps)

lemma strings_of_strs_or_undef [coerce_simps]: "strings_of (strs_or_undef xs) = xs"
  by (simp add: strs_or_undef_def coerce_simps)

lemma as_string_str_or_undef [coerce_simps]: "as_string (str_or_undef s) = s"
  by (simp add: str_or_undef_def coerce_simps)

lemma as_number_num_or_undef [coerce_simps]:
  "as_number 0 (num_or_undef x) = x" "x \<noteq> 0 \<Longrightarrow> as_number d (num_or_undef x) = x"
  by (simp_all add: num_or_undef_def coerce_simps)

lemma one_of_mem [coerce_simps]: "s \<in> set allowed \<Longrightarrow> one_of allowed d s = s"
  by (simp add: one_of_def)

lemma text_or_number_simps [coerce_simps]:
  "text_or_number (JStr s) = s" "text_or_number (JNum n) = num_str n" "text_or_number JUndef = []"
  by (simp_all add: text_or_number_def coerce_simps)

lemma text_or_number_comp [coerce_simps]:
  "text_or_number \<circ> JStr = id" "text_or_number \<circ> JNum = num_str"
  by (simp_all add: fun_eq_iff coerce_simps)

section \<open>Forms in the shape the adapter produces\<close>

definition vmess_ok :: "vmess_form \<Rightarrow> bool" where
  "vmess_ok s \<longleftrightarrow> port_ok (mf_port s)
     \<and> mf_security s \<in> {''aes-128-gcm'', ''chacha20-poly1305'', ''auto'', ''none'', ''zero''}"

definition default_seed :: "rat list" where
  "default_seed = [900, 500, 900, 256]"

definition vless_ok :: "vless_form \<Rightarrow> bool" where
  "vless_ok s \<longleftrightarrow> port_ok (lf_port s) \<and> lf_encryption s \<noteq> []
     \<and> (lf_reverseTag s = [] \<longrightarrow> lf_reverseSniffing s = REVERSE_SNIFFING_DEFAULT)
     \<and> rs_destOverride (lf_reverseSniffing s) \<noteq> []
     \<and> (if lf_flow s = ''xtls-rprx-vision'' then 0 \<le> lf_testpre s \<and> seed_ok (lf_testseed s)
        else lf_testpre s = 0 \<and> lf_testseed s = default_seed)"

definition auth_ok :: "auth_form \<Rightarrow> bool" where
  "auth_ok s \<longleftrightarrow> port_ok (af_port s) \<and> (af_user s = [] \<longrightarrow> af_pass s = [])"

definition comma_canonical :: "string \<Rightarrow> bool" where
  "comma_canonical s \<longleftrightarrow> join '','' (comma_parts s) = s"

definition reserved_ok :: "string \<Rightarrow> bool" where
  "reserved_ok s \<longleftrightarrow> s = [] \<or> list_all (\<lambda>x. \<exists>i. x = int_str i \<and> \<bar>i\<bar> < 10 ^ 21) (split_on CHR '','' s)"

definition wg_ok :: "wg_form \<Rightarrow> bool" where
  "wg_ok s \<longleftrightarrow> wf_mtu s \<noteq> 0 \<and> wf_workers s \<noteq> 0
     \<and> secret_public_key (wf_secretKey s) = Some (wf_pubKey s)
     \<and> wf_domainStrategy s \<in> insert [] (set WG_STRATEGIES)
     \<and> comma_canonical (wf_address s) \<and> reserved_ok (wf_reserved s)
     \<and> list_all (\<lambda>p. wpf_allowedIPs p \<noteq> []) (wf_peers s)"

definition fragment_ok :: "obj option \<Rightarrow> bool" where
  "fragment_ok f \<longleftrightarrow> (\<exists>p l i x. f = Some (fragment_fields p l i x)
     \<and> (if l = [] \<and> i = [] \<and> x = [] then p = [] else p \<noteq> []))"

definition final_rule_ok :: "final_rule_form \<Rightarrow> bool" where
  "final_rule_ok r \<longleftrightarrow> ff_action r = ''block'' \<or> (ff_action r = ''allow'' \<and> ff_blockDelay r = [])"

definition freedom_ok :: "freedom_form \<Rightarrow> bool" where
  "freedom_ok s \<longleftrightarrow> fr_domainStrategy s \<in> insert [] (set FREEDOM_STRATEGIES)
     \<and> fr_proxyProtocol s \<in> {0, 1, 2} \<and> fragment_ok (fr_fragment s)
     \<and> list_all final_rule_ok (fr_finalRules s)"

definition dns_rule_ok :: "dns_rule_form \<Rightarrow> bool" where
  "dns_rule_ok r \<longleftrightarrow> dr_action r \<in> set DNS_ACTIONS \<and> js_trim (dr_qType r) = dr_qType r
     \<and> (list_all is_digit (dr_qType r) \<longrightarrow> dr_qType r = [] \<or> (\<exists>n < 10 ^ 21. dr_qType r = nat_str n))
     \<and> comma_canonical (dr_domain r) \<and> 0 \<le> dr_rCode r"

definition dns_ok :: "dns_form \<Rightarrow> bool" where
  "dns_ok s \<longleftrightarrow> df_rewriteNetwork s \<in> {[], ''udp'', ''tcp''} \<and> port_ok (df_rewritePort s)
     \<and> list_all dns_rule_ok (df_rules s)"

fun settings_ok :: "outbound_form_settings \<Rightarrow> bool" where
  "settings_ok (FVmess s) = vmess_ok s"
| "settings_ok (FVless s) = vless_ok s"
| "settings_ok (FTrojan s) = port_ok (tf_port s)"
| "settings_ok (FShadowsocks s) = port_ok (sf_port s)"
| "settings_ok (FSocks s) = auth_ok s"
| "settings_ok (FHttp s) = auth_ok s"
| "settings_ok (FWireguard s) = wg_ok s"
| "settings_ok (FHysteria s) = (port_ok (hf_port s) \<and> hf_version s = 2)"
| "settings_ok (FFreedom s) = freedom_ok s"
| "settings_ok (FBlackhole t) = (t \<in> {[], ''none'', ''http''})"
| "settings_ok (FDns s) = dns_ok s"
| "settings_ok (FLoopback t) = True"

lemma vmess_settings: "vmess_ok s \<Longrightarrow> vmessFromWire (vmessToWire s) = s"
  by (auto simp: vmess_ok_def vmessFromWire_def vmessToWire_def coerce_simps)

lemma reverse_sniffing_settings:
  "rs_destOverride s \<noteq> [] \<Longrightarrow> reverseSniffingFromWire (reverseSniffingToWire s) = s"
  by (simp add: reverseSniffingFromWire_def reverseSniffingToWire_def coerce_simps Let_def)

lemma reverse_sniffing_empty: "reverseSniffingFromWire (JObj []) = REVERSE_SNIFFING_DEFAULT"
  by (simp add: reverseSniffingFromWire_def REVERSE_SNIFFING_DEFAULT_def coerce_simps Let_def)

lemma testseed_from_seed: "seed_ok xs \<Longrightarrow> testseed_from (JArr (map (\<lambda>v. JNum (Fin v)) xs)) = xs"
  by (simp add: testseed_from_def seed_ok_def coerce_simps list_all_iff positive_integer_def num_of_def o_def)

lemma testseed_from_undef: "testseed_from JUndef = default_seed"
  by (simp add: testseed_from_def default_seed_def coerce_simps)


lemma json_ok_JStrs [simp]: "json_ok (JStrs xs)"
  by (simp add: JStrs_def list_all_iff)

lemma JStrs_inject [simp]: "JStrs xs = JStrs ys \<longleftrightarrow> xs = ys"
  by (simp add: JStrs_def inj_map_eq_map inj_def)

lemma JStrs_not_undef [simp]: "JStrs xs \<noteq> JUndef" "JUndef \<noteq> JStrs xs"
  by (simp_all add: JStrs_def)

lemma reverse_sniffing_text:
  assumes "JSON_stringify (reverseSniffingToWire s) = JSON_stringify (reverseSniffingToWire t)"
  shows "s = t"
proof -
  obtain m where m: "\<And>s. reverseSniffingToWire s = JObj (m s)"
    "\<And>s. m s = [(''enabled'', JBool (rs_enabled s)),
      (''destOverride'', JStrs (rs_destOverride s)),
      (''metadataOnly'', JBool (rs_metadataOnly s)),
      (''routeOnly'', JBool (rs_routeOnly s)),
      (''ipsExcluded'', strs_or_undef (rs_ipsExcluded s)),
      (''domainsExcluded'', strs_or_undef (rs_domainsExcluded s))]"
    by (rule that [of "\<lambda>s. _ s"]) (simp_all add: reverseSniffingToWire_def)
  have "json_ok (JObj (visible (m s)))" for s
    by (simp add: m(2) visible_def strs_or_undef_def js_put_all_def js_put_def js_has_def is_index_key_def is_digit_def)
  with assms have "visible (m s) = visible (m t)" by (intro JSON_stringify_inject) (simp_all add: m(1))
  then show ?thesis by (simp add: m(2) visible_def strs_or_undef_def split: if_splits)
qed

lemma vless_reverse_settings:
  assumes "rs_destOverride (lf_reverseSniffing s) \<noteq> []"
  shows "as_string (js_get (vless_reverse s) ''tag'') = lf_reverseTag s"
    and "reverseSniffingFromWire (js_get (vless_reverse s) ''sniffing'') = lf_reverseSniffing s"
  using assms reverse_sniffing_text [of "lf_reverseSniffing s" REVERSE_SNIFFING_DEFAULT]
  by (auto simp: vless_reverse_def Let_def coerce_simps reverse_sniffing_settings
      reverse_sniffing_empty)

lemma vless_settings: "vless_ok s \<Longrightarrow> vlessFromWire (vlessToWire s) = s"
proof -
  assume ok: "vless_ok s"
  let ?w = "vlessToWire s"
  have get: "js_get ?w ''address'' = JStr (lf_address s)" "js_get ?w ''port'' = JInt (lf_port s)"
    "js_get ?w ''id'' = JStr (lf_id s)" "js_get ?w ''flow'' = JStr (lf_flow s)"
    "js_get ?w ''encryption'' = JStr (lf_encryption s)" "js_get ?w ''vnext'' = JUndef"
    "js_get ?w ''reverse'' = (if lf_reverseTag s = [] then JUndef else JObj (vless_reverse s))"
    "as_number 0 (js_get ?w ''testpre'') = lf_testpre s"
    "testseed_from (js_get ?w ''testseed'') = lf_testseed s"
    using ok by (auto simp: vlessToWire_def vless_ok_def coerce_simps testseed_from_seed testseed_from_undef)
  have "port_ok (lf_port s)" "lf_encryption s \<noteq> []" "rs_destOverride (lf_reverseSniffing s) \<noteq> []"
    "lf_reverseTag s = [] \<longrightarrow> lf_reverseSniffing s = REVERSE_SNIFFING_DEFAULT"
    using ok by (auto simp: vless_ok_def)
  then show ?thesis
    using vless_reverse_settings [of s]
    by (simp add: vlessFromWire_def get Let_def coerce_simps)
qed


lemma trojan_settings: "port_ok (tf_port s) \<Longrightarrow> trojanFromWire (trojanToWire s) = s"
  by (simp add: trojanFromWire_def trojanToWire_def one_server_def first_server_def coerce_simps Let_def)

lemma shadowsocks_settings: "port_ok (sf_port s) \<Longrightarrow> shadowsocksFromWire (shadowsocksToWire s) = s"
  by (simp add: shadowsocksFromWire_def shadowsocksToWire_def one_server_def first_server_def
      coerce_simps Let_def)

lemma auth_settings: "auth_ok s \<Longrightarrow> simpleAuthFromWire (simpleAuthToWire s) d = s"
  by (auto simp add: auth_ok_def simpleAuthFromWire_def simpleAuthToWire_def one_server_def
      first_server_def coerce_simps Let_def)

lemma hysteria_settings:
  "port_ok (hf_port s) \<Longrightarrow> hf_version s = 2 \<Longrightarrow> hysteriaFromWire (hysteriaToWire s) = s"
  by (simp add: hysteriaFromWire_def hysteriaToWire_def coerce_simps)

lemma blackhole_settings:
  "t \<in> {[], ''none'', ''http''} \<Longrightarrow> blackholeFromWire (blackholeToWire t) = t"
  by (auto simp: blackholeFromWire_def blackholeToWire_def coerce_simps Let_def)

lemma loopback_settings: "loopbackFromWire (loopbackToWire t) = t"
  by (simp add: loopbackFromWire_def loopbackToWire_def coerce_simps)

lemma comma_canonical_join:
  "comma_canonical s \<Longrightarrow> join '','' (if s = [] then [] else comma_parts s) = s"
  by (auto simp: comma_canonical_def)

lemma wg_peer_settings: "wpf_allowedIPs p \<noteq> [] \<Longrightarrow> wireguardPeerFromWire (wireguardPeerToWire p) = p"
  by (simp add: wireguardPeerFromWire_def wireguardPeerToWire_def coerce_simps Let_def)

lemma map_filter_map_id:
  "(\<And>x. x \<in> set xs \<Longrightarrow> f (g x) = x \<and> p (g x)) \<Longrightarrow> map f (filter p (map g xs)) = xs"
  by (induction xs) auto

lemma reserved_settings:
  assumes "reserved_ok s"
  shows "join '','' (map text_or_number (as_array
    (if s = [] then JUndef else JArr (finite_numbers (split_on CHR '','' s))))) = s"
proof (cases "s = []")
  case False
  let ?p = "split_on CHR '','' s"
  have "num_str (js_number_of_string (js_trim x)) = x \<and> jnum_is_finite (js_number_of_string (js_trim x))"
    if x: "x \<in> set ?p" for x
  proof -
    obtain i where "x = int_str i" "\<bar>i\<bar> < 10 ^ 21" using assms False x by (auto simp: reserved_ok_def list_all_iff)
    then show ?thesis using js_trim_all_plain [OF int_str_plain [of i]] by simp
  qed
  then have "map num_str (filter jnum_is_finite (map (\<lambda>x. js_number_of_string (js_trim x)) ?p)) = ?p"
    by (rule map_filter_map_id)
  then show ?thesis using False join_split_on [of "CHR '',''" s] by (simp add: finite_numbers_def coerce_simps)
qed (simp add: coerce_simps)

lemma wireguard_settings: "wg_ok s \<Longrightarrow> wireguardFromWire (wireguardToWire s) = Some s"
proof -
  assume ok: "wg_ok s"
  have peers: "map (wireguardPeerFromWire \<circ> wireguardPeerToWire) (wf_peers s) = wf_peers s"
    using ok by (auto simp: wg_ok_def list_all_iff wg_peer_settings intro: map_idI)
  have res: "join '','' (map text_or_number (as_array (js_get (wireguardToWire s) ''reserved''))) = wf_reserved s"
    using ok reserved_settings by (simp add: wireguardToWire_def wg_ok_def)
  have addr: "join '','' (map text_or_number (as_array (js_get (wireguardToWire s) ''address''))) = wf_address s"
    using ok comma_canonical_join by (simp add: wireguardToWire_def wg_ok_def JStrs_def coerce_simps)
  have rest: "as_string (js_get (wireguardToWire s) ''secretKey'') = wf_secretKey s"
    "as_number 1420 (js_get (wireguardToWire s) ''mtu'') = wf_mtu s"
    "as_number 2 (js_get (wireguardToWire s) ''workers'') = wf_workers s"
    "one_of WG_STRATEGIES [] (as_string (js_get (wireguardToWire s) ''domainStrategy'')) = wf_domainStrategy s"
    "map wireguardPeerFromWire (as_array (js_get (wireguardToWire s) ''peers'')) = wf_peers s"
    "as_bool (js_get (wireguardToWire s) ''noKernelTun'') = wf_noKernelTun s"
    using ok peers by (auto simp: wg_ok_def wireguardToWire_def coerce_simps one_of_def)
  show ?thesis using ok by (simp add: wireguardFromWire_def rest addr res wg_ok_def Let_def)
qed

lemma noise_settings: "noiseFromWire (noiseToWire n) = n"
  by (simp add: noiseFromWire_def noiseToWire_def coerce_simps Let_def)

lemma final_rule_settings: "final_rule_ok r \<Longrightarrow> finalRuleFromWire (finalRuleToWire r) = r"
  by (auto simp: final_rule_ok_def finalRuleFromWire_def finalRuleToWire_def coerce_simps Let_def
      joined_or_string_def str_or_undef_def)

lemma fragment_settings: "fragment_ok f \<Longrightarrow> Some (fragmentFromWire (fragmentToWire f)) = f"
  by (auto simp: fragment_ok_def fragmentFromWire_def fragmentToWire_def fragment_fields_def
      coerce_simps Let_def js_put_all_def js_put_def js_has_def is_index_key_def is_digit_def split: if_splits)

lemma freedom_settings: "freedom_ok s \<Longrightarrow> freedomFromWire (freedomToWire s) = s"
proof -
  assume ok: "freedom_ok s"
  have noises: "map noiseFromWire (as_array (js_get (freedomToWire s) ''noises'')) = fr_noises s"
    by (simp add: freedomToWire_def coerce_simps noise_settings o_def)
  have rules: "finalRulesFromWire (freedomToWire s) = fr_finalRules s"
  proof -
    have "map (finalRuleFromWire \<circ> finalRuleToWire) (fr_finalRules s) = fr_finalRules s"
      using ok by (auto simp: freedom_ok_def list_all_iff final_rule_settings intro: map_idI)
    then show ?thesis by (simp add: finalRulesFromWire_def freedomToWire_def coerce_simps)
  qed
  have rest: "js_get (freedomToWire s) ''fragment'' = fragmentToWire (fr_fragment s)"
    "one_of FREEDOM_STRATEGIES [] (as_string (js_get (freedomToWire s) ''domainStrategy'')) = fr_domainStrategy s"
    "as_string (js_get (freedomToWire s) ''redirect'') = fr_redirect s"
    "as_number 0 (js_get (freedomToWire s) ''userLevel'') = fr_userLevel s"
    "as_number 0 (js_get (freedomToWire s) ''proxyProtocol'') = fr_proxyProtocol s"
    using ok by (auto simp: freedom_ok_def freedomToWire_def coerce_simps one_of_def)
  show ?thesis
    using ok fragment_settings [of "fr_fragment s"]
    by (auto simp: freedomFromWire_def rest noises rules freedom_ok_def Let_def)
qed


lemma num_str_nat: "n < 10 ^ 21 \<Longrightarrow> num_str (Fin (of_nat n)) = nat_str n"
  using num_str_int [of "int n"] by (simp add: int_str_def)

lemma dns_rule_settings: "dns_rule_ok r \<Longrightarrow> dnsRuleFromWire (dnsRuleToWire r) = r"
proof -
  assume ok: "dns_rule_ok r"
  let ?w = "as_object (dnsRuleToWire r)"
  let ?q = "js_coalesce (js_get ?w ''qType'') (js_get ?w ''qtype'')"
  have q: "(case ?q of JArr xs \<Rightarrow> join '','' (map js_string xs) | _ \<Rightarrow> text_or_number ?q) = dr_qType r"
    using ok by (auto simp: dns_rule_ok_def dnsRuleToWire_def Let_def coerce_simps js_coalesce_def num_str_nat)
  have d: "joined_or_string as_string (js_get ?w ''domain'') = dr_domain r"
    using ok by (auto simp: dns_rule_ok_def dnsRuleToWire_def Let_def coerce_simps joined_or_string_def
        JStrs_def comma_canonical_def)
  have rest: "one_of DNS_ACTIONS ''direct'' (as_string_or ''direct'' (js_get ?w ''action'')) = dr_action r"
    "as_number 0 (js_get ?w ''rCode'') = dr_rCode r"
    using ok by (auto simp: dns_rule_ok_def dnsRuleToWire_def Let_def coerce_simps)
  show ?thesis by (simp add: dnsRuleFromWire_def Let_def q d rest)
qed

lemma dns_settings: "dns_ok s \<Longrightarrow> dnsFromWire (dnsToWire s) = s"
proof -
  assume ok: "dns_ok s"
  have "map (dnsRuleFromWire \<circ> dnsRuleToWire) (df_rules s) = df_rules s"
    using ok by (auto simp: dns_ok_def list_all_iff dns_rule_settings intro: map_idI)
  then have rules: "map dnsRuleFromWire (as_array (js_get (dnsToWire s) ''rules'')) = df_rules s"
    by (simp add: dnsToWire_def coerce_simps)
  have rest: "as_string (js_coalesce (js_get (dnsToWire s) ''rewriteNetwork'') (js_get (dnsToWire s) ''network''))
      = df_rewriteNetwork s"
    "as_string (js_coalesce (js_get (dnsToWire s) ''rewriteAddress'') (js_get (dnsToWire s) ''address''))
      = df_rewriteAddress s"
    "as_port 53 (js_coalesce (js_get (dnsToWire s) ''rewritePort'') (js_get (dnsToWire s) ''port''))
      = df_rewritePort s"
    "as_number 0 (js_get (dnsToWire s) ''userLevel'') = df_userLevel s"
    using ok by (auto simp: dns_ok_def dnsToWire_def coerce_simps js_coalesce_def port_ok_def)
  show ?thesis using ok by (auto simp: dnsFromWire_def Let_def rest rules dns_ok_def)
qed

lemma settings_roundtrip:
  "settings_ok s \<Longrightarrow> settingsFromWire (form_protocol s) (settingsToWire s) = Some s"
  by (cases s) (simp_all add: settingsFromWire_def vmess_settings vless_settings trojan_settings
      shadowsocks_settings auth_settings hysteria_settings freedom_settings blackhole_settings
      loopback_settings wireguard_settings dns_settings)

section \<open>The whole form\<close>

definition mux_default :: mux_form where
  "mux_default = \<lparr>xf_enabled = False, xf_concurrency = 8, xf_xudpConcurrency = 16,
     xf_xudpProxyUDP443 = ''reject''\<rparr>"

definition mux_ok :: "outbound_form \<Rightarrow> bool" where
  "mux_ok v \<longleftrightarrow> (case of_mux v of None \<Rightarrow> False | Some m \<Rightarrow>
     if xf_enabled m \<and> muxAllowed v then xf_xudpProxyUDP443 m \<in> {''reject'', ''allow'', ''skip''}
     else m = mux_default)"

text \<open>
  A stream the round trip returns unchanged: non-empty, with no xHTTP settings object, and
  for a protocol without stream settings only the socket options that are kept.
\<close>

definition stream_ok :: "outbound_form \<Rightarrow> bool" where
  "stream_ok v \<longleftrightarrow> (case of_stream v of None \<Rightarrow> True | Some m \<Rightarrow>
     m \<noteq> [] \<and> \<not> is_object_or_array (js_get m ''xhttpSettings'')
     \<and> (form_protocol (of_settings v) \<in> set FORM_STREAM_PROTOCOLS
        \<or> (\<exists>x. m = [(''sockopt'', x)] \<and> truthy x)))"

definition form_ok :: "outbound_form \<Rightarrow> bool" where
  "form_ok v \<longleftrightarrow> settings_ok (of_settings v) \<and> mux_ok v \<and> stream_ok v"

lemma payload_get:
  "js_get (formValuesToWirePayload v) ''protocol'' = JStr (form_protocol (of_settings v))"
  "js_get (formValuesToWirePayload v) ''settings'' = JObj (settingsToWire (of_settings v))"
  "js_get (formValuesToWirePayload v) ''tag'' = str_or_undef (of_tag v)"
  "js_get (formValuesToWirePayload v) ''sendThrough'' = str_or_undef (of_sendThrough v)"
  "js_get (formValuesToWirePayload v) ''streamSettings'' = js_get (streamToWire v) ''streamSettings''"
  "js_get (formValuesToWirePayload v) ''mux'' = (case of_mux v of
     Some m \<Rightarrow> if xf_enabled m \<and> muxAllowed v then muxToJs m else JUndef | None \<Rightarrow> JUndef)"
  by (auto simp: formValuesToWirePayload_def streamToWire_def str_or_undef_def split: option.splits)

lemma mux_settings:
  "xf_xudpProxyUDP443 m \<in> {''reject'', ''allow'', ''skip''} \<Longrightarrow> muxFromWire (muxToJs m) = m"
  by (auto simp: muxFromWire_def muxToJs_def coerce_simps Let_def)

lemma mux_absent: "muxFromWire JUndef = mux_default"
  by (simp add: muxFromWire_def mux_default_def coerce_simps Let_def one_of_def)

lemma hydrate_plain: "\<not> is_object_or_array (js_get m ''xhttpSettings'') \<Longrightarrow> hydrateStreamForm P m = m"
  by (auto simp: hydrateStreamForm_def is_object_or_array_def split: js.splits)

lemma stream_roundtrip:
  assumes "stream_ok v"
  defines "w \<equiv> js_get (streamToWire v) ''streamSettings''"
  shows "(if is_object_or_array w \<and> spread w \<noteq> [] then Some (hydrateStreamForm P (spread w)) else None)
    = of_stream v"
proof (cases "of_stream v")
  case None
  then show ?thesis by (simp add: w_def streamToWire_def is_object_or_array_def)
next
  case (Some m)
  then have m: "m \<noteq> []" "\<not> is_object_or_array (js_get m ''xhttpSettings'')"
    and p: "form_protocol (of_settings v) \<in> set FORM_STREAM_PROTOCOLS \<or> (\<exists>x. m = [(''sockopt'', x)] \<and> truthy x)"
    using assms(1) by (auto simp: stream_ok_def)
  from p have "w = JObj m"
  proof
    assume "form_protocol (of_settings v) \<in> set FORM_STREAM_PROTOCOLS"
    then show ?thesis using Some m by (simp add: w_def streamToWire_def stripUiOnlyStreamFields_def Let_def)
  next
    assume "\<exists>x. m = [(''sockopt'', x)] \<and> truthy x"
    then show ?thesis using Some m by (auto simp: w_def streamToWire_def stripUiOnlyStreamFields_def Let_def)
  qed
  then show ?thesis using Some m hydrate_plain [of m P] by (simp add: is_object_or_array_def spread_def)
qed

text \<open>C4. For the forms that the adapter itself can produce, loading the wire configuration that the
  outbound editor saves gives back the form: the settings of all twelve protocols, the tag, the bind
  address, the mux block and the stream settings.  The forms outside are those that the wire format
  has no room for: a mux block that differs from the default while it is disabled or not allowed; an
  xHTTP object among the stream settings (it is rebuilt from the schema), an empty object of stream
  settings, or stream settings other than socket options under a protocol without
  streams; ports that are no ports (a DNS rewrite port of 0 too); choices that no option offers; VLESS with an
  empty encryption, without sniffed protocols, with reverse sniffing but no reverse tag, or with test
  values but without the vision flow; a password without a user; WireGuard with mtu or workers 0, with
  a public key that is not the key's, a peer without allowed addresses, addresses not in their
  comma-separated form or reserved values that are no integers; Hysteria other than version 2; a freedom
  fragment with packets alone or with everything but packets, or a block delay of a rule that allows;
  DNS rules whose type or domains are not in their canonical form or whose response code is negative.\<close>

theorem outbound_form_roundtrip:
  assumes "form_ok v"
  shows "rawOutboundToFormValues P (formValuesToWirePayload v) = Some v"
proof -
  have mux: "Some (muxFromWire (js_get (formValuesToWirePayload v) ''mux'')) = of_mux v"
    using assms by (auto simp: form_ok_def mux_ok_def payload_get mux_settings mux_absent split: option.splits if_splits)
  have "settings_ok (of_settings v)" "stream_ok v" using assms by (auto simp: form_ok_def)
  then show ?thesis
    using mux stream_roundtrip [of v P] settings_roundtrip [of "of_settings v"]
    by (simp add: rawOutboundToFormValues_def payload_get coerce_simps Let_def)
qed


definition sample_wg :: wg_form where
  "sample_wg = \<lparr>wf_mtu = 1280, wf_secretKey = [], wf_pubKey = [], wf_address = ''10.0.0.2/32,fd00::2/128'',
     wf_workers = 2, wf_domainStrategy = ''ForceIPv4'', wf_reserved = ''1,2,3'',
     wf_peers = [\<lparr>wpf_publicKey = ''k'', wpf_psk = [], wpf_allowedIPs = [''0.0.0.0/0''],
       wpf_endpoint = ''h:51820'', wpf_keepAlive = 25\<rparr>], wf_noKernelTun = True\<rparr>"

definition sample_vless :: vless_form where
  "sample_vless = \<lparr>lf_address = ''example.com'', lf_port = 8443, lf_id = ''u'', lf_flow = ''xtls-rprx-vision'',
     lf_encryption = ''none'', lf_reverseTag = ''r'',
     lf_reverseSniffing = REVERSE_SNIFFING_DEFAULT\<lparr>rs_enabled := True, rs_ipsExcluded := [''10.0.0.0/8'']\<rparr>,
     lf_testpre = 3, lf_testseed = [900, 500, 901, 256]\<rparr>"

definition sample_form :: "outbound_form_settings \<Rightarrow> outbound_form" where
  "sample_form s = \<lparr>of_settings = s, of_tag = ''proxy'', of_sendThrough = [], of_mux = Some mux_default,
     of_stream = Some [(''network'', JStr ''tcp''), (''security'', JStr ''none'')]\<rparr>"

lemma sample_vless_ok: "form_ok (sample_form (FVless sample_vless))"
  by (simp add: form_ok_def sample_form_def sample_vless_def vless_ok_def port_ok_def
      REVERSE_SNIFFING_DEFAULT_def DEST_OVERRIDE_def seed_ok_def mux_ok_def mux_default_def stream_ok_def
      is_object_or_array_def FORM_STREAM_PROTOCOLS_def)

theorem outbound_form_roundtrip_witness:
  "rawOutboundToFormValues (zparse (\<lambda>_. True)) (formValuesToWirePayload (sample_form (FVless sample_vless)))
     = Some (sample_form (FVless sample_vless))"
  by (rule outbound_form_roundtrip [OF sample_vless_ok])

section \<open>What reaches the wire\<close>

text \<open>The mux block is written exactly when it is enabled and the protocol can multiplex, no VLESS
  flow is set and the transport is not xHTTP.\<close>

theorem mux_only_where_allowed:
  "js_has (formValuesToWirePayload v) ''mux'' \<longleftrightarrow>
     (\<exists>m. of_mux v = Some m \<and> xf_enabled m)
     \<and> form_protocol (of_settings v) \<in> {''vmess'', ''vless'', ''trojan'', ''shadowsocks'', ''http'', ''socks''}
     \<and> (\<forall>s. of_settings v \<noteq> FVless s \<or> lf_flow s = [])
     \<and> (\<forall>m. of_stream v \<noteq> Some m \<or> js_get m ''network'' \<noteq> JStr ''xhttp'')"
proof -
  have "muxAllowed v \<longleftrightarrow>
     form_protocol (of_settings v) \<in> {''vmess'', ''vless'', ''trojan'', ''shadowsocks'', ''http'', ''socks''}
     \<and> (\<forall>s. of_settings v \<noteq> FVless s \<or> lf_flow s = [])
     \<and> (\<forall>m. of_stream v \<noteq> Some m \<or> js_get m ''network'' \<noteq> JStr ''xhttp'')"
    unfolding muxAllowed_def MUX_PROTOCOLS_def
    by (cases "of_settings v"; cases "of_stream v") simp_all
  moreover have "js_has (formValuesToWirePayload v) ''mux'' \<longleftrightarrow> (\<exists>m. of_mux v = Some m \<and> xf_enabled m) \<and> muxAllowed v"
    by (cases "of_mux v") (auto simp: formValuesToWirePayload_def js_has_def streamToWire_def split: option.splits)
  ultimately show ?thesis by simp
qed

theorem mux_only_where_allowed_witness:
  "js_has (formValuesToWirePayload (sample_form (FLoopback [])\<lparr>of_settings := FTrojan (trojanFromWire []),
     of_mux := Some (mux_default\<lparr>xf_enabled := True\<rparr>)\<rparr>)) ''mux''"
  by (subst mux_only_where_allowed) (simp add: sample_form_def)

lemma map_of_dropEmptyStrings:
  "obj_wf m \<Longrightarrow> map_of (dropEmptyStrings m) k = (if map_of m k = Some (JStr []) then None else map_of m k)"
proof -
  assume wf: "obj_wf m"
  then have "obj_wf (filter (\<lambda>(k, v). v \<noteq> JStr []) m)" by (auto simp: obj_wf_def intro: distinct_map_filter)
  then show ?thesis
    using wf by (auto simp: dropEmptyStrings_def map_of_put_all_Nil map_of_filter_distinct obj_wf_def split: option.splits)
qed

lemma map_of_clean_xhttp:
  assumes "obj_wf xh"
  shows "map_of (clean_xhttp xh) k =
     (if k = ''enableXmux'' \<or> k = ''xmux'' \<and> js_get xh ''enableXmux'' \<noteq> JBool True
         \<or> map_of xh k = Some (JStr []) then None else map_of xh k)"
  using assms by (auto simp: clean_xhttp_def Let_def map_of_dropEmptyStrings)

lemma payload_xhttp:
  assumes "of_stream v = Some m" "form_protocol (of_settings v) \<in> set FORM_STREAM_PROTOCOLS"
    "js_get m ''xhttpSettings'' = JObj xh"
  shows "js_get (as_object (js_get (formValuesToWirePayload v) ''streamSettings'')) ''xhttpSettings''
    = JObj (clean_xhttp xh)"
  using assms by (simp add: payload_get streamToWire_def stripUiOnlyStreamFields_def is_object_or_array_def
      spread_def as_object_def)

text \<open>Of the xHTTP settings of a form, the wire configuration carries exactly the members that are
  not empty strings, never the UI toggle \<open>enableXmux\<close>, and \<open>xmux\<close> only while the toggle is on.\<close>

theorem xhttp_members_on_wire:
  assumes "of_stream v = Some m" "form_protocol (of_settings v) \<in> set FORM_STREAM_PROTOCOLS"
    "js_get m ''xhttpSettings'' = JObj xh" "obj_wf xh"
  shows "map_of (as_object (js_get (as_object (js_get (formValuesToWirePayload v) ''streamSettings'')) ''xhttpSettings'')) k =
     (if k = ''enableXmux'' \<or> k = ''xmux'' \<and> js_get xh ''enableXmux'' \<noteq> JBool True
         \<or> map_of xh k = Some (JStr []) then None else map_of xh k)"
  using assms by (simp add: payload_xhttp map_of_clean_xhttp coerce_simps)

definition sample_xhttp :: obj where
  "sample_xhttp = [(''path'', JStr ''/x''), (''host'', JStr []), (''xmux'', JObj []), (''enableXmux'', JBool True)]"

theorem xhttp_members_on_wire_witness:
  "map_of (as_object (js_get (as_object (js_get (formValuesToWirePayload
      (sample_form (FVless sample_vless)\<lparr>of_stream := Some [(''xhttpSettings'', JObj sample_xhttp)]\<rparr>))
      ''streamSettings'')) ''xhttpSettings'')) ''host'' = None"
  by (subst xhttp_members_on_wire [where xh = sample_xhttp and m = "[(''xhttpSettings'', JObj sample_xhttp)]"])
    (simp_all add: sample_form_def FORM_STREAM_PROTOCOLS_def sample_xhttp_def obj_wf_def)

text \<open>
  The XMUX defaults are those of the schema, and opening and saving a stored xHTTP outbound keeps
  every member of its XMUX block, adding only defaults for the ones it lacks.
\<close>

lemma XMUX_DEFAULTS_zod:
  assumes "zod P u"
  shows "XMUX_DEFAULTS P =
     [(''maxConcurrency'', JStr ''16-32''), (''maxConnections'', JInt 0), (''cMaxReuseTimes'', JInt 0),
      (''hMaxRequestTimes'', JStr ''600-900''), (''hMaxReusableSecs'', JStr ''1800-3000''),
      (''hKeepAlivePeriod'', JInt 0)]"
proof -
  have "P XHttpXmuxSchema (JObj []) = zparse u XHttpXmuxSchema (JObj [])"
    by (rule zod.laws_determine [OF assms]) simp
  then show ?thesis by (simp add: XMUX_DEFAULTS_def XHttpXmuxSchema_def)
qed

text \<open>C40. Opening a stored xHTTP outbound with an XMUX block and saving it unchanged keeps every member
  of the block and adds the schema's default for each missing one.\<close>

theorem xmux_survives_edit:
  assumes "zod P u" "obj_wf xh" "obj_wf xmux" "js_get xh ''xmux'' = JObj xmux"
    "js_get m ''xhttpSettings'' = JObj xh" "of_stream v = Some (hydrateStreamForm P m)"
    "form_protocol (of_settings v) \<in> set FORM_STREAM_PROTOCOLS"
  shows "\<exists>x. js_get (as_object (js_get (as_object (js_get (formValuesToWirePayload v) ''streamSettings''))
         ''xhttpSettings'')) ''xmux'' = JObj x
    \<and> (\<forall>k. map_of x k = (case map_of xmux k of Some a \<Rightarrow> Some a | None \<Rightarrow> map_of (XMUX_DEFAULTS P) k))"
proof -
  let ?x = "js_put_all (XMUX_DEFAULTS P) xmux"
  let ?xh = "hydrateXhttp P xh"
  have "obj_wf (XMUX_DEFAULTS P)" by (simp add: XMUX_DEFAULTS_zod [OF assms(1)] obj_wf_def)
  then have x: "map_of ?x k = (case map_of xmux k of Some a \<Rightarrow> Some a | None \<Rightarrow> map_of (XMUX_DEFAULTS P) k)" for k
    using assms(3) by (simp add: map_of_js_put_all map_of_rev_distinct obj_wf_def)
  have hyd: "js_get (hydrateStreamForm P m) ''xhttpSettings'' = JObj ?xh"
    using assms(5) by (simp add: hydrateStreamForm_def)
  have "?xh = js_put ''xmux'' (JObj ?x) (js_put ''enableXmux'' (JBool True) xh)"
    using assms(4) by (simp add: hydrateXhttp_def)
  then have "map_of (clean_xhttp ?xh) ''xmux'' = Some (JObj ?x)"
    using assms(2) by (simp add: map_of_clean_xhttp)
  then show ?thesis
    using payload_xhttp [OF assms(6,7) hyd] x by (auto simp: coerce_simps js_get_def)
qed

theorem xmux_survives_edit_witness:
  "\<exists>x. js_get (as_object (js_get (as_object (js_get (formValuesToWirePayload
        (sample_form (FVless sample_vless)\<lparr>of_stream :=
           Some (hydrateStreamForm (zparse (\<lambda>_. True)) [(''xhttpSettings'', JObj sample_xhttp)])\<rparr>))
         ''streamSettings'')) ''xhttpSettings'')) ''xmux'' = JObj x
    \<and> (\<forall>k. map_of x k = (case map_of [] k of Some a \<Rightarrow> Some a
          | None \<Rightarrow> map_of (XMUX_DEFAULTS (zparse (\<lambda>_. True))) k))"
  by (rule xmux_survives_edit [OF zod_reference.zod_axioms, where xh = sample_xhttp and m = "[(''xhttpSettings'', JObj sample_xhttp)]"])
    (simp_all add: sample_form_def FORM_STREAM_PROTOCOLS_def sample_xhttp_def obj_wf_def)

section \<open>Complete forms satisfy the wire schema\<close>

text \<open>
  \<open>complete\<close> says that the required fields of the form are filled in and the choices are
  among the offered ones; \<open>u\<close> is the UUID format of the schema library.
\<close>

definition safe_int :: "rat \<Rightarrow> bool" where
  "safe_int x \<longleftrightarrow> x = of_int \<lfloor>x\<rfloor> \<and> \<bar>x\<bar> \<le> 9007199254740991"

definition count_ok :: "rat \<Rightarrow> bool" where
  "count_ok x \<longleftrightarrow> safe_int x \<and> 0 \<le> x"

definition SS_METHODS :: "string list" where
  "SS_METHODS = [''aes-256-gcm'', ''chacha20-poly1305'', ''chacha20-ietf-poly1305'',
     ''xchacha20-ietf-poly1305'', ''2022-blake3-aes-128-gcm'', ''2022-blake3-aes-256-gcm'',
     ''2022-blake3-chacha20-poly1305'']"

definition vless_complete :: "(string \<Rightarrow> bool) \<Rightarrow> vless_form \<Rightarrow> bool" where
  "vless_complete u s \<longleftrightarrow> port_ok (lf_port s) \<and> u (lf_id s)
     \<and> lf_flow s \<in> {[], ''xtls-rprx-vision'', ''xtls-rprx-vision-udp443''}
     \<and> set (rs_destOverride (lf_reverseSniffing s)) \<subseteq> set DEST_OVERRIDE
     \<and> safe_int (lf_testpre s) \<and> list_all safe_int (lf_testseed s)"

definition wg_complete :: "wg_form \<Rightarrow> bool" where
  "wg_complete s \<longleftrightarrow> wf_secretKey s \<noteq> [] \<and> count_ok (wf_mtu s) \<and> count_ok (wf_workers s)
     \<and> wf_domainStrategy s \<in> insert [] (set WG_STRATEGIES)
     \<and> list_all (\<lambda>n. case n of JNum (Fin x) \<Rightarrow> safe_int x | _ \<Rightarrow> False) (finite_numbers (split_on CHR '','' (wf_reserved s)))
     \<and> wf_peers s \<noteq> []
     \<and> list_all (\<lambda>p. wpf_publicKey p \<noteq> [] \<and> wpf_endpoint p \<noteq> [] \<and> count_ok (wpf_keepAlive p)) (wf_peers s)"

definition freedom_complete :: "freedom_form \<Rightarrow> bool" where
  "freedom_complete s \<longleftrightarrow> fr_domainStrategy s \<in> insert [] (set FREEDOM_STRATEGIES) \<and> count_ok (fr_userLevel s)
     \<and> (\<exists>p l i x. fr_fragment s = Some (fragment_fields p l i x))
     \<and> list_all (\<lambda>n. nf_type n \<in> {''rand'', ''str'', ''base64'', ''hex''} \<and> nf_applyTo n \<in> {''ip'', ''ipv4'', ''ipv6''}) (fr_noises s)
     \<and> list_all (\<lambda>r. ff_action r \<in> {''allow'', ''block''}) (fr_finalRules s)"

definition dns_complete :: "dns_form \<Rightarrow> bool" where
  "dns_complete s \<longleftrightarrow> (df_rewritePort s = 0 \<or> port_ok (df_rewritePort s)) \<and> count_ok (df_userLevel s)
     \<and> list_all (\<lambda>r. safe_int (dr_rCode r) \<and> dr_rCode r \<le> 65535
         \<and> (list_all is_digit (js_trim (dr_qType r)) \<longrightarrow> js_trim (dr_qType r) = []
              \<or> (\<exists>x. js_number_of_string (js_trim (dr_qType r)) = Fin x \<and> safe_int x))) (df_rules s)"

fun complete :: "(string \<Rightarrow> bool) \<Rightarrow> outbound_form_settings \<Rightarrow> bool" where
  "complete u (FVmess s) = (mf_address s \<noteq> [] \<and> port_ok (mf_port s) \<and> u (mf_id s)
     \<and> mf_security s \<in> {''aes-128-gcm'', ''chacha20-poly1305'', ''auto'', ''none'', ''zero''})"
| "complete u (FVless s) = vless_complete u s"
| "complete u (FTrojan s) = (tf_address s \<noteq> [] \<and> port_ok (tf_port s) \<and> tf_password s \<noteq> [])"
| "complete u (FShadowsocks s) = (sf_address s \<noteq> [] \<and> port_ok (sf_port s) \<and> sf_password s \<noteq> []
     \<and> sf_method s \<in> set SS_METHODS \<and> sf_UoTVersion s \<in> {1, 2})"
| "complete u (FSocks s) = (af_address s \<noteq> [] \<and> port_ok (af_port s) \<and> (af_user s \<noteq> [] \<longrightarrow> af_pass s \<noteq> []))"
| "complete u (FHttp s) = (af_address s \<noteq> [] \<and> port_ok (af_port s) \<and> (af_user s \<noteq> [] \<longrightarrow> af_pass s \<noteq> []))"
| "complete u (FWireguard s) = wg_complete s"
| "complete u (FHysteria s) = (hf_address s \<noteq> [] \<and> port_ok (hf_port s) \<and> hf_version s = 2)"
| "complete u (FFreedom s) = freedom_complete s"
| "complete u (FBlackhole t) = (t \<in> {[], ''none'', ''http''})"
| "complete u (FDns s) = dns_complete s"
| "complete u (FLoopback t) = True"

definition accepts :: "(string \<Rightarrow> bool) \<Rightarrow> zschema \<Rightarrow> js \<Rightarrow> bool" where
  "accepts u s v \<longleftrightarrow> zparse u s v \<noteq> None"

named_theorems accept_simps "when a schema accepts a value"

lemma keep_if_not_None [simp]: "keep_if b v \<noteq> None \<longleftrightarrow> b" "(\<exists>y. keep_if b v = Some y) \<longleftrightarrow> b"
  by (simp_all add: keep_if_def)

lemma accepts_atoms [accept_simps]:
  "accepts u ZString (JStr s)" "accepts u ZNonEmpty (JStr s) \<longleftrightarrow> s \<noteq> []" "accepts u ZUuid (JStr s) \<longleftrightarrow> u s"
  "accepts u ZBoolean (JBool b)" "accepts u (ZEnum es) (JStr s) \<longleftrightarrow> s \<in> set es"
  "accepts u (ZLiteral l) v \<longleftrightarrow> v = l"
  "accepts u (ZNumber cs) (JNum (Fin x)) \<longleftrightarrow> list_all (\<lambda>c. check_ok c x) cs"
  by (simp_all add: accepts_def is_str_def str_where_def is_bool_def number_ok_def keep_if_def)

lemma accepts_wrappers [accept_simps]:
  "accepts u (ZOptional s) v \<longleftrightarrow> v = JUndef \<or> accepts u s v"
  "accepts u (ZDefault s d) v \<longleftrightarrow> v = JUndef \<or> accepts u s v"
  "accepts u (ZPreprocess p s) v \<longleftrightarrow> accepts u s (run_pre p v)"
  by (auto simp: accepts_def)

lemma accepts_union [accept_simps]:
  "accepts u (ZUnion (s # ss)) v \<longleftrightarrow> accepts u s v \<or> accepts u (ZUnion ss) v"
  by (auto simp: accepts_def split: option.splits)

lemma elems_of_None: "elems_of f xs = None \<longleftrightarrow> (\<exists>x \<in> set xs. f x = None)"
  by (induction xs) (auto split: option.splits)

lemma fields_of_None: "fields_of P fs m = None \<longleftrightarrow> (\<exists>(k, s) \<in> set fs. P s (js_get m k) = None)"
  by (induction fs) (auto split: option.splits)

lemma accepts_array [accept_simps]:
  "accepts u (ZArray n s) (JArr xs) \<longleftrightarrow> len_ok n (length xs) \<and> list_all (accepts u s) xs"
  using elems_of_None [of "zparse u s" xs] by (auto simp: accepts_def list_all_iff)

lemma accepts_object [accept_simps]:
  "accepts u (ZObject fs) (JObj m) \<longleftrightarrow> list_all (\<lambda>(k, s). accepts u s (js_get m k)) fs"
  by (auto simp: accepts_def list_all_iff fields_of_None)

lemma accepts_JStrs [accept_simps]:
  "accepts u (ZArray n s) (JStrs xs) \<longleftrightarrow> len_ok n (length xs) \<and> list_all (\<lambda>x. accepts u s (JStr x)) xs"
  by (simp add: JStrs_def accept_simps list_all_iff)

lemma strs_or_undef_cases: "strs_or_undef xs = JUndef \<or> strs_or_undef xs = JStrs xs"
  by (simp add: strs_or_undef_def)

lemma undef_forms [accept_simps]:
  "str_or_undef s = JUndef \<longleftrightarrow> s = []" "num_or_undef x = JUndef \<longleftrightarrow> x = 0" "strs_or_undef xs = JUndef \<longleftrightarrow> xs = []"
  by (simp_all add: str_or_undef_def num_or_undef_def strs_or_undef_def)

lemma defined_forms [accept_simps]:
  "s \<noteq> [] \<Longrightarrow> str_or_undef s = JStr s" "x \<noteq> 0 \<Longrightarrow> num_or_undef x = JNum (Fin x)" "xs \<noteq> [] \<Longrightarrow> strs_or_undef xs = JStrs xs"
  by (simp_all add: str_or_undef_def num_or_undef_def strs_or_undef_def)

lemma safe_int_of_int [simp]:
  "safe_int (of_int i) \<longleftrightarrow> \<bar>i\<bar> \<le> 9007199254740991" "safe_int 0" "safe_int 1"
  "safe_int (numeral n) \<longleftrightarrow> (numeral n :: int) \<le> 9007199254740991"
proof -
  have "\<bar>rat_of_int i\<bar> \<le> 9007199254740991 \<longleftrightarrow> \<bar>i\<bar> \<le> 9007199254740991"
    by (metis of_int_abs of_int_le_iff of_int_numeral)
  then show "safe_int (of_int i) \<longleftrightarrow> \<bar>i\<bar> \<le> 9007199254740991" by (simp add: safe_int_def)
qed (simp_all add: safe_int_def)

lemma int_checks [accept_simps]: "check_ok CInt x \<longleftrightarrow> safe_int x"
  by (simp add: safe_int_def)

declare check_ok.simps(1) [simp del]

lemma port_check [accept_simps]: "accepts u PortSchema (JInt p) \<longleftrightarrow> port_ok p"
  by (auto simp: PortSchema_def accept_simps port_ok_def)

lemma vmess_accepted: "complete u (FVmess s) \<Longrightarrow> accepts u VmessOutboundSettingsSchema (JObj (vmessToWire s))"
  by (auto simp: VmessOutboundSettingsSchema_def VmessOutboundServerSchema_def VmessOutboundUserSchema_def
      VmessSecuritySchema_def VmessSecurityEnum_def vmessToWire_def accept_simps)


lemma trojan_accepted: "complete u (FTrojan s) \<Longrightarrow> accepts u TrojanOutboundSettingsSchema (JObj (trojanToWire s))"
  by (auto simp: TrojanOutboundSettingsSchema_def TrojanOutboundServerSchema_def trojanToWire_def
      one_server_def accept_simps)

lemma shadowsocks_accepted:
  "complete u (FShadowsocks s) \<Longrightarrow> accepts u ShadowsocksOutboundSettingsSchema (JObj (shadowsocksToWire s))"
  by (auto simp: ShadowsocksOutboundSettingsSchema_def ShadowsocksOutboundServerSchema_def SSMethodSchema_def
      SS_METHODS_def shadowsocksToWire_def one_server_def accept_simps)

lemma socks_accepted: "complete u (FSocks s) \<Longrightarrow> accepts u SocksOutboundSettingsSchema (JObj (simpleAuthToWire s))"
  by (auto simp: SocksOutboundSettingsSchema_def SocksOutboundServerSchema_def SocksOutboundUserSchema_def
      simpleAuthToWire_def one_server_def accept_simps)

lemma http_accepted: "complete u (FHttp s) \<Longrightarrow> accepts u HttpOutboundSettingsSchema (JObj (simpleAuthToWire s))"
  by (auto simp: HttpOutboundSettingsSchema_def HttpOutboundServerSchema_def HttpOutboundUserSchema_def
      simpleAuthToWire_def one_server_def accept_simps)

lemma hysteria_accepted:
  "complete u (FHysteria s) \<Longrightarrow> accepts u HysteriaOutboundSettingsSchema (JObj (hysteriaToWire s))"
  by (auto simp: HysteriaOutboundSettingsSchema_def hysteriaToWire_def accept_simps)

lemma blackhole_accepted:
  "complete u (FBlackhole t) \<Longrightarrow> accepts u BlackholeOutboundSettingsSchema (JObj (blackholeToWire t))"
  by (auto simp: BlackholeOutboundSettingsSchema_def BlackholeResponseTypeSchema_def blackholeToWire_def accept_simps)

lemma loopback_accepted: "accepts u LoopbackOutboundSettingsSchema (JObj (loopbackToWire t))"
  by (cases "t = []") (auto simp: LoopbackOutboundSettingsSchema_def loopbackToWire_def accept_simps)

lemma accepts_undef [accept_simps]:
  "\<not> accepts u ZString JUndef" "\<not> accepts u (ZEnum es) JUndef" "\<not> accepts u (ZNumber cs) JUndef"
  "\<not> accepts u (ZArray n s) JUndef" "\<not> accepts u (ZObject fs) JUndef"
  by (simp_all add: accepts_def is_str_def str_where_def number_ok_def keep_if_def)

lemma accepts_optional_forms [accept_simps]:
  "accepts u ZString (str_or_undef s) \<longleftrightarrow> s \<noteq> []"
  "accepts u (ZEnum es) (str_or_undef s) \<longleftrightarrow> s \<noteq> [] \<and> s \<in> set es"
  "accepts u (ZNumber cs) (num_or_undef x) \<longleftrightarrow> x \<noteq> 0 \<and> list_all (\<lambda>c. check_ok c x) cs"
  "accepts u (ZArray n t) (strs_or_undef xs) \<longleftrightarrow> xs \<noteq> [] \<and> accepts u (ZArray n t) (JStrs xs)"
  by (simp_all add: str_or_undef_def num_or_undef_def strs_or_undef_def accept_simps)

lemma list_all_True [accept_simps]: "list_all (\<lambda>_. True) xs"
  by (induction xs) simp_all

lemma safe_int_pos: "safe_int x \<Longrightarrow> 0 < x \<Longrightarrow> 1 \<le> x"
  by (auto simp: safe_int_def) (metis of_int_1_le_iff of_int_0_less_iff zless_imp_add1_zle add_0)

lemma count_cases: "count_ok x \<Longrightarrow> x = 0 \<or> 1 \<le> x"
  using safe_int_pos [of x] by (cases "x = 0") (simp_all add: count_ok_def)

lemma vless_sniffing_accepted:
  assumes "set (rs_destOverride s) \<subseteq> set DEST_OVERRIDE"
  shows "accepts u SniffingSchema (reverseSniffingToWire s)"
  using assms by (auto simp: SniffingSchema_def SniffingDestSchema_def reverseSniffingToWire_def
      DEST_OVERRIDE_def accept_simps list_all_iff)

lemma sniffing_empty_accepted: "accepts u SniffingSchema (JObj [])"
  by (simp add: SniffingSchema_def accept_simps)

lemma vless_accepted: "complete u (FVless s) \<Longrightarrow> accepts u VlessOutboundSettingsSchema (JObj (vlessToWire s))"
proof -
  assume c: "complete u (FVless s)"
  then have "accepts u SniffingSchema (js_get (vless_reverse s) ''sniffing'')"
    by (auto simp: vless_reverse_def vless_complete_def Let_def vless_sniffing_accepted sniffing_empty_accepted)
  moreover have "js_get (vless_reverse s) ''tag'' = JStr (lf_reverseTag s)" by (simp add: vless_reverse_def Let_def)
  ultimately have r: "accepts u (ZObject [(''tag'', ZString), (''sniffing'', ZOptional SniffingSchema)])
      (JObj (vless_reverse s))"
    by (simp add: accept_simps)
  show ?thesis
    using c r unfolding VlessOutboundSettingsSchema_def
    by (auto simp: FlowSchema_def vlessToWire_def accept_simps vless_complete_def port_ok_def
        seed_ok_def list_all_iff safe_int_def)
qed

lemma integer_accepted:
  "(case n of JNum (Fin x) \<Rightarrow> safe_int x | _ \<Rightarrow> False) \<Longrightarrow> accepts u (ZInt []) n"
  by (auto simp: accept_simps split: js.split_asm jnum.split_asm)

lemma wireguard_accepted:
  "complete u (FWireguard s) \<Longrightarrow> accepts u WireguardOutboundSettingsSchema (JObj (wireguardToWire s))"
proof -
  assume c: "complete u (FWireguard s)"
  have peers: "accepts u WireguardOutboundPeerSchema (wireguardPeerToWire p)" if "p \<in> set (wf_peers s)" for p
    using c that by (auto simp: WireguardOutboundPeerSchema_def wireguardPeerToWire_def accept_simps
        wg_complete_def list_all_iff count_ok_def)
  have reserved: "list_all (accepts u (ZInt [])) (finite_numbers (split_on CHR '','' (wf_reserved s)))"
    using c integer_accepted by (auto simp: wg_complete_def list_all_iff)
  have counts: "wf_mtu s = 0 \<or> 1 \<le> wf_mtu s" "wf_workers s = 0 \<or> 1 \<le> wf_workers s"
    using c count_cases by (simp_all add: wg_complete_def)
  have strategy: "WireguardDomainStrategySchema = ZEnum WG_STRATEGIES"
    by (simp add: WireguardDomainStrategySchema_def WG_STRATEGIES_def)
  have "list_all (accepts u WireguardOutboundPeerSchema \<circ> wireguardPeerToWire) (wf_peers s)"
    using peers by (simp add: list_all_iff)
  then show ?thesis
    using c counts reserved
    by (cases "wf_mtu s = 0"; cases "wf_workers s = 0"; cases "wf_domainStrategy s = []")
      (simp_all add: WireguardOutboundSettingsSchema_def strategy wireguardToWire_def accept_simps
        wg_complete_def count_ok_def list.pred_map Suc_le_eq)
qed

lemma noise_accepted:
  "nf_type n \<in> {''rand'', ''str'', ''base64'', ''hex''} \<Longrightarrow> nf_applyTo n \<in> {''ip'', ''ipv4'', ''ipv6''}
     \<Longrightarrow> accepts u FreedomNoiseSchema (noiseToWire n)"
  by (simp add: FreedomNoiseSchema_def FreedomNoiseTypeSchema_def FreedomNoiseApplyToSchema_def
      noiseToWire_def accept_simps)

lemma final_rule_accepted:
  "ff_action r \<in> {''allow'', ''block''} \<Longrightarrow> accepts u FreedomFinalRuleSchema (finalRuleToWire r)"
  by (simp add: FreedomFinalRuleSchema_def FreedomFinalRuleActionSchema_def finalRuleToWire_def accept_simps)

lemma fragment_accepted:
  "accepts u (ZOptional FreedomFragmentSchema) (fragmentToWire (Some (fragment_fields p l i x)))"
  by (auto simp: FreedomFragmentSchema_def fragmentToWire_def fragment_fields_def accept_simps Let_def
      js_put_all_def js_put_def js_has_def is_index_key_def is_digit_def)

lemma freedom_accepted: "complete u (FFreedom s) \<Longrightarrow> accepts u FreedomOutboundSettingsSchema (JObj (freedomToWire s))"
proof -
  assume c: "complete u (FFreedom s)"
  have strategy: "OutboundDomainStrategySchema = ZEnum FREEDOM_STRATEGIES"
    by (simp add: OutboundDomainStrategySchema_def FREEDOM_STRATEGIES_def)
  have "list_all (accepts u FreedomNoiseSchema \<circ> noiseToWire) (fr_noises s)"
    "list_all (accepts u FreedomFinalRuleSchema \<circ> finalRuleToWire) (fr_finalRules s)"
    using c noise_accepted final_rule_accepted by (auto simp: freedom_complete_def list_all_iff)
  moreover have "accepts u (ZOptional FreedomFragmentSchema) (fragmentToWire (fr_fragment s))"
    using c fragment_accepted by (auto simp: freedom_complete_def)
  ultimately show ?thesis
    using c by (cases "fr_domainStrategy s = []") (simp_all add: FreedomOutboundSettingsSchema_def strategy freedomToWire_def accept_simps
        freedom_complete_def count_ok_def list.pred_map)
qed

lemma dns_rule_accepted:
  assumes "safe_int (dr_rCode r)" "dr_rCode r \<le> 65535"
    "list_all is_digit (js_trim (dr_qType r)) \<longrightarrow> js_trim (dr_qType r) = []
       \<or> (\<exists>x. js_number_of_string (js_trim (dr_qType r)) = Fin x \<and> safe_int x)"
  shows "accepts u DNSRuleSchema (dnsRuleToWire r)"
  using assms by (auto simp: DNSRuleSchema_def DNSRuleActionSchema_def dnsRuleToWire_def accept_simps Let_def
      one_of_def DNS_ACTIONS_def)

lemma dns_accepted: "complete u (FDns s) \<Longrightarrow> accepts u DNSOutboundSettingsSchema (JObj (dnsToWire s))"
proof -
  assume c: "complete u (FDns s)"
  then have "list_all (accepts u DNSRuleSchema \<circ> dnsRuleToWire) (df_rules s)"
    using dns_rule_accepted by (auto simp: dns_complete_def list_all_iff)
  then show ?thesis
    using c by (auto simp: DNSOutboundSettingsSchema_def dnsToWire_def accept_simps dns_complete_def
        count_ok_def list.pred_map)
qed


lemma accepts_discriminated:
  "option_for k v ss = Some s \<Longrightarrow> accepts u (ZDiscriminated k ss) v = accepts u s v"
  by (simp add: accepts_def)

lemma settings_accepted:
  assumes "complete u s" "js_get w ''protocol'' = JStr (form_protocol s)"
    "js_get w ''settings'' = JObj (settingsToWire s)"
  shows "accepts u OutboundSettingsSchema (JObj w)"
  using assms
  by (cases s) (simp_all del: complete.simps add: OutboundSettingsSchema_def accepts_discriminated
      option_for_def option_literal_def accept_simps vmess_accepted vless_accepted trojan_accepted
      shadowsocks_accepted socks_accepted http_accepted wireguard_accepted hysteria_accepted
      freedom_accepted blackhole_accepted dns_accepted loopback_accepted)

text \<open>C15. Every complete outbound form is written in a shape that the wire schema
  \<open>OutboundSettingsSchema\<close> accepts, for each of the twelve protocols.\<close>

theorem outbound_payload_accepted:
  assumes "zod P u" "complete u (of_settings v)"
  shows "P OutboundSettingsSchema (JObj (formValuesToWirePayload v)) \<noteq> None"
proof -
  have "accepts u OutboundSettingsSchema (JObj (formValuesToWirePayload v))"
    by (rule settings_accepted [OF assms(2)]) (simp_all add: payload_get)
  then show ?thesis using zod.laws_determine [OF assms(1), of OutboundSettingsSchema] by (simp add: accepts_def)
qed

theorem outbound_payload_accepted_witness:
  "zparse (\<lambda>_. True) OutboundSettingsSchema
     (JObj (formValuesToWirePayload (sample_form (FVless sample_vless)))) \<noteq> None"
  by (rule outbound_payload_accepted [OF zod_reference.zod_axioms])
    (simp add: sample_form_def sample_vless_def vless_complete_def port_ok_def REVERSE_SNIFFING_DEFAULT_def)

end
