(* ===== verification/InboundForm.thy ===== *)
theory InboundForm
  imports JsOrder Schemas
begin

text \<open>
  The inbound editor's adapter \<open>lib/xray/inbound-form-adapter.ts\<close>, the schema defaults of
  \<open>lib/xray/stream-defaults.ts\<close>, and the reading of stored rows, \<open>lib/xray/inbound-from-db.ts\<close>
  with \<open>coerceInboundJsonField\<close> of \<open>models/dbinbound.ts\<close>.

  The functions that update the stream object in place return the updated object; a row
  that holds an object (not text) shares it with the form, and sees the same update.
  \<open>None\<close> is the \<open>TypeError\<close> of reading or assigning a member of a certificate entry that is
  \<open>null\<close> or a primitive.  Keys are own properties: names inherited from \<open>Object.prototype\<close> are
  not looked up.
\<close>

section \<open>Rows and form values\<close>

record raw_inbound =
  ri_userId :: "rat option"
  ri_port :: "rat option"
  ri_listen :: "string option"
  ri_protocol :: "string option"
  ri_tag :: "string option"
  ri_settings :: js
  ri_streamSettings :: js
  ri_sniffing :: js
  ri_up :: "rat option"
  ri_down :: "rat option"
  ri_total :: "rat option"
  ri_remark :: "string option"
  ri_enable :: "bool option"
  ri_expiryTime :: "rat option"
  ri_trafficReset :: "string option"
  ri_lastTrafficResetTime :: "rat option"
  ri_nodeId :: "rat option"

record inbound_form =
  nf_userId :: "rat option"
  nf_remark :: string
  nf_enable :: bool
  nf_port :: rat
  nf_listen :: string
  nf_tag :: string
  nf_expiryTime :: rat
  nf_sniffing :: obj
  nf_stream :: "obj option"
  nf_up :: rat
  nf_down :: rat
  nf_total :: rat
  nf_trafficReset :: string
  nf_lastTrafficResetTime :: rat
  nf_nodeId :: "rat option"
  nf_protocol :: string
  nf_settings :: obj

record wire_inbound =
  wi_userId :: "rat option"
  wi_up :: rat
  wi_down :: rat
  wi_total :: rat
  wi_remark :: string
  wi_enable :: bool
  wi_expiryTime :: rat
  wi_trafficReset :: string
  wi_lastTrafficResetTime :: rat
  wi_listen :: string
  wi_port :: rat
  wi_protocol :: string
  wi_settings :: string
  wi_streamSettings :: string
  wi_sniffing :: string
  wi_tag :: string
  wi_nodeId :: "rat option"

section \<open>From a row to the form\<close>

definition parsed_object :: "string \<Rightarrow> obj" where
  "parsed_object s = (if js_trim s = [] then []
     else case JSON_parse (js_trim s) of Some (JObj m) \<Rightarrow> m | _ \<Rightarrow> [])"

definition coerceJsonObject :: "js \<Rightarrow> obj" where
  "coerceJsonObject v = (case v of JObj m \<Rightarrow> m | JStr s \<Rightarrow> parsed_object s | _ \<Rightarrow> [])"

definition coerceInboundJsonField :: "js \<Rightarrow> obj" where
  "coerceInboundJsonField v = (case v of JObj m \<Rightarrow> m | JStr s \<Rightarrow> parsed_object s | _ \<Rightarrow> [])"

definition TRAFFIC_RESETS :: "string list" where
  "TRAFFIC_RESETS = [''never'', ''hourly'', ''daily'', ''weekly'', ''monthly'']"

definition coerceTrafficReset :: "string option \<Rightarrow> string" where
  "coerceTrafficReset v = (case v of
     Some s \<Rightarrow> if s \<in> set TRAFFIC_RESETS then s else ''never'' | None \<Rightarrow> ''never'')"

definition NETWORK_SETTINGS_KEY :: "(string \<times> string) list" where
  "NETWORK_SETTINGS_KEY =
     [(''tcp'', ''tcpSettings''), (''kcp'', ''kcpSettings''), (''ws'', ''wsSettings''),
      (''grpc'', ''grpcSettings''), (''httpupgrade'', ''httpupgradeSettings''),
      (''xhttp'', ''xhttpSettings''), (''hysteria'', ''hysteriaSettings'')]"

definition object_like :: "js \<Rightarrow> bool" where
  "object_like v = (case v of JObj _ \<Rightarrow> True | JArr _ \<Rightarrow> True | _ \<Rightarrow> False)"

definition healStreamNetworkKey :: "obj \<Rightarrow> obj" where
  "healStreamNetworkKey stream =
     (let network = (case js_get stream ''network'' of JStr s \<Rightarrow> s | _ \<Rightarrow> []) in
      case map_of NETWORK_SETTINGS_KEY network of
        None \<Rightarrow> stream
      | Some key \<Rightarrow> if object_like (js_get stream key) then stream else js_put key (JObj []) stream)"

text \<open>
  A loop over \<open>tlsSettings.certificates\<close> that updates each entry; \<open>f\<close> is the loop body.
\<close>

fun map_entries :: "(js \<Rightarrow> js option) \<Rightarrow> js list \<Rightarrow> js list option" where
  "map_entries f [] = Some []"
| "map_entries f (x # xs) = (case f x of None \<Rightarrow> None | Some y \<Rightarrow> map_option (\<lambda>ys. y # ys) (map_entries f xs))"

definition tlsCerts :: "obj \<Rightarrow> js list" where
  "tlsCerts stream = (case js_get stream ''tlsSettings'' of
     JObj tls \<Rightarrow> (case js_get tls ''certificates'' of JArr cs \<Rightarrow> cs | _ \<Rightarrow> []) | _ \<Rightarrow> [])"

definition set_tlsCerts :: "js list \<Rightarrow> obj \<Rightarrow> obj" where
  "set_tlsCerts cs stream = (case js_get stream ''tlsSettings'' of
     JObj tls \<Rightarrow> (case js_get tls ''certificates'' of
        JArr _ \<Rightarrow> js_put ''tlsSettings'' (JObj (js_put ''certificates'' (JArr cs) tls)) stream
      | _ \<Rightarrow> stream)
   | _ \<Rightarrow> stream)"

definition update_certs :: "(js \<Rightarrow> js option) \<Rightarrow> obj \<Rightarrow> obj option" where
  "update_certs f stream = map_option (\<lambda>cs. set_tlsCerts cs stream) (map_entries f (tlsCerts stream))"

definition nonempty_array :: "js \<Rightarrow> bool" where
  "nonempty_array v = (case v of JArr (_ # _) \<Rightarrow> True | _ \<Rightarrow> False)"

definition cert_useFile :: "obj \<Rightarrow> bool" where
  "cert_useFile c =
     (let hasFile = truthy (js_get c ''certificateFile'') \<or> truthy (js_get c ''keyFile'');
          hasInline = nonempty_array (js_get c ''certificate'') \<or> nonempty_array (js_get c ''key'')
      in hasFile \<or> \<not> hasInline)"

definition add_useFile :: "js \<Rightarrow> js option" where
  "add_useFile c = (case c of
     JObj m \<Rightarrow> Some (case js_get m ''useFile'' of JBool _ \<Rightarrow> c
                     | _ \<Rightarrow> JObj (js_put ''useFile'' (JBool (cert_useFile m)) m))
   | JArr _ \<Rightarrow> Some c
   | _ \<Rightarrow> None)"

definition synthesizeTlsCertUseFile :: "obj \<Rightarrow> obj option" where
  "synthesizeTlsCertUseFile stream = update_certs add_useFile stream"

text \<open>\<open>delete c.useFile\<close> is harmless on any value but \<open>null\<close> and \<open>undefined\<close>.\<close>

definition drop_useFile :: "js \<Rightarrow> js option" where
  "drop_useFile c = (case c of
     JObj m \<Rightarrow> Some (JObj (js_del ''useFile'' m)) | JNull \<Rightarrow> None | JUndef \<Rightarrow> None | _ \<Rightarrow> Some c)"

definition stripTlsCertUseFile :: "obj \<Rightarrow> obj option" where
  "stripTlsCertUseFile stream = update_certs drop_useFile stream"

definition form_stream :: "obj \<Rightarrow> obj option option" where
  "form_stream rawStream =
     (if rawStream = [] then Some None
      else map_option Some (synthesizeTlsCertUseFile (healStreamNetworkKey rawStream)))"

definition default_to :: "'a \<Rightarrow> 'a option \<Rightarrow> 'a" where
  "default_to d v = (case v of None \<Rightarrow> d | Some x \<Rightarrow> x)"

definition rawInboundToFormValues :: "raw_inbound \<Rightarrow> inbound_form option" where
  "rawInboundToFormValues row =
     map_option (\<lambda>stream.
       \<lparr>nf_userId = ri_userId row,
        nf_remark = default_to [] (ri_remark row),
        nf_enable = default_to True (ri_enable row),
        nf_port = default_to 0 (ri_port row),
        nf_listen = default_to [] (ri_listen row),
        nf_tag = default_to [] (ri_tag row),
        nf_expiryTime = default_to 0 (ri_expiryTime row),
        nf_sniffing = coerceJsonObject (ri_sniffing row),
        nf_stream = stream,
        nf_up = default_to 0 (ri_up row),
        nf_down = default_to 0 (ri_down row),
        nf_total = default_to 0 (ri_total row),
        nf_trafficReset = coerceTrafficReset (ri_trafficReset row),
        nf_lastTrafficResetTime = default_to 0 (ri_lastTrafficResetTime row),
        nf_nodeId = ri_nodeId row,
        nf_protocol = (if default_to [] (ri_protocol row) = [] then ''vless'' else default_to [] (ri_protocol row)),
        nf_settings = coerceJsonObject (ri_settings row)\<rparr>)
     (form_stream (coerceJsonObject (ri_streamSettings row)))"

section \<open>From the form to the wire\<close>

fun pruneEmpty :: "js \<Rightarrow> js" where
  "pruneEmpty (JArr xs) = JArr (map pruneEmpty xs)"
| "pruneEmpty (JObj m) =
     JObj (js_put_all [] (filter (\<lambda>(k, p). p \<noteq> JUndef) (map (\<lambda>(k, v). (k, pruneEmpty v)) m)))"
| "pruneEmpty v = v"

definition pruned :: "obj \<Rightarrow> obj" where
  "pruned m = (case pruneEmpty (JObj m) of JObj r \<Rightarrow> r | _ \<Rightarrow> [])"

definition clientSchemaForProtocol :: "string \<Rightarrow> zschema option" where
  "clientSchemaForProtocol protocol =
     (if protocol = ''vless'' then Some VlessClientSchema
      else if protocol = ''vmess'' then Some VmessClientSchema
      else if protocol = ''trojan'' then Some TrojanClientSchema
      else if protocol = ''shadowsocks'' then Some ShadowsocksClientSchema
      else if protocol = ''hysteria'' then Some HysteriaClientSchema
      else None)"

definition normalizeClients :: "(zschema \<Rightarrow> js \<Rightarrow> js option) \<Rightarrow> string \<Rightarrow> js \<Rightarrow> js" where
  "normalizeClients P protocol clients = (case (clientSchemaForProtocol protocol, clients) of
     (Some schema, JArr cs) \<Rightarrow> JArr (map (\<lambda>c. case P schema c of Some r \<Rightarrow> r | None \<Rightarrow> c) cs)
   | _ \<Rightarrow> clients)"

text \<open>\<open>s.k?.length\<close> as a condition.\<close>

definition has_length :: "js \<Rightarrow> bool" where
  "has_length v = (case v of JArr xs \<Rightarrow> xs \<noteq> [] | JStr s \<Rightarrow> s \<noteq> [] | _ \<Rightarrow> False)"

definition normalizeSniffing :: "obj \<Rightarrow> obj" where
  "normalizeSniffing s =
     (if \<not> truthy (js_get s ''enabled'') then [(''enabled'', JBool False)]
      else [(''enabled'', JBool True), (''destOverride'', js_get s ''destOverride'')]
        @ (if truthy (js_get s ''metadataOnly'') then [(''metadataOnly'', JBool True)] else [])
        @ (if truthy (js_get s ''routeOnly'') then [(''routeOnly'', JBool True)] else [])
        @ (if has_length (js_get s ''ipsExcluded'') then [(''ipsExcluded'', js_get s ''ipsExcluded'')] else [])
        @ (if has_length (js_get s ''domainsExcluded'') then [(''domainsExcluded'', js_get s ''domainsExcluded'')] else []))"

definition drop_empty_fallbacks :: "obj \<Rightarrow> obj" where
  "drop_empty_fallbacks settings =
     (if js_get settings ''fallbacks'' = JArr [] then js_del ''fallbacks'' settings else settings)"

text \<open>
  What is left of \<open>stream.finalmask\<close>: \<open>None\<close> when every part is empty, else the block without
  its empty lists.
\<close>

definition kept_masks :: "obj \<Rightarrow> obj option" where
  "kept_masks fm =
     (let hasTcp = nonempty_array (js_get fm ''tcp'');
          hasUdp = nonempty_array (js_get fm ''udp'');
          hasQuic = \<not> nullish (js_get fm ''quicParams'');
          fm1 = (if hasTcp then fm else js_del ''tcp'' fm);
          fm2 = (if hasUdp then fm1 else js_del ''udp'' fm1)
      in if \<not> hasTcp \<and> \<not> hasUdp \<and> \<not> hasQuic then None else Some fm2)"

definition drop_empty_masks :: "obj \<Rightarrow> obj" where
  "drop_empty_masks stream =
     (let v = js_get stream ''finalmask'' in
      if \<not> object_like v then stream
      else (case kept_masks (case v of JObj m \<Rightarrow> m | _ \<Rightarrow> []) of
              None \<Rightarrow> js_del ''finalmask'' stream
            | Some fm \<Rightarrow> js_put ''finalmask'' (JObj fm) stream))"

definition drop_empty_auth :: "obj \<Rightarrow> obj" where
  "drop_empty_auth stream = (case js_get stream ''hysteriaSettings'' of
     JObj hs \<Rightarrow> if js_get hs ''auth'' = JStr [] \<or> nullish (js_get hs ''auth'')
                then js_put ''hysteriaSettings'' (JObj (js_del ''auth'' hs)) stream else stream
   | _ \<Rightarrow> stream)"

definition dropLegacyOptionalEmpties :: "obj \<Rightarrow> obj option \<Rightarrow> obj \<times> obj option" where
  "dropLegacyOptionalEmpties settings stream =
     (drop_empty_fallbacks settings, map_option (\<lambda>s. drop_empty_auth (drop_empty_masks s)) stream)"

definition wire_settings :: "(zschema \<Rightarrow> js \<Rightarrow> js option) \<Rightarrow> string \<Rightarrow> obj \<Rightarrow> obj" where
  "wire_settings P protocol settings =
     (let s = pruned settings in
      case js_get s ''clients'' of
        JArr cs \<Rightarrow> js_put ''clients'' (normalizeClients P protocol (JArr cs)) s | _ \<Rightarrow> s)"

text \<open>The pruned stream without the UI toggle; \<open>Some None\<close> when the form has no stream.\<close>

definition wire_stream :: "obj option \<Rightarrow> obj option option" where
  "wire_stream stream = (case stream of
     None \<Rightarrow> Some None | Some m \<Rightarrow> map_option Some (stripTlsCertUseFile (pruned m)))"

definition json_text :: "obj \<Rightarrow> string" where
  "json_text m = the (JSON_stringify (JObj m))"

definition formValuesToWirePayload ::
  "(zschema \<Rightarrow> js \<Rightarrow> js option) \<Rightarrow> inbound_form \<Rightarrow> wire_inbound option" where
  "formValuesToWirePayload P v =
     map_option (\<lambda>stream.
       let (settings, stream') =
             dropLegacyOptionalEmpties (wire_settings P (nf_protocol v) (nf_settings v)) stream in
       \<lparr>wi_userId = (case nf_userId v of Some n \<Rightarrow> if n \<le> 0 then None else Some n | None \<Rightarrow> None),
        wi_up = nf_up v, wi_down = nf_down v, wi_total = nf_total v,
        wi_remark = nf_remark v, wi_enable = nf_enable v, wi_expiryTime = nf_expiryTime v,
        wi_trafficReset = nf_trafficReset v,
        wi_lastTrafficResetTime = nf_lastTrafficResetTime v,
        wi_listen = nf_listen v, wi_port = nf_port v, wi_protocol = nf_protocol v,
        wi_settings = json_text settings,
        wi_streamSettings = (case stream' of Some s \<Rightarrow> json_text s | None \<Rightarrow> []),
        wi_sniffing = json_text (normalizeSniffing (nf_sniffing v)),
        wi_tag = nf_tag v,
        wi_nodeId = nf_nodeId v\<rparr>)
     (wire_stream (nf_stream v))"

section \<open>Schema defaults for stored rows\<close>

definition NETWORK_KEY_MAP :: "(string \<times> string) list" where
  "NETWORK_KEY_MAP =
     [(''tcp'', ''tcpSettings''), (''kcp'', ''kcpSettings''), (''ws'', ''wsSettings''),
      (''grpc'', ''grpcSettings''), (''httpupgrade'', ''httpupgradeSettings''),
      (''xhttp'', ''xhttpSettings''), (''hysteria'', ''hysteriaSettings'')]"

definition parseOrDefault :: "(zschema \<Rightarrow> js \<Rightarrow> js option) \<Rightarrow> zschema \<Rightarrow> js \<Rightarrow> js" where
  "parseOrDefault P schema v = (case P schema (js_coalesce v (JObj [])) of
     Some r \<Rightarrow> r
   | None \<Rightarrow> (case P schema (JObj []) of Some r \<Rightarrow> r | None \<Rightarrow> v))"

definition networkSchemaFor :: "js \<Rightarrow> zschema option" where
  "networkSchemaFor network =
     (if network = JStr ''tcp'' then Some TcpStreamSettingsSchema
      else if network = JStr ''kcp'' then Some KcpStreamSettingsSchema
      else if network = JStr ''ws'' then Some WsStreamSettingsSchema
      else if network = JStr ''grpc'' then Some GrpcStreamSettingsSchema
      else if network = JStr ''httpupgrade'' then Some HttpUpgradeStreamSettingsSchema
      else if network = JStr ''xhttp'' then Some XHttpStreamSettingsSchema
      else if network = JStr ''hysteria'' then Some HysteriaStreamSettingsSchema
      else None)"

definition securitySchemaFor :: "js \<Rightarrow> (string \<times> zschema) option" where
  "securitySchemaFor security =
     (if security = JStr ''tls'' then Some (''tlsSettings'', TlsStreamSettingsSchema)
      else if security = JStr ''reality'' then Some (''realitySettings'', RealityStreamSettingsSchema)
      else None)"

text \<open>
  \<open>NETWORK_KEY_MAP[network]\<close> for a network that is not a string converts it to one; no
  schema exists for it, so the key is not used.
\<close>

definition fill_network :: "(zschema \<Rightarrow> js \<Rightarrow> js option) \<Rightarrow> js \<Rightarrow> obj \<Rightarrow> obj" where
  "fill_network P network out =
     (case (map_of NETWORK_KEY_MAP (js_string network), networkSchemaFor network) of
        (Some key, Some schema) \<Rightarrow> js_put key (parseOrDefault P schema (js_get out key)) out
      | _ \<Rightarrow> out)"

definition fill_security :: "(zschema \<Rightarrow> js \<Rightarrow> js option) \<Rightarrow> js \<Rightarrow> obj \<Rightarrow> obj" where
  "fill_security P security out = (case securitySchemaFor security of
     Some (key, schema) \<Rightarrow> js_put key (parseOrDefault P schema (js_get out key)) out | None \<Rightarrow> out)"

definition fillStreamDefaults :: "(zschema \<Rightarrow> js \<Rightarrow> js option) \<Rightarrow> obj \<Rightarrow> obj" where
  "fillStreamDefaults P stream =
     (let network = js_coalesce (js_get stream ''network'') (JStr ''tcp'');
          security = js_coalesce (js_get stream ''security'') (JStr ''none'');
          out = js_put ''security'' security (js_put ''network'' network stream)
      in fill_security P security (fill_network P network out))"

record db_inbound =
  di_port :: rat
  di_listen :: "string option"
  di_protocol :: string
  di_settings :: js
  di_streamSettings :: js
  di_sniffing :: js
  di_tag :: "string option"
  di_remark :: "string option"
  di_enable :: "bool option"
  di_expiryTime :: "rat option"
  di_up :: "rat option"
  di_down :: "rat option"
  di_total :: "rat option"

record inbound_doc =
  id_protocol :: string
  id_port :: rat
  id_listen :: string
  id_tag :: string
  id_remark :: string
  id_enable :: bool
  id_expiryTime :: rat
  id_up :: rat
  id_down :: rat
  id_total :: rat
  id_settings :: obj
  id_streamSettings :: obj
  id_sniffing :: obj

definition fillProtocolSettingsDefaults ::
  "(zschema \<Rightarrow> js \<Rightarrow> js option) \<Rightarrow> string \<Rightarrow> obj \<Rightarrow> obj" where
  "fillProtocolSettingsDefaults P protocol settings =
     (case P InboundSettingsSchema (JObj [(''protocol'', JStr protocol), (''settings'', JObj settings)]) of
        Some r \<Rightarrow> (case r of JObj t \<Rightarrow> (case js_get t ''settings'' of JObj s \<Rightarrow> s | _ \<Rightarrow> []) | _ \<Rightarrow> [])
      | None \<Rightarrow> settings)"

definition inboundFromDb :: "(zschema \<Rightarrow> js \<Rightarrow> js option) \<Rightarrow> db_inbound \<Rightarrow> inbound_doc" where
  "inboundFromDb P raw =
     (let rawSettings = coerceInboundJsonField (di_settings raw);
          streamRaw = coerceInboundJsonField (di_streamSettings raw)
      in \<lparr>id_protocol = di_protocol raw,
          id_port = di_port raw,
          id_listen = default_to [] (di_listen raw),
          id_tag = default_to [] (di_tag raw),
          id_remark = default_to [] (di_remark raw),
          id_enable = default_to True (di_enable raw),
          id_expiryTime = default_to 0 (di_expiryTime raw),
          id_up = default_to 0 (di_up raw),
          id_down = default_to 0 (di_down raw),
          id_total = default_to 0 (di_total raw),
          id_settings = fillProtocolSettingsDefaults P (di_protocol raw) rawSettings,
          id_streamSettings = (if streamRaw = [] then streamRaw else fillStreamDefaults P streamRaw),
          id_sniffing = coerceInboundJsonField (di_sniffing raw)\<rparr>)"

end
