(* ===== verification/InboundFormProps.thy ===== *)
theory InboundFormProps
  imports InboundForm
begin

text \<open>
  What the inbound adapters promise: pruning never changes the saved text, client lists are
  projected to their protocol's members, a saved inbound that is opened and saved again keeps
  its texts, and filling in schema defaults is done once and for all.
\<close>

section \<open>Pruning\<close>

fun ordered :: "js \<Rightarrow> bool" where
  "ordered (JArr xs) = list_all ordered xs"
| "ordered (JObj m) = (list_all (\<lambda>kv. ordered (snd kv)) m \<and> enum_order m)"
| "ordered _ = True"

lemma prune_undef [simp]: "pruneEmpty v = JUndef \<longleftrightarrow> v = JUndef"
  by (cases v) auto

lemma enum_order_prune:
  "enum_order m \<Longrightarrow> enum_order (filter (\<lambda>(k, p). p \<noteq> JUndef) (map (\<lambda>(k, v). (k, pruneEmpty v)) m))"
  by simp

lemma pruneEmpty_obj:
  "enum_order m \<Longrightarrow> pruneEmpty (JObj m) =
     JObj (filter (\<lambda>(k, p). p \<noteq> JUndef) (map (\<lambda>(k, v). (k, pruneEmpty v)) m))"
  by (simp only: pruneEmpty.simps put_all_Nil [OF enum_order_prune])

lemma json_ser_prune: "ordered v \<Longrightarrow> json_ser gap ind (pruneEmpty v) = json_ser gap ind v"
proof (induction gap ind v rule: json_ser.induct)
  case (6 gap ind xs)
  have "map (\<lambda>x. case json_ser gap (ind @ gap) (pruneEmpty x) of None \<Rightarrow> ''null'' | Some t \<Rightarrow> t) xs
      = map (\<lambda>x. case json_ser gap (ind @ gap) x of None \<Rightarrow> ''null'' | Some t \<Rightarrow> t) xs"
    using 6 by (intro map_cong refl) (simp add: list_all_iff)
  then have "json_wrap CHR ''['' CHR '']'' gap ind (map (\<lambda>x. case json_ser gap (ind @ gap) (pruneEmpty x) of None \<Rightarrow> ''null'' | Some t \<Rightarrow> t) xs)
      = json_wrap CHR ''['' CHR '']'' gap ind (map (\<lambda>x. case json_ser gap (ind @ gap) x of None \<Rightarrow> ''null'' | Some t \<Rightarrow> t) xs)"
    by (simp only:)
  then show ?case by (simp add: o_def)
next
  case (7 gap ind m)
  let ?f = "\<lambda>kv. case json_ser gap (ind @ gap) (snd kv) of None \<Rightarrow> []
     | Some t \<Rightarrow> [json_quote (fst kv) @ (if gap = [] then '':'' else '': '') @ t]"
  have "concat (map ?f (filter (\<lambda>(k, p). p \<noteq> JUndef) (map (\<lambda>(k, v). (k, pruneEmpty v)) n))) = concat (map ?f n)"
    if "set n \<subseteq> set m" for n
    using that
  proof (induction n)
    case (Cons a n)
    obtain k v where a: "a = (k, v)" by (cases a)
    then have "(k, v) \<in> set m" using Cons.prems by simp
    then have "json_ser gap (ind @ gap) (pruneEmpty v) = json_ser gap (ind @ gap) v"
      using 7 by (fastforce simp: list_all_iff)
    then have "?f (k, pruneEmpty v) = ?f (k, v)" by (simp only: fst_conv snd_conv)
    then show ?case using Cons a by (cases "v = JUndef") (simp_all split: option.splits)
  qed simp
  then show ?case using 7(2) by (simp add: pruneEmpty_obj del: pruneEmpty.simps(2))
qed simp_all

text \<open>Pruning \<open>undefined\<close> members before saving never changes the JSON text that is saved.\<close>

theorem pruning_keeps_text: "ordered v \<Longrightarrow> JSON_stringify (pruneEmpty v) = JSON_stringify v"
  by (simp add: JSON_stringify_def json_ser_prune)

theorem pruning_keeps_text_witness:
  "JSON_stringify (pruneEmpty (JObj [(''a'', JUndef), (''b'', JArr [JUndef, JInt 1])]))
     = JSON_stringify (JObj [(''a'', JUndef), (''b'', JArr [JUndef, JInt 1])])"
  by (rule pruning_keeps_text) (simp add: enum_order_def key_before_def is_index_key_def is_digit_def)

lemma prune_plain: "json_plain v \<Longrightarrow> pruneEmpty v = v"
proof (induction v rule: pruneEmpty.induct)
  case (1 xs)
  then show ?case by (auto simp: list_all_iff intro: map_idI)
next
  case (2 m)
  have "map (\<lambda>(k, v). (k, pruneEmpty v)) m = m"
    using 2 by (auto simp: list_all_iff intro!: map_idI)
  moreover have "filter (\<lambda>(k, p). p \<noteq> JUndef) m = m"
    using 2(2) by (auto simp: list_all_iff filter_id_conv)
  ultimately show ?case using 2(2) by (simp add: pruneEmpty_obj del: pruneEmpty.simps(2))
qed simp_all

lemma pruned_plain [simp]: "obj_plain m \<Longrightarrow> pruned m = m"
  using prune_plain [of "JObj m"] by (simp add: pruned_def del: json_plain.simps)

section \<open>Client lists\<close>

definition schema_keys :: "zschema \<Rightarrow> string list" where
  "schema_keys s = (case s of ZObject fs \<Rightarrow> map fst fs | _ \<Rightarrow> [])"

lemma client_schema:
  assumes "clientSchemaForProtocol p = Some s"
  shows "zfree s" "zwf u s"
  using assms by (auto simp: clientSchemaForProtocol_def split: if_splits)

lemma client_schema_object: "clientSchemaForProtocol p = Some s \<Longrightarrow> \<exists>fs. s = ZObject fs"
  by (auto simp: clientSchemaForProtocol_def VlessClientSchema_def VmessClientSchema_def
      TrojanClientSchema_def ShadowsocksClientSchema_def HysteriaClientSchema_def split: if_splits)

lemma zod_object_keys:
  assumes "zod P u" "P (ZObject fs) c = Some r"
  shows "\<exists>m. r = JObj m \<and> set (map fst m) \<subseteq> set (map fst fs)"
  using assms(2) fields_of_keys [of P fs] unfolding zod.object [OF assms(1)]
  by (auto split: js.splits)

text \<open>Normalising a client list keeps its length, leaves each client that the protocol's schema
  rejects as it was, and gives every other client only members that the schema names; doing it
  again changes nothing.\<close>

theorem clients_projected:
  assumes "zod P u" "clientSchemaForProtocol protocol = Some s"
  shows "\<exists>ds. normalizeClients P protocol (JArr cs) = JArr ds
      \<and> list_all2 (\<lambda>c d. if P s c = None then d = c
           else (\<exists>m. d = JObj m \<and> set (map fst m) \<subseteq> set (schema_keys s))) cs ds
      \<and> normalizeClients P protocol (JArr ds) = JArr ds"
proof -
  let ?n = "\<lambda>c. case P s c of Some r \<Rightarrow> r | None \<Rightarrow> c"
  obtain fs where fs: "s = ZObject fs" using client_schema_object [OF assms(2)] by blast
  have keys: "\<exists>m. r = JObj m \<and> set (map fst m) \<subseteq> set (schema_keys s)" if "P s c = Some r" for c r
    using zod_object_keys [OF assms(1)] that by (simp add: fs schema_keys_def)
  have again: "?n (?n c) = ?n c" for c
    using zod.parse_again [OF assms(1) client_schema(1,2) [OF assms(2)]] by (cases "P s c") auto
  have "list_all2 (\<lambda>c d. if P s c = None then d = c
      else (\<exists>m. d = JObj m \<and> set (map fst m) \<subseteq> set (schema_keys s))) cs (map ?n cs)"
    using keys by (auto simp: list_all2_map2 list_all2_same split: option.splits)
  then show ?thesis using assms(2) again by (simp add: normalizeClients_def o_def)
qed

definition sample_client :: obj where
  "sample_client = [(''password'', JStr ''p''), (''email'', JStr ''a''), (''auth'', JStr ''x''), (''enable'', JBool False)]"

theorem clients_projected_witness:
  "\<exists>ds. normalizeClients (zparse (\<lambda>_. True)) ''trojan'' (JArr [JObj sample_client]) = JArr ds
      \<and> list_all2 (\<lambda>c d. if zparse (\<lambda>_. True) TrojanClientSchema c = None then d = c
           else (\<exists>m. d = JObj m \<and> set (map fst m) \<subseteq> set (schema_keys TrojanClientSchema))) [JObj sample_client] ds
      \<and> normalizeClients (zparse (\<lambda>_. True)) ''trojan'' (JArr ds) = JArr ds"
  by (rule clients_projected [OF zod_reference.zod_axioms]) (simp add: clientSchemaForProtocol_def)

section \<open>Schema defaults\<close>

lemma network_schema:
  assumes "networkSchemaFor n = Some s"
  shows "zfree s" "zwf u s"
  using assms by (auto simp: networkSchemaFor_def split: if_splits)

lemma security_schema:
  assumes "securitySchemaFor n = Some (k, s)"
  shows "zfree s" "zwf u s" "k \<in> {''tlsSettings'', ''realitySettings''}"
  using assms by (auto simp: securitySchemaFor_def split: if_splits)

lemma object_schema_result:
  assumes "zod P u" "P s v = Some r" "s = ZObject fs"
  shows "\<not> nullish r"
  using zod_object_keys [OF assms(1), of fs v r] assms(2,3) by auto

lemma network_object:
  "networkSchemaFor n = Some s \<Longrightarrow> \<exists>fs. s = ZObject fs"
  by (auto simp: networkSchemaFor_def TcpStreamSettingsSchema_def KcpStreamSettingsSchema_def WsStreamSettingsSchema_def
      GrpcStreamSettingsSchema_def HttpUpgradeStreamSettingsSchema_def XHttpStreamSettingsSchema_def
      HysteriaStreamSettingsSchema_def split: if_splits)

lemma security_object: "securitySchemaFor n = Some (k, s) \<Longrightarrow> \<exists>fs. s = ZObject fs"
  by (auto simp: securitySchemaFor_def TlsStreamSettingsSchema_def RealityStreamSettingsSchema_def split: if_splits)

lemma parseOrDefault_again:
  assumes "zod P u" "zfree s" "zwf u s" "\<exists>fs. s = ZObject fs"
  shows "parseOrDefault P s (parseOrDefault P s v) = parseOrDefault P s v"
proof -
  have "P s (js_coalesce r (JObj [])) = Some r" if "P s w = Some r" for w r
    using zod.parse_again [OF assms(1-3) that] object_schema_result [OF assms(1) that] assms(4)
    by (auto simp: js_coalesce_def)
  then show ?thesis by (auto simp: parseOrDefault_def split: option.splits)
qed

lemma network_keys: "map_of NETWORK_KEY_MAP n = Some k \<Longrightarrow>
    k \<noteq> ''network'' \<and> k \<noteq> ''security'' \<and> k \<noteq> ''tlsSettings'' \<and> k \<noteq> ''realitySettings''"
  by (auto simp: NETWORK_KEY_MAP_def split: if_splits)

lemma fill_network_get:
  "k = ''network'' \<or> k = ''security'' \<or> k = ''tlsSettings'' \<or> k = ''realitySettings''
     \<Longrightarrow> map_of (fill_network P n out) k = map_of out k"
  using network_keys by (fastforce simp: fill_network_def split: option.splits)

lemma fill_security_get:
  "k \<noteq> ''tlsSettings'' \<Longrightarrow> k \<noteq> ''realitySettings'' \<Longrightarrow> map_of (fill_security P n out) k = map_of out k"
  using security_schema(3) by (fastforce simp: fill_security_def split: option.splits)

lemma fill_network_again:
  assumes "zod P u" "out' = fill_network P n out \<or> (\<exists>sec. out' = fill_security P sec (fill_network P n out))"
  shows "fill_network P n out' = out'"
proof (cases "map_of NETWORK_KEY_MAP (js_string n)"; cases "networkSchemaFor n")
  fix key s
  assume k: "map_of NETWORK_KEY_MAP (js_string n) = Some key" and s: "networkSchemaFor n = Some s"
  let ?r = "parseOrDefault P s (js_get out key)"
  have "map_of (fill_network P n out) key = Some ?r" using k s by (simp add: fill_network_def)
  then have m: "map_of out' key = Some ?r"
    using assms(2) network_keys [OF k] fill_security_get by fastforce
  then have "parseOrDefault P s (js_get out' key) = ?r"
    using parseOrDefault_again [OF assms(1) network_schema [OF s] network_object [OF s]] by (simp add: js_get_def)
  then show ?thesis using k s js_put_same [OF m] by (simp add: fill_network_def)
qed (simp_all add: fill_network_def)

lemma fill_security_again:
  assumes "zod P u"
  shows "fill_security P n (fill_security P n out) = fill_security P n out"
proof (cases "securitySchemaFor n")
  case (Some a)
  obtain k s where a: "a = (k, s)" by (cases a)
  let ?r = "parseOrDefault P s (js_get out k)"
  have m: "map_of (fill_security P n out) k = Some ?r" using Some a by (simp add: fill_security_def)
  then have "parseOrDefault P s (js_get (fill_security P n out) k) = ?r"
    using parseOrDefault_again [OF assms security_schema(1,2) security_object] Some a by (simp add: js_get_def)
  then show ?thesis using Some a js_put_same [OF m] by (simp add: fill_security_def)
qed (simp add: fill_security_def)

lemma coalesce_again [simp]: "\<not> nullish d \<Longrightarrow> js_coalesce (js_coalesce v d) e = js_coalesce v d"
  by (auto simp: js_coalesce_def)

lemma stream_defaults_again:
  assumes "zod P u"
  shows "fillStreamDefaults P (fillStreamDefaults P stream) = fillStreamDefaults P stream"
proof -
  define n where "n = js_coalesce (js_get stream ''network'') (JStr ''tcp'')"
  define sec where "sec = js_coalesce (js_get stream ''security'') (JStr ''none'')"
  define a where "a = js_put ''security'' sec (js_put ''network'' n stream)"
  define out where "out = fill_security P sec (fill_network P n a)"
  have out: "fillStreamDefaults P stream = out"
    by (simp add: fillStreamDefaults_def Let_def out_def a_def n_def sec_def)
  have m: "map_of out ''network'' = Some n" "map_of out ''security'' = Some sec"
    by (simp_all add: out_def fill_security_get fill_network_get a_def)
  then have "js_coalesce (js_get out ''network'') (JStr ''tcp'') = n" "js_coalesce (js_get out ''security'') (JStr ''none'') = sec"
    by (simp_all add: js_get_def n_def sec_def)
  then have "fillStreamDefaults P out = fill_security P sec (fill_network P n out)"
    using m by (simp add: fillStreamDefaults_def Let_def js_put_same)
  also have "fill_network P n out = out"
    using fill_network_again [OF assms, of out n a] by (auto simp: out_def)
  also have "fill_security P sec out = out" by (simp add: out_def fill_security_again [OF assms])
  finally show ?thesis by (simp add: out)
qed


lemma inbound_settings_option:
  assumes "option_for ''protocol'' (JObj [(''protocol'', JStr p), (''settings'', x)]) ss = Some s"
    "list_all (\<lambda>s. \<exists>q fs. s = ZObject [(''protocol'', ZLiteral q), (''settings'', ZObject fs)]) ss"
  shows "\<exists>fs. s = ZObject [(''protocol'', ZLiteral (JStr p)), (''settings'', ZObject fs)]"
  using assms by (fastforce simp: option_for_def find_Some_iff option_literal_def list_all_iff dest: nth_mem)

lemma inbound_settings_shape:
  assumes "zod P u" "P InboundSettingsSchema (JObj [(''protocol'', JStr p), (''settings'', JObj x)]) = Some r"
  shows "\<exists>s. r = JObj [(''protocol'', JStr p), (''settings'', JObj s)]"
proof -
  obtain ss where ss: "InboundSettingsSchema = ZDiscriminated ''protocol'' ss"
    "list_all (\<lambda>s. \<exists>q fs. s = ZObject [(''protocol'', ZLiteral q), (''settings'', ZObject fs)]) ss"
    by (simp add: InboundSettingsSchema_def VmessInboundSettingsSchema_def VlessInboundSettingsSchema_def
        TrojanInboundSettingsSchema_def ShadowsocksInboundSettingsSchema_def WireguardInboundSettingsSchema_def
        HysteriaInboundSettingsSchema_def HttpInboundSettingsSchema_def MixedInboundSettingsSchema_def
        TunnelInboundSettingsSchema_def TunInboundSettingsSchema_def)
  obtain fs where fs: "P (ZObject [(''protocol'', ZLiteral (JStr p)), (''settings'', ZObject fs)])
      (JObj [(''protocol'', JStr p), (''settings'', JObj x)]) = Some r"
    using assms(2) inbound_settings_option [OF _ ss(2), of p "JObj x"]
    by (auto simp: ss(1) zod.discriminated [OF assms(1)] split: option.splits)
  then show ?thesis
    by (auto simp: zod.object [OF assms(1)] zod.literal [OF assms(1)] split: option.splits)
qed

lemma settings_defaults_again:
  assumes "zod P u"
  shows "fillProtocolSettingsDefaults P p (fillProtocolSettingsDefaults P p x) = fillProtocolSettingsDefaults P p x"
proof (cases "P InboundSettingsSchema (JObj [(''protocol'', JStr p), (''settings'', JObj x)])")
  case (Some r)
  then obtain s where r: "r = JObj [(''protocol'', JStr p), (''settings'', JObj s)]"
    using inbound_settings_shape [OF assms] by blast
  have "P InboundSettingsSchema r = Some r"
    by (rule zod.parse_again [OF assms _ _ Some]) simp_all
  then show ?thesis using Some by (simp add: fillProtocolSettingsDefaults_def r)
qed (simp add: fillProtocolSettingsDefaults_def)

text \<open>The row that holds a document as objects.\<close>

definition row_of_doc :: "inbound_doc \<Rightarrow> db_inbound" where
  "row_of_doc d =
     \<lparr>di_port = id_port d, di_listen = Some (id_listen d), di_protocol = id_protocol d,
      di_settings = JObj (id_settings d), di_streamSettings = JObj (id_streamSettings d),
      di_sniffing = JObj (id_sniffing d), di_tag = Some (id_tag d), di_remark = Some (id_remark d),
      di_enable = Some (id_enable d), di_expiryTime = Some (id_expiryTime d), di_up = Some (id_up d),
      di_down = Some (id_down d), di_total = Some (id_total d)\<rparr>"

lemma fill_nonempty: "fillStreamDefaults P m \<noteq> []"
proof
  assume "fillStreamDefaults P m = []"
  then have "map_of (fillStreamDefaults P m) ''security'' = None" by simp
  then show False by (simp add: fillStreamDefaults_def Let_def fill_security_get fill_network_get)
qed

text \<open>C27. Reading a stored inbound fills in every default there is to fill: reading the result again
  returns the same document, whatever the row held.\<close>

theorem inbound_from_db_stable:
  assumes "zod P u"
  shows "inboundFromDb P (row_of_doc (inboundFromDb P raw)) = inboundFromDb P raw"
  by (simp add: inboundFromDb_def row_of_doc_def Let_def coerceInboundJsonField_def default_to_def
      settings_defaults_again [OF assms] stream_defaults_again [OF assms] fill_nonempty)

theorem inbound_from_db_stable_witness:
  "inboundFromDb (zparse (\<lambda>_. True)) (row_of_doc (inboundFromDb (zparse (\<lambda>_. True))
      \<lparr>di_port = 443, di_listen = None, di_protocol = ''trojan'', di_settings = JStr ''{}'', di_streamSettings = JObj [(''network'', JStr ''ws'')],
       di_sniffing = JNull, di_tag = None, di_remark = None, di_enable = None, di_expiryTime = None, di_up = None, di_down = None, di_total = None\<rparr>))
     = inboundFromDb (zparse (\<lambda>_. True))
      \<lparr>di_port = 443, di_listen = None, di_protocol = ''trojan'', di_settings = JStr ''{}'', di_streamSettings = JObj [(''network'', JStr ''ws'')],
       di_sniffing = JNull, di_tag = None, di_remark = None, di_enable = None, di_expiryTime = None, di_up = None, di_down = None, di_total = None\<rparr>"
  by (rule inbound_from_db_stable [OF zod_reference.zod_axioms])

section \<open>Saving what was loaded\<close>

lemma parsed_json_text: "obj_plain m \<Longrightarrow> parsed_object (json_text m) = m"
proof -
  assume "obj_plain m"
  then have "JSON_parse (json_text m) = Some (JObj m)"
    unfolding json_text_def by (intro JSON_parse_stringify json_plain_ok)
  moreover have "json_text m \<noteq> []" using json_text_braces [of m] by (auto simp: json_text_def)
  ultimately show ?thesis by (simp add: parsed_object_def js_trim_json_text json_text_def)
qed

lemma map_entries_all:
  "(\<And>x. x \<in> set xs \<Longrightarrow> f x = Some (g x)) \<Longrightarrow> map_entries f xs = Some (map g xs)"
  by (induction xs) auto

lemma map_entries_back:
  "(\<And>x. x \<in> set xs \<Longrightarrow> f (g x) = Some x) \<Longrightarrow> map_entries f (map g xs) = Some xs"
  by (induction xs) auto

lemma map_entries_members:
  "map_entries f xs = Some ys \<Longrightarrow> y \<in> set ys \<Longrightarrow> \<exists>x \<in> set xs. f x = Some y"
  by (induction xs arbitrary: ys) (auto split: option.splits)

text \<open>Certificate lists as a field of the stream: reading after writing, and writing twice.\<close>

definition has_certs :: "obj \<Rightarrow> bool" where
  "has_certs stream \<longleftrightarrow> (\<exists>tls cs. js_get stream ''tlsSettings'' = JObj tls \<and> js_get tls ''certificates'' = JArr cs)"

lemma tlsCerts_none: "\<not> has_certs m \<Longrightarrow> tlsCerts m = [] \<and> set_tlsCerts cs m = m"
  by (auto simp: tlsCerts_def set_tlsCerts_def has_certs_def split: js.splits)

lemma tlsCerts_set: "has_certs m \<Longrightarrow> tlsCerts (set_tlsCerts cs m) = cs \<and> has_certs (set_tlsCerts cs m)"
  by (auto simp: tlsCerts_def set_tlsCerts_def has_certs_def)

lemma set_tlsCerts_twice: "set_tlsCerts cs (set_tlsCerts ds m) = set_tlsCerts cs m"
  by (auto simp: set_tlsCerts_def is_index_key_def is_digit_def split: js.splits)

lemma set_tlsCerts_same: "set_tlsCerts (tlsCerts m) m = m"
proof (cases "has_certs m")
  case True
  then obtain tls cs where h: "js_get m ''tlsSettings'' = JObj tls" "js_get tls ''certificates'' = JArr cs"
    by (auto simp: has_certs_def)
  then have "map_of tls ''certificates'' = Some (JArr cs)" "map_of m ''tlsSettings'' = Some (JObj tls)"
    by (auto simp: js_get_def split: option.splits)
  then show ?thesis using h by (simp add: set_tlsCerts_def tlsCerts_def js_put_same)
qed (simp add: tlsCerts_none)

lemma get_set_tlsCerts: "k \<noteq> ''tlsSettings'' \<Longrightarrow> js_get (set_tlsCerts cs m) k = js_get m k"
  by (auto simp: set_tlsCerts_def split: js.splits)

lemma tlsCerts_cong: "js_get m ''tlsSettings'' = js_get n ''tlsSettings'' \<Longrightarrow> tlsCerts m = tlsCerts n"
  by (simp add: tlsCerts_def)

lemma plain_tlsCerts: "obj_plain m \<Longrightarrow> list_all json_plain (tlsCerts m)"
proof (cases "has_certs m")
  assume m: "obj_plain m"
  case True
  then obtain tls cs where h: "js_get m ''tlsSettings'' = JObj tls" "js_get tls ''certificates'' = JArr cs"
    by (auto simp: has_certs_def)
  have "obj_plain tls" by (rule obj_plain_get [OF m h(1)]) simp
  then have "json_plain (JArr cs)" by (rule obj_plain_get [OF _ h(2)]) simp
  then show ?thesis using h by (simp add: tlsCerts_def)
qed (simp add: tlsCerts_none)

lemma plain_set_tlsCerts: "obj_plain m \<Longrightarrow> list_all json_plain cs \<Longrightarrow> obj_plain (set_tlsCerts cs m)"
proof (cases "has_certs m")
  assume m: "obj_plain m" and cs: "list_all json_plain cs"
  case True
  then obtain tls ds where h: "js_get m ''tlsSettings'' = JObj tls" "js_get tls ''certificates'' = JArr ds"
    by (auto simp: has_certs_def)
  have "obj_plain tls" by (rule obj_plain_get [OF m h(1)]) simp
  then have "obj_plain (js_put ''certificates'' (JArr cs) tls)"
    using cs by (intro obj_plain_put) (simp_all add: is_index_key_def is_digit_def)
  then have "obj_plain (js_put ''tlsSettings'' (JObj (js_put ''certificates'' (JArr cs) tls)) m)"
    by (rule obj_plain_put [OF m]) (simp_all add: is_index_key_def is_digit_def del: json_plain.simps)
  then show ?thesis using h by (simp add: set_tlsCerts_def)
qed (simp add: tlsCerts_none)

text \<open>The toggle of a certificate: synthesised on load, dropped on save.\<close>

definition bare_cert :: "js \<Rightarrow> bool" where
  "bare_cert c \<longleftrightarrow> (case c of JObj m \<Rightarrow> \<not> js_has m ''useFile'' | JArr _ \<Rightarrow> True | _ \<Rightarrow> False)"

lemma add_useFile_bare:
  assumes "bare_cert c" "json_plain c"
  shows "\<exists>d. add_useFile c = Some d \<and> drop_useFile d = Some c \<and> json_plain d"
proof (cases c)
  case (JObj m)
  have k: "\<not> is_index_key ''useFile''" by (simp add: is_index_key_def is_digit_def)
  have new: "\<not> js_has m ''useFile''" using assms JObj by (simp add: bare_cert_def)
  then have g: "js_get m ''useFile'' = JUndef" by (auto simp: js_get_def js_has_def)
  have p: "obj_plain (js_put ''useFile'' (JBool (cert_useFile m)) m)"
    by (rule obj_plain_put [OF _ _ k]) (use assms JObj in simp_all)
  show ?thesis using JObj g p js_del_put_new [OF new k] by (simp add: add_useFile_def drop_useFile_def)
qed (use assms in \<open>simp_all add: bare_cert_def add_useFile_def drop_useFile_def\<close>)

lemma toggle_stream:
  assumes "obj_plain m" "list_all bare_cert (tlsCerts m)"
  shows "\<exists>n. synthesizeTlsCertUseFile m = Some n \<and> stripTlsCertUseFile n = Some m \<and> obj_plain n"
proof -
  let ?cs = "tlsCerts m"
  define g where "g c = the (add_useFile c)" for c
  have pl: "list_all json_plain ?cs" by (rule plain_tlsCerts [OF assms(1)])
  have each: "add_useFile c = Some (g c) \<and> drop_useFile (g c) = Some c \<and> json_plain (g c)" if "c \<in> set ?cs" for c
    using add_useFile_bare [of c] assms(2) pl that by (auto simp: g_def list_all_iff)
  then have add: "map_entries add_useFile ?cs = Some (map g ?cs)" by (intro map_entries_all) simp
  have "map_entries drop_useFile (map g ?cs) = Some ?cs"
    using each by (intro map_entries_back) simp
  moreover have "list_all json_plain (map g ?cs)" using each by (simp add: list_all_iff)
  ultimately show ?thesis
    using add plain_set_tlsCerts [OF assms(1), of "map g ?cs"] tlsCerts_set [of m "map g ?cs"] tlsCerts_none [of m]
    by (cases "has_certs m") (simp_all add: synthesizeTlsCertUseFile_def stripTlsCertUseFile_def update_certs_def
        set_tlsCerts_twice set_tlsCerts_same)
qed


text \<open>Dropping the empty legacy members is done once.\<close>

lemma drop_fallbacks_again [simp]: "drop_empty_fallbacks (drop_empty_fallbacks m) = drop_empty_fallbacks m"
  by (simp add: drop_empty_fallbacks_def)

lemma drop_masks_get: "k \<noteq> ''finalmask'' \<Longrightarrow> js_get (drop_empty_masks m) k = js_get m k"
  by (simp add: drop_empty_masks_def Let_def split: option.splits)

lemma drop_auth_get: "k \<noteq> ''hysteriaSettings'' \<Longrightarrow> js_get (drop_empty_auth m) k = js_get m k"
  by (auto simp: drop_empty_auth_def split: js.splits)

lemma drop_auth_object_like:
  "object_like (js_get m k) \<Longrightarrow> object_like (js_get (drop_empty_auth m) k)"
  by (auto simp: drop_empty_auth_def object_like_def split: js.splits)

lemma kept_masks_again: "kept_masks fm = Some r \<Longrightarrow> kept_masks r = Some r"
  by (auto simp: kept_masks_def Let_def js_del_absent nonempty_array_def split: if_splits)

lemma js_get_Some: "js_get m k = v \<Longrightarrow> v \<noteq> JUndef \<Longrightarrow> map_of m k = Some v"
  by (auto simp: js_get_def split: option.splits)

lemma drop_masks_id:
  assumes "js_get n ''finalmask'' = js_get (drop_empty_masks m) ''finalmask''"
  shows "drop_empty_masks n = n"
proof (cases "object_like (js_get m ''finalmask'')")
  case True
  let ?fm = "case js_get m ''finalmask'' of JObj m \<Rightarrow> m | _ \<Rightarrow> []"
  show ?thesis
  proof (cases "kept_masks ?fm")
    case None
    then show ?thesis using assms True by (simp add: drop_empty_masks_def object_like_def)
  next
    case (Some r)
    then have n: "js_get n ''finalmask'' = JObj r" using assms True by (simp add: drop_empty_masks_def)
    then show ?thesis using kept_masks_again [OF Some] js_put_same [OF js_get_Some [OF n]]
      by (simp add: drop_empty_masks_def object_like_def)
  qed
next
  case False
  then show ?thesis using assms by (simp add: drop_empty_masks_def)
qed

lemma drop_auth_again: "drop_empty_auth (drop_empty_auth m) = drop_empty_auth m"
proof (cases "js_get m ''hysteriaSettings''")
  case (JObj hs)
  then show ?thesis
    using js_put_same [of "js_put ''hysteriaSettings'' (JObj (js_del ''auth'' hs)) m" "''hysteriaSettings''"]
    by (auto simp: drop_empty_auth_def js_del_absent)
qed (simp_all add: drop_empty_auth_def)

definition slim :: "obj \<Rightarrow> obj" where
  "slim m = drop_empty_auth (drop_empty_masks m)"

lemma slim_again: "slim (slim m) = slim m"
proof -
  have "drop_empty_masks (slim m) = slim m"
    by (rule drop_masks_id [of _ m]) (simp add: slim_def drop_auth_get)
  then show ?thesis by (simp add: slim_def drop_auth_again)
qed

lemma slim_get: "k \<noteq> ''finalmask'' \<Longrightarrow> k \<noteq> ''hysteriaSettings'' \<Longrightarrow> js_get (slim m) k = js_get m k"
  by (simp add: slim_def drop_masks_get drop_auth_get)

lemma slim_object_like: "k \<noteq> ''finalmask'' \<Longrightarrow> object_like (js_get m k) \<Longrightarrow> object_like (js_get (slim m) k)"
  unfolding slim_def by (rule drop_auth_object_like) (simp add: drop_masks_get)

lemma plain_slim: "obj_plain m \<Longrightarrow> obj_plain (slim m)"
proof -
  assume m: "obj_plain m"
  have "obj_plain (drop_empty_masks m)"
  proof (cases "object_like (js_get m ''finalmask'')")
    case True
    let ?fm = "case js_get m ''finalmask'' of JObj m \<Rightarrow> m | _ \<Rightarrow> []"
    have "obj_plain ?fm"
      using True obj_plain_get [OF m, of "''finalmask''"] by (auto simp: object_like_def split: js.splits)
    then have "obj_plain r" if "kept_masks ?fm = Some r" for r
      using that by (auto simp: kept_masks_def Let_def simp del: json_plain.simps intro: obj_plain_del split: if_splits)
    then show ?thesis using True m
      by (auto simp: drop_empty_masks_def is_index_key_def is_digit_def simp del: json_plain.simps
          intro: obj_plain_del obj_plain_put split: option.splits)
  qed (simp add: drop_empty_masks_def m del: json_plain.simps)
  moreover have "obj_plain (drop_empty_auth n)" if n: "obj_plain n" for n
  proof (cases "js_get n ''hysteriaSettings''")
    case (JObj hs)
    have "obj_plain hs" by (rule obj_plain_get [OF n JObj]) simp
    then show ?thesis using JObj n
      by (auto simp: drop_empty_auth_def is_index_key_def is_digit_def simp del: json_plain.simps
          intro: obj_plain_del obj_plain_put)
  qed (use n in \<open>simp_all add: drop_empty_auth_def del: json_plain.simps\<close>)
  ultimately show ?thesis by (simp add: slim_def del: json_plain.simps)
qed


definition cert_like :: "js \<Rightarrow> bool" where
  "cert_like c \<longleftrightarrow> (case c of JObj _ \<Rightarrow> True | JArr _ \<Rightarrow> True | _ \<Rightarrow> False)"

definition stream_settled :: "obj \<Rightarrow> bool" where
  "stream_settled m \<longleftrightarrow> obj_plain m \<and> list_all cert_like (tlsCerts m)
     \<and> (case js_get m ''network'' of
          JStr n \<Rightarrow> (case map_of NETWORK_SETTINGS_KEY n of Some key \<Rightarrow> object_like (js_get m key) | None \<Rightarrow> True)
        | _ \<Rightarrow> False)"

lemma drop_useFile_cert:
  assumes "cert_like c" "json_plain c"
  shows "\<exists>d. drop_useFile c = Some d \<and> bare_cert d \<and> json_plain d"
proof (cases c)
  case (JObj m)
  then have "obj_plain (js_del ''useFile'' m)" using assms by (intro obj_plain_del) simp
  then show ?thesis using JObj by (simp add: drop_useFile_def bare_cert_def)
qed (use assms in \<open>simp_all add: cert_like_def drop_useFile_def bare_cert_def\<close>)

lemma strip_stream:
  assumes "stream_settled m"
  shows "\<exists>n. stripTlsCertUseFile m = Some n \<and> obj_plain n \<and> list_all bare_cert (tlsCerts n)
     \<and> (\<forall>k. k \<noteq> ''tlsSettings'' \<longrightarrow> js_get n k = js_get m k)"
proof -
  have m: "obj_plain m" and c: "list_all cert_like (tlsCerts m)" using assms by (auto simp: stream_settled_def simp del: json_plain.simps)
  define g where "g c = the (drop_useFile c)" for c
  have each: "drop_useFile c = Some (g c) \<and> bare_cert (g c) \<and> json_plain (g c)" if "c \<in> set (tlsCerts m)" for c
    using drop_useFile_cert [of c] plain_tlsCerts [OF m] c that by (auto simp: g_def list_all_iff)
  then have "map_entries drop_useFile (tlsCerts m) = Some (map g (tlsCerts m))" by (intro map_entries_all) simp
  then have "stripTlsCertUseFile m = Some (set_tlsCerts (map g (tlsCerts m)) m)"
    by (simp add: stripTlsCertUseFile_def update_certs_def)
  moreover have "obj_plain (set_tlsCerts (map g (tlsCerts m)) m)"
    by (rule plain_set_tlsCerts [OF m]) (use each in \<open>simp add: list_all_iff\<close>)
  moreover have "list_all bare_cert (tlsCerts (set_tlsCerts (map g (tlsCerts m)) m))"
    using each tlsCerts_set [of m "map g (tlsCerts m)"] tlsCerts_none [of m]
    by (cases "has_certs m") (simp_all add: list_all_iff)
  ultimately show ?thesis by (auto simp: get_set_tlsCerts simp del: json_plain.simps)
qed

lemma network_key_distinct:
  "map_of NETWORK_SETTINGS_KEY n = Some key \<Longrightarrow> key \<noteq> ''finalmask'' \<and> key \<noteq> ''tlsSettings''"
  by (auto simp: NETWORK_SETTINGS_KEY_def split: if_splits)

lemma heal_settled:
  assumes "js_get m ''network'' = JStr n"
    "\<And>key. map_of NETWORK_SETTINGS_KEY n = Some key \<Longrightarrow> object_like (js_get m key)"
  shows "healStreamNetworkKey m = m"
  using assms by (auto simp: healStreamNetworkKey_def split: option.splits)

lemma stream_save_load:
  assumes "stream_settled m" "stripTlsCertUseFile m = Some n"
  shows "\<exists>v. form_stream (slim n) = Some (Some v) \<and> stripTlsCertUseFile v = Some (slim n)
      \<and> pruned v = v \<and> obj_plain (slim n)"
proof -
  have n: "obj_plain n" "list_all bare_cert (tlsCerts n)" "\<And>k. k \<noteq> ''tlsSettings'' \<Longrightarrow> js_get n k = js_get m k"
    using strip_stream [OF assms(1)] assms(2) by auto
  obtain net where net: "js_get m ''network'' = JStr net"
    "\<And>key. map_of NETWORK_SETTINGS_KEY net = Some key \<Longrightarrow> object_like (js_get m key)"
    using assms(1) by (auto simp: stream_settled_def simp del: json_plain.simps split: js.splits option.splits)
  have p: "obj_plain (slim n)" by (rule plain_slim [OF n(1)])
  have w: "js_get (slim n) ''network'' = JStr net" using net(1) n(3) by (simp add: slim_get)
  have "healStreamNetworkKey (slim n) = slim n"
  proof (rule heal_settled [OF w])
    fix key
    assume k: "map_of NETWORK_SETTINGS_KEY net = Some key"
    then show "object_like (js_get (slim n) key)"
      using network_key_distinct [OF k] net(2) [OF k] n(3) [of key] by (intro slim_object_like) simp_all
  qed
  moreover have "tlsCerts (slim n) = tlsCerts n" by (rule tlsCerts_cong) (simp add: slim_get)
  then obtain v where v: "synthesizeTlsCertUseFile (slim n) = Some v" "stripTlsCertUseFile v = Some (slim n)" "obj_plain v"
    using toggle_stream [OF p] n(2) by auto
  moreover have "slim n \<noteq> []" using w by auto
  ultimately show ?thesis using p by (simp add: form_stream_def del: json_plain.simps)
qed

lemma normalize_clients_again:
  assumes "zod P u"
  shows "normalizeClients P p (normalizeClients P p c) = normalizeClients P p c"
proof (cases "clientSchemaForProtocol p")
  case (Some s)
  have "(case P s (case P s x of None \<Rightarrow> x | Some r \<Rightarrow> r) of None \<Rightarrow> (case P s x of None \<Rightarrow> x | Some r \<Rightarrow> r) | Some r \<Rightarrow> r)
      = (case P s x of None \<Rightarrow> x | Some r \<Rightarrow> r)" for x
    using zod.parse_again [OF assms client_schema [OF Some]] by (auto split: option.splits)
  then show ?thesis using Some by (cases c) (simp_all add: normalizeClients_def)
qed (simp add: normalizeClients_def)

lemma normalize_clients_array: "\<exists>ds. normalizeClients P p (JArr cs) = JArr ds"
  by (simp add: normalizeClients_def split: option.splits)

lemma settings_save_load:
  assumes "zod P u" "obj_plain (wire_settings P p m)"
  defines "s \<equiv> drop_empty_fallbacks (wire_settings P p m)"
  shows "obj_plain s" "drop_empty_fallbacks (wire_settings P p s) = s"
proof -
  show ps: "obj_plain s"
    using assms(2) by (auto simp: s_def drop_empty_fallbacks_def simp del: json_plain.simps intro: obj_plain_del)
  have "wire_settings P p s = s"
  proof (cases "js_get s ''clients''")
    case (JArr cs)
    have "\<exists>x. normalizeClients P p x = JArr cs"
      using JArr by (auto simp: s_def wire_settings_def drop_empty_fallbacks_def Let_def split: js.splits if_splits)
    then have "normalizeClients P p (JArr cs) = JArr cs" using normalize_clients_again [OF assms(1)] by metis
    then show ?thesis using JArr ps js_put_same [OF js_get_Some [OF JArr]]
      by (simp add: wire_settings_def del: json_plain.simps)
  qed (use ps in \<open>simp_all add: wire_settings_def del: json_plain.simps\<close>)
  then show "drop_empty_fallbacks (wire_settings P p s) = s" by (simp add: s_def)
qed

lemma has_length_undef [simp]: "\<not> has_length JUndef"
  by (simp add: has_length_def)

lemma sniffing_wf: "obj_wf (normalizeSniffing s)"
  by (simp add: normalizeSniffing_def obj_wf_def)

lemma sniffing_save_load:
  "normalizeSniffing (visible (normalizeSniffing s)) = normalizeSniffing s"
proof -
  have "normalizeSniffing m = normalizeSniffing n" if "\<And>k. js_get m k = js_get n k" for m n
    using that by (simp add: normalizeSniffing_def)
  then have "normalizeSniffing (visible (normalizeSniffing s)) = normalizeSniffing (normalizeSniffing s)"
    using js_get_visible [OF sniffing_wf] by blast
  also have "\<dots> = normalizeSniffing s"
    by (auto simp: normalizeSniffing_def)
  finally show ?thesis .
qed


text \<open>A form whose values JSON can hold.\<close>

definition form_settled :: "(zschema \<Rightarrow> js \<Rightarrow> js option) \<Rightarrow> inbound_form \<Rightarrow> bool" where
  "form_settled P v \<longleftrightarrow> nf_protocol v \<noteq> [] \<and> nf_trafficReset v \<in> set TRAFFIC_RESETS
     \<and> obj_plain (wire_settings P (nf_protocol v) (nf_settings v))
     \<and> (case nf_stream v of Some m \<Rightarrow> stream_settled m | None \<Rightarrow> True)
     \<and> obj_plain (visible (normalizeSniffing (nf_sniffing v)))"

lemma text_visible: "json_text (visible m) = json_text m"
  unfolding json_text_def by (simp only: JSON_stringify_visible [symmetric])

lemma coerce_json_text: "obj_plain m \<Longrightarrow> coerceJsonObject (JStr (json_text m)) = m"
  by (simp add: coerceJsonObject_def parsed_json_text del: json_plain.simps)

lemma coerce_sniffing_text:
  "obj_plain (visible m) \<Longrightarrow> coerceJsonObject (JStr (json_text m)) = visible m"
  using coerce_json_text [of "visible m"] by (simp add: text_visible)

lemma coerce_empty_text: "coerceJsonObject (JStr []) = []"
  by (simp add: coerceJsonObject_def parsed_object_def)

text \<open>C7. Opening a saved inbound and saving it again sends the same stream settings and the same
  sniffing, character for character, with the certificate toggle synthesised on the way in and
  dropped on the way out, for a form whose values JSON text can hold and a row in which the hub kept
  these two texts, as it does for the protocols that have stream settings.  The settings that are
  sent are those of the row, whatever the hub has made of them (it stamps the clients with times),
  with the clients projected to their schema; where it kept the text, the same text is sent.\<close>

theorem reopening_keeps_texts:
  assumes "zod P u" "form_settled P v" "formValuesToWirePayload P v = Some w"
    and "ri_protocol row = Some (wi_protocol w)"
    and "ri_streamSettings row = JStr (wi_streamSettings w)" "ri_sniffing row = JStr (wi_sniffing w)"
  shows "\<exists>v' w'. rawInboundToFormValues row = Some v' \<and> formValuesToWirePayload P v' = Some w' \<and>
    wi_streamSettings w' = wi_streamSettings w \<and> wi_sniffing w' = wi_sniffing w \<and>
    wi_settings w' = json_text (drop_empty_fallbacks
      (wire_settings P (wi_protocol w) (coerceJsonObject (ri_settings row)))) \<and>
    (ri_settings row = JStr (wi_settings w) \<longrightarrow> wi_settings w' = wi_settings w)"
proof -
  have settled: "nf_protocol v \<noteq> []" "obj_plain (wire_settings P (nf_protocol v) (nf_settings v))"
    "obj_plain (visible (normalizeSniffing (nf_sniffing v)))"
    and stream: "\<And>m. nf_stream v = Some m \<Longrightarrow> stream_settled m"
    using assms(2) by (auto simp: form_settled_def simp del: json_plain.simps)
  let ?s = "drop_empty_fallbacks (wire_settings P (nf_protocol v) (nf_settings v))"
  have s: "obj_plain ?s" "drop_empty_fallbacks (wire_settings P (nf_protocol v) ?s) = ?s"
    using settings_save_load [OF assms(1) settled(2)] by auto
  obtain ws where ws: "wire_stream (nf_stream v) = Some ws"
    using assms(3) by (auto simp: formValuesToWirePayload_def)
  let ?t = "case map_option slim ws of Some t \<Rightarrow> json_text t | None \<Rightarrow> []"
  have w: "wi_protocol w = nf_protocol v" "wi_settings w = json_text ?s" "wi_streamSettings w = ?t"
    "wi_sniffing w = json_text (normalizeSniffing (nf_sniffing v))"
    using assms(3) ws by (auto simp: formValuesToWirePayload_def dropLegacyOptionalEmpties_def slim_def [abs_def])
  have "\<exists>fs. form_stream (coerceJsonObject (JStr ?t)) = Some fs \<and> wire_stream fs = Some (map_option slim ws)
      \<and> map_option slim (map_option slim ws) = map_option slim ws"
  proof (cases "nf_stream v")
    case None
    then show ?thesis using ws by (auto simp: wire_stream_def coerce_empty_text form_stream_def)
  next
    case (Some m)
    then have m: "stream_settled m" by (rule stream)
    then have "pruned m = m" by (simp add: stream_settled_def del: json_plain.simps)
    then obtain n where n: "stripTlsCertUseFile m = Some n" "ws = Some n"
      using ws Some by (auto simp: wire_stream_def)
    obtain x where "form_stream (slim n) = Some (Some x)" "stripTlsCertUseFile x = Some (slim n)" "pruned x = x" "obj_plain (slim n)"
      using stream_save_load [OF m n(1)] by blast
    then show ?thesis using n(2) by (simp add: coerce_json_text wire_stream_def slim_again del: json_plain.simps)
  qed
  then obtain fs where fs: "form_stream (coerceJsonObject (JStr ?t)) = Some fs" "wire_stream fs = Some (map_option slim ws)"
    "map_option slim (map_option slim ws) = map_option slim ws" by blast
  have sniff: "coerceJsonObject (JStr (wi_sniffing w)) = visible (normalizeSniffing (nf_sniffing v))"
    by (simp only: w(4) coerce_sniffing_text [OF settled(3)])
  obtain v' where v': "rawInboundToFormValues row = Some v'" "nf_protocol v' = nf_protocol v" "nf_stream v' = fs"
    "nf_settings v' = coerceJsonObject (ri_settings row)" "nf_sniffing v' = visible (normalizeSniffing (nf_sniffing v))"
    using fs(1) assms(4-6) sniff settled(1) by (auto simp: rawInboundToFormValues_def default_to_def w(1,3))
  have slim: "drop_empty_auth (drop_empty_masks (slim m)) = slim m" for m
    using slim_again [of m] by (simp only: slim_def)
  obtain w' where w': "formValuesToWirePayload P v' = Some w'" "wi_streamSettings w' = ?t"
    "wi_settings w' = json_text (drop_empty_fallbacks (wire_settings P (nf_protocol v) (coerceJsonObject (ri_settings row))))"
    "wi_sniffing w' = json_text (normalizeSniffing (nf_sniffing v))"
    using fs(2) v'(2-5) slim
    by (cases ws) (auto simp: formValuesToWirePayload_def dropLegacyOptionalEmpties_def sniffing_save_load)
  moreover have "wi_settings w' = wi_settings w" if "ri_settings row = JStr (wi_settings w)"
    using that s coerce_json_text [OF s(1)] by (simp add: w'(3) w(2))
  ultimately show ?thesis using v'(1) w by auto
qed

definition sample_inbound_stream :: obj where
  "sample_inbound_stream =
     [(''network'', JStr ''ws''), (''security'', JStr ''tls''), (''wsSettings'', JObj [(''path'', JStr ''/a'')]),
      (''tlsSettings'', JObj [(''certificates'', JArr [JObj [(''certificateFile'', JStr ''/c.pem''), (''useFile'', JBool True)]])]),
      (''finalmask'', JObj [(''tcp'', JArr []), (''udp'', JArr [])])]"

definition sample_inbound_form :: inbound_form where
  "sample_inbound_form =
     \<lparr>nf_userId = Some 1, nf_remark = ''r'', nf_enable = True, nf_port = 443, nf_listen = [], nf_tag = [],
      nf_expiryTime = 0, nf_sniffing = [(''enabled'', JBool True), (''destOverride'', JArr [JStr ''http''])],
      nf_stream = Some sample_inbound_stream, nf_up = 0, nf_down = 0, nf_total = 0,
      nf_trafficReset = ''never'', nf_lastTrafficResetTime = 0, nf_nodeId = None, nf_protocol = ''trojan'',
      nf_settings = [(''clients'', JArr [JObj sample_client]), (''fallbacks'', JArr [])]\<rparr>"

lemmas plain_eval = enum_order_def key_before_def is_index_key_def is_digit_def

lemma sample_stream_settled: "stream_settled sample_inbound_stream"
  by (simp add: stream_settled_def sample_inbound_stream_def plain_eval tlsCerts_def cert_like_def
      NETWORK_SETTINGS_KEY_def object_like_def)

lemma sample_settings:
  "wire_settings (zparse (\<lambda>_. True)) ''trojan'' (nf_settings sample_inbound_form) =
     [(''clients'', JArr [JObj [(''password'', JStr ''p''), (''email'', JStr ''a''), (''limitIp'', JInt 0), (''totalGB'', JInt 0),
        (''expiryTime'', JInt 0), (''enable'', JBool False), (''tgId'', JInt 0), (''subId'', JStr []), (''comment'', JStr []),
        (''reset'', JInt 0)]]), (''fallbacks'', JArr [])]"
proof -
  have "obj_plain (nf_settings sample_inbound_form)"
    by (simp add: sample_inbound_form_def sample_client_def plain_eval)
  then have "pruned (nf_settings sample_inbound_form) = nf_settings sample_inbound_form" by (rule pruned_plain)
  then show ?thesis
    by (simp add: wire_settings_def sample_inbound_form_def normalizeClients_def clientSchemaForProtocol_def
        sample_client_def TrojanClientSchema_def keep_rules js_put_def js_has_def)
qed

lemma sample_form_settled: "form_settled (zparse (\<lambda>_. True)) sample_inbound_form"
  using sample_settings sample_stream_settled
  by (simp add: form_settled_def sample_inbound_form_def TRAFFIC_RESETS_def plain_eval normalizeSniffing_def
      visible_def)

text \<open>The hub stamps the client of the saved inbound.\<close>

definition stamped_row :: "wire_inbound \<Rightarrow> raw_inbound" where
  "stamped_row w =
     \<lparr>ri_userId = None, ri_port = Some (wi_port w), ri_listen = None, ri_protocol = Some (wi_protocol w), ri_tag = None,
      ri_settings = JObj [(''clients'', JArr [JObj (js_put ''created_at'' (JInt 5) sample_client)])],
      ri_streamSettings = JStr (wi_streamSettings w), ri_sniffing = JStr (wi_sniffing w), ri_up = None, ri_down = None,
      ri_total = None, ri_remark = None, ri_enable = Some True, ri_expiryTime = None, ri_trafficReset = None,
      ri_lastTrafficResetTime = None, ri_nodeId = None\<rparr>"

theorem reopening_keeps_texts_witness:
  "\<exists>w v' w'. formValuesToWirePayload (zparse (\<lambda>_. True)) sample_inbound_form = Some w
     \<and> rawInboundToFormValues (stamped_row w) = Some v'
     \<and> formValuesToWirePayload (zparse (\<lambda>_. True)) v' = Some w' \<and> wi_streamSettings w' = wi_streamSettings w"
proof -
  have "pruned sample_inbound_stream = sample_inbound_stream"
    using sample_stream_settled by (simp add: stream_settled_def del: json_plain.simps)
  then obtain w where w: "formValuesToWirePayload (zparse (\<lambda>_. True)) sample_inbound_form = Some w"
    using strip_stream [OF sample_stream_settled]
    by (auto simp: formValuesToWirePayload_def wire_stream_def sample_inbound_form_def)
  show ?thesis
    using reopening_keeps_texts [OF zod_reference.zod_axioms sample_form_settled w, of "stamped_row w"] w
    by (auto simp: stamped_row_def)
qed

end
