(* ===== verification/Websocket.thy ===== *)
theory Websocket
  imports Json
begin

text \<open>
  The reconnecting socket of the panel, class \<open>WebSocketClient\<close> of
  \<open>frontend/src/api/websocket.ts\<close>: its fields as a record, one definition per method
  and one per handler that \<open>#openSocket\<close> installs.  The record also holds what the
  methods change outside the object: the sockets constructed so far (a socket is
  its index), the timers that are set, and the calls made to listeners.  A world
  evolves by events: calls of the public methods, and what the browser
  delivers.  Three choices belong to the environment and come with the event: whether
  \<open>new WebSocket\<close> throws, the value of \<open>Math.random()\<close>, and the event objects.
  Listeners are numbered; a call is logged with its arguments, whether or not it throws
  (\<open>#emit\<close> catches).  Listeners that call back into the client during a dispatch are
  not represented.
\<close>

section \<open>State\<close>

text \<open>\<open>WebSocket.readyState\<close>.\<close>

datatype ready = CONNECTING | OPEN | CLOSING | CLOSED

record socket =
  url :: string
  readyState :: ready
  sent :: "string list"

record timer =
  timer_id :: nat
  delay :: rat

record ws_client =
  basePath :: string
  maxReconnectAttempts :: nat
  reconnectAttempts :: nat
  isConnected :: bool
  ws :: "nat option"
  shouldReconnect :: bool
  reconnectTimer :: "nat option"
  listeners :: "string \<rightharpoonup> nat list"
  location_protocol :: string
  location_host :: string
  sockets :: "socket list"
  timers :: "timer list"
  next_timer :: nat
  calls :: "(nat \<times> js list) list"

definition MAX_PAYLOAD_BYTES :: nat where "MAX_PAYLOAD_BYTES = 10 * 1024 * 1024"
definition BASE_RECONNECT_MS :: rat where "BASE_RECONNECT_MS = 1000"
definition MAX_RECONNECT_MS :: rat where "MAX_RECONNECT_MS = 30000"
definition SLOW_RETRY_MS :: rat where "SLOW_RETRY_MS = 60000"

definition new_client :: "string \<Rightarrow> string \<Rightarrow> string \<Rightarrow> ws_client" where
  "new_client path protocol host =
     \<lparr>basePath = path, maxReconnectAttempts = 10, reconnectAttempts = 0, isConnected = False,
      ws = None, shouldReconnect = True, reconnectTimer = None, listeners = Map.empty,
      location_protocol = protocol, location_host = host,
      sockets = [], timers = [], next_timer = 0, calls = []\<rparr>"

definition state_of :: "ws_client \<Rightarrow> nat \<Rightarrow> ready" where
  "state_of w i = (if i < length (sockets w) then readyState (sockets w ! i) else CLOSED)"

definition set_state :: "nat \<Rightarrow> ready \<Rightarrow> ws_client \<Rightarrow> ws_client" where
  "set_state i s w =
     (if i < length (sockets w)
      then w\<lparr>sockets := (sockets w)[i := (sockets w ! i)\<lparr>readyState := s\<rparr>]\<rparr> else w)"

text \<open>\<open>WebSocket.close\<close>: a socket that is connecting or open starts to close.\<close>

definition close_socket :: "nat \<Rightarrow> ws_client \<Rightarrow> ws_client" where
  "close_socket i w =
     (if state_of w i \<in> {CONNECTING, OPEN} then set_state i CLOSING w else w)"

section \<open>Methods\<close>

definition emit :: "string \<Rightarrow> js list \<Rightarrow> ws_client \<Rightarrow> ws_client" where
  "emit event args w =
     (case listeners w event of
        None \<Rightarrow> w
      | Some cbs \<Rightarrow> w\<lparr>calls := calls w @ map (\<lambda>cb. (cb, args)) cbs\<rparr>)"

definition ws_on :: "string \<Rightarrow> nat \<Rightarrow> ws_client \<Rightarrow> ws_client" where
  "ws_on event cb w =
     (let cbs = (case listeners w event of None \<Rightarrow> [] | Some s \<Rightarrow> s)
      in w\<lparr>listeners := (listeners w)(event \<mapsto> (if cb \<in> set cbs then cbs else cbs @ [cb]))\<rparr>)"

definition ws_off :: "string \<Rightarrow> nat \<Rightarrow> ws_client \<Rightarrow> ws_client" where
  "ws_off event cb w =
     (case listeners w event of
        None \<Rightarrow> w
      | Some cbs \<Rightarrow>
          let rest = filter (\<lambda>c. c \<noteq> cb) cbs
          in w\<lparr>listeners := (listeners w)(event := (if rest = [] then None else Some rest))\<rparr>)"

definition send :: "js \<Rightarrow> ws_client \<Rightarrow> ws_client" where
  "send data w =
     (case ws w of
        None \<Rightarrow> w
      | Some i \<Rightarrow>
          if state_of w i = OPEN
          then w\<lparr>sockets := (sockets w)[i := (sockets w ! i)\<lparr>sent :=
                 sent (sockets w ! i) @
                   [case JSON_stringify data of None \<Rightarrow> ''undefined'' | Some t \<Rightarrow> t]\<rparr>]\<rparr>
          else w)"

definition buildUrl :: "ws_client \<Rightarrow> string" where
  "buildUrl w =
     (let protocol = (if location_protocol w = ''https:'' then ''wss:'' else ''ws:'');
          p = (if basePath w \<noteq> [] then basePath w else ''/'');
          p = (if starts_with p ''/'' then p else ''/'' @ p);
          p = (if ends_with p ''/'' then p else p @ ''/'')
      in protocol @ ''//'' @ location_host w @ p @ ''ws'')"

definition cancelReconnect :: "ws_client \<Rightarrow> ws_client" where
  "cancelReconnect w =
     (case reconnectTimer w of
        None \<Rightarrow> w
      | Some t \<Rightarrow> w\<lparr>timers := filter (\<lambda>x. timer_id x \<noteq> t) (timers w), reconnectTimer := None\<rparr>)"

text \<open>
  The delay of the next attempt: the counter goes up and the base doubles until
  the attempts are used up, after that the base is the slow retry.
\<close>

definition backoff_base :: "nat \<Rightarrow> nat \<Rightarrow> rat" where
  "backoff_base maxAttempts attempts =
     (if attempts < maxAttempts
      then min MAX_RECONNECT_MS (BASE_RECONNECT_MS * 2 ^ (Suc attempts - 1))
      else SLOW_RETRY_MS)"

definition scheduleReconnect :: "rat \<Rightarrow> ws_client \<Rightarrow> ws_client" where
  "scheduleReconnect rnd w =
     (if \<not> shouldReconnect w then w
      else
        let w = cancelReconnect w;
            base = backoff_base (maxReconnectAttempts w) (reconnectAttempts w);
            w = (if reconnectAttempts w < maxReconnectAttempts w
                 then w\<lparr>reconnectAttempts := reconnectAttempts w + 1\<rparr> else w);
            d = base * (3 / 4 + rnd * (1 / 2))
        in w\<lparr>timers := timers w @ [\<lparr>timer_id = next_timer w, delay = d\<rparr>],
             reconnectTimer := Some (next_timer w), next_timer := next_timer w + 1\<rparr>)"

definition openSocket :: "js option \<Rightarrow> rat \<Rightarrow> ws_client \<Rightarrow> ws_client" where
  "openSocket throws rnd w =
     (case throws of
        Some err \<Rightarrow> scheduleReconnect rnd (emit ''error'' [err] w)
      | None \<Rightarrow>
          w\<lparr>sockets := sockets w @ [\<lparr>url = buildUrl w, readyState = CONNECTING, sent = []\<rparr>],
            ws := Some (length (sockets w))\<rparr>)"

definition connect :: "js option \<Rightarrow> rat \<Rightarrow> ws_client \<Rightarrow> ws_client" where
  "connect throws rnd w =
     (if (case ws w of None \<Rightarrow> False | Some i \<Rightarrow> state_of w i = OPEN \<or> state_of w i = CONNECTING)
      then w
      else openSocket throws rnd (cancelReconnect (w\<lparr>shouldReconnect := True\<rparr>)))"

definition disconnect :: "ws_client \<Rightarrow> ws_client" where
  "disconnect w =
     (let w = (cancelReconnect (w\<lparr>shouldReconnect := False\<rparr>))\<lparr>reconnectAttempts := 0\<rparr>;
          w = (case ws w of None \<Rightarrow> w | Some i \<Rightarrow> (close_socket i w)\<lparr>ws := None\<rparr>)
      in w\<lparr>isConnected := False\<rparr>)"

section \<open>Handlers\<close>

datatype message_data = Text string | Binary

definition dispatch :: "string \<Rightarrow> ws_client \<Rightarrow> ws_client" where
  "dispatch text w =
     (case JSON_parse text of
        Some (JObj kvs) \<Rightarrow>
          (case js_get kvs ''type'' of
             JStr t \<Rightarrow>
               emit ''message'' [JObj kvs]
                 (emit t [js_get kvs ''payload'', js_get kvs ''time''] w)
           | _ \<Rightarrow> w)
      | _ \<Rightarrow> w)"

definition onMessage :: "message_data \<Rightarrow> ws_client \<Rightarrow> ws_client" where
  "onMessage data w =
     (case data of
        Binary \<Rightarrow> dispatch [] w
      | Text s \<Rightarrow>
          if length s > MAX_PAYLOAD_BYTES
          then (case ws w of None \<Rightarrow> w | Some i \<Rightarrow> close_socket i w)
          else dispatch s w)"

definition on_open :: "nat \<Rightarrow> ws_client \<Rightarrow> ws_client" where
  "on_open i w =
     (if ws w \<noteq> Some i then w
      else emit ''connected'' [] (w\<lparr>isConnected := True, reconnectAttempts := 0\<rparr>))"

definition on_message :: "nat \<Rightarrow> message_data \<Rightarrow> ws_client \<Rightarrow> ws_client" where
  "on_message i data w = (if ws w \<noteq> Some i then w else onMessage data w)"

definition on_error :: "nat \<Rightarrow> js \<Rightarrow> ws_client \<Rightarrow> ws_client" where
  "on_error i event w = (if ws w \<noteq> Some i then w else emit ''error'' [event] w)"

definition on_close :: "nat \<Rightarrow> rat \<Rightarrow> ws_client \<Rightarrow> ws_client" where
  "on_close i rnd w =
     (if ws w \<noteq> Some i then w
      else
        let w = emit ''disconnected'' [] (w\<lparr>isConnected := False, ws := None\<rparr>)
        in if shouldReconnect w then scheduleReconnect rnd w else w)"

definition on_timer :: "js option \<Rightarrow> rat \<Rightarrow> ws_client \<Rightarrow> ws_client" where
  "on_timer throws rnd w =
     (let w = w\<lparr>reconnectTimer := None\<rparr>
      in if \<not> shouldReconnect w then w else openSocket throws rnd w)"

section \<open>Events\<close>

datatype event =
    Connect "js option" rat
  | Disconnect
  | On string nat
  | Off string nat
  | Send js
  | Opened nat
  | Message nat message_data
  | Errored nat js
  | PeerClosing nat
  | Closed nat rat
  | TimerFires nat "js option" rat

text \<open>
  What the browser can deliver: a socket opens once, delivers messages while it is
  open, and closes once; a timer fires while it is set.  \<open>Math.random()\<close> is in
  \<open>[0, 1)\<close>.
\<close>

fun enabled :: "ws_client \<Rightarrow> event \<Rightarrow> bool" where
  "enabled w (Connect throws rnd) = (0 \<le> rnd \<and> rnd < 1)"
| "enabled w (Opened i) = (state_of w i = CONNECTING)"
| "enabled w (Message i data) = (state_of w i = OPEN)"
| "enabled w (Errored i ev) = (state_of w i \<noteq> CLOSED)"
| "enabled w (PeerClosing i) = (state_of w i = OPEN)"
| "enabled w (Closed i rnd) = (state_of w i \<noteq> CLOSED \<and> 0 \<le> rnd \<and> rnd < 1)"
| "enabled w (TimerFires t throws rnd) = (t \<in> timer_id ` set (timers w) \<and> 0 \<le> rnd \<and> rnd < 1)"
| "enabled w _ = True"

fun perform :: "ws_client \<Rightarrow> event \<Rightarrow> ws_client" where
  "perform w (Connect throws rnd) = connect throws rnd w"
| "perform w Disconnect = disconnect w"
| "perform w (On ev cb) = ws_on ev cb w"
| "perform w (Off ev cb) = ws_off ev cb w"
| "perform w (Send data) = send data w"
| "perform w (Opened i) = on_open i (set_state i OPEN w)"
| "perform w (Message i data) = on_message i data w"
| "perform w (Errored i ev) = on_error i ev w"
| "perform w (PeerClosing i) = set_state i CLOSING w"
| "perform w (Closed i rnd) = on_close i rnd (set_state i CLOSED w)"
| "perform w (TimerFires t throws rnd) =
     on_timer throws rnd (w\<lparr>timers := filter (\<lambda>x. timer_id x \<noteq> t) (timers w)\<rparr>)"

inductive ws_step :: "ws_client \<Rightarrow> event \<Rightarrow> ws_client \<Rightarrow> bool" where
  ws_step: "enabled w e \<Longrightarrow> ws_step w e (perform w e)"

inductive ws_reachable :: "string \<Rightarrow> string \<Rightarrow> string \<Rightarrow> ws_client \<Rightarrow> bool"
  for path protocol host where
  start: "ws_reachable path protocol host (new_client path protocol host)"
| step: "ws_reachable path protocol host w \<Longrightarrow> ws_step w e w' \<Longrightarrow>
         ws_reachable path protocol host w'"

inductive_cases ws_stepE: "ws_step w e w'"
inductive_simps ws_step_iff: "ws_step w e w'"

end
