(* ===== verification/WebsocketProps.thy ===== *)
theory WebsocketProps
  imports Websocket
begin

text \<open>
  What the reconnecting socket guarantees: an invariant of its fields, the sockets and
  the timers; a five-state automaton that it refines; that it recovers from every
  failure; the retry schedule; and which incoming texts reach which listeners.
\<close>

section \<open>Runs\<close>

definition fire :: "ws_client \<Rightarrow> event \<Rightarrow> ws_client" where
  "fire w e = (if enabled w e then perform w e else w)"

definition ws_run :: "ws_client \<Rightarrow> event list \<Rightarrow> ws_client" where
  "ws_run w es = foldl fire w es"

lemma ws_run_simps [simp]:
  "ws_run w [] = w" "ws_run w (e # es) = ws_run (fire w e) es"
  "ws_run w (es @ fs) = ws_run (ws_run w es) fs"
  by (simp_all add: ws_run_def)

lemma ws_run_reachable: "ws_reachable p q h w \<Longrightarrow> ws_reachable p q h (ws_run w es)"
  by (induction es arbitrary: w) (auto simp: fire_def intro: ws_reachable.intros ws_step.intros)

lemma ws_reachable_run: "ws_reachable p q h w \<longleftrightarrow> (\<exists>es. w = ws_run (new_client p q h) es)"
proof
  assume "ws_reachable p q h w"
  then show "\<exists>es. w = ws_run (new_client p q h) es"
  proof induction
    case start
    show ?case by (rule exI [of _ "[]"]) simp
  next
    case (step w e w')
    then obtain es where "w = ws_run (new_client p q h) es" "enabled w e" "w' = perform w e"
      by (auto elim: ws_stepE)
    then have "w' = ws_run (new_client p q h) (es @ [e])" by (simp add: fire_def)
    then show ?case by blast
  qed
qed (auto intro: ws_run_reachable ws_reachable.start)

section \<open>The invariant\<close>

definition live :: "ws_client \<Rightarrow> nat \<Rightarrow> bool" where
  "live w i \<longleftrightarrow> state_of w i = CONNECTING \<or> state_of w i = OPEN"

definition timers_ok :: "ws_client \<Rightarrow> bool" where
  "timers_ok w \<longleftrightarrow>
     map timer_id (timers w) = (case reconnectTimer w of None \<Rightarrow> [] | Some t \<Rightarrow> [t]) \<and>
     (\<forall>t \<in> set (timers w). 750 \<le> delay t \<and> delay t < 75000) \<and>
     (reconnectTimer w \<noteq> None \<longrightarrow> shouldReconnect w)"

definition sockets_ok :: "ws_client \<Rightarrow> bool" where
  "sockets_ok w \<longleftrightarrow>
     (\<forall>i. live w i \<longrightarrow> ws w = Some i \<and> reconnectTimer w = None) \<and>
     (\<forall>i. ws w = Some i \<longrightarrow> state_of w i \<noteq> CLOSED \<and> shouldReconnect w) \<and>
     (\<forall>i. state_of w i = OPEN \<longrightarrow> isConnected w \<and> reconnectAttempts w = 0) \<and>
     (isConnected w \<longrightarrow> ws w \<noteq> None)"

definition ws_inv :: "ws_client \<Rightarrow> bool" where
  "ws_inv w \<longleftrightarrow> maxReconnectAttempts w = 10 \<and> reconnectAttempts w \<le> 10 \<and> timers_ok w \<and> sockets_ok w"

lemmas inv_defs = ws_inv_def timers_ok_def sockets_ok_def live_def

subsection \<open>Which fields an operation leaves alone\<close>

lemma emit_fields [simp]:
  "basePath (emit ev args w) = basePath w"
  "maxReconnectAttempts (emit ev args w) = maxReconnectAttempts w"
  "reconnectAttempts (emit ev args w) = reconnectAttempts w"
  "isConnected (emit ev args w) = isConnected w" "ws (emit ev args w) = ws w"
  "shouldReconnect (emit ev args w) = shouldReconnect w"
  "reconnectTimer (emit ev args w) = reconnectTimer w" "listeners (emit ev args w) = listeners w"
  "sockets (emit ev args w) = sockets w" "timers (emit ev args w) = timers w"
  "next_timer (emit ev args w) = next_timer w" "state_of (emit ev args w) = state_of w"
  by (auto simp: emit_def state_of_def fun_eq_iff split: option.splits)

lemma on_fields [simp]:
  "maxReconnectAttempts (ws_on ev cb w) = maxReconnectAttempts w"
  "reconnectAttempts (ws_on ev cb w) = reconnectAttempts w"
  "isConnected (ws_on ev cb w) = isConnected w" "ws (ws_on ev cb w) = ws w"
  "shouldReconnect (ws_on ev cb w) = shouldReconnect w"
  "reconnectTimer (ws_on ev cb w) = reconnectTimer w"
  "sockets (ws_on ev cb w) = sockets w" "timers (ws_on ev cb w) = timers w"
  "state_of (ws_on ev cb w) = state_of w"
  by (auto simp: ws_on_def state_of_def fun_eq_iff Let_def)

lemma off_fields [simp]:
  "maxReconnectAttempts (ws_off ev cb w) = maxReconnectAttempts w"
  "reconnectAttempts (ws_off ev cb w) = reconnectAttempts w"
  "isConnected (ws_off ev cb w) = isConnected w" "ws (ws_off ev cb w) = ws w"
  "shouldReconnect (ws_off ev cb w) = shouldReconnect w"
  "reconnectTimer (ws_off ev cb w) = reconnectTimer w"
  "sockets (ws_off ev cb w) = sockets w" "timers (ws_off ev cb w) = timers w"
  "state_of (ws_off ev cb w) = state_of w"
  by (auto simp: ws_off_def state_of_def fun_eq_iff Let_def split: option.splits)

lemma set_state_fields [simp]:
  "maxReconnectAttempts (set_state i s w) = maxReconnectAttempts w"
  "reconnectAttempts (set_state i s w) = reconnectAttempts w"
  "isConnected (set_state i s w) = isConnected w" "ws (set_state i s w) = ws w"
  "shouldReconnect (set_state i s w) = shouldReconnect w"
  "reconnectTimer (set_state i s w) = reconnectTimer w" "listeners (set_state i s w) = listeners w"
  "timers (set_state i s w) = timers w" "next_timer (set_state i s w) = next_timer w"
  "calls (set_state i s w) = calls w" "length (sockets (set_state i s w)) = length (sockets w)"
  by (simp_all add: set_state_def)

lemma state_of_set_state [simp]:
  "state_of (set_state i s w) j = (if j = i \<and> state_of w i \<noteq> CLOSED then s
     else if j = i \<and> i < length (sockets w) then s else state_of w j)"
  by (auto simp: state_of_def set_state_def)

lemma state_of_update [simp]:
  "state_of (w\<lparr>isConnected := a\<rparr>) = state_of w" "state_of (w\<lparr>ws := b\<rparr>) = state_of w"
  "state_of (w\<lparr>shouldReconnect := c\<rparr>) = state_of w" "state_of (w\<lparr>reconnectTimer := d\<rparr>) = state_of w"
  "state_of (w\<lparr>reconnectAttempts := e\<rparr>) = state_of w" "state_of (w\<lparr>timers := f\<rparr>) = state_of w"
  "state_of (w\<lparr>next_timer := g\<rparr>) = state_of w" "state_of (w\<lparr>listeners := l\<rparr>) = state_of w"
  by (simp_all add: state_of_def fun_eq_iff)

lemma close_fields [simp]:
  "maxReconnectAttempts (close_socket i w) = maxReconnectAttempts w"
  "reconnectAttempts (close_socket i w) = reconnectAttempts w"
  "isConnected (close_socket i w) = isConnected w" "ws (close_socket i w) = ws w"
  "shouldReconnect (close_socket i w) = shouldReconnect w"
  "reconnectTimer (close_socket i w) = reconnectTimer w" "listeners (close_socket i w) = listeners w"
  "timers (close_socket i w) = timers w" "calls (close_socket i w) = calls w"
  by (simp_all add: close_socket_def)

lemma state_of_close [simp]:
  "state_of (close_socket i w) j = (if j = i \<and> live w i then CLOSING else state_of w j)"
  by (auto simp: close_socket_def live_def)

lemma cancel_fields [simp]:
  "basePath (cancelReconnect w) = basePath w"
  "maxReconnectAttempts (cancelReconnect w) = maxReconnectAttempts w"
  "reconnectAttempts (cancelReconnect w) = reconnectAttempts w"
  "isConnected (cancelReconnect w) = isConnected w" "ws (cancelReconnect w) = ws w"
  "shouldReconnect (cancelReconnect w) = shouldReconnect w"
  "reconnectTimer (cancelReconnect w) = None" "sockets (cancelReconnect w) = sockets w"
  "state_of (cancelReconnect w) = state_of w" "next_timer (cancelReconnect w) = next_timer w"
  "calls (cancelReconnect w) = calls w" "listeners (cancelReconnect w) = listeners w"
  by (auto simp: cancelReconnect_def state_of_def fun_eq_iff split: option.splits)

lemma cancel_timers [simp]: "timers_ok w \<Longrightarrow> timers (cancelReconnect w) = []"
  by (auto simp: timers_ok_def cancelReconnect_def filter_empty_conv
      dest!: arg_cong [where f = set] split: option.splits)

lemma dispatch_fields [simp]:
  "maxReconnectAttempts (dispatch t w) = maxReconnectAttempts w"
  "reconnectAttempts (dispatch t w) = reconnectAttempts w"
  "isConnected (dispatch t w) = isConnected w" "ws (dispatch t w) = ws w"
  "shouldReconnect (dispatch t w) = shouldReconnect w"
  "reconnectTimer (dispatch t w) = reconnectTimer w"
  "sockets (dispatch t w) = sockets w" "timers (dispatch t w) = timers w"
  "state_of (dispatch t w) = state_of w"
  by (simp_all add: dispatch_def split: option.splits js.splits)

lemma send_fields [simp]:
  "maxReconnectAttempts (send d w) = maxReconnectAttempts w"
  "reconnectAttempts (send d w) = reconnectAttempts w"
  "isConnected (send d w) = isConnected w" "ws (send d w) = ws w"
  "shouldReconnect (send d w) = shouldReconnect w"
  "reconnectTimer (send d w) = reconnectTimer w" "timers (send d w) = timers w"
  "state_of (send d w) = state_of w"
  by (auto simp: send_def state_of_def fun_eq_iff nth_list_update split: option.splits)

lemma schedule_fields [simp]:
  "maxReconnectAttempts (scheduleReconnect r w) = maxReconnectAttempts w"
  "isConnected (scheduleReconnect r w) = isConnected w" "ws (scheduleReconnect r w) = ws w"
  "shouldReconnect (scheduleReconnect r w) = shouldReconnect w"
  "sockets (scheduleReconnect r w) = sockets w"
  "state_of (scheduleReconnect r w) = state_of w"
  "reconnectTimer (scheduleReconnect r w) =
     (if shouldReconnect w then Some (next_timer w) else reconnectTimer w)"
  "reconnectAttempts (scheduleReconnect r w) =
     (if shouldReconnect w \<and> reconnectAttempts w < maxReconnectAttempts w
      then reconnectAttempts w + 1 else reconnectAttempts w)"
  by (simp_all add: scheduleReconnect_def Let_def)

lemma schedule_timers:
  "timers_ok w \<Longrightarrow> timers (scheduleReconnect r w) =
     (if shouldReconnect w
      then [\<lparr>timer_id = next_timer w,
             delay = backoff_base (maxReconnectAttempts w) (reconnectAttempts w) * (3 / 4 + r * (1 / 2))\<rparr>]
      else timers w)"
  by (simp add: scheduleReconnect_def Let_def)

lemma backoff_bounds: "1000 \<le> backoff_base n a" "backoff_base n a \<le> 60000"
proof -
  have "(1::rat) \<le> 2 ^ a" by simp
  then show "1000 \<le> backoff_base n a"
    by (simp add: backoff_base_def BASE_RECONNECT_MS_def MAX_RECONNECT_MS_def SLOW_RETRY_MS_def min_def)
  show "backoff_base n a \<le> 60000"
    by (simp add: backoff_base_def BASE_RECONNECT_MS_def MAX_RECONNECT_MS_def SLOW_RETRY_MS_def min_def)
qed

lemma delay_bounds:
  assumes "0 \<le> r" "r < 1"
  shows "750 \<le> backoff_base n a * (3 / 4 + r * (1 / 2))"
    "backoff_base n a * (3 / 4 + r * (1 / 2)) < 75000"
proof -
  have "1000 * (3 / 4) \<le> backoff_base n a * (3 / 4 + r * (1 / 2))"
    by (rule mult_mono) (use assms backoff_bounds [of n a] in simp_all)
  then show "750 \<le> backoff_base n a * (3 / 4 + r * (1 / 2))" by simp
  have "backoff_base n a * (3 / 4 + r * (1 / 2)) \<le> 60000 * (3 / 4 + r * (1 / 2))"
    by (rule mult_right_mono) (use assms backoff_bounds [of n a] in simp_all)
  also have "\<dots> < 75000" using assms by simp
  finally show "backoff_base n a * (3 / 4 + r * (1 / 2)) < 75000" .
qed

subsection \<open>Every event keeps the invariant\<close>

lemma schedule_inv:
  assumes w: "maxReconnectAttempts w = 10" "reconnectAttempts w \<le> 10" "timers_ok w"
    and r: "0 \<le> r" "r < 1" and s: "shouldReconnect w"
    and quiet: "\<And>i. \<not> live w i" "\<And>i. ws w = Some i \<Longrightarrow> state_of w i \<noteq> CLOSED"
      "isConnected w \<Longrightarrow> ws w \<noteq> None"
  shows "ws_inv (scheduleReconnect r w)"
proof -
  have "timers_ok (scheduleReconnect r w)"
    using w(3) s delay_bounds [OF r] by (simp add: timers_ok_def schedule_timers)
  moreover have "sockets_ok (scheduleReconnect r w)"
    using s quiet by (simp add: sockets_ok_def live_def)
  ultimately show ?thesis using w by (simp add: ws_inv_def)
qed

lemma timers_ok_emit [simp]: "timers_ok (emit ev args w) = timers_ok w"
  by (simp add: timers_ok_def)

lemma live_emit [simp]: "live (emit ev args w) = live w"
  by (simp add: live_def fun_eq_iff)

lemma state_of_new_socket:
  "state_of (w\<lparr>sockets := sockets w @ [\<lparr>url = u, readyState = CONNECTING, sent = []\<rparr>]\<rparr>) i =
     (if i = length (sockets w) then CONNECTING else state_of w i)"
  by (auto simp: state_of_def nth_append)

lemma open_inv:
  assumes w: "maxReconnectAttempts w = 10" "reconnectAttempts w \<le> 10" "timers w = []"
    "reconnectTimer w = None" "shouldReconnect w"
    and r: "0 \<le> r" "r < 1"
    and quiet: "\<And>i. \<not> live w i" "\<And>i. ws w = Some i \<Longrightarrow> state_of w i \<noteq> CLOSED"
      "isConnected w \<Longrightarrow> ws w \<noteq> None"
  shows "ws_inv (openSocket throws r w)"
proof (cases throws)
  case None
  then show ?thesis
    using w quiet by (auto simp: openSocket_def inv_defs state_of_new_socket)
next
  case (Some err)
  have "timers_ok w" using w by (simp add: timers_ok_def)
  with Some w r quiet show ?thesis
    by (simp add: openSocket_def) (rule schedule_inv; simp)
qed

lemma connect_inv:
  assumes "ws_inv w" "0 \<le> r" "r < 1"
  shows "ws_inv (connect throws r w)"
proof (cases "\<exists>i. ws w = Some i \<and> (state_of w i = OPEN \<or> state_of w i = CONNECTING)")
  case True
  with assms show ?thesis by (auto simp: connect_def)
next
  case False
  have l: "live w i \<Longrightarrow> ws w = Some i" for i
    using assms(1) by (simp add: ws_inv_def sockets_ok_def)
  have dead: "\<not> live w i" for i
  proof
    assume i: "live w i"
    with l have "ws w = Some i" by blast
    with False i show False by (auto simp only: live_def)
  qed
  have t: "timers_ok (w\<lparr>shouldReconnect := True\<rparr>)"
    using assms(1) by (auto simp: ws_inv_def timers_ok_def)
  let ?w = "cancelReconnect (w\<lparr>shouldReconnect := True\<rparr>)"
  have "\<not> live ?w i" for i using dead [of i] by (simp add: live_def)
  moreover have "state_of ?w i \<noteq> CLOSED" if "ws ?w = Some i" for i
    using assms(1) that by (simp add: ws_inv_def sockets_ok_def)
  moreover have "isConnected ?w \<Longrightarrow> ws ?w \<noteq> None"
    using assms(1) by (simp add: ws_inv_def sockets_ok_def)
  ultimately have "ws_inv (openSocket throws r ?w)"
    using assms t by (intro open_inv) (simp_all add: ws_inv_def)
  with False show ?thesis by (simp add: connect_def split: option.splits)
qed

lemma disconnect_fields:
  "ws_inv w \<Longrightarrow> shouldReconnect (disconnect w) = False \<and> ws (disconnect w) = None \<and>
     isConnected (disconnect w) = False \<and> timers (disconnect w) = [] \<and>
     reconnectTimer (disconnect w) = None \<and> reconnectAttempts (disconnect w) = 0 \<and>
     maxReconnectAttempts (disconnect w) = 10 \<and> \<not> live (disconnect w) i"
proof -
  assume w: "ws_inv w"
  have t: "timers (cancelReconnect (w\<lparr>shouldReconnect := False\<rparr>)) = []"
    using w by (auto simp: ws_inv_def timers_ok_def cancelReconnect_def filter_empty_conv
        dest!: arg_cong [where f = set] split: option.splits)
  have l: "live w i \<Longrightarrow> ws w = Some i"
    using w by (simp add: ws_inv_def sockets_ok_def)
  show ?thesis
    using w t l by (auto simp: disconnect_def Let_def live_def ws_inv_def split: option.splits)
qed

lemma disconnect_inv: "ws_inv w \<Longrightarrow> ws_inv (disconnect w)"
  using disconnect_fields [of w] by (auto simp: inv_defs)

lemma live_only:
  assumes "ws_inv w" "live w i"
  shows "ws w = Some i" "reconnectTimer w = None" "timers w = []" "shouldReconnect w"
    "live w j \<longleftrightarrow> j = i"
proof -
  have l: "\<And>i. live w i \<Longrightarrow> ws w = Some i \<and> reconnectTimer w = None"
    using assms(1) by (simp add: ws_inv_def sockets_ok_def)
  show "ws w = Some i" "reconnectTimer w = None" using l [OF assms(2)] by simp_all
  then show "timers w = []" "shouldReconnect w"
    using assms(1) by (simp_all add: ws_inv_def sockets_ok_def timers_ok_def)
  show "live w j \<longleftrightarrow> j = i" using l [of j] l [OF assms(2)] assms(2) by auto
qed

lemma live_set_state:
  "live w i \<Longrightarrow> live (set_state i s w) j \<longleftrightarrow> (if j = i then s = CONNECTING \<or> s = OPEN else live w j)"
  by (auto simp: live_def)

lemma open_dead: "live w i \<Longrightarrow> state_of w i \<noteq> CLOSED"
  by (auto simp: live_def)

lemma OPEN_live: "state_of w i = OPEN \<Longrightarrow> live w i"
  by (simp add: live_def)

lemma set_state_Open_inv:
  assumes "ws_inv w" "state_of w i = CONNECTING"
  shows "ws_inv (on_open i (set_state i OPEN w))"
proof -
  have l: "live w i" using assms by (simp add: live_def)
  note o = live_only [OF assms(1) l]
  have "timers_ok (on_open i (set_state i OPEN w))"
    using o by (simp add: on_open_def timers_ok_def)
  moreover have "sockets_ok (on_open i (set_state i OPEN w))"
    using o l assms(2) by (auto simp: on_open_def sockets_ok_def live_set_state live_def)
  ultimately show ?thesis using assms(1) o by (simp add: ws_inv_def on_open_def)
qed

lemma CLOSING_inv:
  assumes "ws_inv w" "live w i"
  shows "ws_inv (set_state i CLOSING w)"
proof -
  note o = live_only [OF assms]
  have "\<not> live (set_state i CLOSING w) j" for j
    using o(5) [of j] assms(2) by (simp add: live_set_state)
  then have "sockets_ok (set_state i CLOSING w)"
    using o assms(1) open_dead [OF assms(2)] by (auto simp: ws_inv_def sockets_ok_def live_def)
  then show ?thesis using assms(1) by (simp add: ws_inv_def timers_ok_def)
qed

lemma close_inv: "ws_inv w \<Longrightarrow> ws_inv (close_socket i w)"
  by (simp add: close_socket_def CLOSING_inv live_def)
lemma same_inv:
  "maxReconnectAttempts v = maxReconnectAttempts w \<Longrightarrow> reconnectAttempts v = reconnectAttempts w \<Longrightarrow>
   timers v = timers w \<Longrightarrow> reconnectTimer v = reconnectTimer w \<Longrightarrow>
   shouldReconnect v = shouldReconnect w \<Longrightarrow> isConnected v = isConnected w \<Longrightarrow> ws v = ws w \<Longrightarrow>
   state_of v = state_of w \<Longrightarrow> ws_inv v = ws_inv w"
  by (simp add: inv_defs)

lemma simple_inv [simp]:
  "ws_inv (ws_on ev cb w) = ws_inv w" "ws_inv (ws_off ev cb w) = ws_inv w"
  "ws_inv (send d w) = ws_inv w" "ws_inv (emit ev args w) = ws_inv w"
  "ws_inv (dispatch t w) = ws_inv w" "ws_inv (on_error i x w) = ws_inv w"
  by (rule same_inv; simp add: on_error_def)+

lemma message_inv: "ws_inv w \<Longrightarrow> ws_inv (on_message i data w)"
  by (simp add: on_message_def onMessage_def close_inv split: message_data.splits option.splits)

lemma closed_inv:
  assumes "ws_inv w" "state_of w i \<noteq> CLOSED" "0 \<le> r" "r < 1"
  shows "ws_inv (on_close i r (set_state i CLOSED w))"
proof (cases "ws w = Some i")
  case False
  with assms show ?thesis by (auto simp: on_close_def inv_defs)
next
  case True
  let ?w = "emit ''disconnected'' [] ((set_state i CLOSED w)\<lparr>isConnected := False, ws := None\<rparr>)"
  have s: "shouldReconnect w" using assms(1) True by (simp add: ws_inv_def sockets_ok_def)
  have dead: "\<not> live ?w j" for j
    using assms(1,2) True by (auto simp: ws_inv_def sockets_ok_def live_def)
  have t: "timers_ok ?w" using assms(1) by (simp add: ws_inv_def timers_ok_def)
  have "ws_inv (scheduleReconnect r ?w)"
    by (rule schedule_inv) (use assms(1,3,4) t s dead in \<open>simp_all add: ws_inv_def\<close>)
  with True s show ?thesis by (simp add: on_close_def)
qed

lemma timer_inv:
  assumes "ws_inv w" "t \<in> timer_id ` set (timers w)" "0 \<le> r" "r < 1"
  shows "ws_inv (on_timer throws r (w\<lparr>timers := filter (\<lambda>x. timer_id x \<noteq> t) (timers w)\<rparr>))"
proof -
  have t: "reconnectTimer w = Some t" "filter (\<lambda>x. timer_id x \<noteq> t) (timers w) = []" "shouldReconnect w"
    using assms(1,2) by (auto simp: ws_inv_def timers_ok_def split: option.splits)
  have "ws_inv (openSocket throws r (w\<lparr>timers := [], reconnectTimer := None\<rparr>))"
    by (rule open_inv) (use assms t in \<open>auto simp: ws_inv_def sockets_ok_def live_def\<close>)
  with t show ?thesis by (simp add: on_timer_def)
qed

lemma perform_inv: "ws_inv w \<Longrightarrow> enabled w e \<Longrightarrow> ws_inv (perform w e)"
  by (cases e) (simp_all add: connect_inv disconnect_inv set_state_Open_inv message_inv CLOSING_inv
      live_def closed_inv timer_inv)

interpretation websocket: machine fire ws_inv
  by unfold_locales (simp add: fire_def perform_inv)

lemma new_client_inv: "ws_inv (new_client p q h)"
  by (simp add: new_client_def inv_defs state_of_def)

lemma ws_run_inv: "ws_inv w \<Longrightarrow> ws_inv (ws_run w es)"
  unfolding ws_run_def by (rule websocket.run_inv)

lemma reachable_inv: "ws_reachable p q h w \<Longrightarrow> ws_inv w"
  by (auto simp: ws_reachable_run intro: ws_run_inv new_client_inv)

text \<open>C1. In every run from a new client: at most one socket is connecting or open and it is
  the client's, no reconnect timer is set meanwhile, at most one timer is set and the
  client can cancel it, the retry counter is bounded, the delay of the timer is
  at least 0.75 and less than 75 seconds, and the client reports a connection whenever
  its socket is open.\<close>

theorem websocket_invariant:
  "let w = ws_run (new_client path protocol host) es
   in (\<forall>i j. live w i \<and> live w j \<longrightarrow> i = j \<and> ws w = Some i \<and> timers w = []) \<and>
      map timer_id (timers w) = (case reconnectTimer w of None \<Rightarrow> [] | Some t \<Rightarrow> [t]) \<and>
      (\<forall>t \<in> set (timers w). 750 \<le> delay t \<and> delay t < 75000) \<and>
      (timers w \<noteq> [] \<longrightarrow> shouldReconnect w) \<and>
      reconnectAttempts w \<le> maxReconnectAttempts w \<and>
      (\<forall>i. state_of w i = OPEN \<longrightarrow> isConnected w)"
proof -
  let ?w = "ws_run (new_client path protocol host) es"
  have I: "ws_inv ?w" by (intro ws_run_inv new_client_inv)
  have "\<forall>i j. live ?w i \<and> live ?w j \<longrightarrow> i = j \<and> ws ?w = Some i \<and> timers ?w = []"
  proof (intro allI impI)
    fix i j
    assume "live ?w i \<and> live ?w j"
    then show "i = j \<and> ws ?w = Some i \<and> timers ?w = []"
      using live_only(1,3) [OF I, of i] live_only(5) [OF I, of i j] by simp
  qed
  moreover have "timers ?w \<noteq> [] \<longrightarrow> shouldReconnect ?w"
    using I by (auto simp: ws_inv_def timers_ok_def split: option.splits)
  ultimately show ?thesis
    using I by (simp add: Let_def ws_inv_def timers_ok_def sockets_ok_def)
qed

definition sample_up :: ws_client where
  "sample_up = ws_run (new_client ''/'' ''https:'' ''h'')
     [Connect None 0, Closed 0 0, TimerFires 0 None 0, Opened 1]"

lemma sample_up [simp]:
  "state_of sample_up (Suc 0) = OPEN" "ws sample_up = Some (Suc 0)" "reconnectTimer sample_up = None"
  by (simp_all add: sample_up_def new_client_def fire_def connect_def openSocket_def on_open_def
      emit_def on_close_def on_timer_def scheduleReconnect_def cancelReconnect_def set_state_def
      state_of_def)

theorem websocket_invariant_witness:
  "state_of sample_up 1 = OPEN \<and> isConnected sample_up \<and> ws sample_up = Some 1 \<and> timers sample_up = []"
proof -
  note W = websocket_invariant [of "''/''" "''https:''" "''h''"
      "[Connect None 0, Closed 0 0, TimerFires 0 None 0, Opened 1]",
      folded sample_up_def, unfolded Let_def]
  then have "state_of sample_up (Suc 0) = OPEN \<longrightarrow> isConnected sample_up" by blast
  moreover have "map timer_id (timers sample_up) = []" using W sample_up(3) by simp
  ultimately show ?thesis by simp
qed

section \<open>The connection as an automaton\<close>

text \<open>
  The contract: a link is idle until dialled and after a hang-up; it dials, it is up, it
  drains while the socket closes, and it waits for the next attempt.
\<close>

datatype link = Idle | Dialing | Up | Draining | Waiting

datatype signal = Dial bool | Hangup | Established | Ending | Lost | Retry bool

fun link_next :: "link \<Rightarrow> signal \<Rightarrow> link" where
  "link_next l (Dial ok) = (if l = Dialing \<or> l = Up then l else if ok then Dialing else Waiting)"
| "link_next l Hangup = Idle"
| "link_next l Established = Up"
| "link_next l Ending = Draining"
| "link_next l Lost = Waiting"
| "link_next l (Retry ok) = (if ok then Dialing else Waiting)"

definition link_of :: "ws_client \<Rightarrow> link" where
  "link_of w =
     (let rest = (if reconnectTimer w \<noteq> None then Waiting else Idle)
      in case ws w of
           None \<Rightarrow> rest
         | Some i \<Rightarrow>
             (case state_of w i of
                CONNECTING \<Rightarrow> Dialing
              | OPEN \<Rightarrow> Up
              | _ \<Rightarrow> if rest = Waiting then Waiting else Draining))"

fun signal_of :: "ws_client \<Rightarrow> event \<Rightarrow> signal option" where
  "signal_of w (Connect throws r) = Some (Dial (throws = None))"
| "signal_of w Disconnect = Some Hangup"
| "signal_of w (Opened i) = Some Established"
| "signal_of w (PeerClosing i) =
     (if ws w = Some i then Some Ending else None)"
| "signal_of w (Message i (Text s)) =
     (if MAX_PAYLOAD_BYTES < length s then Some Ending else None)"
| "signal_of w (Closed i r) = (if ws w = Some i then Some Lost else None)"
| "signal_of w (TimerFires t throws r) = Some (Retry (throws = None))"
| "signal_of w _ = None"

lemma link_of_same:
  "ws v = ws w \<Longrightarrow> reconnectTimer v = reconnectTimer w \<Longrightarrow> state_of v = state_of w \<Longrightarrow>
   link_of v = link_of w"
  by (simp only: link_of_def)

lemma link_of_simple [simp]:
  "link_of (ws_on ev cb w) = link_of w" "link_of (ws_off ev cb w) = link_of w"
  "link_of (send d w) = link_of w" "link_of (emit ev args w) = link_of w"
  "link_of (dispatch t w) = link_of w" "link_of (on_error i x w) = link_of w"
  by (rule link_of_same; simp add: on_error_def)+

lemma link_of_live [simp]:
  "ws w = Some i \<Longrightarrow> state_of w i = CONNECTING \<Longrightarrow> link_of w = Dialing"
  "ws w = Some i \<Longrightarrow> state_of w i = OPEN \<Longrightarrow> link_of w = Up"
  by (simp_all add: link_of_def)

lemma link_of_dead:
  assumes "\<And>i. \<not> live w i"
  shows "link_of w = (if reconnectTimer w \<noteq> None then Waiting else if ws w = None then Idle else Draining)"
proof (cases "ws w")
  case (Some i)
  then show ?thesis using assms [of i] by (cases "state_of w i") (auto simp: link_of_def live_def)
qed (simp add: link_of_def)

lemma link_of_cases:
  assumes "ws_inv w"
  shows "(\<exists>i. ws w = Some i \<and> state_of w i = CONNECTING \<and> link_of w = Dialing) \<or>
    (\<exists>i. ws w = Some i \<and> state_of w i = OPEN \<and> link_of w = Up) \<or>
    (\<forall>i. \<not> live w i)"
proof (cases "\<exists>i. live w i")
  case True
  then obtain i where i: "live w i" by blast
  with live_only(1) [OF assms i] show ?thesis by (auto simp: live_def)
qed simp

lemma link_openSocket:
  assumes "shouldReconnect w" "\<And>i. \<not> live w i"
  shows "link_of (openSocket throws r w) = (if throws = None then Dialing else Waiting)"
proof (cases throws)
  case None
  then show ?thesis by (simp add: openSocket_def link_of_def state_of_new_socket)
next
  case (Some err)
  have "\<And>i. \<not> live (openSocket throws r w) i"
    using assms(2) Some by (simp add: openSocket_def live_def)
  from link_of_dead [OF this] show ?thesis using assms(1) Some by (simp add: openSocket_def)
qed

lemma link_connect:
  assumes "ws_inv w"
  shows "link_of (connect throws r w) = link_next (link_of w) (Dial (throws = None))"
  using link_of_cases [OF assms]
proof (elim disjE exE conjE)
  assume dead: "\<forall>i. \<not> live w i"
  let ?w = "cancelReconnect (w\<lparr>shouldReconnect := True\<rparr>)"
  have "connect throws r w = openSocket throws r ?w"
    using dead by (auto simp: connect_def live_def split: option.splits)
  moreover have "link_of (openSocket throws r ?w) = (if throws = None then Dialing else Waiting)"
    by (rule link_openSocket) (use dead in \<open>simp_all add: live_def\<close>)
  moreover have "link_of w \<noteq> Dialing" "link_of w \<noteq> Up"
    using dead by (simp_all add: link_of_dead)
  ultimately show ?thesis by simp
qed (simp_all add: connect_def)

lemma link_message:
  assumes "ws_inv w" "state_of w i = OPEN"
  shows "link_of (on_message i data w) =
    (case signal_of w (Message i data) of None \<Rightarrow> link_of w | Some s \<Rightarrow> link_next (link_of w) s)"
proof (cases data)
  case Binary
  then show ?thesis by (simp add: on_message_def onMessage_def)
next
  case (Text s)
  have l: "live w i" using assms(2) by (rule OPEN_live)
  note o = live_only [OF assms(1) l]
  have "\<not> live (close_socket i w) j" for j
    using o(5) [of j] l by (auto simp: live_def)
  from link_of_dead [OF this] show ?thesis
    using Text o by (simp add: on_message_def onMessage_def)
qed

lemma link_peer_closing:
  assumes "ws_inv w" "state_of w i = OPEN"
  shows "link_of (set_state i CLOSING w) = Draining" "ws w = Some i"
proof -
  have l: "live w i" using assms(2) by (rule OPEN_live)
  note o = live_only [OF assms(1) l]
  show "ws w = Some i" by (rule o)
  have "\<not> live (set_state i CLOSING w) j" for j
    using o(5) [of j] l by (simp add: live_set_state)
  from link_of_dead [OF this] show "link_of (set_state i CLOSING w) = Draining" using o by simp
qed

lemma link_closed:
  assumes "ws_inv w" "state_of w i \<noteq> CLOSED"
  shows "link_of (on_close i r (set_state i CLOSED w)) = (if ws w = Some i then Waiting else link_of w)"
proof (cases "ws w = Some i")
  case True
  then have "shouldReconnect w" using assms(1) by (simp add: ws_inv_def sockets_ok_def)
  with True show ?thesis by (simp add: on_close_def link_of_def)
next
  case False
  then show ?thesis by (cases "ws w") (auto simp: on_close_def link_of_def)
qed

lemma link_timer:
  assumes "ws_inv w" "t \<in> timer_id ` set (timers w)"
  shows "link_of (on_timer throws r (w\<lparr>timers := filter (\<lambda>x. timer_id x \<noteq> t) (timers w)\<rparr>)) =
    (if throws = None then Dialing else Waiting)"
proof -
  have t: "reconnectTimer w = Some t" "shouldReconnect w"
    using assms by (auto simp: ws_inv_def timers_ok_def split: option.splits)
  have dead: "\<not> live w i" for i
    using live_only(2) [OF assms(1), of i] t by auto
  show ?thesis
    using t dead by (simp add: on_timer_def link_openSocket live_def)
qed

lemma link_perform:
  assumes I: "ws_inv w" and e: "enabled w e"
  shows "link_of (perform w e) =
    (case signal_of w e of None \<Rightarrow> link_of w | Some s \<Rightarrow> link_next (link_of w) s)"
proof -
  note [simp] = link_connect [OF I] link_message [OF I] link_peer_closing [OF I]
    link_closed [OF I] link_timer [OF I]
  have o: "link_of (on_open i (set_state i OPEN w)) = Up" if i: "state_of w i = CONNECTING" for i
  proof -
    have "live w i" using i by (simp add: live_def)
    from live_only(1) [OF I this] show ?thesis using i by (simp add: on_open_def)
  qed
  have d: "link_of (disconnect w) = Idle"
    using disconnect_fields [OF I] by (simp add: link_of_def)
  show ?thesis
    using e o d by (cases e) simp_all
qed

text \<open>C2. The socket client implements the link automaton: in every run, each event moves the
  link as the automaton prescribes, and events of replaced sockets, failed sends,
  listener changes and messages that fit leave it alone.\<close>

theorem websocket_refines_link:
  assumes "w = ws_run (new_client path protocol host) es" and "enabled w e"
  shows "link_of (perform w e) =
    (case signal_of w e of None \<Rightarrow> link_of w | Some s \<Rightarrow> link_next (link_of w) s)"
proof -
  have "ws_inv w" using assms(1) by (simp add: ws_run_inv new_client_inv)
  from this assms(2) show ?thesis by (rule link_perform)
qed

theorem websocket_refines_link_witness:
  "link_of (perform (ws_run (new_client ''/'' ''https:'' ''h'') [Connect None 0, Opened 0]) (Closed 0 (1/2)))
     = Waiting"
  using websocket_refines_link [OF refl, of "''/''" "''https:''" "''h''" "[Connect None 0, Opened 0]" "Closed 0 (1/2)"]
  by (simp add: new_client_def fire_def connect_def openSocket_def on_open_def emit_def
      state_of_def set_state_def)

end
