(* ===== verification/WebsocketRuns.thy ===== *)
theory WebsocketRuns
  imports WebsocketProps
begin

text \<open>
  Runs of the reconnecting socket: recovery from every failure, the schedule of the
  retries, silence after \<open>disconnect\<close>, and the delivery of messages to listeners.
\<close>

section \<open>Recovery\<close>

fun all_enabled :: "ws_client \<Rightarrow> event list \<Rightarrow> bool" where
  "all_enabled w [] = True"
| "all_enabled w (e # es) = (enabled w e \<and> all_enabled (fire w e) es)"

fun browser_event :: "event \<Rightarrow> bool" where
  "browser_event (Opened i) = True"
| "browser_event (Closed i r) = True"
| "browser_event (TimerFires t throws r) = True"
| "browser_event _ = False"

text \<open>What the browser has to deliver for the link to come up.\<close>

definition recovery :: "ws_client \<Rightarrow> event list" where
  "recovery w =
     (let retry = (\<lambda>t. [TimerFires t None 0, Opened (length (sockets w))])
      in case link_of w of
           Idle \<Rightarrow> []
         | Up \<Rightarrow> []
         | Dialing \<Rightarrow> (case ws w of None \<Rightarrow> [] | Some i \<Rightarrow> [Opened i])
         | Waiting \<Rightarrow> (case reconnectTimer w of None \<Rightarrow> [] | Some t \<Rightarrow> retry t)
         | Draining \<Rightarrow> (case ws w of None \<Rightarrow> [] | Some i \<Rightarrow> Closed i 0 # retry (next_timer w)))"

lemma link_Idle_persists:
  "ws_inv w \<Longrightarrow> link_of w \<noteq> Idle \<Longrightarrow> e \<noteq> Disconnect \<Longrightarrow> link_of (fire w e) \<noteq> Idle"
proof (cases "enabled w e")
  case True
  assume "ws_inv w" "link_of w \<noteq> Idle" "e \<noteq> Disconnect"
  with True show ?thesis
    by (cases "(w, e)" rule: signal_of.cases) (simp_all add: fire_def link_perform del: perform.simps)
qed (simp add: fire_def)

lemma link_wanted:
  "ws_inv w \<Longrightarrow> link_of w \<noteq> Idle \<Longrightarrow> Disconnect \<notin> set es \<Longrightarrow> link_of (ws_run w es) \<noteq> Idle"
  by (induction es arbitrary: w) (auto simp: link_Idle_persists websocket.step_inv)

lemma up_state:
  assumes "ws_inv w" "link_of w = Up"
  obtains i where "ws w = Some i" "state_of w i = OPEN" "isConnected w" "reconnectAttempts w = 0"
  using link_of_cases [OF assms(1)] assms that
  by (auto simp: link_of_dead ws_inv_def sockets_ok_def split: if_splits)

lemma retry_comes_up:
  assumes I: "ws_inv w" and t: "reconnectTimer w = Some t"
  shows "all_enabled w [TimerFires t None 0, Opened (length (sockets w))]"
    "link_of (ws_run w [TimerFires t None 0, Opened (length (sockets w))]) = Up"
proof -
  let ?v = "fire w (TimerFires t None 0)"
  have m: "t \<in> timer_id ` set (timers w)" "shouldReconnect w"
    using I t by (auto simp: ws_inv_def timers_ok_def dest!: arg_cong [where f = set])
  then have en: "enabled w (TimerFires t None 0)" by simp
  have new: "state_of ?v (length (sockets w)) = CONNECTING"
    using m by (simp add: fire_def on_timer_def openSocket_def state_of_def nth_append Let_def)
  with en show "all_enabled w [TimerFires t None 0, Opened (length (sockets w))]" by simp
  have "ws_inv ?v" using I by (rule websocket.step_inv)
  with new show "link_of (ws_run w [TimerFires t None 0, Opened (length (sockets w))]) = Up"
    by (simp add: fire_def [of ?v] link_perform del: perform.simps)
qed

lemma recovery_works:
  assumes I: "ws_inv w" and l: "link_of w \<noteq> Idle"
  shows "all_enabled w (recovery w) \<and> link_of (ws_run w (recovery w)) = Up"
  using link_of_cases [OF I]
proof (elim disjE exE conjE)
  fix i
  assume i: "ws w = Some i" "state_of w i = CONNECTING" "link_of w = Dialing"
  with I show ?thesis by (simp add: recovery_def fire_def link_perform del: perform.simps)
next
  fix i
  assume "link_of w = Up"
  then show ?thesis by (simp add: recovery_def)
next
  assume dead: "\<forall>i. \<not> live w i"
  show ?thesis
  proof (cases "reconnectTimer w")
    case (Some t)
    with dead have "link_of w = Waiting" by (simp add: link_of_dead)
    with retry_comes_up [OF I Some] Some show ?thesis by (simp add: recovery_def)
  next
    case None
    with dead l obtain i where i: "ws w = Some i" "link_of w = Draining"
      by (auto simp: link_of_dead split: if_splits)
    let ?v = "fire w (Closed i 0)"
    have s: "state_of w i \<noteq> CLOSED" "shouldReconnect w"
      using I i by (simp_all add: ws_inv_def sockets_ok_def)
    have v: "reconnectTimer ?v = Some (next_timer w)" "length (sockets ?v) = length (sockets w)"
      using s i by (simp_all add: fire_def on_close_def)
    have "ws_inv ?v" using I by (rule websocket.step_inv)
    from retry_comes_up [OF this v(1)] v i s None show ?thesis by (simp add: recovery_def)
  qed
qed

text \<open>C3. Once \<open>connect\<close> has been called and until \<open>disconnect\<close>, the client never gives up:
  whatever has happened, at most three deliveries of the browser, each of them possible
  (the close of the old socket, the timer that is then set, the opening of the new
  socket), bring the connection up again and clear the retry counter.\<close>

theorem websocket_recovers:
  assumes "w = ws_run (new_client path protocol host) (es @ Connect throws r # fs)"
    and "0 \<le> r" "r < 1" and "Disconnect \<notin> set fs"
  shows "length (recovery w) \<le> 3 \<and> list_all browser_event (recovery w) \<and>
    all_enabled w (recovery w) \<and>
    (let w' = ws_run w (recovery w)
     in link_of w' = Up \<and> isConnected w' \<and> reconnectAttempts w' = 0)"
proof -
  let ?u = "ws_run (new_client path protocol host) es"
  have I0: "ws_inv ?u" by (intro ws_run_inv new_client_inv)
  have "link_of (fire ?u (Connect throws r)) \<noteq> Idle"
    using assms(2,3) I0 by (auto simp: fire_def link_connect)
  then have on: "link_of w \<noteq> Idle"
    using assms(1,4) I0 by (simp add: link_wanted websocket.step_inv)
  have I: "ws_inv w" using assms(1) by (simp only: ws_run_inv new_client_inv)
  have up: "link_of (ws_run w (recovery w)) = Up" "all_enabled w (recovery w)"
    using recovery_works [OF I on] by simp_all
  have "isConnected (ws_run w (recovery w)) \<and> reconnectAttempts (ws_run w (recovery w)) = 0"
    by (rule up_state [OF ws_run_inv [OF I] up(1)]) simp
  moreover have "length (recovery w) \<le> 3 \<and> list_all browser_event (recovery w)"
    by (simp add: recovery_def Let_def split: link.splits option.splits)
  ultimately show ?thesis using up by (simp add: Let_def)
qed

theorem websocket_recovers_witness:
  "isConnected (ws_run (ws_run (new_client ''/'' ''https:'' ''h'') [Connect None 0, Closed 0 (1/2)])
     (recovery (ws_run (new_client ''/'' ''https:'' ''h'') [Connect None 0, Closed 0 (1/2)])))"
  using websocket_recovers [OF refl, of 0 "[Closed 0 (1/2)]" "''/''" "''https:''" "''h''" "[]" None]
  by (simp only: append_Nil Let_def) simp

section \<open>The schedule of the retries\<close>

text \<open>One round of an outage: the timer fires, a socket is constructed and closes unopened.\<close>

definition failed_retry :: "ws_client \<Rightarrow> rat \<Rightarrow> ws_client" where
  "failed_retry w r =
     (case reconnectTimer w of
        None \<Rightarrow> w
      | Some t \<Rightarrow> fire (fire w (TimerFires t None r)) (Closed (length (sockets w)) r))"

definition retry_base :: "nat \<Rightarrow> rat" where
  "retry_base n = (if n < 10 then [1000, 2000, 4000, 8000, 16000, 30000, 30000, 30000, 30000, 30000] ! n
     else 60000)"

lemma retry_base_backoff: "backoff_base 10 (min 10 n) = retry_base n"
proof (cases "n < 10")
  case True
  then have "n \<in> {0, 1, 2, 3, 4, 5, 6, 7, 8, 9}" by auto
  then show ?thesis
    by (auto simp: retry_base_def backoff_base_def BASE_RECONNECT_MS_def MAX_RECONNECT_MS_def)
qed (simp add: retry_base_def backoff_base_def SLOW_RETRY_MS_def)

definition out_for :: "ws_client \<Rightarrow> nat \<Rightarrow> rat \<Rightarrow> bool" where
  "out_for w n r \<longleftrightarrow> ws_inv w \<and> reconnectTimer w \<noteq> None \<and> ws w = None \<and>
     reconnectAttempts w = min 10 (Suc n) \<and>
     map delay (timers w) = [retry_base n * (3 / 4 + r * (1 / 2))]"

lemma lost_out:
  assumes "ws_inv w" "state_of w i \<noteq> CLOSED" "ws w = Some i" "reconnectAttempts w = min 10 n"
    "0 \<le> r" "r < 1"
  shows "out_for (fire w (Closed i r)) n r"
proof -
  let ?w = "emit ''disconnected'' [] ((set_state i CLOSED w)\<lparr>isConnected := False, ws := None\<rparr>)"
  have s: "shouldReconnect w" "maxReconnectAttempts w = 10" "timers_ok w"
    using assms(1,3) by (simp_all add: ws_inv_def sockets_ok_def)
  have t: "timers_ok ?w" using s(3) by (simp add: timers_ok_def)
  have "ws_inv (fire w (Closed i r))" using assms(1) by (rule websocket.step_inv)
  then show ?thesis
    using assms s t by (simp add: out_for_def fire_def on_close_def schedule_timers retry_base_backoff)
qed

lemma failed_retry_out:
  assumes o: "out_for w n r" and r: "0 \<le> r'" "r' < 1"
  shows "out_for (failed_retry w r') (Suc n) r'"
proof -
  obtain t where t: "reconnectTimer w = Some t" using o by (auto simp: out_for_def)
  have I: "ws_inv w" using o by (simp add: out_for_def)
  have m: "t \<in> timer_id ` set (timers w)" "shouldReconnect w"
    using I t by (auto simp: ws_inv_def timers_ok_def dest!: arg_cong [where f = set])
  let ?v = "fire w (TimerFires t None r')"
  have v: "ws ?v = Some (length (sockets w))" "state_of ?v (length (sockets w)) = CONNECTING"
    "reconnectAttempts ?v = min 10 (Suc n)"
    using m r o by (simp_all add: fire_def on_timer_def openSocket_def state_of_def nth_append out_for_def Let_def)
  have "out_for (fire ?v (Closed (length (sockets w)) r')) (Suc n) r'"
    by (rule lost_out) (use v r websocket.step_inv [OF I] in simp_all)
  with t show ?thesis by (simp add: failed_retry_def)
qed

lemma outage_out:
  "out_for w n r \<Longrightarrow> \<forall>x \<in> set rs. 0 \<le> x \<and> x < 1 \<Longrightarrow>
   out_for (foldl failed_retry w rs) (n + length rs) (last (r # rs))"
proof (induction rs arbitrary: w n r)
  case (Cons x rs)
  have "out_for (failed_retry w x) (Suc n) x" using Cons.prems by (auto intro: failed_retry_out)
  from Cons.IH [OF this] Cons.prems(2) show ?case by (cases rs) simp_all
qed simp

text \<open>C17. When an open connection is lost and every retry fails, the delays before the retries
  are 1, 2, 4, 8, 16 and then five times 30 seconds, and from the eleventh on 60
  seconds for ever, each scaled by a factor between 0.75 and 1.25; the counter stays
  at ten.\<close>

theorem websocket_retry_schedule:
  assumes "w = ws_run (new_client path protocol host) es" and "state_of w i = OPEN"
    and "\<forall>x \<in> set (r # rs). 0 \<le> x \<and> x < 1"
  shows "let w' = foldl failed_retry (fire w (Closed i r)) rs
    in map delay (timers w') = [retry_base (length rs) * (3 / 4 + last (r # rs) / 2)] \<and>
       reconnectAttempts w' = min 10 (Suc (length rs)) \<and> shouldReconnect w'"
proof -
  have I: "ws_inv w" using assms(1) by (simp only: ws_run_inv new_client_inv)
  have "out_for (fire w (Closed i r)) 0 r"
    by (rule lost_out)
      (use I assms live_only(1) [OF I OPEN_live] in \<open>auto simp: ws_inv_def sockets_ok_def\<close>)
  from outage_out [OF this] have "out_for (foldl failed_retry (fire w (Closed i r)) rs) (length rs) (last (r # rs))"
    using assms(3) by simp
  then show ?thesis by (auto simp: out_for_def Let_def ws_inv_def timers_ok_def)
qed

theorem websocket_retry_schedule_witness:
  "map delay (timers (foldl failed_retry (fire sample_up (Closed 1 0)) [0, 1/2, 1/2])) = [8000]"
  using websocket_retry_schedule [OF sample_up_def, of 1 0 "[0, 1/2, 1/2]"]
  by (simp add: retry_base_def Let_def)

section \<open>Listeners and messages\<close>

text \<open>
  The listeners of an event after a sequence of registrations: each once, in the order
  of their (first still valid) registration.
\<close>

fun subscribed :: "string \<Rightarrow> nat list \<Rightarrow> event \<Rightarrow> nat list" where
  "subscribed ev cbs (On ev' cb) = (if ev' = ev \<and> cb \<notin> set cbs then cbs @ [cb] else cbs)"
| "subscribed ev cbs (Off ev' cb) = (if ev' = ev then removeAll cb cbs else cbs)"
| "subscribed ev cbs _ = cbs"

definition subscribers :: "event list \<Rightarrow> string \<Rightarrow> nat list" where
  "subscribers es ev = foldl (subscribed ev) [] es"

definition listening :: "ws_client \<Rightarrow> string \<Rightarrow> nat list" where
  "listening w ev = (case listeners w ev of None \<Rightarrow> [] | Some cbs \<Rightarrow> cbs)"

lemma calls_emit: "calls (emit ev args w) = calls w @ map (\<lambda>cb. (cb, args)) (listening w ev)"
  by (simp add: emit_def listening_def split: option.splits)

lemma listening_cong: "listeners v = listeners w \<Longrightarrow> listening v ev = listening w ev"
  by (simp add: listening_def)

lemma listeners_keep [simp]:
  "listeners (send d w) = listeners w" "listeners (dispatch t w) = listeners w"
  "listeners (scheduleReconnect r w) = listeners w" "listeners (openSocket th r w) = listeners w"
  "listeners (connect th r w) = listeners w" "listeners (disconnect w) = listeners w"
  by (simp_all add: send_def dispatch_def scheduleReconnect_def openSocket_def connect_def
      disconnect_def Let_def split: option.splits js.splits)

lemma listeners_handlers [simp]:
  "listeners (on_open i w) = listeners w" "listeners (on_message i data w) = listeners w"
  "listeners (on_error i x w) = listeners w" "listeners (on_close i r w) = listeners w"
  "listeners (on_timer th r w) = listeners w"
  by (simp_all add: on_open_def on_message_def on_error_def on_close_def on_timer_def onMessage_def
      Let_def split: option.splits message_data.splits)

lemma listening_on: "listening (ws_on ev' cb w) ev = subscribed ev (listening w ev) (On ev' cb)"
  by (auto simp: ws_on_def listening_def Let_def split: option.splits)

lemma filter_removeAll: "filter (\<lambda>c. c \<noteq> cb) cbs = removeAll cb cbs"
  by (induction cbs) auto

lemma listening_off:
  "listening (ws_off ev' cb w) ev = subscribed ev (listening w ev) (Off ev' cb)"
  by (auto simp: ws_off_def listening_def Let_def filter_removeAll split: option.splits)

lemma listening_perform: "listening (perform w e) ev = subscribed ev (listening w ev) e"
  by (cases e; ((simp add: listening_on listening_off del: subscribed.simps(1,2); fail)
        | simp add: listening_def))

lemma listening_run:
  "listening (ws_run w es) ev = foldl (subscribed ev) (listening w ev) es"
proof (induction es arbitrary: w)
  case (Cons e es)
  have "listening (fire w e) ev = subscribed ev (listening w ev) e"
    by (cases e) (simp_all add: fire_def listening_perform del: perform.simps)
  with Cons show ?case by simp
qed simp

lemma listening_new: "listening (ws_run (new_client p q h) es) ev = subscribers es ev"
  by (simp add: listening_run subscribers_def) (simp add: listening_def new_client_def)

lemma subscribers_distinct: "distinct (subscribers es ev)"
proof -
  have "distinct cbs \<Longrightarrow> distinct (subscribed ev cbs e)" for cbs e
    by (cases e) (auto simp: distinct_removeAll)
  then have "distinct cbs \<Longrightarrow> distinct (foldl (subscribed ev) cbs es)" for cbs
    by (induction es arbitrary: cbs) auto
  then show ?thesis by (simp add: subscribers_def)
qed

lemma message_from_current:
  "ws_inv w \<Longrightarrow> state_of w i = OPEN \<Longrightarrow> perform w (Message i data) = onMessage data w"
  using live_only(1) [OF _ OPEN_live] by (simp add: on_message_def)

lemma delivered:
  assumes "w = ws_run (new_client path protocol host) es" and "state_of w i = OPEN"
    and "JSON_parse txt = Some (JObj kvs)" "js_get kvs ''type'' = JStr t" "length txt \<le> MAX_PAYLOAD_BYTES"
  shows "perform w (Message i (Text txt)) =
    w\<lparr>calls := calls w @ map (\<lambda>cb. (cb, [js_get kvs ''payload'', js_get kvs ''time''])) (subscribers es t)
        @ map (\<lambda>cb. (cb, [JObj kvs])) (subscribers es ''message'')\<rparr>"
proof -
  have I: "ws_inv w" using assms(1) by (simp only: ws_run_inv new_client_inv)
  have f: "emit ev args v = v\<lparr>calls := calls v @ map (\<lambda>cb. (cb, args)) (listening v ev)\<rparr>" for ev args v
    by (simp add: emit_def listening_def split: option.splits)
  have l: "listening w ev = subscribers es ev" for ev using assms(1) by (simp add: listening_new)
  have "dispatch txt w = emit ''message'' [JObj kvs] (emit t [js_get kvs ''payload'', js_get kvs ''time''] w)"
    by (simp add: dispatch_def assms(3,4))
  also have "\<dots> = w\<lparr>calls := calls w @ map (\<lambda>cb. (cb, [js_get kvs ''payload'', js_get kvs ''time''])) (subscribers es t)
        @ map (\<lambda>cb. (cb, [JObj kvs])) (subscribers es ''message'')\<rparr>"
    by (simp add: f l listening_cong [of "w\<lparr>calls := _\<rparr>" w])
  finally show ?thesis
    using assms(5) by (simp only: message_from_current [OF I assms(2)]) (simp add: onMessage_def)
qed

text \<open>C16. Any text that the hub sends over the open socket, within the size limit, and that is JSON of
  an object with a \<open>type\<close> reaches exactly the listeners that are registered for that type, each once
  and in the order of registration, with its payload and its time, and then the listeners of all
  messages with the whole object; nothing else changes.\<close>

theorem websocket_delivers:
  assumes "w = ws_run (new_client path protocol host) es" and "state_of w i = OPEN"
    and "JSON_parse txt = Some (JObj kvs)" "js_get kvs ''type'' = JStr t" "length txt \<le> MAX_PAYLOAD_BYTES"
  shows "perform w (Message i (Text txt)) =
    w\<lparr>calls := calls w @ map (\<lambda>cb. (cb, [js_get kvs ''payload'', js_get kvs ''time''])) (subscribers es t)
        @ map (\<lambda>cb. (cb, [JObj kvs])) (subscribers es ''message'')\<rparr>"
  using assms by (rule delivered)

text \<open>A report of the processor load of a node, as the hub writes it: a fraction, and no spaces.\<close>

definition sample_update :: string where
  "sample_update = ''{\"type\":\"nodes\",\"payload\":[{\"cpuPct\":12.5}],\"time\":5}''"

definition sample_payload :: js where
  "sample_payload = JArr [JObj [(''cpuPct'', JNum (Fin (25 / 2)))]]"

definition sample_members :: obj where
  "sample_members = [(''type'', JStr ''nodes''), (''payload'', sample_payload), (''time'', JInt 5)]"

lemma sample_update_parses: "JSON_parse sample_update = Some (JObj sample_members)"
  by code_simp

lemma sample_update_members:
  "js_get sample_members ''type'' = JStr ''nodes''" "js_get sample_members ''payload'' = sample_payload"
  "js_get sample_members ''time'' = JInt 5" "length sample_update \<le> MAX_PAYLOAD_BYTES"
  by (simp_all add: sample_members_def sample_update_def MAX_PAYLOAD_BYTES_def)

theorem websocket_delivers_witness:
  "calls (perform (ws_run (new_client ''/'' ''https:'' ''h'')
       [On ''nodes'' 4, On ''message'' 7, On ''nodes'' 2, On ''nodes'' 4, Connect None 0, Opened 0])
     (Message 0 (Text sample_update))) =
   [(4, [sample_payload, JInt 5]), (2, [sample_payload, JInt 5]), (7, [JObj sample_members])]"
  (is "calls (perform (ws_run ?n ?es) _) = _")
proof -
  have s: "state_of (ws_run ?n ?es) 0 = OPEN" "calls (ws_run ?n ?es) = []"
    by (simp_all add: new_client_def fire_def connect_def openSocket_def on_open_def ws_on_def
        emit_def cancelReconnect_def set_state_def state_of_def)
  have "subscribers ?es ''nodes'' = [4, 2]" "subscribers ?es ''message'' = [7]"
    by (simp_all add: subscribers_def)
  then show ?thesis
    using websocket_delivers [OF refl s(1) sample_update_parses sample_update_members(1,4)] s(2)
    by (simp add: sample_update_members)
qed

text \<open>C19. A text that is not an envelope changes nothing, and one that exceeds the size limit only
  starts the closing of the socket: no listener is called in either case.\<close>

theorem websocket_rejects_malformed:
  assumes "w = ws_run (new_client path protocol host) es" and "state_of w i = OPEN"
    and "\<And>s kvs t. data = Text s \<Longrightarrow> JSON_parse s = Some (JObj kvs) \<Longrightarrow>
      js_get kvs ''type'' = JStr t \<Longrightarrow> MAX_PAYLOAD_BYTES < length s"
  shows "perform w (Message i data) =
    (case data of
       Text s \<Rightarrow> if MAX_PAYLOAD_BYTES < length s then set_state i CLOSING w else w
     | Binary \<Rightarrow> w)"
proof -
  have I: "ws_inv w" using assms(1) by (simp only: ws_run_inv new_client_inv)
  note o = live_only(1) [OF I OPEN_live [OF assms(2)]]
  have "dispatch [] w = w" by (simp add: dispatch_def JSON_parse_def skip_ws_def)
  moreover have "dispatch s w = w" if "data = Text s" "\<not> MAX_PAYLOAD_BYTES < length s" for s
    using assms(3) [OF that(1)] that(2) by (auto simp: dispatch_def split: option.splits js.splits)
  ultimately show ?thesis
    using o assms(2)
    by (simp only: message_from_current [OF I assms(2)])
      (simp add: onMessage_def close_socket_def split: message_data.splits)
qed

theorem websocket_rejects_malformed_witness:
  "perform sample_up (Message 1 (Text ''{\"payload\":1}'')) = sample_up"
proof -
  have "JSON_parse ''{\"payload\":1}'' = Some (JObj [(''payload'', JInt 1)])" by code_simp
  then have "perform sample_up (Message 1 (Text ''{\"payload\":1}'')) =
      (if MAX_PAYLOAD_BYTES < length ''{\"payload\":1}'' then set_state 1 CLOSING sample_up else sample_up)"
    by (subst websocket_rejects_malformed [OF sample_up_def]) (auto simp: js_get_def)
  then show ?thesis by (simp add: MAX_PAYLOAD_BYTES_def)
qed

section \<open>After a hang-up\<close>

definition hung_up :: "ws_client \<Rightarrow> bool" where
  "hung_up w \<longleftrightarrow> ws w = None \<and> timers w = [] \<and> shouldReconnect w = False \<and> isConnected w = False \<and>
     (\<forall>i. \<not> live w i)"

definition is_connect :: "event \<Rightarrow> bool" where
  "is_connect e = (case e of Connect throws r \<Rightarrow> True | _ \<Rightarrow> False)"

lemma hung_up_fire:
  assumes h: "hung_up w" and e: "\<not> is_connect e" and I: "ws_inv w"
  shows "hung_up (fire w e)" "calls (fire w e) = calls w" "length (sockets (fire w e)) = length (sockets w)"
proof -
  have dead: "state_of w i \<noteq> OPEN" "state_of w i \<noteq> CONNECTING" for i
    using h by (auto simp: hung_up_def live_def)
  have d: "hung_up (disconnect w)" "calls (disconnect w) = calls w" "sockets (disconnect w) = sockets w"
    using disconnect_fields [OF I] h by (simp_all add: hung_up_def disconnect_def Let_def)
  have c: "hung_up (on_close i r (set_state i CLOSED w))" "on_close i r (set_state i CLOSED w) = set_state i CLOSED w"
    for i r using h by (auto simp: on_close_def hung_up_def live_def)
  show "hung_up (fire w e)" "calls (fire w e) = calls w" "length (sockets (fire w e)) = length (sockets w)"
    using h e dead d c
    by (cases e; auto simp: fire_def is_connect_def hung_up_def live_def on_error_def send_def
        ws_on_def ws_off_def Let_def split: option.splits)+
qed

text \<open>C18. After \<open>disconnect\<close> and until the next \<open>connect\<close>, whatever the browser still
  delivers for the old sockets and timers, no listener is called, no socket is
  constructed, no timer is set and no socket is open or opening.\<close>

theorem websocket_silent_after_disconnect:
  assumes "w = ws_run (new_client path protocol host) (es @ [Disconnect])"
    and "list_all (\<lambda>e. \<not> is_connect e) fs"
  shows "let w' = ws_run w fs
    in calls w' = calls w \<and> length (sockets w') = length (sockets w) \<and> timers w' = [] \<and>
       (\<forall>i. \<not> live w' i) \<and> \<not> isConnected w'"
proof -
  let ?u = "ws_run (new_client path protocol host) es"
  have I: "ws_inv w" using assms(1) by (simp only: ws_run_inv new_client_inv)
  have "hung_up w"
    using assms(1) disconnect_fields [of ?u] ws_run_inv [OF new_client_inv]
    by (simp add: hung_up_def fire_def)
  then have "hung_up (ws_run w fs) \<and> calls (ws_run w fs) = calls w \<and>
      length (sockets (ws_run w fs)) = length (sockets w)"
    using assms(2) I
    by (induction fs arbitrary: w) (auto simp: hung_up_fire websocket.step_inv)
  then show ?thesis by (simp add: hung_up_def)
qed

theorem websocket_silent_after_disconnect_witness:
  "timers (ws_run (ws_run (new_client ''/'' ''https:'' ''h'') ([Connect None 0, Opened 0] @ [Disconnect]))
     [Message 0 (Text ''{}''), Closed 0 0, Opened 0]) = []"
  using websocket_silent_after_disconnect
    [OF refl, of "[Message 0 (Text ''{}''), Closed 0 0, Opened 0]" "''/''" "''https:''" "''h''" "[Connect None 0, Opened 0]"]
  by (simp add: is_connect_def Let_def del: ws_run_simps)

text \<open>The reported connection can be stale: \<open>connect\<close> while the socket is closing replaces
  it, its close event is then ignored, and the client reports a connection, and never
  calls the listeners of \<open>disconnected\<close>, while the new socket is only dialling.\<close>

theorem websocket_stale_flag:
  "let w = ws_run (new_client ''/'' ''https:'' ''h'')
     [On ''disconnected'' 1, Connect None 0, Opened 0, PeerClosing 0, Connect None 0, Closed 0 0]
   in isConnected w \<and> link_of w = Dialing \<and> calls w = []"
  by (simp add: Let_def new_client_def fire_def connect_def openSocket_def on_open_def ws_on_def
      emit_def cancelReconnect_def on_close_def set_state_def state_of_def link_of_def)

end
