(* ===== verification/Bridge.thy ===== *)
theory Bridge
  imports WebsocketRuns
begin

text \<open>
  The bridge from the hub's updates to the query cache: \<open>useWebSocketBridge\<close> of
  \<open>frontend/src/api/websocketBridge.ts\<close> with \<open>frontend/src/api/invalidationTracker.ts\<close>
  and the query keys it uses.  What the bridge asks of the query cache (a library
  object) is recorded in order; \<open>Date.now()\<close> is an argument.  The last section composes
  the bridge with the socket client: the calls that a socket event makes to listeners are
  applied to the bridge.
\<close>

section \<open>State\<close>

datatype cache_op = SetData "string list" js | Invalidate "string list"

record bridge =
  lastLocalInvalidateAt :: int
  invalidateTimer :: "nat option"
  pending :: "(nat \<times> string) list"
  next_handle :: nat
  cache_ops :: "cache_op list"

definition new_bridge :: bridge where
  "new_bridge = \<lparr>lastLocalInvalidateAt = 0, invalidateTimer = None, pending = [], next_handle = 1,
     cache_ops = []\<rparr>"

definition keys_nodes_list :: "string list" where "keys_nodes_list = [''nodes'', ''list'']"
definition keys_inbounds_slim :: "string list" where "keys_inbounds_slim = [''inbounds'', ''slim'']"
definition keys_xray_outboundsTraffic :: "string list" where
  "keys_xray_outboundsTraffic = [''xray'', ''outboundsTraffic'']"

definition markLocalInvalidate :: "int \<Rightarrow> bridge \<Rightarrow> bridge" where
  "markLocalInvalidate now b = b\<lparr>lastLocalInvalidateAt := now\<rparr>"

definition isRecentLocalInvalidate :: "int \<Rightarrow> bridge \<Rightarrow> bool" where
  "isRecentLocalInvalidate now b \<longleftrightarrow> now - lastLocalInvalidateAt b < 1500"

section \<open>Handlers\<close>

definition cache_op :: "cache_op \<Rightarrow> bridge \<Rightarrow> bridge" where
  "cache_op op b = b\<lparr>cache_ops := cache_ops b @ [op]\<rparr>"

definition clear_invalidate :: "bridge \<Rightarrow> bridge" where
  "clear_invalidate b =
     (case invalidateTimer b of
        None \<Rightarrow> b
      | Some t \<Rightarrow> b\<lparr>pending := filter (\<lambda>x. fst x \<noteq> t) (pending b)\<rparr>)"

text \<open>\<open>p.type\<close>, for the payloads that carry one of the two kinds.\<close>

definition invalidate_kind :: "js \<Rightarrow> string option" where
  "invalidate_kind p =
     (case p of
        JObj kvs \<Rightarrow>
          (case js_get kvs ''type'' of
             JStr t \<Rightarrow> if t = ''inbounds'' \<or> t = ''clients'' then Some t else None
           | _ \<Rightarrow> None)
      | _ \<Rightarrow> None)"

definition onInvalidate :: "js \<Rightarrow> bridge \<Rightarrow> bridge" where
  "onInvalidate p b =
     (case invalidate_kind p of
        None \<Rightarrow> b
      | Some t \<Rightarrow>
          let b = clear_invalidate b
          in b\<lparr>pending := pending b @ [(next_handle b, t)], invalidateTimer := Some (next_handle b),
               next_handle := next_handle b + 1\<rparr>)"

text \<open>The timer set by \<open>onInvalidate\<close>, 200 ms later.\<close>

definition invalidate_timeout :: "int \<Rightarrow> string \<Rightarrow> bridge \<Rightarrow> bridge" where
  "invalidate_timeout now t b =
     (let b = b\<lparr>invalidateTimer := None\<rparr>
      in if isRecentLocalInvalidate now b then b
         else if t = ''inbounds'' then cache_op (Invalidate [''inbounds'']) b
         else cache_op (Invalidate [''clients'']) b)"

definition timer_due :: "int \<Rightarrow> nat \<Rightarrow> bridge \<Rightarrow> bridge" where
  "timer_due now h b =
     (case map_of (pending b) h of
        None \<Rightarrow> b
      | Some t \<Rightarrow> invalidate_timeout now t (b\<lparr>pending := filter (\<lambda>x. fst x \<noteq> h) (pending b)\<rparr>))"

definition is_array :: "js \<Rightarrow> bool" where
  "is_array v = (case v of JArr xs \<Rightarrow> True | _ \<Rightarrow> False)"

definition onOutbounds :: "js \<Rightarrow> bridge \<Rightarrow> bridge" where
  "onOutbounds p b = cache_op (SetData keys_xray_outboundsTraffic p) b"

definition onNodes :: "js \<Rightarrow> bridge \<Rightarrow> bridge" where
  "onNodes p b = (if is_array p then cache_op (SetData keys_nodes_list p) b else b)"

definition onInbounds :: "js \<Rightarrow> bridge \<Rightarrow> bridge" where
  "onInbounds p b = (if is_array p then cache_op (SetData keys_inbounds_slim p) b else b)"

section \<open>Mounting on the socket client\<close>

text \<open>
  The four handlers of the \<open>k\<close>-th mount are the listeners \<open>4k\<close> to \<open>4k + 3\<close>.
\<close>

definition handler_events :: "nat \<Rightarrow> (string \<times> nat) list" where
  "handler_events k = [(''invalidate'', 4 * k), (''outbounds'', 4 * k + 1), (''nodes'', 4 * k + 2),
     (''inbounds'', 4 * k + 3)]"

definition mount :: "nat \<Rightarrow> js option \<Rightarrow> rat \<Rightarrow> event list" where
  "mount k throws rnd = map (\<lambda>(ev, cb). On ev cb) (handler_events k) @ [Connect throws rnd]"

definition unmount :: "nat \<Rightarrow> event list" where
  "unmount k = map (\<lambda>(ev, cb). Off ev cb) (handler_events k)"

definition unmount_bridge :: "bridge \<Rightarrow> bridge" where
  "unmount_bridge b = (clear_invalidate b)\<lparr>invalidateTimer := None\<rparr>"

definition handle_call :: "nat \<Rightarrow> bridge \<Rightarrow> nat \<times> js list \<Rightarrow> bridge" where
  "handle_call k b c =
     (let p = (case snd c of [] \<Rightarrow> JUndef | a # rest \<Rightarrow> a)
      in if fst c = 4 * k then onInvalidate p b
         else if fst c = 4 * k + 1 then onOutbounds p b
         else if fst c = 4 * k + 2 then onNodes p b
         else if fst c = 4 * k + 3 then onInbounds p b
         else b)"

definition bridge_event :: "nat \<Rightarrow> ws_client \<times> bridge \<Rightarrow> event \<Rightarrow> ws_client \<times> bridge" where
  "bridge_event k s e =
     (let w' = fire (fst s) e
      in (w', foldl (handle_call k) (snd s) (drop (length (calls (fst s))) (calls w'))))"

section \<open>Properties\<close>

datatype bridge_input =
    GotInvalidate js
  | GotOutbounds js
  | GotNodes js
  | GotInbounds js
  | Due int nat
  | LocalChange int
  | Unmount

fun bridge_step :: "bridge \<Rightarrow> bridge_input \<Rightarrow> bridge" where
  "bridge_step b (GotInvalidate p) = onInvalidate p b"
| "bridge_step b (GotOutbounds p) = onOutbounds p b"
| "bridge_step b (GotNodes p) = onNodes p b"
| "bridge_step b (GotInbounds p) = onInbounds p b"
| "bridge_step b (Due now h) = timer_due now h b"
| "bridge_step b (LocalChange now) = markLocalInvalidate now b"
| "bridge_step b Unmount = unmount_bridge b"

definition bridge_inv :: "bridge \<Rightarrow> bool" where
  "bridge_inv b \<longleftrightarrow>
     map fst (pending b) = (case invalidateTimer b of None \<Rightarrow> [] | Some t \<Rightarrow> [t]) \<and>
     (\<forall>x \<in> set (pending b). snd x = ''inbounds'' \<or> snd x = ''clients'')"

lemma cache_op_fields [simp]:
  "pending (cache_op c b) = pending b" "invalidateTimer (cache_op c b) = invalidateTimer b"
  "next_handle (cache_op c b) = next_handle b" "cache_ops (cache_op c b) = cache_ops b @ [c]"
  by (simp_all add: cache_op_def)

lemma bridge_inv_cache_op [simp]: "bridge_inv (cache_op c b) = bridge_inv b"
  by (simp add: bridge_inv_def)

lemma pending_clear: "bridge_inv b \<Longrightarrow> pending (clear_invalidate b) = []"
  by (cases "pending b") (auto simp: bridge_inv_def clear_invalidate_def split: option.splits)

lemma clear_fields [simp]:
  "next_handle (clear_invalidate b) = next_handle b" "cache_ops (clear_invalidate b) = cache_ops b"
  "lastLocalInvalidateAt (clear_invalidate b) = lastLocalInvalidateAt b"
  by (simp_all add: clear_invalidate_def split: option.splits)

lemma invalidate_kind_cases:
  "invalidate_kind p = Some t \<Longrightarrow> t = ''inbounds'' \<or> t = ''clients''"
  by (auto simp: invalidate_kind_def split: js.splits if_splits)

lemma pending_cases:
  assumes "bridge_inv b"
  obtains "pending b = []" "invalidateTimer b = None"
  | h t where "pending b = [(h, t)]" "invalidateTimer b = Some h" "t = ''inbounds'' \<or> t = ''clients''"
  using assms by (cases "pending b") (auto simp: bridge_inv_def split: option.splits)

lemma bridge_step_inv: "bridge_inv b \<Longrightarrow> bridge_inv (bridge_step b i)"
proof (cases i)
  case (GotInvalidate p)
  assume b: "bridge_inv b"
  show ?thesis
    using pending_clear [OF b] GotInvalidate b
    by (auto simp: onInvalidate_def bridge_inv_def Let_def dest: invalidate_kind_cases split: option.splits)
next
  case (Due now h)
  assume "bridge_inv b"
  then show ?thesis
    by (rule pending_cases) (use Due in \<open>auto simp: timer_due_def invalidate_timeout_def bridge_inv_def Let_def\<close>)
next
  case Unmount
  assume "bridge_inv b"
  from pending_clear [OF this] Unmount show ?thesis by (simp add: unmount_bridge_def bridge_inv_def)
qed (auto simp: onOutbounds_def onNodes_def onInbounds_def markLocalInvalidate_def bridge_inv_def)

interpretation bridge: machine bridge_step bridge_inv
  by unfold_locales (rule bridge_step_inv)

lemma new_bridge_inv: "bridge_inv new_bridge"
  by (simp add: new_bridge_def bridge_inv_def)

lemma pending_step:
  "bridge_inv b \<Longrightarrow> invalidate_kind p = Some t \<Longrightarrow> pending (onInvalidate p b) = [(next_handle b, t)]"
  by (simp add: onInvalidate_def pending_clear)

lemma pending_keep:
  "invalidate_kind p = None \<Longrightarrow> onInvalidate p b = b"
  by (simp add: onInvalidate_def)

lemma pending_burst:
  "bridge_inv b \<Longrightarrow>
   map snd (pending (foldl (\<lambda>b p. onInvalidate p b) b ps)) =
     (case rev (List.map_filter invalidate_kind ps) of [] \<Rightarrow> map snd (pending b) | t # ts \<Rightarrow> [t])"
proof (induction ps rule: rev_induct)
  case (snoc p ps)
  let ?b = "foldl (\<lambda>b p. onInvalidate p b) b ps"
  have "bridge_inv ?b"
    using bridge.run_inv [OF snoc.prems, of "map GotInvalidate ps"] by (simp add: foldl_map)
  with snoc show ?case
    by (cases "invalidate_kind p") (simp_all add: pending_step pending_keep List.map_filter_def)
qed (simp add: List.map_filter_def)

text \<open>Invalidations that arrive within the debounce interval are merged into one timer, and
  its effect is that of the last of them alone: at whatever state of the bridge a burst of
  payloads arrives, a single refresh is pending afterwards, for the kind named last.\<close>

theorem bridge_debounce:
  assumes "List.map_filter invalidate_kind ps \<noteq> []"
    and "b = foldl (\<lambda>b p. onInvalidate p b) (foldl bridge_step new_bridge is) ps"
  shows "map snd (pending b) = [last (List.map_filter invalidate_kind ps)] \<and>
    map fst (pending b) = (case invalidateTimer b of None \<Rightarrow> [] | Some h \<Rightarrow> [h])"
proof -
  have I: "bridge_inv (foldl bridge_step new_bridge is)" by (rule bridge.run_inv [OF new_bridge_inv])
  have "bridge_inv b"
    using bridge.run_inv [OF I, of "map GotInvalidate ps"] assms(2) by (simp add: foldl_map)
  moreover have "map snd (pending b) = [last (List.map_filter invalidate_kind ps)]"
    using pending_burst [OF I, of ps] assms
    by (cases "rev (List.map_filter invalidate_kind ps)") (auto simp: last_rev hd_rev [symmetric])
  ultimately show ?thesis by (simp add: bridge_inv_def)
qed

definition invalidate_payload :: "string \<Rightarrow> js" where
  "invalidate_payload t = JObj [(''type'', JStr t)]"

text \<open>The refresh of the inbounds is lost when the clients are named last.\<close>

theorem bridge_debounce_witness:
  "map snd (pending (foldl (\<lambda>b p. onInvalidate p b) new_bridge
     [invalidate_payload ''inbounds'', invalidate_payload ''clients''])) = [''clients'']"
  using bridge_debounce [OF _ refl, of "[invalidate_payload ''inbounds'', invalidate_payload ''clients'']" "[]"]
  by (simp add: invalidate_payload_def invalidate_kind_def js_get_def List.map_filter_def)

text \<open>The query cache is changed by the bridge only for data that has the shape its readers
  expect and only under the key of that data; a refresh is asked for only when no
  local change was made in the 1.5 seconds before.\<close>

theorem bridge_cache_ops:
  assumes "b = foldl bridge_step new_bridge is" and "bridge_step b i = b'"
  shows "\<exists>ops. cache_ops b' = cache_ops b @ ops \<and>
    ops \<in> (case i of
        GotOutbounds p \<Rightarrow> {[SetData keys_xray_outboundsTraffic p]}
      | GotNodes (JArr xs) \<Rightarrow> {[SetData keys_nodes_list (JArr xs)]}
      | GotInbounds (JArr xs) \<Rightarrow> {[SetData keys_inbounds_slim (JArr xs)]}
      | Due now h \<Rightarrow>
          if now - lastLocalInvalidateAt b < 1500 then {[]}
          else {[], [Invalidate [''inbounds'']], [Invalidate [''clients'']]}
      | _ \<Rightarrow> {[]})"
proof -
  have "bridge_inv b" unfolding assms(1) by (rule bridge.run_inv [OF new_bridge_inv])
  then show ?thesis
    using assms(2)
    by (cases i)
      (auto simp: onInvalidate_def onOutbounds_def onNodes_def onInbounds_def is_array_def Let_def
        timer_due_def invalidate_timeout_def isRecentLocalInvalidate_def markLocalInvalidate_def
        unmount_bridge_def split: js.splits option.splits)
qed

theorem bridge_cache_ops_witness:
  "cache_ops (bridge_step (foldl bridge_step new_bridge []) (GotNodes (JArr [JNull]))) =
     [SetData [''nodes'', ''list''] (JArr [JNull])]"
  using bridge_cache_ops [of "foldl bridge_step new_bridge []" "[]" "GotNodes (JArr [JNull])", OF refl refl]
  by (simp add: new_bridge_def keys_nodes_list_def)

section \<open>From the hub to the cache\<close>

text \<open>What the bridge is meant to do with an update of a type.\<close>

definition apply_update :: "string \<Rightarrow> js \<Rightarrow> bridge \<Rightarrow> bridge" where
  "apply_update t p b =
     (if t = ''invalidate'' then onInvalidate p b
      else if t = ''outbounds'' then onOutbounds p b
      else if t = ''nodes'' then onNodes p b
      else if t = ''inbounds'' then onInbounds p b
      else b)"

definition own :: "nat \<Rightarrow> nat list \<Rightarrow> nat list" where
  "own k cbs = filter (\<lambda>cb. cb div 4 = k) cbs"

fun foreign :: "nat \<Rightarrow> event \<Rightarrow> bool" where
  "foreign k (On ev cb) = (cb div 4 \<noteq> k)"
| "foreign k (Off ev cb) = (cb div 4 \<noteq> k)"
| "foreign k e = True"

lemma own_foreign: "foreign k e \<Longrightarrow> own k (subscribed ev cbs e) = own k cbs"
  by (cases e) (auto simp: own_def removeAll_filter_not_eq intro!: filter_cong)

lemma own_foreigns: "list_all (foreign k) es \<Longrightarrow> own k (foldl (subscribed ev) cbs es) = own k cbs"
  by (induction es arbitrary: cbs) (auto simp: own_foreign)

lemma own_on:
  "cb div 4 = k \<Longrightarrow> own k (subscribed ev cbs (On ev' cb)) = subscribed ev (own k cbs) (On ev' cb)"
  by (auto simp: own_def)

lemma own_mount:
  "own k cbs = [] \<Longrightarrow> own k (foldl (subscribed ev) cbs (mount k throws r)) =
     map snd (filter (\<lambda>x. fst x = ev) (handler_events k))"
proof -
  assume "own k cbs = []"
  then have "own k (foldl (subscribed ev) cbs (mount k throws r)) =
      foldl (subscribed ev) [] (map (\<lambda>(ev, cb). On ev cb) (handler_events k))"
    by (simp add: mount_def handler_events_def own_on del: subscribed.simps(1))
  then show ?thesis by (simp add: handler_events_def)
qed

lemma own_subscribers:
  "list_all (foreign k) es \<Longrightarrow> list_all (foreign k) fs \<Longrightarrow>
   own k (subscribers (es @ mount k throws r @ fs) ev) = map snd (filter (\<lambda>x. fst x = ev) (handler_events k))"
proof -
  assume es: "list_all (foreign k) es" and fs: "list_all (foreign k) fs"
  have "own k (foldl (subscribed ev) [] es) = []" by (simp add: own_foreigns [OF es]) (simp add: own_def)
  then show ?thesis by (simp add: subscribers_def own_foreigns [OF fs] own_mount)
qed

lemma handle_foreign: "fst c div 4 \<noteq> k \<Longrightarrow> handle_call k b c = b"
  by (auto simp: handle_call_def Let_def)

lemma handle_calls:
  "foldl (handle_call k) b (map (\<lambda>cb. (cb, args)) cbs) = foldl (handle_call k) b (map (\<lambda>cb. (cb, args)) (own k cbs))"
  by (induction cbs arbitrary: b) (simp_all add: own_def handle_foreign)

text \<open>C8. From the hub to the cache: while the bridge is mounted and the socket is open, any text
  within the size limit that is JSON of an object with a \<open>type\<close>, so every update that the hub
  publishes, has exactly the effect on the query cache and the refresh timer that the bridge
  prescribes for its type and payload, once, whatever other listeners there are.\<close>

theorem published_update_reaches_cache:
  assumes "w = ws_run (new_client path protocol host) (es @ mount k throws r @ fs)"
    and "list_all (foreign k) es" "list_all (foreign k) fs"
    and "state_of w i = OPEN"
    and "JSON_parse txt = Some (JObj kvs)" "js_get kvs ''type'' = JStr t" "length txt \<le> MAX_PAYLOAD_BYTES"
  shows "snd (bridge_event k (w, b) (Message i (Text txt))) = apply_update t (js_get kvs ''payload'') b"
proof -
  let ?m = "Message i (Text txt)" and ?args = "[js_get kvs ''payload'', js_get kvs ''time'']"
  let ?s = "subscribers (es @ mount k throws r @ fs)"
  have e: "fire w ?m = perform w ?m" using assms(4) by (simp add: fire_def)
  have new: "drop (length (calls w)) (calls (fire w ?m)) =
      map (\<lambda>cb. (cb, ?args)) (?s t) @ map (\<lambda>cb. (cb, [JObj kvs])) (?s ''message'')"
    unfolding e delivered [OF assms(1,4,5,6,7)] by simp
  have o: "own k (?s ev) = map snd (filter (\<lambda>x. fst x = ev) (handler_events k))" for ev
    by (rule own_subscribers [OF assms(2,3)])
  have m: "own k (?s ''message'') = []" by (simp add: o handler_events_def)
  have "snd (bridge_event k (w, b) ?m) = foldl (handle_call k) b (map (\<lambda>cb. (cb, ?args)) (own k (?s t)))"
    unfolding bridge_event_def Let_def fst_conv snd_conv new foldl_append
    by (simp add: handle_calls [of k _ "[JObj kvs]"] m handle_calls [of k _ ?args "?s t"])
  also have "\<dots> = apply_update t (js_get kvs ''payload'') b"
    by (auto simp: o handler_events_def handle_call_def apply_update_def)
  finally show ?thesis .
qed

theorem published_update_reaches_cache_witness:
  "cache_ops (snd (bridge_event 0
     (ws_run (new_client ''/'' ''https:'' ''h'') ([On ''nodes'' 9] @ mount 0 None 0 @ [Opened 0]), new_bridge)
     (Message 0 (Text sample_update)))) =
   [SetData [''nodes'', ''list''] sample_payload]"
proof -
  let ?w = "ws_run (new_client ''/'' ''https:'' ''h'') ([On ''nodes'' 9] @ mount 0 None 0 @ [Opened 0])"
  have s: "state_of ?w 0 = OPEN"
    by (simp add: mount_def handler_events_def new_client_def fire_def connect_def openSocket_def
        on_open_def ws_on_def emit_def cancelReconnect_def set_state_def state_of_def)
  show ?thesis
    using published_update_reaches_cache [OF refl _ _ s sample_update_parses sample_update_members(1,4), of new_bridge]
    by (simp add: apply_update_def onNodes_def is_array_def cache_op_def new_bridge_def keys_nodes_list_def
        sample_update_members) (simp add: sample_payload_def)
qed

end
