(* ===== verification/Api.thy ===== *)
theory Api
  imports InboundForm
begin

text \<open>
  How the front end talks to the hub: \<open>frontend/src/utils/runtime.ts\<close> (panel mode and API
  prefix), \<open>frontend/src/api/axios-init.ts\<close> (the interceptors: URL rewriting, CSRF token,
  body encoding, session expiry and the retry of refused requests), the classes \<open>Msg\<close> and
  \<open>HttpUtil\<close> of \<open>frontend/src/utils/index.ts\<close>, and \<open>parseMsg\<close> of
  \<open>frontend/src/utils/zodValidate.ts\<close>.

  The HTTP library, its header maps and the query-string library are an argument of the
  model, the record \<open>lib\<close>; so is the server, a state with a reply to each
  request.  A request is treated from its start to its end before the next one, so that
  \<open>csrfFetchPromise\<close> is always null between requests and has no field.
\<close>

section \<open>Panel mode and API prefix\<close>

record page_env =
  L_UI_MODE :: "string option"
  L_UI_API_PREFIX :: "string option"
  L_UI_BASE_PATH :: "string option"
  meta_csrf_token :: "string option"
  meta_base_path :: "string option"

datatype panel_mode = Hub | Agent

definition nonempty :: "string option \<Rightarrow> string option" where
  "nonempty s = (case s of None \<Rightarrow> None | Some t \<Rightarrow> if t = [] then None else Some t)"

definition getPanelMode :: "page_env \<Rightarrow> panel_mode" where
  "getPanelMode env = (if L_UI_MODE env = Some ''agent'' then Agent else Hub)"

definition getApiPrefix :: "page_env \<Rightarrow> string" where
  "getApiPrefix env =
     (case nonempty (L_UI_API_PREFIX env) of
        Some p \<Rightarrow> p
      | None \<Rightarrow> if getPanelMode env = Agent then ''/api/v1'' else ''/panel/api'')"

definition isHubMode :: "page_env \<Rightarrow> bool" where
  "isHubMode env \<longleftrightarrow> getPanelMode env = Hub"

section \<open>The interceptors\<close>

definition SAFE_METHODS :: "string list" where
  "SAFE_METHODS = [''GET'', ''HEAD'', ''OPTIONS'', ''TRACE'']"

definition CSRF_TOKEN_PATH :: string where "CSRF_TOKEN_PATH = ''/csrf-token''"
definition PANEL_API_PREFIX :: string where "PANEL_API_PREFIX = ''/panel/api''"

datatype body = FormData | Data js

record 'h request =
  req_url :: "string option"
  req_method :: "string option"
  headers :: 'h
  data :: body
  csrfRetried :: bool

datatype outcome = Success js | Failure "nat option" js string

datatype csrf_reply = FetchThrows | Reply bool "js option"

record ('h, 's) lib =
  get_header :: "'h \<Rightarrow> string \<Rightarrow> string option"
  set_header :: "string \<Rightarrow> string \<Rightarrow> 'h \<Rightarrow> 'h"
  qs_stringify :: "js \<Rightarrow> string"
  qs_parse :: "string \<Rightarrow> js"
  transport :: "'s \<Rightarrow> 'h request \<Rightarrow> outcome \<times> 's"
  csrf_fetch :: "'s \<Rightarrow> string \<Rightarrow> csrf_reply \<times> 's"

record ('h, 's) axios_state =
  csrfToken :: "string option"
  sessionExpired :: bool
  redirects :: "string list"
  sent_requests :: "'h request list"
  csrf_fetches :: "string list"
  server :: 's

definition rewriteApiUrl :: "page_env \<Rightarrow> string option \<Rightarrow> string option" where
  "rewriteApiUrl env url =
     (case nonempty url of
        None \<Rightarrow> url
      | Some u \<Rightarrow>
          let prefix = getApiPrefix env
          in if prefix \<noteq> PANEL_API_PREFIX \<and>
                (u = PANEL_API_PREFIX \<or> starts_with u (PANEL_API_PREFIX @ ''/''))
             then Some (prefix @ drop (length PANEL_API_PREFIX) u)
             else url)"

definition readMetaToken :: "page_env \<Rightarrow> string option" where
  "readMetaToken env = nonempty (meta_csrf_token env)"

definition csrf_url :: "page_env \<Rightarrow> string" where
  "csrf_url env =
     (case nonempty (L_UI_BASE_PATH env) of
        None \<Rightarrow> CSRF_TOKEN_PATH
      | Some b \<Rightarrow>
          if b = ''/'' then CSRF_TOKEN_PATH
          else (if ends_with b ''/'' then butlast b else b) @ CSRF_TOKEN_PATH)"

definition token_of_reply :: "csrf_reply \<Rightarrow> string option" where
  "token_of_reply r =
     (case r of
        Reply True (Some (JObj kvs)) \<Rightarrow>
          if truthy (js_get kvs ''success'')
          then (case js_get kvs ''obj'' of JStr t \<Rightarrow> Some t | _ \<Rightarrow> None)
          else None
      | _ \<Rightarrow> None)"

definition fetchCsrfToken ::
  "('h, 's) lib \<Rightarrow> page_env \<Rightarrow> ('h, 's) axios_state \<Rightarrow> string option \<times> ('h, 's) axios_state" where
  "fetchCsrfToken L env st =
     (let (r, s) = csrf_fetch L (server st) (csrf_url env)
      in (token_of_reply r, st\<lparr>server := s, csrf_fetches := csrf_fetches st @ [csrf_url env]\<rparr>))"

definition ensureCsrfToken ::
  "('h, 's) lib \<Rightarrow> page_env \<Rightarrow> ('h, 's) axios_state \<Rightarrow> string option \<times> ('h, 's) axios_state" where
  "ensureCsrfToken L env st =
     (if nonempty (csrfToken st) \<noteq> None then (csrfToken st, st)
      else
        case readMetaToken env of
          Some t \<Rightarrow> (Some t, st\<lparr>csrfToken := Some t\<rparr>)
        | None \<Rightarrow>
            let (fetched, st) = fetchCsrfToken L env st;
                st = (if nonempty fetched \<noteq> None then st\<lparr>csrfToken := fetched\<rparr> else st)
            in (csrfToken st, st))"

definition setupAxios :: "page_env \<Rightarrow> 's \<Rightarrow> ('h, 's) axios_state" where
  "setupAxios env s =
     \<lparr>csrfToken = readMetaToken env, sessionExpired = False, redirects = [], sent_requests = [],
      csrf_fetches = [], server = s\<rparr>"

definition default_baseURL :: "page_env \<Rightarrow> string option" where
  "default_baseURL env =
     (let base = (case nonempty (L_UI_BASE_PATH env) of Some b \<Rightarrow> Some b | None \<Rightarrow> meta_base_path env)
      in case nonempty base of None \<Rightarrow> None | Some b \<Rightarrow> if b = ''/'' then None else Some b)"

definition declaredType :: "('h, 's) lib \<Rightarrow> 'h request \<Rightarrow> string" where
  "declaredType L cfg =
     (case nonempty (get_header L (headers cfg) ''Content-Type'') of
        Some t \<Rightarrow> t
      | None \<Rightarrow>
          (case nonempty (get_header L (headers cfg) ''content-type'') of Some t \<Rightarrow> t | None \<Rightarrow> []))"

definition is_json_type :: "string \<Rightarrow> bool" where
  "is_json_type t \<longleftrightarrow> starts_with (to_lower t) ''application/json''"

definition encode_body :: "('h, 's) lib \<Rightarrow> 'h request \<Rightarrow> 'h request" where
  "encode_body L cfg =
     (case data cfg of
        FormData \<Rightarrow> cfg\<lparr>headers := set_header L ''Content-Type'' ''multipart/form-data'' (headers cfg)\<rparr>
      | Data v \<Rightarrow>
          if is_json_type (declaredType L cfg)
          then (case v of
                  JUndef \<Rightarrow> cfg
                | JStr s \<Rightarrow> cfg
                | _ \<Rightarrow> cfg\<lparr>data := Data (case JSON_stringify v of None \<Rightarrow> JUndef | Some t \<Rightarrow> JStr t)\<rparr>)
          else cfg\<lparr>data := Data (JStr (qs_stringify L v))\<rparr>)"

definition is_safe :: "'h request \<Rightarrow> bool" where
  "is_safe cfg \<longleftrightarrow>
     to_upper (case nonempty (req_method cfg) of None \<Rightarrow> ''get'' | Some m \<Rightarrow> m) \<in> set SAFE_METHODS"

definition put_token :: "('h, 's) lib \<Rightarrow> string option \<Rightarrow> 'h request \<Rightarrow> 'h request" where
  "put_token L token cfg =
     (case nonempty token of
        None \<Rightarrow> cfg
      | Some t \<Rightarrow> cfg\<lparr>headers := set_header L ''X-CSRF-Token'' t (headers cfg)\<rparr>)"

definition on_request ::
  "('h, 's) lib \<Rightarrow> page_env \<Rightarrow> 'h request \<Rightarrow> ('h, 's) axios_state \<Rightarrow> 'h request \<times> ('h, 's) axios_state" where
  "on_request L env cfg st =
     (let cfg = cfg\<lparr>req_url := rewriteApiUrl env (req_url cfg)\<rparr>;
          (cfg, st) =
            (if is_safe cfg then (cfg, st)
             else let (token, st) = ensureCsrfToken L env st in (put_token L token cfg, st))
      in (encode_body L cfg, st))"

definition decode_body :: "('h, 's) lib \<Rightarrow> 'h request \<Rightarrow> 'h request" where
  "decode_body L cfg =
     (case data cfg of
        Data (JStr s) \<Rightarrow>
          if is_json_type (declaredType L cfg)
          then (case JSON_parse s of None \<Rightarrow> cfg | Some v \<Rightarrow> cfg\<lparr>data := Data v\<rparr>)
          else cfg\<lparr>data := Data (qs_parse L s)\<rparr>
      | _ \<Rightarrow> cfg)"

datatype result = Resolved js | Rejected "nat option" js string | Pending

definition exchange ::
  "('h, 's) lib \<Rightarrow> page_env \<Rightarrow> 'h request \<Rightarrow> ('h, 's) axios_state \<Rightarrow>
   'h request \<times> outcome \<times> ('h, 's) axios_state" where
  "exchange L env cfg st =
     (let (cfg, st) = on_request L env cfg st;
          (r, s) = transport L (server st) cfg
      in (cfg, r, st\<lparr>server := s, sent_requests := sent_requests st @ [cfg]\<rparr>))"

definition on_401 :: "page_env \<Rightarrow> ('h, 's) axios_state \<Rightarrow> ('h, 's) axios_state" where
  "on_401 env st =
     (if sessionExpired st then st
      else st\<lparr>sessionExpired := True,
              redirects := redirects st @
                [case nonempty (L_UI_BASE_PATH env) of None \<Rightarrow> ''/'' | Some b \<Rightarrow> b]\<rparr>)"

text \<open>The request to resend after a refusal: \<open>None\<close> when there is no token for it.\<close>

definition prepare_retry ::
  "('h, 's) lib \<Rightarrow> page_env \<Rightarrow> 'h request \<Rightarrow> ('h, 's) axios_state \<Rightarrow>
   'h request option \<times> ('h, 's) axios_state" where
  "prepare_retry L env cfg st =
     (let (token, st) = ensureCsrfToken L env (st\<lparr>csrfToken := None\<rparr>);
          cfg = cfg\<lparr>csrfRetried := True\<rparr>
      in (if nonempty token = None then None else Some (decode_body L (put_token L token cfg)), st))"

lemma csrfRetried_keep [simp]:
  "csrfRetried (put_token L t cfg) = csrfRetried cfg"
  "csrfRetried (encode_body L cfg) = csrfRetried cfg"
  "csrfRetried (decode_body L cfg) = csrfRetried cfg"
  by (simp_all add: put_token_def encode_body_def decode_body_def split: option.splits body.splits js.splits)

lemma csrfRetried_on_request: "on_request L env cfg st = (cfg', st') \<Longrightarrow> csrfRetried cfg' = csrfRetried cfg"
  by (auto simp: on_request_def Let_def split: if_splits prod.splits)

lemma csrfRetried_prepare: "prepare_retry L env cfg st = (Some cfg', st') \<Longrightarrow> csrfRetried cfg'"
  by (auto simp: prepare_retry_def Let_def split: if_splits prod.splits)

function axios_send ::
  "('h, 's) lib \<Rightarrow> page_env \<Rightarrow> 'h request \<Rightarrow> ('h, 's) axios_state \<Rightarrow> result \<times> ('h, 's) axios_state" where
  "axios_send L env cfg st =
     (case exchange L env cfg st of
        (cfg, Success d, st) \<Rightarrow> (Resolved d, st)
      | (cfg, Failure status d msg, st) \<Rightarrow>
          if status = Some 401 then (Pending, on_401 env st)
          else if status = Some 403 \<and> \<not> csrfRetried cfg
          then (case prepare_retry L env cfg st of
                  (Some cfg, st) \<Rightarrow> axios_send L env cfg st
                | (None, st) \<Rightarrow> (Rejected status d msg, st))
          else (Rejected status d msg, st))"
  by pat_completeness auto
termination
  by (relation "measure (\<lambda>(L, env, cfg, st). if csrfRetried cfg then 0 else 1)")
    (auto simp: exchange_def Let_def dest!: sym [of "(Some _, _)"] dest: csrfRetried_on_request csrfRetried_prepare
      split: prod.splits)

declare axios_send.simps [simp del]

section \<open>Msg and HttpUtil\<close>

text \<open>
  The value of a call: an instance of \<open>Msg\<close>, or a response object that has no
  \<open>success\<close> member and is passed on as it is.
\<close>

datatype msg = Msg bool string js | Foreign js

record ('h, 's) http_page =
  axios :: "('h, 's) axios_state"
  toasts :: "(bool \<times> string) list"

definition handleMsg :: "msg \<Rightarrow> ('h, 's) http_page \<Rightarrow> ('h, 's) http_page" where
  "handleMsg m p =
     (case m of
        Msg success t obj \<Rightarrow> if t = [] then p else p\<lparr>toasts := toasts p @ [(success, t)]\<rparr>
      | Foreign v \<Rightarrow> p)"

definition respToMsg :: "js option \<Rightarrow> msg" where
  "respToMsg resp =
     (case resp of
        None \<Rightarrow> Msg False ''No response data'' JNull
      | Some d \<Rightarrow>
          if \<not> truthy d then Msg False ''No response data'' JNull
          else if nullish d then Msg True [] JNull
          else
            (case d of
               JObj kvs \<Rightarrow>
                 if js_has kvs ''success''
                 then Msg (truthy (js_get kvs ''success''))
                        (case js_get kvs ''msg'' of JStr t \<Rightarrow> t | _ \<Rightarrow> [])
                        (js_coalesce (js_get kvs ''obj'') JNull)
                 else Foreign d
             | JArr xs \<Rightarrow> Foreign d
             | _ \<Rightarrow> Msg False ''unknown data:'' d))"

definition response_message :: "js \<Rightarrow> string option" where
  "response_message d =
     (case d of
        JObj kvs \<Rightarrow> (case js_get kvs ''message'' of JStr t \<Rightarrow> nonempty (Some t) | _ \<Rightarrow> None)
      | _ \<Rightarrow> None)"

definition error_msg :: "js \<Rightarrow> string \<Rightarrow> msg" where
  "error_msg d m =
     Msg False
       (case response_message d of
          Some t \<Rightarrow> t
        | None \<Rightarrow> if m \<noteq> [] then m else ''Request failed'') JNull"

text \<open>
  \<open>get\<close>, \<open>post\<close> and \<open>del\<close>: the same steps around the call of the library.  \<open>None\<close>
  is the promise that is never settled, after the session has expired.
\<close>

definition http_call ::
  "('h, 's) lib \<Rightarrow> page_env \<Rightarrow> bool \<Rightarrow> 'h request \<Rightarrow> ('h, 's) http_page \<Rightarrow> msg option \<times> ('h, 's) http_page" where
  "http_call L env silent cfg p =
     (let (r, st) = axios_send L env cfg (axios p);
          p = p\<lparr>axios := st\<rparr>
      in case r of
           Pending \<Rightarrow> (None, p)
         | Resolved d \<Rightarrow>
             let m = respToMsg (Some d) in (Some m, if silent then p else handleMsg m p)
         | Rejected status d e \<Rightarrow>
             let m = error_msg d e in (Some m, if silent then p else handleMsg m p))"

definition http_request :: "string \<Rightarrow> string \<Rightarrow> js \<Rightarrow> 'h \<Rightarrow> 'h request" where
  "http_request method url v h =
     \<lparr>req_url = Some url, req_method = Some method, headers = h, data = Data v, csrfRetried = False\<rparr>"

definition http_get where "http_get L env silent url h = http_call L env silent (http_request ''get'' url JUndef h)"
definition http_post where "http_post L env silent url v h = http_call L env silent (http_request ''post'' url v h)"
definition http_del where "http_del L env silent url h = http_call L env silent (http_request ''delete'' url JUndef h)"

datatype modal_call = Loading bool | Close

definition postWithModal ::
  "('h, 's) lib \<Rightarrow> page_env \<Rightarrow> string \<Rightarrow> js \<Rightarrow> 'h \<Rightarrow> bool \<Rightarrow> ('h, 's) http_page \<Rightarrow>
   msg option \<times> modal_call list \<times> ('h, 's) http_page" where
  "postWithModal L env url v h modal p =
     (let (m, p) = http_post L env False url v h p
      in (m,
          (if \<not> modal then []
           else case m of
             None \<Rightarrow> [Loading True]
           | Some (Msg True t obj) \<Rightarrow> [Loading True, Loading False, Close]
           | Some _ \<Rightarrow> [Loading True, Loading False]), p))"

definition parseMsg :: "(zschema \<Rightarrow> js \<Rightarrow> js option) \<Rightarrow> msg \<Rightarrow> zschema \<Rightarrow> msg" where
  "parseMsg P m schema =
     (case m of
        Foreign v \<Rightarrow> m
      | Msg success t obj \<Rightarrow>
          if \<not> success \<or> nullish obj then m
          else (case P schema obj of None \<Rightarrow> m | Some v \<Rightarrow> Msg success t v))"

end
