(* ===== verification/ApiProps.thy ===== *)
theory ApiProps
  imports Api WebUrl
begin

text \<open>
  What the HTTP layer guarantees: a call sends its request once or twice and always comes
  to an end, the second request is the first with a token; the page is redirected once;
  requests that change state carry the CSRF token; and the values that \<open>HttpUtil\<close> and
  \<open>parseMsg\<close> return.
\<close>

section \<open>Library behaviour that the statements rely on\<close>

text \<open>Header names are case-insensitive.\<close>

definition headers_ok :: "('h, 's) lib \<Rightarrow> bool" where
  "headers_ok L \<longleftrightarrow>
     (\<forall>k v h k'. get_header L (set_header L k v h) k' =
        (if to_lower k' = to_lower k then Some v else get_header L h k'))"

text \<open>A concrete library, for examples: headers as association lists.\<close>

definition sample_lib :: "((string \<times> string) list, nat) lib" where
  "sample_lib =
     \<lparr>get_header = (\<lambda>h k. map_of h (to_lower k)), set_header = (\<lambda>k v h. (to_lower k, v) # h),
      qs_stringify = (\<lambda>v. js_string v), qs_parse = (\<lambda>s. JStr s),
      transport = (\<lambda>n cfg. (if n = 0 then Failure (Some 403) JNull [] else Failure (Some 401) JNull [], Suc n)),
      csrf_fetch = (\<lambda>n url. (Reply True (Some (JObj [(''success'', JBool True), (''obj'', JStr ''T'')])), n))\<rparr>"

lemma sample_headers_ok: "headers_ok sample_lib"
  by (simp add: headers_ok_def sample_lib_def)

definition sample_env :: page_env where
  "sample_env = \<lparr>L_UI_MODE = Some ''hub'', L_UI_API_PREFIX = None, L_UI_BASE_PATH = Some ''/p/'',
     meta_csrf_token = None, meta_base_path = None\<rparr>"

section \<open>One call\<close>

lemma ensure_fields:
  assumes "ensureCsrfToken L env st = (token, st')"
  shows "sent_requests st' = sent_requests st" "sessionExpired st' = sessionExpired st"
    "redirects st' = redirects st" "token = csrfToken st'"
  using assms by (auto simp: ensureCsrfToken_def fetchCsrfToken_def Let_def split: if_splits option.splits prod.splits)

lemma on_request_fields:
  assumes "on_request L env cfg st = (cfg', st')"
  shows "sent_requests st' = sent_requests st" "sessionExpired st' = sessionExpired st"
    "redirects st' = redirects st"
  using assms by (auto simp: on_request_def Let_def dest: ensure_fields split: if_splits prod.splits)

lemma exchange_fields:
  assumes "exchange L env cfg st = (cfg', r, st')"
  shows "sent_requests st' = sent_requests st @ [cfg']" "sessionExpired st' = sessionExpired st"
    "redirects st' = redirects st" "csrfRetried cfg' = csrfRetried cfg"
  using assms by (auto simp: exchange_def Let_def dest: on_request_fields csrfRetried_on_request split: prod.splits)

lemma prepare_fields:
  assumes "prepare_retry L env cfg st = (c, st')"
  shows "sent_requests st' = sent_requests st" "sessionExpired st' = sessionExpired st"
    "redirects st' = redirects st"
  using assms by (auto simp: prepare_retry_def Let_def dest: ensure_fields split: if_splits prod.splits)

text \<open>A call that is not repeated, and the two-round form of every other call.\<close>

definition settle :: "page_env \<Rightarrow> outcome \<Rightarrow> ('h, 's) axios_state \<Rightarrow> result \<times> ('h, 's) axios_state" where
  "settle env o' st =
     (case o' of
        Success d \<Rightarrow> (Resolved d, st)
      | Failure status d msg \<Rightarrow>
          if status = Some 401 then (Pending, on_401 env st) else (Rejected status d msg, st))"

definition refused :: "outcome \<Rightarrow> bool" where
  "refused o' = (case o' of Success d \<Rightarrow> False | Failure status d msg \<Rightarrow> status = Some 403)"

lemma send_retried:
  "csrfRetried cfg \<Longrightarrow> exchange L env cfg st = (c, o', st1) \<Longrightarrow> axios_send L env cfg st = settle env o' st1"
  by (subst axios_send.simps) (simp add: settle_def exchange_fields split: outcome.splits)

lemma send_fresh:
  "\<not> refused o' \<Longrightarrow> exchange L env cfg st = (c, o', st1) \<Longrightarrow> axios_send L env cfg st = settle env o' st1"
  by (subst axios_send.simps) (auto simp: settle_def refused_def split: outcome.splits)

lemma send_refused:
  "refused o' \<Longrightarrow> \<not> csrfRetried cfg \<Longrightarrow> exchange L env cfg st = (c, o', st1) \<Longrightarrow>
   prepare_retry L env c st1 = (cr, st2) \<Longrightarrow>
   axios_send L env cfg st =
     (case cr of
        None \<Rightarrow> settle env o' st2
      | Some c' \<Rightarrow> (case exchange L env c' st2 of (c2, o2, st3) \<Rightarrow> settle env o2 st3))"
  by (subst axios_send.simps)
    (auto simp: settle_def refused_def exchange_fields send_retried [OF csrfRetried_prepare]
      split: outcome.splits option.splits prod.splits)

lemma send_cases:
  fixes L :: "('h, 's) lib"
  assumes "axios_send L env cfg st = (r, st')"
  obtains (once) c o' st1 where "exchange L env cfg st = (c, o', st1)" "(r, st') = settle env o' st1"
  | (no_token) c o' st1 st2 where "refused o'" "\<not> csrfRetried cfg" "exchange L env cfg st = (c, o', st1)"
      "prepare_retry L env c st1 = (None, st2)" "(r, st') = settle env o' st2"
  | (twice) c o' st1 c' st2 c2 o2 st3 where "refused o'" "\<not> csrfRetried cfg"
      "exchange L env cfg st = (c, o', st1)" "prepare_retry L env c st1 = (Some c', st2)"
      "exchange L env c' st2 = (c2, o2, st3)" "(r, st') = settle env o2 st3"
proof -
  obtain c o' st1 where x: "exchange L env cfg st = (c, o', st1)" by (metis prod_cases3)
  show ?thesis
  proof (cases "refused o' \<and> \<not> csrfRetried cfg")
    case False
    then have "axios_send L env cfg st = settle env o' st1"
      using send_retried [OF _ x] send_fresh [OF _ x] by blast
    with assms have "(r, st') = settle env o' st1" by simp
    with x show ?thesis by (rule once)
  next
    case True
    obtain cr st2 where y: "prepare_retry L env c st1 = (cr, st2)" by (metis surj_pair)
    note s = send_refused [OF conjunct1 [OF True] conjunct2 [OF True] x y]
    show ?thesis
    proof (cases cr)
      case None
      with True x y s assms show ?thesis by (intro no_token [of o' c st1 st2]) simp_all
    next
      case (Some c')
      obtain c2 o2 st3 where z: "exchange L env c' st2 = (c2, o2, st3)" by (metis prod_cases3)
      from True x y z s assms Some show ?thesis by (intro twice [of o' c st1 c' st2 c2 o2 st3]) simp_all
    qed
  qed
qed

lemma settle_fields:
  assumes "(r, st') = settle env o' st"
  shows "sent_requests st' = sent_requests st"
    "sessionExpired st' = (sessionExpired st \<or> r = Pending)"
    "redirects st' = (if r = Pending \<and> \<not> sessionExpired st
       then redirects st @ [case nonempty (L_UI_BASE_PATH env) of None \<Rightarrow> ''/'' | Some b \<Rightarrow> b]
       else redirects st)"
  using assms by (auto simp: settle_def on_401_def split: outcome.splits if_splits)

lemma axios_send_fields:
  assumes "axios_send L env cfg st = (r, st')"
  shows "sessionExpired st' = (sessionExpired st \<or> r = Pending)"
    "redirects st' = (if r = Pending \<and> \<not> sessionExpired st
       then redirects st @ [case nonempty (L_UI_BASE_PATH env) of None \<Rightarrow> ''/'' | Some b \<Rightarrow> b]
       else redirects st)"
  using assms
  by (cases rule: send_cases; simp add: settle_fields exchange_fields prepare_fields)+

text \<open>C9. Every call comes to an end after one or two requests: whatever the server answers, a
  second request is sent only when the first was refused with status 403 and was not a
  repetition itself, the second is marked as a repetition, and no further request
  follows.\<close>

theorem axios_at_most_two_requests:
  assumes "axios_send L env cfg st = (r, st')"
  shows "\<exists>new. sent_requests st' = sent_requests st @ new \<and>
    (case new of
       [c] \<Rightarrow> csrfRetried c = csrfRetried cfg
     | [c, c'] \<Rightarrow> \<not> csrfRetried c \<and> csrfRetried c' \<and>
         (\<exists>srv d m. fst (transport L srv c) = Failure (Some 403) d m)
     | _ \<Rightarrow> False)"
  using assms
proof (cases rule: send_cases)
  case (twice c o' st1 c' st2 c2 o2 st3)
  have "\<exists>srv d m. fst (transport L srv c) = Failure (Some 403) d m"
    using twice(1,3) by (auto simp: exchange_def refused_def Let_def split: prod.splits outcome.splits)
      (metis fst_conv)
  with twice show ?thesis
    by (simp add: settle_fields exchange_fields prepare_fields csrfRetried_prepare)
qed (simp_all add: settle_fields exchange_fields prepare_fields)

theorem axios_at_most_two_requests_witness:
  "length (sent_requests (snd (axios_send sample_lib sample_env
     ((http_request ''post'' ''/x'' (JArr []) [])\<lparr>csrfRetried := True\<rparr>) (setupAxios sample_env 0)))) \<le> 2"
proof -
  let ?c = "(http_request ''post'' ''/x'' (JArr []) [])\<lparr>csrfRetried := True\<rparr> :: (string \<times> string) list request"
  obtain new where n: "sent_requests (snd (axios_send sample_lib sample_env ?c (setupAxios sample_env 0)))
      = sent_requests (setupAxios sample_env 0 :: ((string \<times> string) list, nat) axios_state) @ new"
    "case new of [c] \<Rightarrow> csrfRetried c = csrfRetried ?c
     | [c, c'] \<Rightarrow> \<not> csrfRetried c \<and> csrfRetried c' \<and>
         (\<exists>srv d m. fst (transport sample_lib srv c) = Failure (Some 403) d m)
     | _ \<Rightarrow> False"
    using axios_at_most_two_requests [OF surjective_pairing, of sample_lib sample_env ?c "setupAxios sample_env 0"]
    by blast
  then have "length new \<le> 2" by (auto split: list.splits)
  with n(1) show ?thesis by (simp add: setupAxios_def)
qed

section \<open>Sequences of calls\<close>

definition axios_call ::
  "('h, 's) lib \<Rightarrow> page_env \<Rightarrow> ('h, 's) axios_state \<Rightarrow> 'h request \<Rightarrow> ('h, 's) axios_state" where
  "axios_call L env st cfg = snd (axios_send L env cfg st)"

definition expiry_inv :: "page_env \<Rightarrow> ('h, 's) axios_state \<Rightarrow> bool" where
  "expiry_inv env st \<longleftrightarrow>
     redirects st = (if sessionExpired st
       then [case nonempty (L_UI_BASE_PATH env) of None \<Rightarrow> ''/'' | Some b \<Rightarrow> b] else [])"

interpretation session: machine "axios_call L env" "expiry_inv env" for L :: "('h, 's) lib" and env
proof unfold_locales
  fix st :: "('h, 's) axios_state" and e :: "'h request"
  assume "expiry_inv env st"
  then show "expiry_inv env (axios_call L env st e)"
    using axios_send_fields [OF surjective_pairing, of L env e st]
    by (auto simp: expiry_inv_def axios_call_def)
qed

text \<open>A library whose server keeps a log of the answers to the requests that are sent.\<close>

definition logged :: "('h, 's) lib \<Rightarrow> ('h, 's \<times> outcome list) lib" where
  "logged L =
     \<lparr>get_header = get_header L, set_header = set_header L, qs_stringify = qs_stringify L, qs_parse = qs_parse L,
      transport = (\<lambda>s cfg. let (r, s') = transport L (fst s) cfg in (r, (s', snd s @ [r]))),
      csrf_fetch = (\<lambda>s u. let (r, s') = csrf_fetch L (fst s) u in (r, (s', snd s)))\<rparr>"

definition answers :: "('h, 's \<times> outcome list) axios_state \<Rightarrow> outcome list" where
  "answers st = snd (server st)"

definition session_over :: "outcome \<Rightarrow> bool" where
  "session_over o' = (case o' of Success d \<Rightarrow> False | Failure status d msg \<Rightarrow> status = Some 401)"

lemma logged_ensure: "ensureCsrfToken (logged L) env st = (token, st') \<Longrightarrow> answers st' = answers st"
  by (auto simp: ensureCsrfToken_def fetchCsrfToken_def logged_def answers_def Let_def
    split: if_splits option.splits prod.splits)

lemma logged_exchange: "exchange (logged L) env cfg st = (c, o', st') \<Longrightarrow> answers st' = answers st @ [o']"
proof -
  assume x: "exchange (logged L) env cfg st = (c, o', st')"
  obtain c1 st1 where r: "on_request (logged L) env cfg st = (c1, st1)" by fastforce
  have "answers st1 = answers st"
    using r by (auto simp: on_request_def Let_def dest: logged_ensure split: if_splits prod.splits)
  with x r show ?thesis by (auto simp: exchange_def answers_def logged_def split: prod.splits)
qed

lemma logged_prepare: "prepare_retry (logged L) env c st = (cr, st') \<Longrightarrow> answers st' = answers st"
  by (auto simp: prepare_retry_def Let_def answers_def dest: logged_ensure [unfolded answers_def] split: prod.splits)

lemma logged_settle:
  "(r, st') = settle env o' st \<Longrightarrow> answers st' = answers st \<and> (r = Pending \<longleftrightarrow> session_over o')"
  by (auto simp: settle_def on_401_def answers_def session_over_def split: outcome.splits if_splits)

lemma logged_send:
  assumes "axios_send (logged L) env cfg st = (r, st')"
  shows "\<exists>new. answers st' = answers st @ new \<and> (r = Pending \<longleftrightarrow> list_ex session_over new)"
proof -
  have refused: "refused o' \<Longrightarrow> \<not> session_over o'" for o' by (auto simp: refused_def session_over_def split: outcome.splits)
  show ?thesis
    using assms
    by (cases rule: send_cases) (auto dest!: logged_exchange logged_prepare logged_settle dest: refused)
qed

lemma logged_run:
  "sessionExpired (foldl (axios_call (logged L) env) st cfgs) \<longleftrightarrow> list_ex session_over (answers (foldl (axios_call (logged L) env) st cfgs))"
  if "sessionExpired st \<longleftrightarrow> list_ex session_over (answers st)"
  using that
proof (induction cfgs arbitrary: st)
  case (Cons cfg cfgs)
  obtain r st' where s: "axios_send (logged L) env cfg st = (r, st')" by fastforce
  have "sessionExpired st' \<longleftrightarrow> list_ex session_over (answers st')"
    using logged_send [OF s] axios_send_fields(1) [OF s] Cons.prems by auto
  then show ?case using Cons.IH s by (simp add: axios_call_def)
qed simp

text \<open>C31. The page is sent to the login once and only because of an answer 401: after any calls, with the
  server keeping a log of its answers, there is one redirect, to the base path, if some answer had
  status 401, and none if none had, whatever else was refused; and the next call is never settled
  exactly if one of its own answers, the one to its repetition included, has status 401.\<close>

theorem session_expiry_redirects_once:
  "let st = foldl (axios_call (logged L) env) (setupAxios env (s, [])) cfgs; (r, st') = axios_send (logged L) env cfg st
   in redirects st = (if list_ex session_over (answers st)
        then [case nonempty (L_UI_BASE_PATH env) of None \<Rightarrow> ''/'' | Some b \<Rightarrow> b] else []) \<and>
      (\<exists>new. answers st' = answers st @ new \<and> (r = Pending \<longleftrightarrow> list_ex session_over new))"
proof -
  let ?start = "setupAxios env (s, [])" and ?run = "foldl (axios_call (logged L) env) (setupAxios env (s, [])) cfgs"
  have "expiry_inv env ?start" "sessionExpired ?start \<longleftrightarrow> list_ex session_over (answers ?start)"
    by (simp_all add: expiry_inv_def setupAxios_def answers_def)
  then have "expiry_inv env ?run" "sessionExpired ?run \<longleftrightarrow> list_ex session_over (answers ?run)"
    using session.run_inv [of env ?start "logged L" cfgs] logged_run [of ?start L env cfgs] by blast+
  moreover have "\<exists>new. answers (snd (axios_send (logged L) env cfg ?run)) = answers ?run @ new \<and>
      (fst (axios_send (logged L) env cfg ?run) = Pending \<longleftrightarrow> list_ex session_over new)"
    by (rule logged_send) simp
  ultimately show ?thesis by (simp add: Let_def expiry_inv_def split_beta)
qed

text \<open>The server refuses the first request, answers its repetition with 401 and every later request too.\<close>

theorem session_expiry_redirects_once_witness:
  "redirects (foldl (axios_call (logged sample_lib) sample_env) (setupAxios sample_env (0, []))
     [http_request ''post'' ''/x'' (JArr []) [], http_request ''get'' ''/y'' JUndef []]) = [''/p/'']"
proof -
  let ?cfgs = "[http_request ''post'' ''/x'' (JArr []) [], http_request ''get'' ''/y'' JUndef []]"
  let ?st = "foldl (axios_call (logged sample_lib) sample_env) (setupAxios sample_env (0, [])) ?cfgs"
  have e: "list_ex session_over (answers ?st)" by code_simp
  have b: "nonempty (L_UI_BASE_PATH sample_env) = Some ''/p/''" by (simp add: sample_env_def nonempty_def)
  from session_expiry_redirects_once [of sample_lib sample_env 0 ?cfgs] have
    "redirects ?st = (if list_ex session_over (answers ?st)
      then [case nonempty (L_UI_BASE_PATH sample_env) of None \<Rightarrow> ''/'' | Some b \<Rightarrow> b] else [])"
    by (simp only: Let_def split_beta) 
  with e b show ?thesis by simp
qed

section \<open>The CSRF token\<close>

lemma header_keep [simp]:
  assumes "headers_ok L" "to_lower k \<noteq> ''content-type''"
  shows "get_header L (headers (encode_body L cfg)) k = get_header L (headers cfg) k"
proof -
  have "to_lower ''Content-Type'' = ''content-type''" by code_simp
  then show ?thesis
    using assms by (simp add: headers_ok_def encode_body_def split: body.splits js.splits)
qed

lemma header_put [simp]:
  "headers_ok L \<Longrightarrow> get_header L (headers (put_token L (Some t) cfg)) ''X-CSRF-Token'' =
     (if t = [] then get_header L (headers cfg) ''X-CSRF-Token'' else Some t)"
  by (simp add: put_token_def nonempty_def headers_ok_def)

lemma lower_csrf: "to_lower ''X-CSRF-Token'' = ''x-csrf-token''"
  by code_simp

lemma put_token_method [simp]: "req_method (put_token L t cfg) = req_method cfg"
  by (simp add: put_token_def split: option.splits)

lemma encode_method [simp]: "req_method (encode_body L cfg) = req_method cfg"
  "req_method (decode_body L cfg) = req_method cfg"
  by (simp_all add: encode_body_def decode_body_def split: body.splits js.splits option.splits)

lemma is_safe_cong: "req_method c = req_method d \<Longrightarrow> is_safe c = is_safe d"
  by (simp add: is_safe_def)

lemma exchange_method: "exchange L env cfg st = (c, o', st1) \<Longrightarrow> req_method c = req_method cfg"
  by (auto simp: exchange_def on_request_def Let_def split: prod.splits if_splits)

text \<open>The page carries a token: what every state then satisfies.\<close>

definition meta_inv :: "string \<Rightarrow> ('h, 's) axios_state \<Rightarrow> bool" where
  "meta_inv t st \<longleftrightarrow> csrfToken st \<in> {None, Some t} \<and> csrf_fetches st = []"

lemma meta_ensure:
  assumes "readMetaToken env = Some t" "meta_inv t st" "ensureCsrfToken L env st = (token, st')"
  shows "token = Some t" "meta_inv t st'"
  using assms by (auto simp: ensureCsrfToken_def meta_inv_def readMetaToken_def nonempty_def
      split: option.splits if_splits)

lemma meta_exchange:
  assumes m: "readMetaToken env = Some t" "meta_inv t st" and x: "exchange L env cfg st = (c, o', st1)"
  shows "meta_inv t st1"
    "headers_ok L \<Longrightarrow> \<not> is_safe cfg \<Longrightarrow> get_header L (headers c) ''X-CSRF-Token'' = Some t"
proof -
  have t: "t \<noteq> []" using m(1) by (auto simp: readMetaToken_def nonempty_def split: option.splits if_splits)
  obtain token st0 where e: "ensureCsrfToken L env st = (token, st0)" by (metis surj_pair)
  note f = meta_ensure [OF m e]
  show "meta_inv t st1"
    using x m f e by (auto simp: exchange_def on_request_def Let_def meta_inv_def split: prod.splits if_splits)
  assume h: "headers_ok L" and u: "\<not> is_safe cfg"
  let ?cfg = "cfg\<lparr>req_url := rewriteApiUrl env (req_url cfg)\<rparr>"
  have u': "\<not> is_safe ?cfg" using u by (simp add: is_safe_def)
  have "c = encode_body L (put_token L (Some t) ?cfg)"
    using x e f u' by (auto simp: exchange_def on_request_def Let_def split: prod.splits)
  then show "get_header L (headers c) ''X-CSRF-Token'' = Some t"
    using h t by (simp add: lower_csrf)
qed

lemma meta_prepare:
  assumes "readMetaToken env = Some t" "meta_inv t st" "prepare_retry L env c st = (cr, st')"
  shows "meta_inv t st'"
proof -
  have i: "meta_inv t (st\<lparr>csrfToken := None\<rparr>)" using assms(2) by (simp add: meta_inv_def)
  show ?thesis
    using assms(3) meta_ensure(2) [OF assms(1) i] by (auto simp: prepare_retry_def Let_def split: prod.splits)
qed

lemma meta_settle: "(r, st') = settle env o' st \<Longrightarrow> meta_inv t st' = meta_inv t st"
  by (auto simp: settle_def on_401_def meta_inv_def split: outcome.splits if_splits)

lemma prepare_method: "prepare_retry L env c st = (Some c', st') \<Longrightarrow> req_method c' = req_method c"
  by (auto simp: prepare_retry_def Let_def split: prod.splits if_splits)

lemma meta_send:
  assumes m: "readMetaToken env = Some t" "meta_inv t st" and r: "axios_send L env cfg st = (r, st')"
  shows "meta_inv t st'"
    "headers_ok L \<Longrightarrow> \<not> is_safe cfg \<Longrightarrow>
       \<exists>new. sent_requests st' = sent_requests st @ new \<and>
         (\<forall>c \<in> set new. get_header L (headers c) ''X-CSRF-Token'' = Some t)"
proof -
  have *: "meta_inv t st' \<and> (headers_ok L \<longrightarrow> \<not> is_safe cfg \<longrightarrow>
       (\<exists>new. sent_requests st' = sent_requests st @ new \<and>
         (\<forall>c \<in> set new. get_header L (headers c) ''X-CSRF-Token'' = Some t)))"
    using r
  proof (cases rule: send_cases)
    case (once c o' st1)
    then show ?thesis
      using meta_exchange [OF m once(1)] by (simp add: meta_settle settle_fields exchange_fields)
  next
    case (no_token c o' st1 st2)
    then show ?thesis
      using meta_exchange [OF m no_token(3)] meta_prepare [OF m(1) _ no_token(4)]
      by (simp add: meta_settle settle_fields exchange_fields prepare_fields)
  next
    case (twice c o' st1 c' st2 c2 o2 st3)
    have i: "meta_inv t st2" by (rule meta_prepare [OF m(1) _ twice(4)]) (rule meta_exchange [OF m twice(3)])
    have "is_safe c' = is_safe cfg"
      by (rule is_safe_cong) (use exchange_method [OF twice(3)] prepare_method [OF twice(4)] in simp)
    then show ?thesis
      using meta_exchange [OF m twice(3)] meta_exchange [OF m(1) i twice(5)] twice
      by (simp add: meta_settle settle_fields exchange_fields prepare_fields)
  qed
  then show "meta_inv t st'" by blast
  show "headers_ok L \<Longrightarrow> \<not> is_safe cfg \<Longrightarrow>
       \<exists>new. sent_requests st' = sent_requests st @ new \<and>
         (\<forall>c \<in> set new. get_header L (headers c) ''X-CSRF-Token'' = Some t)"
    using * by blast
qed

lemma meta_run:
  assumes "readMetaToken env = Some t"
  shows "meta_inv t (foldl (axios_call L env) (setupAxios env s) cfgs)"
proof -
  have "meta_inv t st \<Longrightarrow> meta_inv t (axios_call L env st c)" for st c
    using meta_send(1) [OF assms _ surjective_pairing, of st L c] by (simp add: axios_call_def)
  then have "meta_inv t st \<Longrightarrow> meta_inv t (foldl (axios_call L env) st cfgs)" for st
    by (induction cfgs arbitrary: st) auto
  moreover have "meta_inv t (setupAxios env s)" using assms by (simp add: setupAxios_def meta_inv_def)
  ultimately show ?thesis by blast
qed

text \<open>C29. On a page that carries a CSRF token, every request that may change state is sent with
  that token, whatever calls came before, and no token is ever fetched; so the repetition of a
  refused request carries the very token it was refused with.\<close>

theorem csrf_token_attached:
  assumes "headers_ok L" and "readMetaToken env = Some t"
    and "st = foldl (axios_call L env) (setupAxios env s) cfgs"
    and "\<not> is_safe cfg" and "axios_send L env cfg st = (r, st')"
  shows "\<exists>new. sent_requests st' = sent_requests st @ new \<and>
    (\<forall>c \<in> set new. get_header L (headers c) ''X-CSRF-Token'' = Some t) \<and> csrf_fetches st' = []"
proof -
  have "meta_inv t st" unfolding assms(3) by (rule meta_run [OF assms(2)])
  from meta_send [OF assms(2) this assms(5)] assms(1,4) show ?thesis
    by (auto simp: meta_inv_def)
qed

theorem csrf_token_attached_witness:
  "csrf_fetches (axios_call sample_lib (sample_env\<lparr>meta_csrf_token := Some ''M''\<rparr>)
     (setupAxios (sample_env\<lparr>meta_csrf_token := Some ''M''\<rparr>) 0) (http_request ''post'' ''/x'' (JArr []) [])) = []"
proof -
  let ?e = "sample_env\<lparr>meta_csrf_token := Some ''M''\<rparr>"
  have m: "readMetaToken ?e = Some ''M''" by (simp add: readMetaToken_def nonempty_def)
  have u: "\<not> is_safe (http_request ''post'' ''/x'' (JArr []) [] :: (string \<times> string) list request)"
    by code_simp
  show ?thesis
    using csrf_token_attached [OF sample_headers_ok m _ u surjective_pairing, of "setupAxios ?e 0" 0 "[]"]
    by (auto simp: axios_call_def)
qed

section \<open>The repeated request\<close>

text \<open>
  The body of one request reads back from its own text: as JSON, up to what its text leaves out
  (members that are \<open>undefined\<close>), and unless it is a bare string; as a form, through the
  query-string library, whose limits on depth, on the number of parameters and on arrays the body
  has to keep.
\<close>

definition is_text :: "js \<Rightarrow> bool" where
  "is_text v = (case v of JStr s \<Rightarrow> True | _ \<Rightarrow> False)"

definition body_ok :: "('h, 's) lib \<Rightarrow> 'h request \<Rightarrow> bool" where
  "body_ok L cfg \<longleftrightarrow>
     (case data cfg of
        FormData \<Rightarrow> True
      | Data v \<Rightarrow>
          if is_json_type (declaredType L cfg)
          then v = JUndef \<or> \<not> is_text v \<and>
            (case JSON_stringify v of
               None \<Rightarrow> False
             | Some t \<Rightarrow>
                 (case JSON_parse t of
                    None \<Rightarrow> False
                  | Some w \<Rightarrow> \<not> is_text w \<and> w \<noteq> JUndef \<and> JSON_stringify w = Some t))
          else qs_stringify L (qs_parse L (qs_stringify L v)) = qs_stringify L v)"

lemma declared_put [simp]:
  "headers_ok L \<Longrightarrow> declaredType L (put_token L t cfg) = declaredType L cfg"
  "headers_ok L \<Longrightarrow> declaredType L (cfg\<lparr>csrfRetried := b\<rparr>) = declaredType L cfg"
  "declaredType L (cfg\<lparr>data := d\<rparr>) = declaredType L cfg"
  "declaredType L (cfg\<lparr>req_url := u\<rparr>) = declaredType L cfg"
proof -
  have "to_lower ''X-CSRF-Token'' = ''x-csrf-token''" "to_lower ''Content-Type'' = ''content-type''"
    "to_lower ''content-type'' = ''content-type''" by code_simp+
  then show "headers_ok L \<Longrightarrow> declaredType L (put_token L t cfg) = declaredType L cfg"
    by (auto simp: declaredType_def put_token_def headers_ok_def split: option.splits)
qed (simp_all add: declaredType_def split: option.splits)

definition with_data :: "'h request \<Rightarrow> body \<Rightarrow> 'h request" where
  "with_data cfg d = cfg\<lparr>data := d\<rparr>"

lemma data_put [simp]: "data (put_token L t cfg) = data cfg" "req_url (put_token L t cfg) = req_url cfg"
  by (simp_all add: put_token_def split: option.splits)

lemma encode_data:
  "data (encode_body L cfg) =
     (case data cfg of
        FormData \<Rightarrow> FormData
      | Data v \<Rightarrow>
          if is_json_type (declaredType L cfg)
          then (case v of JUndef \<Rightarrow> Data JUndef | JStr s \<Rightarrow> Data v
                | _ \<Rightarrow> Data (case JSON_stringify v of None \<Rightarrow> JUndef | Some t \<Rightarrow> JStr t))
          else Data (JStr (qs_stringify L v)))"
  by (auto simp: encode_body_def split: body.splits js.splits)

lemma encode_declared:
  "data cfg \<noteq> FormData \<Longrightarrow> declaredType L (encode_body L cfg) = declaredType L cfg"
  by (auto simp: encode_body_def split: body.splits js.splits)

lemma decode_data:
  "data (decode_body L cfg) =
     (case data cfg of
        Data (JStr s) \<Rightarrow>
          if is_json_type (declaredType L cfg)
          then (case JSON_parse s of None \<Rightarrow> Data (JStr s) | Some v \<Rightarrow> Data v)
          else Data (qs_parse L s)
      | d \<Rightarrow> d)"
  by (auto simp: decode_body_def split: body.splits js.splits option.splits)

lemma decode_declared [simp]: "declaredType L (decode_body L cfg) = declaredType L cfg"
  by (simp add: decode_body_def split: body.splits js.splits option.splits)

lemma fields_req_url [simp]:
  "req_url (encode_body L cfg) = req_url cfg" "req_url (decode_body L cfg) = req_url cfg"
  by (simp_all add: encode_body_def decode_body_def split: body.splits js.splits option.splits)

text \<open>Encoding, decoding and encoding again.\<close>

lemma encode_json:
  "data cfg = Data v \<Longrightarrow> is_json_type (declaredType L cfg) \<Longrightarrow> \<not> is_text v \<Longrightarrow> v \<noteq> JUndef \<Longrightarrow>
   JSON_stringify v = Some t \<Longrightarrow> data (encode_body L cfg) = Data (JStr t)"
  by (cases v) (auto simp: encode_data is_text_def)

lemma encode_again:
  assumes "headers_ok L" "body_ok L cfg"
  shows "data (encode_body L (put_token L t' ((decode_body L (put_token L t ((encode_body L cfg)\<lparr>csrfRetried := b\<rparr>)))\<lparr>req_url := u\<rparr>)))
     = data (encode_body L cfg)"
proof (cases "data cfg")
  case FormData
  then show ?thesis by (simp add: encode_data decode_data)
next
  case (Data v)
  have d: "declaredType L (encode_body L cfg) = declaredType L cfg"
    by (rule encode_declared) (simp add: Data)
  consider (form) "\<not> is_json_type (declaredType L cfg)" | (nothing) "is_json_type (declaredType L cfg)" "v = JUndef"
    | (json) "is_json_type (declaredType L cfg)" "v \<noteq> JUndef" by blast
  then show ?thesis
  proof cases
    case form
    with Data d assms show ?thesis by (simp add: encode_data decode_data body_ok_def)
  next
    case nothing
    with Data d assms(1) show ?thesis by (simp add: encode_data decode_data)
  next
    case json
    obtain x w where v: "\<not> is_text v" "JSON_stringify v = Some x" and
      w: "JSON_parse x = Some w" "\<not> is_text w" "w \<noteq> JUndef" "JSON_stringify w = Some x"
      using assms(2) Data json by (auto simp: body_ok_def split: option.splits)
    have e: "data (encode_body L cfg) = Data (JStr x)" by (rule encode_json [OF Data json(1) v(1) json(2) v(2)])
    let ?c = "(decode_body L (put_token L t ((encode_body L cfg)\<lparr>csrfRetried := b\<rparr>)))"
    have "data ?c = Data w" using e d assms(1) json(1) w(1) by (simp add: decode_data)
    then show ?thesis
      unfolding e by (intro encode_json [OF _ _ w(2,3,4)]) (use d assms(1) json(1) in simp_all)
  qed
qed

lemma rewrite_again:
  assumes "getApiPrefix env \<in> {PANEL_API_PREFIX, ''/api/v1''}"
  shows "rewriteApiUrl env (rewriteApiUrl env u) = rewriteApiUrl env u"
  using assms
  by (auto simp: rewriteApiUrl_def PANEL_API_PREFIX_def nonempty_def Let_def split: option.splits if_splits)

lemma exchange_cfg:
  "exchange L env cfg st = (c, o', st1) \<Longrightarrow>
   \<exists>t. c = encode_body L (put_token L t (cfg\<lparr>req_url := rewriteApiUrl env (req_url cfg)\<rparr>))"
  by (auto simp: exchange_def on_request_def Let_def put_token_def nonempty_def
      intro: exI [of _ None] split: prod.splits if_splits)

lemma prepare_cfg:
  "prepare_retry L env c st = (Some c', st') \<Longrightarrow>
   \<exists>t. c' = decode_body L (put_token L t (c\<lparr>csrfRetried := True\<rparr>))"
  by (auto simp: prepare_retry_def Let_def split: prod.splits if_splits)

text \<open>C30. A request that is repeated after a refusal is repeated as it was: under the API prefixes that
  the hub injects, the same URL, the same method and the same body text, for a JSON body (not a
  bare string) whose text reads back to a value with that text, for a form-encoded body whose text
  the query-string library reads back to a value with that text, and for form data.\<close>

theorem retry_repeats_the_request:
  assumes "headers_ok L" and "body_ok L cfg"
    and "getApiPrefix env \<in> {PANEL_API_PREFIX, ''/api/v1''}"
    and "axios_send L env cfg st = (r, st')" and "sent_requests st' = sent_requests st @ [c, c']"
  shows "req_url c' = req_url c \<and> req_method c' = req_method c \<and> data c' = data c"
  using assms(4)
proof (cases rule: send_cases)
  case (twice d o' st1 d' st2 d2 o2 st3)
  have cc: "c = d" "c' = d2"
    using twice assms(5) by (simp_all add: settle_fields exchange_fields prepare_fields)
  obtain t where d: "d = encode_body L (put_token L t (cfg\<lparr>req_url := rewriteApiUrl env (req_url cfg)\<rparr>))"
    using exchange_cfg [OF twice(3)] by blast
  obtain t1 where d': "d' = decode_body L (put_token L t1 (d\<lparr>csrfRetried := True\<rparr>))"
    using prepare_cfg [OF twice(4)] by blast
  obtain t2 where d2: "d2 = encode_body L (put_token L t2 (d'\<lparr>req_url := rewriteApiUrl env (req_url d')\<rparr>))"
    using exchange_cfg [OF twice(5)] by blast
  have b: "body_ok L (put_token L t (cfg\<lparr>req_url := rewriteApiUrl env (req_url cfg)\<rparr>))"
    using assms(1,2) by (simp add: body_ok_def split: body.splits)
  have "data d2 = data d"
    unfolding d2 d' d by (rule encode_again [OF assms(1) b])
  moreover have "req_url d2 = req_url d"
    by (simp add: d2 d' d rewrite_again [OF assms(3)])
  moreover have "req_method d2 = req_method d"
    using exchange_method [OF twice(5)] prepare_method [OF twice(4)] by simp
  ultimately show ?thesis by (simp add: cc)
qed (use assms(5) in \<open>simp_all add: settle_fields exchange_fields prepare_fields\<close>)

text \<open>A query-string library for flat objects, and a server that refuses the first request.\<close>

definition flat_lib :: "((string \<times> string) list, nat) lib" where
  "flat_lib = sample_lib
     \<lparr>qs_stringify := (\<lambda>v. params_serialize (map (\<lambda>(k, x). (k, js_string x)) (js_members v))),
      qs_parse := (\<lambda>s. JObj (map (\<lambda>(k, x). (k, JStr x)) (params_parse s)))\<rparr>"

theorem retry_repeats_the_request_witness:
  "let st = snd (axios_send flat_lib sample_env (http_request ''post'' ''/x'' (JObj [(''tag'', JStr ''a&b''), (''n'', JInt 1)]) [])
     (setupAxios sample_env 0))
   in req_url (sent_requests st ! 1) = req_url (sent_requests st ! 0) \<and>
      data (sent_requests st ! 1) = data (sent_requests st ! 0)"
proof -
  let ?c = "http_request ''post'' ''/x'' (JObj [(''tag'', JStr ''a&b''), (''n'', JInt 1)]) [] :: (string \<times> string) list request"
  let ?st = "snd (axios_send flat_lib sample_env ?c (setupAxios sample_env 0))"
  have h: "headers_ok flat_lib" using sample_headers_ok by (simp add: headers_ok_def flat_lib_def)
  have b: "body_ok flat_lib ?c" by code_simp
  have p: "getApiPrefix sample_env \<in> {PANEL_API_PREFIX, ''/api/v1''}"
    by (simp add: getApiPrefix_def sample_env_def nonempty_def getPanelMode_def PANEL_API_PREFIX_def)
  have s: "sent_requests ?st = sent_requests (setupAxios sample_env 0 :: ((string \<times> string) list, nat) axios_state)
      @ [sent_requests ?st ! 0, sent_requests ?st ! 1]"
    by code_simp
  show ?thesis
    using retry_repeats_the_request [OF h b p surjective_pairing s] by (simp add: Let_def)
qed

section \<open>What the callers see\<close>

text \<open>Every call that is settled yields a message: the envelope of the server as it is read,
  or a failure with a text that is not empty; exactly the non-empty text is shown, unless
  the call is silent.\<close>

theorem http_call_result:
  assumes "http_call L env silent cfg p = (Some m, p')"
  shows "((\<exists>d. fst (axios_send L env cfg (axios p)) = Resolved d \<and> m = respToMsg (Some d)) \<or>
      (\<exists>t. m = Msg False t JNull \<and> t \<noteq> [])) \<and>
    toasts p' = toasts p @
      (if silent then [] else case m of Msg ok t v \<Rightarrow> if t = [] then [] else [(ok, t)] | Foreign v \<Rightarrow> [])"
proof
  obtain r st where s: "axios_send L env cfg (axios p) = (r, st)" by (metis surj_pair)
  show "(\<exists>d. fst (axios_send L env cfg (axios p)) = Resolved d \<and> m = respToMsg (Some d)) \<or>
      (\<exists>t. m = Msg False t JNull \<and> t \<noteq> [])"
    using assms s by (cases r) (auto simp: http_call_def error_msg_def response_message_def nonempty_def
        Let_def split: option.splits js.splits if_splits)
  show "toasts p' = toasts p @
      (if silent then [] else case m of Msg ok t v \<Rightarrow> if t = [] then [] else [(ok, t)] | Foreign v \<Rightarrow> [])"
    using assms s by (cases r) (auto simp: http_call_def handleMsg_def Let_def split: msg.splits)
qed

theorem http_call_result_witness:
  "toasts (snd (http_call (sample_lib\<lparr>transport := (\<lambda>n cfg. (Failure None JNull ''offline'', n))\<rparr>)
     sample_env False (http_request ''get'' ''/x'' JUndef []) \<lparr>axios = setupAxios sample_env 0, toasts = []\<rparr>)) =
   [(False, ''offline'')]"
proof -
  let ?L = "sample_lib\<lparr>transport := (\<lambda>n cfg. (Failure None JNull ''offline'', n))\<rparr>"
  let ?p = "\<lparr>axios = setupAxios sample_env 0, toasts = []\<rparr> :: ((string \<times> string) list, nat) http_page"
  let ?r = "http_call ?L sample_env False (http_request ''get'' ''/x'' JUndef []) ?p"
  have r: "fst ?r = Some (Msg False ''offline'' JNull)" by code_simp
  have e: "?r = (Some (Msg False ''offline'' JNull), snd ?r)" by (metis r prod.collapse)
  show ?thesis using http_call_result [OF e] by simp
qed

text \<open>A call is reported as successful exactly when the body of the reply is an object whose
  \<open>success\<close> is true: an empty reply never is, although the source has a branch that
  would answer an absent body with success.\<close>

theorem respToMsg_success:
  "(\<exists>t v. respToMsg r = Msg True t v) \<longleftrightarrow> (\<exists>kvs. r = Some (JObj kvs) \<and> truthy (js_get kvs ''success''))"
proof -
  have "truthy (js_get kvs ''success'') = (js_has kvs ''success'' \<and> truthy (js_get kvs ''success''))" for kvs
    by (auto simp: js_get_def js_has_def split: option.splits)
  moreover have "truthy d \<Longrightarrow> \<not> nullish d" for d by (cases d) auto
  ultimately show ?thesis
    by (cases r) (auto simp: respToMsg_def split: js.splits if_splits)
qed

text \<open>Validating a response keeps its verdict and its text, returns a payload that the schema
  accepts and leaves unchanged, or else the payload as it was received; validating twice
  is validating once.\<close>

theorem parseMsg_validates:
  assumes "zod P uuid" and "zfree schema" "zwf uuid schema"
  shows "parseMsg P (parseMsg P (Msg ok t v) schema) schema = parseMsg P (Msg ok t v) schema \<and>
    (\<exists>v'. parseMsg P (Msg ok t v) schema = Msg ok t v' \<and>
      (v' = v \<or> P schema v = Some v' \<and> P schema v' = Some v'))"
proof -
  have "P schema v = Some r \<Longrightarrow> P schema r = Some r" for r
    by (rule zod.parse_again [OF assms])
  then show ?thesis by (auto simp: parseMsg_def split: option.splits)
qed

theorem parseMsg_validates_witness:
  "let m = parseMsg (zparse (\<lambda>_. True)) (Msg True [] (JObj [])) SniffingSchema
   in parseMsg (zparse (\<lambda>_. True)) m SniffingSchema = m"
  using parseMsg_validates [OF zod_reference.zod_axioms, of SniffingSchema "\<lambda>_. True" True "[]" "JObj []"]
  by (simp add: Let_def)

end
