(* ===== verification/RandomUtil.thy ===== *)
theory RandomUtil
  imports Base64 "HOL-Library.Word" "HOL-Library.Multiset"
begin

text \<open>
  The generators of identifiers and secrets, class \<open>RandomUtil\<close> of
  \<open>frontend/src/utils/index.ts\<close>.  What \<open>crypto.getRandomValues\<close> writes is an argument: a
  list of 32-bit words or of bytes (a byte is a character, as \<open>String.fromCharCode\<close> makes
  it), of the length the code asks for.  The order in which \<open>sort\<close> leaves the lengths
  of the short ids under a random comparison is an argument too.
\<close>

unbundle bit_operations_syntax

section \<open>Sequences\<close>

datatype seq_type = Default | Hex

record seq_options =
  seq_type :: seq_type
  hasNumbers :: bool
  hasLowercase :: bool
  hasUppercase :: bool

definition default_seq :: seq_options where
  "default_seq = \<lparr>seq_type = Default, hasNumbers = True, hasLowercase = True, hasUppercase = True\<rparr>"

definition getSeq :: "seq_options \<Rightarrow> string" where
  "getSeq opts =
     (case seq_type opts of
        Hex \<Rightarrow> ''0123456789abcdef''
      | Default \<Rightarrow>
          (if hasNumbers opts then ''0123456789'' else []) @
          (if hasLowercase opts then ''abcdefghijklmnopqrstuvwxyz'' else []) @
          (if hasUppercase opts then ''ABCDEFGHIJKLMNOPQRSTUVWXYZ'' else []))"

definition randomInteger :: "int \<Rightarrow> int \<Rightarrow> 32 word \<Rightarrow> int" where
  "randomInteger lo hi r =
     (let range = hi - lo + 1 in \<lfloor>(of_int (uint r) / (4294967295 + 1) :: rat) * of_int range\<rfloor> + lo)"

text \<open>Indexing an empty alphabet gives \<open>undefined\<close>, which \<open>join\<close> writes as nothing.\<close>

definition randomSeq :: "seq_options \<Rightarrow> 32 word list \<Rightarrow> string" where
  "randomSeq opts rs =
     (let seq = getSeq opts; n = length seq
      in concat (map (\<lambda>v. if n = 0 then [] else [seq ! (unat v mod n)]) rs))"

definition shortId_lengths :: "nat list" where
  "shortId_lengths = [2, 4, 6, 8, 10, 12, 14, 16]"

fun randomShortIds :: "nat list \<Rightarrow> 32 word list \<Rightarrow> string list" where
  "randomShortIds [] rs = []"
| "randomShortIds (n # ns) rs =
     randomSeq (default_seq\<lparr>seq_type := Hex\<rparr>) (take n rs) # randomShortIds ns (drop n rs)"

definition randomShortIds_text :: "nat list \<Rightarrow> 32 word list \<Rightarrow> string" where
  "randomShortIds_text lengths rs = join '','' (randomShortIds lengths rs)"

definition randomLowerAndNum :: "32 word list \<Rightarrow> string" where
  "randomLowerAndNum rs = randomSeq (default_seq\<lparr>hasUppercase := False\<rparr>) rs"

section \<open>UUIDs\<close>

definition hex_digit :: "nat \<Rightarrow> char" where
  "hex_digit n = ''0123456789abcdef'' ! n"

definition uuid_template :: string where
  "uuid_template = ''xxxxxxxx-xxxx-4xxx-yxxx-xxxxxxxxxxxx''"

text \<open>Each \<open>x\<close> and \<open>y\<close> of the template takes a random byte, in order.\<close>

fun fill_uuid :: "string \<Rightarrow> 8 word list \<Rightarrow> string" where
  "fill_uuid [] rs = []"
| "fill_uuid (c # cs) rs =
     (if c = CHR ''x'' then
        (case rs of
           [] \<Rightarrow> []
         | r # rs' \<Rightarrow> hex_digit (unat (r mod 16)) # fill_uuid cs rs')
      else if c = CHR ''y'' then
        (case rs of
           [] \<Rightarrow> []
         | r # rs' \<Rightarrow> hex_digit (unat (((r mod 16) AND 3) OR 8)) # fill_uuid cs rs')
      else c # fill_uuid cs rs)"

text \<open>On an https page the browser's own generator is used: its result is the first argument.\<close>

definition randomUUID :: "string \<Rightarrow> string \<Rightarrow> 8 word list \<Rightarrow> string" where
  "randomUUID browser_uuid protocol rs =
     (if protocol = ''https:'' then browser_uuid else fill_uuid uuid_template rs)"

section \<open>Secrets\<close>

definition ss_password_length :: "string \<Rightarrow> nat" where
  "ss_password_length method' = (if method' = ''2022-blake3-aes-128-gcm'' then 16 else 32)"

definition randomShadowsocksPassword :: "string \<Rightarrow> string \<Rightarrow> string" where
  "randomShadowsocksPassword method' rs = Base64_alternativeEncode (take (ss_password_length method') rs)"

definition randomBase64 :: "nat \<Rightarrow> string \<Rightarrow> string" where
  "randomBase64 n rs = Base64_alternativeEncode (take n rs)"

definition base32Chars :: string where
  "base32Chars = ''ABCDEFGHIJKLMNOPQRSTUVWXYZ234567''"

definition base32_char :: "32 word \<Rightarrow> char" where
  "base32_char w = base32Chars ! unat (w AND 31)"

record base32_state =
  buffer :: "32 word"
  bits :: nat
  result :: string

text \<open>The inner loop: emit while five bits are left.\<close>

function base32_emit :: "base32_state \<Rightarrow> base32_state" where
  "base32_emit s =
     (if bits s \<ge> 5
      then base32_emit (s\<lparr>bits := bits s - 5,
             result := result s @ [base32_char (drop_bit (bits s - 5) (buffer s))]\<rparr>)
      else s)"
  by pat_completeness auto
termination by (relation "measure bits") auto

declare base32_emit.simps [simp del]

definition base32_byte :: "base32_state \<Rightarrow> 8 word \<Rightarrow> base32_state" where
  "base32_byte s b =
     base32_emit (s\<lparr>buffer := push_bit 8 (buffer s) OR ucast b, bits := bits s + 8\<rparr>)"

definition randomBase32String :: "8 word list \<Rightarrow> string" where
  "randomBase32String rs =
     (let s = foldl base32_byte \<lparr>buffer = 0, bits = 0, result = []\<rparr> rs
      in if bits s > 0 then result s @ [base32_char (push_bit (5 - bits s) (buffer s))] else result s)"

section \<open>Properties\<close>

lemma quotient_int:
  fixes q :: int
  assumes "4294967296 * q + m = x" "0 \<le> m" "m < 4294967296"
  shows "x < 4294967296 * r \<Longrightarrow> q < r" "i * 4294967296 \<le> x \<Longrightarrow> x < (i + 1) * 4294967296 \<Longrightarrow> q = i"
proof -
  have less: "x < 4294967296 * r \<Longrightarrow> q < r" for r using assms by linarith
  then show "x < 4294967296 * r \<Longrightarrow> q < r" .
  assume i: "i * 4294967296 \<le> x" "x < (i + 1) * 4294967296"
  have "q < i + 1" by (rule less) (use i(2) in \<open>simp only: mult.commute\<close>)
  moreover have "i < q + 1" using assms i(1) by linarith
  ultimately show "q = i" by simp
qed

lemma div_2_32:
  "(x::int) < 4294967296 * r \<Longrightarrow> x div 4294967296 < r"
  "i * 4294967296 \<le> x \<Longrightarrow> x < (i + 1) * 4294967296 \<Longrightarrow> x div 4294967296 = i"
  by (rule quotient_int [of "x div 4294967296" "x mod 4294967296" x]; simp)+

text \<open>A random integer lies between the bounds, both included, for every value of the
  random word, and every integer between them is the result for some word, when there
  are at most \<open>2 ^ 32\<close> of them.\<close>

theorem randomInteger_range:
  assumes "lo \<le> hi"
  shows "lo \<le> randomInteger lo hi r \<and> randomInteger lo hi r \<le> hi \<and>
    (lo \<le> k \<and> k \<le> hi \<and> hi - lo < 2 ^ 32 \<longrightarrow> (\<exists>r. randomInteger lo hi r = k))"
proof -
  have u: "0 \<le> uint r" "uint r < 4294967296" using uint_bounded [of r] by simp_all
  have r: "randomInteger lo hi r = uint r * (hi - lo + 1) div 4294967296 + lo" for r
  proof -
    have "(of_int (uint r) / (4294967295 + 1) :: rat) * of_int (hi - lo + 1)
        = of_int (uint r * (hi - lo + 1)) / of_int 4294967296" by simp
    then show ?thesis by (simp only: randomInteger_def Let_def floor_divide_of_int_eq)
  qed
  have "0 \<le> uint r * (hi - lo + 1) div 4294967296" using u assms by (simp add: pos_imp_zdiv_nonneg_iff)
  moreover have "uint r * (hi - lo + 1) < 4294967296 * (hi - lo + 1)"
    using u assms by (intro mult_strict_right_mono) simp_all
  then have "uint r * (hi - lo + 1) div 4294967296 < hi - lo + 1"
    by (rule div_2_32)
  moreover have "\<exists>r. randomInteger lo hi r = k" if k: "lo \<le> k" "k \<le> hi" "hi - lo < 2 ^ 32"
  proof -
    let ?R = "hi - lo + 1" and ?i = "k - lo"
    define w where "w = (?i * 4294967296 + (?R - 1)) div ?R"
    have m: "w * ?R = ?i * 4294967296 + (?R - 1) - (?i * 4294967296 + (?R - 1)) mod ?R"
      unfolding w_def by (simp add: minus_mod_eq_div_mult)
    have b: "0 \<le> (?i * 4294967296 + (?R - 1)) mod ?R" "(?i * 4294967296 + (?R - 1)) mod ?R < ?R"
      using assms pos_mod_sign [of ?R] pos_mod_bound [of ?R] by simp_all
    have lo: "?i * 4294967296 \<le> w * ?R" and hi: "w * ?R < (?i + 1) * 4294967296"
      using m b k(3) by (simp_all add: algebra_simps)
    have "w * ?R div 4294967296 = ?i"
      using lo hi by (rule div_2_32)
    moreover have "0 \<le> w" unfolding w_def using k assms by (simp add: pos_imp_zdiv_nonneg_iff)
    moreover have "w < 4294967296"
    proof -
      have "w * ?R < 4294967296 * ?R" using hi k(2) by (simp add: algebra_simps)
      then show ?thesis using assms mult_less_cancel_right_pos [of ?R w 4294967296] by linarith
    qed
    ultimately have "randomInteger lo hi (word_of_int w) = k"
      by (simp add: r uint_word_of_int)
    then show ?thesis ..
  qed
  ultimately show ?thesis by (simp add: r)
qed

theorem randomInteger_range_witness:
  "10000 \<le> randomInteger 10000 60000 4294967295 \<and> randomInteger 10000 60000 4294967295 \<le> 60000"
  using randomInteger_range [of 10000 60000 4294967295] by simp

lemma randomSeq_simps:
  "getSeq opts \<noteq> [] \<Longrightarrow> length (randomSeq opts rs) = length rs"
  "set (randomSeq opts rs) \<subseteq> set (getSeq opts)"
proof -
  show "getSeq opts \<noteq> [] \<Longrightarrow> length (randomSeq opts rs) = length rs"
    by (induction rs) (auto simp: randomSeq_def Let_def)
  show "set (randomSeq opts rs) \<subseteq> set (getSeq opts)"
    by (auto simp: randomSeq_def Let_def intro!: nth_mem mod_less_divisor)
qed

text \<open>The short ids of a REALITY inbound: eight of them, of the even lengths from 2 to 16 in
  some order, each of lower-case hexadecimal digits; the text of the list splits into
  them again.\<close>

theorem randomShortIds_shape:
  assumes "mset lengths = mset shortId_lengths" and "length rs = 72"
  shows "mset (map length (split_on CHR '','' (randomShortIds_text lengths rs))) = mset shortId_lengths \<and>
    (\<forall>s \<in> set (split_on CHR '','' (randomShortIds_text lengths rs)). set s \<subseteq> set ''0123456789abcdef'')"
proof -
  have hex: "getSeq (default_seq\<lparr>seq_type := Hex\<rparr>) = ''0123456789abcdef''" by (simp add: getSeq_def)
  have l: "sum_list ns \<le> length rs \<Longrightarrow> map length (randomShortIds ns rs) = ns" for ns
    by (induction ns arbitrary: rs) (simp_all add: randomSeq_simps(1) hex)
  have c: "s \<in> set (randomShortIds ns rs) \<Longrightarrow> set s \<subseteq> set ''0123456789abcdef''" for ns s
  proof (induction ns arbitrary: rs)
    case (Cons n ns)
    have "set (randomSeq (default_seq\<lparr>seq_type := Hex\<rparr>) (take n rs)) \<subseteq> set ''0123456789abcdef''"
      using randomSeq_simps(2) [of "default_seq\<lparr>seq_type := Hex\<rparr>"] by (simp only: hex)
    moreover from Cons.prems have "s = randomSeq (default_seq\<lparr>seq_type := Hex\<rparr>) (take n rs) \<or>
        s \<in> set (randomShortIds ns (drop n rs))" by simp
    ultimately show ?case using Cons.IH by blast
  qed simp
  have "sum_list lengths = sum_list shortId_lengths" using assms(1) by (metis sum_mset_sum_list)
  then have len: "map length (randomShortIds lengths rs) = lengths"
    using l assms(2) by (simp add: shortId_lengths_def)
  have ne: "lengths \<noteq> []" using assms(1) by (auto simp: shortId_lengths_def)
  then have "split_on CHR '','' (randomShortIds_text lengths rs) = randomShortIds lengths rs"
    unfolding randomShortIds_text_def
    by (intro split_on_join) (use len c in force)+
  with len assms(1) c show ?thesis by simp
qed

theorem randomShortIds_shape_witness:
  "mset (map length (split_on CHR '','' (randomShortIds_text shortId_lengths (replicate 72 7)))) = mset shortId_lengths"
  using randomShortIds_shape [OF refl, of "replicate 72 7"] by simp

text \<open>Which character may stand where in a version 4 UUID.\<close>

definition uuid_char :: "char \<Rightarrow> char \<Rightarrow> bool" where
  "uuid_char t c =
     (if t = CHR ''x'' then c \<in> set ''0123456789abcdef''
      else if t = CHR ''y'' then c \<in> set ''89ab''
      else c = t)"

lemma nibble_y: "unat (((r :: 8 word) mod 16 AND 3) OR 8) \<in> {8, 9, 10, 11}"
proof -
  have "r mod 16 AND 3 = take_bit 2 (r mod 16)" by (simp add: take_bit_eq_mask mask_eq_exp_minus_1)
  then have "unat ((r mod 16 AND 3) OR 8) = (take_bit 2 (unat (r mod 16))) OR 8"
    by (simp only: unsigned_or_eq unsigned_take_bit_eq) simp
  moreover have "take_bit 2 n \<in> {0, 1, 2, 3 :: nat}" for n :: nat
    by (simp add: take_bit_eq_mod) presburger
  moreover have "n \<in> {0, 1, 2, 3} \<Longrightarrow> n OR 8 \<in> {8, 9, 10, 11 :: nat}" for n by auto
  ultimately show ?thesis by metis
qed

lemma nibble_x: "unat ((r :: 8 word) mod 16) < 16"
  by (simp add: unat_mod)

lemma hex_digit_set: "n < 16 \<Longrightarrow> hex_digit n \<in> set ''0123456789abcdef''"
  unfolding hex_digit_def by (rule nth_mem) simp

lemma hex_digit_y: "n \<in> {8, 9, 10, 11} \<Longrightarrow> hex_digit n \<in> set ''89ab''"
  by (auto simp: hex_digit_def)

lemma fill_uuid_chars:
  "length (filter (\<lambda>c. c = CHR ''x'' \<or> c = CHR ''y'') t) \<le> length rs \<Longrightarrow> list_all2 uuid_char t (fill_uuid t rs)"
proof (induction t arbitrary: rs)
  case (Cons c t)
  show ?case
  proof (cases "c = CHR ''x'' \<or> c = CHR ''y''")
    case True
    then obtain r rs' where rs: "rs = r # rs'" using Cons.prems by (cases rs) auto
    have "list_all2 uuid_char t (fill_uuid t rs')" using Cons True rs by auto
    moreover have "uuid_char CHR ''x'' (hex_digit (unat (r mod 16)))"
      by (simp only: uuid_char_def if_True simp_thms) (rule hex_digit_set [OF nibble_x])
    moreover have "uuid_char CHR ''y'' (hex_digit (unat ((r mod 16 AND 3) OR 8)))"
      using hex_digit_y [OF nibble_y [of r]] by (simp add: uuid_char_def)
    ultimately show ?thesis using True rs by auto
  next
    case False
    with Cons show ?thesis by (simp add: uuid_char_def)
  qed
qed simp

text \<open>On a page without https the identifiers of clients are version 4 UUIDs, whatever the
  random bytes.\<close>

theorem randomUUID_v4:
  assumes "protocol \<noteq> ''https:''" and "length rs = 31"
  shows "list_all2 uuid_char ''xxxxxxxx-xxxx-4xxx-yxxx-xxxxxxxxxxxx'' (randomUUID b protocol rs)"
  using fill_uuid_chars [of uuid_template rs] assms by (simp add: randomUUID_def uuid_template_def)

theorem randomUUID_v4_witness:
  "list_all2 uuid_char ''xxxxxxxx-xxxx-4xxx-yxxx-xxxxxxxxxxxx'' (randomUUID [] ''http:'' (replicate 31 255))"
  by (rule randomUUID_v4) simp_all

text \<open>The password generated for a Shadowsocks 2022 method decodes to a key of exactly the
  length the method requires: 16 bytes for aes-128, 32 for the others.\<close>

theorem randomShadowsocksPassword_key:
  assumes "ss_password_length m \<le> length rs"
  shows "\<exists>key. atob (randomShadowsocksPassword m rs) = Some key \<and>
    length key = (if m = ''2022-blake3-aes-128-gcm'' then 16 else 32)"
  using assms base64.dec_enc
  by (auto simp: randomShadowsocksPassword_def Base64_alternativeEncode_def ss_password_length_def)

theorem randomShadowsocksPassword_key_witness:
  "\<exists>key. atob (randomShadowsocksPassword ''2022-blake3-aes-128-gcm'' (replicate 16 CHR ''k'')) = Some key \<and> length key = 16"
  using randomShadowsocksPassword_key [of "''2022-blake3-aes-128-gcm''" "replicate 16 CHR ''k''"]
  by (simp add: ss_password_length_def)

section \<open>Base32\<close>

text \<open>
  The encoding of RFC 4648 without padding, on the bits of the input: groups of five from
  the left, the last one filled up with zeros.
\<close>

definition bits_of :: "nat \<Rightarrow> 'a::len word \<Rightarrow> bool list" where
  "bits_of n w = map (bit w) (rev [0..<n])"

definition bits_value :: "bool list \<Rightarrow> nat" where
  "bits_value bs = horner_sum of_bool 2 (rev bs)"

fun base32_ref :: "bool list \<Rightarrow> string" where
  "base32_ref [] = []"
| "base32_ref (b # bs) =
     base32Chars ! bits_value (take 5 (b # bs) @ replicate (5 - length (take 5 (b # bs))) False)
       # base32_ref (drop 4 bs)"

lemma length_bits_of [simp]: "length (bits_of n w) = n"
  by (simp add: bits_of_def)

lemma base32_ref_group:
  "length g = 5 \<Longrightarrow> base32_ref (g @ bs) = base32Chars ! bits_value g # base32_ref bs"
  by (cases g) (auto simp: numeral_eq_Suc)

lemma base32_ref_last:
  "bs \<noteq> [] \<Longrightarrow> length bs \<le> 5 \<Longrightarrow>
   base32_ref bs = [base32Chars ! bits_value (bs @ replicate (5 - length bs) False)]"
  by (cases bs) auto

lemma base32_ref_append:
  "length pre mod 5 = 0 \<Longrightarrow> base32_ref (pre @ bs) = base32_ref pre @ base32_ref bs"
proof (induction pre rule: base32_ref.induct)
  case (2 b pre)
  then have l: "5 \<le> length (b # pre)" by (cases "length (b # pre) < 5") auto
  have "length (drop 4 pre) mod 5 = 0" using 2(2) l by (simp add: mod_diff_left_eq le_mod_geq)
  note IH = 2(1) [OF this]
  have s: "b # pre = take 5 (b # pre) @ drop 4 pre" by (simp add: numeral_eq_Suc)
  have g: "length (take 5 (b # pre)) = 5" using l by simp
  show ?case
    using base32_ref_group [OF g, of "drop 4 pre @ bs"] base32_ref_group [OF g, of "drop 4 pre"] IH s
    by (metis append.assoc append_Cons)
qed simp

lemma bits_of_split: "k \<le> n \<Longrightarrow> bits_of n w = bits_of (n - k) (drop_bit k w) @ bits_of k w"
proof -
  assume "k \<le> n"
  then have "[0..<n] = [0..<k] @ map (\<lambda>i. i + k) [0..<n - k]"
    by (metis add.commute le_add_diff_inverse map_add_upt upt_add_eq_append zero_le plus_nat.add_0)
  then show ?thesis by (simp add: bits_of_def rev_map bit_drop_bit_eq add.commute o_def)
qed

lemma base32_char_bits: "base32_char (w :: 32 word) = base32Chars ! bits_value (bits_of 5 w)"
proof -
  have "w AND 31 = take_bit 5 w" by (simp add: take_bit_eq_mask mask_eq_exp_minus_1)
  then have "unat (w AND 31) = take_bit 5 (unat w)" by (simp add: unsigned_take_bit_eq)
  also have "\<dots> = horner_sum of_bool 2 (map (bit (unat w)) [0..<5])"
    by (simp only: horner_sum_bit_eq_take_bit)
  also have "map (bit (unat w)) [0..<5] = map (bit w) [0..<5]"
    by (simp add: bit_unsigned_iff)
  finally show ?thesis by (simp add: base32_char_def bits_value_def bits_of_def rev_map)
qed

lemma bits_of_byte:
  "n + 8 \<le> 32 \<Longrightarrow> bits_of (n + 8) (push_bit 8 w OR ucast b :: 32 word) = bits_of n w @ bits_of 8 (b :: 8 word)"
proof -
  assume n: "n + 8 \<le> 32"
  have "bits_of (n + 8) (push_bit 8 w OR ucast b :: 32 word)
      = bits_of n (drop_bit 8 (push_bit 8 w OR ucast b :: 32 word)) @ bits_of 8 (push_bit 8 w OR ucast b :: 32 word)"
    using bits_of_split [of 8 "n + 8" "push_bit 8 w OR ucast b :: 32 word"] by (simp only: add_diff_cancel_right' le_add2)
  moreover have "bits_of n (drop_bit 8 (push_bit 8 w OR ucast b :: 32 word)) = bits_of n w"
    using n by (auto simp: bits_of_def bit_simps dest: bit_imp_le_length)
  moreover have "bits_of 8 (push_bit 8 w OR ucast b :: 32 word) = bits_of 8 b"
    by (auto simp: bits_of_def bit_simps)
  ultimately show ?thesis by simp
qed

definition base32_inv :: "bool list \<Rightarrow> base32_state \<Rightarrow> bool" where
  "base32_inv bs s \<longleftrightarrow>
     (\<exists>pre. bs = pre @ bits_of (bits s) (buffer s) \<and> length pre mod 5 = 0 \<and> result s = base32_ref pre)"

lemma base32_emit_inv:
  "base32_inv bs s \<Longrightarrow> base32_inv bs (base32_emit s) \<and> bits (base32_emit s) < 5"
proof (induction s rule: base32_emit.induct)
  case (1 s)
  show ?case
  proof (cases "5 \<le> bits s")
    case False
    with 1 show ?thesis by (simp add: base32_emit.simps [of s])
  next
    case True
    obtain pre where pre: "bs = pre @ bits_of (bits s) (buffer s)" "length pre mod 5 = 0"
      "result s = base32_ref pre" using 1(2) by (auto simp: base32_inv_def)
    let ?g = "bits_of 5 (drop_bit (bits s - 5) (buffer s))"
    have split: "bits_of (bits s) (buffer s) = ?g @ bits_of (bits s - 5) (buffer s)"
      using bits_of_split [of "bits s - 5" "bits s" "buffer s"] True by simp
    have "base32_ref (pre @ ?g) = result s @ [base32_char (drop_bit (bits s - 5) (buffer s))]"
      using base32_ref_append [OF pre(2)] base32_ref_group [of ?g "[]"] pre(3) by (simp add: base32_char_bits)
    moreover have "length (pre @ ?g) mod 5 = 0" using pre(2) by simp
    ultimately have "base32_inv bs (s\<lparr>bits := bits s - 5,
        result := result s @ [base32_char (drop_bit (bits s - 5) (buffer s))]\<rparr>)"
      using pre(1) split by (auto simp: base32_inv_def intro!: exI [of _ "pre @ ?g"])
    from 1(1) [OF True this] True show ?thesis by (simp add: base32_emit.simps [of s])
  qed
qed

lemma base32_byte_inv:
  assumes "base32_inv bs s" "bits s < 5"
  shows "base32_inv (bs @ bits_of 8 b) (base32_byte s b) \<and> bits (base32_byte s b) < 5"
proof -
  have "bits_of (bits s + 8) (push_bit 8 (buffer s) OR ucast b) = bits_of (bits s) (buffer s) @ bits_of 8 b"
    by (rule bits_of_byte) (use assms(2) in simp)
  then have "base32_inv (bs @ bits_of 8 b)
      (s\<lparr>buffer := push_bit 8 (buffer s) OR ucast b, bits := bits s + 8\<rparr>)"
    using assms(1) by (auto simp: base32_inv_def)
  from base32_emit_inv [OF this] show ?thesis by (simp add: base32_byte_def)
qed

lemma base32_fold_inv:
  "base32_inv bs s \<Longrightarrow> bits s < 5 \<Longrightarrow>
   base32_inv (bs @ concat (map (bits_of 8) rs)) (foldl base32_byte s rs) \<and> bits (foldl base32_byte s rs) < 5"
proof (induction rs arbitrary: bs s)
  case (Cons b rs)
  from base32_byte_inv [OF Cons.prems, of b] Cons.IH [of "bs @ bits_of 8 b" "base32_byte s b"]
  show ?case by simp
qed simp

text \<open>The base32 loop, which shifts the bytes through a 32-bit register that is never
  cleared, produces the base32 text of the bytes: five bits to a character from the
  left, and the last character filled up with zero bits.\<close>

theorem randomBase32String_ref:
  "randomBase32String rs = base32_ref (concat (map (bits_of 8) rs))"
proof -
  let ?s = "foldl base32_byte \<lparr>buffer = 0, bits = 0, result = []\<rparr> rs"
  have "base32_inv [] \<lparr>buffer = 0, bits = 0, result = []\<rparr>" by (simp add: base32_inv_def bits_of_def)
  from base32_fold_inv [OF this, of rs] obtain pre where
    pre: "concat (map (bits_of 8) rs) = pre @ bits_of (bits ?s) (buffer ?s)" "length pre mod 5 = 0"
      "result ?s = base32_ref pre" and b: "bits ?s < 5"
    by (auto simp: base32_inv_def)
  have ref: "base32_ref (concat (map (bits_of 8) rs)) = result ?s @ base32_ref (bits_of (bits ?s) (buffer ?s))"
    using pre by (simp add: base32_ref_append)
  show ?thesis
  proof (cases "bits ?s = 0")
    case True
    with ref show ?thesis by (simp add: randomBase32String_def Let_def bits_of_def)
  next
    case False
    have "bits_of 5 (push_bit (5 - bits ?s) (buffer ?s)) =
        bits_of (bits ?s) (buffer ?s) @ replicate (5 - bits ?s) False"
    proof -
      let ?k = "5 - bits ?s"
      have "bits_of 5 (push_bit ?k (buffer ?s)) =
          bits_of (bits ?s) (drop_bit ?k (push_bit ?k (buffer ?s))) @ bits_of ?k (push_bit ?k (buffer ?s))"
        using bits_of_split [of ?k 5] b by simp
      moreover have "bits_of (bits ?s) (drop_bit ?k (push_bit ?k (buffer ?s))) = bits_of (bits ?s) (buffer ?s)"
        using b by (auto simp: bits_of_def bit_simps)
      moreover have "bits_of ?k (push_bit ?k (buffer ?s)) = replicate ?k False"
        by (auto simp: bits_of_def bit_simps intro!: replicate_eqI)
      ultimately show ?thesis by simp
    qed
    moreover have ne: "bits_of (bits ?s) (buffer ?s) \<noteq> []"
      using False length_bits_of [of "bits ?s" "buffer ?s"] by (metis list.size(3))
    moreover have le: "bits ?s \<le> 5" using b by simp
    ultimately have "base32_ref (bits_of (bits ?s) (buffer ?s)) = [base32_char (push_bit (5 - bits ?s) (buffer ?s))]"
      using base32_ref_last [of "bits_of (bits ?s) (buffer ?s)"] by (simp only: base32_char_bits length_bits_of simp_thms)
    with ref False show ?thesis by (simp add: randomBase32String_def Let_def)
  qed
qed

end
