(* ===== verification/Format.thy ===== *)
theory Format
  imports WebUrl JsValue
begin

text \<open>
  The display helpers of \<open>frontend/src/utils/index.ts\<close>: \<open>SizeFormatter\<close>,
  \<open>CPUFormatter\<close>, \<open>TimeFormatter\<close>, \<open>NumberFormatter\<close>, \<open>ColorUtils\<close>, \<open>ArrayUtils\<close>,
  \<open>URLBuilder\<close>, \<open>CookieManager\<close> and \<open>LanguageManager\<close>, and the load figures of
  \<open>frontend/src/models/status.ts\<close>.  Quantities are rational numbers (rounding to
  binary fractions is not represented); the time, the location and the cookies of the page
  are arguments.
\<close>

section \<open>Numbers\<close>

text \<open>\<open>Number.prototype.toFixed\<close>: the nearest multiple of the last place, ties upwards in
  magnitude, written with that many decimals.\<close>

definition fixed_digits :: "nat \<Rightarrow> nat \<Rightarrow> string" where
  "fixed_digits n f =
     (if f = 0 then nat_str n
      else let ds = nat_str n; ds = replicate (Suc f - length ds) CHR ''0'' @ ds; k = length ds - f
           in take k ds @ ''.'' @ drop k ds)"

definition nearest :: "rat \<Rightarrow> nat \<Rightarrow> nat" where
  "nearest x f = nat \<lfloor>x * 10 ^ f + 1 / 2\<rfloor>"

definition to_fixed :: "nat \<Rightarrow> rat \<Rightarrow> string" where
  "to_fixed f x =
     (if \<bar>x\<bar> \<ge> 10 ^ 21 then num_str (Fin x)
      else if x < 0 then ''-'' @ fixed_digits (nearest (- x) f) f
      else fixed_digits (nearest x f) f)"

definition NumberFormatter_toFixed :: "rat \<Rightarrow> nat \<Rightarrow> rat" where
  "NumberFormatter_toFixed num n = of_int \<lfloor>num * 10 ^ n\<rfloor> / 10 ^ n"

definition addZero :: "int \<Rightarrow> string + int" where
  "addZero num = (if num < 10 then Inl (''0'' @ int_str num) else Inr num)"

section \<open>Sizes, speeds, times\<close>

definition ONE_KB :: rat where "ONE_KB = 1024"
definition ONE_MB :: rat where "ONE_MB = ONE_KB * 1024"
definition ONE_GB :: rat where "ONE_GB = ONE_MB * 1024"
definition ONE_TB :: rat where "ONE_TB = ONE_GB * 1024"
definition ONE_PB :: rat where "ONE_PB = ONE_TB * 1024"

lemmas size_units = ONE_KB_def ONE_MB_def ONE_GB_def ONE_TB_def ONE_PB_def

definition sizeFormat :: "rat option \<Rightarrow> string" where
  "sizeFormat sz =
     (case sz of
        None \<Rightarrow> ''0 B''
      | Some x \<Rightarrow>
          if x \<le> 0 then ''0 B''
          else if x < ONE_KB then to_fixed 0 x @ '' B''
          else if x < ONE_MB then to_fixed 2 (x / ONE_KB) @ '' KB''
          else if x < ONE_GB then to_fixed 2 (x / ONE_MB) @ '' MB''
          else if x < ONE_TB then to_fixed 2 (x / ONE_GB) @ '' GB''
          else if x < ONE_PB then to_fixed 2 (x / ONE_TB) @ '' TB''
          else to_fixed 2 (x / ONE_PB) @ '' PB'')"

definition cpuSpeedFormat :: "rat \<Rightarrow> string" where
  "cpuSpeedFormat speed =
     (if speed > 1000 then to_fixed 2 (speed / 1000) @ '' GHz'' else to_fixed 2 speed @ '' MHz'')"

definition cpuCoreFormat :: "rat \<Rightarrow> string" where
  "cpuCoreFormat cores = (if cores = 1 then ''1 Core'' else num_str (Fin cores) @ '' Cores'')"

definition formatSecond :: "rat \<Rightarrow> string" where
  "formatSecond second =
     (if second < 60 then to_fixed 0 second @ ''s''
      else if second < 3600 then to_fixed 0 (second / 60) @ ''m''
      else if second < 3600 * 24 then to_fixed 0 (second / 3600) @ ''h''
      else
        let day = \<lfloor>second / 3600 / 24\<rfloor>;
            remain = js_number_of_string (to_fixed 0 (second / 3600 - of_int day * 24))
        in int_str day @ ''d'' @
           (case remain of
              Fin h \<Rightarrow> if h > 0 then '' '' @ num_str (Fin h) @ ''h'' else []
            | PInf \<Rightarrow> '' '' @ num_str PInf @ ''h''
            | _ \<Rightarrow> []))"

section \<open>Load figures\<close>

record cur_total =
  cur :: rat
  tot :: rat

definition percent :: "cur_total \<Rightarrow> rat" where
  "percent c = (if tot c = 0 then 0 else NumberFormatter_toFixed (cur c / tot c * 100) 2)"

definition load_color :: "cur_total \<Rightarrow> string" where
  "load_color c =
     (if percent c < 80 then ''#1677ff'' else if percent c < 90 then ''#faad14'' else ''#ff4d4f'')"

section \<open>Colours\<close>

datatype usage_color = purple | green | orange | red

definition usageColor :: "rat option \<Rightarrow> rat \<Rightarrow> rat option \<Rightarrow> usage_color" where
  "usageColor data' threshold tot' =
     (let t = (case tot' of None \<Rightarrow> 0 | Some x \<Rightarrow> x)
      in case data' of
           None \<Rightarrow> purple
         | Some d \<Rightarrow>
             if t < 0 then green
             else if t = 0 then purple
             else if d < t - threshold then green
             else if d < t then orange
             else red)"

record usage_stats =
  stats_total :: rat
  stats_up :: rat
  stats_down :: rat

definition clientUsageColor :: "usage_stats option \<Rightarrow> rat \<Rightarrow> string" where
  "clientUsageColor stats trafficDiff =
     (case stats of
        None \<Rightarrow> ''#722ed1''
      | Some c \<Rightarrow>
          if stats_total c = 0 then ''#722ed1''
          else if stats_up c + stats_down c < stats_total c - trafficDiff then ''#389e0a''
          else if stats_up c + stats_down c < stats_total c then ''#faad14''
          else ''#ff4d4f'')"

definition userExpiryColor :: "rat \<Rightarrow> rat \<Rightarrow> bool \<Rightarrow> rat option \<Rightarrow> bool \<Rightarrow> string" where
  "userExpiryColor now threshold enable' expiry isDark =
     (if \<not> enable' then (if isDark then ''#2c3950'' else ''#bcbcbc'')
      else case expiry of
        None \<Rightarrow> ''#722ed1''
      | Some e \<Rightarrow>
          if e < 0 then ''#389e0a''
          else if e = 0 then ''#722ed1''
          else if now < e - threshold then ''#389e0a''
          else if now < e then ''#faad14''
          else ''#ff4d4f'')"

definition doAllItemsExist :: "'a list \<Rightarrow> 'a list \<Rightarrow> bool" where
  "doAllItemsExist xs ys = list_all (\<lambda>x. x \<in> set ys) xs"

section \<open>URLs\<close>

record page_location =
  loc_hostname :: string
  loc_port :: string
  loc_protocol :: string

definition buildURL ::
  "page_location \<Rightarrow> string option \<Rightarrow> string option \<Rightarrow> bool option \<Rightarrow> string \<Rightarrow> string \<Rightarrow> string" where
  "buildURL loc host port isTLS base path =
     (let host = (case host of Some h \<Rightarrow> if h = [] then loc_hostname loc else h | None \<Rightarrow> loc_hostname loc);
          port = (case port of Some p \<Rightarrow> if p = [] then loc_port loc else p | None \<Rightarrow> loc_port loc);
          tls = (case isTLS of Some b \<Rightarrow> b | None \<Rightarrow> loc_protocol loc = ''https:'');
          protocol = (if tls then ''https:'' else ''http:'');
          portPart = (if port = [] \<or> tls \<and> port = ''443'' \<or> \<not> tls \<and> port = ''80'' then []
                      else '':'' @ port)
      in protocol @ ''//'' @ host @ portPart @ base @ path)"

section \<open>Cookies and languages\<close>

text \<open>
  The cookies of the page as the browser keeps them: a list of names and values;
  \<open>document.cookie\<close> reads as the pairs joined by \<open>; \<close>, and assigning to it sets the
  pair before the first semicolon.
\<close>

type_synonym jar = "(string \<times> string) list"

definition document_cookie :: "jar \<Rightarrow> string" where
  "document_cookie jar = join ''; '' (map (\<lambda>(k, v). k @ ''='' @ v) jar)"

fun set_pair :: "string \<Rightarrow> string \<Rightarrow> jar \<Rightarrow> jar" where
  "set_pair k v [] = [(k, v)]"
| "set_pair k v ((k', v') # jar) = (if k' = k then (k, v) # jar else (k', v') # set_pair k v jar)"

definition assign_cookie :: "string \<Rightarrow> jar \<Rightarrow> jar" where
  "assign_cookie text' jar =
     (let pair = (case split_first CHR '';'' text' of None \<Rightarrow> text' | Some (a, b) \<Rightarrow> a)
      in case split_first CHR ''='' pair of
           None \<Rightarrow> set_pair [] (js_trim pair) jar
         | Some (k, v) \<Rightarrow> set_pair (js_trim k) (js_trim v) jar)"

fun find_cookie :: "string \<Rightarrow> string list \<Rightarrow> string option" where
  "find_cookie name [] = Some []"
| "find_cookie name (c # cs) =
     (let c = js_trim c
      in if starts_with c name then decodeURIComponent (drop (length name) c)
         else find_cookie name cs)"

definition getCookie :: "jar \<Rightarrow> string \<Rightarrow> string option" where
  "getCookie jar cname = find_cookie (cname @ ''='') (split_on CHR '';'' (document_cookie jar))"

text \<open>The third argument is the text of the expiry date, where one is asked for; dates that are
  already past are not represented.\<close>

definition setCookie :: "string \<Rightarrow> string \<Rightarrow> string option \<Rightarrow> jar \<Rightarrow> jar" where
  "setCookie cname cvalue expires jar =
     assign_cookie (cname @ ''='' @ encodeURIComponent cvalue @ '';'' @
       (case expires of None \<Rightarrow> [] | Some d \<Rightarrow> ''expires='' @ d @ '';'') @ ''path=/'') jar"

definition supportedLanguages :: "string list" where
  "supportedLanguages = [''ar-EG'', ''en-US'', ''fa-IR'', ''zh-CN'', ''zh-TW'', ''ja-JP'', ''ru-RU'',
     ''vi-VN'', ''es-ES'', ''id-ID'', ''uk-UA'', ''tr-TR'', ''pt-BR'']"

definition isSupportLanguage :: "string \<Rightarrow> bool" where
  "isSupportLanguage l \<longleftrightarrow> l \<in> set supportedLanguages"

definition simularLangs :: "(string \<times> string) list" where
  "simularLangs = [(''ar'', supportedLanguages ! 0), (''fa'', supportedLanguages ! 2),
     (''ja'', supportedLanguages ! 5), (''ru'', supportedLanguages ! 6), (''vi'', supportedLanguages ! 7),
     (''es'', supportedLanguages ! 8), (''id'', supportedLanguages ! 9), (''uk'', supportedLanguages ! 10),
     (''tr'', supportedLanguages ! 11), (''pt'', supportedLanguages ! 12)]"

text \<open>\<open>None\<close> is the exception of \<open>decodeURIComponent\<close>; the navigator's language is an
  argument, absent where there is no navigator.\<close>

definition getLanguage :: "string option \<Rightarrow> jar \<Rightarrow> (string \<times> jar) option" where
  "getLanguage nav jar =
     (case getCookie jar ''lang'' of
        None \<Rightarrow> None
      | Some lang \<Rightarrow>
          if lang \<noteq> [] then Some (lang, jar)
          else case nav of
            None \<Rightarrow> Some (''en-US'', setCookie ''lang'' ''en-US'' None jar)
          | Some l \<Rightarrow>
              let lang = foldl (\<lambda>lang (a, b). if lang = a then b else lang) l simularLangs
              in if isSupportLanguage lang then Some (lang, setCookie ''lang'' lang None jar)
                 else Some (''en-US'', setCookie ''lang'' ''en-US'' None jar))"

definition setLanguage :: "string \<Rightarrow> jar \<Rightarrow> jar" where
  "setLanguage language jar =
     setCookie ''lang'' (if isSupportLanguage language then language else ''en-US'') None jar"

end
