(* ===== verification/FormatProps.thy ===== *)
theory FormatProps
  imports Format
begin

text \<open>
  What the display helpers guarantee: how far a shown duration or size is from the true
  one, that the two usage colourings agree, that a cookie reads back as it was set, and
  that the panel always runs in a supported language.
\<close>

section \<open>Durations and sizes\<close>

lemma nearest_error:
  assumes "0 \<le> x"
  shows "\<bar>of_nat (nearest x f) / 10 ^ f - x\<bar> \<le> 1 / (2 * 10 ^ f)"
proof -
  let ?n = "\<lfloor>x * 10 ^ f + 1 / 2\<rfloor>"
  have "0 \<le> x * 10 ^ f + 1 / 2" using assms by simp
  then have n: "(of_nat (nearest x f) :: rat) = of_int ?n" by (simp add: nearest_def)
  have "of_int ?n \<le> x * 10 ^ f + 1 / 2" "x * 10 ^ f + 1 / 2 < of_int ?n + 1"
    using floor_correct [of "x * 10 ^ f + 1 / 2"] by simp_all
  then have "\<bar>of_int ?n - x * 10 ^ f\<bar> \<le> 1 / 2" by linarith
  moreover have "\<bar>of_int ?n / 10 ^ f - x\<bar> = \<bar>of_int ?n - x * 10 ^ f\<bar> / 10 ^ f"
    by (simp add: abs_if field_simps)
  ultimately show ?thesis unfolding n by (simp add: field_simps)
qed

lemma nearest_bound: "0 \<le> x \<Longrightarrow> x \<le> of_nat k \<Longrightarrow> nearest x f \<le> k * 10 ^ f"
proof -
  assume x: "0 \<le> x" "x \<le> of_nat k"
  have "x * 10 ^ f \<le> of_nat k * 10 ^ f" using x by (simp add: mult_right_mono)
  also have "\<dots> = of_int (int (k * 10 ^ f))" by simp
  finally have "\<lfloor>x * 10 ^ f + 1 / 2\<rfloor> \<le> int (k * 10 ^ f)" by linarith
  then have "nat \<lfloor>x * 10 ^ f + 1 / 2\<rfloor> \<le> nat (int (k * 10 ^ f))" by (rule nat_mono)
  then show ?thesis by (simp only: nearest_def nat_int)
qed

lemma to_fixed_small: "0 \<le> x \<Longrightarrow> x < 10 ^ 21 \<Longrightarrow> to_fixed f x = fixed_digits (nearest x f) f"
  by (simp add: to_fixed_def)

lemma to_fixed_0: "0 \<le> x \<Longrightarrow> x < 10 ^ 21 \<Longrightarrow> to_fixed 0 x = nat_str (nearest x 0)"
  by (simp add: to_fixed_small fixed_digits_def)

lemma scaled_error:
  assumes "0 \<le> x" "0 < u"
  shows "\<bar>u * of_nat (nearest (x / u) 0) - x\<bar> \<le> u / 2"
proof -
  have "\<bar>of_nat (nearest (x / u) 0) - x / u\<bar> \<le> 1 / 2" using nearest_error [of "x / u" 0] assms by simp
  then have "u * \<bar>of_nat (nearest (x / u) 0) - x / u\<bar> \<le> u * (1 / 2)" using assms by (intro mult_left_mono) simp_all
  moreover have "u * \<bar>of_nat (nearest (x / u) 0) - x / u\<bar> = \<bar>u * of_nat (nearest (x / u) 0) - x\<bar>"
  proof -
    have "u * \<bar>of_nat (nearest (x / u) 0) - x / u\<bar> = \<bar>u * (of_nat (nearest (x / u) 0) - x / u)\<bar>"
      using assms by (simp add: abs_mult)
    also have "u * (of_nat (nearest (x / u) 0) - x / u) = u * of_nat (nearest (x / u) 0) - x"
      using assms by (simp add: right_diff_distrib)
    finally show ?thesis .
  qed
  ultimately show ?thesis by simp
qed

text \<open>The duration shown differs from the true one by at most half of the last unit shown,
  and no unit overflows by more than one: up to 60 seconds, 60 minutes, 24 hours.\<close>

theorem formatSecond_accuracy:
  assumes "0 \<le> s"
  shows "\<exists>d n. (formatSecond s = nat_str n @ ''s'' \<and> n \<le> 60 \<and> \<bar>of_nat n - s\<bar> \<le> 1 / 2) \<or>
    (formatSecond s = nat_str n @ ''m'' \<and> n \<le> 60 \<and> \<bar>60 * of_nat n - s\<bar> \<le> 30) \<or>
    (formatSecond s = nat_str n @ ''h'' \<and> n \<le> 24 \<and> \<bar>3600 * of_nat n - s\<bar> \<le> 1800) \<or>
    (formatSecond s = nat_str d @ ''d'' @ (if n = 0 then [] else '' '' @ nat_str n @ ''h'') \<and> n \<le> 24 \<and>
       \<bar>86400 * of_nat d + 3600 * of_nat n - s\<bar> \<le> 1800)"
proof -
  consider "s < 60" | "60 \<le> s" "s < 3600" | "3600 \<le> s" "s < 86400" | "86400 \<le> s" by linarith
  then show ?thesis
  proof cases
    case 1
    have "formatSecond s = nat_str (nearest s 0) @ ''s''"
      using 1 assms by (simp add: formatSecond_def to_fixed_0)
    moreover have "nearest s 0 \<le> 60" using nearest_bound [of s 60 0] 1 assms by simp
    moreover have "\<bar>of_nat (nearest s 0) - s\<bar> \<le> 1 / 2" using nearest_error [of s 0] assms by simp
    ultimately show ?thesis by blast
  next
    case 2
    have "formatSecond s = nat_str (nearest (s / 60) 0) @ ''m''"
      using 2 by (simp add: formatSecond_def to_fixed_0)
    moreover have "nearest (s / 60) 0 \<le> 60" using nearest_bound [of "s / 60" 60 0] 2 by simp
    moreover have "\<bar>60 * of_nat (nearest (s / 60) 0) - s\<bar> \<le> 30" using scaled_error [of s 60] assms by simp
    ultimately show ?thesis by blast
  next
    case 3
    have "formatSecond s = nat_str (nearest (s / 3600) 0) @ ''h''"
      using 3 by (simp add: formatSecond_def to_fixed_0)
    moreover have "nearest (s / 3600) 0 \<le> 24" using nearest_bound [of "s / 3600" 24 0] 3 by simp
    moreover have "\<bar>3600 * of_nat (nearest (s / 3600) 0) - s\<bar> \<le> 1800"
      using scaled_error [of s 3600] assms by simp
    ultimately show ?thesis by blast
  next
    case 4
    define d where "d = \<lfloor>s / 86400\<rfloor>"
    define r where "r = s / 3600 - of_int d * 24"
    have f: "of_int d \<le> s / 86400" "s / 86400 < of_int d + 1"
      unfolding d_def using floor_correct [of "s / 86400"] by simp_all
    have r: "0 \<le> r" "r \<le> of_nat 24" unfolding r_def using f by simp_all
    have d: "0 \<le> d" unfolding d_def using 4 by simp
    let ?n = "nearest r 0"
    have n: "?n \<le> 24" using nearest_bound [OF r, of 0] by simp
    have h: "num_str (Fin (of_nat ?n)) = nat_str ?n"
      using num_str_int [of "int ?n"] n by (simp add: int_str_def)
    have "to_fixed 0 r = nat_str ?n" using r by (intro to_fixed_0) simp_all
    then have "formatSecond s = int_str d @ ''d'' @ (if ?n = 0 then [] else '' '' @ nat_str ?n @ ''h'')"
      using 4 h by (simp add: formatSecond_def Let_def d_def [symmetric] r_def [symmetric])
    then have "formatSecond s = nat_str (nat d) @ ''d'' @ (if ?n = 0 then [] else '' '' @ nat_str ?n @ ''h'')"
      using d by (simp add: int_str_def)
    moreover have "\<bar>86400 * of_nat (nat d) + 3600 * of_nat ?n - s\<bar> \<le> 1800"
    proof -
      have "\<bar>of_nat ?n - r\<bar> \<le> 1 / 2" using nearest_error [OF r(1), of 0] by simp
      then have "\<bar>3600 * of_nat ?n - 3600 * r\<bar> \<le> 1800" by linarith
      moreover have "3600 * r = s - 86400 * of_int d" by (simp add: r_def)
      moreover have "(of_nat (nat d) :: rat) = of_int d" using d by simp
      ultimately show ?thesis by linarith
    qed
    ultimately show ?thesis using n by blast
  qed
qed

text \<open>The overflow happens: two seconds before the end of the second day the display reads a
  day and 24 hours.\<close>

theorem formatSecond_accuracy_witness:
  "formatSecond 172798 = ''1d 24h'' \<and>
   (\<exists>d n. (formatSecond 172798 = nat_str n @ ''s'' \<and> n \<le> 60 \<and> \<bar>of_nat n - 172798\<bar> \<le> (1 / 2 :: rat)) \<or>
    (formatSecond 172798 = nat_str n @ ''m'' \<and> n \<le> 60 \<and> \<bar>60 * of_nat n - 172798\<bar> \<le> (30 :: rat)) \<or>
    (formatSecond 172798 = nat_str n @ ''h'' \<and> n \<le> 24 \<and> \<bar>3600 * of_nat n - 172798\<bar> \<le> (1800 :: rat)) \<or>
    (formatSecond 172798 = nat_str d @ ''d'' @ (if n = 0 then [] else '' '' @ nat_str n @ ''h'') \<and> n \<le> 24 \<and>
       \<bar>86400 * of_nat d + 3600 * of_nat n - 172798\<bar> \<le> (1800 :: rat)))"
proof
  show "formatSecond 172798 = ''1d 24h''" by code_simp
qed (rule formatSecond_accuracy, simp)

section \<open>Usage colours\<close>

fun color_code :: "usage_color \<Rightarrow> string" where
  "color_code purple = ''#722ed1''"
| "color_code green = ''#389e0a''"
| "color_code orange = ''#faad14''"
| "color_code red = ''#ff4d4f''"

fun severity :: "usage_color \<Rightarrow> nat" where
  "severity purple = 0"
| "severity green = 1"
| "severity orange = 2"
| "severity red = 3"

text \<open>The two colourings of a client's traffic agree wherever the limit is not negative, and
  with a positive limit the colour only gets worse as the traffic grows: red exactly when
  the limit is reached.\<close>

theorem usage_colors_agree:
  assumes "0 \<le> stats_total c"
  shows "clientUsageColor (Some c) diff =
      color_code (usageColor (Some (stats_up c + stats_down c)) diff (Some (stats_total c))) \<and>
    (0 < stats_total c \<longrightarrow>
      (\<forall>d d'. d \<le> d' \<longrightarrow> severity (usageColor (Some d) diff (Some (stats_total c)))
         \<le> severity (usageColor (Some d') diff (Some (stats_total c)))) \<and>
      (\<forall>d. 0 \<le> diff \<longrightarrow> (usageColor (Some d) diff (Some (stats_total c)) = red) = (stats_total c \<le> d)))"
  using assms by (auto simp: clientUsageColor_def usageColor_def Let_def)

theorem usage_colors_agree_witness:
  "clientUsageColor (Some \<lparr>stats_total = 10, stats_up = 6, stats_down = 4\<rparr>) 2 = color_code red"
  using usage_colors_agree [of "\<lparr>stats_total = 10, stats_up = 6, stats_down = 4\<rparr>" 2]
  by (simp add: usageColor_def)

section \<open>Cookies\<close>

definition cookie_char :: "char \<Rightarrow> bool" where
  "cookie_char c \<longleftrightarrow> plain_char c \<and> c \<noteq> CHR '';'' \<and> c \<noteq> CHR ''=''"

definition jar_ok :: "jar \<Rightarrow> bool" where
  "jar_ok jar \<longleftrightarrow> distinct (map fst jar) \<and>
     list_all (\<lambda>(k, v). k \<noteq> [] \<and> list_all cookie_char k \<and> list_all cookie_char v) jar"

lemma cookie_charD: "cookie_char c \<Longrightarrow> plain_char c \<and> c \<noteq> CHR '';'' \<and> c \<noteq> CHR ''=''"
  by (simp add: cookie_char_def)

lemma cookie_list:
  assumes "list_all cookie_char s"
  shows "\<forall>c \<in> set s. plain_char c" "CHR '';'' \<notin> set s" "CHR ''='' \<notin> set s"
  using assms by (auto simp: list_all_iff cookie_char_def)

lemma plain_eq_sign: "plain_char CHR ''=''"
  by (simp add: plain_char_def)

lemma component_cookie: "list_all cookie_char (encodeURIComponent s)"
proof -
  have "cookie_char x" if "x \<in> set (percent_byte c)" for x c
    using percent_byte_chars [OF that] by (auto simp: cookie_char_def plain_char_def is_alnum_def Let_def)
  moreover have "cookie_char c" if "component_plain c" for c
    using that by (auto simp: cookie_char_def plain_char_def component_plain_def is_alnum_def Let_def)
  ultimately show ?thesis
    by (auto simp: encodeURIComponent_def percent_encode_def list_all_iff)
qed

lemma strip_blank: "strip_left js_space (CHR '' '' # s) = strip_left js_space s"
proof -
  let ?P = "\<lambda>w. w \<noteq> [] \<and> starts_with (CHR '' '' # s) w"
  have only: "\<forall>w \<in> set js_space. hd w = CHR '' '' \<longrightarrow> w = '' ''" by code_simp
  have "'' '' \<in> set js_space" by code_simp
  then have "find ?P js_space \<noteq> None" by (auto simp: find_None_iff)
  then obtain w where w: "find ?P js_space = Some w" by blast
  then have "?P w" "w \<in> set js_space" by (auto simp: find_Some_iff)
  then have "w = '' ''" using only by (cases w) auto
  with w show ?thesis by (subst strip_left.simps) simp
qed

lemma pair_text:
  assumes "k \<noteq> []" "list_all cookie_char k" "list_all cookie_char v"
  shows "js_trim (k @ ''='' @ v) = k @ ''='' @ v" "js_trim (CHR '' '' # k @ ''='' @ v) = k @ ''='' @ v"
proof -
  let ?p = "k @ ''='' @ v"
  have p: "\<forall>c \<in> set ?p. plain_char c"
    using cookie_list(1) [OF assms(2)] cookie_list(1) [OF assms(3)] plain_eq_sign by auto
  then show t: "js_trim ?p = ?p" by (rule js_trim_all_plain)
  show "js_trim (CHR '' '' # ?p) = ?p" using t by (simp only: js_trim_def strip_blank)
qed

definition pair :: "string \<times> string \<Rightarrow> string" where
  "pair kv = fst kv @ ''='' @ snd kv"

lemma document_cookie_pairs: "document_cookie jar = join ''; '' (map pair jar)"
  by (simp add: document_cookie_def pair_def [abs_def] case_prod_beta')

lemma find_pairs:
  assumes "list_all (\<lambda>(k, v). k \<noteq> [] \<and> list_all cookie_char k \<and> list_all cookie_char v) jar"
    and n: "list_all cookie_char n" and "list_all2 (\<lambda>kv c. js_trim c = pair kv) jar cs"
  shows "find_cookie (n @ ''='') cs = (case map_of jar n of None \<Rightarrow> Some [] | Some v \<Rightarrow> decodeURIComponent v)"
  using assms(3,1)
proof (induction rule: list_all2_induct)
  case (Cons kv jar c cs)
  obtain k v where kv: "kv = (k, v)" by (cases kv)
  have e: "CHR ''='' \<notin> set k" "CHR ''='' \<notin> set n"
    using Cons.prems kv cookie_list(3) [of k] cookie_list(3) [OF n] by simp_all
  have "starts_with (k @ ''='' @ v) (n @ ''='') \<longleftrightarrow> k = n"
  proof
    assume "starts_with (k @ ''='' @ v) (n @ ''='')"
    then obtain t where "k @ CHR ''='' # v = n @ CHR ''='' # t" by (auto simp: starts_with_iff)
    from arg_cong [OF this, of "split_first CHR ''=''"] show "k = n"
      using e by (simp add: split_first_append)
  next
    assume "k = n"
    then show "starts_with (k @ ''='' @ v) (n @ ''='')" by (auto simp: starts_with_iff)
  qed
  then have m: "starts_with (pair kv) (n @ ''='') \<longleftrightarrow> k = n" by (simp add: kv pair_def)
  have "find_cookie (n @ ''='') (c # cs) =
      (if k = n then decodeURIComponent (drop (length (n @ ''='')) (pair kv)) else find_cookie (n @ ''='') cs)"
    unfolding find_cookie.simps Let_def Cons.hyps(1) m ..
  moreover have "drop (length (n @ ''='')) (pair kv) = v" if "k = n"
    using that by (simp add: kv pair_def)
  moreover have "find_cookie (n @ ''='') cs = (case map_of jar n of None \<Rightarrow> Some [] | Some v \<Rightarrow> decodeURIComponent v)"
    using Cons.IH Cons.prems by simp
  ultimately show ?case by (simp add: kv)
qed simp

lemma split_pairs:
  "jar \<noteq> [] \<Longrightarrow> list_all (\<lambda>(k, v). k \<noteq> [] \<and> list_all cookie_char k \<and> list_all cookie_char v) jar \<Longrightarrow>
   \<exists>c cs. split_on CHR '';'' (join ''; '' (map pair jar)) = c # cs \<and> c = pair (hd jar) \<and>
     cs = map (\<lambda>kv. CHR '' '' # pair kv) (tl jar)"
proof (induction jar rule: induct_list012)
  case (2 kv)
  then have "CHR '';'' \<notin> set (pair kv)"
    by (cases kv) (auto simp: pair_def dest: cookie_list)
  then show ?case by (simp add: split_on_no_sep)
next
  case (3 kv kv2 jar)
  have s: "CHR '';'' \<notin> set (pair kv)"
    using 3(4) by (cases kv) (auto simp: pair_def dest: cookie_list)
  obtain c cs where IH: "split_on CHR '';'' (join ''; '' (map pair (kv2 # jar))) = c # cs"
    "c = pair kv2" "cs = map (\<lambda>kv. CHR '' '' # pair kv) jar"
    using 3(2,4) by auto
  have "split_on CHR '';'' (CHR '' '' # join ''; '' (map pair (kv2 # jar))) = (CHR '' '' # c) # cs"
    using IH(1) by simp
  then show ?case using IH(2,3) split_on_append [OF s] by simp
qed simp

lemma getCookie_lookup:
  assumes "jar_ok jar" "list_all cookie_char n"
  shows "getCookie jar n = (case map_of jar n of None \<Rightarrow> Some [] | Some v \<Rightarrow> decodeURIComponent v)"
proof (cases "jar = []")
  case True
  then show ?thesis by (simp add: getCookie_def document_cookie_def js_trim_def Let_def starts_with_def)
next
  case False
  have j: "list_all (\<lambda>(k, v). k \<noteq> [] \<and> list_all cookie_char k \<and> list_all cookie_char v) jar"
    using assms(1) by (simp add: jar_ok_def)
  obtain c cs where s: "split_on CHR '';'' (document_cookie jar) = c # cs" "c = pair (hd jar)"
    "cs = map (\<lambda>kv. CHR '' '' # pair kv) (tl jar)"
    using split_pairs [OF False j] by (auto simp: document_cookie_pairs)
  have t: "js_trim (pair kv) = pair kv \<and> js_trim (CHR '' '' # pair kv) = pair kv" if "kv \<in> set jar" for kv
    using pair_text [of "fst kv" "snd kv"] j that by (cases kv) (auto simp: pair_def list_all_iff)
  have "list_all2 (\<lambda>kv c. js_trim c = pair kv) jar (c # cs)"
    using False s(2,3) t
    by (cases jar) (simp_all add: list.rel_map list.rel_refl_strong del: split_paired_All)
  from find_pairs [OF j assms(2) this] show ?thesis by (simp add: getCookie_def s(1))
qed

lemma map_of_set_pair: "map_of (set_pair k v jar) = (map_of jar)(k \<mapsto> v)"
  by (induction jar) (auto simp: fun_eq_iff)

lemma set_pair_keys: "map fst (set_pair k v jar) = (if k \<in> set (map fst jar) then map fst jar else map fst jar @ [k])"
  by (induction jar) (auto simp: rev_image_eqI)

lemma set_pair_ok:
  assumes "jar_ok jar" "k \<noteq> []" "list_all cookie_char k" "list_all cookie_char v"
  shows "jar_ok (set_pair k v jar)"
proof -
  have "list_all P jar \<Longrightarrow> P (k, v) \<Longrightarrow> list_all P (set_pair k v jar)" for P by (induction jar) auto
  with assms show ?thesis by (auto simp: jar_ok_def set_pair_keys)
qed

lemma setCookie_pair:
  assumes "n \<noteq> []" "list_all cookie_char n"
  shows "setCookie n v expiry jar = set_pair n (encodeURIComponent v) jar"
proof -
  let ?e = "encodeURIComponent v"
  have c: "CHR '';'' \<notin> set (n @ ''='' @ ?e)" "CHR ''='' \<notin> set n"
    using cookie_list [OF assms(2)] cookie_list [OF component_cookie, of v] by simp_all
  have t: "js_trim n = n" "js_trim ?e = ?e"
    by (rule js_trim_all_plain [OF cookie_list(1)], rule assms component_cookie)+
  have "split_first CHR '';'' (n @ ''='' @ ?e @ '';'' @ r) = Some (n @ ''='' @ ?e, r)" for r
    using split_first_append [OF c(1), of r] by simp
  then show ?thesis
    using split_first_append [OF c(2), of ?e] t by (simp add: setCookie_def assign_cookie_def)
qed

text \<open>A cookie that was set reads back as the value, whatever characters it has, and the other
  cookies of the page read as before.\<close>

theorem getCookie_setCookie:
  assumes "jar_ok jar" and "n \<noteq> []" "list_all cookie_char n" "list_all cookie_char m" and "valid_utf8 v"
  shows "getCookie (setCookie n v expiry jar) m = (if m = n then Some v else getCookie jar m)"
  using assms set_pair_ok [OF assms(1-3) component_cookie] decode_encode_component [OF assms(5)]
  by (simp add: setCookie_pair getCookie_lookup map_of_set_pair)

theorem getCookie_setCookie_witness:
  "getCookie (setCookie ''lang'' ''a; b=c'' (Some ''Thu'') [(''x'', ''1'')]) ''lang'' = Some ''a; b=c''"
  using getCookie_setCookie [of "[(''x'', ''1'')]" "''lang''" "''lang''" "''a; b=c''" "Some ''Thu''"]
    valid_utf8_ascii [of "''a; b=c''"]
  by (simp add: jar_ok_def cookie_char_def plain_char_def)

section \<open>Languages\<close>

lemma supported_chars: "isSupportLanguage l \<Longrightarrow> l \<noteq> [] \<and> valid_utf8 l"
  by (auto simp: isSupportLanguage_def supportedLanguages_def)

lemma lang_name: "list_all cookie_char ''lang''" "''lang'' \<noteq> []"
  by (simp_all add: cookie_char_def plain_char_def)

definition lang_ok :: "jar \<Rightarrow> bool" where
  "lang_ok jar \<longleftrightarrow> jar_ok jar \<and> (\<exists>l. getCookie jar ''lang'' = Some l \<and> (l = [] \<or> isSupportLanguage l))"

lemma lang_set:
  assumes "jar_ok jar" "isSupportLanguage l"
  shows "getCookie (setCookie ''lang'' l None jar) ''lang'' = Some l" "lang_ok (setCookie ''lang'' l None jar)"
proof -
  show g: "getCookie (setCookie ''lang'' l None jar) ''lang'' = Some l"
    using set_pair_ok [OF assms(1) lang_name(2,1) component_cookie] supported_chars [OF assms(2)]
    by (simp add: setCookie_pair [OF lang_name(2,1)] getCookie_lookup [OF _ lang_name(1)] map_of_set_pair
          decode_encode_component)
  then show "lang_ok (setCookie ''lang'' l None jar)"
    using set_pair_ok [OF assms(1) lang_name(2,1) component_cookie] assms(2)
    by (simp add: lang_ok_def setCookie_pair [OF lang_name(2,1)])
qed

text \<open>As long as only the panel sets the language cookie, the panel runs in a supported
  language: the one chosen last if there is one, else one that fits the browser or English;
  the choice is stored, so that asking again, on whatever browser language, gives the
  same one.\<close>

theorem language_supported:
  assumes "lang_ok jar"
  shows "\<exists>l jar'. getLanguage nav jar = Some (l, jar') \<and> isSupportLanguage l \<and> lang_ok jar' \<and>
    getLanguage nav' jar' = Some (l, jar') \<and>
    getLanguage nav (setLanguage l' jar) = Some (if isSupportLanguage l' then l' else ''en-US'', setLanguage l' jar)"
proof -
  have en: "isSupportLanguage ''en-US''" by (simp add: isSupportLanguage_def supportedLanguages_def)
  have j: "jar_ok jar" using assms by (simp add: lang_ok_def)
  have again: "getLanguage nv (setCookie ''lang'' l None jar) = Some (l, setCookie ''lang'' l None jar)"
    if "isSupportLanguage l" for l nv
    using lang_set(1) [OF j that] supported_chars [OF that] by (simp add: getLanguage_def)
  obtain l0 where l0: "getCookie jar ''lang'' = Some l0" "l0 = [] \<or> isSupportLanguage l0"
    using assms by (auto simp: lang_ok_def)
  have set': "getLanguage nav (setLanguage l' jar) = Some (if isSupportLanguage l' then l' else ''en-US'', setLanguage l' jar)"
    by (simp add: setLanguage_def again en)
  show ?thesis
  proof (cases "l0 = []")
    case False
    with l0 assms set' show ?thesis by (auto simp: getLanguage_def)
  next
    case True
    obtain l where "isSupportLanguage l" "getLanguage nav jar = Some (l, setCookie ''lang'' l None jar)"
    proof (cases nav)
      case None
      with l0(1) True en show ?thesis by (intro that [of "''en-US''"]) (simp_all add: getLanguage_def)
    next
      case (Some n)
      let ?l = "foldl (\<lambda>lang (a, b). if lang = a then b else lang) n simularLangs"
      show ?thesis
        by (rule that [of "if isSupportLanguage ?l then ?l else ''en-US''"])
          (use l0(1) True en Some in \<open>simp_all add: getLanguage_def Let_def\<close>)
    qed
    with again lang_set(2) [OF j] set' show ?thesis by blast
  qed
qed

theorem language_supported_witness:
  "\<exists>l jar'. getLanguage (Some ''fa'') [] = Some (l, jar') \<and> isSupportLanguage l"
proof -
  have "lang_ok []" by (simp add: lang_ok_def jar_ok_def getCookie_lookup [OF _ lang_name(1)])
  from language_supported [OF this, of "Some ''fa''" None "[]"] show ?thesis by blast
qed

end
