(* ===== verification/PanelSchemas.thy ===== *)
theory PanelSchemas
  imports Schemas
begin

text \<open>
  The schemas of what the hub answers and what the forms of the panel hold: \<open>schemas/client.ts\<close>,
  \<open>node.ts\<close>, \<open>routing.ts\<close>, \<open>dns.ts\<close>, \<open>xray.ts\<close>, \<open>setting.ts\<close>, \<open>defaults.ts\<close>, \<open>status.ts\<close>,
  \<open>inbound.ts\<close>, \<open>user.ts\<close>, \<open>login.ts\<close> and \<open>_envelope.ts\<close>, under their names in the source.
  (\<open>InboundFormSchema\<close> of \<open>schemas/inbound.ts\<close> is \<open>BasicInboundFormSchema\<close> here, and
  \<open>CustomGeoFormSchema\<close>, whose check constructs a \<open>URL\<close> of a special scheme, is left out.)

  As in \<open>Schemas\<close>, the lemmas after each group check that parsing what was parsed changes
  nothing, so that \<open>parse_again\<close> applies to every schema of the panel.
\<close>

section \<open>Operations on schemas\<close>

text \<open>\<open>.partial()\<close> and \<open>.extend({...})\<close>.\<close>

definition zpartial :: "zschema \<Rightarrow> zschema" where
  "zpartial s = (case s of
     ZObject fs \<Rightarrow> ZObject (map (\<lambda>(k, t). (k, ZOptional t)) fs) | _ \<Rightarrow> s)"

fun put_field :: "string \<Rightarrow> zschema \<Rightarrow> (string \<times> zschema) list \<Rightarrow> (string \<times> zschema) list" where
  "put_field k s [] = [(k, s)]"
| "put_field k s ((k', t) # fs) = (if k' = k then (k, s) # fs else (k', t) # put_field k s fs)"

definition zextend :: "zschema \<Rightarrow> (string \<times> zschema) list \<Rightarrow> zschema" where
  "zextend s gs = (case s of
     ZObject fs \<Rightarrow> ZObject (foldl (\<lambda>fs (k, t). put_field k t fs) fs gs) | _ \<Rightarrow> s)"

text \<open>The envelope of every answer.\<close>

definition msgSchema :: "zschema \<Rightarrow> zschema" where
  "msgSchema obj = ZObject
     [(''success'', ZBoolean),
      (''msg'', ZString_default ''''),
      (''obj'', ZNullable obj)]"

lemma msgSchema_wf: "zwf u s \<Longrightarrow> zwf u (msgSchema s)"
  by (simp add: msgSchema_def keep_rules)

lemma letter_key: "\<not> is_digit c \<Longrightarrow> \<not> is_index_key (c # k)"
  by (simp add: is_index_key_def)

lemmas panel_wf_rules = keep_rules zpartial_def zextend_def letter_key is_digit_def js_coalesce_def
  loose_result_def

section \<open>Clients\<close>

definition nullableStringArray :: zschema where [schema_defs]:
  "nullableStringArray = ZOrElse (ZNullable (ZArray AnyLen ZString)) (JArr [])"

definition nullableNumberArray :: zschema where [schema_defs]:
  "nullableNumberArray = ZOrElse (ZNullable (ZArray AnyLen (ZNumber []))) (JArr [])"

definition ClientTrafficSchema :: zschema where [schema_defs]:
  "ClientTrafficSchema = ZObject
     [(''up'', ZOptional (ZNumber [])),
      (''down'', ZOptional (ZNumber [])),
      (''total'', ZOptional (ZNumber [])),
      (''expiryTime'', ZOptional (ZNumber [])),
      (''enable'', ZOptional ZBoolean),
      (''lastOnline'', ZOptional (ZNumber []))]"

definition ClientRecordSchema :: zschema where [schema_defs]:
  "ClientRecordSchema = ZLoose
     [(''id'', ZOptional (ZNumber [])),
      (''email'', ZString),
      (''subId'', ZOptional ZString),
      (''uuid'', ZOptional ZString),
      (''password'', ZOptional ZString),
      (''auth'', ZOptional ZString),
      (''flow'', ZOptional ZString),
      (''security'', ZOptional ZString),
      (''totalGB'', ZOptional (ZNumber [])),
      (''expiryTime'', ZOptional (ZNumber [])),
      (''limitIp'', ZOptional (ZNumber [])),
      (''tgId'', ZOptional (ZUnion [ZNumber [], ZString])),
      (''group'', ZOptional ZString),
      (''comment'', ZOptional ZString),
      (''enable'', ZOptional ZBoolean),
      (''reset'', ZOptional (ZNumber [])),
      (''inboundIds'', ZOptional nullableNumberArray),
      (''traffic'', ZOptional (ZNullable ClientTrafficSchema)),
      (''reverse'', ZOptional (ZNullable (ZLoose
         [(''tag'', ZOptional ZString)]))),
      (''createdAt'', ZOptional (ZNumber [])),
      (''updatedAt'', ZOptional (ZNumber []))]"

definition ClientSlimSchema :: zschema where [schema_defs]:
  "ClientSlimSchema = ZLoose
     [(''email'', ZString),
      (''subId'', ZOptional ZString),
      (''enable'', ZOptional ZBoolean),
      (''totalGB'', ZOptional (ZNumber [])),
      (''expiryTime'', ZOptional (ZNumber [])),
      (''limitIp'', ZOptional (ZNumber [])),
      (''reset'', ZOptional (ZNumber [])),
      (''group'', ZOptional ZString),
      (''comment'', ZOptional ZString),
      (''inboundIds'', ZOptional nullableNumberArray),
      (''traffic'', ZOptional (ZNullable ClientTrafficSchema)),
      (''createdAt'', ZOptional (ZNumber [])),
      (''updatedAt'', ZOptional (ZNumber []))]"

definition InboundOptionSchema :: zschema where [schema_defs]:
  "InboundOptionSchema = ZLoose
     [(''id'', ZNumber []),
      (''nodeId'', ZOptional (ZNullable (ZNumber []))),
      (''remark'', ZOptional ZString),
      (''tag'', ZOptional ZString),
      (''protocol'', ZOptional ZString),
      (''port'', ZOptional (ZNumber [])),
      (''tlsFlowCapable'', ZOptional ZBoolean)]"

definition InboundOptionsSchema :: zschema where [schema_defs]:
  "InboundOptionsSchema = ZArray AnyLen InboundOptionSchema"

definition ClientsSummarySchema :: zschema where [schema_defs]:
  "ClientsSummarySchema = ZObject
     [(''total'', ZNumber []),
      (''active'', ZNumber []),
      (''online'', nullableStringArray),
      (''depleted'', nullableStringArray),
      (''expiring'', nullableStringArray),
      (''deactive'', nullableStringArray)]"

definition ClientPageResponseSchema :: zschema where [schema_defs]:
  "ClientPageResponseSchema = ZObject
     [(''items'', ZOrElse (ZNullable (ZArray AnyLen ClientSlimSchema)) (JArr [])),
      (''total'', ZNumber []),
      (''filtered'', ZNumber []),
      (''page'', ZNumber []),
      (''pageSize'', ZNumber []),
      (''summary'', ZOptional (ZNullable ClientsSummarySchema)),
      (''groups'', ZOptional nullableStringArray)]"

definition ClientHydrateSchema :: zschema where [schema_defs]:
  "ClientHydrateSchema = ZObject
     [(''client'', ClientRecordSchema),
      (''inboundIds'', nullableNumberArray)]"

definition BulkAdjustResultSchema :: zschema where [schema_defs]:
  "BulkAdjustResultSchema = ZObject
     [(''adjusted'', ZNumber []),
      (''skipped'', ZOptional (ZArray AnyLen (ZObject
         [(''email'', ZString),
          (''reason'', ZString)])))]"

definition BulkDeleteResultSchema :: zschema where [schema_defs]:
  "BulkDeleteResultSchema = ZObject
     [(''deleted'', ZNumber []),
      (''skipped'', ZOptional (ZArray AnyLen (ZObject
         [(''email'', ZString),
          (''reason'', ZString)])))]"

definition BulkCreateResultSchema :: zschema where [schema_defs]:
  "BulkCreateResultSchema = ZObject
     [(''created'', ZNumber []),
      (''skipped'', ZOptional (ZArray AnyLen (ZObject
         [(''email'', ZString),
          (''reason'', ZString)])))]"

definition DelDepletedResultSchema :: zschema where [schema_defs]:
  "DelDepletedResultSchema = ZObject
     [(''deleted'', ZOptional (ZNumber []))]"

definition BulkAttachResultSchema :: zschema where [schema_defs]:
  "BulkAttachResultSchema = ZObject
     [(''attached'', ZOrElse (ZNullable (ZArray AnyLen ZString)) (JArr [])),
      (''skipped'', ZOrElse (ZNullable (ZArray AnyLen ZString)) (JArr [])),
      (''errors'', ZOrElse (ZNullable (ZArray AnyLen ZString)) (JArr []))]"

definition BulkDetachResultSchema :: zschema where [schema_defs]:
  "BulkDetachResultSchema = ZObject
     [(''detached'', ZOrElse (ZNullable (ZArray AnyLen ZString)) (JArr [])),
      (''skipped'', ZOrElse (ZNullable (ZArray AnyLen ZString)) (JArr [])),
      (''errors'', ZOrElse (ZNullable (ZArray AnyLen ZString)) (JArr []))]"

definition ClientMoveReportSchema :: zschema where [schema_defs]:
  "ClientMoveReportSchema = ZObject
     [(''email'', ZString),
      (''reason'', ZString)]"

definition ClientMoveResultSchema :: zschema where [schema_defs]:
  "ClientMoveResultSchema = ZObject
     [(''moved'', ZOrElse (ZNullable (ZArray AnyLen ZString)) (JArr [])),
      (''skipped'', ZOrElse (ZNullable (ZArray AnyLen ClientMoveReportSchema)) (JArr [])),
      (''errors'', ZOrElse (ZNullable (ZArray AnyLen ClientMoveReportSchema)) (JArr []))]"

definition OnlinesSchema :: zschema where [schema_defs]:
  "OnlinesSchema = nullableStringArray"

definition OnlineByNodeSchema :: zschema where [schema_defs]:
  "OnlineByNodeSchema = ZOrElse (ZNullable (ZRecord nullableStringArray)) (JObj [])"

definition ActiveInboundsByNodeSchema :: zschema where [schema_defs]:
  "ActiveInboundsByNodeSchema = ZOrElse (ZNullable (ZRecord nullableStringArray)) (JObj [])"

definition GroupSummarySchema :: zschema where [schema_defs]:
  "GroupSummarySchema = ZObject
     [(''name'', ZString),
      (''clientCount'', ZNumber [])]"

definition GroupSummaryListSchema :: zschema where [schema_defs]:
  "GroupSummaryListSchema = ZOrElse (ZNullable (ZArray AnyLen GroupSummarySchema)) (JArr [])"

definition ClientFormSchema :: zschema where [schema_defs]:
  "ClientFormSchema = ZObject
     [(''email'', ZText [TTrim, TNonEmpty, TClientChars]),
      (''subId'', ZText [TClientChars]),
      (''uuid'', ZString),
      (''password'', ZString),
      (''auth'', ZString),
      (''flow'', ZString),
      (''security'', ZString),
      (''reverseTag'', ZString),
      (''totalGB'', ZNumber [CMin 0]),
      (''delayedStart'', ZBoolean),
      (''delayedDays'', ZInt [CMin 0]),
      (''reset'', ZInt [CMin 0]),
      (''limitIp'', ZInt [CMin 0]),
      (''tgId'', ZInt [CMin 0]),
      (''group'', ZString),
      (''comment'', ZString),
      (''enable'', ZBoolean),
      (''inboundIds'', ZArray AnyLen (ZNumber []))]"

definition ClientCreateFormSchema :: zschema where [schema_defs]:
  "ClientCreateFormSchema = zextend ClientFormSchema [(''inboundIds'', ZArray (MinLen 1) (ZNumber
      []))]"

definition ClientBulkAdjustFormSchema :: zschema where [schema_defs]:
  "ClientBulkAdjustFormSchema = ZRefine SomeAdjustment (ZObject
     [(''addDays'', ZInt []),
      (''addGB'', ZNumber [])])"

definition ClientBulkAddFormSchema :: zschema where [schema_defs]:
  "ClientBulkAddFormSchema = ZObject
     [(''emailMethod'', ZInt [CMin 0, CMax 4]),
      (''firstNum'', ZInt [CMin 1]),
      (''lastNum'', ZInt [CMin 1]),
      (''emailPrefix'', ZString),
      (''emailPostfix'', ZString),
      (''quantity'', ZInt [CMin 1, CMax 100]),
      (''subId'', ZString),
      (''group'', ZString),
      (''comment'', ZString),
      (''flow'', ZString),
      (''limitIp'', ZInt [CMin 0]),
      (''totalGB'', ZNumber [CMin 0]),
      (''expiryTime'', ZNumber []),
      (''reset'', ZInt [CMin 0]),
      (''inboundIds'', ZArray (MinLen 1) (ZNumber []))]"

lemma clients_panel_wf [simp]:
  "zwf u nullableStringArray"
  "zwf u nullableNumberArray"
  "zwf u ClientTrafficSchema"
  "zwf u ClientRecordSchema"
  "zwf u ClientSlimSchema"
  "zwf u InboundOptionSchema"
  "zwf u InboundOptionsSchema"
  "zwf u ClientsSummarySchema"
  "zwf u ClientPageResponseSchema"
  "zwf u ClientHydrateSchema"
  "zwf u BulkAdjustResultSchema"
  "zwf u BulkDeleteResultSchema"
  "zwf u BulkCreateResultSchema"
  "zwf u DelDepletedResultSchema"
  "zwf u BulkAttachResultSchema"
  "zwf u BulkDetachResultSchema"
  "zwf u ClientMoveReportSchema"
  "zwf u ClientMoveResultSchema"
  "zwf u OnlinesSchema"
  "zwf u OnlineByNodeSchema"
  "zwf u ActiveInboundsByNodeSchema"
  "zwf u GroupSummarySchema"
  "zwf u GroupSummaryListSchema"
  "zwf u ClientFormSchema"
  "zwf u ClientCreateFormSchema"
  "zwf u ClientBulkAdjustFormSchema"
  "zwf u ClientBulkAddFormSchema"
  by (simp_all add: schema_defs panel_wf_rules)

lemma clients_panel_free [simp]:
  "zfree nullableStringArray"
  "zfree nullableNumberArray"
  "zfree ClientTrafficSchema"
  "zfree ClientRecordSchema"
  "zfree ClientSlimSchema"
  "zfree InboundOptionSchema"
  "zfree InboundOptionsSchema"
  "zfree ClientsSummarySchema"
  "zfree ClientPageResponseSchema"
  "zfree ClientHydrateSchema"
  "zfree BulkAdjustResultSchema"
  "zfree BulkDeleteResultSchema"
  "zfree BulkCreateResultSchema"
  "zfree DelDepletedResultSchema"
  "zfree BulkAttachResultSchema"
  "zfree BulkDetachResultSchema"
  "zfree ClientMoveReportSchema"
  "zfree ClientMoveResultSchema"
  "zfree OnlinesSchema"
  "zfree OnlineByNodeSchema"
  "zfree ActiveInboundsByNodeSchema"
  "zfree GroupSummarySchema"
  "zfree GroupSummaryListSchema"
  "zfree ClientFormSchema"
  "zfree ClientCreateFormSchema"
  "zfree ClientBulkAdjustFormSchema"
  "zfree ClientBulkAddFormSchema"
  by (simp_all add: schema_defs zpartial_def zextend_def)

section \<open>Nodes\<close>

definition NodeRecordSchema :: zschema where [schema_defs]:
  "NodeRecordSchema = ZLoose
     [(''id'', ZNumber []),
      (''name'', ZOptional ZString),
      (''scheme'', ZOptional ZString),
      (''address'', ZOptional ZString),
      (''port'', ZOptional (ZNumber [])),
      (''basePath'', ZOptional ZString),
      (''apiToken'', ZOptional ZString),
      (''enable'', ZOptional ZBoolean),
      (''status'', ZOptional ZString),
      (''latencyMs'', ZOptional (ZNumber [])),
      (''cpuPct'', ZOptional (ZNumber [])),
      (''memPct'', ZOptional (ZNumber [])),
      (''diskCurrent'', ZOptional (ZNumber [])),
      (''diskTotal'', ZOptional (ZNumber [])),
      (''netUp'', ZOptional (ZNumber [])),
      (''netDown'', ZOptional (ZNumber [])),
      (''xrayVersion'', ZOptional ZString),
      (''panelVersion'', ZOptional ZString),
      (''uptimeSecs'', ZOptional (ZNumber [])),
      (''inboundCount'', ZOptional (ZNumber [])),
      (''clientCount'', ZOptional (ZNumber [])),
      (''onlineCount'', ZOptional (ZNumber [])),
      (''depletedCount'', ZOptional (ZNumber [])),
      (''lastHeartbeat'', ZOptional (ZNumber [])),
      (''lastError'', ZOptional ZString),
      (''allowPrivateAddress'', ZOptional ZBoolean),
      (''tlsVerifyMode'', ZOptional (ZEnum [''verify'', ''skip'', ''pin''])),
      (''pinnedCertSha256'', ZOptional ZString),
      (''group'', ZOptional ZString),
      (''configVersion'', ZOptional (ZNumber []))]"

definition NodeListSchema :: zschema where [schema_defs]:
  "NodeListSchema = ZArray AnyLen NodeRecordSchema"

definition ProbeResultSchema :: zschema where [schema_defs]:
  "ProbeResultSchema = ZLoose
     [(''status'', ZString),
      (''latencyMs'', ZOptional (ZNumber [])),
      (''xrayVersion'', ZOptional ZString),
      (''error'', ZOptional ZString)]"

definition UfwRuleSchema :: zschema where [schema_defs]:
  "UfwRuleSchema = ZLoose
     [(''number'', ZNumber []),
      (''port'', ZString),
      (''protocol'', ZOptional ZString),
      (''action'', ZString),
      (''comment'', ZOptional ZString)]"

definition UfwStatusSchema :: zschema where [schema_defs]:
  "UfwStatusSchema = ZLoose
     [(''active'', ZOptional ZBoolean),
      (''installed'', ZOptional ZBoolean),
      (''rules'', ZArray AnyLen UfwRuleSchema)]"

definition PushConfigResultSchema :: zschema where [schema_defs]:
  "PushConfigResultSchema = ZLoose
     [(''config_version'', ZOptional (ZNumber []))]"

definition PortGroupEntrySchema :: zschema where [schema_defs]:
  "PortGroupEntrySchema = ZLoose
     [(''port'', ZInt [CMin 1, CMax 65535]),
      (''protocol'', ZString),
      (''comment'', ZOptional ZString)]"

definition PortGroupSchema :: zschema where [schema_defs]:
  "PortGroupSchema = ZLoose
     [(''id'', ZNumber []),
      (''name'', ZString),
      (''ports'', ZString),
      (''createdAt'', ZOptional (ZNumber [])),
      (''updatedAt'', ZOptional (ZNumber []))]"

definition PortGroupListSchema :: zschema where [schema_defs]:
  "PortGroupListSchema = ZArray AnyLen PortGroupSchema"

definition NodeBootstrapStepSchema :: zschema where [schema_defs]:
  "NodeBootstrapStepSchema = ZLoose
     [(''name'', ZString),
      (''ok'', ZBoolean),
      (''output'', ZOptional ZString)]"

definition NodeBootstrapResultSchema :: zschema where [schema_defs]:
  "NodeBootstrapResultSchema = ZLoose
     [(''node'', NodeRecordSchema),
      (''steps'', ZArray AnyLen NodeBootstrapStepSchema)]"

definition NodeBootstrapJobSchema :: zschema where [schema_defs]:
  "NodeBootstrapJobSchema = ZLoose
     [(''id'', ZString),
      (''state'', ZEnum [''queued'', ''running'', ''done'', ''failed'']),
      (''step'', ZOptional ZString),
      (''error'', ZOptional ZString),
      (''node'', ZOptional NodeRecordSchema),
      (''steps'', ZOptional (ZArray AnyLen NodeBootstrapStepSchema))]"

definition NodeFormSchema :: zschema where [schema_defs]:
  "NodeFormSchema = ZObject
     [(''id'', ZOptional (ZNumber [])),
      (''name'', ZText [TTrim, TNonEmpty]),
      (''scheme'', ZEnum [''http'', ''https'']),
      (''address'', ZText [TTrim, TNonEmpty]),
      (''port'', ZInt [CMin 1, CMax 65535]),
      (''basePath'', ZString),
      (''apiToken'', ZText [TTrim, TNonEmpty]),
      (''enable'', ZBoolean),
      (''allowPrivateAddress'', ZBoolean),
      (''tlsVerifyMode'', ZEnum [''verify'', ''skip'', ''pin'']),
      (''pinnedCertSha256'', ZDefault (ZOptional ZString) (JStr '''')),
      (''group'', ZDefault (ZOptional ZString) (JStr ''''))]"

definition NodeBootstrapFormSchema :: zschema where [schema_defs]:
  "NodeBootstrapFormSchema = ZObject
     [(''name'', ZText [TTrim, TNonEmpty]),
      (''address'', ZText [TTrim, TNonEmpty]),
      (''sshUser'', ZText [TTrim, TNonEmpty]),
      (''sshPassword'', ZNonEmpty),
      (''useTLS'', ZBool_default False),
      (''domain'', ZDefault (ZOptional (ZText [TTrim])) (JStr '''')),
      (''acmeEmail'', ZDefault (ZOptional (ZText [TTrim])) (JStr '''')),
      (''sshPort'', ZInt_default [CMin 1, CMax 65535] 22),
      (''agentPort'', ZPreprocess EmptyToUndef (ZOptional (ZInt [CMin 1, CMax 65535]))),
      (''bootstrapBase'', ZDefault (ZOptional ZString) (JStr ''/''))]"

lemma nodes_panel_wf [simp]:
  "zwf u NodeRecordSchema"
  "zwf u NodeListSchema"
  "zwf u ProbeResultSchema"
  "zwf u UfwRuleSchema"
  "zwf u UfwStatusSchema"
  "zwf u PushConfigResultSchema"
  "zwf u PortGroupEntrySchema"
  "zwf u PortGroupSchema"
  "zwf u PortGroupListSchema"
  "zwf u NodeBootstrapStepSchema"
  "zwf u NodeBootstrapResultSchema"
  "zwf u NodeBootstrapJobSchema"
  "zwf u NodeFormSchema"
  "zwf u NodeBootstrapFormSchema"
  by (simp_all add: schema_defs panel_wf_rules)

lemma nodes_panel_free [simp]:
  "zfree NodeRecordSchema"
  "zfree NodeListSchema"
  "zfree ProbeResultSchema"
  "zfree UfwRuleSchema"
  "zfree UfwStatusSchema"
  "zfree PushConfigResultSchema"
  "zfree PortGroupEntrySchema"
  "zfree PortGroupSchema"
  "zfree PortGroupListSchema"
  "zfree NodeBootstrapStepSchema"
  "zfree NodeBootstrapResultSchema"
  "zfree NodeBootstrapJobSchema"
  "zfree NodeFormSchema"
  "zfree NodeBootstrapFormSchema"
  by (simp_all add: schema_defs zpartial_def zextend_def)

section \<open>Routing and DNS\<close>

definition RuleProtocolSchema :: zschema where [schema_defs]:
  "RuleProtocolSchema = ZEnum [''http'', ''tls'', ''quic'', ''bittorrent'']"

definition PortValueSchema :: zschema where [schema_defs]:
  "PortValueSchema = ZUnion [ZInt [CMin 0, CMax 65535], ZString]"

definition RuleWebhookSchema :: zschema where [schema_defs]:
  "RuleWebhookSchema = ZObject
     [(''url'', ZString),
      (''deduplication'', ZOptional (ZInt [CMin 0])),
      (''headers'', ZOptional (ZRecord ZString))]"

definition RuleObjectSchema :: zschema where [schema_defs]:
  "RuleObjectSchema = ZObject
     [(''type'', ZDefault (ZLiteral (JStr ''field'')) (JStr ''field'')),
      (''domain'', ZOptional (ZArray AnyLen ZString)),
      (''ip'', ZOptional (ZArray AnyLen ZString)),
      (''port'', ZOptional PortValueSchema),
      (''sourcePort'', ZOptional PortValueSchema),
      (''localPort'', ZOptional PortValueSchema),
      (''network'', ZOptional ZString),
      (''sourceIP'', ZOptional (ZArray AnyLen ZString)),
      (''localIP'', ZOptional (ZArray AnyLen ZString)),
      (''user'', ZOptional (ZArray AnyLen ZString)),
      (''vlessRoute'', ZOptional PortValueSchema),
      (''inboundTag'', ZOptional (ZArray AnyLen ZString)),
      (''protocol'', ZOptional (ZArray AnyLen ZString)),
      (''attrs'', ZOptional (ZRecord ZString)),
      (''process'', ZOptional (ZArray AnyLen ZString)),
      (''outboundTag'', ZOptional ZString),
      (''balancerTag'', ZOptional ZString),
      (''ruleTag'', ZOptional ZString),
      (''webhook'', ZOptional RuleWebhookSchema)]"

definition BalancerStrategyTypeSchema :: zschema where [schema_defs]:
  "BalancerStrategyTypeSchema = ZEnum [''random'', ''roundRobin'', ''leastPing'', ''leastLoad'']"

definition BalancerCostObjectSchema :: zschema where [schema_defs]:
  "BalancerCostObjectSchema = ZObject
     [(''regexp'', ZBool_default False),
      (''match'', ZString),
      (''value'', ZNumber [])]"

definition BalancerStrategySettingsSchema :: zschema where [schema_defs]:
  "BalancerStrategySettingsSchema = ZObject
     [(''expected'', ZOptional (ZInt [CMin 0])),
      (''maxRTT'', ZOptional ZString),
      (''tolerance'', ZOptional (ZNumber [CMin 0, CMax 1])),
      (''baselines'', ZOptional (ZArray AnyLen ZString)),
      (''costs'', ZOptional (ZArray AnyLen BalancerCostObjectSchema))]"

definition BalancerStrategySchema :: zschema where [schema_defs]:
  "BalancerStrategySchema = ZObject
     [(''type'', ZDefault BalancerStrategyTypeSchema (JStr ''random'')),
      (''settings'', ZOptional BalancerStrategySettingsSchema)]"

definition BalancerObjectSchema :: zschema where [schema_defs]:
  "BalancerObjectSchema = ZObject
     [(''tag'', ZText [TTrim, TNonEmpty]),
      (''selector'', ZArray (MinLen 1) ZString),
      (''fallbackTag'', ZOptional ZString),
      (''strategy'', ZOptional BalancerStrategySchema)]"

definition DnsQueryStrategySchema :: zschema where [schema_defs]:
  "DnsQueryStrategySchema = ZEnum [''UseIP'', ''UseIPv4'', ''UseIPv6'', ''UseSystem'']"

definition DnsHostValueSchema :: zschema where [schema_defs]:
  "DnsHostValueSchema = ZUnion [ZString, ZArray AnyLen ZString]"

definition DnsHostsSchema :: zschema where [schema_defs]:
  "DnsHostsSchema = ZRecord DnsHostValueSchema"

definition DnsServerObjectInnerSchema :: zschema where [schema_defs]:
  "DnsServerObjectInnerSchema = ZObject
     [(''address'', ZString),
      (''port'', ZDefault PortSchema (JInt 53)),
      (''domains'', ZOptional (ZArray AnyLen ZString)),
      (''expectedIPs'', ZOptional (ZArray AnyLen ZString)),
      (''unexpectedIPs'', ZOptional (ZArray AnyLen ZString)),
      (''skipFallback'', ZOptional ZBoolean),
      (''finalQuery'', ZOptional ZBoolean),
      (''tag'', ZOptional ZString),
      (''clientIP'', ZOptional ZString),
      (''queryStrategy'', ZOptional DnsQueryStrategySchema),
      (''disableCache'', ZOptional ZBoolean),
      (''timeoutMs'', ZInt_default [CMin 0] 4000),
      (''serveStale'', ZOptional ZBoolean),
      (''serveExpiredTTL'', ZOptional (ZInt [CMin 0]))]"

definition DnsServerObjectSchema :: zschema where [schema_defs]:
  "DnsServerObjectSchema = ZPreprocess ExpectIPs DnsServerObjectInnerSchema"

definition DnsServerEntrySchema :: zschema where [schema_defs]:
  "DnsServerEntrySchema = ZUnion [ZString, DnsServerObjectSchema]"

definition DnsObjectSchema :: zschema where [schema_defs]:
  "DnsObjectSchema = ZObject
     [(''tag'', ZOptional ZString),
      (''hosts'', ZOptional DnsHostsSchema),
      (''servers'', ZOptional (ZArray AnyLen DnsServerEntrySchema)),
      (''clientIp'', ZOptional ZString),
      (''queryStrategy'', ZDefault DnsQueryStrategySchema (JStr ''UseIP'')),
      (''disableCache'', ZBool_default False),
      (''disableFallback'', ZBool_default False),
      (''disableFallbackIfMatch'', ZBool_default False),
      (''enableParallelQuery'', ZBool_default False),
      (''useSystemHosts'', ZBool_default False),
      (''serveStale'', ZBool_default False),
      (''serveExpiredTTL'', ZInt_default [CMin 0] 0)]"

lemma routing_panel_wf [simp]:
  "zwf u RuleProtocolSchema"
  "zwf u PortValueSchema"
  "zwf u RuleWebhookSchema"
  "zwf u RuleObjectSchema"
  "zwf u BalancerStrategyTypeSchema"
  "zwf u BalancerCostObjectSchema"
  "zwf u BalancerStrategySettingsSchema"
  "zwf u BalancerStrategySchema"
  "zwf u BalancerObjectSchema"
  "zwf u DnsQueryStrategySchema"
  "zwf u DnsHostValueSchema"
  "zwf u DnsHostsSchema"
  "zwf u DnsServerObjectInnerSchema"
  "zwf u DnsServerObjectSchema"
  "zwf u DnsServerEntrySchema"
  "zwf u DnsObjectSchema"
  by (simp_all add: schema_defs panel_wf_rules)

lemma routing_panel_free [simp]:
  "zfree RuleProtocolSchema"
  "zfree PortValueSchema"
  "zfree RuleWebhookSchema"
  "zfree RuleObjectSchema"
  "zfree BalancerStrategyTypeSchema"
  "zfree BalancerCostObjectSchema"
  "zfree BalancerStrategySettingsSchema"
  "zfree BalancerStrategySchema"
  "zfree BalancerObjectSchema"
  "zfree DnsQueryStrategySchema"
  "zfree DnsHostValueSchema"
  "zfree DnsHostsSchema"
  "zfree DnsServerObjectInnerSchema"
  "zfree DnsServerObjectSchema"
  "zfree DnsServerEntrySchema"
  "zfree DnsObjectSchema"
  by (simp_all add: schema_defs zpartial_def zextend_def)

section \<open>Xray configuration\<close>

definition XraySettingsValueSchema :: zschema where [schema_defs]:
  "XraySettingsValueSchema = ZLoose
     [(''inbounds'', ZOptional (ZArray AnyLen ZUnknown)),
      (''outbounds'', ZOptional (ZArray AnyLen (ZLoose
         [(''tag'', ZOptional ZString),
          (''protocol'', ZOptional ZString),
          (''settings'', ZOptional ZUnknown),
          (''streamSettings'', ZOptional ZUnknown)]))),
      (''routing'', ZOptional (ZLoose
         [(''rules'', ZOptional (ZArray AnyLen RuleObjectSchema)),
          (''balancers'', ZOptional (ZArray AnyLen BalancerObjectSchema)),
          (''domainStrategy'', ZOptional ZString)])),
      (''dns'', ZOptional DnsObjectSchema),
      (''log'', ZOptional (ZRecord ZUnknown)),
      (''policy'', ZOptional (ZLoose
         [(''system'', ZOptional (ZRecord ZBoolean)),
          (''levels'', ZOptional (ZRecord (ZRecord ZUnknown)))])),
      (''observatory'', ZOptional ZUnknown),
      (''burstObservatory'', ZOptional ZUnknown),
      (''fakedns'', ZOptional ZUnknown)]"

definition XrayConfigPayloadSchema :: zschema where [schema_defs]:
  "XrayConfigPayloadSchema = ZLoose
     [(''xraySetting'', XraySettingsValueSchema),
      (''inboundTags'', ZOptional (ZArray AnyLen ZString)),
      (''clientReverseTags'', ZOptional (ZArray AnyLen ZString)),
      (''outboundTestUrl'', ZOptional ZString)]"

definition OutboundTrafficRowSchema :: zschema where [schema_defs]:
  "OutboundTrafficRowSchema = ZObject
     [(''tag'', ZString),
      (''up'', ZNumber []),
      (''down'', ZNumber [])]"

definition OutboundTrafficListSchema :: zschema where [schema_defs]:
  "OutboundTrafficListSchema = ZArray AnyLen OutboundTrafficRowSchema"

definition OutboundTestResultSchema :: zschema where [schema_defs]:
  "OutboundTestResultSchema = ZLoose
     [(''success'', ZBoolean),
      (''delay'', ZOptional (ZNumber [])),
      (''error'', ZOptional ZString),
      (''mode'', ZOptional ZString),
      (''endpoints'', ZOptional (ZArray AnyLen (ZLoose
         [(''address'', ZString),
          (''delay'', ZOptional (ZNumber [])),
          (''success'', ZBoolean),
          (''error'', ZOptional ZString)])))]"

definition RuleFormSchema :: zschema where [schema_defs]:
  "RuleFormSchema = ZObject
     [(''domain'', ZString),
      (''ip'', ZString),
      (''port'', ZString),
      (''sourcePort'', ZString),
      (''vlessRoute'', ZString),
      (''network'', ZString),
      (''sourceIP'', ZString),
      (''user'', ZString),
      (''inboundTag'', ZArray AnyLen ZString),
      (''protocol'', ZArray AnyLen ZString),
      (''attrs'', ZArray AnyLen (ZTuple [ZString, ZString])),
      (''outboundTag'', ZString),
      (''balancerTag'', ZString)]"

definition BalancerFormSchema :: zschema where [schema_defs]:
  "BalancerFormSchema = ZObject
     [(''tag'', ZText [TTrim, TNonEmpty]),
      (''strategy'', ZDefault BalancerStrategyTypeSchema (JStr ''random'')),
      (''selector'', ZArray (MinLen 1) ZString),
      (''fallbackTag'', ZString_default ''''),
      (''settings'', ZOptional BalancerStrategySettingsSchema)]"

definition OutboundTagSchema :: zschema where [schema_defs]:
  "OutboundTagSchema = ZText [TTrim, TNonEmpty]"

lemma xray_panel_wf [simp]:
  "zwf u XraySettingsValueSchema"
  "zwf u XrayConfigPayloadSchema"
  "zwf u OutboundTrafficRowSchema"
  "zwf u OutboundTrafficListSchema"
  "zwf u OutboundTestResultSchema"
  "zwf u RuleFormSchema"
  "zwf u BalancerFormSchema"
  "zwf u OutboundTagSchema"
  by (simp_all add: schema_defs panel_wf_rules)

lemma xray_panel_free [simp]:
  "zfree XraySettingsValueSchema"
  "zfree XrayConfigPayloadSchema"
  "zfree OutboundTrafficRowSchema"
  "zfree OutboundTrafficListSchema"
  "zfree OutboundTestResultSchema"
  "zfree RuleFormSchema"
  "zfree BalancerFormSchema"
  "zfree OutboundTagSchema"
  by (simp_all add: schema_defs zpartial_def zextend_def)

section \<open>Panel settings\<close>

definition port :: zschema where [schema_defs]:
  "port = ZInt [CMin 1, CMax 65535]"

definition nonNegativeInt :: zschema where [schema_defs]:
  "nonNegativeInt = ZInt [CMin 0]"

definition absolutePath :: zschema where [schema_defs]:
  "absolutePath = ZText [TLeadingSlash]"

definition AllSettingSchema :: zschema where [schema_defs]:
  "AllSettingSchema = ZLoose
     [(''webListen'', ZOptional ZString),
      (''webDomain'', ZOptional ZString),
      (''webPort'', ZOptional (ZInt [CMin 1, CMax 65535])),
      (''webCertFile'', ZOptional ZString),
      (''webKeyFile'', ZOptional ZString),
      (''webBasePath'', ZOptional (ZText [TLeadingSlash])),
      (''sessionMaxAge'', ZOptional (ZInt [CMin 1, CMax 525600])),
      (''trustedProxyCIDRs'', ZOptional ZString),
      (''panelProxy'', ZOptional ZString),
      (''pageSize'', ZOptional (ZInt [CMin 0, CMax 1000])),
      (''expireDiff'', ZOptional (ZInt [CMin 0])),
      (''trafficDiff'', ZOptional (ZInt [CMin 0, CMax 100])),
      (''remarkModel'', ZOptional ZString),
      (''datepicker'', ZOptional (ZEnum [''gregorian'', ''jalalian''])),
      (''tgBotEnable'', ZOptional ZBoolean),
      (''tgBotToken'', ZOptional ZString),
      (''tgBotProxy'', ZOptional ZString),
      (''tgBotAPIServer'', ZOptional ZString),
      (''tgBotChatId'', ZOptional ZString),
      (''tgRunTime'', ZOptional ZString),
      (''tgBotBackup'', ZOptional ZBoolean),
      (''tgBotLoginNotify'', ZOptional ZBoolean),
      (''tgCpu'', ZOptional (ZInt [CMin 0, CMax 100])),
      (''tgLang'', ZOptional ZString),
      (''twoFactorEnable'', ZOptional ZBoolean),
      (''twoFactorToken'', ZOptional ZString),
      (''xrayTemplateConfig'', ZOptional ZString),
      (''subEnable'', ZOptional ZBoolean),
      (''subJsonEnable'', ZOptional ZBoolean),
      (''subTitle'', ZOptional ZString),
      (''subSupportUrl'', ZOptional ZString),
      (''subProfileUrl'', ZOptional ZString),
      (''subAnnounce'', ZOptional ZString),
      (''subEnableRouting'', ZOptional ZBoolean),
      (''subRoutingRules'', ZOptional ZString),
      (''subListen'', ZOptional ZString),
      (''subPort'', ZOptional (ZInt [CMin 1, CMax 65535])),
      (''subPath'', ZOptional (ZText [TLeadingSlash])),
      (''subJsonPath'', ZOptional (ZText [TLeadingSlash])),
      (''subClashEnable'', ZOptional ZBoolean),
      (''subClashPath'', ZOptional (ZText [TLeadingSlash])),
      (''subDomain'', ZOptional ZString),
      (''externalTrafficInformEnable'', ZOptional ZBoolean),
      (''externalTrafficInformURI'', ZOptional ZString),
      (''restartXrayOnClientDisable'', ZOptional ZBoolean),
      (''subCertFile'', ZOptional ZString),
      (''subKeyFile'', ZOptional ZString),
      (''subUpdates'', ZOptional (ZInt [CMin 1, CMax 168])),
      (''subEncrypt'', ZOptional ZBoolean),
      (''subShowInfo'', ZOptional ZBoolean),
      (''subEmailInRemark'', ZOptional ZBoolean),
      (''subURI'', ZOptional ZString),
      (''subJsonURI'', ZOptional ZString),
      (''subClashURI'', ZOptional ZString),
      (''subJsonFragment'', ZOptional ZString),
      (''subJsonNoises'', ZOptional ZString),
      (''subJsonMux'', ZOptional ZString),
      (''subJsonRules'', ZOptional ZString),
      (''timeLocation'', ZOptional ZString),
      (''ldapEnable'', ZOptional ZBoolean),
      (''ldapHost'', ZOptional ZString),
      (''ldapPort'', ZOptional (ZInt [CMin 1, CMax 65535])),
      (''ldapUseTLS'', ZOptional ZBoolean),
      (''ldapBindDN'', ZOptional ZString),
      (''ldapPassword'', ZOptional ZString),
      (''ldapBaseDN'', ZOptional ZString),
      (''ldapUserFilter'', ZOptional ZString),
      (''ldapUserAttr'', ZOptional ZString),
      (''ldapVlessField'', ZOptional ZString),
      (''ldapSyncCron'', ZOptional ZString),
      (''ldapFlagField'', ZOptional ZString),
      (''ldapTruthyValues'', ZOptional ZString),
      (''ldapInvertFlag'', ZOptional ZBoolean),
      (''ldapInboundTags'', ZOptional ZString),
      (''ldapAutoCreate'', ZOptional ZBoolean),
      (''ldapAutoDelete'', ZOptional ZBoolean),
      (''ldapDefaultTotalGB'', ZOptional (ZInt [CMin 0])),
      (''ldapDefaultExpiryDays'', ZOptional (ZInt [CMin 0])),
      (''ldapDefaultLimitIP'', ZOptional (ZInt [CMin 0])),
      (''hasTgBotToken'', ZOptional ZBoolean),
      (''hasTwoFactorToken'', ZOptional ZBoolean),
      (''hasLdapPassword'', ZOptional ZBoolean),
      (''hasApiToken'', ZOptional ZBoolean),
      (''hasWarpSecret'', ZOptional ZBoolean),
      (''hasNordSecret'', ZOptional ZBoolean),
      (''nodeCpuThreshold'', ZOptional (ZInt [CMin 0, CMax 100])),
      (''nodeMemThreshold'', ZOptional (ZInt [CMin 0, CMax 100])),
      (''nodeDiskThreshold'', ZOptional (ZInt [CMin 0, CMax 100])),
      (''nodeDownThreshold'', ZOptional (ZInt [CMin 1, CMax 360]))]"

definition DefaultsPayloadSchema :: zschema where [schema_defs]:
  "DefaultsPayloadSchema = ZLoose
     [(''expireDiff'', ZOptional (ZNumber [])),
      (''trafficDiff'', ZOptional (ZNumber [])),
      (''tgBotEnable'', ZOptional ZBoolean),
      (''subEnable'', ZOptional ZBoolean),
      (''subTitle'', ZOptional ZString),
      (''subURI'', ZOptional ZString),
      (''subJsonURI'', ZOptional ZString),
      (''subJsonEnable'', ZOptional ZBoolean),
      (''subClashURI'', ZOptional ZString),
      (''subClashEnable'', ZOptional ZBoolean),
      (''pageSize'', ZOptional (ZNumber [])),
      (''remarkModel'', ZOptional ZString),
      (''datepicker'', ZOptional (ZEnum [''gregorian'', ''jalalian''])),
      (''ipLimitEnable'', ZOptional ZBoolean),
      (''webDomain'', ZOptional ZString),
      (''subDomain'', ZOptional ZString)]"

lemma panel_panel_wf [simp]:
  "zwf u port"
  "zwf u nonNegativeInt"
  "zwf u absolutePath"
  "zwf u AllSettingSchema"
  "zwf u DefaultsPayloadSchema"
  by (simp_all add: schema_defs panel_wf_rules)

lemma panel_panel_free [simp]:
  "zfree port"
  "zfree nonNegativeInt"
  "zfree absolutePath"
  "zfree AllSettingSchema"
  "zfree DefaultsPayloadSchema"
  by (simp_all add: schema_defs zpartial_def zextend_def)

section \<open>Server status\<close>

definition CurTotalInputSchema :: zschema where [schema_defs]:
  "CurTotalInputSchema = ZObject
     [(''current'', ZOptional (ZNumber [])),
      (''total'', ZOptional (ZNumber []))]"

definition NetIOSchema :: zschema where [schema_defs]:
  "NetIOSchema = ZObject
     [(''up'', ZNumber []),
      (''down'', ZNumber [])]"

definition NetTrafficSchema :: zschema where [schema_defs]:
  "NetTrafficSchema = ZObject
     [(''sent'', ZNumber []),
      (''recv'', ZNumber [])]"

definition PublicIPSchema :: zschema where [schema_defs]:
  "PublicIPSchema = ZObject
     [(''ipv4'', ZUnion [ZString, ZNumber []]),
      (''ipv6'', ZUnion [ZString, ZNumber []])]"

definition AppStatsSchema :: zschema where [schema_defs]:
  "AppStatsSchema = ZObject
     [(''threads'', ZNumber []),
      (''mem'', ZNumber []),
      (''uptime'', ZNumber [])]"

definition XrayInfoSchema :: zschema where [schema_defs]:
  "XrayInfoSchema = zpartial (ZObject
     [(''state'', ZString),
      (''errorMsg'', ZString),
      (''version'', ZString),
      (''color'', ZString)])"

definition StatusSchema :: zschema where [schema_defs]:
  "StatusSchema = ZObject
     [(''cpu'', ZOptional (ZNumber [])),
      (''cpuCores'', ZOptional (ZNumber [])),
      (''logicalPro'', ZOptional (ZNumber [])),
      (''cpuSpeedMhz'', ZOptional (ZNumber [])),
      (''disk'', ZOptional CurTotalInputSchema),
      (''loads'', ZOptional (ZArray AnyLen (ZNumber []))),
      (''mem'', ZOptional CurTotalInputSchema),
      (''netIO'', ZOptional NetIOSchema),
      (''netTraffic'', ZOptional NetTrafficSchema),
      (''publicIP'', ZOptional PublicIPSchema),
      (''swap'', ZOptional CurTotalInputSchema),
      (''tcpCount'', ZOptional (ZNumber [])),
      (''udpCount'', ZOptional (ZNumber [])),
      (''uptime'', ZOptional (ZNumber [])),
      (''appUptime'', ZOptional (ZNumber [])),
      (''appStats'', ZOptional AppStatsSchema),
      (''xray'', ZOptional XrayInfoSchema)]"

lemma server_panel_wf [simp]:
  "zwf u CurTotalInputSchema"
  "zwf u NetIOSchema"
  "zwf u NetTrafficSchema"
  "zwf u PublicIPSchema"
  "zwf u AppStatsSchema"
  "zwf u XrayInfoSchema"
  "zwf u StatusSchema"
  by (simp_all add: schema_defs panel_wf_rules)

lemma server_panel_free [simp]:
  "zfree CurTotalInputSchema"
  "zfree NetIOSchema"
  "zfree NetTrafficSchema"
  "zfree PublicIPSchema"
  "zfree AppStatsSchema"
  "zfree XrayInfoSchema"
  "zfree StatusSchema"
  by (simp_all add: schema_defs zpartial_def zextend_def)

section \<open>Inbound lists, users and login\<close>

definition SlimInboundSchema :: zschema where [schema_defs]:
  "SlimInboundSchema = ZLoose
     [(''id'', ZNumber []),
      (''protocol'', ZString)]"

definition SlimInboundListSchema :: zschema where [schema_defs]:
  "SlimInboundListSchema = ZArray AnyLen SlimInboundSchema"

definition InboundDetailSchema :: zschema where [schema_defs]:
  "InboundDetailSchema = ZLoose
     [(''id'', ZNumber []),
      (''protocol'', ZString)]"

definition LastOnlineMapSchema :: zschema where [schema_defs]:
  "LastOnlineMapSchema = ZRecord (ZNumber [])"

definition BasicInboundFormSchema :: zschema where [schema_defs]:
  "BasicInboundFormSchema = ZObject
     [(''remark'', ZString),
      (''enable'', ZBoolean),
      (''userId'', ZOptional (ZNullable (ZInt [CPositive]))),
      (''port'', ZInt [CMin 1, CMax 65535]),
      (''listen'', ZString),
      (''protocol'', ZNonEmpty)]"

definition UserRecordSchema :: zschema where [schema_defs]:
  "UserRecordSchema = ZLoose
     [(''id'', ZNumber []),
      (''username'', ZString)]"

definition UserListSchema :: zschema where [schema_defs]:
  "UserListSchema = ZArray AnyLen UserRecordSchema"

definition LoginFormSchema :: zschema where [schema_defs]:
  "LoginFormSchema = ZObject
     [(''username'', ZNonEmpty),
      (''password'', ZNonEmpty),
      (''twoFactorCode'', ZOptional ZString)]"

definition TwoFactorCodeSchema :: zschema where [schema_defs]:
  "TwoFactorCodeSchema = ZNonEmpty"

definition TotpCodeSchema :: zschema where [schema_defs]:
  "TotpCodeSchema = ZText [TSixDigits]"

lemma inbound_panel_wf [simp]:
  "zwf u SlimInboundSchema"
  "zwf u SlimInboundListSchema"
  "zwf u InboundDetailSchema"
  "zwf u LastOnlineMapSchema"
  "zwf u BasicInboundFormSchema"
  "zwf u UserRecordSchema"
  "zwf u UserListSchema"
  "zwf u LoginFormSchema"
  "zwf u TwoFactorCodeSchema"
  "zwf u TotpCodeSchema"
  by (simp_all add: schema_defs panel_wf_rules)

lemma inbound_panel_free [simp]:
  "zfree SlimInboundSchema"
  "zfree SlimInboundListSchema"
  "zfree InboundDetailSchema"
  "zfree LastOnlineMapSchema"
  "zfree BasicInboundFormSchema"
  "zfree UserRecordSchema"
  "zfree UserListSchema"
  "zfree LoginFormSchema"
  "zfree TwoFactorCodeSchema"
  "zfree TotpCodeSchema"
  by (simp_all add: schema_defs zpartial_def zextend_def)

end
