(* ===== verification/HubCalls.thy ===== *)
theory HubCalls
  imports Bridge ApiProps PanelSchemas
begin

text \<open>
  What the data hooks of the panel share: a call of \<open>HttpUtil\<close>, the test of \<open>success\<close> with
  the error that a query throws, the validation of the answer, and the refresh that a
  successful mutation asks for.  \<open>app\<close> is the state they act on: the HTTP layer of \<open>Api\<close> and
  the query cache with the invalidation tracker of \<open>Bridge\<close>.
\<close>

section \<open>Messages\<close>

text \<open>\<open>msg?.success\<close>, \<open>msg.obj\<close> and \<open>msg.msg\<close>, on envelopes and on other objects.\<close>

definition msg_ok :: "msg \<Rightarrow> bool" where
  "msg_ok m = (case m of Msg success t obj \<Rightarrow> success | Foreign v \<Rightarrow> False)"

definition msg_obj :: "msg \<Rightarrow> js" where
  "msg_obj m = (case m of Msg success t obj \<Rightarrow> obj | Foreign v \<Rightarrow> js_member v ''obj'')"

definition msg_text :: "msg \<Rightarrow> js" where
  "msg_text m = (case m of Msg success t obj \<Rightarrow> JStr t | Foreign v \<Rightarrow> js_member v ''msg'')"

definition thrown :: "js \<Rightarrow> string \<Rightarrow> string" where
  "thrown t fallback = js_string (js_or t (JStr fallback))"

section \<open>The panel and its hub\<close>

record ('h, 's) hub =
  hub_lib :: "('h, 's) lib"
  hub_page :: page_env
  hub_zod :: "zschema \<Rightarrow> js \<Rightarrow> js option"
  plain_headers :: 'h
  json_headers :: 'h

record ('h, 's) app =
  http_layer :: "('h, 's) http_page"
  query_cache :: bridge

definition hub_get :: "('h, 's) hub \<Rightarrow> bool \<Rightarrow> string \<Rightarrow> ('h, 's) app \<Rightarrow> msg option \<times> ('h, 's) app" where
  "hub_get H silent u a =
     (let (m, p) = http_get (hub_lib H) (hub_page H) silent u (plain_headers H) (http_layer a)
      in (m, a\<lparr>http_layer := p\<rparr>))"

definition hub_post ::
  "('h, 's) hub \<Rightarrow> bool \<Rightarrow> string \<Rightarrow> js \<Rightarrow> bool \<Rightarrow> ('h, 's) app \<Rightarrow> msg option \<times> ('h, 's) app" where
  "hub_post H silent u v json a =
     (let (m, p) = http_post (hub_lib H) (hub_page H) silent u v
                     (if json then json_headers H else plain_headers H) (http_layer a)
      in (m, a\<lparr>http_layer := p\<rparr>))"

definition hub_del :: "('h, 's) hub \<Rightarrow> string \<Rightarrow> ('h, 's) app \<Rightarrow> msg option \<times> ('h, 's) app" where
  "hub_del H u a =
     (let (m, p) = http_del (hub_lib H) (hub_page H) False u (plain_headers H) (http_layer a)
      in (m, a\<lparr>http_layer := p\<rparr>))"

section \<open>Queries and mutations\<close>

text \<open>The promise of a query function: never settled, fulfilled, or rejected with an error.\<close>

datatype 'a fetched = Unsettled | Fetched 'a | Failed string

definition fetch_checked ::
  "('h, 's) hub \<Rightarrow> zschema \<Rightarrow> string \<Rightarrow> msg option \<times> ('h, 's) app \<Rightarrow> js fetched \<times> ('h, 's) app" where
  "fetch_checked H schema fallback r =
     (case r of
        (None, a) \<Rightarrow> (Unsettled, a)
      | (Some m, a) \<Rightarrow>
          (if msg_ok m then Fetched (msg_obj (parseMsg (hub_zod H) m schema))
           else Failed (thrown (msg_text m) fallback), a))"

text \<open>\<open>Array.isArray(v) ? v : []\<close>.\<close>

definition array_or_empty :: "js \<Rightarrow> js" where
  "array_or_empty v = (if is_array v then v else JArr [])"

definition map_fetched :: "('a \<Rightarrow> 'b) \<Rightarrow> 'a fetched \<times> 'c \<Rightarrow> 'b fetched \<times> 'c" where
  "map_fetched f r =
     (case r of (Fetched v, a) \<Rightarrow> (Fetched (f v), a) | (Failed e, a) \<Rightarrow> (Failed e, a)
      | (Unsettled, a) \<Rightarrow> (Unsettled, a))"

definition fetch_list where
  "fetch_list H schema fallback r = map_fetched array_or_empty (fetch_checked H schema fallback r)"

text \<open>A mutation: the call, the validation of its answer, and \<open>onSuccess\<close> when it succeeded.\<close>

definition mutate ::
  "(msg \<Rightarrow> msg) \<Rightarrow> ('a \<Rightarrow> 'a) \<Rightarrow> msg option \<times> 'a \<Rightarrow> msg option \<times> 'a" where
  "mutate validate onSuccess r =
     (case r of
        (None, a) \<Rightarrow> (None, a)
      | (Some m, a) \<Rightarrow>
          let m = validate m in (Some m, if msg_ok m then onSuccess a else a))"

definition invalidate_key :: "string list \<Rightarrow> ('h, 's) app \<Rightarrow> ('h, 's) app" where
  "invalidate_key k a = a\<lparr>query_cache := cache_op (Invalidate k) (query_cache a)\<rparr>"

section \<open>What a call does\<close>

lemma hub_cache [simp]:
  "query_cache (snd (hub_get H s u a)) = query_cache a"
  "query_cache (snd (hub_post H s u v j a)) = query_cache a"
  "query_cache (snd (hub_del H u a)) = query_cache a"
  by (simp_all add: hub_get_def hub_post_def hub_del_def case_prod_unfold Let_def)

lemma parseMsg_ok [simp]: "msg_ok (parseMsg P m s) = msg_ok m"
  by (cases m) (auto simp: parseMsg_def msg_ok_def split: option.splits)

lemma array_or_empty_array [simp]: "is_array (array_or_empty v)"
  by (simp add: array_or_empty_def is_array_def)

text \<open>
  Whatever a list query yields is an array: the validated one, the one that was
  received, or the empty one.
\<close>

lemma fetch_list_array: "fst (fetch_list H s e r) = Fetched v \<Longrightarrow> is_array v"
  by (auto simp: fetch_list_def map_fetched_def split: fetched.splits prod.splits)

lemma fetch_checked_Failed:
  "fst (fetch_checked H s e r) = Failed t \<Longrightarrow> e \<noteq> [] \<Longrightarrow> (\<exists>m. fst r = Some m \<and> \<not> msg_ok m)"
  by (auto simp: fetch_checked_def split: option.splits prod.splits if_splits)

text \<open>
  A successful call stores at most one message of the hub: the state of the cache
  changes by \<open>onSuccess\<close> alone, and only for an answer whose \<open>success\<close> is true.
\<close>

lemma mutate_snd:
  assumes "\<And>m. msg_ok (validate m) = msg_ok m"
  shows "snd (mutate validate onSuccess r) =
    (case fst r of Some m \<Rightarrow> if msg_ok m then onSuccess (snd r) else snd r | None \<Rightarrow> snd r)"
proof -
  obtain q a where r: "r = (q, a)" by (cases r)
  show ?thesis using assms by (cases q) (simp_all add: r mutate_def Let_def)
qed

text \<open>A hub that grants every request, for examples.\<close>

definition sample_hub :: "js \<Rightarrow> ((string \<times> string) list, nat) hub" where
  "sample_hub answer =
     \<lparr>hub_lib = sample_lib\<lparr>transport := (\<lambda>n cfg. (Success answer, n))\<rparr>, hub_page = sample_env,
      hub_zod = zparse (\<lambda>s. True), plain_headers = [],
      json_headers = [(''Content-Type'', ''application/json'')]\<rparr>"

definition sample_app :: "((string \<times> string) list, nat) app" where
  "sample_app = \<lparr>http_layer = \<lparr>axios = setupAxios sample_env 0, toasts = []\<rparr>, query_cache = new_bridge\<rparr>"

end
