(* ===== verification/Clients.thy ===== *)
theory Clients
  imports HubCalls WebUrl
begin

text \<open>
  The client list of the panel: \<open>frontend/src/hooks/useClients.ts\<close>.  The live summary
  with its counterpart on the server (\<open>hub/web/service/client.go\<close>), the query string and
  the comparison that decides whether to ask again, the fetch with its fallback, the
  operations on clients, and the merging of traffic events into the list.

  Rows of the socket are JSON values.  The fields the source declares as numbers are read
  by \<open>num_or_0\<close>, that is \<open>v || 0\<close>.
\<close>

section \<open>The live summary\<close>

definition num_or_0 :: "js \<Rightarrow> rat" where
  "num_or_0 v = (case v of JNum (Fin x) \<Rightarrow> x | _ \<Rightarrow> 0)"

record clients_summary =
  sum_total :: rat
  sum_active :: nat
  sum_online :: "string list"
  sum_depleted :: "string list"
  sum_expiring :: "string list"
  sum_deactive :: "string list"

definition DEFAULT_SUMMARY :: clients_summary where
  "DEFAULT_SUMMARY = \<lparr>sum_total = 0, sum_active = 0, sum_online = [], sum_depleted = [],
     sum_expiring = [], sum_deactive = []\<rparr>"

definition row_email :: "js \<Rightarrow> string" where
  "row_email c = (case js_member c ''email'' of JStr e \<Rightarrow> e | _ \<Rightarrow> [])"

definition summary_row :: "rat \<Rightarrow> string set \<Rightarrow> rat \<Rightarrow> rat \<Rightarrow> clients_summary \<Rightarrow> js \<Rightarrow> clients_summary" where
  "summary_row now onlineSet expireDiffMs trafficDiffBytes s c =
     (let email = row_email c
      in if email = [] then s
         else
           let used = num_or_0 (js_member c ''up'') + num_or_0 (js_member c ''down'');
               limit = num_or_0 (js_member c ''total'');
               expiry = num_or_0 (js_member c ''expiryTime'');
               enable = truthy (js_member c ''enable'');
               exhausted = 0 < limit \<and> limit \<le> used;
               expired = 0 < expiry \<and> expiry \<le> now;
               s = (if enable \<and> email \<in> onlineSet then s\<lparr>sum_online := sum_online s @ [email]\<rparr> else s)
           in if exhausted \<or> expired then s\<lparr>sum_depleted := sum_depleted s @ [email]\<rparr>
              else if \<not> enable then s\<lparr>sum_deactive := sum_deactive s @ [email]\<rparr>
              else if (0 < expiry \<and> expiry - now < expireDiffMs) \<or> (0 < limit \<and> limit - used < trafficDiffBytes)
              then s\<lparr>sum_expiring := sum_expiring s @ [email]\<rparr>
              else s\<lparr>sum_active := sum_active s + 1\<rparr>)"

text \<open>Reading a member of a row that is \<open>null\<close> throws: \<open>None\<close>.\<close>

definition computeClientsSummary ::
  "rat \<Rightarrow> js list \<Rightarrow> string set \<Rightarrow> rat \<Rightarrow> rat \<Rightarrow> clients_summary option" where
  "computeClientsSummary now stats onlineSet expireDiffMs trafficDiffBytes =
     (if list_ex nullish stats then None
      else Some ((foldl (summary_row now onlineSet expireDiffMs trafficDiffBytes) DEFAULT_SUMMARY stats)
                   \<lparr>sum_total := of_nat (length stats)\<rparr>))"

definition live_summary ::
  "rat \<Rightarrow> clients_summary option \<Rightarrow> js list \<Rightarrow> string set \<Rightarrow> rat \<Rightarrow> rat \<Rightarrow> clients_summary option" where
  "live_summary now fromServer allClientStats onlines expireDiff trafficDiff =
     (let serverSummary = (case fromServer of None \<Rightarrow> DEFAULT_SUMMARY | Some s \<Rightarrow> s)
      in if allClientStats = [] then Some serverSummary
         else map_option
           (\<lambda>live. live\<lparr>sum_total := if sum_total serverSummary \<noteq> 0 then sum_total serverSummary
                                     else sum_total live\<rparr>)
           (computeClientsSummary now allClientStats onlines expireDiff trafficDiff))"

subsection \<open>The summary of the server\<close>

text \<open>\<open>int64\<close> arithmetic of the server.\<close>

definition wrap64 :: "int \<Rightarrow> int" where
  "wrap64 i = (i + 2 ^ 63) mod 2 ^ 64 - 2 ^ 63"

record client_with_attachments =
  cl_email :: string
  cl_enable :: bool
  cl_totalGB :: int
  cl_expiryTime :: int
  cl_traffic :: "(int \<times> int) option"

definition server_row ::
  "int \<Rightarrow> string set \<Rightarrow> int \<Rightarrow> int \<Rightarrow> clients_summary \<Rightarrow> client_with_attachments \<Rightarrow> clients_summary" where
  "server_row nowMs onlineSet expireDiffMs trafficDiffBytes s c =
     (let used = (case cl_traffic c of None \<Rightarrow> 0 | Some (up, down) \<Rightarrow> wrap64 (up + down));
          exhausted = 0 < cl_totalGB c \<and> cl_totalGB c \<le> used;
          expired = 0 < cl_expiryTime c \<and> cl_expiryTime c \<le> nowMs;
          s = (if cl_enable c \<and> cl_email c \<in> onlineSet
               then s\<lparr>sum_online := sum_online s @ [cl_email c]\<rparr> else s)
      in if exhausted \<or> expired then s\<lparr>sum_depleted := sum_depleted s @ [cl_email c]\<rparr>
         else if \<not> cl_enable c then s\<lparr>sum_deactive := sum_deactive s @ [cl_email c]\<rparr>
         else
           let nearExpiry = 0 < cl_expiryTime c \<and> wrap64 (cl_expiryTime c - nowMs) < expireDiffMs;
               nearLimit = 0 < cl_totalGB c \<and> wrap64 (cl_totalGB c - used) < trafficDiffBytes
           in if nearExpiry \<or> nearLimit then s\<lparr>sum_expiring := sum_expiring s @ [cl_email c]\<rparr>
              else s\<lparr>sum_active := sum_active s + 1\<rparr>)"

definition buildClientsSummary ::
  "client_with_attachments list \<Rightarrow> string set \<Rightarrow> int \<Rightarrow> int \<Rightarrow> int \<Rightarrow> clients_summary" where
  "buildClientsSummary cs onlineSet nowMs expireDiffMs trafficDiffBytes =
     foldl (server_row nowMs onlineSet expireDiffMs trafficDiffBytes)
       (DEFAULT_SUMMARY\<lparr>sum_total := of_nat (length cs)\<rparr>) cs"

section \<open>The query\<close>

record client_query =
  q_page :: rat
  q_pageSize :: rat
  q_search :: "string option"
  q_filter :: "string option"
  q_protocol :: "string option"
  q_inbound :: "string option"
  q_sort :: "string option"
  q_order :: "string option"
  q_expiryFrom :: "rat option"
  q_expiryTo :: "rat option"
  q_usageFrom :: "rat option"
  q_usageTo :: "rat option"
  q_autoRenew :: "string option"
  q_hasTgId :: "string option"
  q_hasComment :: "string option"
  q_group :: "string option"

definition DEFAULT_QUERY :: client_query where
  "DEFAULT_QUERY = \<lparr>q_page = 1, q_pageSize = 25, q_search = None, q_filter = None, q_protocol = None,
     q_inbound = None, q_sort = None, q_order = None, q_expiryFrom = None, q_expiryTo = None,
     q_usageFrom = None, q_usageTo = None, q_autoRenew = None, q_hasTgId = None,
     q_hasComment = None, q_group = None\<rparr>"

text \<open>\<open>if (v) sp.set(k, v)\<close> and \<open>if (x && x > 0) sp.set(k, String(x))\<close>.\<close>

definition set_text :: "string \<Rightarrow> string option \<Rightarrow> params \<Rightarrow> params" where
  "set_text k v sp = (case nonempty v of None \<Rightarrow> sp | Some t \<Rightarrow> params_set k t sp)"

definition set_positive :: "string \<Rightarrow> rat option \<Rightarrow> params \<Rightarrow> params" where
  "set_positive k v sp =
     (case v of Some x \<Rightarrow> if 0 < x then params_set k (num_str (Fin x)) sp else sp | None \<Rightarrow> sp)"

definition or_num :: "rat \<Rightarrow> rat \<Rightarrow> rat" where
  "or_num x d = (if x \<noteq> 0 then x else d)"

definition query_params :: "client_query \<Rightarrow> params" where
  "query_params p =
     (let sp = params_set ''page'' (num_str (Fin (or_num (q_page p) 1))) [];
          sp = params_set ''pageSize'' (num_str (Fin (or_num (q_pageSize p) (q_pageSize DEFAULT_QUERY)))) sp;
          sp = set_text ''search'' (q_search p) sp;
          sp = set_text ''filter'' (q_filter p) sp;
          sp = set_text ''protocol'' (q_protocol p) sp;
          sp = set_text ''inbound'' (q_inbound p) sp;
          sp = set_text ''sort'' (q_sort p) sp;
          sp = set_text ''order'' (q_order p) sp;
          sp = set_positive ''expiryFrom'' (q_expiryFrom p) sp;
          sp = set_positive ''expiryTo'' (q_expiryTo p) sp;
          sp = set_positive ''usageFrom'' (q_usageFrom p) sp;
          sp = set_positive ''usageTo'' (q_usageTo p) sp;
          sp = set_text ''autoRenew'' (q_autoRenew p) sp;
          sp = set_text ''hasTgId'' (q_hasTgId p) sp;
          sp = set_text ''hasComment'' (q_hasComment p) sp
      in set_text ''group'' (q_group p) sp)"

definition buildQS :: "client_query \<Rightarrow> string" where
  "buildQS p = params_serialize (query_params p)"

definition or_empty :: "string option \<Rightarrow> string" where
  "or_empty v = (case v of None \<Rightarrow> [] | Some t \<Rightarrow> t)"

definition or_zero :: "rat option \<Rightarrow> rat" where
  "or_zero v = (case v of None \<Rightarrow> 0 | Some x \<Rightarrow> x)"

definition same_query :: "client_query \<Rightarrow> client_query \<Rightarrow> bool" where
  "same_query p n \<longleftrightarrow>
     q_page p = q_page n \<and> q_pageSize p = q_pageSize n \<and>
     or_empty (q_search p) = or_empty (q_search n) \<and>
     or_empty (q_filter p) = or_empty (q_filter n) \<and>
     or_empty (q_protocol p) = or_empty (q_protocol n) \<and>
     or_empty (q_inbound p) = or_empty (q_inbound n) \<and>
     or_empty (q_sort p) = or_empty (q_sort n) \<and>
     or_empty (q_order p) = or_empty (q_order n) \<and>
     or_zero (q_expiryFrom p) = or_zero (q_expiryFrom n) \<and>
     or_zero (q_expiryTo p) = or_zero (q_expiryTo n) \<and>
     or_zero (q_usageFrom p) = or_zero (q_usageFrom n) \<and>
     or_zero (q_usageTo p) = or_zero (q_usageTo n) \<and>
     or_empty (q_autoRenew p) = or_empty (q_autoRenew n) \<and>
     or_empty (q_hasTgId p) = or_empty (q_hasTgId n) \<and>
     or_empty (q_hasComment p) = or_empty (q_hasComment n) \<and>
     or_empty (q_group p) = or_empty (q_group n)"

definition setQuery :: "client_query \<Rightarrow> client_query \<Rightarrow> client_query" where
  "setQuery next prev = (if same_query prev next then prev else next)"

section \<open>Fetching\<close>

text \<open>The page of clients, and the whole list when the paged route does not answer.\<close>

definition js_length :: "js \<Rightarrow> js" where
  "js_length v = (case v of JArr xs \<Rightarrow> JInt (int (length xs)) | JStr t \<Rightarrow> JInt (int (length t))
     | _ \<Rightarrow> js_member v ''length'')"

definition fallback_page :: "client_query \<Rightarrow> js \<Rightarrow> js" where
  "fallback_page params items =
     JObj [(''items'', items), (''total'', js_length items), (''filtered'', js_length items),
       (''page'', JNum (Fin (if 0 < q_page params then q_page params else 1))),
       (''pageSize'', JNum (Fin (if 0 < q_pageSize params then q_pageSize params
                                 else q_pageSize DEFAULT_QUERY))),
       (''summary'', JObj [(''total'', JInt 0), (''active'', JInt 0), (''online'', JArr []),
          (''depleted'', JArr []), (''expiring'', JArr []), (''deactive'', JArr [])]),
       (''groups'', JArr [])]"

definition ClientRecordListSchema :: zschema where
  "ClientRecordListSchema = ZOrElse (ZNullable (ZArray AnyLen ClientRecordSchema)) (JArr [])"

definition fetchClientPage ::
  "('h, 's) hub \<Rightarrow> client_query \<Rightarrow> ('h, 's) app \<Rightarrow> js fetched \<times> ('h, 's) app" where
  "fetchClientPage H params a =
     (case hub_get H True (''/panel/api/clients/list/paged?'' @ buildQS params) a of
        (None, a) \<Rightarrow> (Unsettled, a)
      | (Some pagedMsg, a) \<Rightarrow>
          let validated = msg_obj (parseMsg (hub_zod H) pagedMsg ClientPageResponseSchema)
          in if msg_ok pagedMsg \<and> truthy (msg_obj pagedMsg) \<and> truthy validated then (Fetched validated, a)
             else
               case hub_get H True ''/panel/api/clients/list'' a of
                 (None, a) \<Rightarrow> (Unsettled, a)
               | (Some fallbackMsg, a) \<Rightarrow>
                   if \<not> msg_ok fallbackMsg \<or> \<not> truthy (msg_obj fallbackMsg)
                   then (Failed (thrown (js_or (msg_text pagedMsg) (msg_text fallbackMsg)) ''Failed to fetch clients''), a)
                   else
                     let items = msg_obj (parseMsg (hub_zod H) fallbackMsg ClientRecordListSchema)
                     in (Fetched (fallback_page params (js_or items (JArr []))), a))"

definition fetchInboundOptions :: "('h, 's) hub \<Rightarrow> ('h, 's) app \<Rightarrow> js fetched \<times> ('h, 's) app" where
  "fetchInboundOptions H a =
     fetch_list H InboundOptionsSchema ''Failed to fetch inbound options''
       (hub_get H True ''/panel/api/inbounds/options'' a)"

definition fetchDefaults :: "('h, 's) hub \<Rightarrow> ('h, 's) app \<Rightarrow> js fetched \<times> ('h, 's) app" where
  "fetchDefaults H a =
     map_fetched (\<lambda>v. js_or v (JObj []))
       (fetch_checked H DefaultsPayloadSchema ''Failed to fetch defaults''
         (hub_post H True ''/panel/setting/defaultSettings'' JUndef False a))"

definition fetchOnlines :: "('h, 's) hub \<Rightarrow> ('h, 's) app \<Rightarrow> js fetched \<times> ('h, 's) app" where
  "fetchOnlines H a =
     fetch_list H OnlinesSchema ''Failed to fetch onlines''
       (hub_post H True ''/panel/api/clients/onlines'' JUndef False a)"

record sub_settings =
  sub_enable :: bool
  sub_URI :: js
  sub_JsonURI :: js
  sub_JsonEnable :: bool
  sub_ClashURI :: js
  sub_ClashEnable :: bool

definition subSettings :: "js \<Rightarrow> sub_settings" where
  "subSettings defaults =
     \<lparr>sub_enable = truthy (js_member defaults ''subEnable''),
      sub_URI = js_or (js_member defaults ''subURI'') (JStr []),
      sub_JsonURI = js_or (js_member defaults ''subJsonURI'') (JStr []),
      sub_JsonEnable = truthy (js_member defaults ''subJsonEnable''),
      sub_ClashURI = js_or (js_member defaults ''subClashURI'') (JStr []),
      sub_ClashEnable = truthy (js_member defaults ''subClashEnable'')\<rparr>"

text \<open>Days and gibibytes of the settings, in milliseconds and bytes.\<close>

definition expireDiff :: "js \<Rightarrow> rat" where
  "expireDiff defaults = num_or_0 (js_member defaults ''expireDiff'') * 86400000"

definition trafficDiff :: "js \<Rightarrow> rat" where
  "trafficDiff defaults = num_or_0 (js_member defaults ''trafficDiff'') * 1073741824"

section \<open>Operations\<close>

record ('h, 's) clients_page =
  c_app :: "('h, 's) app"
  c_query :: client_query
  allClientStats :: "js list"
  page_data :: "js option"
  onlines_data :: "js option"

type_synonym ('h, 's) client_act = "('h, 's) clients_page \<Rightarrow> msg option \<times> ('h, 's) clients_page"

definition on_app :: "(('h, 's) app \<Rightarrow> 'b \<times> ('h, 's) app) \<Rightarrow> ('h, 's) clients_page \<Rightarrow> 'b \<times> ('h, 's) clients_page" where
  "on_app f c = (let (r, a) = f (c_app c) in (r, c\<lparr>c_app := a\<rparr>))"

text \<open>\<open>now\<close> is \<open>Date.now()\<close> when the answer arrives.\<close>

definition invalidateAll :: "int \<Rightarrow> ('h, 's) clients_page \<Rightarrow> ('h, 's) clients_page" where
  "invalidateAll now c =
     (let a = c_app c;
          a = a\<lparr>query_cache := markLocalInvalidate now (query_cache a)\<rparr>
      in c\<lparr>allClientStats := [],
           c_app := invalidate_key [''inbounds''] (invalidate_key [''clients''] a)\<rparr>)"

definition client_path :: "string \<Rightarrow> string \<Rightarrow> string" where
  "client_path action email = ''/panel/api/clients/'' @ action @ ''/'' @ encodeURIComponent email"

abbreviation JStrList :: "string list \<Rightarrow> js" where "JStrList xs \<equiv> JArr (map JStr xs)"
abbreviation JIntList :: "int list \<Rightarrow> js" where "JIntList xs \<equiv> JArr (map JInt xs)"

definition client_post :: "('h, 's) hub \<Rightarrow> int \<Rightarrow> string \<Rightarrow> js \<Rightarrow> bool \<Rightarrow> (msg \<Rightarrow> msg) \<Rightarrow> ('h, 's) client_act" where
  "client_post H now u v json validate c =
     mutate validate (invalidateAll now) (on_app (hub_post H False u v json) c)"

definition createMut where
  "createMut H now payload = client_post H now ''/panel/api/clients/add'' payload True id"

definition bulkAddToGroupMut where
  "bulkAddToGroupMut H now emails g =
     client_post H now ''/panel/api/clients/groups/bulkAdd''
       (JObj [(''emails'', JStrList emails), (''group'', JStr g)]) True id"

definition bulkRemoveFromGroupMut where
  "bulkRemoveFromGroupMut H now emails =
     client_post H now ''/panel/api/clients/groups/bulkRemove'' (JObj [(''emails'', JStrList emails)]) True id"

definition updateMut where
  "updateMut H now email client = client_post H now (client_path ''update'' email) client True id"

definition removeMut where
  "removeMut H now email keepTraffic =
     client_post H now
       (if keepTraffic then client_path ''del'' email @ ''?keepTraffic=1'' else client_path ''del'' email)
       JUndef False id"

definition bulkDeleteMut where
  "bulkDeleteMut H now emails keepTraffic =
     client_post H now ''/panel/api/clients/bulkDel''
       (JObj [(''emails'', JStrList emails), (''keepTraffic'', JBool keepTraffic)]) True
       (\<lambda>m. parseMsg (hub_zod H) m BulkDeleteResultSchema)"

definition bulkCreateMut where
  "bulkCreateMut H now payloads =
     client_post H now ''/panel/api/clients/bulkCreate'' (JArr payloads) True
       (\<lambda>m. parseMsg (hub_zod H) m BulkCreateResultSchema)"

definition bulkAdjustMut where
  "bulkAdjustMut H now emails addDays addBytes =
     client_post H now ''/panel/api/clients/bulkAdjust''
       (JObj [(''emails'', JStrList emails), (''addDays'', JNum (Fin addDays)), (''addBytes'', JNum (Fin addBytes))])
       True (\<lambda>m. parseMsg (hub_zod H) m BulkAdjustResultSchema)"

definition attachMut where
  "attachMut H now email inboundIds =
     client_post H now (''/panel/api/clients/'' @ encodeURIComponent email @ ''/attach'')
       (JObj [(''inboundIds'', JIntList inboundIds)]) True id"

definition bulkAttachMut where
  "bulkAttachMut H now emails inboundIds =
     client_post H now ''/panel/api/clients/bulkAttach''
       (JObj [(''emails'', JStrList emails), (''inboundIds'', JIntList inboundIds)]) True
       (\<lambda>m. parseMsg (hub_zod H) m BulkAttachResultSchema)"

definition detachMut where
  "detachMut H now email inboundIds =
     client_post H now (''/panel/api/clients/'' @ encodeURIComponent email @ ''/detach'')
       (JObj [(''inboundIds'', JIntList inboundIds)]) True id"

definition bulkDetachMut where
  "bulkDetachMut H now emails inboundIds =
     client_post H now ''/panel/api/clients/bulkDetach''
       (JObj [(''emails'', JStrList emails), (''inboundIds'', JIntList inboundIds)]) True
       (\<lambda>m. parseMsg (hub_zod H) m BulkDetachResultSchema)"

definition moveMut where
  "moveMut H now email sourceNodeId targetNodeId targetInboundId =
     client_post H now (''/panel/api/clients/'' @ encodeURIComponent email @ ''/move'')
       (JObj [(''sourceNodeId'', JInt sourceNodeId), (''targetNodeId'', JInt targetNodeId),
          (''targetInboundId'', JInt targetInboundId)]) True
       (\<lambda>m. parseMsg (hub_zod H) m ClientMoveResultSchema)"

definition bulkMoveMut where
  "bulkMoveMut H now emails sourceNodeId targetNodeId targetInboundId =
     client_post H now ''/panel/api/clients/bulkMove''
       (JObj [(''emails'', JStrList emails), (''sourceNodeId'', JInt sourceNodeId),
          (''targetNodeId'', JInt targetNodeId), (''targetInboundId'', JInt targetInboundId)]) True
       (\<lambda>m. parseMsg (hub_zod H) m ClientMoveResultSchema)"

definition resetTrafficMut where
  "resetTrafficMut H now email = client_post H now (client_path ''resetTraffic'' email) JUndef False id"

definition resetAllTrafficsMut where
  "resetAllTrafficsMut H now = client_post H now ''/panel/api/clients/resetAllTraffics'' JUndef False id"

definition delDepletedMut where
  "delDepletedMut H now =
     client_post H now ''/panel/api/clients/delDepleted'' JUndef False
       (\<lambda>m. parseMsg (hub_zod H) m DelDepletedResultSchema)"

text \<open>
  The operations as the page calls them: without an email or with an empty selection
  they resolve to \<open>null\<close> and send nothing.
\<close>

datatype called = Skipped | Called "msg option"

definition unless :: "bool \<Rightarrow> ('h, 's) client_act \<Rightarrow> ('h, 's) clients_page \<Rightarrow> called \<times> ('h, 's) clients_page" where
  "unless b f c = (if b then (Skipped, c) else (let (m, c) = f c in (Called m, c)))"

definition create where "create H now payload = unless False (createMut H now payload)"
definition update where "update H now email client = unless (email = []) (updateMut H now email client)"
definition remove where
  "remove H now email keepTraffic = unless (email = []) (removeMut H now email keepTraffic)"
definition bulkDelete where
  "bulkDelete H now emails keepTraffic = unless (emails = []) (bulkDeleteMut H now emails keepTraffic)"
definition bulkCreate where
  "bulkCreate H now payloads = unless (payloads = []) (bulkCreateMut H now payloads)"
definition bulkAdjust where
  "bulkAdjust H now emails addDays addBytes = unless (emails = []) (bulkAdjustMut H now emails addDays addBytes)"
definition bulkAddToGroup where
  "bulkAddToGroup H now emails g = unless (emails = []) (bulkAddToGroupMut H now emails g)"
definition bulkRemoveFromGroup where
  "bulkRemoveFromGroup H now emails = unless (emails = []) (bulkRemoveFromGroupMut H now emails)"
definition attach where
  "attach H now email inboundIds = unless (email = []) (attachMut H now email inboundIds)"
definition bulkAttach where
  "bulkAttach H now emails inboundIds =
     unless (emails = [] \<or> inboundIds = []) (bulkAttachMut H now emails inboundIds)"
definition detach where
  "detach H now email inboundIds = unless (email = []) (detachMut H now email inboundIds)"
definition bulkDetach where
  "bulkDetach H now emails inboundIds =
     unless (emails = [] \<or> inboundIds = []) (bulkDetachMut H now emails inboundIds)"
definition move where
  "move H now email source target inbound = unless (email = []) (moveMut H now email source target inbound)"
definition bulkMove where
  "bulkMove H now emails source target inbound =
     unless (emails = []) (bulkMoveMut H now emails source target inbound)"
definition resetTraffic where
  "resetTraffic H now email = unless (email = []) (resetTrafficMut H now email)"

text \<open>The operations as one type.\<close>

datatype client_op =
    Create js
  | Update string js
  | Remove string bool
  | BulkDelete "string list" bool
  | BulkCreate "js list"
  | BulkAdjust "string list" rat rat
  | BulkAddToGroup "string list" string
  | BulkRemoveFromGroup "string list"
  | Attach string "int list"
  | BulkAttach "string list" "int list"
  | Detach string "int list"
  | BulkDetach "string list" "int list"
  | Move string int int int
  | BulkMove "string list" int int int
  | ResetTraffic string
  | ResetAllTraffics
  | DelDepleted

fun run_op :: "('h, 's) hub \<Rightarrow> int \<Rightarrow> client_op \<Rightarrow> ('h, 's) clients_page \<Rightarrow> called \<times> ('h, 's) clients_page" where
  "run_op H now (Create payload) = create H now payload"
| "run_op H now (Update email client) = update H now email client"
| "run_op H now (Remove email keepTraffic) = remove H now email keepTraffic"
| "run_op H now (BulkDelete emails keepTraffic) = bulkDelete H now emails keepTraffic"
| "run_op H now (BulkCreate payloads) = bulkCreate H now payloads"
| "run_op H now (BulkAdjust emails addDays addBytes) = bulkAdjust H now emails addDays addBytes"
| "run_op H now (BulkAddToGroup emails g) = bulkAddToGroup H now emails g"
| "run_op H now (BulkRemoveFromGroup emails) = bulkRemoveFromGroup H now emails"
| "run_op H now (Attach email ids) = attach H now email ids"
| "run_op H now (BulkAttach emails ids) = bulkAttach H now emails ids"
| "run_op H now (Detach email ids) = detach H now email ids"
| "run_op H now (BulkDetach emails ids) = bulkDetach H now emails ids"
| "run_op H now (Move email source target inbound) = move H now email source target inbound"
| "run_op H now (BulkMove emails source target inbound) = bulkMove H now emails source target inbound"
| "run_op H now (ResetTraffic email) = resetTraffic H now email"
| "run_op H now ResetAllTraffics = unless False (resetAllTrafficsMut H now)"
| "run_op H now DelDepleted = unless False (delDepletedMut H now)"

text \<open>The full record of a client, and the switch that sends all of it back.\<close>

definition hydrate :: "('h, 's) hub \<Rightarrow> string \<Rightarrow> ('h, 's) app \<Rightarrow> js fetched \<times> ('h, 's) app" where
  "hydrate H email a =
     (if email = [] then (Fetched JNull, a)
      else
        case hub_get H False (client_path ''get'' email) a of
          (None, a) \<Rightarrow> (Unsettled, a)
        | (Some m, a) \<Rightarrow>
            (Fetched (if \<not> msg_ok m \<or> \<not> truthy (msg_obj m) then JNull
                      else msg_obj (parseMsg (hub_zod H) m ClientHydrateSchema)), a))"

definition num_or_zero :: "js \<Rightarrow> js" where
  "num_or_zero v = js_or (JNum (js_number v)) (JInt 0)"

definition enable_payload :: "js \<Rightarrow> bool \<Rightarrow> obj" where
  "enable_payload base enable =
     [(''email'', js_member base ''email''), (''subId'', js_member base ''subId''),
      (''id'', js_member base ''uuid''), (''password'', js_member base ''password''),
      (''auth'', js_member base ''auth''), (''flow'', js_or (js_member base ''flow'') (JStr [])),
      (''security'', js_or (js_member base ''security'') (JStr ''auto'')),
      (''totalGB'', js_or (js_member base ''totalGB'') (JInt 0)),
      (''expiryTime'', js_or (js_member base ''expiryTime'') (JInt 0)),
      (''limitIp'', js_or (js_member base ''limitIp'') (JInt 0)),
      (''tgId'', num_or_zero (js_member base ''tgId'')),
      (''reset'', num_or_zero (js_member base ''reset'')),
      (''group'', js_or (js_member base ''group'') (JStr [])),
      (''comment'', js_or (js_member base ''comment'') (JStr [])),
      (''enable'', JBool enable)]
     @ (let tag = js_member (js_member base ''reverse'') ''tag''
        in if truthy tag then [(''reverse'', JObj [(''tag'', tag)])] else [])"

definition setEnable where
  "setEnable H now email enable c =
     (if email = [] then (Skipped, c)
      else
        case on_app (hydrate H email) c of
          (Fetched full, c) \<Rightarrow>
            let base = js_member full ''client''
            in if \<not> truthy base then (Skipped, c)
               else update H now email (JObj (enable_payload base enable)) c
        | (_, c) \<Rightarrow> (Called None, c))"

section \<open>Events of the socket\<close>

definition applyTrafficEvent :: "js \<Rightarrow> ('h, 's) clients_page \<Rightarrow> ('h, 's) clients_page" where
  "applyTrafficEvent payload c =
     (let onlineClients = js_member payload ''onlineClients''
      in if is_array onlineClients then c\<lparr>onlines_data := Some onlineClients\<rparr> else c)"

definition is_num :: "js \<Rightarrow> bool" where
  "is_num v = (case v of JNum n \<Rightarrow> True | _ \<Rightarrow> False)"

definition copy_if :: "(js \<Rightarrow> bool) \<Rightarrow> js \<Rightarrow> string \<Rightarrow> obj \<Rightarrow> obj" where
  "copy_if p upd k t = (if p (js_member upd k) then js_put k (js_member upd k) t else t)"

definition merge_traffic :: "js \<Rightarrow> obj \<Rightarrow> obj" where
  "merge_traffic upd t =
     copy_if is_num upd ''lastOnline''
      (copy_if is_bool upd ''enable''
      (copy_if is_num upd ''expiryTime''
      (copy_if is_num upd ''total''
      (copy_if is_num upd ''down''
      (copy_if is_num upd ''up'' t)))))"

text \<open>\<open>byEmail\<close>: the last row of an email counts.\<close>

definition by_email :: "js list \<Rightarrow> string \<Rightarrow> js option" where
  "by_email rows e = (if e = [] then None else find (\<lambda>r. row_email r = e) (rev rows))"

definition merge_row :: "js list \<Rightarrow> js \<Rightarrow> js" where
  "merge_row rows row =
     (case by_email rows (row_email row) of
        None \<Rightarrow> row
      | Some upd \<Rightarrow>
          JObj (js_put ''traffic'' (JObj (merge_traffic upd (js_members (js_member row ''traffic''))))
            (js_members row)))"

definition merge_page :: "js list \<Rightarrow> js \<Rightarrow> js" where
  "merge_page rows prev =
     (case js_member prev ''items'' of
        JArr items \<Rightarrow>
          if list_ex (\<lambda>r. by_email rows (row_email r) \<noteq> None) items
          then JObj (js_put ''items'' (JArr (map (merge_row rows) items)) (js_members prev))
          else prev
      | _ \<Rightarrow> prev)"

definition applyClientStatsEvent :: "js \<Rightarrow> ('h, 's) clients_page \<Rightarrow> ('h, 's) clients_page" where
  "applyClientStatsEvent payload c =
     (case js_member payload ''clients'' of
        JArr rows \<Rightarrow>
          if rows = [] then c
          else c\<lparr>allClientStats := rows, page_data := map_option (merge_page rows) (page_data c)\<rparr>
      | _ \<Rightarrow> c)"

end
