(* ===== verification/ClientsProps.thy ===== *)
theory ClientsProps
  imports Clients
begin

text \<open>
  Theorems on the client list: the live summary is a partition of the clients and agrees
  with the summary of the server; the comparison of queries never drops a request that
  would differ; what the operations do to the caches; what a traffic event changes.
\<close>

section \<open>The live summary\<close>

datatype client_state = Depleted | Deactive | Expiring | Active

definition client_state :: "rat \<Rightarrow> rat \<Rightarrow> rat \<Rightarrow> rat \<Rightarrow> rat \<Rightarrow> rat \<Rightarrow> bool \<Rightarrow> client_state" where
  "client_state now expireDiffMs trafficDiffBytes used limit expiry enable =
     (if (0 < limit \<and> limit \<le> used) \<or> (0 < expiry \<and> expiry \<le> now) then Depleted
      else if \<not> enable then Deactive
      else if (0 < expiry \<and> expiry - now < expireDiffMs) \<or> (0 < limit \<and> limit - used < trafficDiffBytes)
      then Expiring else Active)"

definition put_state :: "string set \<Rightarrow> string \<Rightarrow> bool \<Rightarrow> client_state \<Rightarrow> clients_summary \<Rightarrow> clients_summary" where
  "put_state onlineSet email enable st s =
     (let s = (if enable \<and> email \<in> onlineSet then s\<lparr>sum_online := sum_online s @ [email]\<rparr> else s)
      in case st of
           Depleted \<Rightarrow> s\<lparr>sum_depleted := sum_depleted s @ [email]\<rparr>
         | Deactive \<Rightarrow> s\<lparr>sum_deactive := sum_deactive s @ [email]\<rparr>
         | Expiring \<Rightarrow> s\<lparr>sum_expiring := sum_expiring s @ [email]\<rparr>
         | Active \<Rightarrow> s\<lparr>sum_active := sum_active s + 1\<rparr>)"

definition row_state :: "rat \<Rightarrow> rat \<Rightarrow> rat \<Rightarrow> js \<Rightarrow> client_state" where
  "row_state now d t c =
     client_state now d t (num_or_0 (js_member c ''up'') + num_or_0 (js_member c ''down''))
       (num_or_0 (js_member c ''total'')) (num_or_0 (js_member c ''expiryTime''))
       (truthy (js_member c ''enable''))"

lemma summary_row_state:
  "summary_row now os d t s c =
     (if row_email c = [] then s
      else put_state os (row_email c) (truthy (js_member c ''enable'')) (row_state now d t c) s)"
  by (simp add: summary_row_def put_state_def row_state_def client_state_def Let_def)

definition in_state where
  "in_state now d t st c \<longleftrightarrow> row_email c \<noteq> [] \<and> row_state now d t c = st"

lemma put_state_sels:
  "sum_depleted (put_state os e en st s) = sum_depleted s @ (if st = Depleted then [e] else [])"
  "sum_deactive (put_state os e en st s) = sum_deactive s @ (if st = Deactive then [e] else [])"
  "sum_expiring (put_state os e en st s) = sum_expiring s @ (if st = Expiring then [e] else [])"
  "sum_active (put_state os e en st s) = sum_active s + (if st = Active then 1 else 0)"
  "sum_online (put_state os e en st s) = sum_online s @ (if en \<and> e \<in> os then [e] else [])"
  by (cases st; simp add: put_state_def Let_def)+

lemma summary_fold:
  fixes s :: clients_summary and now d t :: rat
  shows "sum_depleted (foldl (summary_row now os d t) s cs) = sum_depleted s @ map row_email (filter (in_state now d t Depleted) cs)"
    and "sum_deactive (foldl (summary_row now os d t) s cs) = sum_deactive s @ map row_email (filter (in_state now d t Deactive) cs)"
    and "sum_expiring (foldl (summary_row now os d t) s cs) = sum_expiring s @ map row_email (filter (in_state now d t Expiring) cs)"
    and "sum_active (foldl (summary_row now os d t) s cs) = sum_active s + length (filter (in_state now d t Active) cs)"
    and "sum_online (foldl (summary_row now os d t) s cs) = sum_online s @ filter (\<lambda>e. e \<in> os)
          (map row_email (filter (\<lambda>c. row_email c \<noteq> [] \<and> truthy (js_member c ''enable'')) cs))"
  by (induction cs arbitrary: s) (simp_all add: summary_row_state put_state_sels in_state_def)

lemma states_cover:
  "length (filter (in_state now d t Depleted) cs) + length (filter (in_state now d t Deactive) cs) +
   length (filter (in_state now d t Expiring) cs) + length (filter (in_state now d t Active) cs) =
   length (filter (\<lambda>c. row_email c \<noteq> []) cs)"
proof (induction cs)
  case (Cons c cs)
  then show ?case by (cases "row_state now d t c") (auto simp: in_state_def)
qed simp

text \<open>The live summary sorts the clients into four groups: the depleted, the deactivated and the
  expiring ones are listed in the order of the rows and the active ones counted, each row
  with an email falls into exactly one group, and only enabled clients are online.\<close>

theorem summary_partition:
  assumes "computeClientsSummary now stats onlineSet d t = Some s"
  shows "sum_depleted s = map row_email (filter (in_state now d t Depleted) stats) \<and>
    sum_deactive s = map row_email (filter (in_state now d t Deactive) stats) \<and>
    sum_expiring s = map row_email (filter (in_state now d t Expiring) stats) \<and>
    length (sum_depleted s) + length (sum_deactive s) + length (sum_expiring s) + sum_active s =
      length (filter (\<lambda>c. row_email c \<noteq> []) stats) \<and>
    set (sum_online s) \<subseteq> {row_email c | c. c \<in> set stats \<and> truthy (js_member c ''enable'')} \<inter> onlineSet"
proof -
  have s: "s = (foldl (summary_row now onlineSet d t) DEFAULT_SUMMARY stats)\<lparr>sum_total := of_nat (length stats)\<rparr>"
    using assms by (simp add: computeClientsSummary_def split: if_splits)
  have "set (sum_online s) \<subseteq> {row_email c | c. c \<in> set stats \<and> truthy (js_member c ''enable'')} \<inter> onlineSet"
    by (auto simp: s summary_fold DEFAULT_SUMMARY_def)
  then show ?thesis
    using states_cover [of now d t stats] by (simp add: s summary_fold DEFAULT_SUMMARY_def)
qed

definition sample_row :: "string \<Rightarrow> int \<Rightarrow> js" where
  "sample_row e used = JObj [(''email'', JStr e), (''up'', JInt used), (''total'', JInt 10), (''enable'', JBool True)]"

theorem summary_partition_witness:
  "\<exists>s. computeClientsSummary 0 [sample_row ''a'' 10, sample_row ''b'' 1] {''b''} 0 5 = Some s \<and>
     length (sum_depleted s) + length (sum_deactive s) + length (sum_expiring s) + sum_active s = 2"
proof -
  let ?s = "[sample_row ''a'' 10, sample_row ''b'' 1]"
  obtain s where s: "computeClientsSummary 0 ?s {''b''} 0 5 = Some s"
    by (simp add: computeClientsSummary_def sample_row_def)
  have r: "row_email (sample_row e u) = e" for e u by (simp add: row_email_def sample_row_def js_member_def)
  from summary_partition [OF s]
  have "length (sum_depleted s) + length (sum_deactive s) + length (sum_expiring s) + sum_active s =
    length (filter (\<lambda>c. row_email c \<noteq> []) ?s)" by blast
  with s show ?thesis by (simp add: r)
qed

subsection \<open>The server\<close>

text \<open>
  The row of the \<open>client_stats\<close> event for a client of the server, with the members of
  \<open>xray.ClientTraffic\<close> that the summary reads.  The hub takes the rows of the event from its traffic
  table (\<open>GetAllClientTraffics\<close>): the correspondence below takes limit, expiry and flag of that row
  to be those of the client, and the row of a client without one, which the event leaves out, to be
  one without \<open>up\<close> and \<open>down\<close>.  It is an assumption on the hub's data, not translated code.
\<close>

definition stats_row :: "client_with_attachments \<Rightarrow> js" where
  "stats_row c = JObj
     ([(''email'', JStr (cl_email c)), (''enable'', JBool (cl_enable c)), (''total'', JInt (cl_totalGB c)),
       (''expiryTime'', JInt (cl_expiryTime c))] @
      (case cl_traffic c of None \<Rightarrow> [] | Some (up, down) \<Rightarrow> [(''up'', JInt up), (''down'', JInt down)]))"

text \<open>Numbers that the browser holds exactly: no \<open>int64\<close> of the server wraps around on them.\<close>

definition exact_int :: "int \<Rightarrow> bool" where
  "exact_int i \<longleftrightarrow> \<bar>i\<bar> \<le> 2 ^ 53"

definition exact_client :: "client_with_attachments \<Rightarrow> bool" where
  "exact_client c \<longleftrightarrow> cl_email c \<noteq> [] \<and> exact_int (cl_totalGB c) \<and> exact_int (cl_expiryTime c) \<and>
     (case cl_traffic c of None \<Rightarrow> True | Some (up, down) \<Rightarrow> exact_int up \<and> exact_int down)"

lemma wrap64_id: "\<bar>i\<bar> \<le> 2 ^ 55 \<Longrightarrow> wrap64 i = i"
  by (simp add: wrap64_def abs_le_iff)

lemma stats_row_members [simp]:
  "row_email (stats_row c) = cl_email c"
  "truthy (js_member (stats_row c) ''enable'') = cl_enable c"
  "num_or_0 (js_member (stats_row c) ''total'') = of_int (cl_totalGB c)"
  "num_or_0 (js_member (stats_row c) ''expiryTime'') = of_int (cl_expiryTime c)"
  "\<not> nullish (stats_row c)"
  by (simp_all add: stats_row_def row_email_def js_member_def num_or_0_def)

lemma stats_row_used:
  "num_or_0 (js_member (stats_row c) ''up'') + num_or_0 (js_member (stats_row c) ''down'') =
     of_int (case cl_traffic c of None \<Rightarrow> 0 | Some (up, down) \<Rightarrow> up + down)"
  by (auto simp: stats_row_def js_member_def num_or_0_def split: option.splits prod.splits)

lemma server_row_agrees:
  assumes "exact_client c" "exact_int now"
  shows "server_row now os d t s c = summary_row (of_int now) os (of_int d) (of_int t) s (stats_row c)"
proof -
  let ?u = "case cl_traffic c of None \<Rightarrow> 0 | Some (up, down) \<Rightarrow> up + down"
  have u: "(case cl_traffic c of None \<Rightarrow> 0 | Some (up, down) \<Rightarrow> wrap64 (up + down)) = ?u" "\<bar>?u\<bar> \<le> 2 ^ 54"
    using assms(1) by (auto simp: exact_client_def exact_int_def wrap64_id split: option.splits)
  have w: "wrap64 (cl_expiryTime c - now) = cl_expiryTime c - now" "wrap64 (cl_totalGB c - ?u) = cl_totalGB c - ?u"
    using assms u(2) by (auto simp: exact_client_def exact_int_def abs_le_iff intro!: wrap64_id)
  have e: "cl_email c \<noteq> []" using assms(1) by (simp add: exact_client_def)
  show ?thesis
    unfolding server_row_def summary_row_def u(1) w stats_row_used Let_def
    using e by (simp flip: of_int_diff)
qed

text \<open>C14. The summary the panel computes from the rows of the socket is the one the server computes
  from its clients, whenever the numbers are exact in the browser and the clients have
  emails: the two implementations are in lockstep.\<close>

theorem summary_matches_server:
  assumes "list_all exact_client cs" and "exact_int now"
  shows "computeClientsSummary (of_int now) (map stats_row cs) onlineSet (of_int d) (of_int t) =
    Some (buildClientsSummary cs onlineSet now d t)"
proof -
  have fold: "foldl (server_row now onlineSet d t) (s\<lparr>sum_total := n\<rparr>) cs =
      (foldl (summary_row (of_int now) onlineSet (of_int d) (of_int t)) s (map stats_row cs))\<lparr>sum_total := n\<rparr>"
    if "list_all exact_client cs" for s n
    using that
  proof (induction cs arbitrary: s)
    case (Cons c cs)
    have "summary_row now' os d' t' (s\<lparr>sum_total := n\<rparr>) x = (summary_row now' os d' t' s x)\<lparr>sum_total := n\<rparr>"
      for now' os d' t' x
      by (simp add: summary_row_def Let_def)
    then show ?case using Cons assms(2) by (simp add: server_row_agrees)
  qed simp
  have "\<not> list_ex nullish (map stats_row cs)" by (simp add: list_ex_iff)
  then show ?thesis
    using fold [OF assms(1)] by (simp add: computeClientsSummary_def buildClientsSummary_def)
qed

definition sample_client :: client_with_attachments where
  "sample_client = \<lparr>cl_email = ''a'', cl_enable = True, cl_totalGB = 100, cl_expiryTime = 0,
     cl_traffic = Some (60, 50)\<rparr>"

theorem summary_matches_server_witness:
  "computeClientsSummary (of_int 5) (map stats_row [sample_client]) {} (of_int 0) (of_int 0) =
     Some (buildClientsSummary [sample_client] {} 5 0 0)"
  by (rule summary_matches_server) (simp_all add: sample_client_def exact_client_def exact_int_def)

section \<open>The query string\<close>

lemma set_text_or_empty: "set_text k v sp = (if or_empty v = [] then sp else params_set k (or_empty v) sp)"
  by (auto simp: set_text_def nonempty_def or_empty_def split: option.splits)

lemma set_positive_or_zero:
  "set_positive k v sp = (if 0 < or_zero v then params_set k (num_str (Fin (or_zero v))) sp else sp)"
  by (auto simp: set_positive_def or_zero_def split: option.splits)

lemma set_cong:
  "or_empty v = or_empty w \<Longrightarrow> set_text k v = set_text k w"
  "or_zero x = or_zero y \<Longrightarrow> set_positive k x = set_positive k y"
  by (simp_all add: fun_eq_iff set_text_or_empty set_positive_or_zero)

lemma same_query_params:
  assumes "same_query p n"
  shows "query_params p = query_params n"
proof -
  note eqs = assms [unfolded same_query_def]
  have t: "set_text k (q_search p) = set_text k (q_search n)" "set_text k (q_filter p) = set_text k (q_filter n)"
    "set_text k (q_protocol p) = set_text k (q_protocol n)" "set_text k (q_inbound p) = set_text k (q_inbound n)"
    "set_text k (q_sort p) = set_text k (q_sort n)" "set_text k (q_order p) = set_text k (q_order n)"
    "set_text k (q_autoRenew p) = set_text k (q_autoRenew n)" "set_text k (q_hasTgId p) = set_text k (q_hasTgId n)"
    "set_text k (q_hasComment p) = set_text k (q_hasComment n)" "set_text k (q_group p) = set_text k (q_group n)"
    "set_positive k (q_expiryFrom p) = set_positive k (q_expiryFrom n)"
    "set_positive k (q_expiryTo p) = set_positive k (q_expiryTo n)"
    "set_positive k (q_usageFrom p) = set_positive k (q_usageFrom n)"
    "set_positive k (q_usageTo p) = set_positive k (q_usageTo n)" for k
    using eqs by (intro set_cong; blast)+
  have "q_page p = q_page n" "q_pageSize p = q_pageSize n" using eqs by blast+
  with t show ?thesis by (simp only: query_params_def)
qed

text \<open>Keeping the old query object when the comparison finds no difference never asks for
  something else: the request of the state that is kept is the request of the new query.\<close>

theorem setQuery_same_request: "buildQS (setQuery next prev) = buildQS next"
  using same_query_params [of prev "next"] by (simp add: setQuery_def buildQS_def)

definition query_texts_ok :: "client_query \<Rightarrow> bool" where
  "query_texts_ok p \<longleftrightarrow> list_all (\<lambda>v. valid_utf8 (or_empty v))
     [q_search p, q_filter p, q_protocol p, q_inbound p, q_sort p, q_order p, q_autoRenew p, q_hasTgId p,
      q_hasComment p, q_group p]"

lemma params_ok_set: "params_ok ps \<Longrightarrow> valid_utf8 k \<Longrightarrow> valid_utf8 v \<Longrightarrow> params_ok (params_set k v ps)"
  by (induction ps) (auto simp: params_ok_def params_del_def)

lemma nat_str_plain: "c \<in> set (nat_str n) \<Longrightarrow> plain_char c"
  using int_str_plain [of "int n"] by (simp add: int_str_def)

lemma digits_form_plain: "c \<in> set (digits_form s n) \<Longrightarrow> plain_char c"
  using nat_str_plain
  by (auto simp: digits_form_def Let_def plain_char_def split: if_splits dest!: in_set_takeD in_set_dropD)

lemma num_str_plain: "c \<in> set (num_str n) \<Longrightarrow> plain_char c"
proof (induction n rule: num_str.induct)
  case (1 x)
  have p: "c \<in> set (pos_num_str y) \<Longrightarrow> plain_char c" for y
    using digits_form_plain
    by (auto simp: pos_num_str_def plain_char_def split: prod.splits option.splits)
  have "plain_char CHR ''-''" by (simp add: plain_char_def)
  moreover have "plain_char CHR ''0''" by (simp add: plain_char_def)
  ultimately show ?case
    using 1 p int_str_plain by (auto simp: num_str.simps(1) split: if_splits)
qed (auto simp: plain_char_def)

lemma num_str_utf8: "valid_utf8 (num_str n)"
  using num_str_plain by (intro valid_utf8_ascii) (force simp: plain_char_def)

lemma params_ok_texts:
  "params_ok sp \<Longrightarrow> valid_utf8 k \<Longrightarrow> valid_utf8 (or_empty v) \<Longrightarrow> params_ok (set_text k v sp)"
  "params_ok sp \<Longrightarrow> valid_utf8 k \<Longrightarrow> params_ok (set_positive k x sp)"
  by (simp_all add: set_text_or_empty set_positive_or_zero params_ok_set num_str_utf8)

definition text_params :: "client_query \<Rightarrow> (string \<times> string option) list" where
  "text_params p = [(''search'', q_search p), (''filter'', q_filter p), (''protocol'', q_protocol p),
     (''inbound'', q_inbound p), (''sort'', q_sort p), (''order'', q_order p), (''autoRenew'', q_autoRenew p),
     (''hasTgId'', q_hasTgId p), (''hasComment'', q_hasComment p), (''group'', q_group p)]"

definition number_params :: "client_query \<Rightarrow> (string \<times> rat option) list" where
  "number_params p = [(''expiryFrom'', q_expiryFrom p), (''expiryTo'', q_expiryTo p),
     (''usageFrom'', q_usageFrom p), (''usageTo'', q_usageTo p)]"

lemma params_get_set_text:
  "params_get (set_text k v sp) k' = (if k' = k \<and> or_empty v \<noteq> [] then Some (or_empty v) else params_get sp k')"
  by (simp add: set_text_or_empty)

lemma params_get_set_positive:
  "params_get (set_positive k x sp) k' =
     (if k' = k \<and> 0 < or_zero x then Some (num_str (Fin (or_zero x))) else params_get sp k')"
  by (simp add: set_positive_or_zero)

lemma nonempty_or_empty: "nonempty v = (if or_empty v = [] then None else Some (or_empty v))"
  by (auto simp: nonempty_def or_empty_def split: option.splits)

lemma query_params_ok: "query_texts_ok p \<Longrightarrow> params_ok (query_params p)"
proof -
  have "params_ok []" by (simp add: params_ok_def)
  then show "query_texts_ok p \<Longrightarrow> params_ok (query_params p)"
    unfolding query_params_def Let_def query_texts_ok_def
    by (intro params_ok_texts params_ok_set num_str_utf8) simp_all
qed

text \<open>C37. The server reads back from the query string what the query says: each text that is not
  empty under its name, each bound that is positive, the page and its size with their
  defaults, and nothing under the name of a filter that is not set.\<close>

theorem query_string_reads_back:
  assumes "query_texts_ok p"
  shows "let g = params_get (params_parse (buildQS p))
    in (\<forall>(k, v) \<in> set (text_params p). g k = nonempty v) \<and>
       (\<forall>(k, x) \<in> set (number_params p).
          g k = (if 0 < or_zero x then Some (num_str (Fin (or_zero x))) else None)) \<and>
       g ''page'' = Some (num_str (Fin (if q_page p = 0 then 1 else q_page p))) \<and>
       g ''pageSize'' = Some (num_str (Fin (if q_pageSize p = 0 then 25 else q_pageSize p)))"
proof -
  have "params_parse (buildQS p) = query_params p"
    using params_parse_serialize [OF query_params_ok [OF assms]] by (simp add: buildQS_def)
  then show ?thesis
    by (simp add: text_params_def number_params_def query_params_def params_get_set_text
        params_get_set_positive nonempty_or_empty or_num_def DEFAULT_QUERY_def)
qed

theorem query_string_reads_back_witness:
  "params_get (params_parse (buildQS (DEFAULT_QUERY\<lparr>q_search := Some ''a b&c''\<rparr>))) ''search'' = Some ''a b&c''"
proof -
  let ?p = "DEFAULT_QUERY\<lparr>q_search := Some ''a b&c''\<rparr>"
  have "query_texts_ok ?p" by (simp add: query_texts_ok_def DEFAULT_QUERY_def or_empty_def)
  from query_string_reads_back [OF this] show ?thesis
    by (simp add: Let_def text_params_def nonempty_def)
qed

section \<open>Operations\<close>

text \<open>Every operation is one request, or none when its selection is empty.\<close>

definition op_empty :: "client_op \<Rightarrow> bool" where
  "op_empty op = (case op of
     Update e c \<Rightarrow> e = [] | Remove e k \<Rightarrow> e = [] | BulkDelete es k \<Rightarrow> es = [] | BulkCreate ps \<Rightarrow> ps = []
   | BulkAdjust es d b \<Rightarrow> es = [] | BulkAddToGroup es g \<Rightarrow> es = [] | BulkRemoveFromGroup es \<Rightarrow> es = []
   | Attach e is \<Rightarrow> e = [] | BulkAttach es is \<Rightarrow> es = [] \<or> is = [] | Detach e is \<Rightarrow> e = []
   | BulkDetach es is \<Rightarrow> es = [] \<or> is = [] | Move e s t i \<Rightarrow> e = [] | BulkMove es s t i \<Rightarrow> es = []
   | ResetTraffic e \<Rightarrow> e = [] | _ \<Rightarrow> False)"

lemmas client_muts = createMut_def updateMut_def removeMut_def bulkDeleteMut_def bulkCreateMut_def
  bulkAdjustMut_def bulkAddToGroupMut_def bulkRemoveFromGroupMut_def attachMut_def bulkAttachMut_def
  detachMut_def bulkDetachMut_def moveMut_def bulkMoveMut_def resetTrafficMut_def resetAllTrafficsMut_def
  delDepletedMut_def

lemmas client_ops = create_def update_def remove_def bulkDelete_def bulkCreate_def bulkAdjust_def
  bulkAddToGroup_def bulkRemoveFromGroup_def attach_def bulkAttach_def detach_def bulkDetach_def
  move_def bulkMove_def resetTraffic_def

lemma run_op_request:
  "\<exists>u v json V. run_op H now op = unless (op_empty op) (client_post H now u v json V) \<and>
     (\<forall>m. msg_ok (V m) = msg_ok m)"
  by (cases op; simp only: run_op.simps client_ops client_muts op_empty_def client_op.case;
      intro exI conjI; (rule refl)?; simp)

lemma client_post_effect:
  assumes "client_post H now u v json V c = (m, c')" and "\<And>m. msg_ok (V m) = msg_ok m"
  shows "if (\<exists>x. m = Some x \<and> msg_ok x)
    then allClientStats c' = [] \<and>
      query_cache (c_app c') = cache_op (Invalidate [''inbounds''])
        (cache_op (Invalidate [''clients'']) (markLocalInvalidate now (query_cache (c_app c))))
    else allClientStats c' = allClientStats c \<and> query_cache (c_app c') = query_cache (c_app c)"
proof -
  obtain q a where q: "hub_post H False u v json (c_app c) = (q, a)" by fastforce
  then have "query_cache a = query_cache (c_app c)" using hub_cache(2) [of H False u v json "c_app c"] by simp
  moreover have "(m, c') = mutate V (invalidateAll now) (q, c\<lparr>c_app := a\<rparr>)"
    using assms(1) q by (simp add: client_post_def on_app_def)
  ultimately show ?thesis
    using assms(2) by (cases q) (auto simp: mutate_def Let_def invalidateAll_def invalidate_key_def)
qed

text \<open>What reaches the bridge because of a change: messages \<open>invalidate\<close> of the hub at any time, the
  expiry of their timers in the 1.5 seconds after the answer, and further local changes.\<close>

definition echoes :: "int \<Rightarrow> bridge_input \<Rightarrow> bool" where
  "echoes now i = (case i of
     GotInvalidate p \<Rightarrow> True | Due now' h \<Rightarrow> now' < now + 1500 | LocalChange t \<Rightarrow> now \<le> t | Unmount \<Rightarrow> True
   | _ \<Rightarrow> False)"

lemma timer_due_recent:
  "now' - lastLocalInvalidateAt b < 1500 \<Longrightarrow>
   cache_ops (timer_due now' h b) = cache_ops b \<and> lastLocalInvalidateAt (timer_due now' h b) = lastLocalInvalidateAt b"
  by (auto simp: timer_due_def invalidate_timeout_def isRecentLocalInvalidate_def Let_def split: option.splits)

lemma echo_ignored:
  assumes "now \<le> lastLocalInvalidateAt b" and "echoes now i"
  shows "cache_ops (bridge_step b i) = cache_ops b \<and> now \<le> lastLocalInvalidateAt (bridge_step b i)"
  using assms timer_due_recent [of _ b]
  by (cases i) (auto simp: echoes_def onInvalidate_def unmount_bridge_def markLocalInvalidate_def Let_def split: option.split)

lemma echoes_ignored:
  "now \<le> lastLocalInvalidateAt b \<Longrightarrow> list_all (echoes now) is \<Longrightarrow> cache_ops (foldl bridge_step b is) = cache_ops b"
  by (induction "is" arbitrary: b) (simp_all add: echo_ignored)

text \<open>C21. An operation on clients refreshes the lists once.  It is skipped exactly when its selection is
  empty, and then changes nothing; an answer that reports no success leaves the caches alone; a
  success asks for the clients and the inbounds again, each once, and drops the live statistics.
  Whatever messages \<open>invalidate\<close> the hub sends over the socket about the change, before or after the
  answer, none of their timers that end in the 1.5 seconds after the answer asks for anything more.\<close>

theorem client_operation_refreshes_once:
  assumes "run_op H now op c = (r, c')"
  shows "(r = Skipped) = op_empty op \<and>
    (case r of
      Skipped \<Rightarrow> c' = c
    | Called m \<Rightarrow>
        if (\<exists>x. m = Some x \<and> msg_ok x)
        then cache_ops (query_cache (c_app c')) =
               cache_ops (query_cache (c_app c)) @ [Invalidate [''clients''], Invalidate [''inbounds'']] \<and>
             allClientStats c' = [] \<and>
             (\<forall>is. list_all (echoes now) is \<longrightarrow>
                cache_ops (foldl bridge_step (query_cache (c_app c')) is) = cache_ops (query_cache (c_app c')))
        else query_cache (c_app c') = query_cache (c_app c) \<and> allClientStats c' = allClientStats c)"
proof -
  obtain u v json V where op: "run_op H now op = unless (op_empty op) (client_post H now u v json V)"
    and V: "\<And>m. msg_ok (V m) = msg_ok m" using run_op_request [of H now op] by blast
  show ?thesis
  proof (cases "op_empty op")
    case True
    then show ?thesis using assms by (auto simp: op unless_def)
  next
    case False
    then obtain m where m: "r = Called m" "client_post H now u v json V c = (m, c')"
      using assms by (auto simp: op unless_def split: prod.splits)
    show ?thesis
      using client_post_effect [OF m(2) V] m(1) False echoes_ignored [of now "query_cache (c_app c')"]
      by (auto simp: cache_op_def markLocalInvalidate_def split: if_splits)
  qed
qed

definition sample_page :: "((string \<times> string) list, nat) clients_page" where
  "sample_page = \<lparr>c_app = sample_app, c_query = DEFAULT_QUERY, allClientStats = [JNull], page_data = None,
     onlines_data = None\<rparr>"

theorem client_operation_refreshes_once_witness:
  "let c' = snd (run_op (sample_hub (JObj [(''success'', JBool True)])) 5 (Remove ''a'' False) sample_page)
   in allClientStats c' = [] \<and>
     cache_ops (bridge_step (bridge_step (query_cache (c_app c')) (GotInvalidate (invalidate_payload ''clients''))) (Due 205 1))
       = cache_ops (query_cache (c_app c'))"
proof -
  let ?r = "run_op (sample_hub (JObj [(''success'', JBool True)])) 5 (Remove ''a'' False) sample_page"
  have "fst ?r = Called (Some (Msg True [] JNull))" by code_simp
  then have e: "?r = (Called (Some (Msg True [] JNull)), snd ?r)" by (metis prod.collapse)
  have i: "list_all (echoes 5) [GotInvalidate (invalidate_payload ''clients''), Due 205 1]" by (simp add: echoes_def)
  have t: "\<exists>x. Some (Msg True [] JNull) = Some x \<and> msg_ok x" by (simp add: msg_ok_def)
  note w = client_operation_refreshes_once [OF e, unfolded called.case if_P [OF t]]
  then have "allClientStats (snd ?r) = []" by blast
  moreover from w i have "cache_ops (foldl bridge_step (query_cache (c_app (snd ?r)))
      [GotInvalidate (invalidate_payload ''clients''), Due 205 1]) = cache_ops (query_cache (c_app (snd ?r)))" by blast
  ultimately show ?thesis unfolding Let_def foldl.simps by blast
qed

section \<open>Traffic events\<close>

lemma js_get_copy_if:
  "js_get (copy_if p upd k t) k' = (if k' = k \<and> p (js_member upd k) then js_member upd k else js_get t k')"
  by (simp add: copy_if_def)

lemma js_get_merge_traffic:
  "js_get (merge_traffic upd t) k =
     (if k \<in> {''up'', ''down'', ''total'', ''expiryTime'', ''lastOnline''} \<and> is_num (js_member upd k) \<or>
         k = ''enable'' \<and> is_bool (js_member upd k)
      then js_member upd k else js_get t k)"
  by (auto simp: merge_traffic_def js_get_copy_if)

lemma copy_if_same: "(p (js_member upd k) \<Longrightarrow> js_get t k = js_member upd k) \<Longrightarrow> p JUndef = False \<Longrightarrow> copy_if p upd k t = t"
  by (auto simp: copy_if_def js_get_def intro!: js_put_same split: option.splits)

lemma merge_traffic_again: "merge_traffic upd (merge_traffic upd t) = merge_traffic upd t"
proof -
  let ?t = "merge_traffic upd t"
  have p: "is_num JUndef = False" "is_bool JUndef = False" by (simp_all add: is_num_def is_bool_def)
  have "copy_if is_num upd k ?t = ?t" if "k \<in> {''up'', ''down'', ''total'', ''expiryTime'', ''lastOnline''}" for k
    using that p by (intro copy_if_same) (auto simp: js_get_merge_traffic)
  moreover have "copy_if is_bool upd ''enable'' ?t = ?t"
    using p by (intro copy_if_same) (auto simp: js_get_merge_traffic)
  ultimately show ?thesis by (simp add: merge_traffic_def [of upd ?t])
qed

lemma no_row: "by_email rows [] = None"
  by (simp add: by_email_def)

lemma merge_row_members:
  "row_email (merge_row rows r) = row_email r"
  "js_del ''traffic'' (js_members (merge_row rows r)) = js_del ''traffic'' (js_members r)"
proof -
  have put: "js_del k (js_put k v m) = js_del k m" for k v m
  proof -
    have "filter (\<lambda>(k', _). k' \<noteq> k) (replace_key k v m) = filter (\<lambda>(k', _). k' \<noteq> k) m"
      by (induction m) auto
    moreover have "filter (\<lambda>(k', _). k' \<noteq> k) (put_index k v m) = filter (\<lambda>(k', _). k' \<noteq> k) m"
      by (induction m) auto
    ultimately show ?thesis by (simp add: js_put_def js_del_def)
  qed
  show "row_email (merge_row rows r) = row_email r"
    by (cases r) (auto simp: merge_row_def row_email_def js_member_def js_members_def no_row split: option.splits)
  show "js_del ''traffic'' (js_members (merge_row rows r)) = js_del ''traffic'' (js_members r)"
    by (auto simp: merge_row_def js_members_def put split: option.splits)
qed

lemma merge_row_traffic:
  assumes "by_email rows (row_email r) = Some u"
  shows "js_member (merge_row rows r) ''traffic'' = JObj (merge_traffic u (js_members (js_member r ''traffic'')))"
  using assms by (simp add: merge_row_def js_member_def)

lemma merge_row_again: "merge_row rows (merge_row rows r) = merge_row rows r"
proof (cases "by_email rows (row_email r)")
  case None
  then show ?thesis by (simp add: merge_row_def)
next
  case (Some u)
  let ?r = "merge_row rows r"
  obtain m where m: "?r = JObj m" using Some by (simp add: merge_row_def)
  have t: "js_get m ''traffic'' = JObj (merge_traffic u (js_members (js_member r ''traffic'')))"
    using merge_row_traffic [OF Some] m by (simp add: js_member_def)
  then have "map_of m ''traffic'' = Some (JObj (merge_traffic u (js_members (js_member r ''traffic''))))"
    by (simp add: js_get_def split: option.splits)
  moreover have "by_email rows (row_email ?r) = Some u" using Some merge_row_members(1) by simp
  ultimately show ?thesis
    using m t
    by (simp add: merge_row_def [of rows "JObj m"] js_member_def [of "JObj m"] js_members_def [of "JObj x" for x]
        merge_traffic_again js_put_same)
qed

definition page_items :: "js option \<Rightarrow> js list" where
  "page_items d = (case d of Some p \<Rightarrow> (case js_member p ''items'' of JArr xs \<Rightarrow> xs | _ \<Rightarrow> []) | None \<Rightarrow> [])"

definition event_rows :: "js \<Rightarrow> js list" where
  "event_rows payload = (case js_member payload ''clients'' of JArr rows \<Rightarrow> rows | _ \<Rightarrow> [])"

text \<open>What a member of a row's traffic is after an event: what the last row of the event for the email
  reports under the name, where that is a number (or the flag), and what it was otherwise.\<close>

definition traffic_after :: "js list \<Rightarrow> js \<Rightarrow> string \<Rightarrow> js" where
  "traffic_after rows r k =
     (let old = js_member (js_member r ''traffic'') k
      in case by_email rows (row_email r) of
           None \<Rightarrow> old
         | Some u \<Rightarrow>
             if k \<in> {''up'', ''down'', ''total'', ''expiryTime'', ''lastOnline''} \<and> is_num (js_member u k) \<or>
                k = ''enable'' \<and> is_bool (js_member u k)
             then js_member u k else old)"

definition row_after :: "js list \<Rightarrow> js \<Rightarrow> js \<Rightarrow> bool" where
  "row_after rows r r' \<longleftrightarrow>
     row_email r' = row_email r \<and>
     js_del ''traffic'' (js_members r') = js_del ''traffic'' (js_members r) \<and>
     (\<forall>k. js_member (js_member r' ''traffic'') k = traffic_after rows r k) \<and>
     (r' = r \<or> by_email rows (row_email r) \<noteq> None)"

lemma merge_row_after: "row_after rows r (merge_row rows r)"
proof (cases "by_email rows (row_email r)")
  case None
  then show ?thesis by (simp add: row_after_def traffic_after_def merge_row_def)
next
  case (Some u)
  then show ?thesis
    by (auto simp: row_after_def traffic_after_def merge_row_members merge_row_traffic js_member_def [of "JObj x" for x]
        js_get_merge_traffic js_get_members Let_def)
qed

lemma row_after_none: "row_after [] r r"
  by (simp add: row_after_def traffic_after_def by_email_def)

lemma merge_page_items:
  assumes "js_member prev ''items'' = JArr items"
  shows "js_member (merge_page rows prev) ''items'' = JArr (map (merge_row rows) items)"
proof (cases "list_ex (\<lambda>r. by_email rows (row_email r) \<noteq> None) items")
  case False
  then have "map (merge_row rows) items = items"
    by (intro map_idI) (simp add: merge_row_def list_ex_iff)
  then show ?thesis using False assms by (simp add: merge_page_def)
qed (use assms in \<open>simp add: merge_page_def js_member_def\<close>)

lemma merge_page_again: "merge_page rows (merge_page rows prev) = merge_page rows prev"
proof (cases "js_member prev ''items''")
  case (JArr items)
  let ?p = "merge_page rows prev"
  let ?touched = "list_ex (\<lambda>r. by_email rows (row_email r) \<noteq> None)"
  have i: "js_member ?p ''items'' = JArr (map (merge_row rows) items)" by (rule merge_page_items [OF JArr])
  have a: "map (merge_row rows) (map (merge_row rows) items) = map (merge_row rows) items"
    by (simp add: merge_row_again)
  have t: "?touched (map (merge_row rows) items) = ?touched items"
    by (simp add: list_ex_iff merge_row_members)
  show ?thesis
  proof (cases "?touched items")
    case False
    then show ?thesis using JArr by (simp add: merge_page_def)
  next
    case True
    then obtain m where m: "?p = JObj m" using JArr by (simp add: merge_page_def)
    then have "map_of m ''items'' = Some (JArr (map (merge_row rows) items))"
      using i by (simp add: js_member_def js_get_def split: option.splits)
    then show ?thesis
      using i t a True m by (simp add: merge_page_def [of rows "JObj m"] js_put_same js_members_def del: map_map)
  qed
qed (simp_all add: merge_page_def)


end
