(* ===== verification/Defaults.thy ===== *)
theory Defaults
  imports Schemas RandomUtil Wireguard
begin

text \<open>
  The factories of \<open>frontend/src/lib/xray/inbound-defaults.ts\<close> and \<open>outbound-defaults.ts\<close>:
  what the editors start from.  \<open>randoms\<close> is what the browser's generator delivers to the
  calls of \<open>RandomUtil\<close> and \<open>Wireguard\<close>; a seed has an option for each member.
\<close>

section \<open>Random values\<close>

record randoms =
  rnd_email :: "32 word list"
  rnd_subId :: "32 word list"
  rnd_browser_uuid :: string
  rnd_location_protocol :: string
  rnd_uuid :: "8 word list"
  rnd_password :: "32 word list"
  rnd_ss :: string
  rnd_user :: "32 word list"
  rnd_pass :: "32 word list"
  rnd_key :: string
  rnd_peer :: string

definition fresh_uuid :: "randoms \<Rightarrow> string" where
  "fresh_uuid R = randomUUID (rnd_browser_uuid R) (rnd_location_protocol R) (rnd_uuid R)"

definition seed_or :: "'a option \<Rightarrow> 'a \<Rightarrow> 'a" where
  "seed_or v d = (case v of None \<Rightarrow> d | Some x \<Rightarrow> x)"

section \<open>Clients\<close>

record client_seed =
  sd_email :: "string option"
  sd_subId :: "string option"
  sd_limitIp :: "int option"
  sd_totalGB :: "int option"
  sd_expiryTime :: "int option"
  sd_enable :: "bool option"
  sd_tgId :: "int option"
  sd_comment :: "string option"
  sd_reset :: "int option"

definition no_seed :: client_seed where
  "no_seed = \<lparr>sd_email = None, sd_subId = None, sd_limitIp = None, sd_totalGB = None, sd_expiryTime = None,
     sd_enable = None, sd_tgId = None, sd_comment = None, sd_reset = None\<rparr>"

definition clientBase :: "randoms \<Rightarrow> client_seed \<Rightarrow> obj" where
  "clientBase R seed =
     [(''email'', JStr (seed_or (sd_email seed) (randomLowerAndNum (rnd_email R)))),
      (''limitIp'', JInt (seed_or (sd_limitIp seed) 0)),
      (''totalGB'', JInt (seed_or (sd_totalGB seed) 0)),
      (''expiryTime'', JInt (seed_or (sd_expiryTime seed) 0)),
      (''enable'', JBool (seed_or (sd_enable seed) True)),
      (''tgId'', JInt (seed_or (sd_tgId seed) 0)),
      (''subId'', JStr (seed_or (sd_subId seed) (randomLowerAndNum (rnd_subId R)))),
      (''comment'', JStr (seed_or (sd_comment seed) [])),
      (''reset'', JInt (seed_or (sd_reset seed) 0))]"

definition createDefaultVlessClient :: "randoms \<Rightarrow> string option \<Rightarrow> string option \<Rightarrow> client_seed \<Rightarrow> obj" where
  "createDefaultVlessClient R id' flow seed =
     [(''id'', JStr (seed_or id' (fresh_uuid R))), (''flow'', JStr (seed_or flow []))] @ clientBase R seed"

definition createDefaultVmessClient :: "randoms \<Rightarrow> string option \<Rightarrow> string option \<Rightarrow> client_seed \<Rightarrow> obj" where
  "createDefaultVmessClient R id' security seed =
     [(''id'', JStr (seed_or id' (fresh_uuid R))), (''security'', JStr (seed_or security ''auto''))]
     @ clientBase R seed"

definition createDefaultTrojanClient :: "randoms \<Rightarrow> string option \<Rightarrow> client_seed \<Rightarrow> obj" where
  "createDefaultTrojanClient R password seed =
     [(''password'', JStr (seed_or password (randomSeq default_seq (rnd_password R))))] @ clientBase R seed"

definition createDefaultShadowsocksClient ::
  "randoms \<Rightarrow> string option \<Rightarrow> string option \<Rightarrow> string option \<Rightarrow> client_seed \<Rightarrow> obj" where
  "createDefaultShadowsocksClient R meth password ssMethod seed =
     [(''method'', JStr (seed_or meth [])),
      (''password'', JStr (seed_or password
         (randomShadowsocksPassword (seed_or ssMethod ''2022-blake3-aes-256-gcm'') (rnd_ss R))))]
     @ clientBase R seed"

definition createDefaultHysteriaClient :: "randoms \<Rightarrow> string option \<Rightarrow> client_seed \<Rightarrow> obj" where
  "createDefaultHysteriaClient R auth seed =
     [(''auth'', JStr (seed_or auth (randomSeq default_seq (rnd_password R))))] @ clientBase R seed"

section \<open>Inbound settings\<close>

definition createDefaultVlessInboundSettings :: obj where
  "createDefaultVlessInboundSettings =
     [(''clients'', JArr []), (''decryption'', JStr ''none''), (''encryption'', JStr ''none''),
      (''fallbacks'', JArr [])]"

definition createDefaultVmessInboundSettings :: obj where
  "createDefaultVmessInboundSettings = [(''clients'', JArr [])]"

definition createDefaultTrojanInboundSettings :: obj where
  "createDefaultTrojanInboundSettings = [(''clients'', JArr []), (''fallbacks'', JArr [])]"

definition createDefaultShadowsocksInboundSettings ::
  "randoms \<Rightarrow> string option \<Rightarrow> string option \<Rightarrow> string option \<Rightarrow> bool option \<Rightarrow> obj" where
  "createDefaultShadowsocksInboundSettings R meth password network ivCheck =
     (let m = seed_or meth ''2022-blake3-aes-256-gcm''
      in [(''method'', JStr m),
          (''password'', JStr (seed_or password (randomShadowsocksPassword m (rnd_ss R)))),
          (''network'', JStr (seed_or network ''tcp,udp'')), (''clients'', JArr []),
          (''ivCheck'', JBool (seed_or ivCheck False))])"

definition createDefaultHysteriaInboundSettings :: "int option \<Rightarrow> obj" where
  "createDefaultHysteriaInboundSettings version =
     [(''version'', JInt (seed_or version 2)), (''clients'', JArr [])]"

definition random_account :: "randoms \<Rightarrow> js" where
  "random_account R =
     JObj [(''user'', JStr (randomLowerAndNum (rnd_user R))), (''pass'', JStr (randomLowerAndNum (rnd_pass R)))]"

definition createDefaultHttpInboundSettings :: "randoms \<Rightarrow> obj" where
  "createDefaultHttpInboundSettings R =
     [(''accounts'', JArr [random_account R]), (''allowTransparent'', JBool False)]"

definition createDefaultMixedInboundSettings :: "randoms \<Rightarrow> obj" where
  "createDefaultMixedInboundSettings R =
     [(''auth'', JStr ''password''), (''accounts'', JArr [random_account R]), (''udp'', JBool False),
      (''ip'', JStr ''127.0.0.1'')]"

definition createDefaultTunnelInboundSettings :: obj where
  "createDefaultTunnelInboundSettings =
     [(''portMap'', JObj []), (''allowedNetwork'', JStr ''tcp,udp''), (''followRedirect'', JBool False)]"

definition createDefaultTunInboundSettings :: obj where
  "createDefaultTunInboundSettings =
     [(''name'', JStr ''xray0''), (''mtu'', JInt 1500), (''gateway'', JArr []), (''dns'', JArr []),
      (''userLevel'', JInt 0), (''autoSystemRoutingTable'', JArr []),
      (''autoOutboundsInterface'', JStr ''auto'')]"

text \<open>\<open>None\<close>: a given key that is no Base64 text makes \<open>generateKeypair\<close> throw.\<close>

definition createDefaultWireguardInboundSettings ::
  "randoms \<Rightarrow> int option \<Rightarrow> string option \<Rightarrow> bool option \<Rightarrow> string \<Rightarrow> obj option" where
  "createDefaultWireguardInboundSettings R mtu secretKey noKernelTun peerPrivateKey =
     (case (generateKeypair (rnd_peer R) peerPrivateKey, generateKeypair (rnd_key R) []) of
        (Some peerKp, Some kp) \<Rightarrow>
          Some [(''mtu'', JInt (seed_or mtu 1420)),
            (''secretKey'', JStr (seed_or secretKey (kp_private kp))),
            (''peers'', JArr [JObj [(''privateKey'', JStr (if peerPrivateKey \<noteq> [] then peerPrivateKey else kp_private peerKp)),
               (''publicKey'', JStr (kp_public peerKp)), (''allowedIPs'', JArr [JStr ''10.0.0.2/32'']),
               (''keepAlive'', JInt 0)]]),
            (''noKernelTun'', JBool (seed_or noKernelTun False))]
      | _ \<Rightarrow> None)"

text \<open>\<open>None\<close> is an exception, \<open>JNull\<close> the \<open>null\<close> for an unknown protocol.\<close>

definition createDefaultInboundSettings :: "randoms \<Rightarrow> string \<Rightarrow> js option" where
  "createDefaultInboundSettings R protocol =
     (if protocol = ''vless'' then Some (JObj createDefaultVlessInboundSettings)
      else if protocol = ''vmess'' then Some (JObj createDefaultVmessInboundSettings)
      else if protocol = ''trojan'' then Some (JObj createDefaultTrojanInboundSettings)
      else if protocol = ''shadowsocks''
      then Some (JObj (createDefaultShadowsocksInboundSettings R None None None None))
      else if protocol = ''hysteria'' then Some (JObj (createDefaultHysteriaInboundSettings None))
      else if protocol = ''http'' then Some (JObj (createDefaultHttpInboundSettings R))
      else if protocol = ''mixed'' then Some (JObj (createDefaultMixedInboundSettings R))
      else if protocol = ''tunnel'' then Some (JObj createDefaultTunnelInboundSettings)
      else if protocol = ''tun'' then Some (JObj createDefaultTunInboundSettings)
      else if protocol = ''wireguard''
      then map_option JObj (createDefaultWireguardInboundSettings R None None None [])
      else Some JNull)"

section \<open>Outbound settings\<close>

definition createDefaultFreedomOutboundSettings :: obj where
  "createDefaultFreedomOutboundSettings = []"

definition createDefaultBlackholeOutboundSettings :: obj where
  "createDefaultBlackholeOutboundSettings = []"

definition createDefaultLoopbackOutboundSettings :: obj where
  "createDefaultLoopbackOutboundSettings = [(''inboundTag'', JStr [])]"

definition createDefaultDNSOutboundSettings :: obj where
  "createDefaultDNSOutboundSettings =
     [(''rewriteNetwork'', JStr []), (''rewriteAddress'', JStr []), (''rewritePort'', JInt 53),
      (''userLevel'', JInt 0), (''rules'', JArr [])]"

definition createDefaultVmessOutboundSettings :: obj where
  "createDefaultVmessOutboundSettings =
     [(''vnext'', JArr [JObj [(''address'', JStr []), (''port'', JInt 443),
        (''users'', JArr [JObj [(''id'', JStr []), (''security'', JStr ''auto'')]])]])]"

definition createDefaultVlessOutboundSettings :: obj where
  "createDefaultVlessOutboundSettings =
     [(''address'', JStr []), (''port'', JInt 443), (''id'', JStr []), (''flow'', JStr []),
      (''encryption'', JStr ''none'')]"

definition createDefaultTrojanOutboundSettings :: obj where
  "createDefaultTrojanOutboundSettings =
     [(''servers'', JArr [JObj [(''address'', JStr []), (''port'', JInt 443), (''password'', JStr [])]])]"

definition createDefaultShadowsocksOutboundSettings :: obj where
  "createDefaultShadowsocksOutboundSettings =
     [(''servers'', JArr [JObj [(''address'', JStr []), (''port'', JInt 443), (''password'', JStr []),
        (''method'', JStr ''2022-blake3-aes-128-gcm'')]])]"

definition createDefaultSocksOutboundSettings :: obj where
  "createDefaultSocksOutboundSettings =
     [(''servers'', JArr [JObj [(''address'', JStr []), (''port'', JInt 1080), (''users'', JArr [])]])]"

definition createDefaultHttpOutboundSettings :: obj where
  "createDefaultHttpOutboundSettings =
     [(''servers'', JArr [JObj [(''address'', JStr []), (''port'', JInt 8080), (''users'', JArr [])]])]"

definition createDefaultWireguardOutboundSettings :: "randoms \<Rightarrow> string option \<Rightarrow> obj option" where
  "createDefaultWireguardOutboundSettings R secretKey =
     map_option
       (\<lambda>kp. [(''mtu'', JInt 1420), (''secretKey'', JStr (seed_or secretKey (kp_private kp))),
          (''address'', JArr []), (''workers'', JInt 2),
          (''peers'', JArr [JObj [(''publicKey'', JStr []),
             (''allowedIPs'', JArr [JStr ''0.0.0.0/0'', JStr ''::/0'']), (''endpoint'', JStr [])]]),
          (''noKernelTun'', JBool False)])
       (generateKeypair (rnd_key R) [])"

definition createDefaultHysteriaOutboundSettings :: obj where
  "createDefaultHysteriaOutboundSettings =
     [(''address'', JStr []), (''port'', JInt 443), (''version'', JInt 2)]"

definition createDefaultOutboundSettings :: "randoms \<Rightarrow> string \<Rightarrow> js option" where
  "createDefaultOutboundSettings R protocol =
     (if protocol = ''freedom'' then Some (JObj createDefaultFreedomOutboundSettings)
      else if protocol = ''blackhole'' then Some (JObj createDefaultBlackholeOutboundSettings)
      else if protocol = ''dns'' then Some (JObj createDefaultDNSOutboundSettings)
      else if protocol = ''vmess'' then Some (JObj createDefaultVmessOutboundSettings)
      else if protocol = ''vless'' then Some (JObj createDefaultVlessOutboundSettings)
      else if protocol = ''trojan'' then Some (JObj createDefaultTrojanOutboundSettings)
      else if protocol = ''shadowsocks'' then Some (JObj createDefaultShadowsocksOutboundSettings)
      else if protocol = ''socks'' then Some (JObj createDefaultSocksOutboundSettings)
      else if protocol = ''http'' then Some (JObj createDefaultHttpOutboundSettings)
      else if protocol = ''wireguard''
      then map_option JObj (createDefaultWireguardOutboundSettings R None)
      else if protocol = ''hysteria'' then Some (JObj createDefaultHysteriaOutboundSettings)
      else if protocol = ''loopback'' then Some (JObj createDefaultLoopbackOutboundSettings)
      else Some JNull)"

section \<open>The defaults and the schemas\<close>

definition protocol_doc :: "string \<Rightarrow> js \<Rightarrow> js" where
  "protocol_doc protocol settings = JObj [(''protocol'', JStr protocol), (''settings'', settings)]"

definition inbound_protocols :: "string list" where
  "inbound_protocols = [''vless'', ''vmess'', ''trojan'', ''shadowsocks'', ''hysteria'', ''http'', ''mixed'',
     ''tunnel'', ''tun'', ''wireguard'']"

definition outbound_protocols :: "string list" where
  "outbound_protocols = [''freedom'', ''blackhole'', ''dns'', ''vmess'', ''vless'', ''trojan'', ''shadowsocks'',
     ''socks'', ''http'', ''wireguard'', ''hysteria'', ''loopback'']"

text \<open>The generator delivers as much as it was asked for, and the format test knows its UUIDs.\<close>

definition randoms_ok :: "(string \<Rightarrow> bool) \<Rightarrow> randoms \<Rightarrow> bool" where
  "randoms_ok uuid R \<longleftrightarrow>
     length (rnd_email R) = 10 \<and> length (rnd_subId R) = 16 \<and> length (rnd_password R) = 10 \<and>
     length (rnd_user R) = 8 \<and> length (rnd_pass R) = 12 \<and> uuid (fresh_uuid R)"

lemma randomSeq_nonempty: "rs \<noteq> [] \<Longrightarrow> getSeq opts \<noteq> [] \<Longrightarrow> randomSeq opts rs \<noteq> []"
  by (cases rs) (simp_all add: randomSeq_def Let_def)

lemma lower_and_num_nonempty: "rs \<noteq> [] \<Longrightarrow> randomLowerAndNum rs \<noteq> []"
  by (simp add: randomLowerAndNum_def randomSeq_nonempty getSeq_def default_seq_def)

lemma seq_nonempty: "rs \<noteq> [] \<Longrightarrow> randomSeq default_seq rs \<noteq> []"
  by (simp add: randomSeq_nonempty getSeq_def default_seq_def)

lemma keyToBase64_nonempty: "keyToBase64 k \<noteq> []"
proof -
  have "length (encodeBase64 (drop 0 k)) > 0" by (simp add: encodeBase64_def key_sextets_def Let_def)
  moreover have "[0..<11] = 0 # [Suc 0..<11]" by (simp add: upt_rec)
  ultimately show ?thesis by (auto simp: keyToBase64_def)
qed

lemmas default_settings = createDefaultVlessInboundSettings_def createDefaultVmessInboundSettings_def
  createDefaultTrojanInboundSettings_def createDefaultShadowsocksInboundSettings_def
  createDefaultHysteriaInboundSettings_def createDefaultHttpInboundSettings_def
  createDefaultMixedInboundSettings_def createDefaultTunnelInboundSettings_def
  createDefaultTunInboundSettings_def createDefaultWireguardInboundSettings_def
  random_account_def seed_or_def generateKeypair_def

text \<open>C39. Whatever protocol the editor of an inbound is switched to, the settings it starts from are
  accepted by the wire schema and come back from it as they are: they carry every default.\<close>

theorem inbound_defaults_accepted:
  assumes "zod P uuid" and "randoms_ok uuid R" and "protocol \<in> set inbound_protocols"
  shows "\<exists>v. createDefaultInboundSettings R protocol = Some v \<and>
    P InboundSettingsSchema (protocol_doc protocol v) = Some (protocol_doc protocol v)"
proof -
  have n: "randomLowerAndNum (rnd_user R) \<noteq> []" "randomLowerAndNum (rnd_pass R) \<noteq> []"
    using assms(2) by (auto simp: randoms_ok_def intro!: lower_and_num_nonempty)
  have "P InboundSettingsSchema v = zparse uuid InboundSettingsSchema v" for v
    by (rule zod.laws_determine [OF assms(1)]) simp
  then show ?thesis
    using assms(3) n keyToBase64_nonempty
    by (auto simp: inbound_protocols_def createDefaultInboundSettings_def default_settings protocol_doc_def
        schema_defs option_for_def option_literal_def keep_if_def number_ok_def str_where_def is_bool_def
        is_str_def js_has_def Let_def)
qed

definition sample_randoms :: randoms where
  "sample_randoms = \<lparr>rnd_email = replicate 10 1, rnd_subId = replicate 16 1, rnd_browser_uuid = [],
     rnd_location_protocol = ''http:'', rnd_uuid = replicate 31 7, rnd_password = replicate 10 1,
     rnd_ss = replicate 32 CHR ''a'', rnd_user = replicate 8 1, rnd_pass = replicate 12 1,
     rnd_key = replicate 32 CHR ''a'', rnd_peer = replicate 32 CHR ''b''\<rparr>"

lemma sample_randoms_ok: "randoms_ok (\<lambda>s. True) sample_randoms"
  by (simp add: randoms_ok_def sample_randoms_def)

theorem inbound_defaults_accepted_witness:
  "\<exists>v. createDefaultInboundSettings sample_randoms ''tun'' = Some v \<and>
     zparse (\<lambda>s. True) InboundSettingsSchema (protocol_doc ''tun'' v) = Some (protocol_doc ''tun'' v)"
  by (rule inbound_defaults_accepted [OF zod_reference.zod_axioms sample_randoms_ok])
    (simp add: inbound_protocols_def)

text \<open>The clients the factories make, with nothing seeded, are accepted by the schema of their
  protocol and carry every default; only the order of the members changes.\<close>

theorem default_clients_accepted:
  assumes "zod P uuid" and "randoms_ok uuid R"
    and "(schema, client) \<in>
      {(VlessClientSchema, createDefaultVlessClient R None None no_seed),
       (VmessClientSchema, createDefaultVmessClient R None None no_seed),
       (TrojanClientSchema, createDefaultTrojanClient R None no_seed),
       (ShadowsocksClientSchema, createDefaultShadowsocksClient R None None None no_seed),
       (HysteriaClientSchema, createDefaultHysteriaClient R None no_seed)}"
  shows "\<exists>m. P schema (JObj client) = Some (JObj m) \<and> map_of m = map_of client"
proof -
  have n: "randomLowerAndNum (rnd_email R) \<noteq> []" "randomSeq default_seq (rnd_password R) \<noteq> []"
    "uuid (fresh_uuid R)"
    using assms(2) by (auto simp: randoms_ok_def intro!: lower_and_num_nonempty seq_nonempty)
  have "zfree schema" using assms(3) by auto
  then have "P schema v = zparse uuid schema v" for v by (rule zod.laws_determine [OF assms(1)])
  then show ?thesis
    using assms(3) n
    by (auto simp: createDefaultVlessClient_def createDefaultVmessClient_def createDefaultTrojanClient_def
        createDefaultShadowsocksClient_def createDefaultHysteriaClient_def clientBase_def no_seed_def
        seed_or_def schema_defs keep_if_def number_ok_def str_where_def is_bool_def is_str_def js_has_def
        js_get_def fun_eq_iff)
qed

theorem default_clients_accepted_witness:
  "\<exists>m. zparse (\<lambda>s. True) TrojanClientSchema (JObj (createDefaultTrojanClient sample_randoms None no_seed)) =
     Some (JObj m) \<and> map_of m = map_of (createDefaultTrojanClient sample_randoms None no_seed)"
  by (rule default_clients_accepted [OF zod_reference.zod_axioms sample_randoms_ok]) simp

text \<open>Of the scaffolds the outbound editor starts from, exactly the four that need no server are
  accepted by the wire schema; the others are rejected until the user fills them in, as
  the file says.\<close>

theorem outbound_defaults_accepted:
  assumes "zod P uuid" and "\<not> uuid []" and "protocol \<in> set outbound_protocols"
  shows "\<exists>v. createDefaultOutboundSettings R protocol = Some v \<and>
    P OutboundSettingsSchema (protocol_doc protocol v) =
      (if protocol \<in> {''freedom'', ''blackhole'', ''dns'', ''loopback''} then Some (protocol_doc protocol v)
       else None)"
proof -
  have "P OutboundSettingsSchema v = zparse uuid OutboundSettingsSchema v" for v
    by (rule zod.laws_determine [OF assms(1)]) simp
  then show ?thesis
    using assms(2,3) keyToBase64_nonempty
    by (auto simp: outbound_protocols_def createDefaultOutboundSettings_def
        createDefaultFreedomOutboundSettings_def createDefaultBlackholeOutboundSettings_def
        createDefaultLoopbackOutboundSettings_def createDefaultDNSOutboundSettings_def
        createDefaultVmessOutboundSettings_def createDefaultVlessOutboundSettings_def
        createDefaultTrojanOutboundSettings_def createDefaultShadowsocksOutboundSettings_def
        createDefaultSocksOutboundSettings_def createDefaultHttpOutboundSettings_def
        createDefaultWireguardOutboundSettings_def createDefaultHysteriaOutboundSettings_def
        generateKeypair_def seed_or_def protocol_doc_def
        schema_defs option_for_def option_literal_def keep_if_def number_ok_def str_where_def is_bool_def
        is_str_def js_has_def Let_def)
qed

theorem outbound_defaults_accepted_witness:
  "\<exists>v. createDefaultOutboundSettings sample_randoms ''vless'' = Some v \<and>
     zparse (\<lambda>s. s \<noteq> []) OutboundSettingsSchema (protocol_doc ''vless'' v) = None"
  using outbound_defaults_accepted [OF zod_reference.zod_axioms, of "\<lambda>s. s \<noteq> []" "''vless''" sample_randoms]
  by (simp add: outbound_protocols_def)

end
