(* ===== verification/Models.thy ===== *)
theory Models
  imports HubCalls Format RandomUtil
begin

text \<open>
  The models of the panel: \<open>ObjectUtil\<close> of \<open>frontend/src/utils/index.ts\<close>, the settings of
  \<open>models/setting.ts\<close> with the editor of \<open>api/queries/useAllSettings.ts\<close>, the inbound of
  \<open>models/dbinbound.ts\<close>, the server status of \<open>models/status.ts\<close> and the targets of
  \<open>models/reality-targets.ts\<close>.  An instance is the list of its own properties, in the order
  of their declaration.
\<close>

section \<open>\<open>ObjectUtil\<close>\<close>

definition getPropIgnoreCase :: "obj \<Rightarrow> string \<Rightarrow> js" where
  "getPropIgnoreCase m prop =
     (case find (\<lambda>(name, v). to_lower name = to_lower prop) m of None \<Rightarrow> JUndef | Some (name, v) \<Rightarrow> v)"

definition isEmpty :: "js \<Rightarrow> bool" where
  "isEmpty v \<longleftrightarrow> nullish v \<or> v = JStr []"

definition isArrEmpty :: "js \<Rightarrow> bool" where
  "isArrEmpty v = (case v of JArr xs \<Rightarrow> xs = [] | _ \<Rightarrow> True)"

fun occurs_in :: "string \<Rightarrow> string \<Rightarrow> bool" where
  "occurs_in k [] = (k = [])"
| "occurs_in k (c # s) = (starts_with (c # s) k \<or> occurs_in k s)"

fun deepSearch :: "js \<Rightarrow> string \<Rightarrow> bool" where
  "deepSearch (JArr xs) key = list_ex (\<lambda>x. deepSearch x key) xs"
| "deepSearch (JObj m) key = list_ex (\<lambda>(name, v). deepSearch v key) m"
| "deepSearch v key = (if isEmpty v then False else occurs_in (to_lower key) (to_lower (js_string v)))"

text \<open>An empty list of ignored properties is no list at all.\<close>

definition cloneProps :: "obj \<Rightarrow> obj \<Rightarrow> string list \<Rightarrow> obj" where
  "cloneProps dest src ignoreProps =
     foldl (\<lambda>d (key, v).
       if \<not> js_has d key \<or> v = JUndef \<or> key \<in> set ignoreProps then d else js_put key v d) dest src"

definition delProps :: "obj \<Rightarrow> string list \<Rightarrow> obj" where
  "delProps m props = foldl (\<lambda>m p. js_del p m) m props"

definition orDefault :: "js \<Rightarrow> js \<Rightarrow> js" where
  "orDefault v d = (if nullish v then d else v)"

text \<open>
  \<open>===\<close> on the members of settings, which are primitive values; objects would be
  compared by identity.
\<close>

definition strict_eq :: "js \<Rightarrow> js \<Rightarrow> bool" where
  "strict_eq a b \<longleftrightarrow> a = b \<and> a \<noteq> JNum NaN"

definition equals :: "js \<Rightarrow> js \<Rightarrow> bool" where
  "equals a b =
     (case (a, b) of
        (JObj m, JObj n) \<Rightarrow>
          length m = length n \<and>
          list_all (\<lambda>(key, v). js_has n key \<and> strict_eq v (js_get n key)) m
      | _ \<Rightarrow> strict_eq a b)"

section \<open>Settings\<close>

definition default_setting :: obj where
  "default_setting =
     [(''webListen'', JStr ''''),
      (''webDomain'', JStr ''''),
      (''webPort'', JInt 2053),
      (''webCertFile'', JStr ''''),
      (''webKeyFile'', JStr ''''),
      (''webBasePath'', JStr ''/''),
      (''sessionMaxAge'', JInt 360),
      (''trustedProxyCIDRs'', JStr ''127.0.0.1/32,::1/128''),
      (''panelProxy'', JStr ''''),
      (''pageSize'', JInt 25),
      (''expireDiff'', JInt 0),
      (''trafficDiff'', JInt 0),
      (''remarkModel'', JStr ''-io''),
      (''datepicker'', JStr ''gregorian''),
      (''tgBotEnable'', JBool False),
      (''tgBotToken'', JStr ''''),
      (''tgBotProxy'', JStr ''''),
      (''tgBotAPIServer'', JStr ''''),
      (''tgBotChatId'', JStr ''''),
      (''tgRunTime'', JStr ''@daily''),
      (''tgBotBackup'', JBool False),
      (''tgBotLoginNotify'', JBool True),
      (''tgCpu'', JInt 80),
      (''tgLang'', JStr ''en-US''),
      (''twoFactorEnable'', JBool False),
      (''twoFactorToken'', JStr ''''),
      (''xrayTemplateConfig'', JStr ''''),
      (''subEnable'', JBool True),
      (''subJsonEnable'', JBool False),
      (''subTitle'', JStr ''''),
      (''subSupportUrl'', JStr ''''),
      (''subProfileUrl'', JStr ''''),
      (''subAnnounce'', JStr ''''),
      (''subEnableRouting'', JBool False),
      (''subRoutingRules'', JStr ''''),
      (''subListen'', JStr ''''),
      (''subPort'', JInt 2096),
      (''subPath'', JStr ''/sub/''),
      (''subJsonPath'', JStr ''/json/''),
      (''subClashEnable'', JBool False),
      (''subClashPath'', JStr ''/clash/''),
      (''subDomain'', JStr ''''),
      (''externalTrafficInformEnable'', JBool False),
      (''externalTrafficInformURI'', JStr ''''),
      (''restartXrayOnClientDisable'', JBool True),
      (''subCertFile'', JStr ''''),
      (''subKeyFile'', JStr ''''),
      (''subUpdates'', JInt 12),
      (''subEncrypt'', JBool True),
      (''subShowInfo'', JBool True),
      (''subEmailInRemark'', JBool True),
      (''subURI'', JStr ''''),
      (''subJsonURI'', JStr ''''),
      (''subClashURI'', JStr ''''),
      (''subJsonFragment'', JStr ''''),
      (''subJsonNoises'', JStr ''''),
      (''subJsonMux'', JStr ''''),
      (''subJsonRules'', JStr ''''),
      (''timeLocation'', JStr ''Local''),
      (''ldapEnable'', JBool False),
      (''ldapHost'', JStr ''''),
      (''ldapPort'', JInt 389),
      (''ldapUseTLS'', JBool False),
      (''ldapBindDN'', JStr ''''),
      (''ldapPassword'', JStr ''''),
      (''ldapBaseDN'', JStr ''''),
      (''ldapUserFilter'', JStr ''(objectClass=person)''),
      (''ldapUserAttr'', JStr ''mail''),
      (''ldapVlessField'', JStr ''vless_enabled''),
      (''ldapSyncCron'', JStr ''@every 1m''),
      (''ldapFlagField'', JStr ''''),
      (''ldapTruthyValues'', JStr ''true,1,yes,on''),
      (''ldapInvertFlag'', JBool False),
      (''ldapInboundTags'', JStr ''''),
      (''ldapAutoCreate'', JBool False),
      (''ldapAutoDelete'', JBool False),
      (''ldapDefaultTotalGB'', JInt 0),
      (''ldapDefaultExpiryDays'', JInt 0),
      (''ldapDefaultLimitIP'', JInt 0),
      (''hasTgBotToken'', JBool False),
      (''hasTwoFactorToken'', JBool False),
      (''hasLdapPassword'', JBool False),
      (''hasApiToken'', JBool False),
      (''hasWarpSecret'', JBool False),
      (''hasNordSecret'', JBool False),
      (''nodeCpuThreshold'', JInt 90),
      (''nodeMemThreshold'', JInt 90),
      (''nodeDiskThreshold'', JInt 90),
      (''nodeDownThreshold'', JInt 3)]"

definition AllSetting :: "js \<Rightarrow> obj" where
  "AllSetting d = (case d of JObj m \<Rightarrow> cloneProps default_setting m [] | _ \<Rightarrow> default_setting)"

text \<open>\<open>AllSettingSchema.partial()\<close>: every member of the schema becomes optional.\<close>

definition partial_loose :: "zschema \<Rightarrow> zschema" where
  "partial_loose s = (case s of ZLoose fs \<Rightarrow> ZLoose (map (\<lambda>(k, t). (k, ZOptional t)) fs) | _ \<Rightarrow> s)"

definition fetchAllSetting :: "('h, 's) hub \<Rightarrow> ('h, 's) app \<Rightarrow> js fetched \<times> ('h, 's) app" where
  "fetchAllSetting H a =
     fetch_checked H AllSettingSchema ''Failed to fetch settings''
       (hub_post H True ''/panel/setting/all'' JUndef False a)"

text \<open>The editor: what the query holds (\<open>None\<close>: nothing yet) and the draft.\<close>

record settings_editor =
  se_data :: "js option"
  se_draft :: obj

definition new_editor :: settings_editor where
  "new_editor = \<lparr>se_data = None, se_draft = AllSetting JUndef\<rparr>"

definition server_setting :: "settings_editor \<Rightarrow> obj" where
  "server_setting e = AllSetting (case se_data e of None \<Rightarrow> JUndef | Some d \<Rightarrow> d)"

definition settings_loaded :: "js \<Rightarrow> settings_editor \<Rightarrow> settings_editor" where
  "settings_loaded d e = \<lparr>se_data = Some d, se_draft = AllSetting d\<rparr>"

definition updateSetting :: "obj \<Rightarrow> settings_editor \<Rightarrow> settings_editor" where
  "updateSetting patch e = e\<lparr>se_draft := js_put_all (AllSetting (JObj (se_draft e))) patch\<rparr>"

definition saveDisabled :: "settings_editor \<Rightarrow> bool" where
  "saveDisabled e = equals (JObj (server_setting e)) (JObj (se_draft e))"

definition setting_body :: "('h, 's) hub \<Rightarrow> obj \<Rightarrow> js" where
  "setting_body H next' =
     (case hub_zod H (partial_loose AllSettingSchema) (JObj next') of
        Some d \<Rightarrow> d | None \<Rightarrow> JObj next')"

definition saveAll :: "('h, 's) hub \<Rightarrow> settings_editor \<Rightarrow> ('h, 's) app \<Rightarrow> msg option \<times> ('h, 's) app" where
  "saveAll H e a =
     mutate id (invalidate_key [''settings'', ''all''])
       (hub_post H False ''/panel/setting/update'' (setting_body H (se_draft e)) False a)"

section \<open>Inbounds\<close>

text \<open>
  The own properties of a \<open>DBInbound\<close>.  The field initialiser of the private cache runs
  first; a cache that is built is the list of the rows by email, latest first.
\<close>

definition default_inbound :: obj where
  "default_inbound =
     [(''id'', JInt 0), (''userId'', JInt 0), (''up'', JInt 0), (''down'', JInt 0), (''total'', JInt 0),
      (''remark'', JStr []), (''enable'', JBool True), (''expiryTime'', JInt 0),
      (''trafficReset'', JStr ''never''), (''lastTrafficResetTime'', JInt 0), (''listen'', JStr []),
      (''port'', JInt 0), (''protocol'', JStr []), (''settings'', JStr []), (''streamSettings'', JStr []),
      (''tag'', JStr []), (''sniffing'', JStr []), (''clientStats'', JArr []), (''nodeId'', JNull),
      (''fallbackParent'', JNull)]"

record db_inbound_model =
  props :: obj
  clientStatsMap :: "(string \<times> js) list option"

definition DBInbound :: "js \<Rightarrow> db_inbound_model" where
  "DBInbound d =
     \<lparr>props = (case d of JObj m \<Rightarrow> cloneProps default_inbound m [] | _ \<Rightarrow> default_inbound),
      clientStatsMap = None\<rparr>"

definition inbound_num :: "string \<Rightarrow> db_inbound_model \<Rightarrow> rat" where
  "inbound_num k i = (case js_get (props i) k of JNum (Fin x) \<Rightarrow> x | _ \<Rightarrow> 0)"

definition totalGB :: "db_inbound_model \<Rightarrow> rat" where
  "totalGB i = NumberFormatter_toFixed (inbound_num ''total'' i / ONE_GB) 2"

definition set_totalGB :: "rat \<Rightarrow> db_inbound_model \<Rightarrow> db_inbound_model" where
  "set_totalGB gb i = i\<lparr>props := js_put ''total'' (JNum (Fin (NumberFormatter_toFixed (gb * ONE_GB) 0))) (props i)\<rparr>"

definition inbound_address :: "string \<Rightarrow> db_inbound_model \<Rightarrow> js" where
  "inbound_address hostname i =
     (let listen = js_get (props i) ''listen''
      in if \<not> isEmpty listen \<and> listen \<noteq> JStr ''0.0.0.0'' then listen else JStr hostname)"

definition isExpiry :: "rat \<Rightarrow> db_inbound_model \<Rightarrow> bool" where
  "isExpiry now i \<longleftrightarrow> inbound_num ''expiryTime'' i < now"

definition invalidateCache :: "db_inbound_model \<Rightarrow> db_inbound_model" where
  "invalidateCache i = i\<lparr>clientStatsMap := None\<rparr>"

definition inbound_toJSON :: "db_inbound_model \<Rightarrow> js" where
  "inbound_toJSON i = JObj (props i)"

definition stats_map :: "js \<Rightarrow> (string \<times> js) list" where
  "stats_map v =
     (case v of
        JArr rows \<Rightarrow>
          foldl (\<lambda>m r. case js_member r ''email'' of
              JStr e \<Rightarrow> if e = [] then m else (e, r) # m
            | _ \<Rightarrow> m) [] rows
      | _ \<Rightarrow> [])"

definition getClientStats :: "string \<Rightarrow> db_inbound_model \<Rightarrow> js option \<times> db_inbound_model" where
  "getClientStats email i =
     (let m = (case clientStatsMap i of Some m \<Rightarrow> m | None \<Rightarrow> stats_map (js_get (props i) ''clientStats''))
      in (map_of m email, i\<lparr>clientStatsMap := Some m\<rparr>))"

section \<open>Server status\<close>

definition num_or :: "rat \<Rightarrow> js \<Rightarrow> rat" where
  "num_or d v = (case v of JNum (Fin x) \<Rightarrow> x | _ \<Rightarrow> d)"

record server_status =
  st_cpu :: cur_total
  st_cpuCores :: rat
  st_logicalPro :: rat
  st_cpuSpeedMhz :: rat
  st_disk :: cur_total
  st_loads :: "rat list"
  st_mem :: cur_total
  st_netIO :: js
  st_netTraffic :: js
  st_publicIP :: js
  st_swap :: cur_total
  st_tcpCount :: rat
  st_udpCount :: rat
  st_uptime :: rat
  st_appUptime :: rat
  st_appStats :: js
  st_xray :: obj

definition XRAY_STATE_COLORS :: "(string \<times> string) list" where
  "XRAY_STATE_COLORS = [(''running'', ''green''), (''stop'', ''orange''), (''error'', ''red'')]"

definition default_status :: server_status where
  "default_status =
     \<lparr>st_cpu = \<lparr>cur = 0, tot = 0\<rparr>, st_cpuCores = 0, st_logicalPro = 0, st_cpuSpeedMhz = 0,
      st_disk = \<lparr>cur = 0, tot = 0\<rparr>, st_loads = [0, 0, 0], st_mem = \<lparr>cur = 0, tot = 0\<rparr>,
      st_netIO = JObj [(''up'', JInt 0), (''down'', JInt 0)],
      st_netTraffic = JObj [(''sent'', JInt 0), (''recv'', JInt 0)],
      st_publicIP = JObj [(''ipv4'', JInt 0), (''ipv6'', JInt 0)],
      st_swap = \<lparr>cur = 0, tot = 0\<rparr>, st_tcpCount = 0, st_udpCount = 0, st_uptime = 0, st_appUptime = 0,
      st_appStats = JObj [(''threads'', JInt 0), (''mem'', JInt 0), (''uptime'', JInt 0)],
      st_xray = [(''state'', JStr ''stop''), (''errorMsg'', JStr []), (''version'', JStr []),
        (''color'', JStr [])]\<rparr>"

definition status_pair :: "js \<Rightarrow> cur_total" where
  "status_pair v = \<lparr>cur = num_or 0 (js_member v ''current''), tot = num_or 0 (js_member v ''total'')\<rparr>"

definition xray_state_color :: "js \<Rightarrow> string" where
  "xray_state_color s =
     (case map_of XRAY_STATE_COLORS (js_string s) of Some c \<Rightarrow> c | None \<Rightarrow> ''gray'')"

definition Status :: "js \<Rightarrow> server_status" where
  "Status d =
     (if nullish d then default_status
      else
        let xray = js_put_all (st_xray default_status) (js_members (js_member d ''xray''))
        in \<lparr>st_cpu = \<lparr>cur = num_or 0 (js_member d ''cpu''), tot = 100\<rparr>,
            st_cpuCores = num_or 0 (js_member d ''cpuCores''),
            st_logicalPro = num_or 0 (js_member d ''logicalPro''),
            st_cpuSpeedMhz = num_or 0 (js_member d ''cpuSpeedMhz''),
            st_disk = status_pair (js_member d ''disk''),
            st_loads = map (\<lambda>v. NumberFormatter_toFixed v 2)
              (case js_member d ''loads'' of JArr xs \<Rightarrow> map (num_or 0) xs | _ \<Rightarrow> [0, 0, 0]),
            st_mem = status_pair (js_member d ''mem''),
            st_netIO = js_coalesce (js_member d ''netIO'') (st_netIO default_status),
            st_netTraffic = js_coalesce (js_member d ''netTraffic'') (st_netTraffic default_status),
            st_publicIP = js_coalesce (js_member d ''publicIP'') (st_publicIP default_status),
            st_swap = status_pair (js_member d ''swap''),
            st_tcpCount = num_or 0 (js_member d ''tcpCount''),
            st_udpCount = num_or 0 (js_member d ''udpCount''),
            st_uptime = num_or 0 (js_member d ''uptime''),
            st_appUptime = num_or 0 (js_member d ''appUptime''),
            st_appStats = js_coalesce (js_member d ''appStats'') (st_appStats default_status),
            st_xray = js_put ''color'' (JStr (xray_state_color (js_get xray ''state''))) xray\<rparr>)"

section \<open>REALITY targets\<close>

definition REALITY_TARGETS :: "(string \<times> string) list" where
  "REALITY_TARGETS =
     [(''www.amazon.com:443'', ''www.amazon.com''), (''aws.amazon.com:443'', ''aws.amazon.com''),
      (''www.oracle.com:443'', ''www.oracle.com''), (''www.nvidia.com:443'', ''www.nvidia.com''),
      (''www.amd.com:443'', ''www.amd.com''), (''www.intel.com:443'', ''www.intel.com''),
      (''www.sony.com:443'', ''www.sony.com'')]"

definition getRandomRealityTarget :: "rat \<Rightarrow> string \<times> string" where
  "getRandomRealityTarget rnd = REALITY_TARGETS ! nat \<lfloor>rnd * of_nat (length REALITY_TARGETS)\<rfloor>"

end
