(* ===== verification/ModelsProps.thy ===== *)
theory ModelsProps
  imports Models FormatProps
begin

text \<open>
  Theorems on the models: the settings editor offers saving exactly when something
  changed and sends what the schema accepts; the quota of an inbound in gibibytes loses a
  hundredth; the cache of client statistics.
\<close>

section \<open>Copying properties\<close>

definition cloned :: "obj \<Rightarrow> obj \<Rightarrow> string \<Rightarrow> js" where
  "cloned dest src k = (case map_of (rev src) k of
     Some v \<Rightarrow> if v = JUndef then js_get dest k else v | None \<Rightarrow> js_get dest k)"

lemma cloneProps_keys: "map fst (cloneProps dest src ig) = map fst dest"
proof (induction src arbitrary: dest)
  case (Cons a src)
  obtain k v where a: "a = (k, v)" by (cases a)
  have "map fst (js_put k v dest) = map fst dest" if "js_has dest k"
    using that by (simp add: js_put_def keys_replace_key)
  then show ?case using Cons a by (simp add: cloneProps_def)
qed (simp add: cloneProps_def)

lemma cloneProps_has [simp]: "js_has (cloneProps dest src ig) k = js_has dest k"
  by (metis cloneProps_keys js_has_iff set_map)

lemma cloneProps_Cons:
  "cloneProps dest ((k, v) # src) ig =
     cloneProps (if \<not> js_has dest k \<or> v = JUndef \<or> k \<in> set ig then dest else js_put k v dest) src ig"
  by (simp add: cloneProps_def)

lemma js_get_cloneProps:
  assumes "distinct (map fst src)" "js_has dest k"
  shows "js_get (cloneProps dest src []) k = (if js_get src k = JUndef then js_get dest k else js_get src k)"
  using assms
proof (induction src arbitrary: dest)
  case (Cons a src)
  obtain k' v where a: "a = (k', v)" by (cases a)
  let ?d = "if \<not> js_has dest k' \<or> v = JUndef then dest else js_put k' v dest"
  have "js_has ?d k" using Cons.prems(2) by simp
  then have ih: "js_get (cloneProps ?d src []) k = (if js_get src k = JUndef then js_get ?d k else js_get src k)"
    using Cons by simp
  have "k' = k \<Longrightarrow> js_get src k = JUndef" using Cons.prems(1) a
    by (simp add: js_get_def map_of_eq_None_iff split: option.splits) (metis image_eqI fst_conv map_of_SomeD option.distinct(1) option.exhaust)
  then show ?case using ih a Cons.prems(2) by (auto simp: cloneProps_Cons)
qed (simp add: cloneProps_def)

text \<open>An object is determined by its keys, in order, and its members.\<close>

lemma obj_eqI: "map fst m = map fst n \<Longrightarrow> distinct (map fst m) \<Longrightarrow> (\<And>k. k \<in> set (map fst m) \<Longrightarrow> js_get m k = js_get n k) \<Longrightarrow> m = n"
proof (induction m arbitrary: n)
  case (Cons a m)
  obtain k v where a: "a = (k, v)" by (cases a)
  obtain w n' where n: "n = (k, w) # n'" using Cons.prems(1) a by (cases n) auto
  have "v = w" using Cons.prems(3) [of k] a n by simp
  moreover have "m = n'"
  proof (rule Cons.IH)
    fix l
    assume "l \<in> set (map fst m)"
    then show "js_get m l = js_get n' l" using Cons.prems(2) Cons.prems(3) [of l] a n by (auto split: if_splits)
  qed (use Cons.prems a n in auto)
  ultimately show ?case using a n by simp
qed simp

section \<open>Settings\<close>

lemma default_setting_distinct: "distinct (map fst default_setting)"
  by (simp add: default_setting_def)

lemma AllSetting_keys [simp]: "map fst (AllSetting d) = map fst default_setting"
  by (cases d) (simp_all add: AllSetting_def cloneProps_keys)

definition setting_names :: "string set" where
  "setting_names = set (map fst default_setting)"

text \<open>An editor the page can reach: loaded once, then patched in known settings.\<close>

definition known_patch :: "obj \<Rightarrow> bool" where
  "known_patch patch \<longleftrightarrow> set (map fst patch) \<subseteq> setting_names"

definition edited :: "js \<Rightarrow> obj list \<Rightarrow> settings_editor" where
  "edited d patches = foldl (\<lambda>e p. updateSetting p e) (settings_loaded d new_editor) patches"

lemma put_all_keys: "set (map fst new) \<subseteq> set (map fst m) \<Longrightarrow> map fst (js_put_all m new) = map fst m"
proof (induction new arbitrary: m)
  case (Cons a new)
  obtain k v where a: "a = (k, v)" by (cases a)
  have "js_has m k" using Cons.prems a by (simp add: js_has_iff)
  then have "map fst (js_put k v m) = map fst m" by (simp add: js_put_def keys_replace_key)
  moreover have "set (map fst new) \<subseteq> set (map fst (js_put k v m))"
    using Cons.prems a calculation by (simp only: list.map list.set fst_conv insert_subset)
  then have "map fst (js_put_all (js_put k v m) new) = map fst (js_put k v m)" by (rule Cons.IH)
  ultimately show ?case using a by (simp add: js_put_all_def)
qed (simp add: js_put_all_def)

lemma edited_inv:
  assumes "list_all known_patch patches"
  shows "map fst (se_draft (edited d patches)) = map fst default_setting \<and>
    server_setting (edited d patches) = AllSetting d"
  using assms
proof (induction patches rule: rev_induct)
  case Nil
  then show ?case by (simp add: edited_def settings_loaded_def server_setting_def)
next
  case (snoc p patches)
  then have "set (map fst p) \<subseteq> set (map fst default_setting)" by (simp add: known_patch_def setting_names_def)
  then have "map fst (js_put_all (AllSetting x) p) = map fst default_setting" for x
    using put_all_keys [of p "AllSetting x"] by simp
  then show ?case using snoc by (simp add: edited_def updateSetting_def server_setting_def)
qed

lemma equals_iff:
  assumes "map fst m = map fst n" "distinct (map fst m)" "JNum NaN \<notin> snd ` set m"
  shows "equals (JObj m) (JObj n) \<longleftrightarrow> m = n"
proof
  assume e: "equals (JObj m) (JObj n)"
  show "m = n"
  proof (rule obj_eqI [OF assms(1,2)])
    fix k
    assume "k \<in> set (map fst m)"
    then obtain v where kv: "(k, v) \<in> set m" by auto
    then have "js_get m k = v" using assms(2) by (simp add: js_get_def)
    moreover have "strict_eq v (js_get n k)" using e kv by (auto simp: equals_def list_all_iff)
    ultimately show "js_get m k = js_get n k" by (simp add: strict_eq_def)
  qed
next
  assume "m = n"
  moreover have "strict_eq v (js_get m k)" if "(k, v) \<in> set m" for k v
    using that assms(2,3) by (force simp: strict_eq_def js_get_def)
  ultimately show "equals (JObj m) (JObj n)"
    by (auto simp: equals_def list_all_iff js_has_iff rev_image_eqI)
qed

text \<open>C36. The settings page offers saving exactly when the draft differs from what the hub sent:
  after any sequence of edits of known settings, edits that were taken back included.\<close>

theorem save_offered_iff_changed:
  assumes "list_all known_patch patches" and "JNum NaN \<notin> snd ` set (AllSetting d)"
  shows "saveDisabled (edited d patches) \<longleftrightarrow> se_draft (edited d patches) = AllSetting d"
proof -
  have i: "map fst (se_draft (edited d patches)) = map fst default_setting"
    "server_setting (edited d patches) = AllSetting d" using edited_inv [OF assms(1)] by simp_all
  have "distinct (map fst (AllSetting d))" by (simp add: default_setting_distinct)
  then have "equals (JObj (AllSetting d)) (JObj (se_draft (edited d patches))) \<longleftrightarrow>
      AllSetting d = se_draft (edited d patches)"
    using assms(2) i by (intro equals_iff) simp_all
  then show ?thesis using i by (auto simp: saveDisabled_def)
qed

theorem save_offered_iff_changed_witness:
  "\<not> saveDisabled (edited JNull [[(''webPort'', JInt 443)]])"
proof -
  have k: "list_all known_patch [[(''webPort'', JInt 443)]]"
    by (simp add: known_patch_def setting_names_def default_setting_def)
  have n: "JNum NaN \<notin> snd ` set (AllSetting JNull)" by (simp add: AllSetting_def default_setting_def)
  have g: "js_get (se_draft (edited JNull [[(''webPort'', JInt 443)]])) ''webPort'' = JInt 443"
    by (simp add: edited_def updateSetting_def js_put_all_def)
  have "js_get (AllSetting JNull) ''webPort'' = JInt 2053" by (simp add: AllSetting_def default_setting_def)
  with g have "se_draft (edited JNull [[(''webPort'', JInt 443)]]) \<noteq> AllSetting JNull" by auto
  then show ?thesis using save_offered_iff_changed [OF k n] by simp
qed

subsection \<open>What is saved\<close>

lemma fields_of_all:
  assumes "\<And>k s. (k, s) \<in> set fs \<Longrightarrow> js_has m k \<and> P s (js_get m k) = Some (js_get m k)"
  shows "fields_of P fs m = Some (map (\<lambda>(k, s). (k, js_get m k)) fs)"
  using assms
proof (induction fs)
  case (Cons a fs)
  obtain k s where a: "a = (k, s)" by (cases a)
  have "js_has m k \<and> P s (js_get m k) = Some (js_get m k)" by (rule Cons.prems) (simp add: a)
  moreover have "fields_of P fs m = Some (map (\<lambda>(k, s). (k, js_get m k)) fs)"
    by (rule Cons.IH, rule Cons.prems) simp
  ultimately show ?case by (simp add: a)
qed simp

lemma loose_all:
  assumes "map fst m = map fst fs" "distinct (map fst m)"
    and "\<And>k s. (k, s) \<in> set fs \<Longrightarrow> zparse u s (js_get m k) = Some (js_get m k)"
  shows "zparse u (ZLoose fs) (JObj m) = Some (JObj m)"
proof -
  have has: "js_has m k" if "(k, s) \<in> set fs" for k s
  proof -
    have "k \<in> set (map fst fs)" using that by force
    then show ?thesis using assms(1) by (simp add: js_has_iff flip: set_map)
  qed
  let ?r = "map (\<lambda>(k, s). (k, js_get m k)) fs"
  have "fields_of (zparse u) fs m = Some ?r" by (rule fields_of_all) (use has assms(3) in blast)
  moreover have "?r = m"
  proof (rule obj_eqI)
    show keys: "map fst ?r = map fst m" using assms(1) by (simp add: case_prod_unfold comp_def)
    then show "distinct (map fst ?r)" using assms(2) by simp
    fix k
    assume "k \<in> set (map fst ?r)"
    then obtain s where "(k, s) \<in> set fs" by (auto simp: case_prod_unfold)
    then have "(k, js_get m k) \<in> set ?r" by force
    then show "js_get ?r k = js_get m k"
      using \<open>distinct (map fst ?r)\<close> by (simp only: js_get_def [of ?r k] map_of_is_SomeI option.case)
  qed
  moreover have "fst x \<in> set (map fst m)" if "x \<in> set m" for x using that by simp
  then have "filter (\<lambda>(k, v). k \<notin> set (map fst fs)) m = []"
    unfolding assms(1) [symmetric] by (simp add: filter_empty_conv case_prod_unfold)
  then have "loose_result fs m m = m" by (simp add: loose_result_def)
  ultimately show ?thesis by simp
qed

definition setting_fields :: "(string \<times> zschema) list" where
  "setting_fields = (case AllSettingSchema of ZLoose fs \<Rightarrow> fs | _ \<Rightarrow> [])"

lemma AllSettingSchema_fields: "AllSettingSchema = ZLoose setting_fields"
  by (simp add: setting_fields_def AllSettingSchema_def)

text \<open>The class and the schema name the same settings in the same order, and the initial value
  of every member satisfies its schema.\<close>

lemma setting_fields_names: "map fst setting_fields = map fst default_setting"
  by (simp add: setting_fields_def AllSettingSchema_def default_setting_def)

lemma default_setting_fits:
  "list_all2 (\<lambda>(k, s) (k', v). zparse u s v = Some v) setting_fields default_setting"
  by (simp add: setting_fields_def schema_defs default_setting_def keep_rules)

lemma default_member_fits:
  assumes "(k, s) \<in> set setting_fields"
  shows "zparse u s (js_get default_setting k) = Some (js_get default_setting k)"
proof -
  obtain i where i: "i < length setting_fields" "setting_fields ! i = (k, s)"
    using assms by (auto simp: in_set_conv_nth)
  then have l: "i < length default_setting" using default_setting_fits [of u] by (simp add: list_all2_lengthD [symmetric])
  have "map fst default_setting ! i = k" using i l setting_fields_names by (metis fst_conv nth_map)
  then obtain v where v: "default_setting ! i = (k, v)" using l by (cases "default_setting ! i") simp
  then have "zparse u s v = Some v" using list_all2_nthD [OF default_setting_fits [of u] i(1)] i(2) by simp
  moreover have "(k, v) \<in> set default_setting" using v l by (metis nth_mem)
  then have "js_get default_setting k = v" using default_setting_distinct by (simp add: js_get_def)
  ultimately show ?thesis by simp
qed

lemma partial_again: "zparse u s v = Some v \<Longrightarrow> zparse u (ZOptional s) v = Some v"
  by simp

text \<open>What the settings page sends for what the hub sent is the hub's own settings: every setting
  of the answer with its value, a default only where the answer has none, and the schema of
  the update accepts it as it is.\<close>

theorem saved_settings_accepted:
  assumes "zod (hub_zod H) uuid" and "hub_zod H AllSettingSchema answer = Some (JObj m)" and "obj_wf m"
  shows "setting_body H (AllSetting (JObj m)) = JObj (AllSetting (JObj m)) \<and>
    (\<forall>k \<in> setting_names. js_get (AllSetting (JObj m)) k =
       (if js_get m k = JUndef then js_get default_setting k else js_get m k))"
proof -
  let ?fs = "map (\<lambda>(k, t). (k, ZOptional t)) setting_fields"
  let ?A = "AllSetting (JObj m)"
  have laws: "zfree s \<Longrightarrow> hub_zod H s v = zparse uuid s v" for s v by (rule zod.laws_determine [OF assms(1)])
  have d: "distinct (map fst setting_fields)" by (simp add: setting_fields_names default_setting_distinct)
  have "zparse uuid AllSettingSchema answer = Some (JObj m)" using assms(2) by (simp add: laws)
  then have "zparse uuid AllSettingSchema (JObj m) = Some (JObj m)" by (rule zparse_again [rotated]) simp
  then obtain r where r: "fields_of (zparse uuid) setting_fields m = Some r" "m = loose_result setting_fields m r"
    by (auto simp: AllSettingSchema_fields)
  have each: "zparse uuid s (js_get m k) = Some (js_get m k)" if "(k, s) \<in> set setting_fields" for k s
  proof -
    have "k \<in> set (map fst setting_fields)" using that by force
    then have "map_of m k = map_of r k" using loose_result_get [of k setting_fields m r] r(2) by simp
    then have "js_get m k = js_get r k" by (simp add: js_get_def)
    with fields_of_get(1) [OF d r(1) that] show ?thesis by simp
  qed
  have get: "js_get ?A k = (if js_get m k = JUndef then js_get default_setting k else js_get m k)"
    if "k \<in> setting_names" for k
    unfolding AllSetting_def js.case using assms(3) that
    by (intro js_get_cloneProps) (simp_all add: obj_wf_def setting_names_def js_has_iff)
  have "zparse uuid (ZLoose ?fs) (JObj ?A) = Some (JObj ?A)"
  proof (rule loose_all)
    show "map fst ?A = map fst ?fs" by (simp add: setting_fields_names comp_def case_prod_unfold)
    show "distinct (map fst ?A)" by (simp add: default_setting_distinct)
    fix k s
    assume "(k, s) \<in> set ?fs"
    then obtain t where t: "(k, t) \<in> set setting_fields" "s = ZOptional t" by auto
    then have "k \<in> setting_names" using setting_fields_names unfolding setting_names_def
      by (metis fst_conv image_eqI set_map)
    then have "zparse uuid t (js_get ?A k) = Some (js_get ?A k)"
      using get each [OF t(1)] default_member_fits [OF t(1)] by simp
    then show "zparse uuid s (js_get ?A k) = Some (js_get ?A k)" using t(2) by (simp add: partial_again)
  qed
  moreover have "zfree (ZLoose setting_fields)" unfolding AllSettingSchema_fields [symmetric] by simp
  then have "zfree (ZLoose ?fs)" by (simp add: list.pred_map comp_def case_prod_unfold)
  ultimately have "hub_zod H (partial_loose AllSettingSchema) (JObj ?A) = Some (JObj ?A)"
    by (simp add: laws AllSettingSchema_fields partial_loose_def)
  then show ?thesis using get by (simp add: setting_body_def)
qed

theorem saved_settings_accepted_witness:
  "setting_body (sample_hub JNull) (AllSetting (JObj [(''webPort'', JInt 443)])) =
     JObj (AllSetting (JObj [(''webPort'', JInt 443)]))"
proof -
  have z: "zod (hub_zod (sample_hub JNull)) (\<lambda>s. True)"
    using zod_reference.zod_axioms by (simp add: sample_hub_def)
  have a: "hub_zod (sample_hub JNull) AllSettingSchema (JObj [(''webPort'', JInt 443)]) =
      Some (JObj [(''webPort'', JInt 443)])"
    by (simp add: sample_hub_def schema_defs keep_rules js_has_def loose_result_def)
  show ?thesis using saved_settings_accepted [OF z a] by (simp add: obj_wf_def)
qed

section \<open>Inbounds\<close>

lemma get_set_num [simp]: "inbound_num k (set_totalGB gb i) =
    (if k = ''total'' then NumberFormatter_toFixed (gb * ONE_GB) 0 else inbound_num k i)"
  by (simp add: inbound_num_def set_totalGB_def)

lemma quota_quotient:
  fixes k :: int
  shows "k * 1073741824 div 100 * 100 div 1073741824 = (if 25 dvd k then k else k - 1)"
proof -
  define r where "r = k * 1073741824 mod 100"
  have split: "k * 1073741824 div 100 * 100 = k * 1073741824 - r"
    unfolding r_def by (simp only: minus_mod_eq_div_mult)
  have bounds: "0 \<le> r" "r < 100" by (simp_all add: r_def)
  have "r = 0 \<longleftrightarrow> 25 dvd k"
  proof -
    have "r = 0 \<longleftrightarrow> 25 * 4 dvd k * 268435456 * (4 :: int)"
      by (simp add: r_def dvd_eq_mod_eq_0 mult.commute)
    also have "\<dots> \<longleftrightarrow> 25 dvd k * (268435456 :: int)" by (simp only: dvd_mult_cancel_right) simp
    also have "\<dots> \<longleftrightarrow> 25 dvd k"
    proof -
      have "coprime (25 :: int) 268435456" by (simp add: coprime_iff_gcd_eq_1 gcd_non_0_int)
      then show ?thesis by (rule coprime_dvd_mult_left_iff)
    qed
    finally show ?thesis .
  qed
  moreover have "(k * 1073741824 - r) div 1073741824 = (if r = 0 then k else k - 1)"
  proof (cases "r = 0")
    case False
    show ?thesis
      by (rule int_div_pos_eq [where r = "1073741824 - r"]) (use bounds False in \<open>auto simp: algebra_simps\<close>)
  qed simp
  ultimately show ?thesis by (simp only: split)
qed

text \<open>A quota written in gibibytes, in hundredths, reads back as it is only when it is a multiple
  of a quarter; every other one reads back a hundredth smaller, because both conversions
  round down.\<close>

theorem totalGB_roundtrip:
  "totalGB (set_totalGB (of_int k / 100) i) = (if 25 dvd k then of_int k / 100 else of_int (k - 1) / 100)"
proof -
  let ?b = "k * 1073741824 div 100"
  have b: "NumberFormatter_toFixed (of_int k / 100 * ONE_GB) 0 = of_int ?b"
  proof -
    have "of_int k / 100 * ONE_GB = of_int (k * 1073741824) / (of_int 100 :: rat)"
      by (simp add: ONE_GB_def ONE_MB_def ONE_KB_def)
    then show ?thesis by (simp only: NumberFormatter_toFixed_def floor_divide_of_int_eq power_0 mult_1_right div_by_1)
  qed
  have "totalGB (set_totalGB (of_int k / 100) i) = of_int (?b * 100 div 1073741824) / 100"
  proof -
    have "of_int ?b / ONE_GB * 10 ^ 2 = of_int (?b * 100) / (of_int 1073741824 :: rat)"
      by (simp add: ONE_GB_def ONE_MB_def ONE_KB_def)
    then have "\<lfloor>of_int ?b / ONE_GB * 10 ^ 2\<rfloor> = ?b * 100 div 1073741824"
      by (simp only: floor_divide_of_int_eq)
    moreover have "totalGB (set_totalGB (of_int k / 100) i) = NumberFormatter_toFixed (of_int ?b / ONE_GB) 2"
      unfolding totalGB_def get_set_num b by simp
    ultimately show ?thesis by (simp add: NumberFormatter_toFixed_def)
  qed
  moreover have "?b * 100 div 1073741824 = (if 25 dvd k then k else k - 1)"
    by (rule quota_quotient)
  ultimately show ?thesis by simp
qed

text \<open>Statistics are looked up in the rows the inbound had when they were first looked up.\<close>

definition last_stats :: "db_inbound_model \<Rightarrow> string \<Rightarrow> js option" where
  "last_stats i email =
     (case js_get (props i) ''clientStats'' of
        JArr rows \<Rightarrow> find (\<lambda>r. email \<noteq> [] \<and> js_member r ''email'' = JStr email) (rev rows)
      | _ \<Rightarrow> None)"

lemma map_of_stats_map: "map_of (stats_map (JArr rows)) email =
    find (\<lambda>r. email \<noteq> [] \<and> js_member r ''email'' = JStr email) (rev rows)"
proof (induction rows rule: rev_induct)
  case (snoc r rows)
  then show ?case by (cases "js_member r ''email''") (auto simp: stats_map_def)
qed (simp add: stats_map_def)

text \<open>The statistics of a client are those of the last row for its email, however often they
  are looked up, for as long as the rows are not replaced; replaced rows are seen only after
  the cache is dropped.\<close>

theorem client_stats_cache:
  assumes "clientStatsMap i = None"
  shows "let i' = snd (getClientStats e i);
      j = i'\<lparr>props := js_put ''clientStats'' (JArr rows) (props i')\<rparr>
    in fst (getClientStats email i) = last_stats i email \<and>
       fst (getClientStats email i') = last_stats i email \<and>
       fst (getClientStats email j) = last_stats i email \<and>
       fst (getClientStats email (invalidateCache j)) = last_stats j email"
proof -
  have "map_of (stats_map (js_get (props i) ''clientStats'')) email = last_stats i email" for i
    by (cases "js_get (props i) ''clientStats''") (simp_all add: last_stats_def map_of_stats_map, simp_all add: stats_map_def)
  then show ?thesis using assms by (simp add: getClientStats_def invalidateCache_def Let_def)
qed

theorem client_stats_cache_witness:
  "fst (getClientStats ''a'' (snd (getClientStats ''a'' (DBInbound JNull)))) = None"
  using client_stats_cache [of "DBInbound JNull" "''a''" "[]" "''a''"]
  by (simp add: DBInbound_def default_inbound_def last_stats_def Let_def)

end
