(* ===== verification/XraySetting.thy ===== *)
theory XraySetting
  imports HubCalls
begin

text \<open>
  \<open>frontend/src/hooks/useXraySetting.ts\<close>: the editor of the Xray template, which keeps a JSON text
  and the parsed template side by side, its saving, and the tests of outbounds, single ones and
  all of them in two lanes of concurrent workers; with the row tests of
  \<open>pages/xray/outbounds/outbounds-tab-helpers.ts\<close>.

  \<open>syncingRef\<close> is set and cleared within one synchronous operation, so it is never set between
  two operations and is left out.
\<close>

section \<open>Outbounds\<close>

definition isUdpOutbound :: "js \<Rightarrow> bool" where
  "isUdpOutbound outbound =
     (let p = js_member outbound ''protocol''; n = js_member (js_member outbound ''streamSettings'') ''network''
      in p = JStr ''wireguard'' \<or> p = JStr ''hysteria'' \<or>
         n = JStr ''hysteria'' \<or> n = JStr ''kcp'' \<or> n = JStr ''quic'')"

definition isUntestable :: "js \<Rightarrow> string \<Rightarrow> bool" where
  "isUntestable out mode =
     (if \<not> truthy out then True
      else if js_member out ''protocol'' = JStr ''blackhole'' \<or> js_member out ''protocol'' = JStr ''loopback'' \<or>
              js_member out ''tag'' = JStr ''blocked'' then True
      else if mode = ''tcp'' \<and>
              (js_member out ''protocol'' = JStr ''freedom'' \<or> js_member out ''protocol'' = JStr ''dns'') then True
      else False)"

section \<open>The configuration\<close>

definition DEFAULT_TEST_URL :: string where
  "DEFAULT_TEST_URL = ''https://www.google.com/generate_204''"

text \<open>The text of a \<open>SyntaxError\<close> belongs to the engine: it is the argument \<open>syntax_error\<close>.\<close>

definition xray_config_of :: "(zschema \<Rightarrow> js \<Rightarrow> js option) \<Rightarrow> (string \<Rightarrow> string) \<Rightarrow> msg \<Rightarrow> js fetched" where
  "xray_config_of P syntax_error m =
     (if \<not> msg_ok m then Failed (thrown (msg_text m) ''Failed to load xray config'')
      else case msg_obj m of
        JStr s \<Rightarrow>
          (case JSON_parse s of
             None \<Rightarrow> Failed (''Malformed xray config response: '' @ syntax_error s)
           | Some parsed \<Rightarrow>
               (case P XrayConfigPayloadSchema parsed of None \<Rightarrow> Fetched parsed | Some d \<Rightarrow> Fetched d))
      | _ \<Rightarrow> Failed ''Malformed xray config response: expected string'')"

definition fetchXrayConfig ::
  "('h, 's) hub \<Rightarrow> (string \<Rightarrow> string) \<Rightarrow> ('h, 's) app \<Rightarrow> js fetched \<times> ('h, 's) app" where
  "fetchXrayConfig H syntax_error a =
     (case hub_post H True ''/panel/xray/'' JUndef False a of
        (None, a) \<Rightarrow> (Unsettled, a)
      | (Some m, a) \<Rightarrow> (xray_config_of (hub_zod H) syntax_error m, a))"

definition fetchOutboundsTraffic :: "('h, 's) hub \<Rightarrow> ('h, 's) app \<Rightarrow> js fetched \<times> ('h, 's) app" where
  "fetchOutboundsTraffic H a =
     fetch_list H OutboundTrafficListSchema ''Failed to fetch outbounds traffic''
       (hub_get H True ''/panel/xray/getOutboundsTraffic'' a)"

section \<open>The editor\<close>

text \<open>The state of the hook; texts are values, as a failed validation lets any value through.\<close>

record xray_editor =
  xe_saveDisabled :: bool
  xe_text :: js
  xe_template :: js
  xe_url :: js
  xe_inboundTags :: js
  xe_reverseTags :: js
  xe_restartResult :: js
  xe_oldText :: js
  xe_oldUrl :: js

definition new_xray_editor :: xray_editor where
  "new_xray_editor =
     \<lparr>xe_saveDisabled = True, xe_text = JStr [], xe_template = JNull, xe_url = JStr DEFAULT_TEST_URL,
      xe_inboundTags = JArr [], xe_reverseTags = JArr [], xe_restartResult = JStr [],
      xe_oldText = JStr [], xe_oldUrl = JStr []\<rparr>"

definition pretty :: "js \<Rightarrow> js" where
  "pretty v = (case JSON_stringify_pretty v of Some s \<Rightarrow> JStr s | None \<Rightarrow> JUndef)"

definition config_loaded :: "js \<Rightarrow> xray_editor \<Rightarrow> xray_editor" where
  "config_loaded d e =
     (if \<not> truthy d then e
      else
        let t = pretty (js_member d ''xraySetting'');
            u = js_or (js_member d ''outboundTestUrl'') (JStr DEFAULT_TEST_URL)
        in e\<lparr>xe_text := t, xe_template := js_member d ''xraySetting'', xe_oldText := t,
             xe_inboundTags := js_or (js_member d ''inboundTags'') (JArr []),
             xe_reverseTags := js_or (js_member d ''clientReverseTags'') (JArr []),
             xe_url := u, xe_oldUrl := u, xe_saveDisabled := True\<rparr>)"

definition setXraySetting :: "string \<Rightarrow> xray_editor \<Rightarrow> xray_editor" where
  "setXraySetting t e =
     (let e = e\<lparr>xe_text := JStr t\<rparr>
      in case JSON_parse t of Some parsed \<Rightarrow> e\<lparr>xe_template := parsed\<rparr> | None \<Rightarrow> e)"

text \<open>A value is the constant update.\<close>

definition setTemplateSettings :: "(js \<Rightarrow> js) \<Rightarrow> xray_editor \<Rightarrow> xray_editor" where
  "setTemplateSettings f e =
     (let next' = f (xe_template e)
      in if nullish next' then e\<lparr>xe_template := next'\<rparr>
         else e\<lparr>xe_text := pretty next', xe_template := next'\<rparr>)"

definition setOutboundTestUrl :: "js \<Rightarrow> xray_editor \<Rightarrow> xray_editor" where
  "setOutboundTestUrl v e = e\<lparr>xe_url := v\<rparr>"

definition poll_dirty :: "xray_editor \<Rightarrow> xray_editor" where
  "poll_dirty e =
     (let dirtyXray = xe_oldText e \<noteq> xe_text e; dirtyUrl = xe_oldUrl e \<noteq> xe_url e
      in e\<lparr>xe_saveDisabled := \<not> (dirtyXray \<or> dirtyUrl)\<rparr>)"

text \<open>
  Saving: what is sent, taken when the request starts, and what the answer does to the
  editor, which may have been edited meanwhile.
\<close>

definition save_sent :: "xray_editor \<Rightarrow> js \<times> js" where
  "save_sent e = (xe_text e, js_or (xe_url e) (JStr DEFAULT_TEST_URL))"

definition save_body :: "js \<times> js \<Rightarrow> js" where
  "save_body snapshot = JObj [(''xraySetting'', fst snapshot), (''outboundTestUrl'', snd snapshot)]"

definition save_answered :: "js \<times> js \<Rightarrow> msg \<Rightarrow> xray_editor \<Rightarrow> xray_editor" where
  "save_answered snapshot m e =
     (if \<not> msg_ok m then e
      else e\<lparr>xe_oldText := fst snapshot, xe_oldUrl := snd snapshot, xe_saveDisabled := True\<rparr>)"

definition saveXray ::
  "('h, 's) hub \<Rightarrow> xray_editor \<times> ('h, 's) app \<Rightarrow> msg option \<times> xray_editor \<times> ('h, 's) app" where
  "saveXray H s =
     (let (e, a) = s; snapshot = save_sent e
      in case hub_post H False ''/panel/xray/update'' (save_body snapshot) False a of
           (None, a) \<Rightarrow> (None, e, a)
         | (Some m, a) \<Rightarrow>
             (Some m, save_answered snapshot m e, if msg_ok m then invalidate_key [''xray'', ''config''] a else a))"

definition resetOutboundsTraffic :: "('h, 's) hub \<Rightarrow> string \<Rightarrow> ('h, 's) app \<Rightarrow> msg option \<times> ('h, 's) app" where
  "resetOutboundsTraffic H tag a =
     mutate id (invalidate_key [''xray'', ''outboundsTraffic''])
       (hub_post H False ''/panel/xray/resetOutboundsTraffic'' (JObj [(''tag'', JStr tag)]) False a)"

text \<open>Restarting: half a second after a successful restart its result is asked for.\<close>

definition restartXray ::
  "('h, 's) hub \<Rightarrow> xray_editor \<times> ('h, 's) app \<Rightarrow> msg option \<times> xray_editor \<times> ('h, 's) app" where
  "restartXray H s =
     (let (e, a) = s
      in case hub_post H False ''/panel/api/server/restartXrayService'' JUndef False a of
           (None, a) \<Rightarrow> (None, e, a)
         | (Some m, a) \<Rightarrow>
             if \<not> msg_ok m then (Some m, e, a)
             else (case hub_get H False ''/panel/xray/getXrayResult'' a of
                     (None, a) \<Rightarrow> (None, e, a)
                   | (Some r, a) \<Rightarrow>
                       let v = parseMsg (hub_zod H) r ZString
                       in (Some m,
                           if msg_ok v then e\<lparr>xe_restartResult := js_or (msg_obj v) (JStr [])\<rparr> else e, a)))"

definition json_clone :: "js \<Rightarrow> js option" where
  "json_clone v = Option.bind (JSON_stringify v) JSON_parse"

definition resetToDefault ::
  "('h, 's) hub \<Rightarrow> xray_editor \<times> ('h, 's) app \<Rightarrow> msg option \<times> xray_editor \<times> ('h, 's) app" where
  "resetToDefault H s =
     (let (e, a) = s
      in case hub_get H False ''/panel/setting/getDefaultJsonConfig'' a of
           (None, a) \<Rightarrow> (None, e, a)
         | (Some raw, a) \<Rightarrow>
             let m = parseMsg (hub_zod H) raw XraySettingsValueSchema
             in (Some m,
                 if msg_ok m \<and> truthy (msg_obj m)
                 then (case json_clone (msg_obj m) of Some c \<Rightarrow> setTemplateSettings (\<lambda>prev. c) e | None \<Rightarrow> e)
                 else e, a))"

section \<open>Testing an outbound\<close>

record test_state =
  tst_testing :: bool
  tst_result :: js
  tst_mode :: js

text \<open>
  The page that runs tests: the outbounds of the template, the state of each tested row and
  the requests that were sent, with the row each is for.
\<close>

record test_page =
  tp_template :: js
  tp_states :: "nat \<Rightarrow> test_state option"
  tp_requests :: "(nat \<times> js) list"

text \<open>What the call of the hub comes to: an answer, or an error that is thrown.\<close>

datatype test_reply = Replied msg | Threw string

definition effective_mode :: "js \<Rightarrow> string \<Rightarrow> string" where
  "effective_mode outbound mode = (if isUdpOutbound outbound then ''http'' else mode)"

definition test_body :: "js \<Rightarrow> js \<Rightarrow> string \<Rightarrow> js" where
  "test_body template outbound mode =
     JObj [(''outbound'', JStr (the (JSON_stringify outbound))),
           (''allOutbounds'', JStr (the (JSON_stringify (js_or (js_member template ''outbounds'') (JArr []))))),
           (''mode'', JStr (effective_mode outbound mode))]"

text \<open>\<open>testOutbound\<close> up to its \<open>await\<close>, and from there.\<close>

definition test_begins :: "string \<Rightarrow> nat \<Rightarrow> js \<Rightarrow> test_page \<Rightarrow> test_page" where
  "test_begins mode index outbound p =
     (if \<not> truthy outbound then p
      else p\<lparr>tp_states := (tp_states p)(index \<mapsto>
               \<lparr>tst_testing = True, tst_result = JNull, tst_mode = JStr (effective_mode outbound mode)\<rparr>),
             tp_requests := tp_requests p @ [(index, test_body (tp_template p) outbound mode)]\<rparr>)"

definition test_failure :: "js \<Rightarrow> string \<Rightarrow> js" where
  "test_failure e mode = JObj [(''success'', JBool False), (''error'', e), (''mode'', JStr mode)]"

definition test_result_of :: "(zschema \<Rightarrow> js \<Rightarrow> js option) \<Rightarrow> string \<Rightarrow> test_reply \<Rightarrow> js \<times> js" where
  "test_result_of P mode r =
     (case r of
        Replied raw \<Rightarrow>
          let m = parseMsg P raw OutboundTestResultSchema
          in if msg_ok m \<and> truthy (msg_obj m) then (msg_obj m, msg_obj m)
             else (test_failure (js_or (msg_text m) (JStr ''Unknown error'')) mode, JNull)
      | Threw e \<Rightarrow> (test_failure (JStr e) mode, JNull))"

definition test_ends ::
  "(zschema \<Rightarrow> js \<Rightarrow> js option) \<Rightarrow> string \<Rightarrow> nat \<Rightarrow> js \<Rightarrow> test_reply \<Rightarrow> test_page \<Rightarrow> test_page" where
  "test_ends P mode index outbound r p =
     (if \<not> truthy outbound then p
      else p\<lparr>tp_states := (tp_states p)(index \<mapsto>
               \<lparr>tst_testing = False, tst_result = fst (test_result_of P (effective_mode outbound mode) r),
                tst_mode = JUndef\<rparr>)\<rparr>)"

text \<open>One test on its own: its value is the result, or \<open>null\<close>.\<close>

definition testOutbound ::
  "('h, 's) hub \<Rightarrow> nat \<Rightarrow> js \<Rightarrow> string \<Rightarrow> test_page \<times> ('h, 's) app \<Rightarrow> js option \<times> test_page \<times> ('h, 's) app" where
  "testOutbound H index outbound mode s =
     (let (p, a) = s
      in if \<not> truthy outbound then (Some JNull, p, a)
         else
           let p' = test_begins mode index outbound p
           in case hub_post H False ''/panel/xray/testOutbound'' (test_body (tp_template p) outbound mode) False a of
                (None, a) \<Rightarrow> (None, p', a)
              | (Some m, a) \<Rightarrow>
                  (Some (snd (test_result_of (hub_zod H) (effective_mode outbound mode) (Replied m))),
                   test_ends (hub_zod H) mode index outbound (Replied m) p', a))"

section \<open>Testing all outbounds\<close>

type_synonym test_item = "nat \<times> js"

text \<open>The two queues.\<close>

definition queue_outbound :: "string \<Rightarrow> test_item \<Rightarrow> test_item list \<times> test_item list \<Rightarrow> test_item list \<times> test_item list" where
  "queue_outbound mode it q =
     (case (it, q) of ((i, ob), (tcpQueue, httpQueue)) \<Rightarrow>
        let tag = js_member ob ''tag''; proto = js_member ob ''protocol''
        in if proto = JStr ''blackhole'' \<or> proto = JStr ''loopback'' \<or> tag = JStr ''blocked'' then q
           else if mode = ''tcp'' \<and> (proto = JStr ''freedom'' \<or> proto = JStr ''dns'') then q
           else if mode = ''http'' \<or> isUdpOutbound ob then (tcpQueue, httpQueue @ [(i, ob)])
           else (tcpQueue @ [(i, ob)], httpQueue))"

definition outbound_queues :: "string \<Rightarrow> js list \<Rightarrow> test_item list \<times> test_item list" where
  "outbound_queues mode list = fold (queue_outbound mode) (enumerate 0 list) ([], [])"

text \<open>
  A lane: the queue its workers share, and for each worker the item whose test it waits for,
  or nothing once it has returned.
\<close>

record lane =
  ln_queue :: "test_item list"
  ln_workers :: "test_item option list"

record test_run =
  tr_page :: test_page
  tr_mode :: string
  tr_testingAll :: bool
  tr_tcp :: lane
  tr_http :: lane

text \<open>The body of a worker up to its next \<open>await\<close>, or to its end.\<close>

definition worker_next :: "string \<Rightarrow> test_item list \<times> test_page \<Rightarrow> test_item option \<times> test_item list \<times> test_page" where
  "worker_next mode s =
     (case s of
        ([], p) \<Rightarrow> (None, [], p)
      | (it # queue, p) \<Rightarrow> (Some it, queue, test_begins mode (fst it) (snd it) p))"

text \<open>\<open>Array.from\<close> starts the workers one after the other; their number is fixed before.\<close>

fun start_workers :: "string \<Rightarrow> nat \<Rightarrow> lane \<times> test_page \<Rightarrow> lane \<times> test_page" where
  "start_workers mode 0 s = s"
| "start_workers mode (Suc n) (l, p) =
     (let (w, queue, p) = worker_next mode (ln_queue l, p)
      in start_workers mode n (\<lparr>ln_queue = queue, ln_workers = ln_workers l @ [w]\<rparr>, p))"

definition runLane :: "string \<Rightarrow> test_item list \<Rightarrow> nat \<Rightarrow> test_page \<Rightarrow> lane \<times> test_page" where
  "runLane mode queue concurrency p =
     start_workers mode (min concurrency (length queue)) (\<lparr>ln_queue = queue, ln_workers = []\<rparr>, p)"

definition lane_done :: "lane \<Rightarrow> bool" where
  "lane_done l \<longleftrightarrow> list_all (\<lambda>w. w = None) (ln_workers l)"

text \<open>\<open>Promise.all\<close> and \<open>finally\<close>: when every worker has returned, the run is over.\<close>

definition settle_run :: "test_run \<Rightarrow> test_run" where
  "settle_run r =
     (if tr_testingAll r \<and> lane_done (tr_tcp r) \<and> lane_done (tr_http r) then r\<lparr>tr_testingAll := False\<rparr> else r)"

text \<open>
  A template whose \<open>outbounds\<close> is not an array has no rows to test: the run ends in an error
  before anything is queued.
\<close>

definition template_outbounds :: "js \<Rightarrow> js list" where
  "template_outbounds t = (case js_member t ''outbounds'' of JArr xs \<Rightarrow> xs | _ \<Rightarrow> [])"

definition testAllOutbounds :: "string \<Rightarrow> test_run \<Rightarrow> test_run" where
  "testAllOutbounds mode r =
     (let list = template_outbounds (tp_template (tr_page r))
      in if length list = 0 \<or> tr_testingAll r then r
         else
           let (tcpQueue, httpQueue) = outbound_queues mode list;
               (tcp, p) = runLane mode tcpQueue 8 (tr_page r);
               (http, p) = runLane mode httpQueue 1 p
           in settle_run \<lparr>tr_page = p, tr_mode = mode, tr_testingAll = True, tr_tcp = tcp, tr_http = http\<rparr>)"

text \<open>
  The \<open>await\<close> of worker \<open>w\<close> is over: it stores the result and goes on with the loop.  For a
  missing outbound nothing was sent and there is nothing to store.
\<close>

definition lane_step ::
  "(zschema \<Rightarrow> js \<Rightarrow> js option) \<Rightarrow> string \<Rightarrow> nat \<Rightarrow> test_reply \<Rightarrow> lane \<times> test_page \<Rightarrow> lane \<times> test_page" where
  "lane_step P mode w reply s =
     (let (l, p) = s
      in if w < length (ln_workers l)
         then (case ln_workers l ! w of
                 None \<Rightarrow> (l, p)
               | Some (i, ob) \<Rightarrow>
                   let (w', queue, p) = worker_next mode (ln_queue l, test_ends P mode i ob reply p)
                   in (\<lparr>ln_queue = queue, ln_workers = (ln_workers l)[w := w']\<rparr>, p))
         else (l, p))"

datatype lane_name = TcpLane | HttpLane

datatype run_event =
    Settles lane_name nat test_reply
  | EditTemplate js

definition run_step :: "(zschema \<Rightarrow> js \<Rightarrow> js option) \<Rightarrow> test_run \<Rightarrow> run_event \<Rightarrow> test_run" where
  "run_step P r ev =
     (case ev of
        Settles TcpLane w reply \<Rightarrow>
          let (l, p) = lane_step P (tr_mode r) w reply (tr_tcp r, tr_page r)
          in settle_run (r\<lparr>tr_tcp := l, tr_page := p\<rparr>)
      | Settles HttpLane w reply \<Rightarrow>
          let (l, p) = lane_step P (tr_mode r) w reply (tr_http r, tr_page r)
          in settle_run (r\<lparr>tr_http := l, tr_page := p\<rparr>)
      | EditTemplate t \<Rightarrow> r\<lparr>tr_page := (tr_page r)\<lparr>tp_template := t\<rparr>\<rparr>)"

end
