(* ===== verification/XrayTests.thy ===== *)
theory XrayTests
  imports XraySetting "HOL-Library.Multiset"
begin

text \<open>
  The tests of all outbounds (\<open>testAllOutbounds\<close> of \<open>frontend/src/hooks/useXraySetting.ts\<close>): two lanes of
  concurrent workers over shared queues.  Whatever the order of the answers, each testable row
  is tested once, a row shows a running test exactly while one runs, and the run ends with the
  last answer.
\<close>

section \<open>The queues\<close>

definition skipped :: "string \<Rightarrow> js \<Rightarrow> bool" where
  "skipped mode ob \<longleftrightarrow> js_member ob ''protocol'' \<in> {JStr ''blackhole'', JStr ''loopback''} \<or>
     js_member ob ''tag'' = JStr ''blocked'' \<or>
     mode = ''tcp'' \<and> js_member ob ''protocol'' \<in> {JStr ''freedom'', JStr ''dns''}"

definition http_only :: "string \<Rightarrow> js \<Rightarrow> bool" where
  "http_only mode ob \<longleftrightarrow> mode = ''http'' \<or> isUdpOutbound ob"

definition tcp_plan :: "string \<Rightarrow> js list \<Rightarrow> test_item list" where
  "tcp_plan mode obs = filter (\<lambda>it. \<not> skipped mode (snd it) \<and> \<not> http_only mode (snd it)) (enumerate 0 obs)"

definition http_plan :: "string \<Rightarrow> js list \<Rightarrow> test_item list" where
  "http_plan mode obs = filter (\<lambda>it. \<not> skipped mode (snd it) \<and> http_only mode (snd it)) (enumerate 0 obs)"

lemma queue_outbound_step: "queue_outbound mode (i, ob) (a, b) =
    (if skipped mode ob then (a, b) else if http_only mode ob then (a, b @ [(i, ob)]) else (a @ [(i, ob)], b))"
  by (auto simp: queue_outbound_def skipped_def http_only_def Let_def)

lemma fold_queue: "fold (queue_outbound mode) its (a, b) =
    (a @ filter (\<lambda>it. \<not> skipped mode (snd it) \<and> \<not> http_only mode (snd it)) its,
     b @ filter (\<lambda>it. \<not> skipped mode (snd it) \<and> http_only mode (snd it)) its)"
  by (induction its arbitrary: a b) (auto simp: queue_outbound_step)

lemma outbound_queues_plans: "outbound_queues mode obs = (tcp_plan mode obs, http_plan mode obs)"
  by (simp add: outbound_queues_def fold_queue tcp_plan_def http_plan_def)

lemma plan_disjoint: "set (tcp_plan mode obs) \<inter> set (http_plan mode obs) = {}"
  by (auto simp: tcp_plan_def http_plan_def)

lemma plan_items: "set (tcp_plan mode obs) \<union> set (http_plan mode obs) =
    {(i, ob). i < length obs \<and> ob = obs ! i \<and> \<not> skipped mode ob}"
  by (auto simp: tcp_plan_def http_plan_def in_set_enumerate_eq)

lemma plan_rows: "inj_on fst (set (tcp_plan mode obs) \<union> set (http_plan mode obs))"
  unfolding plan_items by (auto simp: inj_on_def)

lemma plan_distinct [simp]: "distinct (tcp_plan mode obs)" "distinct (http_plan mode obs)"
  by (simp_all add: tcp_plan_def http_plan_def)

lemma untestable_skipped: "isUntestable ob mode \<longleftrightarrow> \<not> truthy ob \<or> skipped mode ob"
  by (auto simp: isUntestable_def skipped_def)

lemma plan_testable: "fst ` {it \<in> set (tcp_plan mode obs) \<union> set (http_plan mode obs). truthy (snd it)} =
    {i. i < length obs \<and> \<not> isUntestable (obs ! i) mode}"
  unfolding plan_items untestable_skipped by force

section \<open>The page\<close>

text \<open>
  The page after the tests of the items \<open>S\<close> have started and those of \<open>B\<close> have not ended:
  one request for each item with an outbound, and a running test shown for those of \<open>B\<close>.
\<close>

definition page_ok :: "test_page \<Rightarrow> test_item set \<Rightarrow> test_item set \<Rightarrow> test_page \<Rightarrow> bool" where
  "page_ok p0 S B p \<longleftrightarrow>
     (\<exists>R. map fst (tp_requests p) = map fst (tp_requests p0) @ R \<and> distinct R \<and>
          set R = fst ` {it \<in> S. truthy (snd it)}) \<and>
     (\<forall>it \<in> S. truthy (snd it) \<longrightarrow>
        (\<exists>st. tp_states p (fst it) = Some st \<and> (tst_testing st \<longleftrightarrow> it \<in> B))) \<and>
     (\<forall>i. i \<notin> fst ` {it \<in> S. truthy (snd it)} \<longrightarrow> tp_states p i = tp_states p0 i)"

lemma page_ok_start: "page_ok p {} {} p"
  by (simp add: page_ok_def)

lemma test_begins_page: "test_begins mode i ob p =
    (if truthy ob then p\<lparr>tp_states := (tp_states p)(i \<mapsto>
         \<lparr>tst_testing = True, tst_result = JNull, tst_mode = JStr (effective_mode ob mode)\<rparr>),
       tp_requests := tp_requests p @ [(i, test_body (tp_template p) ob mode)]\<rparr> else p)"
  by (simp add: test_begins_def)

lemma page_ok_begins:
  assumes ok: "page_ok p0 S B p" and new: "fst it \<notin> fst ` S"
  shows "page_ok p0 (insert it S) (insert it B) (test_begins mode (fst it) (snd it) p)"
proof -
  obtain R where R: "map fst (tp_requests p) = map fst (tp_requests p0) @ R" "distinct R"
      "set R = fst ` {it \<in> S. truthy (snd it)}"
    and st: "\<And>x. x \<in> S \<Longrightarrow> truthy (snd x) \<Longrightarrow>
        \<exists>st. tp_states p (fst x) = Some st \<and> (tst_testing st \<longleftrightarrow> x \<in> B)"
    and out: "\<And>i. i \<notin> fst ` {it \<in> S. truthy (snd it)} \<Longrightarrow> tp_states p i = tp_states p0 i"
    using ok unfolding page_ok_def by blast
  have other: "x \<noteq> it \<and> fst x \<noteq> fst it" if "x \<in> S" for x using that new by (metis imageI)
  show ?thesis
  proof (cases "truthy (snd it)")
    case True
    have new_set: "{x \<in> insert it S. truthy (snd x)} = insert it {x \<in> S. truthy (snd x)}" using True by auto
    have "\<exists>R'. map fst (tp_requests (test_begins mode (fst it) (snd it) p)) = map fst (tp_requests p0) @ R' \<and>
        distinct R' \<and> set R' = fst ` insert it {x \<in> S. truthy (snd x)}"
      by (rule exI [of _ "R @ [fst it]"]) (use R new True in \<open>auto simp: test_begins_page\<close>)
    moreover have "\<exists>st. tp_states (test_begins mode (fst it) (snd it) p) (fst x) = Some st \<and>
        (tst_testing st \<longleftrightarrow> x \<in> insert it B)" if "x \<in> insert it S" "truthy (snd x)" for x
      using that st other True by (cases "x = it") (auto simp: test_begins_page)
    moreover have "tp_states (test_begins mode (fst it) (snd it) p) i = tp_states p0 i"
      if "i \<notin> fst ` insert it {x \<in> S. truthy (snd x)}" for i
      using that out by (auto simp: test_begins_page)
    ultimately show ?thesis unfolding page_ok_def new_set by blast
  next
    case False
    have "{x \<in> insert it S. truthy (snd x)} = {x \<in> S. truthy (snd x)}" using False by auto
    moreover have "\<exists>st. tp_states p (fst x) = Some st \<and> (tst_testing st \<longleftrightarrow> x \<in> insert it B)"
      if "x \<in> insert it S" "truthy (snd x)" for x
      using that st [of x] other [of x] False by (cases "x = it") auto
    moreover have "test_begins mode (fst it) (snd it) p = p" using False by (simp add: test_begins_page)
    ultimately show ?thesis using R out unfolding page_ok_def by auto
  qed
qed

lemma page_ok_ends:
  assumes ok: "page_ok p0 S B p" and it: "it \<in> S" and rows: "inj_on fst S"
  shows "page_ok p0 S (B - {it}) (test_ends P mode (fst it) (snd it) reply p)"
proof -
  have other: "fst x \<noteq> fst it" if "x \<in> S" "x \<noteq> it" for x using that it rows by (auto dest: inj_onD)
  have st: "\<exists>st. tp_states p (fst x) = Some st \<and> (tst_testing st \<longleftrightarrow> x \<in> B)" if "x \<in> S" "truthy (snd x)" for x
    using ok that unfolding page_ok_def by blast
  have "\<exists>st. tp_states (test_ends P mode (fst it) (snd it) reply p) (fst x) = Some st \<and>
      (tst_testing st \<longleftrightarrow> x \<in> B - {it})" if "x \<in> S" "truthy (snd x)" for x
    using that st [of x] other [of x] by (cases "x = it") (auto simp: test_ends_def)
  moreover have "tp_states (test_ends P mode (fst it) (snd it) reply p) i = tp_states p i"
    if "i \<notin> fst ` {x \<in> S. truthy (snd x)}" for i
    using that it by (auto simp: test_ends_def)
  moreover have "tp_requests (test_ends P mode (fst it) (snd it) reply p) = tp_requests p"
    by (simp add: test_ends_def)
  ultimately show ?thesis using ok unfolding page_ok_def by simp
qed

lemma page_ok_template: "page_ok p0 S B (p\<lparr>tp_template := t\<rparr>) \<longleftrightarrow> page_ok p0 S B p"
  by (simp add: page_ok_def)

section \<open>A lane\<close>

definition busy :: "lane \<Rightarrow> test_item set" where
  "busy l = {it. Some it \<in> set (ln_workers l)}"

definition started :: "test_item list \<Rightarrow> lane \<Rightarrow> test_item set" where
  "started plan l = set plan - set (ln_queue l)"

definition pending :: "lane \<Rightarrow> nat" where
  "pending l = length (ln_queue l) + length (filter (\<lambda>w. w \<noteq> None) (ln_workers l))"

definition lane_ok :: "test_item list \<Rightarrow> lane \<Rightarrow> bool" where
  "lane_ok plan l \<longleftrightarrow>
     (\<exists>st. plan = st @ ln_queue l) \<and> (None \<in> set (ln_workers l) \<longrightarrow> ln_queue l = []) \<and>
     busy l \<subseteq> started plan l \<and>
     (\<forall>a < length (ln_workers l). \<forall>b < length (ln_workers l).
        ln_workers l ! a = ln_workers l ! b \<longrightarrow> ln_workers l ! a \<noteq> None \<longrightarrow> a = b)"

text \<open>The other lane, seen from one lane: items and running tests that it never touches.\<close>

definition apart :: "test_item list \<Rightarrow> test_item set \<Rightarrow> test_item set \<Rightarrow> bool" where
  "apart plan S B \<longleftrightarrow> distinct plan \<and> inj_on fst (set plan \<union> S) \<and> set plan \<inter> S = {} \<and> B \<subseteq> S"

lemma busy_update:
  assumes "lane_ok plan l" and "w < length (ln_workers l)" and "ln_workers l ! w = Some it"
  shows "{x. Some x \<in> set ((ln_workers l)[w := w'])} = busy l - {it} \<union> {x. w' = Some x}"
proof -
  have only: "b = w" if "b < length (ln_workers l)" "ln_workers l ! b = Some it" for b
    using assms that unfolding lane_ok_def by (metis option.distinct(1))
  show ?thesis
  proof (rule set_eqI)
    fix x
    have "Some x \<in> set ((ln_workers l)[w := w']) \<longleftrightarrow>
        (\<exists>b < length (ln_workers l). b \<noteq> w \<and> ln_workers l ! b = Some x) \<or> w' = Some x"
      using assms(2) by (auto simp: in_set_conv_nth nth_list_update)
    moreover have "(\<exists>b < length (ln_workers l). b \<noteq> w \<and> ln_workers l ! b = Some x) \<longleftrightarrow> x \<in> busy l - {it}"
    proof
      assume "\<exists>b < length (ln_workers l). b \<noteq> w \<and> ln_workers l ! b = Some x"
      then obtain b where b: "b < length (ln_workers l)" "b \<noteq> w" "ln_workers l ! b = Some x" by blast
      have "x \<in> busy l" unfolding busy_def using nth_mem [OF b(1)] b(3) by simp
      moreover have "x \<noteq> it" using only b by blast
      ultimately show "x \<in> busy l - {it}" by blast
    next
      assume "x \<in> busy l - {it}"
      then have "Some x \<in> set (ln_workers l)" "x \<noteq> it" by (simp_all add: busy_def)
      then obtain b where "b < length (ln_workers l)" "ln_workers l ! b = Some x" by (metis in_set_conv_nth)
      moreover from this have "b \<noteq> w" using assms(3) \<open>x \<noteq> it\<close> by auto
      ultimately show "\<exists>b < length (ln_workers l). b \<noteq> w \<and> ln_workers l ! b = Some x" by blast
    qed
    ultimately show "x \<in> {x. Some x \<in> set ((ln_workers l)[w := w'])} \<longleftrightarrow> x \<in> busy l - {it} \<union> {x. w' = Some x}"
      by blast
  qed
qed

lemma filter_update:
  assumes "w < length xs" and "P (xs ! w)"
  shows "length (filter P (xs[w := y])) = length (filter P xs) - (if P y then 0 else 1)"
proof -
  have "xs = take w xs @ xs ! w # drop (Suc w) xs" using assms by (simp add: id_take_nth_drop)
  moreover have "xs[w := y] = take w xs @ y # drop (Suc w) xs" using assms by (simp add: upd_conv_take_nth_drop)
  ultimately have "filter P xs = filter P (take w xs) @ xs ! w # filter P (drop (Suc w) xs)"
    "filter P (xs[w := y]) = filter P (take w xs) @ (if P y then [y] else []) @ filter P (drop (Suc w) xs)"
    using assms(2) by (metis filter.simps(2) filter_append, simp add: upd_conv_take_nth_drop assms(1))
  then show ?thesis by simp
qed

lemma lane_ok_next:
  assumes l: "lane_ok plan l" and d: "distinct plan" and w: "w < length (ln_workers l)"
    and it: "ln_workers l ! w = Some it"
  shows "lane_ok plan (l\<lparr>ln_queue := tl (ln_queue l), ln_workers := (ln_workers l)[w :=
      (case ln_queue l of [] \<Rightarrow> None | x # q \<Rightarrow> Some x)]\<rparr>)" (is "lane_ok plan ?l")
proof -
  let ?w = "case ln_queue l of [] \<Rightarrow> None | x # q \<Rightarrow> Some x"
  from l obtain st where st: "plan = st @ ln_queue l" unfolding lane_ok_def by blast
  have uniq: "a = b" if "a < length (ln_workers l)" "b < length (ln_workers l)" "ln_workers l ! a = ln_workers l ! b"
      "ln_workers l ! a \<noteq> None" for a b
    using l that unfolding lane_ok_def by blast
  have sub: "busy l \<subseteq> started plan l" using l by (simp add: lane_ok_def)
  have b: "busy ?l = busy l - {it} \<union> {x. ?w = Some x}"
    unfolding busy_def using busy_update [OF l w it, of ?w] by (simp add: busy_def)
  show ?thesis
  proof (cases "ln_queue l")
    case Nil
    then show ?thesis using st sub b uniq w it unfolding lane_ok_def
      by (auto simp: started_def nth_list_update)
  next
    case (Cons x q)
    have none: "None \<notin> set (ln_workers l)" using l Cons by (auto simp: lane_ok_def)
    have x: "x \<notin> busy l" "x \<in> set plan" "x \<notin> set q" using sub d st Cons by (auto simp: started_def)
    have "\<exists>st. plan = st @ q" using st Cons by (metis append_Cons append_Nil append_assoc)
    moreover have "None \<notin> set ((ln_workers l)[w := Some x])"
      using none by (meson in_mono insertE option.distinct(1) set_update_subset_insert)
    moreover have "busy ?l \<subseteq> started plan ?l"
      using b sub x Cons d st by (auto simp: started_def)
    moreover have "a = b'" if "a < length (ln_workers l)" "b' < length (ln_workers l)"
        "(ln_workers l)[w := Some x] ! a = (ln_workers l)[w := Some x] ! b'" for a b'
    proof -
      have "ln_workers l ! c \<noteq> Some x" if "c < length (ln_workers l)" for c
        using that x(1) by (metis busy_def mem_Collect_eq nth_mem)
      moreover have "ln_workers l ! c \<noteq> None" if "c < length (ln_workers l)" for c
        using that none by (metis nth_mem)
      ultimately show ?thesis using that uniq by (metis nth_list_update w)
    qed
    ultimately show ?thesis using Cons unfolding lane_ok_def by auto
  qed
qed


definition holds :: "nat \<Rightarrow> lane \<Rightarrow> bool" where
  "holds w l \<longleftrightarrow> w < length (ln_workers l) \<and> ln_workers l ! w \<noteq> None"

lemma lane_step_idle: "\<not> holds w l \<Longrightarrow> lane_step P mode w reply (l, p) = (l, p)"
  by (cases "ln_workers l ! w") (auto simp: lane_step_def holds_def)

lemma lane_step_busy:
  assumes "w < length (ln_workers l)" and "ln_workers l ! w = Some it"
  shows "lane_step P mode w reply (l, p) =
    (l\<lparr>ln_queue := tl (ln_queue l), ln_workers := (ln_workers l)[w :=
       (case ln_queue l of [] \<Rightarrow> None | x # q \<Rightarrow> Some x)]\<rparr>,
     case ln_queue l of [] \<Rightarrow> test_ends P mode (fst it) (snd it) reply p
       | x # q \<Rightarrow> test_begins mode (fst x) (snd x) (test_ends P mode (fst it) (snd it) reply p))"
  using assms by (cases l; cases it) (auto simp: lane_step_def worker_next_def split: list.splits)

lemma lane_step_ok:
  assumes l: "lane_ok plan l" and ap: "apart plan S B"
    and page: "page_ok p0 (S \<union> started plan l) (B \<union> busy l) p"
    and step: "lane_step P mode w reply (l, p) = (l', p')"
  shows "lane_ok plan l' \<and> length (ln_workers l') = length (ln_workers l) \<and>
    page_ok p0 (S \<union> started plan l') (B \<union> busy l') p' \<and>
    pending l = pending l' + (if holds w l then 1 else 0)"
proof (cases "holds w l")
  case False
  then show ?thesis using step l page by (simp add: lane_step_idle)
next
  case True
  then obtain it where w: "w < length (ln_workers l)" and it: "ln_workers l ! w = Some it"
    by (auto simp: holds_def)
  have d: "distinct plan" and rows: "inj_on fst (set plan \<union> S)" and disj: "set plan \<inter> S = {}" and B: "B \<subseteq> S"
    using ap by (simp_all add: apart_def)
  obtain st where st: "plan = st @ ln_queue l" using l unfolding lane_ok_def by blast
  have sub: "busy l \<subseteq> started plan l" using l by (simp add: lane_ok_def)
  have "it \<in> busy l" unfolding busy_def using nth_mem [OF w] it by simp
  then have itS: "it \<in> started plan l" using sub by blast
  then have itp: "it \<in> set plan" by (simp add: started_def)
  let ?p = "test_ends P mode (fst it) (snd it) reply p"
  have rowsS: "inj_on fst (S \<union> started plan l)" by (rule inj_on_subset [OF rows]) (auto simp: started_def)
  have "B \<union> busy l - {it} = B \<union> (busy l - {it})" using itp disj B by blast
  then have ended: "page_ok p0 (S \<union> started plan l) (B \<union> (busy l - {it})) ?p"
    using page_ok_ends [OF page, of it P mode reply] itS rowsS by simp
  have ok: "lane_ok plan l'"
    using lane_ok_next [OF l d w it] step by (simp add: lane_step_busy [OF w it])
  have len: "length (ln_workers l') = length (ln_workers l)"
    using step by (auto simp: lane_step_busy [OF w it])
  have bl: "busy l' = busy l - {it} \<union> {x. (case ln_queue l of [] \<Rightarrow> None | x # q \<Rightarrow> Some x) = Some x}"
  proof -
    have "ln_workers l' = (ln_workers l)[w := (case ln_queue l of [] \<Rightarrow> None | x # q \<Rightarrow> Some x)]"
      using step by (auto simp: lane_step_busy [OF w it])
    then show ?thesis unfolding busy_def [of l'] using busy_update [OF l w it] by simp
  qed
  have pend: "pending l = Suc (pending l')"
  proof -
    have workers: "ln_workers l' = (ln_workers l)[w := (case ln_queue l of [] \<Rightarrow> None | x # q \<Rightarrow> Some x)]"
      and queue: "ln_queue l' = tl (ln_queue l)"
      using step by (auto simp: lane_step_busy [OF w it])
    have "Some it \<in> set (filter (\<lambda>w. w \<noteq> None) (ln_workers l))" using nth_mem [OF w] it by simp
    then obtain n where n: "length (filter (\<lambda>w. w \<noteq> None) (ln_workers l)) = Suc n"
      by (metis empty_iff length_0_conv list.set(1) not0_implies_Suc)
    have "length (filter (\<lambda>w. w \<noteq> None) (ln_workers l')) = (if ln_queue l = [] then n else Suc n)"
      unfolding workers by (subst filter_update [OF w]) (use it n in \<open>simp, simp split: list.split\<close>)
    then show ?thesis unfolding pending_def queue n by (cases "ln_queue l") simp_all
  qed
  have page': "page_ok p0 (S \<union> started plan l') (B \<union> busy l') p'"
  proof (cases "ln_queue l")
    case Nil
    then have "p' = ?p" "ln_queue l' = []" using step by (auto simp: lane_step_busy [OF w it])
    moreover have "busy l' = busy l - {it}" using bl Nil by simp
    ultimately show ?thesis using ended Nil by (simp add: started_def)
  next
    case (Cons x q)
    have x: "x \<in> set plan" "x \<notin> started plan l" using st Cons by (auto simp: started_def)
    have "x \<notin> S \<union> started plan l" using x disj by blast
    then have "fst x \<notin> fst ` (S \<union> started plan l)"
      using rows x(1) by (auto simp: started_def dest: inj_onD)
    then have "page_ok p0 (insert x (S \<union> started plan l)) (insert x (B \<union> (busy l - {it})))
        (test_begins mode (fst x) (snd x) ?p)"
      by (rule page_ok_begins [OF ended])
    moreover have "insert x (S \<union> started plan l) = S \<union> started plan l'"
    proof -
      have "ln_queue l' = q" using step Cons by (auto simp: lane_step_busy [OF w it])
      moreover have "x \<notin> set q" using d st Cons by simp
      ultimately show ?thesis using x(1) Cons by (auto simp: started_def)
    qed
    moreover have "insert x (B \<union> (busy l - {it})) = B \<union> busy l'" using bl Cons by auto
    moreover have "p' = test_begins mode (fst x) (snd x) ?p" using step Cons by (simp add: lane_step_busy [OF w it])
    ultimately show ?thesis by simp
  qed
  show ?thesis using ok len pend page' True by simp
qed

lemma worker_starts:
  assumes l: "lane_ok plan l" and none: "None \<notin> set (ln_workers l)" and ap: "apart plan S B"
    and page: "page_ok p0 (S \<union> started plan l) (B \<union> busy l) p" and q: "ln_queue l = x # q"
  defines "l' \<equiv> \<lparr>ln_queue = q, ln_workers = ln_workers l @ [Some x]\<rparr>"
  shows "lane_ok plan l' \<and> None \<notin> set (ln_workers l') \<and>
    page_ok p0 (S \<union> started plan l') (B \<union> busy l') (test_begins mode (fst x) (snd x) p) \<and>
    pending l' = pending l"
proof -
  have d: "distinct plan" and rows: "inj_on fst (set plan \<union> S)" and disj: "set plan \<inter> S = {}"
    using ap by (simp_all add: apart_def)
  obtain st where st: "plan = st @ x # q" using l q unfolding lane_ok_def by metis
  have sub: "busy l \<subseteq> started plan l" using l by (simp add: lane_ok_def)
  have x: "x \<in> set plan" "x \<notin> started plan l" "x \<notin> set q" using st q d by (auto simp: started_def)
  have new: "started plan l' = insert x (started plan l)"
    using x q by (auto simp: l'_def started_def)
  have b: "busy l' = insert x (busy l)" by (auto simp: l'_def busy_def)
  have xb: "x \<notin> busy l" using sub x(2) by blast
  have "fst x \<notin> fst ` (S \<union> started plan l)"
    using rows x disj by (auto simp: started_def dest: inj_onD)
  then have "page_ok p0 (S \<union> started plan l') (B \<union> busy l') (test_begins mode (fst x) (snd x) p)"
    using page_ok_begins [OF page, of x mode] new b by simp
  moreover have "lane_ok plan l'"
  proof -
    have uniq: "a = c" if "a < length (ln_workers l)" "c < length (ln_workers l)" "ln_workers l ! a = ln_workers l ! c"
      for a c
    proof -
      have "ln_workers l ! a \<noteq> None" using nth_mem [OF that(1)] none by metis
      then show ?thesis using l that unfolding lane_ok_def by blast
    qed
    have other: "ln_workers l ! a \<noteq> Some x" if "a < length (ln_workers l)" for a
      using that xb by (metis busy_def mem_Collect_eq nth_mem)
    have "a = c" if "a < Suc (length (ln_workers l))" "c < Suc (length (ln_workers l))"
        "(ln_workers l @ [Some x]) ! a = (ln_workers l @ [Some x]) ! c" for a c
    proof (cases "a < length (ln_workers l)"; cases "c < length (ln_workers l)")
      assume "a < length (ln_workers l)" "c < length (ln_workers l)"
      then show ?thesis using that uniq [of a c] by (simp add: nth_append)
    next
      assume "a < length (ln_workers l)" "\<not> c < length (ln_workers l)"
      then show ?thesis using that other [of a] by (simp add: nth_append less_Suc_eq)
    next
      assume "\<not> a < length (ln_workers l)" "c < length (ln_workers l)"
      then show ?thesis using that other [of c] by (simp add: nth_append less_Suc_eq)
    next
      assume "\<not> a < length (ln_workers l)" "\<not> c < length (ln_workers l)"
      then show ?thesis using that by simp
    qed
    moreover have "\<exists>st. plan = st @ q" using st by (metis append_Cons append_Nil append_assoc)
    moreover have "busy l' \<subseteq> started plan l'" using b new sub by blast
    ultimately show ?thesis using none unfolding lane_ok_def by (auto simp: l'_def)
  qed
  ultimately show ?thesis using none q by (simp add: l'_def pending_def)
qed

lemma start_workers_ok:
  assumes "start_workers mode n (l, p) = (l', p')" and "n \<le> length (ln_queue l)"
    and "lane_ok plan l" and "None \<notin> set (ln_workers l)" and ap: "apart plan S B"
    and "page_ok p0 (S \<union> started plan l) (B \<union> busy l) p"
  shows "lane_ok plan l' \<and> length (ln_workers l') = length (ln_workers l) + n \<and>
    page_ok p0 (S \<union> started plan l') (B \<union> busy l') p' \<and> pending l' = pending l"
  using assms
proof (induction n arbitrary: l p)
  case (Suc n)
  then obtain x q where q: "ln_queue l = x # q" by (cases "ln_queue l") auto
  let ?l = "\<lparr>ln_queue = q, ln_workers = ln_workers l @ [Some x]\<rparr>"
  have rest: "start_workers mode n (?l, test_begins mode (fst x) (snd x) p) = (l', p')"
    using Suc.prems(1) by (simp add: q worker_next_def)
  have "lane_ok plan ?l \<and> None \<notin> set (ln_workers ?l) \<and>
      page_ok p0 (S \<union> started plan ?l) (B \<union> busy ?l) (test_begins mode (fst x) (snd x) p) \<and> pending ?l = pending l"
    using Suc.prems(3,4,6) ap q by (intro worker_starts)
  moreover have "n \<le> length (ln_queue ?l)" using Suc.prems(2) q by simp
  ultimately have "lane_ok plan l' \<and> length (ln_workers l') = length (ln_workers ?l) + n \<and>
      page_ok p0 (S \<union> started plan l') (B \<union> busy l') p' \<and> pending l' = pending ?l"
    using Suc.IH [OF rest] ap by blast
  then show ?case using q by (simp add: pending_def)
qed simp

lemma runLane_ok:
  assumes "runLane mode plan n p = (l, p')" and ap: "apart plan S B" and "page_ok p0 S B p"
  shows "lane_ok plan l \<and> length (ln_workers l) = min n (length plan) \<and>
    page_ok p0 (S \<union> started plan l) (B \<union> busy l) p' \<and> pending l = length plan"
proof -
  let ?l = "\<lparr>ln_queue = plan, ln_workers = []\<rparr>"
  have "lane_ok plan ?l" by (simp add: lane_ok_def busy_def)
  moreover have "page_ok p0 (S \<union> started plan ?l) (B \<union> busy ?l) p"
    using assms(3) by (simp add: started_def busy_def)
  ultimately show ?thesis
    using start_workers_ok [of mode "min n (length plan)" ?l p l p' plan S B p0] assms(1) ap
    by (simp add: runLane_def pending_def)
qed

end
