(* ===== verification/XrayRuns.thy ===== *)
theory XrayRuns
  imports XrayTests
begin

text \<open>
  Runs of \<open>testAllOutbounds\<close>: the invariant that every event keeps, what it means for the requests and
  the rows, and that the run ends with the last answer.
\<close>

section \<open>The invariant\<close>

definition run_ok :: "string \<Rightarrow> js list \<Rightarrow> test_page \<Rightarrow> test_run \<Rightarrow> bool" where
  "run_ok mode obs p0 r \<longleftrightarrow>
     tr_mode r = mode \<and>
     lane_ok (tcp_plan mode obs) (tr_tcp r) \<and> lane_ok (http_plan mode obs) (tr_http r) \<and>
     length (ln_workers (tr_tcp r)) = min 8 (length (tcp_plan mode obs)) \<and>
     length (ln_workers (tr_http r)) = min 1 (length (http_plan mode obs)) \<and>
     page_ok p0 (started (tcp_plan mode obs) (tr_tcp r) \<union> started (http_plan mode obs) (tr_http r))
       (busy (tr_tcp r) \<union> busy (tr_http r)) (tr_page r) \<and>
     (tr_testingAll r \<longleftrightarrow> \<not> (lane_done (tr_tcp r) \<and> lane_done (tr_http r)))"

lemma lanes_apart:
  shows "lane_ok (http_plan mode obs) h \<Longrightarrow>
      apart (tcp_plan mode obs) (started (http_plan mode obs) h) (busy h)"
    and "lane_ok (tcp_plan mode obs) t \<Longrightarrow>
      apart (http_plan mode obs) (started (tcp_plan mode obs) t) (busy t)"
proof -
  assume h: "lane_ok (http_plan mode obs) h"
  have s: "started (http_plan mode obs) h \<subseteq> set (http_plan mode obs)" by (auto simp: started_def)
  have "inj_on fst (set (tcp_plan mode obs) \<union> started (http_plan mode obs) h)"
    by (rule inj_on_subset [OF plan_rows [of mode obs]]) (use s in blast)
  then show "apart (tcp_plan mode obs) (started (http_plan mode obs) h) (busy h)"
    using h s plan_disjoint [of mode obs] unfolding apart_def lane_ok_def by (intro conjI plan_distinct) blast+
next
  assume t: "lane_ok (tcp_plan mode obs) t"
  have s: "started (tcp_plan mode obs) t \<subseteq> set (tcp_plan mode obs)" by (auto simp: started_def)
  have "inj_on fst (set (http_plan mode obs) \<union> started (tcp_plan mode obs) t)"
    by (rule inj_on_subset [OF plan_rows [of mode obs]]) (use s in blast)
  then show "apart (http_plan mode obs) (started (tcp_plan mode obs) t) (busy t)"
    using t s plan_disjoint [of mode obs] unfolding apart_def lane_ok_def by (intro conjI plan_distinct) blast+
qed

lemma settle_run_simps [simp]:
  "tr_page (settle_run r) = tr_page r" "tr_mode (settle_run r) = tr_mode r"
  "tr_tcp (settle_run r) = tr_tcp r" "tr_http (settle_run r) = tr_http r"
  "tr_testingAll (settle_run r) \<longleftrightarrow> tr_testingAll r \<and> \<not> (lane_done (tr_tcp r) \<and> lane_done (tr_http r))"
  by (auto simp: settle_run_def)

lemma lane_done_pending: "lane_ok plan l \<Longrightarrow> length (ln_workers l) = min n (length plan) \<Longrightarrow> 0 < n \<Longrightarrow>
    lane_done l \<longleftrightarrow> pending l = 0"
proof -
  assume l: "lane_ok plan l" and n: "length (ln_workers l) = min n (length plan)" "0 < n"
  have "ln_queue l = []" if "lane_done l"
  proof (cases "ln_workers l")
    case Nil
    then have "plan = []" using n by (cases plan) auto
    then show ?thesis using l by (auto simp: lane_ok_def)
  next
    case (Cons a xs)
    then show ?thesis using that l by (auto simp: lane_done_def lane_ok_def)
  qed
  then show ?thesis unfolding lane_done_def pending_def list_all_iff add_is_0 length_0_conv filter_empty_conv
    by blast
qed

definition pending_run :: "test_run \<Rightarrow> nat" where
  "pending_run r = pending (tr_tcp r) + pending (tr_http r)"

lemma run_ok_testing: "run_ok mode obs p0 r \<Longrightarrow> tr_testingAll r \<longleftrightarrow> 0 < pending_run r"
  using lane_done_pending [of "tcp_plan mode obs" "tr_tcp r" 8] lane_done_pending [of "http_plan mode obs" "tr_http r" 1]
  by (auto simp: run_ok_def pending_run_def)

lemma run_ok_start:
  assumes "\<not> tr_testingAll r" and "template_outbounds (tp_template (tr_page r)) = obs" and "obs \<noteq> []"
  shows "run_ok mode obs (tr_page r) (testAllOutbounds mode r) \<and>
    pending_run (testAllOutbounds mode r) = length (tcp_plan mode obs) + length (http_plan mode obs)"
proof -
  obtain tcp p1 where t: "runLane mode (tcp_plan mode obs) 8 (tr_page r) = (tcp, p1)" by force
  obtain http p2 where h: "runLane mode (http_plan mode obs) 1 p1 = (http, p2)" by force
  have r': "testAllOutbounds mode r =
      settle_run \<lparr>tr_page = p2, tr_mode = mode, tr_testingAll = True, tr_tcp = tcp, tr_http = http\<rparr>"
    using assms t h by (simp add: testAllOutbounds_def outbound_queues_plans)
  have "apart (tcp_plan mode obs) {} {}" "page_ok (tr_page r) {} {} (tr_page r)"
    using inj_on_subset [OF plan_rows [of mode obs], of "set (tcp_plan mode obs)"] by (auto simp: apart_def page_ok_start)
  from runLane_ok [OF t this]
  have tcp: "lane_ok (tcp_plan mode obs) tcp" "length (ln_workers tcp) = min 8 (length (tcp_plan mode obs))"
    "page_ok (tr_page r) (started (tcp_plan mode obs) tcp) (busy tcp) p1" "pending tcp = length (tcp_plan mode obs)"
    by simp_all
  have "apart (http_plan mode obs) (started (tcp_plan mode obs) tcp) (busy tcp)"
    by (rule lanes_apart(2) [OF tcp(1)])
  from runLane_ok [OF h this tcp(3)]
  have http: "lane_ok (http_plan mode obs) http \<and> length (ln_workers http) = min 1 (length (http_plan mode obs)) \<and>
      page_ok (tr_page r) (started (tcp_plan mode obs) tcp \<union> started (http_plan mode obs) http)
        (busy tcp \<union> busy http) p2 \<and> pending http = length (http_plan mode obs)" .
  show ?thesis using tcp http unfolding r' by (simp add: run_ok_def pending_run_def)
qed

text \<open>An event that ends a test: the worker it names waits for one.\<close>

definition ends_test :: "test_run \<Rightarrow> run_event \<Rightarrow> bool" where
  "ends_test r ev \<longleftrightarrow>
     (case ev of Settles TcpLane w reply \<Rightarrow> holds w (tr_tcp r)
      | Settles HttpLane w reply \<Rightarrow> holds w (tr_http r) | EditTemplate t \<Rightarrow> False)"

lemma pending_busy: "holds w l \<Longrightarrow> \<not> lane_done l"
  by (auto simp: holds_def lane_done_def list_all_length)

lemma run_ok_step:
  assumes ok: "run_ok mode obs p0 r"
  shows "run_ok mode obs p0 (run_step P r ev) \<and>
    pending_run r = pending_run (run_step P r ev) + (if ends_test r ev then 1 else 0)"
proof (cases ev)
  case (EditTemplate t)
  then show ?thesis using ok by (simp add: run_step_def run_ok_def page_ok_template pending_run_def ends_test_def)
next
  case (Settles name w reply)
  have m: "tr_mode r = mode" and t: "lane_ok (tcp_plan mode obs) (tr_tcp r)"
    and h: "lane_ok (http_plan mode obs) (tr_http r)"
    and page: "page_ok p0 (started (tcp_plan mode obs) (tr_tcp r) \<union> started (http_plan mode obs) (tr_http r))
       (busy (tr_tcp r) \<union> busy (tr_http r)) (tr_page r)"
    and flag: "tr_testingAll r \<longleftrightarrow> \<not> (lane_done (tr_tcp r) \<and> lane_done (tr_http r))"
    using ok by (simp_all add: run_ok_def)
  show ?thesis
  proof (cases name)
    case TcpLane
    obtain l p where s: "lane_step P mode w reply (tr_tcp r, tr_page r) = (l, p)" by force
    have eq: "run_step P r ev = settle_run (r\<lparr>tr_tcp := l, tr_page := p\<rparr>)"
      using s m by (simp add: Settles TcpLane run_step_def)
    have "lane_ok (tcp_plan mode obs) l \<and> length (ln_workers l) = length (ln_workers (tr_tcp r)) \<and>
        page_ok p0 (started (http_plan mode obs) (tr_http r) \<union> started (tcp_plan mode obs) l)
          (busy (tr_http r) \<union> busy l) p \<and> pending (tr_tcp r) = pending l + (if holds w (tr_tcp r) then 1 else 0)"
      using lane_step_ok [OF t lanes_apart(1) [OF h] _ s] page by (simp add: Un_commute)
    moreover have "holds w (tr_tcp r) \<or> l = tr_tcp r" using s lane_step_idle [of w "tr_tcp r" P mode reply "tr_page r"] by auto
    ultimately show ?thesis using ok flag unfolding eq
      by (auto simp: run_ok_def pending_run_def ends_test_def Settles TcpLane Un_commute dest: pending_busy)
  next
    case HttpLane
    obtain l p where s: "lane_step P mode w reply (tr_http r, tr_page r) = (l, p)" by force
    have eq: "run_step P r ev = settle_run (r\<lparr>tr_http := l, tr_page := p\<rparr>)"
      using s m by (simp add: Settles HttpLane run_step_def)
    have "lane_ok (http_plan mode obs) l \<and> length (ln_workers l) = length (ln_workers (tr_http r)) \<and>
        page_ok p0 (started (tcp_plan mode obs) (tr_tcp r) \<union> started (http_plan mode obs) l)
          (busy (tr_tcp r) \<union> busy l) p \<and> pending (tr_http r) = pending l + (if holds w (tr_http r) then 1 else 0)"
      using lane_step_ok [OF h lanes_apart(2) [OF t] page s] by simp
    moreover have "holds w (tr_http r) \<or> l = tr_http r" using s lane_step_idle [of w "tr_http r" P mode reply "tr_page r"] by auto
    ultimately show ?thesis using ok flag unfolding eq
      by (auto simp: run_ok_def pending_run_def ends_test_def Settles HttpLane dest: pending_busy)
  qed
qed

interpretation outbound_tests: machine "run_step P" "run_ok mode obs p0"
  for P :: "zschema \<Rightarrow> js \<Rightarrow> js option" and mode obs p0
  by unfold_locales (use run_ok_step in blast)

section \<open>What a run does\<close>

text \<open>C6. \<open>testAllOutbounds\<close> tests each row once: when the run is over, whatever the order of the answers and
  however the template was edited meanwhile, exactly one request was sent for each row of the
  template whose test button is enabled, none for any other, every such row shows a result
  and no running test, and every other row shows what it showed before.\<close>

theorem each_row_tested_once:
  assumes "\<not> tr_testingAll r0" and "template_outbounds (tp_template (tr_page r0)) = obs" and "obs \<noteq> []"
    and r: "r = foldl (run_step P) (testAllOutbounds mode r0) es" and over: "\<not> tr_testingAll r"
  shows "(\<exists>R. map fst (tp_requests (tr_page r)) = map fst (tp_requests (tr_page r0)) @ R \<and> distinct R \<and>
      set R = {i. i < length obs \<and> \<not> isUntestable (obs ! i) mode}) \<and>
    (\<forall>i < length obs. \<not> isUntestable (obs ! i) mode \<longrightarrow>
      (\<exists>st. tp_states (tr_page r) i = Some st \<and> \<not> tst_testing st)) \<and>
    (\<forall>i. \<not> (i < length obs \<and> \<not> isUntestable (obs ! i) mode) \<longrightarrow>
      tp_states (tr_page r) i = tp_states (tr_page r0) i)"
proof -
  have ok: "run_ok mode obs (tr_page r0) r"
    unfolding r using run_ok_start [OF assms(1-3), of mode] by (intro outbound_tests.run_inv) simp
  have "pending_run r = 0" using run_ok_testing [OF ok] over by simp
  then have empty: "ln_queue (tr_tcp r) = []" "ln_queue (tr_http r) = []" "busy (tr_tcp r) = {}" "busy (tr_http r) = {}"
    by (auto simp: pending_run_def pending_def busy_def filter_empty_conv)
  let ?S = "set (tcp_plan mode obs) \<union> set (http_plan mode obs)"
  have page: "page_ok (tr_page r0) ?S {} (tr_page r)"
    using ok empty by (simp add: run_ok_def started_def)
  have rows: "fst ` {it \<in> ?S. truthy (snd it)} = {i. i < length obs \<and> \<not> isUntestable (obs ! i) mode}"
    by (rule plan_testable)
  have "\<exists>st. tp_states (tr_page r) i = Some st \<and> \<not> tst_testing st"
    if "i < length obs" "\<not> isUntestable (obs ! i) mode" for i
  proof -
    have "i \<in> fst ` {it \<in> ?S. truthy (snd it)}" using that unfolding rows by simp
    then obtain it where it: "it \<in> ?S" "truthy (snd it)" "fst it = i" by blast
    then have "\<exists>st. tp_states (tr_page r) (fst it) = Some st \<and> (tst_testing st \<longleftrightarrow> it \<in> {})"
      using page unfolding page_ok_def by blast
    then show ?thesis using it(3) by simp
  qed
  then show ?thesis using page unfolding page_ok_def rows by blast
qed

definition in_flight :: "test_run \<Rightarrow> test_item list" where
  "in_flight r = List.map_filter id (ln_workers (tr_tcp r) @ ln_workers (tr_http r))"

text \<open>While all outbounds are tested, at most nine tests run at a time, at most one of them with
  an outbound over UDP; and in mode \<open>http\<close> at most one at all, as every such test drives a real
  request through the outbound.\<close>

theorem tests_in_flight:
  assumes "\<not> tr_testingAll r0" and "template_outbounds (tp_template (tr_page r0)) = obs" and "obs \<noteq> []"
    and r: "r = foldl (run_step P) (testAllOutbounds mode r0) es"
  shows "length (in_flight r) \<le> 9 \<and> length (filter (\<lambda>it. isUdpOutbound (snd it)) (in_flight r)) \<le> 1 \<and>
    (mode = ''http'' \<longrightarrow> length (in_flight r) \<le> 1)"
proof -
  have ok: "run_ok mode obs (tr_page r0) r"
    unfolding r using run_ok_start [OF assms(1-3), of mode] by (intro outbound_tests.run_inv) simp
  have le: "length (List.map_filter id ws) \<le> length ws" for ws :: "test_item option list"
    by (simp add: List.map_filter_def)
  have t: "length (ln_workers (tr_tcp r)) \<le> 8" and h: "length (ln_workers (tr_http r)) \<le> 1"
    using ok by (simp_all add: run_ok_def)
  have split: "in_flight r = List.map_filter id (ln_workers (tr_tcp r)) @ List.map_filter id (ln_workers (tr_http r))"
    by (simp add: in_flight_def List.map_filter_def)
  have "\<not> http_only mode (snd it)" if "it \<in> set (List.map_filter id (ln_workers (tr_tcp r)))" for it
  proof -
    have "it \<in> busy (tr_tcp r)" using that by (auto simp: busy_def List.map_filter_def)
    then have "it \<in> set (tcp_plan mode obs)" using ok by (auto simp: run_ok_def lane_ok_def started_def)
    then show ?thesis by (simp add: tcp_plan_def)
  qed
  then have none: "filter (\<lambda>it. http_only mode (snd it)) (List.map_filter id (ln_workers (tr_tcp r))) = []"
    by (simp add: filter_empty_conv)
  have "filter (\<lambda>it. isUdpOutbound (snd it)) (List.map_filter id (ln_workers (tr_tcp r))) = []"
    using none by (auto simp: filter_empty_conv http_only_def)
  then have "length (filter (\<lambda>it. isUdpOutbound (snd it)) (in_flight r)) \<le> length (List.map_filter id (ln_workers (tr_http r)))"
    by (simp add: split)
  moreover have "mode = ''http'' \<longrightarrow> List.map_filter id (ln_workers (tr_tcp r)) = []"
  proof
    assume "mode = ''http''"
    then have "http_only mode (snd it)" for it :: test_item by (simp add: http_only_def)
    then show "List.map_filter id (ln_workers (tr_tcp r)) = []" using none by simp
  qed
  ultimately show ?thesis using le [of "ln_workers (tr_tcp r)"] le [of "ln_workers (tr_http r)"] t h
    by (auto simp: split)
qed

fun answers :: "(zschema \<Rightarrow> js \<Rightarrow> js option) \<Rightarrow> test_run \<Rightarrow> run_event list \<Rightarrow> nat" where
  "answers P r [] = 0"
| "answers P r (ev # es) = (if ends_test r ev then 1 else 0) + answers P (run_step P r ev) es"

lemma answers_pending: "run_ok mode obs p0 r \<Longrightarrow>
    pending_run r = pending_run (foldl (run_step P) r es) + answers P r es"
proof (induction es arbitrary: r)
  case (Cons ev es)
  from run_ok_step [OF Cons.prems, of P ev] Cons.IH [of "run_step P r ev"] show ?case by simp
qed simp

lemma busy_holds: "\<not> lane_done l \<Longrightarrow> \<exists>w. holds w l"
  by (auto simp: lane_done_def list_all_length holds_def)

text \<open>C20. The run ends with its last answer: it is over exactly when as many tests have ended as rows were
  queued, and until then some test is running, so that it comes to an end whenever the hub
  answers every request.\<close>

theorem run_ends_with_last_answer:
  assumes "\<not> tr_testingAll r0" and "template_outbounds (tp_template (tr_page r0)) = obs" and "obs \<noteq> []"
    and r: "r = foldl (run_step P) (testAllOutbounds mode r0) es"
  defines "n \<equiv> length (fst (outbound_queues mode obs)) + length (snd (outbound_queues mode obs))"
  shows "answers P (testAllOutbounds mode r0) es \<le> n \<and>
    (tr_testingAll r \<longleftrightarrow> answers P (testAllOutbounds mode r0) es < n) \<and>
    (tr_testingAll r \<longrightarrow> (\<exists>lane w. \<forall>reply. ends_test r (Settles lane w reply)))"
proof -
  have start: "run_ok mode obs (tr_page r0) (testAllOutbounds mode r0)"
    "pending_run (testAllOutbounds mode r0) = n"
    using run_ok_start [OF assms(1-3), of mode] by (simp_all add: n_def outbound_queues_plans)
  have ok: "run_ok mode obs (tr_page r0) r" unfolding r using start(1) by (rule outbound_tests.run_inv)
  have "n = pending_run r + answers P (testAllOutbounds mode r0) es"
    using answers_pending [OF start(1), of P es] start(2) r by simp
  moreover have "\<exists>lane w. \<forall>reply. ends_test r (Settles lane w reply)" if "tr_testingAll r"
  proof -
    have "\<not> lane_done (tr_tcp r) \<or> \<not> lane_done (tr_http r)" using ok that by (simp add: run_ok_def)
    then show ?thesis
    proof
      assume "\<not> lane_done (tr_tcp r)"
      then obtain w where "holds w (tr_tcp r)" using busy_holds by blast
      then show ?thesis by (intro exI [of _ TcpLane] exI [of _ w]) (simp add: ends_test_def)
    next
      assume "\<not> lane_done (tr_http r)"
      then obtain w where "holds w (tr_http r)" using busy_holds by blast
      then show ?thesis by (intro exI [of _ HttpLane] exI [of _ w]) (simp add: ends_test_def)
    qed
  qed
  ultimately show ?thesis using run_ok_testing [OF ok] by auto
qed

section \<open>A run\<close>

text \<open>Four rows: a VLESS outbound, a blackhole, a WireGuard outbound and a hole in the list.\<close>

definition sample_run :: test_run where
  "sample_run =
     \<lparr>tr_page = \<lparr>tp_template = JObj [(''outbounds'', JArr
          [JObj [(''protocol'', JStr ''vless'')], JObj [(''protocol'', JStr ''blackhole'')],
           JObj [(''protocol'', JStr ''wireguard'')], JNull])], tp_states = Map.empty, tp_requests = []\<rparr>,
      tr_mode = ''tcp'', tr_testingAll = False, tr_tcp = \<lparr>ln_queue = [], ln_workers = []\<rparr>,
      tr_http = \<lparr>ln_queue = [], ln_workers = []\<rparr>\<rparr>"

definition sample_events :: "run_event list" where
  "sample_events = [Settles HttpLane 0 (Threw ''e''), Settles TcpLane 1 (Threw ''e''), Settles TcpLane 0 (Threw ''e'')]"

lemma sample_start: "\<not> tr_testingAll sample_run" "template_outbounds (tp_template (tr_page sample_run)) \<noteq> []"
  by (simp_all add: sample_run_def template_outbounds_def js_member_def js_get_def)

theorem each_row_tested_once_witness:
  "\<not> tr_testingAll (foldl (run_step (zparse (\<lambda>s. True))) (testAllOutbounds ''tcp'' sample_run) sample_events) \<and>
   (\<exists>st. tp_states (tr_page (foldl (run_step (zparse (\<lambda>s. True))) (testAllOutbounds ''tcp'' sample_run) sample_events)) 2
      = Some st \<and> \<not> tst_testing st)"
proof -
  have over: "\<not> tr_testingAll (foldl (run_step (zparse (\<lambda>s. True))) (testAllOutbounds ''tcp'' sample_run) sample_events)"
    by code_simp
  have two: "2 < length (template_outbounds (tp_template (tr_page sample_run)))"
    "\<not> isUntestable (template_outbounds (tp_template (tr_page sample_run)) ! 2) ''tcp''"
    by code_simp+
  show ?thesis
    using over two each_row_tested_once [OF sample_start(1) refl sample_start(2) refl over] by blast
qed

theorem tests_in_flight_witness:
  "length (in_flight (foldl (run_step (zparse (\<lambda>s. True))) (testAllOutbounds ''tcp'' sample_run) [])) \<le> 9"
  using tests_in_flight [OF sample_start(1) refl sample_start(2) refl] by blast

theorem run_ends_with_last_answer_witness:
  "tr_testingAll (foldl (run_step (zparse (\<lambda>s. True))) (testAllOutbounds ''tcp'' sample_run) (take 2 sample_events))"
proof -
  have "answers (zparse (\<lambda>s. True)) (testAllOutbounds ''tcp'' sample_run) (take 2 sample_events) = 2 \<and>
      length (fst (outbound_queues ''tcp'' (template_outbounds (tp_template (tr_page sample_run))))) +
      length (snd (outbound_queues ''tcp'' (template_outbounds (tp_template (tr_page sample_run))))) = 3"
    by code_simp
  then show ?thesis
    using run_ends_with_last_answer [OF sample_start(1) refl sample_start(2) refl,
      of "zparse (\<lambda>s. True)" "''tcp''" "take 2 sample_events"] by simp
qed

end
