(* ===== verification/XrayEditorProps.thy ===== *)
theory XrayEditorProps
  imports XraySetting
begin

text \<open>
  The editor of the Xray template (\<open>frontend/src/hooks/useXraySetting.ts\<close>): the text and the parsed
  template stay in step whichever of them is edited, and what is left to save is judged by what
  was sent.
\<close>

datatype editor_event =
    Typed string
  | Edited "js \<Rightarrow> js"
  | UrlTyped js
  | Polled
  | Loaded js
  | SaveAnswered "js \<times> js" msg

fun editor_step :: "xray_editor \<Rightarrow> editor_event \<Rightarrow> xray_editor" where
  "editor_step e (Typed t) = setXraySetting t e"
| "editor_step e (Edited f) = setTemplateSettings f e"
| "editor_step e (UrlTyped v) = setOutboundTestUrl v e"
| "editor_step e Polled = poll_dirty e"
| "editor_step e (Loaded d) = config_loaded d e"
| "editor_step e (SaveAnswered snapshot m) = save_answered snapshot m e"

text \<open>A value that reads back from its own text; all values of \<open>json_ok\<close> do.\<close>

definition survives :: "js \<Rightarrow> bool" where
  "survives v \<longleftrightarrow> Option.bind (JSON_stringify_pretty v) JSON_parse = Some v"

lemma json_ok_survives: "json_ok v \<Longrightarrow> survives v"
proof -
  assume v: "json_ok v"
  obtain t where "JSON_stringify_pretty v = Some t"
    using json_ok_ser [OF v] unfolding JSON_stringify_pretty_def by blast
  then show ?thesis using json_pretty.dec_enc [OF v] by (simp add: survives_def)
qed

text \<open>The text, where it is JSON, says what the template is.\<close>

definition in_step :: "xray_editor \<Rightarrow> bool" where
  "in_step e \<longleftrightarrow> (\<forall>t v. xe_text e = JStr t \<longrightarrow> JSON_parse t = Some v \<longrightarrow> xe_template e = v)"

definition event_ok :: "xray_editor \<Rightarrow> editor_event \<Rightarrow> bool" where
  "event_ok e ev \<longleftrightarrow>
     (case ev of
        Edited f \<Rightarrow> \<not> nullish (f (xe_template e)) \<and> survives (f (xe_template e))
      | Loaded d \<Rightarrow> survives (js_member d ''xraySetting'')
      | _ \<Rightarrow> True)"

fun events_ok :: "xray_editor \<Rightarrow> editor_event list \<Rightarrow> bool" where
  "events_ok e [] = True"
| "events_ok e (ev # es) \<longleftrightarrow> event_ok e ev \<and> events_ok (editor_step e ev) es"

lemma pretty_says: "survives v \<Longrightarrow> pretty v = JStr t \<Longrightarrow> JSON_parse t = Some w \<Longrightarrow> w = v"
  by (auto simp: survives_def pretty_def split: option.splits)

lemma in_step_step: "in_step e \<Longrightarrow> event_ok e ev \<Longrightarrow> in_step (editor_step e ev)"
proof (cases ev)
  case (Typed t)
  then show ?thesis by (auto simp: in_step_def setXraySetting_def Let_def split: option.splits)
next
  case (Edited f)
  assume "event_ok e ev"
  then show ?thesis using Edited by (auto simp: in_step_def event_ok_def setTemplateSettings_def Let_def dest: pretty_says)
next
  case (UrlTyped v)
  assume "in_step e"
  then show ?thesis using UrlTyped by (simp add: in_step_def setOutboundTestUrl_def)
next
  case Polled
  assume "in_step e"
  then show ?thesis using Polled by (simp add: in_step_def poll_dirty_def)
next
  case (Loaded d)
  assume "in_step e" "event_ok e ev"
  then show ?thesis using Loaded by (auto simp: in_step_def event_ok_def config_loaded_def Let_def dest: pretty_says)
next
  case (SaveAnswered s m)
  assume "in_step e"
  then show ?thesis using SaveAnswered by (simp add: in_step_def save_answered_def)
qed

text \<open>C12. However the text and the template of the Xray editor are edited, loaded and saved in turn, the
  text never says anything other than the template: whenever the text is JSON, it is the JSON of
  the template.  The form views and the text view therefore show one configuration.\<close>

theorem text_and_template_agree:
  assumes "events_ok new_xray_editor es" and "e = foldl editor_step new_xray_editor es"
    and "xe_text e = JStr t" and "JSON_parse t = Some v"
  shows "xe_template e = v"
proof -
  have "in_step (foldl editor_step e es)" if "in_step e" "events_ok e es" for e
    using that by (induction es arbitrary: e) (auto simp: in_step_step)
  moreover have "in_step new_xray_editor"
  proof -
    have "JSON_parse [] = None" by code_simp
    then show ?thesis by (simp add: in_step_def new_xray_editor_def)
  qed
  ultimately show ?thesis using assms by (auto simp: in_step_def)
qed

theorem text_and_template_agree_witness:
  "xe_template (foldl editor_step new_xray_editor [Typed ''{'', Typed ''{}'']) = JObj []"
proof -
  have p: "JSON_parse ''{}'' = Some (JObj [])" "JSON_parse ''{'' = None" by code_simp+
  show ?thesis
    by (rule text_and_template_agree [OF _ refl _ p(1), of "[Typed ''{'', Typed ''{}'']"])
      (simp_all add: event_ok_def setXraySetting_def p)
qed

section \<open>Saving while the editor is in use\<close>

text \<open>
  A save is an asynchronous call: its request carries what the editor holds when it starts, and
  its answer comes at any later time, after edits, polls, reloads and further saves, whose answers
  may come in another order.  The state of a run is the editor with what each request sent.
\<close>

type_synonym save_run = "xray_editor \<times> (js \<times> js) list"

datatype save_event =
    InEditor editor_event
  | SaveStarts
  | Answered nat msg

fun save_step :: "save_run \<Rightarrow> save_event \<Rightarrow> save_run" where
  "save_step (e, reqs) (InEditor ev) = (editor_step e ev, reqs)"
| "save_step (e, reqs) SaveStarts = (e, reqs @ [save_sent e])"
| "save_step (e, reqs) (Answered k m) = (if k < length reqs then save_answered (reqs ! k) m e else e, reqs)"

text \<open>Events after which the saved configuration is the one it was before: none that loads a
  configuration, no successful answer.\<close>

definition keeps_saved :: "save_event \<Rightarrow> bool" where
  "keeps_saved ev = (case ev of
     InEditor (Loaded d) \<Rightarrow> \<not> truthy d | InEditor (SaveAnswered s m) \<Rightarrow> False
   | Answered k m \<Rightarrow> \<not> msg_ok m | _ \<Rightarrow> True)"

definition saved :: "save_run \<Rightarrow> js \<times> js" where
  "saved r = (xe_oldText (fst r), xe_oldUrl (fst r))"

lemma requests_kept: "\<exists>more. snd (foldl save_step r evs) = snd r @ more"
proof (induction evs arbitrary: r)
  case (Cons ev evs)
  obtain e reqs where r: "r = (e, reqs)" by (cases r)
  have "\<exists>more. snd (save_step r ev) = snd r @ more" by (cases ev) (simp_all add: r)
  with Cons [of "save_step r ev"] show ?case by fastforce
qed simp

lemma saved_kept: "list_all keeps_saved evs \<Longrightarrow> saved (foldl save_step r evs) = saved r"
proof (induction evs arbitrary: r)
  case (Cons ev evs)
  obtain e reqs where r: "r = (e, reqs)" by (cases r)
  have "saved (save_step r ev) = saved r"
  proof (cases ev)
    case (InEditor x)
    then show ?thesis using Cons.prems
      by (cases x) (auto simp: r saved_def keeps_saved_def setXraySetting_def setTemplateSettings_def
        setOutboundTestUrl_def poll_dirty_def config_loaded_def Let_def split: option.split)
  next
    case (Answered k m)
    then show ?thesis using Cons.prems by (simp add: r saved_def keeps_saved_def save_answered_def)
  qed (simp add: r saved_def)
  then show ?case using Cons by simp
qed simp

text \<open>C13. Saving is offered again by what was sent.  Whatever happens before, during and after a save, edits,
  polls, reloads of the configuration and further saves with their answers in any order: once its
  answer reports success, and until another one does or the configuration is loaded again, each
  poll disables the saving exactly when the text is the one that was current when the request
  started and the address of the test is the one that was sent, the default one for an empty
  address.  An edit made while the request was under way therefore leaves the editor dirty, until the
  configuration that the success asks for is loaded and replaces it.\<close>

theorem save_judged_by_what_was_sent:
  assumes "sent_by = foldl save_step start before"
    and "after = foldl save_step sent_by ([SaveStarts] @ during @ [Answered (length (snd sent_by)) m] @ rest)"
    and "msg_ok m" and "list_all keeps_saved rest"
  shows "xe_saveDisabled (fst (save_step after (InEditor Polled))) \<longleftrightarrow>
    xe_text (fst after) = xe_text (fst sent_by) \<and>
    xe_url (fst after) = js_or (xe_url (fst sent_by)) (JStr DEFAULT_TEST_URL)"
proof -
  obtain e reqs where b: "sent_by = (e, reqs)" by (cases sent_by)
  define d where "d = foldl save_step (e, reqs @ [save_sent e]) during"
  obtain e' reqs' where d: "d = (e', reqs')" by (cases d)
  obtain more where more: "reqs' = reqs @ [save_sent e] @ more"
    using requests_kept [of "(e, reqs @ [save_sent e])" during] d unfolding d_def [symmetric] by auto
  have a: "after = foldl save_step (save_answered (save_sent e) m e', reqs') rest"
    using assms(2) by (simp add: b more nth_append flip: d_def, simp add: d more nth_append)
  then have "saved after = save_sent e"
    using saved_kept [OF assms(4)] assms(3) by (simp add: saved_def save_answered_def)
  moreover obtain ea ra where "after = (ea, ra)" by (cases after)
  ultimately show ?thesis by (auto simp: b saved_def save_sent_def poll_dirty_def Let_def)
qed

theorem save_judged_by_what_was_sent_witness:
  "\<not> xe_saveDisabled (fst (foldl save_step (new_xray_editor, [])
      [InEditor (Typed ''{}''), SaveStarts, InEditor (Typed ''{''), SaveStarts, Answered 1 (Msg False [] JNull),
       Answered 0 (Msg True [] JNull), InEditor Polled]))"
proof -
  let ?start = "(new_xray_editor, [])" and ?before = "[InEditor (Typed ''{}'')]" and ?m = "Msg True [] JNull"
  let ?during = "[InEditor (Typed ''{''), SaveStarts, Answered 1 (Msg False [] JNull)]"
  let ?b = "foldl save_step ?start ?before"
  let ?a = "foldl save_step ?b ([SaveStarts] @ ?during @ [Answered (length (snd ?b)) ?m] @ [])"
  have p: "JSON_parse ''{}'' = Some (JObj [])" "JSON_parse ''{'' = None" by code_simp+
  have t: "xe_text (fst ?a) \<noteq> xe_text (fst ?b)" by (simp add: setXraySetting_def p save_answered_def msg_ok_def)
  have m: "msg_ok ?m" by (simp add: msg_ok_def)
  have l: "length (snd ?b) = 0" by simp
  from save_judged_by_what_was_sent [of ?b ?start ?before ?a ?during ?m "[]", OF refl refl m] t
  have "\<not> xe_saveDisabled (fst (save_step ?a (InEditor Polled)))" by simp
  then show ?thesis unfolding l by simp
qed

end
