(* ===== verification/Fallbacks.thy ===== *)
theory Fallbacks
  imports HubCalls InboundForm Models
begin

text \<open>
  \<open>frontend/src/pages/inbounds/form/useInboundFallbacks.ts\<close>: the fallback rows of a VLESS or Trojan
  inbound, their defaults from the inbound they lead to, and their saving and loading.  The
  inbounds of the panel are instances of \<open>DBInbound\<close>.
\<close>

section \<open>Rows\<close>

record fallback_row =
  fr_rowKey :: string
  fr_childId :: "rat option"
  fr_name :: string
  fr_alpn :: string
  fr_path :: string
  fr_dest :: string
  fr_xver :: rat

text \<open>\<open>Partial<FallbackRow>\<close> without the key: the members that are present.\<close>

record fallback_patch =
  fp_childId :: "rat option option"
  fp_name :: "string option"
  fp_alpn :: "string option"
  fp_path :: "string option"
  fp_dest :: "string option"
  fp_xver :: "rat option"

definition no_patch :: fallback_patch where
  "no_patch = \<lparr>fp_childId = None, fp_name = None, fp_alpn = None, fp_path = None, fp_dest = None, fp_xver = None\<rparr>"

definition spread :: "fallback_row \<Rightarrow> fallback_patch \<Rightarrow> fallback_row" where
  "spread r p = r\<lparr>fr_childId := case_option (fr_childId r) id (fp_childId p),
     fr_name := case_option (fr_name r) id (fp_name p), fr_alpn := case_option (fr_alpn r) id (fp_alpn p),
     fr_path := case_option (fr_path r) id (fp_path p), fr_dest := case_option (fr_dest r) id (fp_dest p),
     fr_xver := case_option (fr_xver r) id (fp_xver p)\<rparr>"

text \<open>The rows and \<open>fallbackKeyRef\<close>.\<close>

record fallbacks =
  fb_rows :: "fallback_row list"
  fb_key :: nat

definition row_key :: "nat \<Rightarrow> string" where
  "row_key n = ''fb-'' @ nat_str n"

section \<open>The other inbounds\<close>

definition inbound_id :: "db_inbound_model \<Rightarrow> rat" where
  "inbound_id ib = inbound_num ''id'' ib"

text \<open>The labels are left out: they are for display.\<close>

definition fallbackChildOptions :: "db_inbound_model option \<Rightarrow> db_inbound_model list \<Rightarrow> rat list" where
  "fallbackChildOptions dbInbound dbInbounds =
     map inbound_id (filter (\<lambda>ib. map_option inbound_id dbInbound \<noteq> Some (inbound_id ib)) dbInbounds)"

definition text_of :: "js \<Rightarrow> string" where
  "text_of v = (case v of JStr s \<Rightarrow> s | _ \<Rightarrow> [])"

definition transport_path :: "obj \<Rightarrow> string \<Rightarrow> string" where
  "transport_path stream network =
     (if network = ''ws'' then text_of (js_member (js_get stream ''wsSettings'') ''path'')
      else if network = ''grpc'' then text_of (js_member (js_get stream ''grpcSettings'') ''serviceName'')
      else if network = ''httpupgrade'' then text_of (js_member (js_get stream ''httpupgradeSettings'') ''path'')
      else if network = ''xhttp'' then text_of (js_member (js_get stream ''xhttpSettings'') ''path'')
      else [])"

definition deriveFallbackDefaults :: "db_inbound_model list \<Rightarrow> rat \<Rightarrow> fallback_patch" where
  "deriveFallbackDefaults dbInbounds childId =
     (case find (\<lambda>ib. inbound_id ib = childId) dbInbounds of
        None \<Rightarrow> no_patch
      | Some child \<Rightarrow>
          let stream = coerceInboundJsonField (js_get (props child) ''streamSettings'');
              tls = js_get stream ''tlsSettings'';
              alpnArr = (case js_member tls ''alpn'' of JArr xs \<Rightarrow> xs | _ \<Rightarrow> [])
          in no_patch\<lparr>fp_name := Some (text_of (js_member tls ''serverName'')),
               fp_alpn := Some (join '','' (map text_of (filter is_str alpnArr))),
               fp_path := Some (transport_path stream (text_of (js_get stream ''network''))),
               fp_xver := Some 0\<rparr>)"

section \<open>Operations\<close>

definition blank_row :: "nat \<Rightarrow> fallback_row" where
  "blank_row n = \<lparr>fr_rowKey = row_key n, fr_childId = None, fr_name = [], fr_alpn = [], fr_path = [],
     fr_dest = [], fr_xver = 0\<rparr>"

definition number_of :: "js \<Rightarrow> rat" where
  "number_of v = (case v of JNum (Fin x) \<Rightarrow> x | _ \<Rightarrow> 0)"

definition loaded_row :: "js \<Rightarrow> nat \<Rightarrow> fallback_row" where
  "loaded_row r n = \<lparr>fr_rowKey = row_key n,
     fr_childId = (if number_of (js_member r ''childId'') > 0 then Some (number_of (js_member r ''childId'')) else None),
     fr_name = text_of (js_member r ''name''), fr_alpn = text_of (js_member r ''alpn''),
     fr_path = text_of (js_member r ''path''), fr_dest = text_of (js_member r ''dest''),
     fr_xver = number_of (js_member r ''xver'')\<rparr>"

text \<open>What the answer of the hub does to the rows.\<close>

definition fallbacks_answered :: "msg \<Rightarrow> fallbacks \<Rightarrow> fallbacks" where
  "fallbacks_answered m s =
     (case msg_obj m of
        JArr rows \<Rightarrow>
          if msg_ok m
          then \<lparr>fb_rows = map2 loaded_row rows [Suc (fb_key s)..<Suc (fb_key s) + length rows],
                fb_key = fb_key s + length rows\<rparr>
          else s\<lparr>fb_rows := []\<rparr>
      | _ \<Rightarrow> s\<lparr>fb_rows := []\<rparr>)"

definition fallbacks_url :: "rat \<Rightarrow> string" where
  "fallbacks_url masterId = ''/panel/api/inbounds/'' @ num_str (Fin masterId) @ ''/fallbacks''"

definition loadFallbacks ::
  "('h, 's) hub \<Rightarrow> rat option \<Rightarrow> fallbacks \<times> ('h, 's) app \<Rightarrow> fallbacks \<times> ('h, 's) app" where
  "loadFallbacks H masterId s =
     (let (f, a) = s
      in case masterId of
           None \<Rightarrow> (f\<lparr>fb_rows := []\<rparr>, a)
         | Some i \<Rightarrow>
             if i = 0 then (f\<lparr>fb_rows := []\<rparr>, a)
             else (case hub_get H False (fallbacks_url i) a of
                     (None, a) \<Rightarrow> (f, a)
                   | (Some m, a) \<Rightarrow> (fallbacks_answered m f, a)))"

definition row_kept :: "fallback_row \<Rightarrow> bool" where
  "row_kept c \<longleftrightarrow> (case fr_childId c of Some i \<Rightarrow> i \<noteq> 0 | None \<Rightarrow> False) \<or> js_trim (fr_dest c) \<noteq> []"

definition row_payload :: "nat \<Rightarrow> fallback_row \<Rightarrow> js" where
  "row_payload i c = JObj
     [(''childId'', case fr_childId c of Some x \<Rightarrow> JNum (Fin x) | None \<Rightarrow> JNull),
      (''name'', JStr (fr_name c)), (''alpn'', JStr (fr_alpn c)), (''path'', JStr (fr_path c)),
      (''dest'', JStr (fr_dest c)), (''xver'', JNum (Fin (fr_xver c))), (''sortOrder'', JInt (int i))]"

definition fallback_rows_payload :: "fallbacks \<Rightarrow> js" where
  "fallback_rows_payload s =
     (let kept = filter row_kept (fb_rows s) in JArr (map2 row_payload [0..<length kept] kept))"

definition saveFallbacks ::
  "('h, 's) hub \<Rightarrow> rat \<Rightarrow> fallbacks \<times> ('h, 's) app \<Rightarrow> bool option \<times> ('h, 's) app" where
  "saveFallbacks H masterId s =
     (let (f, a) = s
      in if masterId = 0 then (Some True, a)
         else (case hub_post H False (fallbacks_url masterId)
                      (JObj [(''fallbacks'', fallback_rows_payload f)]) True a of
                 (None, a) \<Rightarrow> (None, a)
               | (Some m, a) \<Rightarrow> (Some (msg_ok m), a)))"

definition addFallback :: "fallbacks \<Rightarrow> fallbacks" where
  "addFallback s = \<lparr>fb_rows = fb_rows s @ [blank_row (Suc (fb_key s))], fb_key = Suc (fb_key s)\<rparr>"

definition pristine :: "fallback_row \<Rightarrow> bool" where
  "pristine r \<longleftrightarrow> fr_name r = [] \<and> fr_alpn r = [] \<and> fr_path r = [] \<and> fr_dest r = [] \<and> fr_xver r = 0"

definition update_row :: "db_inbound_model list \<Rightarrow> fallback_patch \<Rightarrow> fallback_row \<Rightarrow> fallback_row" where
  "update_row dbInbounds patch r =
     (case fp_childId patch of
        Some (Some child) \<Rightarrow>
          if Some child \<noteq> fr_childId r \<and> pristine r
          then spread (spread r patch) (deriveFallbackDefaults dbInbounds child)
          else spread r patch
      | _ \<Rightarrow> spread r patch)"

definition updateFallback :: "db_inbound_model list \<Rightarrow> string \<Rightarrow> fallback_patch \<Rightarrow> fallbacks \<Rightarrow> fallbacks" where
  "updateFallback dbInbounds rowKey patch s =
     s\<lparr>fb_rows := map (\<lambda>r. if fr_rowKey r \<noteq> rowKey then r else update_row dbInbounds patch r) (fb_rows s)\<rparr>"

definition removeFallback :: "nat \<Rightarrow> fallbacks \<Rightarrow> fallbacks" where
  "removeFallback idx s = s\<lparr>fb_rows := take idx (fb_rows s) @ drop (Suc idx) (fb_rows s)\<rparr>"

text \<open>\<open>idx\<close> is the index of a row; the direction is \<open>-1\<close> or \<open>1\<close>.\<close>

definition moveFallback :: "nat \<Rightarrow> int \<Rightarrow> fallbacks \<Rightarrow> fallbacks" where
  "moveFallback idx direction s =
     (let prev = fb_rows s; target = int idx + direction
      in if target < 0 \<or> int (length prev) \<le> target \<or> length prev \<le> idx then s
         else s\<lparr>fb_rows := prev[idx := prev ! nat target, nat target := prev ! idx]\<rparr>)"

definition added_row :: "db_inbound_model list \<Rightarrow> rat \<Rightarrow> nat \<Rightarrow> fallback_row" where
  "added_row dbInbounds opt n =
     (let derived = deriveFallbackDefaults dbInbounds opt
      in \<lparr>fr_rowKey = row_key n, fr_childId = Some opt, fr_name = case_option [] id (fp_name derived),
          fr_alpn = case_option [] id (fp_alpn derived), fr_path = case_option [] id (fp_path derived),
          fr_dest = [], fr_xver = case_option 0 id (fp_xver derived)\<rparr>)"

definition addAllFallbacks :: "db_inbound_model option \<Rightarrow> db_inbound_model list \<Rightarrow> fallbacks \<Rightarrow> fallbacks" where
  "addAllFallbacks dbInbound dbInbounds s =
     (let alreadyHave = set (map fr_childId (fb_rows s));
          missing = filter (\<lambda>opt. Some opt \<notin> alreadyHave) (fallbackChildOptions dbInbound dbInbounds)
      in if missing = [] then s
         else \<lparr>fb_rows = fb_rows s @ map2 (added_row dbInbounds) missing [Suc (fb_key s)..<Suc (fb_key s) + length missing],
               fb_key = fb_key s + length missing\<rparr>)"

section \<open>Row keys\<close>

datatype fallback_op =
    Answered msg
  | Cleared
  | Add
  | Update string fallback_patch
  | Remove nat
  | Move nat int
  | AddAll

fun fallback_step :: "db_inbound_model option \<Rightarrow> db_inbound_model list \<Rightarrow> fallbacks \<Rightarrow> fallback_op \<Rightarrow> fallbacks" where
  "fallback_step ib ibs s (Answered m) = fallbacks_answered m s"
| "fallback_step ib ibs s Cleared = s\<lparr>fb_rows := []\<rparr>"
| "fallback_step ib ibs s Add = addFallback s"
| "fallback_step ib ibs s (Update k p) = updateFallback ibs k p s"
| "fallback_step ib ibs s (Remove i) = removeFallback i s"
| "fallback_step ib ibs s (Move i d) = moveFallback i d s"
| "fallback_step ib ibs s AddAll = addAllFallbacks ib ibs s"

text \<open>Keys are distinct and were all given out.\<close>

definition keys_ok :: "fallbacks \<Rightarrow> bool" where
  "keys_ok s \<longleftrightarrow> distinct (map fr_rowKey (fb_rows s)) \<and>
     (\<forall>r \<in> set (fb_rows s). \<exists>n \<le> fb_key s. fr_rowKey r = row_key n)"

lemma row_key_inject [simp]: "row_key m = row_key n \<longleftrightarrow> m = n"
  using decimal.enc_inject [of m n] by (simp add: row_key_def)

lemma fr_rowKey_simps [simp]:
  "fr_rowKey (blank_row n) = row_key n" "fr_rowKey (loaded_row v n) = row_key n"
  "fr_rowKey (added_row ibs c n) = row_key n" "fr_rowKey (spread r p) = fr_rowKey r"
  "fr_rowKey (update_row ibs p r) = fr_rowKey r"
  by (simp_all add: blank_row_def loaded_row_def added_row_def spread_def update_row_def Let_def split: option.split)

lemma fresh_keys:
  assumes "keys_ok s" and "length xs = n" and f: "\<And>x m. fr_rowKey (f x m) = row_key m"
  shows "keys_ok \<lparr>fb_rows = fb_rows s @ map2 f xs [Suc (fb_key s)..<Suc (fb_key s) + n], fb_key = fb_key s + n\<rparr>"
proof -
  have keys: "map fr_rowKey (map2 f xs [Suc (fb_key s)..<Suc (fb_key s) + n]) =
      map row_key [Suc (fb_key s)..<Suc (fb_key s) + n]"
  proof -
    have "map fr_rowKey (map2 f xs ms) = map row_key (take (length xs) ms)" for ms
      by (induction xs ms rule: list_induct2') (simp_all add: f)
    then show ?thesis using assms(2) by simp
  qed
  have new: "distinct (map row_key [Suc (fb_key s)..<Suc (fb_key s) + n])"
    by (simp add: distinct_map inj_on_def del: upt_Suc)
  have old: "\<And>k. k \<in> set (map fr_rowKey (fb_rows s)) \<Longrightarrow> \<exists>m \<le> fb_key s. k = row_key m"
    using assms(1) by (auto simp: keys_ok_def)
  have "set (map fr_rowKey (fb_rows s)) \<inter> set (map row_key [Suc (fb_key s)..<Suc (fb_key s) + n]) = {}"
  proof -
    have above: "row_key m \<notin> set (map fr_rowKey (fb_rows s))" if "fb_key s < m" for m
    proof
      assume "row_key m \<in> set (map fr_rowKey (fb_rows s))"
      from old [OF this] show False using that by auto
    qed
    then have "k \<notin> set (map fr_rowKey (fb_rows s))" if "k \<in> set (map row_key [Suc (fb_key s)..<Suc (fb_key s) + n])" for k
    proof -
      from that obtain m where "k = row_key m" "m \<in> set [Suc (fb_key s)..<Suc (fb_key s) + n]" by (metis imageE list.set_map)
      moreover from this(2) have "fb_key s < m" by auto
      ultimately show ?thesis using above by blast
    qed
    then show ?thesis by blast
  qed
  moreover have "\<exists>m \<le> fb_key s + n. fr_rowKey r = row_key m"
    if "r \<in> set (map2 f xs [Suc (fb_key s)..<Suc (fb_key s) + n])" for r
  proof -
    have "fr_rowKey r \<in> set (map row_key [Suc (fb_key s)..<Suc (fb_key s) + n])"
      using imageI [OF that, of fr_rowKey] unfolding keys [symmetric] list.set_map .
    then obtain m where "fr_rowKey r = row_key m" "m \<in> set [Suc (fb_key s)..<Suc (fb_key s) + n]" by (metis imageE list.set_map)
    moreover from this(2) have "m \<le> fb_key s + n" by auto
    ultimately show ?thesis by blast
  qed
  moreover have "\<exists>m \<le> fb_key s + n. fr_rowKey r = row_key m" if "r \<in> set (fb_rows s)" for r
  proof -
    have "fr_rowKey r \<in> set (map fr_rowKey (fb_rows s))" using that by simp
    from old [OF this] obtain m where "m \<le> fb_key s" "fr_rowKey r = row_key m" by blast
    then show ?thesis by (intro exI [of _ m]) simp
  qed
  moreover have "distinct (map fr_rowKey (fb_rows s))" using assms(1) by (simp add: keys_ok_def)
  ultimately have "distinct (map fr_rowKey (fb_rows s) @ map fr_rowKey (map2 f xs [Suc (fb_key s)..<Suc (fb_key s) + n]))"
    and "\<forall>r \<in> set (fb_rows s) \<union> set (map2 f xs [Suc (fb_key s)..<Suc (fb_key s) + n]). \<exists>m \<le> fb_key s + n. fr_rowKey r = row_key m"
    using new unfolding keys distinct_append by blast+
  then show ?thesis by (simp only: keys_ok_def fallbacks.select_convs map_append set_append)
qed

lemma keys_ok_map: "keys_ok s \<Longrightarrow> (\<And>r. fr_rowKey (f r) = fr_rowKey r) \<Longrightarrow> keys_ok (s\<lparr>fb_rows := map f (fb_rows s)\<rparr>)"
  by (auto simp: keys_ok_def comp_def)

lemma keys_ok_sub: "keys_ok s \<Longrightarrow> set rs \<subseteq> set (fb_rows s) \<Longrightarrow> distinct (map fr_rowKey rs) \<Longrightarrow> keys_ok (s\<lparr>fb_rows := rs\<rparr>)"
  by (auto simp: keys_ok_def)

lemma keys_ok_step: "keys_ok s \<Longrightarrow> keys_ok (fallback_step ib ibs s op)"
proof (cases op)
  case (Answered m)
  assume s: "keys_ok s"
  have clear: "keys_ok (s\<lparr>fb_rows := []\<rparr>)" by (simp add: keys_ok_def)
  have "keys_ok (\<lparr>fb_rows = [] @ map2 loaded_row rows [Suc (fb_key s)..<Suc (fb_key s) + length rows],
      fb_key = fb_key s + length rows\<rparr>)" for rows
    using fresh_keys [OF clear, of rows "length rows" loaded_row] by simp
  then show ?thesis using Answered clear by (auto simp: fallbacks_answered_def split: js.split)
next
  case Add
  assume "keys_ok s"
  then show ?thesis using Add fresh_keys [of s "[()]" 1 "\<lambda>u. blank_row"] by (simp add: addFallback_def)
next
  case (Update k p)
  assume "keys_ok s"
  then show ?thesis using Update by (simp add: updateFallback_def keys_ok_map)
next
  case (Remove i)
  assume s: "keys_ok s"
  have "distinct (map fr_rowKey (take i (fb_rows s)) @ map fr_rowKey (drop (Suc i) (fb_rows s)))"
    using s distinct_take [of "map fr_rowKey (fb_rows s)" i] distinct_drop [of "map fr_rowKey (fb_rows s)" "Suc i"]
      set_take_disj_set_drop_if_distinct [of "map fr_rowKey (fb_rows s)" i "Suc i"]
    by (simp add: keys_ok_def take_map drop_map)
  then show ?thesis using Remove s set_take_subset [of i "fb_rows s"] set_drop_subset [of "Suc i" "fb_rows s"]
    by (simp add: removeFallback_def keys_ok_sub)
next
  case (Move i d)
  assume s: "keys_ok s"
  let ?t = "nat (int i + d)"
  have "keys_ok (s\<lparr>fb_rows := (fb_rows s)[i := fb_rows s ! ?t, ?t := fb_rows s ! i]\<rparr>)"
    if "i < length (fb_rows s)" "?t < length (fb_rows s)"
  proof (rule keys_ok_sub [OF s])
    show "set ((fb_rows s)[i := fb_rows s ! ?t, ?t := fb_rows s ! i]) \<subseteq> set (fb_rows s)"
      using that by (simp add: set_swap)
    have "distinct (map fr_rowKey (fb_rows s))" using s by (simp add: keys_ok_def)
    moreover have "map fr_rowKey ((fb_rows s)[i := fb_rows s ! ?t, ?t := fb_rows s ! i]) =
        (map fr_rowKey (fb_rows s))[i := map fr_rowKey (fb_rows s) ! ?t, ?t := map fr_rowKey (fb_rows s) ! i]"
      using that by (simp add: map_update)
    ultimately show "distinct (map fr_rowKey ((fb_rows s)[i := fb_rows s ! ?t, ?t := fb_rows s ! i]))"
      using that by (simp only: distinct_swap length_map)
  qed
  then show ?thesis using Move s by (auto simp: moveFallback_def Let_def)
next
  case AddAll
  assume "keys_ok s"
  then show ?thesis unfolding AddAll fallback_step.simps addAllFallbacks_def Let_def
    by (auto simp only: fr_rowKey_simps split: if_split intro!: fresh_keys)
qed (simp add: keys_ok_def)

interpretation fallback_keys: machine "fallback_step ib ibs" keys_ok for ib ibs
  by unfold_locales (rule keys_ok_step)

section \<open>What the rows promise\<close>

text \<open>Row keys stay distinct under every operation, so that editing a row changes that row alone, and
  in it only the members of the edit, with one exception: choosing another inbound for a row
  that is blank otherwise fills in the name, ALPN and path of that inbound.\<close>

theorem editing_changes_one_row:
  assumes "s = foldl (fallback_step ib ibs) \<lparr>fb_rows = [], fb_key = 0\<rparr> ops"
    and "i < length (fb_rows s)"
  shows "fb_rows (updateFallback ibs (fr_rowKey (fb_rows s ! i)) patch s) =
    (fb_rows s)[i := (let r = fb_rows s ! i in
       if (\<exists>c. fp_childId patch = Some (Some c) \<and> fr_childId r \<noteq> Some c) \<and> pristine r
       then spread (spread r patch) (deriveFallbackDefaults ibs (the (the (fp_childId patch))))
       else spread r patch)]"
proof -
  have "keys_ok s" unfolding assms(1) by (rule fallback_keys.run_inv) (simp add: keys_ok_def)
  then have d: "distinct (map fr_rowKey (fb_rows s))" by (simp add: keys_ok_def)
  have new: "update_row ibs patch (fb_rows s ! i) = (let r = fb_rows s ! i in
       if (\<exists>c. fp_childId patch = Some (Some c) \<and> fr_childId r \<noteq> Some c) \<and> pristine r
       then spread (spread r patch) (deriveFallbackDefaults ibs (the (the (fp_childId patch))))
       else spread r patch)"
    by (auto simp: update_row_def Let_def split: option.split)
  show ?thesis
  proof (rule nth_equalityI)
    fix j assume "j < length (fb_rows (updateFallback ibs (fr_rowKey (fb_rows s ! i)) patch s))"
    then have j: "j < length (fb_rows s)" by (simp add: updateFallback_def)
    have "fr_rowKey (fb_rows s ! j) = fr_rowKey (fb_rows s ! i) \<longleftrightarrow> j = i"
      using nth_eq_iff_index_eq [OF d, of j i] j assms(2) by simp
    then show "fb_rows (updateFallback ibs (fr_rowKey (fb_rows s ! i)) patch s) ! j = (fb_rows s)[i := (let r = fb_rows s ! i in
       if (\<exists>c. fp_childId patch = Some (Some c) \<and> fr_childId r \<noteq> Some c) \<and> pristine r
       then spread (spread r patch) (deriveFallbackDefaults ibs (the (the (fp_childId patch))))
       else spread r patch)] ! j"
      unfolding new [symmetric] using j assms(2) by (auto simp: updateFallback_def nth_list_update)
  qed (simp add: updateFallback_def)
qed

theorem editing_changes_one_row_witness:
  "fb_rows (updateFallback [] (row_key 1) (no_patch\<lparr>fp_dest := Some ''80''\<rparr>)
     (foldl (fallback_step None []) \<lparr>fb_rows = [], fb_key = 0\<rparr> [Add, Add])) =
   [(blank_row 1)\<lparr>fr_dest := ''80''\<rparr>, blank_row 2]"
proof -
  have s: "foldl (fallback_step None []) \<lparr>fb_rows = [], fb_key = 0\<rparr> [Add, Add] =
      \<lparr>fb_rows = [blank_row 1, blank_row 2], fb_key = 2\<rparr>"
    by (simp add: addFallback_def numeral_2_eq_2)
  show ?thesis
    using editing_changes_one_row [OF refl, of 0 None "[]" "[Add, Add]" "no_patch\<lparr>fp_dest := Some ''80''\<rparr>"]
    unfolding s by (simp add: no_patch_def spread_def blank_row_def Let_def)
qed

text \<open>The members of a row that are saved.\<close>

definition row_data :: "fallback_row \<Rightarrow> rat option \<times> string \<times> string \<times> string \<times> string \<times> rat" where
  "row_data r = (fr_childId r, fr_name r, fr_alpn r, fr_path r, fr_dest r, fr_xver r)"

definition child_ok :: "fallback_row \<Rightarrow> bool" where
  "child_ok r \<longleftrightarrow> (case fr_childId r of Some i \<Rightarrow> i > 0 | None \<Rightarrow> True)"

lemma loaded_payload: "child_ok c \<Longrightarrow> row_data (loaded_row (row_payload i c) n) = row_data c"
  by (auto simp: row_data_def loaded_row_def row_payload_def child_ok_def js_member_def js_get_def text_of_def
      number_of_def split: option.splits)

lemma loaded_payloads: "list_all child_ok cs \<Longrightarrow> length ns = length cs \<Longrightarrow> length is = length cs \<Longrightarrow>
    map row_data (map2 loaded_row (map2 row_payload is cs) ns) = map row_data cs"
proof (induction cs arbitrary: ns "is")
  case (Cons c cs)
  then show ?case by (cases ns; cases "is") (auto simp: loaded_payload)
qed simp

text \<open>C32. Saved fallbacks read back: what the hub stored of a save, loaded again, are the rows that lead
  anywhere (to an inbound or to a destination), in their order and with all their members; blank
  rows are dropped, and a second save sends the same list.\<close>

theorem fallbacks_read_back:
  assumes "list_all child_ok (fb_rows s)" and "msg_ok m" and "msg_obj m = fallback_rows_payload s"
  shows "map row_data (fb_rows (fallbacks_answered m s')) = map row_data (filter row_kept (fb_rows s)) \<and>
    fallback_rows_payload (fallbacks_answered m s') = fallback_rows_payload s"
proof -
  let ?kept = "filter row_kept (fb_rows s)"
  let ?rows = "fb_rows (fallbacks_answered m s')"
  have rows: "?rows = map2 loaded_row (map2 row_payload [0..<length ?kept] ?kept)
      [Suc (fb_key s')..<Suc (fb_key s') + length ?kept]"
    using assms(2,3) by (simp add: fallbacks_answered_def fallback_rows_payload_def Let_def del: upt_Suc)
  have "list_all child_ok ?kept" using assms(1) by (auto simp: list_all_iff)
  then have same: "map row_data ?rows = map row_data ?kept"
    unfolding rows by (rule loaded_payloads) (simp_all del: upt_Suc)
  have kept: "filter row_kept rs = rs \<and> map2 row_payload ns rs = map2 row_payload ns qs"
    if "map row_data rs = map row_data qs" "list_all row_kept qs" for rs qs ns
    using that
  proof (induction rs arbitrary: qs ns)
    case (Cons r rs)
    then obtain q qs' where q: "qs = q # qs'" "row_data r = row_data q" "map row_data rs = map row_data qs'" by auto
    have "row_kept r \<longleftrightarrow> row_kept q" "row_payload n r = row_payload n q" for n
      using q(2) by (simp_all add: row_data_def row_kept_def row_payload_def)
    then show ?case using Cons.IH [OF q(3)] Cons.prems(2) q(1) by (cases ns) auto
  qed simp
  have "list_all row_kept ?kept" by (simp add: list_all_iff)
  from kept [OF same this] have "filter row_kept ?rows = ?rows"
    and payloads: "\<And>ns. map2 row_payload ns ?rows = map2 row_payload ns ?kept" by blast+
  moreover have "length ?rows = length ?kept" using arg_cong [OF same, of length] by simp
  ultimately have "fallback_rows_payload (fallbacks_answered m s') = fallback_rows_payload s"
    unfolding fallback_rows_payload_def Let_def by simp
  then show ?thesis using same by blast
qed

theorem fallbacks_read_back_witness:
  "map row_data (fb_rows (fallbacks_answered (Msg True [] (fallback_rows_payload \<lparr>fb_rows =
     [blank_row 1, (blank_row 2)\<lparr>fr_dest := ''80''\<rparr>], fb_key = 2\<rparr>)) \<lparr>fb_rows = [], fb_key = 0\<rparr>)) =
   [row_data ((blank_row 2)\<lparr>fr_dest := ''80''\<rparr>)]"
proof -
  let ?s = "\<lparr>fb_rows = [blank_row 1, (blank_row 2)\<lparr>fr_dest := ''80''\<rparr>], fb_key = 2\<rparr>"
  have "js_trim ''80'' = ''80''" by (rule js_trim_all_plain) (simp add: plain_char_def)
  then have "filter row_kept (fb_rows ?s) = [(blank_row 2)\<lparr>fr_dest := ''80''\<rparr>]"
    by (simp add: row_kept_def blank_row_def)
  moreover have "list_all child_ok (fb_rows ?s)" by (simp add: child_ok_def blank_row_def)
  moreover have "msg_ok (Msg True [] (fallback_rows_payload ?s))" by (simp add: msg_ok_def)
  moreover have "msg_obj (Msg True [] (fallback_rows_payload ?s)) = fallback_rows_payload ?s" by (simp only: msg_obj_def msg.case)
  ultimately show ?thesis
    using fallbacks_read_back [of ?s "Msg True [] (fallback_rows_payload ?s)" "\<lparr>fb_rows = [], fb_key = 0\<rparr>"]
    by (simp only: list.map)
qed

end
