(* ===== verification/Inbounds.thy ===== *)
theory Inbounds
  imports Clients InboundForm Models Capabilities
begin

text \<open>
  The inbounds page: \<open>frontend/src/pages/inbounds/useInbounds.ts\<close>.  Its queries, the rows with the
  counts of their clients, and the events of the socket that update them in place.

  The instances of \<open>DBInbound\<close> are shared between the React state and its reference, and the
  statistics of a client are shared between a row and the row's cache: an update in place is an
  update of both.  Fields that the source declares as numbers are read by \<open>num_or_0\<close>.
\<close>

section \<open>Queries\<close>

definition TRACKED_PROTOCOLS :: "string list" where
  "TRACKED_PROTOCOLS = [''vmess'', ''vless'', ''trojan'', ''shadowsocks'', ''hysteria'']"

definition fetchSlimInbounds :: "('h, 's) hub \<Rightarrow> ('h, 's) app \<Rightarrow> js fetched \<times> ('h, 's) app" where
  "fetchSlimInbounds H a = fetch_list H SlimInboundListSchema ''Failed to fetch inbounds''
     (hub_get H True ''/panel/api/inbounds/list/slim'' a)"

definition fetchOnlineClients :: "('h, 's) hub \<Rightarrow> ('h, 's) app \<Rightarrow> js fetched \<times> ('h, 's) app" where
  "fetchOnlineClients H a = fetch_list H OnlinesSchema ''Failed to fetch onlines''
     (hub_post H True ''/panel/api/clients/onlines'' JUndef False a)"

definition object_or_empty :: "js \<Rightarrow> js" where
  "object_or_empty v = (case v of JObj m \<Rightarrow> v | JArr xs \<Rightarrow> v | _ \<Rightarrow> JObj [])"

definition fetchOnlineClientsByNode :: "('h, 's) hub \<Rightarrow> ('h, 's) app \<Rightarrow> js fetched \<times> ('h, 's) app" where
  "fetchOnlineClientsByNode H a = map_fetched object_or_empty
     (fetch_checked H OnlineByNodeSchema ''Failed to fetch onlinesByNode''
       (hub_post H True ''/panel/api/clients/onlinesByNode'' JUndef False a))"

definition fetchActiveInboundsByNode :: "('h, 's) hub \<Rightarrow> ('h, 's) app \<Rightarrow> js fetched \<times> ('h, 's) app" where
  "fetchActiveInboundsByNode H a = map_fetched object_or_empty
     (fetch_checked H ActiveInboundsByNodeSchema ''Failed to fetch activeInbounds''
       (hub_post H True ''/panel/api/clients/activeInbounds'' JUndef False a))"

definition fetchLastOnlineMap :: "('h, 's) hub \<Rightarrow> ('h, 's) app \<Rightarrow> js fetched \<times> ('h, 's) app" where
  "fetchLastOnlineMap H a = map_fetched object_or_empty
     (fetch_checked H LastOnlineMapSchema ''Failed to fetch lastOnline''
       (hub_post H True ''/panel/api/clients/lastOnline'' JUndef False a))"

definition fetchDefaultSettings :: "('h, 's) hub \<Rightarrow> ('h, 's) app \<Rightarrow> js fetched \<times> ('h, 's) app" where
  "fetchDefaultSettings H a = map_fetched (\<lambda>v. js_coalesce v (JObj []))
     (fetch_checked H DefaultsPayloadSchema ''Failed to fetch defaults''
       (hub_post H True ''/panel/setting/defaultSettings'' JUndef False a))"

section \<open>Maps by node\<close>

text \<open>A \<open>Map\<close> from node ids to sets; the entry set last comes first.\<close>

type_synonym node_map = "(jnum \<times> js set) list"

definition toNodeOnlineMap :: "js \<Rightarrow> node_map" where
  "toNodeOnlineMap d =
     foldl (\<lambda>m (key, emails). case emails of
         JArr xs \<Rightarrow> (js_number_of_string key, set xs) # m
       | _ \<Rightarrow> m) [] (js_members d)"

section \<open>The counts of an inbound\<close>

record rollup =
  ru_clients :: nat
  ru_active :: "string list"
  ru_deactive :: "string list"
  ru_depleted :: "string list"
  ru_expiring :: "string list"
  ru_online :: "string list"
  ru_comments :: "(string \<times> string) list"

definition empty_rollup :: rollup where
  "empty_rollup = \<lparr>ru_clients = 0, ru_active = [], ru_deactive = [], ru_depleted = [], ru_expiring = [],
     ru_online = [], ru_comments = []\<rparr>"

text \<open>A client of an enabled inbound; \<open>lit\<close> says who is online on this inbound.\<close>

definition rollup_client :: "(string \<Rightarrow> bool) \<Rightarrow> rollup \<Rightarrow> js \<Rightarrow> rollup" where
  "rollup_client lit s client =
     (let email = row_email client;
          s = (case js_member client ''comment'' of
                 JStr c \<Rightarrow> if c \<noteq> [] \<and> email \<noteq> [] then s\<lparr>ru_comments := (email, c) # ru_comments s\<rparr> else s
               | _ \<Rightarrow> s)
      in if email = [] then s
         else if truthy (js_member client ''enable'')
         then let s = s\<lparr>ru_active := ru_active s @ [email]\<rparr>
              in if lit email then s\<lparr>ru_online := ru_online s @ [email]\<rparr> else s
         else s\<lparr>ru_deactive := ru_deactive s @ [email]\<rparr>)"

definition rollup_stats :: "rat \<Rightarrow> rat \<Rightarrow> rat \<Rightarrow> rollup \<Rightarrow> js \<Rightarrow> rollup" where
  "rollup_stats now expireMs trafficBytes s st =
     (let limit = num_or_0 (js_member st ''total'');
          used = num_or_0 (js_member st ''up'') + num_or_0 (js_member st ''down'');
          expiry = num_or_0 (js_member st ''expiryTime'');
          exhausted = 0 < limit \<and> limit \<le> used;
          expired = 0 < expiry \<and> expiry \<le> now
      in if expired \<or> exhausted then s\<lparr>ru_depleted := ru_depleted s @ [row_email st]\<rparr>
         else if (0 < expiry \<and> expiry - now < expireMs) \<or> (0 < limit \<and> limit - used < trafficBytes)
         then s\<lparr>ru_expiring := ru_expiring s @ [row_email st]\<rparr>
         else s)"

text \<open>What the counts depend on beside the row: the time, the thresholds and the two maps.\<close>

record rollup_env =
  re_now :: rat
  re_expireDiff :: rat
  re_trafficDiff :: rat
  re_online :: node_map
  re_active :: node_map

definition js_num_of :: "js \<Rightarrow> jnum" where
  "js_num_of v = (case v of JNum n \<Rightarrow> n | _ \<Rightarrow> NaN)"

definition inbound_lit :: "rollup_env \<Rightarrow> db_inbound_model \<Rightarrow> string \<Rightarrow> bool" where
  "inbound_lit E i email =
     (let nodeId = js_num_of (js_coalesce (js_get (props i) ''nodeId'') (JInt 0));
          inboundActive = (case map_of (re_active E) nodeId of
              None \<Rightarrow> True
            | Some tags \<Rightarrow> \<not> truthy (js_get (props i) ''tag'') \<or> js_get (props i) ''tag'' \<in> tags)
      in inboundActive \<and>
         (case map_of (re_online E) nodeId of None \<Rightarrow> False | Some emails \<Rightarrow> JStr email \<in> emails))"

definition array_items :: "js \<Rightarrow> js list" where
  "array_items v = (case v of JArr xs \<Rightarrow> xs | _ \<Rightarrow> [])"

definition rollupClients :: "rollup_env \<Rightarrow> db_inbound_model \<Rightarrow> js list \<Rightarrow> rollup" where
  "rollupClients E i clients =
     (let counted =
        (if truthy (js_get (props i) ''enable'')
         then foldl (rollup_stats (re_now E) (re_expireDiff E) (re_trafficDiff E))
                (foldl (rollup_client (inbound_lit E i)) empty_rollup clients)
                (array_items (js_get (props i) ''clientStats''))
         else empty_rollup\<lparr>ru_deactive := filter (\<lambda>e. e \<noteq> []) (map row_email clients)\<rparr>)
      in counted\<lparr>ru_clients := length clients\<rparr>)"

definition settings_slice :: "string \<Rightarrow> obj \<Rightarrow> shadowsocks_slice" where
  "settings_slice protocol settings =
     \<lparr>ssl_protocol = protocol,
      ssl_method = (case js_get settings ''method'' of JStr s \<Rightarrow> Some s | _ \<Rightarrow> None)\<rparr>"

text \<open>The counts of one row, if its protocol has clients: \<open>Record<number, ClientRollup>\<close> by id.\<close>

definition row_counts :: "rollup_env \<Rightarrow> js \<Rightarrow> js \<Rightarrow> db_inbound_model \<Rightarrow> (js \<times> rollup) list" where
  "row_counts E protocol rid i =
     (case protocol of
        JStr p \<Rightarrow>
          if p \<notin> set TRACKED_PROTOCOLS then []
          else
            let settings = coerceInboundJsonField (js_get (props i) ''settings'')
            in if p = ''shadowsocks'' \<and> \<not> isSSMultiUser (settings_slice p settings) then []
               else [(rid, rollupClients E i (array_items (js_get settings ''clients'')))]
      | _ \<Rightarrow> [])"

text \<open>A later row of the same id overwrites an earlier one: the lookup is from the end.\<close>

definition client_counts :: "rollup_env \<Rightarrow> db_inbound_model list \<Rightarrow> (js \<times> rollup) list" where
  "client_counts E rows =
     rev (concat (map (\<lambda>i. row_counts E (js_get (props i) ''protocol'') (js_get (props i) ''id'') i) rows))"

section \<open>The page\<close>

record inbounds_page =
  ip_rows :: "db_inbound_model list"
  ip_counts :: "(js \<times> rollup) list"
  ip_statsVersion :: nat
  ip_onlineClients :: js
  ip_onlineByNode :: node_map
  ip_activeByNode :: node_map
  ip_lastOnlineMap :: obj
  ip_defaults :: js

definition new_inbounds_page :: inbounds_page where
  "new_inbounds_page =
     \<lparr>ip_rows = [], ip_counts = [], ip_statsVersion = 0, ip_onlineClients = JArr [], ip_onlineByNode = [],
      ip_activeByNode = [], ip_lastOnlineMap = [], ip_defaults = JObj []\<rparr>"

text \<open>The settings the page reads from the defaults.\<close>

definition ip_expireDiff :: "inbounds_page \<Rightarrow> rat" where
  "ip_expireDiff p = num_or_0 (js_member (ip_defaults p) ''expireDiff'') * 86400000"

definition ip_trafficDiff :: "inbounds_page \<Rightarrow> rat" where
  "ip_trafficDiff p = num_or_0 (js_member (ip_defaults p) ''trafficDiff'') * 1073741824"

record inbounds_sub_settings =
  is_enable :: bool
  is_subTitle :: js
  is_subURI :: js
  is_subJsonURI :: js
  is_subJsonEnable :: bool
  is_publicHost :: js

definition inbounds_subSettings :: "js \<Rightarrow> inbounds_sub_settings" where
  "inbounds_subSettings d =
     \<lparr>is_enable = truthy (js_member d ''subEnable''),
      is_subTitle = js_or (js_member d ''subTitle'') (JStr []),
      is_subURI = js_or (js_member d ''subURI'') (JStr []),
      is_subJsonURI = js_or (js_member d ''subJsonURI'') (JStr []),
      is_subJsonEnable = truthy (js_member d ''subJsonEnable''),
      is_publicHost = js_or (js_or (js_member d ''subDomain'') (js_member d ''webDomain'')) (JStr [])\<rparr>"

definition page_env_of :: "rat \<Rightarrow> inbounds_page \<Rightarrow> rollup_env" where
  "page_env_of now p =
     \<lparr>re_now = now, re_expireDiff = ip_expireDiff p, re_trafficDiff = ip_trafficDiff p,
      re_online = ip_onlineByNode p, re_active = ip_activeByNode p\<rparr>"

definition rebuildClientCount :: "rat \<Rightarrow> inbounds_page \<Rightarrow> inbounds_page" where
  "rebuildClientCount now p = p\<lparr>ip_counts := client_counts (page_env_of now p) (ip_rows p)\<rparr>"

text \<open>The effects of the queries.  The counts of a fresh list take protocol and id from the answer.\<close>

definition slim_loaded :: "rat \<Rightarrow> js \<Rightarrow> inbounds_page \<Rightarrow> inbounds_page" where
  "slim_loaded now d p =
     (let rows = array_items d
      in p\<lparr>ip_rows := map DBInbound rows,
           ip_counts := rev (concat (map (\<lambda>row.
             row_counts (page_env_of now p) (js_member row ''protocol'') (js_member row ''id'') (DBInbound row)) rows))\<rparr>)"

definition onlines_loaded :: "js \<Rightarrow> inbounds_page \<Rightarrow> inbounds_page" where
  "onlines_loaded d p = (if truthy d then p\<lparr>ip_onlineClients := d\<rparr> else p)"

definition onlinesByNode_loaded :: "rat \<Rightarrow> js \<Rightarrow> inbounds_page \<Rightarrow> inbounds_page" where
  "onlinesByNode_loaded now d p =
     (if truthy d then rebuildClientCount now (p\<lparr>ip_onlineByNode := toNodeOnlineMap d\<rparr>) else p)"

definition activeInbounds_loaded :: "rat \<Rightarrow> js \<Rightarrow> inbounds_page \<Rightarrow> inbounds_page" where
  "activeInbounds_loaded now d p =
     (if truthy d then rebuildClientCount now (p\<lparr>ip_activeByNode := toNodeOnlineMap d\<rparr>) else p)"

definition lastOnline_loaded :: "js \<Rightarrow> inbounds_page \<Rightarrow> inbounds_page" where
  "lastOnline_loaded d p = (if truthy d then p\<lparr>ip_lastOnlineMap := js_members d\<rparr> else p)"

definition refreshInbounds :: "('h, 's) app \<Rightarrow> ('h, 's) app" where
  "refreshInbounds a =
     foldl (\<lambda>a k. invalidate_key k a) a
       [[''inbounds''], [''clients'', ''onlines''], [''clients'', ''onlinesByNode''],
        [''clients'', ''activeInbounds''], [''clients'', ''lastOnline''], [''xray'', ''config'']]"

text \<open>
  \<open>hydrateInbound\<close>: the answer that replaces a row.  React is taken to run the update function of
  the rows at once, as it does for a component with no pending update.
\<close>

definition hydrated :: "rat \<Rightarrow> js \<Rightarrow> js \<Rightarrow> inbounds_page \<Rightarrow> inbounds_page" where
  "hydrated now rid v p =
     (let dbInbound = DBInbound v
      in rebuildClientCount now
           (p\<lparr>ip_rows := map (\<lambda>row. if js_get (props row) ''id'' = rid then dbInbound else row) (ip_rows p)\<rparr>))"

definition hydrateInbound ::
  "('h, 's) hub \<Rightarrow> rat \<Rightarrow> rat \<Rightarrow> inbounds_page \<times> ('h, 's) app \<Rightarrow>
     db_inbound_model option option \<times> inbounds_page \<times> ('h, 's) app" where
  "hydrateInbound H now rid s =
     (let (p, a) = s
      in case hub_get H False (''/panel/api/inbounds/get/'' @ num_str (Fin rid)) a of
           (None, a) \<Rightarrow> (None, p, a)
         | (Some m, a) \<Rightarrow>
             if \<not> msg_ok m \<or> \<not> truthy (msg_obj m) then (Some None, p, a)
             else
               let v = msg_obj (parseMsg (hub_zod H) m InboundDetailSchema)
               in if \<not> truthy v then (Some None, p, a)
                  else (Some (Some (DBInbound v)), hydrated now (JNum (Fin rid)) v p, a))"

section \<open>Events of the socket\<close>

definition is_object :: "js \<Rightarrow> bool" where
  "is_object v = (case v of JObj m \<Rightarrow> True | JArr xs \<Rightarrow> True | _ \<Rightarrow> False)"

definition inbounds_traffic_event :: "rat \<Rightarrow> js \<Rightarrow> inbounds_page \<Rightarrow> inbounds_page" where
  "inbounds_traffic_event now payload p =
     (if \<not> is_object payload then p
      else
        let p = (if is_array (js_member payload ''onlineClients'')
                 then p\<lparr>ip_onlineClients := js_member payload ''onlineClients''\<rparr> else p);
            p = (if is_object (js_member payload ''onlineByNode'')
                 then p\<lparr>ip_onlineByNode := toNodeOnlineMap (js_member payload ''onlineByNode'')\<rparr> else p);
            p = (if is_object (js_member payload ''activeInbounds'')
                 then p\<lparr>ip_activeByNode := toNodeOnlineMap (js_member payload ''activeInbounds'')\<rparr> else p);
            p = (if is_object (js_member payload ''lastOnlineMap'')
                 then p\<lparr>ip_lastOnlineMap := js_put_all (ip_lastOnlineMap p) (js_members (js_member payload ''lastOnlineMap''))\<rparr>
                 else p)
        in rebuildClientCount now p)"

definition by_id :: "js list \<Rightarrow> js \<Rightarrow> js option" where
  "by_id rows rid = find (\<lambda>r. \<not> nullish (js_member r ''id'') \<and> js_member r ''id'' = rid) (rev rows)"

definition merge_inbound :: "js list \<Rightarrow> db_inbound_model \<Rightarrow> db_inbound_model" where
  "merge_inbound rows i =
     (case by_id rows (js_get (props i) ''id'') of
        None \<Rightarrow> i
      | Some upd \<Rightarrow>
          i\<lparr>props := copy_if is_bool upd ''enable'' (copy_if is_num upd ''total'' (copy_if is_num upd ''down''
              (copy_if is_num upd ''up'' (props i))))\<rparr>)"

definition merge_stat :: "js list \<Rightarrow> js \<Rightarrow> js" where
  "merge_stat rows st =
     (case by_email rows (row_email st) of
        None \<Rightarrow> st
      | Some upd \<Rightarrow>
          JObj (copy_if is_bool upd ''enable'' (copy_if is_num upd ''expiryTime'' (copy_if is_num upd ''total''
             (copy_if is_num upd ''down'' (copy_if is_num upd ''up'' (js_members st)))))))"

definition merge_stats :: "js list \<Rightarrow> db_inbound_model \<Rightarrow> db_inbound_model" where
  "merge_stats rows i =
     (case js_get (props i) ''clientStats'' of
        JArr sts \<Rightarrow>
          i\<lparr>props := js_put ''clientStats'' (JArr (map (merge_stat rows) sts)) (props i),
            clientStatsMap := map_option (map (\<lambda>(e, st). (e, merge_stat rows st))) (clientStatsMap i)\<rparr>
      | _ \<Rightarrow> i)"

definition stats_touch :: "js list \<Rightarrow> db_inbound_model \<Rightarrow> bool" where
  "stats_touch rows i \<longleftrightarrow>
     list_ex (\<lambda>st. by_email rows (row_email st) \<noteq> None) (array_items (js_get (props i) ''clientStats''))"

definition inbounds_stats_event :: "rat \<Rightarrow> js \<Rightarrow> inbounds_page \<Rightarrow> inbounds_page" where
  "inbounds_stats_event now payload p =
     (if \<not> is_object payload then p
      else
        let inbounds = array_items (js_member payload ''inbounds'');
            clients = array_items (js_member payload ''clients'');
            touched = list_ex (\<lambda>i. by_id inbounds (js_get (props i) ''id'') \<noteq> None) (ip_rows p) \<or>
                      list_ex (stats_touch clients) (ip_rows p);
            p = p\<lparr>ip_rows := map (\<lambda>i. merge_stats clients (merge_inbound inbounds i)) (ip_rows p)\<rparr>
        in if touched then rebuildClientCount now (p\<lparr>ip_statsVersion := Suc (ip_statsVersion p)\<rparr>) else p)"

definition inbounds_totals :: "inbounds_page \<Rightarrow> rat \<times> rat" where
  "inbounds_totals p =
     foldl (\<lambda>(up, down) i. (up + num_or_0 (js_get (props i) ''up''), down + num_or_0 (js_get (props i) ''down'')))
       (0, 0) (ip_rows p)"

datatype inbounds_event =
    SlimLoaded js
  | OnlinesLoaded js
  | OnlinesByNodeLoaded js
  | ActiveInboundsLoaded js
  | LastOnlineLoaded js
  | DefaultsLoaded js
  | Hydrated js js
  | TrafficEvent js
  | StatsEvent js
  | StatsLookup nat string

text \<open>Every event comes with the time at which it is handled; a lookup fills the cache of a row.\<close>

fun inbounds_step :: "inbounds_page \<Rightarrow> rat \<times> inbounds_event \<Rightarrow> inbounds_page" where
  "inbounds_step p (now, SlimLoaded d) = (if truthy d then slim_loaded now d p else p)"
| "inbounds_step p (now, OnlinesLoaded d) = onlines_loaded d p"
| "inbounds_step p (now, OnlinesByNodeLoaded d) = onlinesByNode_loaded now d p"
| "inbounds_step p (now, ActiveInboundsLoaded d) = activeInbounds_loaded now d p"
| "inbounds_step p (now, LastOnlineLoaded d) = lastOnline_loaded d p"
| "inbounds_step p (now, DefaultsLoaded d) = p\<lparr>ip_defaults := d\<rparr>"
| "inbounds_step p (now, Hydrated rid v) = hydrated now rid v p"
| "inbounds_step p (now, TrafficEvent d) = inbounds_traffic_event now d p"
| "inbounds_step p (now, StatsEvent d) = inbounds_stats_event now d p"
| "inbounds_step p (now, StatsLookup n e) =
     (if n < length (ip_rows p)
      then p\<lparr>ip_rows := (ip_rows p)[n := snd (getClientStats e (ip_rows p ! n))]\<rparr> else p)"

end
