(* ===== verification/InboundsProps.thy ===== *)
theory InboundsProps
  imports Inbounds ClientsProps ModelsProps
begin

text \<open>
  Theorems on the inbounds page: the cached statistics of its rows never go stale, the counts
  follow every event, and they agree with the summary of the clients page.
\<close>

section \<open>The cache of statistics\<close>

definition cache_ok :: "db_inbound_model \<Rightarrow> bool" where
  "cache_ok i \<longleftrightarrow> (case clientStatsMap i of None \<Rightarrow> True
     | Some m \<Rightarrow> m = stats_map (js_get (props i) ''clientStats''))"

definition caches_ok :: "inbounds_page \<Rightarrow> bool" where
  "caches_ok p \<longleftrightarrow> list_all cache_ok (ip_rows p)"

lemma stats_map_array: "stats_map (JArr rows) =
    rev (map (\<lambda>r. (row_email r, r)) (filter (\<lambda>r. row_email r \<noteq> []) rows))"
proof (induction rows rule: rev_induct)
  case (snoc r rows)
  then show ?case by (cases "js_member r ''email''") (auto simp: stats_map_def row_email_def)
qed (simp add: stats_map_def)

lemma merge_stat_email [simp]: "row_email (merge_stat rows st) = row_email st"
proof (cases st)
  case (JObj m)
  then show ?thesis
    by (auto simp: merge_stat_def row_email_def js_member_def js_members_def js_get_copy_if split: option.split)
qed (simp_all add: merge_stat_def row_email_def js_member_def by_email_def)

lemma stats_map_merge: "stats_map (JArr (map (merge_stat rows) sts)) =
    map (\<lambda>(e, st). (e, merge_stat rows st)) (stats_map (JArr sts))"
  by (simp add: stats_map_array rev_map filter_map comp_def)

lemma merge_inbound_stats [simp]:
  "js_get (props (merge_inbound rows i)) ''clientStats'' = js_get (props i) ''clientStats''"
  "clientStatsMap (merge_inbound rows i) = clientStatsMap i"
  by (auto simp: merge_inbound_def js_get_copy_if split: option.split)

lemma cache_ok_merge: "cache_ok i \<Longrightarrow> cache_ok (merge_stats clients (merge_inbound inbounds i))"
proof -
  assume i: "cache_ok i"
  show ?thesis
  proof (cases "js_get (props i) ''clientStats''")
    case (JArr sts)
    then show ?thesis using i by (cases "clientStatsMap i") (auto simp: cache_ok_def merge_stats_def stats_map_merge)
  qed (use i in \<open>simp_all add: cache_ok_def merge_stats_def split: option.splits\<close>)
qed

lemma cache_ok_lookup: "cache_ok i \<Longrightarrow> cache_ok (snd (getClientStats e i))"
  by (auto simp: cache_ok_def getClientStats_def Let_def split: option.splits)

lemma cache_ok_new [simp]: "cache_ok (DBInbound v)"
  by (simp add: cache_ok_def DBInbound_def)

lemma rebuild_rows [simp]: "ip_rows (rebuildClientCount now p) = ip_rows p"
  by (simp add: rebuildClientCount_def)

lemma traffic_rows [simp]: "ip_rows (inbounds_traffic_event now d p) = ip_rows p"
  by (simp add: inbounds_traffic_event_def Let_def)

lemma stats_rows: "ip_rows (inbounds_stats_event now d p) =
    (if is_object d then map (\<lambda>i. merge_stats (array_items (js_member d ''clients''))
        (merge_inbound (array_items (js_member d ''inbounds'')) i)) (ip_rows p)
     else ip_rows p)"
  by (simp add: inbounds_stats_event_def Let_def)

lemma caches_ok_step: "caches_ok p \<Longrightarrow> caches_ok (inbounds_step p ev)"
proof (induction p ev rule: inbounds_step.induct)
  case (7 p now rid v)
  then show ?case by (auto simp: caches_ok_def hydrated_def list_all_iff)
next
  case (9 p now d)
  then show ?case by (auto simp: caches_ok_def stats_rows list_all_iff cache_ok_merge)
next
  case (10 p now n e)
  then show ?case by (auto simp: caches_ok_def list_all_iff cache_ok_lookup dest!: set_update_subset_insert [THEN subsetD])
qed (simp_all add: caches_ok_def slim_loaded_def onlines_loaded_def onlinesByNode_loaded_def activeInbounds_loaded_def
    lastOnline_loaded_def list_all_iff Let_def)

interpretation inbounds_caches: machine inbounds_step caches_ok
  by unfold_locales (rule caches_ok_step)

lemma cached_lookup:
  assumes "cache_ok i"
  shows "fst (getClientStats email i) = map_of (stats_map (js_get (props i) ''clientStats'')) email"
    and "fst (getClientStats email i) = last_stats i email"
proof -
  show *: "fst (getClientStats email i) = map_of (stats_map (js_get (props i) ''clientStats'')) email"
    using assms by (auto simp: cache_ok_def getClientStats_def Let_def split: option.splits)
  show "fst (getClientStats email i) = last_stats i email" unfolding *
    by (cases "js_get (props i) ''clientStats''") (simp_all add: last_stats_def map_of_stats_map, simp_all add: stats_map_def)
qed

lemma caches_ok_run: "caches_ok (foldl inbounds_step new_inbounds_page evs)"
  by (rule inbounds_caches.run_inv) (simp add: caches_ok_def new_inbounds_page_def)

text \<open>What a row of statistics says of a member after an event: the number or the flag that the event's
  last row for the email has under the name, and otherwise what it said before.\<close>

definition reported :: "js list \<Rightarrow> js \<Rightarrow> string \<Rightarrow> js" where
  "reported rows st k =
     (case by_email rows (row_email st) of
        None \<Rightarrow> js_member st k
      | Some upd \<Rightarrow>
          if k \<in> {''up'', ''down'', ''total'', ''expiryTime''} \<and> is_num (js_member upd k) \<or>
             k = ''enable'' \<and> is_bool (js_member upd k)
          then js_member upd k else js_member st k)"

lemma merge_stat_member: "row_email st \<noteq> [] \<Longrightarrow> js_member (merge_stat rows st) k = reported rows st k"
  by (cases st) (auto simp: row_email_def merge_stat_def reported_def js_member_def js_members_def js_get_copy_if
    split: option.split)

text \<open>C10. The statistics of a client are looked up in a cache that each row builds once and nobody clears;
  they are current all the same: in every state of the page, after any queries, socket events and
  lookups, a statistics event makes the next lookup yield exactly the numbers and the flag that the
  event reports for the email, with every other member as it was, and clients that the event does
  not list keep their statistics.\<close>

theorem statistics_are_current:
  assumes "p = foldl inbounds_step new_inbounds_page evs" and "n < length (ip_rows p)"
    and "fst (getClientStats email (ip_rows p ! n)) = Some st" and "is_object d"
  shows "\<exists>st'. fst (getClientStats email (ip_rows (inbounds_step p (now, StatsEvent d)) ! n)) = Some st' \<and>
    last_stats (ip_rows (inbounds_step p (now, StatsEvent d)) ! n) email = Some st' \<and>
    row_email st' = email \<and>
    (\<forall>k. js_member st' k = reported (array_items (js_member d ''clients'')) st k)"
proof -
  let ?cs = "array_items (js_member d ''clients'')" and ?ins = "array_items (js_member d ''inbounds'')"
  let ?i = "ip_rows p ! n" and ?q = "inbounds_step p (now, StatsEvent d)"
  have ok: "cache_ok ?i" using caches_ok_run [of evs] assms(1,2) by (simp add: caches_ok_def list_all_length)
  have row: "ip_rows ?q ! n = merge_stats ?cs (merge_inbound ?ins ?i)" using assms(2,4) by (simp add: stats_rows)
  have l: "map_of (stats_map (js_get (props ?i) ''clientStats'')) email = Some st"
    using assms(3) cached_lookup(1) [OF ok] by simp
  then obtain sts where sts: "js_get (props ?i) ''clientStats'' = JArr sts"
    by (cases "js_get (props ?i) ''clientStats''") (simp_all add: stats_map_def)
  have st: "row_email st = email" "email \<noteq> []"
    using l unfolding sts stats_map_array by (auto dest!: map_of_SomeD)
  have "js_get (props (ip_rows ?q ! n)) ''clientStats'' = JArr (map (merge_stat ?cs) sts)"
    unfolding row by (simp add: merge_stats_def sts)
  then have "map_of (stats_map (js_get (props (ip_rows ?q ! n)) ''clientStats'')) email = Some (merge_stat ?cs st)"
    using l by (simp add: sts stats_map_merge map_of_map)
  moreover have "cache_ok (ip_rows ?q ! n)" by (simp only: row cache_ok_merge [OF ok])
  ultimately have "fst (getClientStats email (ip_rows ?q ! n)) = Some (merge_stat ?cs st)"
    "last_stats (ip_rows ?q ! n) email = Some (merge_stat ?cs st)"
    using cached_lookup [of "ip_rows ?q ! n" email] by metis+
  moreover have "row_email (merge_stat ?cs st) = email" "\<forall>k. js_member (merge_stat ?cs st) k = reported ?cs st k"
    using st merge_stat_member [of st ?cs] by simp_all
  ultimately show ?thesis by blast
qed

definition sample_inbound :: js where
  "sample_inbound = JObj [(''id'', JInt 1), (''clientStats'', JArr [JObj [(''email'', JStr ''a''), (''up'', JInt 1), (''down'', JInt 7)]])]"

theorem statistics_are_current_witness:
  "let p = foldl inbounds_step new_inbounds_page [(0, SlimLoaded (JArr [sample_inbound])), (0, StatsLookup 0 ''a'')];
       q = inbounds_step p (0, StatsEvent (JObj [(''clients'', JArr [JObj [(''email'', JStr ''a''), (''up'', JInt 2)]])]))
   in \<exists>st. fst (getClientStats ''a'' (ip_rows q ! 0)) = Some st \<and> js_member st ''up'' = JInt 2 \<and> js_member st ''down'' = JInt 7"
proof -
  let ?p = "foldl inbounds_step new_inbounds_page [(0, SlimLoaded (JArr [sample_inbound])), (0, StatsLookup 0 ''a'')]"
  let ?d = "JObj [(''clients'', JArr [JObj [(''email'', JStr ''a''), (''up'', JInt 2)]])]"
  let ?st = "JObj [(''email'', JStr ''a''), (''up'', JInt 1), (''down'', JInt 7)]"
  have c: "0 < length (ip_rows ?p)" "fst (getClientStats ''a'' (ip_rows ?p ! 0)) = Some ?st" "is_object ?d" by code_simp+
  have r: "reported (array_items (js_member ?d ''clients'')) ?st ''up'' = JInt 2"
    "reported (array_items (js_member ?d ''clients'')) ?st ''down'' = JInt 7" by code_simp+
  from statistics_are_current [OF refl c, of 0] r show ?thesis unfolding Let_def by metis
qed

section \<open>The counts\<close>

definition slim_ok :: "inbounds_event \<Rightarrow> bool" where
  "slim_ok ev \<longleftrightarrow> (case ev of
     SlimLoaded d \<Rightarrow> list_all (\<lambda>row. case row of JObj m \<Rightarrow> distinct (map fst m) \<and> js_get m ''id'' \<noteq> JUndef | _ \<Rightarrow> False)
       (array_items d)
   | _ \<Rightarrow> True)"

lemma row_counts_new:
  assumes "distinct (map fst m)" and "js_get m ''id'' \<noteq> JUndef"
  shows "row_counts E (js_member (JObj m) ''protocol'') (js_member (JObj m) ''id'') (DBInbound (JObj m)) =
    row_counts E (js_get (props (DBInbound (JObj m))) ''protocol'') (js_get (props (DBInbound (JObj m))) ''id'')
      (DBInbound (JObj m))"
proof -
  have "js_get (props (DBInbound (JObj m))) k = (if js_get m k = JUndef then js_get default_inbound k else js_get m k)"
    if "k \<in> {''protocol'', ''id''}" for k
  proof -
    have "js_has default_inbound k" using that by (auto simp: default_inbound_def js_has_def)
    then show ?thesis using js_get_cloneProps [OF assms(1)] by (simp add: DBInbound_def)
  qed
  moreover have "js_get default_inbound ''protocol'' = JStr []" by (simp add: default_inbound_def js_get_def)
  ultimately show ?thesis using assms(2)
    by (simp add: js_member_def) (simp add: row_counts_def TRACKED_PROTOCOLS_def)
qed

lemma counts_rebuilt [simp]:
  "ip_counts (rebuildClientCount now p) = client_counts (page_env_of now p) (ip_rows p)"
  "page_env_of t (rebuildClientCount now p) = page_env_of t p"
  by (simp_all add: rebuildClientCount_def page_env_of_def ip_expireDiff_def ip_trafficDiff_def)

lemma page_env_rows [simp]:
  "page_env_of t (p\<lparr>ip_rows := rs\<rparr>) = page_env_of t p"
  "page_env_of t (p\<lparr>ip_counts := cs\<rparr>) = page_env_of t p"
  "page_env_of t (p\<lparr>ip_statsVersion := n\<rparr>) = page_env_of t p"
  by (simp_all add: page_env_of_def ip_expireDiff_def ip_trafficDiff_def)

lemma merge_untouched:
  assumes "by_id inbounds (js_get (props i) ''id'') = None" and "\<not> stats_touch clients i"
  shows "props (merge_stats clients (merge_inbound inbounds i)) = props i"
proof -
  have i: "merge_inbound inbounds i = i" using assms(1) by (simp add: merge_inbound_def)
  show ?thesis
  proof (cases "js_get (props i) ''clientStats''")
    case (JArr sts)
    have "merge_stat clients st = st" if "st \<in> set sts" for st
      using assms(2) that JArr by (auto simp: stats_touch_def array_items_def merge_stat_def list_ex_iff)
    then have "map (merge_stat clients) sts = sts" by (simp add: map_idI)
    moreover have "js_put ''clientStats'' (JArr sts) (props i) = props i"
      using JArr by (intro js_put_same) (auto simp: js_get_def split: option.splits)
    ultimately show ?thesis using JArr i by (simp add: merge_stats_def)
  qed (simp_all add: merge_stats_def i)
qed



section \<open>The two pages\<close>

definition near_end :: "rat \<Rightarrow> rat \<Rightarrow> rat \<Rightarrow> js \<Rightarrow> bool" where
  "near_end now d t c \<longleftrightarrow>
     client_state now d t (num_or_0 (js_member c ''up'') + num_or_0 (js_member c ''down''))
       (num_or_0 (js_member c ''total'')) (num_or_0 (js_member c ''expiryTime'')) True = Expiring"

lemma rollup_stats_state: "rollup_stats now d t s c =
    (if row_state now d t c = Depleted then s\<lparr>ru_depleted := ru_depleted s @ [row_email c]\<rparr>
     else if near_end now d t c then s\<lparr>ru_expiring := ru_expiring s @ [row_email c]\<rparr> else s)"
  by (auto simp: rollup_stats_def row_state_def near_end_def client_state_def Let_def)

lemma near_end_state:
  "row_state now d t c = Expiring \<longleftrightarrow> near_end now d t c \<and> truthy (js_member c ''enable'')"
  "near_end now d t c \<Longrightarrow> row_state now d t c \<noteq> Depleted"
  by (auto simp: row_state_def near_end_def client_state_def split: if_splits)

lemma near_end_deactive: "near_end now d t c \<Longrightarrow> \<not> truthy (js_member c ''enable'') \<Longrightarrow> row_state now d t c = Deactive"
  by (auto simp: row_state_def near_end_def client_state_def split: if_splits)

lemma rollup_stats_fold:
  "ru_depleted (foldl (rollup_stats now d t) s sts) = ru_depleted s @ map row_email (filter (\<lambda>c. row_state now d t c = Depleted) sts)"
  "ru_expiring (foldl (rollup_stats now d t) s sts) = ru_expiring s @ map row_email (filter (near_end now d t) sts)"
  by (induction sts arbitrary: s) (auto simp: rollup_stats_state near_end_state)

lemma rollup_client_stats [simp]:
  "ru_depleted (foldl (rollup_client lit) s cs) = ru_depleted s" "ru_expiring (foldl (rollup_client lit) s cs) = ru_expiring s"
  by (induction cs arbitrary: s) (auto simp: rollup_client_def Let_def split: js.split)

text \<open>C28. The counts of the inbounds page and the summary of the clients page agree on the rows of an enabled
  inbound that have emails: the same clients are depleted, in the same order; every client that the
  summary lists as expiring is counted as expiring, and the only others counted so are ones that the
  summary lists as deactivated, so that with no disabled client the two lists are the same.\<close>

theorem pages_agree:
  assumes "truthy (js_get (props i) ''enable'')" and "js_get (props i) ''clientStats'' = JArr sts"
    and "list_all (\<lambda>st. row_email st \<noteq> []) sts"
    and "computeClientsSummary (re_now E) sts onlineSet (re_expireDiff E) (re_trafficDiff E) = Some s"
  shows "ru_depleted (rollupClients E i clients) = sum_depleted s \<and>
    set (sum_expiring s) \<subseteq> set (ru_expiring (rollupClients E i clients)) \<and>
    set (ru_expiring (rollupClients E i clients)) \<subseteq> set (sum_expiring s) \<union> set (sum_deactive s) \<and>
    (list_all (\<lambda>st. truthy (js_member st ''enable'')) sts \<longrightarrow>
      ru_expiring (rollupClients E i clients) = sum_expiring s)"
proof -
  let ?n = "re_now E" and ?d = "re_expireDiff E" and ?t = "re_trafficDiff E"
  have s: "s = (foldl (summary_row ?n onlineSet ?d ?t) DEFAULT_SUMMARY sts)\<lparr>sum_total := of_nat (length sts)\<rparr>"
    using assms(4) by (simp add: computeClientsSummary_def split: if_splits)
  have "filter (in_state ?n ?d ?t st) sts = filter (\<lambda>c. row_state ?n ?d ?t c = st) sts" for st
    using assms(3) by (intro filter_cong) (auto simp: in_state_def list_all_iff)
  then have sums: "sum_depleted s = map row_email (filter (\<lambda>c. row_state ?n ?d ?t c = Depleted) sts)"
    "sum_expiring s = map row_email (filter (\<lambda>c. row_state ?n ?d ?t c = Expiring) sts)"
    "sum_deactive s = map row_email (filter (\<lambda>c. row_state ?n ?d ?t c = Deactive) sts)"
    by (simp_all add: s summary_fold DEFAULT_SUMMARY_def)
  have rolls: "ru_depleted (rollupClients E i clients) = map row_email (filter (\<lambda>c. row_state ?n ?d ?t c = Depleted) sts)"
    "ru_expiring (rollupClients E i clients) = map row_email (filter (near_end ?n ?d ?t) sts)"
    using assms(1,2) by (simp_all add: rollupClients_def rollup_stats_fold array_items_def empty_rollup_def)
  have "filter (near_end ?n ?d ?t) sts = filter (\<lambda>c. row_state ?n ?d ?t c = Expiring) sts"
    if "list_all (\<lambda>st. truthy (js_member st ''enable'')) sts"
    using that by (intro filter_cong) (auto simp: near_end_state list_all_iff)
  then show ?thesis unfolding sums rolls by (auto simp: near_end_state intro: near_end_deactive)
qed

theorem pages_agree_witness:
  "ru_depleted (rollupClients \<lparr>re_now = 0, re_expireDiff = 0, re_trafficDiff = 5, re_online = [], re_active = []\<rparr>
     (DBInbound (JObj [(''clientStats'', JArr [sample_row ''a'' 10, sample_row ''b'' 1])])) []) = [''a'']"
proof -
  let ?sts = "[sample_row ''a'' 10, sample_row ''b'' 1]"
  let ?i = "DBInbound (JObj [(''clientStats'', JArr ?sts)])"
  let ?E = "\<lparr>re_now = 0, re_expireDiff = 0, re_trafficDiff = 5, re_online = [], re_active = []\<rparr>"
  have i: "truthy (js_get (props ?i) ''enable'')" "js_get (props ?i) ''clientStats'' = JArr ?sts"
    by (simp_all add: DBInbound_def cloneProps_def default_inbound_def js_has_def js_get_def js_put_def is_index_key_def)
  have e: "list_all (\<lambda>st. row_email st \<noteq> []) ?sts" by (simp add: row_email_def sample_row_def js_member_def)
  obtain s where s: "computeClientsSummary 0 ?sts {} 0 5 = Some s" "sum_depleted s = [''a'']"
    by (simp add: computeClientsSummary_def sample_row_def summary_row_def row_email_def num_or_0_def js_member_def DEFAULT_SUMMARY_def Let_def)
  show ?thesis using pages_agree [OF i e, of ?E "{}" s "[]"] s by simp
qed

end
