(* ===== verification/Routing.thy ===== *)
theory Routing
  imports Models
begin

text \<open>
  The basic routing editor: \<open>frontend/src/pages/xray/basics/helpers.ts\<close>, which reads and writes one
  criterion of the rules of an outbound, and the outbound that such rules need; with the display
  helpers of \<open>pages/xray/routing/helpers.ts\<close> and \<open>pages/xray/dns/helpers.ts\<close>.

  The template is changed in place on a copy that the caller owns; the functions here return it.
\<close>

section \<open>Rules\<close>

definition rules_of :: "js \<Rightarrow> js list" where
  "rules_of t = (case js_member (js_member t ''routing'') ''rules'' of JArr rs \<Rightarrow> rs | _ \<Rightarrow> [])"

text \<open>The test of one rule, the same in both functions.\<close>

definition rule_matches :: "string \<Rightarrow> string \<Rightarrow> js \<Rightarrow> bool" where
  "rule_matches outboundTag property rule =
     (case rule of
        JObj m \<Rightarrow> js_has m property \<and> js_has m ''outboundTag'' \<and> js_get m ''outboundTag'' = JStr outboundTag
      | _ \<Rightarrow> False)"

definition rule_values :: "string \<Rightarrow> js \<Rightarrow> js list" where
  "rule_values property rule = (case js_member rule property of JArr vs \<Rightarrow> vs | _ \<Rightarrow> [])"

fun collected :: "string \<Rightarrow> string \<Rightarrow> js list \<Rightarrow> js list" where
  "collected outboundTag property [] = []"
| "collected outboundTag property (rule # rs) =
     (if rule_matches outboundTag property rule then rule_values property rule else []) @
     collected outboundTag property rs"

definition ruleGetter :: "js \<Rightarrow> string \<Rightarrow> string \<Rightarrow> js list" where
  "ruleGetter t outboundTag property = collected outboundTag property (rules_of t)"

definition with_rules :: "js list \<Rightarrow> js \<Rightarrow> js" where
  "with_rules rs t =
     JObj (js_put ''routing'' (JObj (js_put ''rules'' (JArr rs) (js_members (js_member t ''routing'')))) (js_members t))"

definition new_rule :: "string \<Rightarrow> string \<Rightarrow> js list \<Rightarrow> js" where
  "new_rule outboundTag property vs =
     JObj (js_put property (JArr vs) [(''type'', JStr ''field''), (''outboundTag'', JStr outboundTag)])"

text \<open>The loop over the rules; the flag is \<open>inserted\<close>.\<close>

fun put_rules :: "string \<Rightarrow> string \<Rightarrow> js list \<Rightarrow> bool \<Rightarrow> js list \<Rightarrow> js list" where
  "put_rules outboundTag property vs inserted [] = []"
| "put_rules outboundTag property vs inserted (rule # rs) =
     (if rule_matches outboundTag property rule
      then if \<not> inserted \<and> vs \<noteq> []
           then JObj (js_put property (JArr vs) (js_members rule)) # put_rules outboundTag property vs True rs
           else put_rules outboundTag property vs inserted rs
      else rule # put_rules outboundTag property vs inserted rs)"

definition ruleSetter :: "js \<Rightarrow> string \<Rightarrow> string \<Rightarrow> js list \<Rightarrow> js" where
  "ruleSetter t outboundTag property vs =
     (if \<not> truthy (js_member t ''routing'') then t
      else if ruleGetter t outboundTag property = []
      then with_rules (rules_of t @ [new_rule outboundTag property vs]) t
      else with_rules (put_rules outboundTag property vs False (rules_of t)) t)"

section \<open>The outbound of a tag\<close>

definition has_tag :: "string \<Rightarrow> string \<Rightarrow> js \<Rightarrow> bool" where
  "has_tag key tag v \<longleftrightarrow> js_member v key = JStr tag"

fun find_index :: "('a \<Rightarrow> bool) \<Rightarrow> 'a list \<Rightarrow> nat option" where
  "find_index p [] = None"
| "find_index p (x # xs) = (if p x then Some 0 else map_option Suc (find_index p xs))"

definition put_outbounds :: "js list \<Rightarrow> js \<Rightarrow> js" where
  "put_outbounds obs t = JObj (js_put ''outbounds'' (JArr obs) (js_members t))"

definition syncOutbound :: "js \<Rightarrow> string \<Rightarrow> js \<Rightarrow> js" where
  "syncOutbound t tag settings =
     (case js_member t ''outbounds'' of
        JArr obs \<Rightarrow>
          if \<not> truthy (js_member t ''routing'') then t
          else
            let haveRules = list_ex (has_tag ''outboundTag'' tag) (rules_of t);
                idx = find_index (has_tag ''tag'' tag) obs;
                obs = (case idx of
                    Some (Suc i) \<Rightarrow> if \<not> haveRules then take (Suc i) obs @ drop (Suc (Suc i)) obs else obs
                  | _ \<Rightarrow> obs);
                obs = (if haveRules \<and> idx = None then obs @ [settings] else obs)
            in put_outbounds obs t
      | _ \<Rightarrow> t)"

definition directSettings :: js where
  "directSettings = JObj [(''tag'', JStr ''direct''), (''protocol'', JStr ''freedom'')]"

definition ipv4Settings :: js where
  "ipv4Settings = JObj [(''tag'', JStr ''IPv4''), (''protocol'', JStr ''freedom''),
     (''settings'', JObj [(''domainStrategy'', JStr ''UseIPv4'')])]"

section \<open>Display\<close>

definition arrJoin :: "js \<Rightarrow> string option" where
  "arrJoin v =
     (if nullish v then None
      else case v of
          JArr xs \<Rightarrow> Some (join '','' (map (\<lambda>x. if nullish x then [] else js_string x) xs))
        | _ \<Rightarrow> Some (js_string v))"

definition csv :: "string \<Rightarrow> string list" where
  "csv value = filter (\<lambda>s. s \<noteq> []) (map js_trim (split_on CHR '','' value))"

definition chipPreview :: "string \<Rightarrow> string" where
  "chipPreview value =
     (case csv value of [] \<Rightarrow> [] | [p] \<Rightarrow> p | p # q # ps \<Rightarrow> p @ '' +'' @ nat_str (Suc (length ps)))"

definition rule_labels :: "(string \<times> string) list" where
  "rule_labels =
     [(''domain'', ''Domain''), (''ip'', ''IP''), (''port'', ''Port''), (''sourceIP'', ''Src IP''),
      (''sourcePort'', ''Src Port''), (''network'', ''L4''), (''protocol'', ''Protocol''), (''user'', ''User''),
      (''vlessRoute'', ''VLESS'')]"

definition ruleCriteriaChips :: "js \<Rightarrow> (string \<times> js) list" where
  "ruleCriteriaChips rule =
     map (\<lambda>(k, l). (l, js_member rule k)) (filter (\<lambda>(k, l). truthy (js_member rule k)) rule_labels)"

definition addrFor :: "js \<Rightarrow> js" where
  "addrFor srv = (case srv of JStr s \<Rightarrow> srv | _ \<Rightarrow> js_or (js_member srv ''address'') (JStr []))"

definition joined :: "js \<Rightarrow> string" where
  "joined v = (case v of JArr xs \<Rightarrow> join '','' (map (\<lambda>x. if nullish x then [] else js_string x) xs) | _ \<Rightarrow> [])"

definition domainsFor :: "js \<Rightarrow> string" where
  "domainsFor srv = joined (js_or (js_member srv ''domains'') (JArr []))"

definition expectedIPsFor :: "js \<Rightarrow> string" where
  "expectedIPsFor srv = joined (js_or (js_or (js_member srv ''expectedIPs'') (js_member srv ''expectIPs'')) (JArr []))"

section \<open>Reading and writing a criterion\<close>

lemma rules_with_rules [simp]: "rules_of (with_rules rs t) = rs"
  by (simp add: rules_of_def with_rules_def js_member_def)

lemma member_with_rules: "k \<noteq> ''routing'' \<Longrightarrow> js_member (with_rules rs t) k = js_get (js_members t) k"
  by (simp add: with_rules_def js_member_def)

lemma new_rule_matches:
  assumes "property \<notin> {''type'', ''outboundTag''}"
  shows "rule_matches tag property (new_rule tag property vs)" "rule_values property (new_rule tag property vs) = vs"
    "rule_matches tag' property' (new_rule tag property vs) \<longleftrightarrow>
       tag' = tag \<and> (property' = property \<or> property' \<in> {''type'', ''outboundTag''})"
  using assms by (auto simp: rule_matches_def new_rule_def rule_values_def js_member_def js_has_def)

lemma put_rule_matches:
  assumes "rule_matches tag property rule" and "property \<noteq> ''outboundTag''"
  shows "rule_matches tag property (JObj (js_put property (JArr vs) (js_members rule)))"
    "rule_values property (JObj (js_put property (JArr vs) (js_members rule))) = vs"
  using assms by (auto simp: rule_matches_def rule_values_def js_members_def js_member_def split: js.splits)

lemma values_append [simp]: "collected tag p (rs @ rs') = collected tag p rs @ collected tag p rs'"
  by (induction rs) auto

lemma values_unmatched: "\<not> list_ex (rule_matches tag p) rs \<Longrightarrow> collected tag p rs = []"
  by (induction rs) auto

lemma values_filter: "collected tag p (filter (rule_matches tag p) rs) = collected tag p rs"
  by (induction rs) auto

lemma put_rules_values:
  assumes "property \<noteq> ''outboundTag''"
  shows "collected tag property (put_rules tag property vs b rs) =
    (if b \<or> \<not> list_ex (rule_matches tag property) rs then [] else vs)"
proof (induction rs arbitrary: b)
  case (Cons r rs)
  then show ?case using put_rule_matches [of tag property r vs, OF _ assms]
    by (cases "rule_matches tag property r"; cases "vs = []"; cases b) simp_all
qed simp

lemma put_rules_others:
  "filter (\<lambda>r. \<not> rule_matches tag property r) (put_rules tag property vs b rs) =
     filter (\<lambda>r. \<not> rule_matches tag property r) rs" if "property \<noteq> ''outboundTag''"
proof (induction rs arbitrary: b)
  case (Cons r rs)
  then show ?case using put_rule_matches(1) [OF _ that] by auto
qed simp

text \<open>C22. What is written to a criterion of the basic routing reads back, whatever rules there were, and
  the rules that do not carry this criterion for this outbound stay as they are and in their
  order; a template without routing is left alone.\<close>

theorem criterion_reads_back:
  fixes tag :: string and vs :: "js list"
  assumes "property \<notin> {''type'', ''outboundTag''}" and "truthy (js_member t ''routing'')"
  defines "t' \<equiv> ruleSetter t tag property vs"
  shows "ruleGetter t' tag property = vs \<and>
    filter (\<lambda>r. \<not> rule_matches tag property r) (rules_of t') =
      filter (\<lambda>r. \<not> rule_matches tag property r) (rules_of t) \<and>
    (\<forall>k. k \<noteq> ''routing'' \<longrightarrow> js_member t' k = js_member t k)"
proof -
  have p: "property \<noteq> ''outboundTag''" using assms(1) by simp
  have t: "\<exists>m. t = JObj m" using assms(2) by (cases t) (simp_all add: js_member_def)
  then obtain m where m: "t = JObj m" by blast
  have "js_member t k = js_get (js_members t) k" for k by (simp add: m js_member_def js_members_def)
  then have others: "js_member t' k = js_member t k" if "k \<noteq> ''routing''" for k
    using member_with_rules [OF that] by (simp add: t'_def ruleSetter_def)
  show ?thesis
  proof (cases "ruleGetter t tag property = []")
    case True
    then have "t' = with_rules (rules_of t @ [new_rule tag property vs]) t" using assms(2) by (simp add: t'_def ruleSetter_def)
    then show ?thesis using others new_rule_matches(1,2) [OF assms(1)] True by (simp add: ruleGetter_def)
  next
    case False
    then have t': "t' = with_rules (put_rules tag property vs False (rules_of t)) t" using assms(2) by (simp add: t'_def ruleSetter_def)
    have "list_ex (rule_matches tag property) (rules_of t)"
      using False values_unmatched [of tag property "rules_of t"] by (auto simp: ruleGetter_def)
    then show ?thesis using others put_rules_values [OF p, of tag vs False "rules_of t"] put_rules_others [OF p]
      by (simp add: t' ruleGetter_def)
  qed
qed

theorem criterion_reads_back_witness:
  "ruleGetter (ruleSetter (JObj [(''routing'', JObj [])]) ''direct'' ''ip'' [JStr ''geoip:ir'']) ''direct'' ''ip'' = [JStr ''geoip:ir'']"
  using criterion_reads_back [of "''ip''" "JObj [(''routing'', JObj [])]" "''direct''" "[JStr ''geoip:ir'']"]
  by (simp add: js_member_def)

text \<open>
  Two criteria of one outbound are independent only while no rule carries both: clearing one of
  them removes such a rule with the other.
\<close>

definition carries_both :: "string \<Rightarrow> string \<Rightarrow> string \<Rightarrow> js \<Rightarrow> bool" where
  "carries_both tag p q r \<longleftrightarrow> rule_matches tag p r \<and> rule_matches tag q r"

lemma criterion_lost:
  "ruleGetter (ruleSetter
     (JObj [(''routing'', JObj [(''rules'', JArr [JObj [(''outboundTag'', JStr ''direct''),
        (''ip'', JArr [JStr ''geoip:ir'']), (''domain'', JArr [JStr ''geosite:ir''])]])])])
     ''direct'' ''ip'' []) ''direct'' ''domain'' = []"
  by code_simp

lemma put_rules_kept:
  assumes "p \<noteq> q" "p \<noteq> ''outboundTag''" and "\<not> list_ex (carries_both tag p q) rs"
  shows "filter (rule_matches tag q) (put_rules tag p vs b rs) = filter (rule_matches tag q) rs"
  using assms(3)
proof (induction rs arbitrary: b)
  case (Cons r rs)
  have "\<not> rule_matches tag q (JObj (js_put p (JArr vs) (js_members r)))" if "rule_matches tag p r"
    using Cons.prems assms that by (auto simp: carries_both_def rule_matches_def js_members_def split: js.splits)
  then show ?case using Cons by (auto simp: carries_both_def)
qed simp

text \<open>Writing one criterion leaves another one of the same outbound alone, for as long as no rule
  carries both.\<close>

theorem criteria_independent:
  assumes "p \<noteq> q" and "p \<notin> {''type'', ''outboundTag''}" and "q \<notin> {''type'', ''outboundTag''}"
    and "\<not> list_ex (carries_both tag p q) (rules_of t)"
  shows "ruleGetter (ruleSetter t tag p vs) tag q = ruleGetter t tag q"
proof (cases "truthy (js_member t ''routing'')")
  case True
  have "\<not> rule_matches tag q (new_rule tag p vs)" using assms(1,3) new_rule_matches(3) [OF assms(2)] by auto
  moreover have "collected tag q (put_rules tag p vs False (rules_of t)) = collected tag q (rules_of t)"
    using put_rules_kept [OF assms(1) _ assms(4), of vs False] assms(2) values_filter [of tag q] by (metis insertI1 insertI2)
  ultimately show ?thesis using True
    by (simp add: ruleSetter_def ruleGetter_def)
qed (simp add: ruleSetter_def)

theorem criteria_independent_witness:
  "ruleGetter (ruleSetter (JObj [(''routing'', JObj [])]) ''direct'' ''ip'' [JStr ''geoip:ir'']) ''direct'' ''domain'' = []"
proof -
  have "ruleGetter (JObj [(''routing'', JObj [])]) ''direct'' ''domain'' = []" by code_simp
  moreover have "\<not> list_ex (carries_both ''direct'' ''ip'' ''domain'') (rules_of (JObj [(''routing'', JObj [])]))"
    by (simp add: rules_of_def js_member_def js_get_def)
  ultimately show ?thesis
    using criteria_independent [of "''ip''" "''domain''" "''direct''" "JObj [(''routing'', JObj [])]" "[JStr ''geoip:ir'']"] by simp
qed

section \<open>The outbound that rules need\<close>

lemma find_index_None: "find_index p xs = None \<longleftrightarrow> \<not> list_ex p xs"
  by (induction xs) auto

lemma find_index_Some: "find_index p xs = Some i \<Longrightarrow> i < length xs \<and> p (xs ! i)"
  by (induction xs arbitrary: i) (auto split: if_splits)

text \<open>C23. \<open>syncOutbound\<close> for one tag: when a rule sends traffic to this tag, it has an outbound afterwards,
  added at the end if it was missing, and all the others are as they were; when no rule does, the
  first outbound, the default of Xray, stays, and of the rest at most outbounds of this tag go.  The
  outbounds of every other tag are the same in either case, so that no tag that a rule uses loses
  its outbound.\<close>

theorem routed_tags_exist:
  fixes tag :: string and settings :: js
  assumes "js_member t ''outbounds'' = JArr obs" and "truthy (js_member t ''routing'')"
    and "has_tag ''tag'' tag settings"
  defines "used \<equiv> list_ex (has_tag ''outboundTag'' tag) (rules_of t)"
  shows "\<exists>obs'. js_member (syncOutbound t tag settings) ''outbounds'' = JArr obs' \<and>
    (used \<longrightarrow> list_ex (has_tag ''tag'' tag) obs' \<and> take (length obs) obs' = obs) \<and>
    (\<not> used \<longrightarrow> take 1 obs' = take 1 obs \<and> set obs' \<subseteq> set obs \<and>
       filter (\<lambda>ob. \<not> has_tag ''tag'' tag ob) obs' = filter (\<lambda>ob. \<not> has_tag ''tag'' tag ob) obs) \<and>
    (\<forall>tag'. tag' \<noteq> tag \<longrightarrow> filter (has_tag ''tag'' tag') obs' = filter (has_tag ''tag'' tag') obs)"
proof -
  let ?P = "has_tag ''tag'' tag"
  have out: "js_member (put_outbounds os t) ''outbounds'' = JArr os" for os
    by (simp add: put_outbounds_def js_member_def)
  have other: "filter (has_tag ''tag'' tag') xs = filter (has_tag ''tag'' tag') (filter (\<lambda>ob. \<not> ?P ob) xs)"
    if "tag' \<noteq> tag" for tag' xs
    using that by (induction xs) (auto simp: has_tag_def)
  have new: "\<not> has_tag ''tag'' tag' settings" if "tag' \<noteq> tag" for tag' using assms(3) that by (simp add: has_tag_def)
  show ?thesis
  proof (cases used)
    case True
    show ?thesis
    proof (cases "find_index ?P obs")
      case None
      then show ?thesis using True assms by (simp add: syncOutbound_def out used_def new Let_def)
    next
      case (Some i)
      then have "list_ex ?P obs" using find_index_None [of ?P obs] by simp
      then show ?thesis using True assms Some by (simp add: syncOutbound_def out used_def Let_def split: nat.split)
    qed
  next
    case False
    show ?thesis
    proof (cases "\<exists>i. find_index ?P obs = Some (Suc i)")
      case True
      then obtain i where i: "find_index ?P obs = Some (Suc i)" by blast
      from find_index_Some [OF i] have l: "Suc i < length obs" "?P (obs ! Suc i)" by auto
      have "obs = take (Suc i) obs @ obs ! Suc i # drop (Suc (Suc i)) obs" using l(1) by (simp add: id_take_nth_drop)
      then have f: "filter (\<lambda>ob. \<not> ?P ob) obs = filter (\<lambda>ob. \<not> ?P ob) (take (Suc i) obs @ drop (Suc (Suc i)) obs)"
        using l(2) by (metis filter.simps(2) filter_append)
      have "take 1 (take (Suc i) obs @ drop (Suc (Suc i)) obs) = take 1 obs" using l(1) by (cases obs) auto
      moreover have "set (take (Suc i) obs @ drop (Suc (Suc i)) obs) \<subseteq> set obs"
        using set_take_subset [of "Suc i" obs] set_drop_subset [of "Suc (Suc i)" obs] by simp
      moreover have "js_member (syncOutbound t tag settings) ''outbounds'' = JArr (take (Suc i) obs @ drop (Suc (Suc i)) obs)"
        using False i assms(1,2) by (simp add: syncOutbound_def out used_def Let_def)
      ultimately show ?thesis using False f other by metis
    next
      case False': False
      have "js_member (syncOutbound t tag settings) ''outbounds'' = JArr obs"
        using False False' assms(1,2) by (auto simp: syncOutbound_def out used_def Let_def split: option.split nat.split)
      then show ?thesis using False by auto
    qed
  qed
qed

theorem routed_tags_exist_witness:
  "\<exists>obs'. js_member (syncOutbound (JObj [(''outbounds'', JArr []), (''routing'', JObj [(''rules'',
     JArr [JObj [(''outboundTag'', JStr ''direct'')]])])]) ''direct'' directSettings) ''outbounds'' = JArr obs' \<and>
   list_ex (has_tag ''tag'' ''direct'') obs'"
  using routed_tags_exist [of "JObj [(''outbounds'', JArr []), (''routing'', JObj [(''rules'',
     JArr [JObj [(''outboundTag'', JStr ''direct'')]])])]" "[]" "''direct''" directSettings]
  by (auto simp: js_member_def has_tag_def directSettings_def rules_of_def)

end
