(* ===== verification/Nodes.thy ===== *)
theory Nodes
  imports Models
begin

text \<open>
  The nodes of the hub and the small queries of the panel: \<open>api/queries/useNodesQuery.ts\<close>,
  \<open>useNodeMutations.ts\<close>, \<open>useRegistrationMutations.ts\<close>, \<open>useStatusQuery.ts\<close>, \<open>useUsersQuery.ts\<close>,
  \<open>useInboundOptions.ts\<close>, \<open>usePanelContext.ts\<close> and \<open>useServerHistorySeries.ts\<close> under
  \<open>frontend/src\<close>.

  The operations of \<open>useNodeMutations\<close> are one datatype: the request of each, the schema that its
  answer passes and whether a success refreshes the node queries.
\<close>

section \<open>Nodes\<close>

definition fetchNodes :: "('h, 's) hub \<Rightarrow> ('h, 's) app \<Rightarrow> js fetched \<times> ('h, 's) app" where
  "fetchNodes H a = fetch_list H NodeListSchema ''Failed to fetch nodes''
     (hub_get H True ''/panel/api/nodes/list'' a)"

record node_sums =
  nt_total :: nat
  nt_online :: nat
  nt_offline :: nat
  nt_avgLatency :: int
  nt_inbounds :: rat
  nt_clients :: rat
  nt_onlineClients :: rat
  nt_depleted :: rat

text \<open>The accumulators of the loop.\<close>

record node_loop =
  nl_online :: nat
  nl_offline :: nat
  nl_latencySum :: rat
  nl_latencyCount :: nat
  nl_inbounds :: rat
  nl_clients :: rat
  nl_onlineClients :: rat
  nl_depleted :: rat

definition js_num_or_0 :: "js \<Rightarrow> rat" where
  "js_num_or_0 v = (case v of JNum (Fin x) \<Rightarrow> x | _ \<Rightarrow> 0)"

definition count_node :: "node_loop \<Rightarrow> js \<Rightarrow> node_loop" where
  "count_node s n =
     (let s = s\<lparr>nl_inbounds := nl_inbounds s + js_num_or_0 (js_member n ''inboundCount''),
                nl_clients := nl_clients s + js_num_or_0 (js_member n ''clientCount''),
                nl_onlineClients := nl_onlineClients s + js_num_or_0 (js_member n ''onlineCount''),
                nl_depleted := nl_depleted s + js_num_or_0 (js_member n ''depletedCount'')\<rparr>;
          latencyMs = js_num_or_0 (js_member n ''latencyMs'')
      in if \<not> truthy (js_member n ''enable'') then s
         else if js_member n ''status'' = JStr ''online''
         then let s = s\<lparr>nl_online := Suc (nl_online s)\<rparr>
              in if 0 < latencyMs
                 then s\<lparr>nl_latencySum := nl_latencySum s + latencyMs, nl_latencyCount := Suc (nl_latencyCount s)\<rparr>
                 else s
         else if js_member n ''status'' = JStr ''offline'' then s\<lparr>nl_offline := Suc (nl_offline s)\<rparr>
         else s)"

definition no_nodes :: node_loop where
  "no_nodes = \<lparr>nl_online = 0, nl_offline = 0, nl_latencySum = 0, nl_latencyCount = 0, nl_inbounds = 0,
     nl_clients = 0, nl_onlineClients = 0, nl_depleted = 0\<rparr>"

definition math_round :: "rat \<Rightarrow> int" where
  "math_round x = \<lfloor>x + 1 / 2\<rfloor>"

definition node_totals :: "js list \<Rightarrow> node_sums" where
  "node_totals nodes =
     (let s = foldl count_node no_nodes nodes
      in \<lparr>nt_total = length nodes, nt_online = nl_online s, nt_offline = nl_offline s,
          nt_avgLatency = (if 0 < nl_latencyCount s
                           then math_round (nl_latencySum s / of_nat (nl_latencyCount s)) else 0),
          nt_inbounds = nl_inbounds s, nt_clients = nl_clients s, nt_onlineClients = nl_onlineClients s,
          nt_depleted = nl_depleted s\<rparr>)"

section \<open>Operations on nodes\<close>

datatype node_op =
    CreateNode js
  | UpdateNode rat js
  | RemoveNode rat bool
  | SetEnable rat bool
  | Probe rat
  | BootstrapNode js
  | BootstrapStatus string
  | UpdatePanels "rat list"
  | Reinstall rat
  | RotateCredentials rat
  | Reconcile rat
  | FetchFirewallRules rat
  | AllowFirewallPort rat rat string
  | DenyFirewallPort rat rat string
  | DeleteFirewallRule rat string
  | EnableFirewall rat
  | DisableFirewall rat
  | RestartAgent rat
  | RestartXray rat
  | PushConfig rat
  | FetchPortGroups
  | CreatePortGroup string js
  | UpdatePortGroup rat string js
  | DeletePortGroup rat
  | PushPortGroup rat string
  | FetchNodeGroups
  | SetNodeGroup rat string
  | FetchLogs rat rat
  | TestConnection js
  | FetchFingerprint js

datatype hub_request = GetReq string | PostReq string js bool

definition num_path :: "rat \<Rightarrow> string" where
  "num_path i = num_str (Fin i)"

definition firewall_port :: "rat \<Rightarrow> string \<Rightarrow> js" where
  "firewall_port prt proto = JObj [(''port'', JNum (Fin prt)), (''protocol'', JStr proto)]"

fun node_request :: "node_op \<Rightarrow> hub_request" where
  "node_request (CreateNode payload) = PostReq ''/panel/api/nodes/add'' payload False"
| "node_request (UpdateNode i payload) = PostReq (''/panel/api/nodes/update/'' @ num_path i) payload False"
| "node_request (RemoveNode i cleanupRemote) =
     PostReq (''/panel/api/nodes/del/'' @ num_path i) (JObj [(''cleanupRemote'', JBool cleanupRemote)]) False"
| "node_request (SetEnable i enable) =
     PostReq (''/panel/api/nodes/setEnable/'' @ num_path i) (JObj [(''enable'', JBool enable)]) False"
| "node_request (Probe i) = PostReq (''/panel/api/nodes/probe/'' @ num_path i) JUndef False"
| "node_request (BootstrapNode payload) = PostReq ''/panel/api/nodes/bootstrap'' payload False"
| "node_request (BootstrapStatus job) = GetReq (''/panel/api/nodes/bootstrap/'' @ job)"
| "node_request (UpdatePanels ids) =
     PostReq ''/panel/api/nodes/updatePanel'' (JObj [(''ids'', JArr (map (\<lambda>i. JNum (Fin i)) ids))]) True"
| "node_request (Reinstall i) = PostReq (''/panel/api/nodes/reinstall/'' @ num_path i) JUndef False"
| "node_request (RotateCredentials i) = PostReq (''/panel/api/nodes/rotateCredentials/'' @ num_path i) JUndef False"
| "node_request (Reconcile i) = PostReq (''/panel/api/nodes/reconcile/'' @ num_path i) JUndef False"
| "node_request (FetchFirewallRules i) = GetReq (''/panel/api/nodes/ufw/'' @ num_path i)"
| "node_request (AllowFirewallPort i prt proto) =
     PostReq (''/panel/api/nodes/ufw/'' @ num_path i @ ''/allow'') (firewall_port prt proto) False"
| "node_request (DenyFirewallPort i prt proto) =
     PostReq (''/panel/api/nodes/ufw/'' @ num_path i @ ''/deny'') (firewall_port prt proto) False"
| "node_request (DeleteFirewallRule i ruleNumber) =
     PostReq (''/panel/api/nodes/ufw/'' @ num_path i @ ''/delete'') (JObj [(''rule_number'', JStr ruleNumber)]) False"
| "node_request (EnableFirewall i) = PostReq (''/panel/api/nodes/ufw/'' @ num_path i @ ''/enable'') JUndef False"
| "node_request (DisableFirewall i) = PostReq (''/panel/api/nodes/ufw/'' @ num_path i @ ''/disable'') JUndef False"
| "node_request (RestartAgent i) = PostReq (''/panel/api/nodes/restart/'' @ num_path i) JUndef False"
| "node_request (RestartXray i) = PostReq (''/panel/api/nodes/xray/restart/'' @ num_path i) JUndef False"
| "node_request (PushConfig i) = PostReq (''/panel/api/nodes/pushConfig/'' @ num_path i) (JObj []) False"
| "node_request FetchPortGroups = GetReq ''/panel/api/nodes/portGroup/list''"
| "node_request (CreatePortGroup name ports) =
     PostReq ''/panel/api/nodes/portGroup/add'' (JObj [(''name'', JStr name), (''ports'', ports)]) False"
| "node_request (UpdatePortGroup i name ports) =
     PostReq (''/panel/api/nodes/portGroup/update/'' @ num_path i) (JObj [(''name'', JStr name), (''ports'', ports)]) False"
| "node_request (DeletePortGroup i) = PostReq (''/panel/api/nodes/portGroup/del/'' @ num_path i) JUndef False"
| "node_request (PushPortGroup i nodeGroup) =
     PostReq (''/panel/api/nodes/portGroup/push/'' @ num_path i @ ''/'' @ nodeGroup) JUndef False"
| "node_request FetchNodeGroups = GetReq ''/panel/api/nodes/groups''"
| "node_request (SetNodeGroup i grp) =
     PostReq (''/panel/api/nodes/'' @ num_path i @ ''/setGroup'') (JObj [(''group'', JStr grp)]) False"
| "node_request (FetchLogs i lines) =
     GetReq (''/panel/api/nodes/logs/'' @ num_path i @ ''?lines='' @ num_path lines)"
| "node_request (TestConnection payload) = PostReq ''/panel/api/nodes/test'' payload False"
| "node_request (FetchFingerprint payload) = PostReq ''/panel/api/nodes/certFingerprint'' payload False"

fun node_schema :: "node_op \<Rightarrow> zschema option" where
  "node_schema (Probe i) = Some ProbeResultSchema"
| "node_schema (BootstrapNode payload) = Some NodeBootstrapJobSchema"
| "node_schema (BootstrapStatus job) = Some NodeBootstrapJobSchema"
| "node_schema (FetchFirewallRules i) = Some UfwStatusSchema"
| "node_schema (PushConfig i) = Some PushConfigResultSchema"
| "node_schema FetchPortGroups = Some PortGroupListSchema"
| "node_schema (TestConnection payload) = Some ProbeResultSchema"
| "node_schema _ = None"

text \<open>The operations made with \<open>useMutation\<close>.\<close>

fun refreshes_nodes :: "node_op \<Rightarrow> bool" where
  "refreshes_nodes (CreateNode payload) = True"
| "refreshes_nodes (UpdateNode i payload) = True"
| "refreshes_nodes (RemoveNode i cleanupRemote) = True"
| "refreshes_nodes (SetEnable i enable) = True"
| "refreshes_nodes (Probe i) = True"
| "refreshes_nodes (BootstrapNode payload) = True"
| "refreshes_nodes (UpdatePanels ids) = True"
| "refreshes_nodes (Reinstall i) = True"
| "refreshes_nodes (RotateCredentials i) = True"
| "refreshes_nodes (Reconcile i) = True"
| "refreshes_nodes (RestartAgent i) = True"
| "refreshes_nodes (RestartXray i) = True"
| "refreshes_nodes (PushConfig i) = True"
| "refreshes_nodes _ = False"

definition node_answer :: "('h, 's) hub \<Rightarrow> node_op \<Rightarrow> ('h, 's) app \<Rightarrow> msg option \<times> ('h, 's) app" where
  "node_answer H op a =
     (case node_request op of
        GetReq u \<Rightarrow> hub_get H False u a
      | PostReq u v json \<Rightarrow> hub_post H False u v json a)"

definition node_validate :: "('h, 's) hub \<Rightarrow> node_op \<Rightarrow> msg \<Rightarrow> msg" where
  "node_validate H op m = (case node_schema op of None \<Rightarrow> m | Some s \<Rightarrow> parseMsg (hub_zod H) m s)"

definition useNodeMutations :: "('h, 's) hub \<Rightarrow> node_op \<Rightarrow> ('h, 's) app \<Rightarrow> msg option \<times> ('h, 's) app" where
  "useNodeMutations H op a =
     mutate (node_validate H op) (if refreshes_nodes op then invalidate_key [''nodes''] else (\<lambda>a. a))
       (node_answer H op a)"

section \<open>Registration tokens\<close>

definition RegistrationTokenSchema :: zschema where
  "RegistrationTokenSchema = ZLoose
     [(''id'', ZNumber []), (''token'', ZString), (''nodeName'', ZOptional ZString),
      (''nodeAddress'', ZOptional ZString), (''consumedByNodeId'', ZOptional (ZNumber [])),
      (''consumedAt'', ZOptional (ZNumber [])), (''expiresAt'', ZNumber []), (''createdAt'', ZNumber [])]"

definition RegistrationTokenListSchema :: zschema where
  "RegistrationTokenListSchema = ZArray AnyLen RegistrationTokenSchema"

definition registration_list :: "('h, 's) hub \<Rightarrow> ('h, 's) app \<Rightarrow> js fetched \<times> ('h, 's) app" where
  "registration_list H a =
     (case hub_get H False ''/panel/api/node-registration/list'' a of
        (None, a) \<Rightarrow> (Unsettled, a)
      | (Some m, a) \<Rightarrow>
          (Fetched (if \<not> msg_ok m \<or> \<not> truthy (msg_obj m) then JArr []
             else (case hub_zod H RegistrationTokenListSchema (msg_obj m) of
                 Some d \<Rightarrow> d | None \<Rightarrow> JArr [])), a))"

definition keys_registrationTokens :: "string list" where
  "keys_registrationTokens = [''nodes'', ''registrationTokens'']"

text \<open>\<open>onSuccess: () => invalidate()\<close>: the answer is not looked at.\<close>

definition always_refresh :: "msg option \<times> ('h, 's) app \<Rightarrow> msg option \<times> ('h, 's) app" where
  "always_refresh r =
     (case r of (None, a) \<Rightarrow> (None, a) | (Some m, a) \<Rightarrow> (Some m, invalidate_key keys_registrationTokens a))"

definition generate_token :: "('h, 's) hub \<Rightarrow> js \<Rightarrow> ('h, 's) app \<Rightarrow> msg option \<times> ('h, 's) app" where
  "generate_token H params a = always_refresh (hub_post H False ''/panel/api/node-registration/generate'' params False a)"

definition remove_token :: "('h, 's) hub \<Rightarrow> rat \<Rightarrow> ('h, 's) app \<Rightarrow> msg option \<times> ('h, 's) app" where
  "remove_token H i a = always_refresh (hub_del H (''/panel/api/node-registration/'' @ num_path i) a)"

section \<open>Status, users, options and context\<close>

definition fetchStatus :: "('h, 's) hub \<Rightarrow> ('h, 's) app \<Rightarrow> server_status fetched \<times> ('h, 's) app" where
  "fetchStatus H a = map_fetched Status
     (fetch_checked H StatusSchema ''Failed to fetch status'' (hub_get H True ''/panel/api/server/status'' a))"

definition status_shown :: "server_status option \<Rightarrow> server_status" where
  "status_shown query_data = (case query_data of Some s \<Rightarrow> s | None \<Rightarrow> Status JUndef)"

definition fetchUsers :: "('h, 's) hub \<Rightarrow> ('h, 's) app \<Rightarrow> js fetched \<times> ('h, 's) app" where
  "fetchUsers H a = fetch_list H UserListSchema ''Failed to fetch users'' (hub_get H True ''/panel/setting/users'' a)"

definition fetchInboundOptions :: "('h, 's) hub \<Rightarrow> ('h, 's) app \<Rightarrow> js fetched \<times> ('h, 's) app" where
  "fetchInboundOptions H a = fetch_list H InboundOptionsSchema ''Failed to fetch inbound options''
     (hub_get H True ''/panel/api/inbounds/options'' a)"

record panel_context =
  pc_mode :: panel_mode
  pc_version :: string
  pc_dbType :: string
  pc_apiPrefix :: string
  pc_localXrayEnabled :: bool

definition fetchPanelContext :: "('h, 's) hub \<Rightarrow> ('h, 's) app \<Rightarrow> js fetched \<times> ('h, 's) app" where
  "fetchPanelContext H a =
     (case hub_get H True ''/panel/api/server/context'' a of
        (None, a) \<Rightarrow> (Unsettled, a)
      | (Some m, a) \<Rightarrow>
          (if msg_ok m \<and> truthy (msg_obj m) then Fetched (msg_obj m)
           else Failed (thrown (msg_text m) ''Failed to fetch panel context''), a))"

text \<open>\<open>window.L_UI_CUR_VER\<close> and \<open>window.L_UI_DB_TYPE\<close> are the first two arguments.\<close>

definition fallbackContext :: "string option \<Rightarrow> string option \<Rightarrow> page_env \<Rightarrow> panel_context" where
  "fallbackContext curVer dbType env =
     \<lparr>pc_mode = getPanelMode env, pc_version = (case curVer of Some v \<Rightarrow> v | None \<Rightarrow> []),
      pc_dbType = (case dbType of Some t \<Rightarrow> t | None \<Rightarrow> []), pc_apiPrefix = getApiPrefix env,
      pc_localXrayEnabled = (getPanelMode env = Agent)\<rparr>"

section \<open>History of a metric\<close>

definition fetchMetric ::
  "('h, 's) hub \<Rightarrow> string \<Rightarrow> rat \<Rightarrow> ('h, 's) app \<Rightarrow> js fetched \<times> ('h, 's) app" where
  "fetchMetric H metric bucket a =
     (case hub_get H True (''/panel/api/server/history/'' @ metric @ ''/'' @ num_path bucket) a of
        (None, a) \<Rightarrow> (Unsettled, a)
      | (Some m, a) \<Rightarrow>
          (if msg_ok m \<and> is_array (msg_obj m) then Fetched (msg_obj m)
           else Failed (thrown (msg_text m) (''Failed to fetch '' @ metric @ '' history'')), a))"

text \<open>\<open>Number(p[k]) || 0\<close>; what is left is never \<open>NaN\<close>, so a \<open>Map\<close> key equals itself.\<close>

definition point_num :: "string \<Rightarrow> js \<Rightarrow> jnum" where
  "point_num k p = (case js_number (js_member p k) of NaN \<Rightarrow> Fin 0 | n \<Rightarrow> n)"

definition by_timestamp :: "js list \<Rightarrow> jnum \<Rightarrow> jnum option" where
  "by_timestamp ps = foldl (\<lambda>m p. m(point_num ''t'' p \<mapsto> point_num ''v'' p)) Map.empty ps"

definition alignSeries :: "js list \<Rightarrow> js list \<Rightarrow> jnum list" where
  "alignSeries base ps =
     map (\<lambda>p. case by_timestamp ps (point_num ''t'' p) of Some v \<Rightarrow> v | None \<Rightarrow> Fin 0) base"

definition pad_two :: "string \<Rightarrow> string" where
  "pad_two s = replicate (2 - length s) CHR ''0'' @ s"

record history =
  hs_labels :: "string list"
  hs_data :: "jnum list"
  hs_data2 :: "jnum list"
  hs_data3 :: "jnum list"

text \<open>
  \<open>clock\<close> gives the texts of hour, minute and second of a time in seconds where the browser is;
  the secondary series are asked for by their metric.
\<close>

definition history_label :: "(jnum \<Rightarrow> string \<times> string \<times> string) \<Rightarrow> rat \<Rightarrow> js \<Rightarrow> string" where
  "history_label clock bucket p =
     (let (h, mi, s) = clock (point_num ''t'' p)
      in if 60 \<le> bucket then pad_two h @ '':'' @ pad_two mi
         else pad_two h @ '':'' @ pad_two mi @ '':'' @ pad_two s)"

definition history_series ::
  "(jnum \<Rightarrow> string \<times> string \<times> string) \<Rightarrow> rat \<Rightarrow> string option \<Rightarrow> string option \<Rightarrow>
   js list \<Rightarrow> js list \<Rightarrow> js list \<Rightarrow> history" where
  "history_series clock bucket secondaryMetric tertiaryMetric primary secondary tertiary =
     \<lparr>hs_labels = map (history_label clock bucket) primary,
      hs_data = map (point_num ''v'') primary,
      hs_data2 = (if nonempty secondaryMetric = None then [] else alignSeries primary secondary),
      hs_data3 = (if nonempty tertiaryMetric = None then [] else alignSeries primary tertiary)\<rparr>"

section \<open>The totals\<close>

definition node_latency :: "js \<Rightarrow> rat" where
  "node_latency n = js_num_or_0 (js_member n ''latencyMs'')"

definition node_online :: "js \<Rightarrow> bool" where
  "node_online n \<longleftrightarrow> truthy (js_member n ''enable'') \<and> js_member n ''status'' = JStr ''online''"

definition measured :: "js \<Rightarrow> bool" where
  "measured n \<longleftrightarrow> node_online n \<and> 0 < node_latency n"

lemma node_loop_fields:
  "nl_online (foldl count_node no_nodes ns) = length (filter node_online ns)"
  "nl_offline (foldl count_node no_nodes ns) =
     length (filter (\<lambda>n. truthy (js_member n ''enable'') \<and> js_member n ''status'' = JStr ''offline'') ns)"
  "nl_latencyCount (foldl count_node no_nodes ns) = length (filter measured ns)"
  "nl_latencySum (foldl count_node no_nodes ns) = sum_list (map node_latency (filter measured ns))"
  by (induction ns rule: rev_induct)
    (simp_all add: count_node_def no_nodes_def Let_def measured_def node_online_def node_latency_def)

lemma mean_bounds:
  fixes xs :: "rat list"
  assumes "xs \<noteq> []" and "\<And>x. x \<in> set xs \<Longrightarrow> of_int lo \<le> x \<and> x \<le> of_int hi"
  shows "lo \<le> math_round (sum_list xs / of_nat (length xs)) \<and> math_round (sum_list xs / of_nat (length xs)) \<le> hi"
proof -
  have "of_nat (length xs) * of_int lo \<le> sum_list xs \<and> sum_list xs \<le> of_nat (length xs) * of_int hi"
    using assms(2)
  proof (induction xs)
    case (Cons x xs)
    then have "of_int lo \<le> x \<and> x \<le> of_int hi" by simp
    moreover have "of_nat (length xs) * of_int lo \<le> sum_list xs \<and> sum_list xs \<le> of_nat (length xs) * of_int hi"
      using Cons by simp
    ultimately show ?case by (simp add: algebra_simps)
  qed simp
  moreover have "(0 :: rat) < of_nat (length xs)" using assms(1) by simp
  ultimately have "of_int lo \<le> sum_list xs / of_nat (length xs) \<and> sum_list xs / of_nat (length xs) \<le> of_int hi"
    by (simp add: field_simps)
  then show ?thesis by (simp add: math_round_def le_floor_iff) linarith
qed

text \<open>The totals of the nodes page: the nodes counted as online or as offline are different enabled
  nodes, and the average latency is 0 when nothing was measured and otherwise lies between the
  least and the greatest latency of the nodes that are online, rounding included.\<close>

theorem node_totals_bounds:
  assumes "\<forall>n \<in> set nodes. measured n \<longrightarrow> of_int lo \<le> node_latency n \<and> node_latency n \<le> of_int hi"
  shows "nt_total (node_totals nodes) = length nodes \<and>
    nt_online (node_totals nodes) + nt_offline (node_totals nodes)
      \<le> length (filter (\<lambda>n. truthy (js_member n ''enable'')) nodes) \<and>
    (if list_ex measured nodes
     then lo \<le> nt_avgLatency (node_totals nodes) \<and> nt_avgLatency (node_totals nodes) \<le> hi
     else nt_avgLatency (node_totals nodes) = 0)"
proof -
  let ?xs = "map node_latency (filter measured nodes)"
  have "length (filter node_online ns) +
      length (filter (\<lambda>n. truthy (js_member n ''enable'') \<and> js_member n ''status'' = JStr ''offline'') ns)
      \<le> length (filter (\<lambda>n. truthy (js_member n ''enable'')) ns)" for ns
    by (induction ns) (auto simp: node_online_def)
  moreover have "list_ex measured nodes \<longleftrightarrow> ?xs \<noteq> []" by (auto simp: list_ex_iff filter_empty_conv)
  moreover have "?xs \<noteq> [] \<Longrightarrow> lo \<le> math_round (sum_list ?xs / of_nat (length ?xs)) \<and>
      math_round (sum_list ?xs / of_nat (length ?xs)) \<le> hi"
    by (rule mean_bounds) (use assms in auto)
  ultimately show ?thesis by (auto simp: node_totals_def Let_def node_loop_fields)
qed

definition sample_node :: "int \<Rightarrow> js" where
  "sample_node ms = JObj [(''enable'', JBool True), (''status'', JStr ''online''), (''latencyMs'', JInt ms)]"

theorem node_totals_bounds_witness:
  "10 \<le> nt_avgLatency (node_totals [sample_node 10, sample_node 15]) \<and>
   nt_avgLatency (node_totals [sample_node 10, sample_node 15]) \<le> 15"
proof -
  have l: "node_latency (sample_node ms) = of_int ms" for ms
    by (simp add: sample_node_def node_latency_def js_num_or_0_def js_member_def)
  have m: "measured (sample_node 10)"
    by (simp add: measured_def node_online_def l) (simp add: sample_node_def js_member_def)
  have "\<forall>n \<in> set [sample_node 10, sample_node 15]. measured n \<longrightarrow> of_int 10 \<le> node_latency n \<and> node_latency n \<le> of_int 15"
    by (simp add: l)
  moreover have "list_ex measured [sample_node 10, sample_node 15]" by (simp add: m)
  ultimately show ?thesis
    using node_totals_bounds [of "[sample_node 10, sample_node 15]" 10 15] by (simp only: simp_thms if_True)
qed

section \<open>What the operations refresh\<close>

lemma node_validate_ok: "msg_ok (node_validate H op m) = msg_ok m"
  by (simp add: node_validate_def split: option.split)

lemma node_answer_cache: "query_cache (snd (node_answer H op a)) = query_cache a"
  by (simp add: node_answer_def split: hub_request.split)

text \<open>An operation on the nodes hands on the answer of the hub, validated; it marks the node queries
  as stale exactly when it is one that changes a node and the hub granted it, and an operation
  that only reads is never one of these.\<close>

theorem node_operations_refresh:
  "fst (useNodeMutations H op a) = map_option (node_validate H op) (fst (node_answer H op a)) \<and>
   query_cache (snd (useNodeMutations H op a)) =
     (if refreshes_nodes op \<and> (case fst (node_answer H op a) of Some m \<Rightarrow> msg_ok m | None \<Rightarrow> False)
      then cache_op (Invalidate [''nodes'']) (query_cache a) else query_cache a) \<and>
   ((case node_request op of GetReq u \<Rightarrow> True | _ \<Rightarrow> False) \<longrightarrow> \<not> refreshes_nodes op)"
proof -
  have "(case node_request op of GetReq u \<Rightarrow> True | _ \<Rightarrow> False) \<longrightarrow> \<not> refreshes_nodes op"
    by (cases op) simp_all
  moreover obtain m b where r: "node_answer H op a = (m, b)" by (cases "node_answer H op a")
  moreover have "query_cache b = query_cache a" using node_answer_cache [of H op a] by (simp add: r)
  ultimately show ?thesis
    by (cases m) (simp_all add: useNodeMutations_def r mutate_def Let_def node_validate_ok invalidate_key_def)
qed

theorem node_operations_refresh_witness:
  "\<not> refreshes_nodes (FetchLogs 3 200) \<and>
   query_cache (snd (useNodeMutations (sample_hub (JObj [])) (FetchLogs 3 200) sample_app)) = new_bridge"
proof -
  have q: "query_cache sample_app = new_bridge" by (simp add: sample_app_def)
  have "\<not> refreshes_nodes (FetchLogs 3 200)"
    using node_operations_refresh [of "sample_hub (JObj [])" "FetchLogs 3 200" sample_app] by simp
  then show ?thesis
    using node_operations_refresh [of "sample_hub (JObj [])" "FetchLogs 3 200" sample_app] by (simp add: q)
qed

text \<open>The operations on one node or one port group, by its number.\<close>

definition numbered_ops :: "(rat \<Rightarrow> node_op) list" where
  "numbered_ops =
     [\<lambda>i. RemoveNode i False, \<lambda>i. RemoveNode i True, \<lambda>i. SetEnable i True, \<lambda>i. SetEnable i False, Probe, Reinstall,
      RotateCredentials, Reconcile, FetchFirewallRules, EnableFirewall, DisableFirewall, RestartAgent,
      RestartXray, PushConfig, DeletePortGroup]"

lemma num_path_nat: "i < 10 ^ 21 \<Longrightarrow> num_path (of_nat i) = nat_str i"
  using num_str_int [of "int i"] by (simp add: num_path_def int_str_def)

lemma numbered_ops_distinct:
  assumes "f \<in> set numbered_ops" "g \<in> set numbered_ops" and "i < 10 ^ 21" "j < 10 ^ 21"
    and "node_request (f (of_nat i)) = node_request (g (of_nat j))"
  shows "f (of_nat i) = g (of_nat j)"
  using assms by (auto simp: numbered_ops_def num_path_nat)

section \<open>Registration tokens\<close>

text \<open>The list of registration tokens never fails: a refusal, an empty or a malformed answer is the empty
  list; and generating or removing a token marks the list as stale whenever the hub answers, be
  it a refusal.\<close>

theorem registration_tokens:
  "(\<forall>e. fst (registration_list H a) \<noteq> Failed e) \<and>
   (\<forall>m v. fst (hub_get H False ''/panel/api/node-registration/list'' a) = Some m \<longrightarrow>
      \<not> msg_ok m \<or> hub_zod H RegistrationTokenListSchema (msg_obj m) = None \<longrightarrow>
      fst (registration_list H a) = Fetched v \<longrightarrow> v = JArr []) \<and>
   (fst (generate_token H params a) \<noteq> None \<longrightarrow>
      query_cache (snd (generate_token H params a)) = cache_op (Invalidate keys_registrationTokens) (query_cache a)) \<and>
   (fst (remove_token H i a) \<noteq> None \<longrightarrow>
      query_cache (snd (remove_token H i a)) = cache_op (Invalidate keys_registrationTokens) (query_cache a))"
proof -
  have refresh: "fst (always_refresh r) \<noteq> None \<Longrightarrow>
      query_cache (snd (always_refresh r)) = cache_op (Invalidate keys_registrationTokens) (query_cache (snd r))"
    for r :: "msg option \<times> ('a, 'b) app"
    by (cases r; cases "fst r") (simp_all add: always_refresh_def invalidate_key_def)
  show ?thesis
    by (simp add: generate_token_def remove_token_def refresh)
      (auto simp: registration_list_def split: prod.splits option.splits if_splits)
qed

section \<open>The series of a metric\<close>

lemma by_timestamp_last:
  "by_timestamp ps t =
     (case filter (\<lambda>p. point_num ''t'' p = t) ps of [] \<Rightarrow> None | qs \<Rightarrow> Some (point_num ''v'' (last qs)))"
proof (induction ps rule: rev_induct)
  case (snoc p ps)
  then show ?case by (auto simp: by_timestamp_def split: list.splits)
qed (simp add: by_timestamp_def)

text \<open>The series of a chart fit together: labels and values have one entry for every point of the first
  metric, and the entry of a second metric is its last value at the same time, 0 when it has
  none then.\<close>

theorem series_fit_together:
  assumes "nonempty m2 \<noteq> None" and "i < length primary"
  shows "let h = history_series clock bucket m2 m3 primary secondary tertiary in length (hs_labels h) = length primary \<and> length (hs_data h) = length primary \<and>
    length (hs_data2 h) = length primary \<and> (hs_data3 h = [] \<or> length (hs_data3 h) = length primary) \<and>
    hs_data2 h ! i =
      (case filter (\<lambda>p. point_num ''t'' p = point_num ''t'' (primary ! i)) secondary of
         [] \<Rightarrow> Fin 0 | qs \<Rightarrow> point_num ''v'' (last qs))"
proof -
  from assms(1) obtain y where "nonempty m2 = Some y" by blast
  then show ?thesis using assms(2)
    by (simp add: Let_def history_series_def alignSeries_def by_timestamp_last split: list.split)
qed

theorem series_fit_together_witness:
  "hs_data2 (history_series (\<lambda>t. (''0'', ''0'', ''0'')) 60 (Some ''swap'') None
     [JObj [(''t'', JInt 60), (''v'', JInt 1)]] [JObj [(''t'', JInt 60), (''v'', JInt 7)]] []) ! 0 = Fin 7"
  using series_fit_together [of "Some ''swap''" 0 "[JObj [(''t'', JInt 60), (''v'', JInt 1)]]"
      "\<lambda>t. (''0'', ''0'', ''0'')" 60 None "[JObj [(''t'', JInt 60), (''v'', JInt 7)]]" "[]"]
  by (simp add: Let_def nonempty_def point_num_def js_number_def js_member_def)

end
