(* ===== verification/InboundHelpers.thy ===== *)
theory InboundHelpers
  imports Inbounds Fallbacks InboundLink LinkRoundTrip
begin

text \<open>
  What the inbounds page shows of an inbound: \<open>frontend/src/pages/inbounds/list/helpers.ts\<close>,
  \<open>pages/inbounds/info/helpers.ts\<close> and the messages of a rejected form,
  \<open>pages/inbounds/form/formatValidationError.ts\<close>.
\<close>

section \<open>The list\<close>

record StreamHints =
  sh_network :: string
  sh_isTls :: bool
  sh_isReality :: bool

definition readStreamHints :: "js \<Rightarrow> StreamHints" where
  "readStreamHints streamSettings =
     (let stream = coerceInboundJsonField streamSettings
      in \<lparr>sh_network = text_of (js_get stream ''network''),
          sh_isTls = (js_get stream ''security'' = JStr ''tls''),
          sh_isReality = (js_get stream ''security'' = JStr ''reality'')\<rparr>)"

definition networkLabel :: "string \<Rightarrow> string" where
  "networkLabel network =
     (let n = to_lower network
      in if n = [] then ''TCP''
         else if n = ''httpupgrade'' then ''HTTPUpgrade''
         else if n = ''splithttp'' then ''SplitHTTP''
         else if n = ''xhttp'' then ''XHTTP''
         else to_upper n)"

definition networkL4 :: "string \<Rightarrow> string" where
  "networkL4 network =
     (let n = to_lower network in if n = ''kcp'' \<or> n = ''quic'' then ''UDP'' else [])"

definition commaNetworkLabel :: "string \<Rightarrow> string" where
  "commaNetworkLabel raw =
     (let parts = filter (\<lambda>p. p \<noteq> [])
                    (map js_trim (split_on CHR '','' (to_lower (if raw = [] then ''tcp'' else raw))))
      in if parts = [] then ''TCP'' else join '','' (map networkLabel parts))"

definition shadowsocksNetworkLabel :: "js \<Rightarrow> string" where
  "shadowsocksNetworkLabel st = commaNetworkLabel (text_of (js_get (coerceInboundJsonField st) ''network''))"

definition tunnelNetworkLabel :: "js \<Rightarrow> string" where
  "tunnelNetworkLabel st = commaNetworkLabel (text_of (js_get (coerceInboundJsonField st) ''allowedNetwork''))"

definition mixedNetworkLabel :: "js \<Rightarrow> string" where
  "mixedNetworkLabel st = (if truthy (js_get (coerceInboundJsonField st) ''udp'') then ''TCP,UDP'' else ''TCP'')"

definition isInboundMultiUser :: "string \<Rightarrow> js \<Rightarrow> bool" where
  "isInboundMultiUser protocol st =
     (if protocol \<in> {''vmess'', ''vless'', ''trojan'', ''hysteria''} then True
      else if protocol = ''shadowsocks''
      then isSSMultiUser (settings_slice ''shadowsocks'' (coerceInboundJsonField st))
      else False)"

definition showQrCodeMenu :: "bool \<Rightarrow> bool \<Rightarrow> js \<Rightarrow> bool" where
  "showQrCodeMenu isWireguard isSS st =
     (if isWireguard then True
      else if isSS then \<not> isSSMultiUser (settings_slice ''shadowsocks'' (coerceInboundJsonField st))
      else False)"

section \<open>The details\<close>

definition hasShareLink :: "string \<Rightarrow> bool" where
  "hasShareLink protocol \<longleftrightarrow> protocol \<in> {''vmess'', ''vless'', ''trojan'', ''shadowsocks'', ''hysteria''}"

definition text_or_empty :: "js \<Rightarrow> string" where
  "text_or_empty v = js_string (js_coalesce v (JStr []))"

fun entry_header :: "string \<Rightarrow> js list \<Rightarrow> string" where
  "entry_header needle [] = []"
| "entry_header needle (h # hs) =
     (if is_object h \<and> to_lower (text_or_empty (js_member h ''name'')) = needle
      then text_or_empty (js_member h ''value'')
      else entry_header needle hs)"

definition first_of :: "js list \<Rightarrow> js" where
  "first_of xs = (case xs of [] \<Rightarrow> JUndef | x # rest \<Rightarrow> x)"

fun map_header :: "string \<Rightarrow> obj \<Rightarrow> string" where
  "map_header needle [] = []"
| "map_header needle ((k, v) # rest) =
     (if to_lower k = needle
      then (case v of JArr xs \<Rightarrow> text_or_empty (first_of xs) | _ \<Rightarrow> text_or_empty v)
      else map_header needle rest)"

definition readHeader :: "js \<Rightarrow> string \<Rightarrow> string" where
  "readHeader hs name =
     (case hs of
        JArr entries \<Rightarrow> entry_header (to_lower name) entries
      | JObj m \<Rightarrow> map_header (to_lower name) m
      | _ \<Rightarrow> [])"

definition host_or_header :: "js \<Rightarrow> string" where
  "host_or_header st =
     (case js_member st ''host'' of
        JStr (c # cs) \<Rightarrow> c # cs
      | _ \<Rightarrow> readHeader (js_member st ''headers'') ''host'')"

definition tcp_request_of :: "obj \<Rightarrow> js" where
  "tcp_request_of stream = js_member (js_member (js_get stream ''tcpSettings'') ''header'') ''request''"

definition readNetworkHost :: "obj \<Rightarrow> string \<Rightarrow> string option" where
  "readNetworkHost stream network =
     (if network = ''tcp'' then Some (readHeader (js_member (tcp_request_of stream) ''headers'') ''host'')
      else if network = ''ws'' then Some (host_or_header (js_get stream ''wsSettings''))
      else if network = ''httpupgrade'' then Some (host_or_header (js_get stream ''httpupgradeSettings''))
      else if network = ''xhttp'' then Some (host_or_header (js_get stream ''xhttpSettings''))
      else None)"

definition readNetworkPath :: "obj \<Rightarrow> string \<Rightarrow> js" where
  "readNetworkPath stream network =
     js_coalesce
       (if network = ''tcp''
        then (case js_member (tcp_request_of stream) ''path'' of JArr ps \<Rightarrow> first_of ps | _ \<Rightarrow> JUndef)
        else if network = ''ws'' then js_member (js_get stream ''wsSettings'') ''path''
        else if network = ''httpupgrade'' then js_member (js_get stream ''httpupgradeSettings'') ''path''
        else if network = ''xhttp'' then js_member (js_get stream ''xhttpSettings'') ''path''
        else JNull) JNull"

definition server_name_shown :: "obj \<Rightarrow> string \<Rightarrow> js" where
  "server_name_shown stream security =
     (if security = ''tls''
      then (let tls = js_get stream ''tlsSettings''
            in js_coalesce (js_member tls ''sni'') (js_coalesce (js_member tls ''serverName'') (JStr [])))
      else if security = ''reality''
      then (let reality = js_get stream ''realitySettings''
            in case js_member reality ''serverNames'' of
                 JArr names \<Rightarrow> JStr (join '', '' (map (\<lambda>x. if nullish x then [] else js_string x) names))
               | _ \<Rightarrow> js_or (js_member reality ''serverName'') (JStr []))
      else JStr [])"

record InboundInfo =
  ii_protocol :: string
  ii_clients :: "js list"
  ii_settings :: obj
  ii_isTcp :: bool
  ii_isWs :: bool
  ii_isHttpupgrade :: bool
  ii_isXHTTP :: bool
  ii_isGrpc :: bool
  ii_isSSMultiUser :: bool
  ii_isSS2022 :: bool
  ii_isVlessTlsFlow :: bool
  ii_host :: "string option"
  ii_path :: js
  ii_serviceName :: js
  ii_serverName :: js
  ii_network :: string
  ii_security :: string
  ii_xhttp_mode :: "js option"
  ii_grpc_multiMode :: "js option"

definition buildInboundInfo :: "string \<Rightarrow> js \<Rightarrow> js \<Rightarrow> InboundInfo" where
  "buildInboundInfo protocol st streamSettings =
     (let settings' = coerceInboundJsonField st;
          stream = coerceInboundJsonField streamSettings;
          network = text_of (js_get stream ''network'');
          security = (case js_get stream ''security'' of JStr s \<Rightarrow> s | _ \<Rightarrow> ''none'');
          xhttp = js_get stream ''xhttpSettings'';
          grpc = js_get stream ''grpcSettings''
      in \<lparr>ii_protocol = protocol,
          ii_clients = (case js_get settings' ''clients'' of JArr cs \<Rightarrow> cs | _ \<Rightarrow> []),
          ii_settings = settings',
          ii_isTcp = (network = ''tcp''), ii_isWs = (network = ''ws''),
          ii_isHttpupgrade = (network = ''httpupgrade''), ii_isXHTTP = (network = ''xhttp''),
          ii_isGrpc = (network = ''grpc''),
          ii_isSSMultiUser = isSSMultiUser (settings_slice protocol settings'),
          ii_isSS2022 = isSS2022 (settings_slice protocol settings'),
          ii_isVlessTlsFlow = canEnableTlsFlow
            \<lparr>sl_protocol = protocol, sl_stream = Some \<lparr>sl_network = Some network, sl_security = Some security\<rparr>\<rparr>,
          ii_host = readNetworkHost stream network,
          ii_path = readNetworkPath stream network,
          ii_serviceName = js_coalesce (js_member grpc ''serviceName'') (JStr []),
          ii_serverName = server_name_shown stream security,
          ii_network = network,
          ii_security = security,
          ii_xhttp_mode = (if truthy xhttp then Some (js_member xhttp ''mode'') else None),
          ii_grpc_multiMode = (if truthy grpc then Some (js_member grpc ''multiMode'') else None)\<rparr>)"

definition statsColor :: "rat \<Rightarrow> rat \<Rightarrow> rat \<Rightarrow> rat \<Rightarrow> usage_color" where
  "statsColor up down tot' threshold = usageColor (Some (up + down)) threshold (Some tot')"

text \<open>\<open>local_time\<close> is \<open>toLocaleString\<close> of a time in seconds, with its first comma removed.\<close>

definition formatIpInfo :: "(jnum \<Rightarrow> string) \<Rightarrow> js \<Rightarrow> string" where
  "formatIpInfo local_time v =
     (case v of
        JUndef \<Rightarrow> [] | JNull \<Rightarrow> [] | JStr s \<Rightarrow> s | JNum n \<Rightarrow> num_str n
      | _ \<Rightarrow>
          let ip = js_or (js_or (js_member v ''ip'') (js_member v ''IP'')) (JStr []);
              ts = js_or (js_or (js_member v ''timestamp'') (js_member v ''Timestamp'')) (JInt 0)
          in if \<not> truthy ip then js_string v
             else if \<not> truthy ts then js_string ip
             else js_string ip @ '' ('' @ local_time (js_number ts) @ '')'')"

section \<open>Messages of a rejected form\<close>

record issue =
  is_path :: "js list"
  is_message :: string

text \<open>A call of the translation: the key and its arguments; \<open>defaultValue\<close> is an argument too.\<close>

definition issue_client :: "js \<Rightarrow> js \<Rightarrow> js" where
  "issue_client vals index =
     (case js_member (js_member vals ''settings'') ''clients'' of
        JArr cs \<Rightarrow>
          (case index of
             JNum (Fin x) \<Rightarrow> if x = of_int \<lfloor>x\<rfloor> \<and> 0 \<le> x \<and> nat \<lfloor>x\<rfloor> < length cs then cs ! nat \<lfloor>x\<rfloor> else JUndef
           | _ \<Rightarrow> JUndef)
      | _ \<Rightarrow> JUndef)"

definition path_at :: "issue \<Rightarrow> nat \<Rightarrow> js" where
  "path_at i n = (if n < length (is_path i) then is_path i ! n else JUndef)"

definition formatInboundIssue :: "(string \<Rightarrow> (string \<times> string) list \<Rightarrow> string) \<Rightarrow> issue \<Rightarrow> js \<Rightarrow> string" where
  "formatInboundIssue t i vals =
     (let reason = t (is_message i) [(''defaultValue'', is_message i)];
          dotted = (\<lambda>p. join ''.'' (map js_string p))
      in if path_at i 0 = JStr ''settings'' \<and> path_at i 1 = JStr ''clients'' \<and>
            (case path_at i 2 of JNum n \<Rightarrow> True | _ \<Rightarrow> False)
         then let email = text_of (js_member (issue_client vals (path_at i 2)) ''email'');
                  who = (if email \<noteq> [] then ''\"'' @ email @ ''\"'' else ''#'' @ js_string (path_at i 2));
                  rest = dotted (drop 3 (is_path i))
              in t ''pages.inbounds.toasts.invalidClientField''
                   [(''client'', who), (''field'', if rest \<noteq> [] then rest else t ''clients'' []), (''reason'', reason)]
         else let field = dotted (is_path i)
              in t ''pages.inbounds.toasts.invalidField''
                   [(''field'', if field \<noteq> [] then field else ''value''), (''reason'', reason)])"

definition formatInboundValidation ::
  "(string \<Rightarrow> (string \<times> string) list \<Rightarrow> string) \<Rightarrow> issue \<Rightarrow> issue list \<Rightarrow> js \<Rightarrow> string" where
  "formatInboundValidation t i others vals =
     (let first = formatInboundIssue t i vals
      in if others = [] then first
         else t ''pages.inbounds.toasts.moreIssues'' [(''message'', first), (''count'', nat_str (length others))])"

section \<open>Properties\<close>

lemma lower_upper: "lower_char (upper_char c) = lower_char c"
  by (auto simp: lower_char_def upper_char_def Let_def of_char_of)

text \<open>The label of a transport does not depend on the case of its name, is never empty, and is its own
  label.\<close>

theorem network_labels:
  "networkLabel (to_upper n) = networkLabel n \<and> networkLabel n \<noteq> [] \<and>
   networkLabel (networkLabel n) = networkLabel n"
proof -
  have low: "to_lower (to_upper s) = to_lower s" for s
    by (induction s) (simp_all add: to_lower_def to_upper_def lower_upper)
  have "networkLabel (to_upper s) = networkLabel s" for s by (simp add: networkLabel_def low)
  moreover have "networkLabel n \<noteq> []" by (simp add: networkLabel_def Let_def to_upper_def)
  moreover have "networkLabel (networkLabel n) = networkLabel n"
  proof (cases "to_lower n \<in> {[], ''httpupgrade'', ''splithttp'', ''xhttp''}")
    case True
    moreover have "networkLabel ''TCP'' = ''TCP''" "networkLabel ''HTTPUpgrade'' = ''HTTPUpgrade''"
      "networkLabel ''SplitHTTP'' = ''SplitHTTP''" "networkLabel ''XHTTP'' = ''XHTTP''" by code_simp+
    ultimately show ?thesis by (auto simp: networkLabel_def [of n] Let_def)
  next
    case False
    then have n: "networkLabel n = to_upper (to_lower n)" by (simp add: networkLabel_def Let_def)
    have "to_lower (networkLabel n) = to_lower n" by (simp add: n low)
    then show ?thesis by (simp add: networkLabel_def Let_def)
  qed
  ultimately show ?thesis by simp
qed

text \<open>The headers of a stored inbound: strings, or arrays of strings.\<close>

definition wire_headers :: "obj \<Rightarrow> bool" where
  "wire_headers m \<longleftrightarrow> list_all (\<lambda>(k, v). case v of JStr s \<Rightarrow> True | JArr xs \<Rightarrow> list_all is_str xs | _ \<Rightarrow> False) m"

lemma readHeader_wire: "wire_headers m \<Longrightarrow> readHeader (JObj m) name = getHeaderValue (JObj m) name"
proof -
  have "wire_headers m \<Longrightarrow> map_header needle m = header_lookup needle m" for needle
    by (induction needle m rule: map_header.induct)
      (auto simp: wire_headers_def text_or_empty_def first_of_def js_coalesce_def is_str_def
        split: js.splits list.splits)
  then show "wire_headers m \<Longrightarrow> ?thesis" by (simp add: readHeader_def getHeaderValue_def js_entries_def)
qed

lemma host_or_header_eq:
  assumes "js_member st ''host'' = JStr h" "js_member st ''headers'' = JObj m" "wire_headers m"
  shows "host_or_header st = (if h \<noteq> [] then h else getHeaderValue (JObj m) ''host'')"
  using assms by (cases h) (simp_all add: host_or_header_def readHeader_wire)

text \<open>The stream settings of a stored inbound hold the transport \<open>net\<close>, as far as its host goes.\<close>

definition holds_transport :: "obj \<Rightarrow> network_settings \<Rightarrow> bool" where
  "holds_transport stream net =
     (let holds = (\<lambda>k host headers. js_member (js_get stream k) ''host'' = JStr host \<and>
            js_member (js_get stream k) ''headers'' = JObj headers \<and> wire_headers headers)
      in case net of
        NetTcp tcp \<Rightarrow>
          (case tcp_header tcp of
             Some (HeaderHttp (Some rq) response) \<Rightarrow>
               js_member (tcp_request_of stream) ''headers'' = JObj (tq_headers rq) \<and> wire_headers (tq_headers rq)
           | _ \<Rightarrow> False)
      | NetWs w \<Rightarrow> holds ''wsSettings'' (ws_host w) (ws_headers w)
      | NetHttpUpgrade u \<Rightarrow> holds ''httpupgradeSettings'' (hu_host u) (hu_headers u)
      | NetXHttp xh \<Rightarrow> holds ''xhttpSettings'' (xh_host xh) (xh_headers xh)
      | _ \<Rightarrow> False)"

definition response_host :: "tcp_response option \<Rightarrow> string" where
  "response_host response = (case response of Some r \<Rightarrow> getHeaderValue (JObj (tr_headers r)) ''host'' | None \<Rightarrow> [])"

lemma vmess_xhttp_host: "js_get (applyXhttpExtraToObj xh q) ''host'' = js_get q ''host''"
  by (rule okept_xhttp [unfolded okept_def, rule_format]) (simp add: extra_keys_def)

lemma xhttp_host_param: "params_get (applyXhttpExtraToParams xh ps) ''host'' =
    Some (if xh_host xh \<noteq> [] then xh_host xh else xhttpHostFallback xh)"
  by (auto simp: applyXhttpExtraToParams_def Let_def split: option.split js.split)

text \<open>C34. For WebSocket, HTTPUpgrade and xHTTP the host shown in the details of an inbound is the one its
  share links carry, in the parameters of a URL link and in the payload of a VMess link, be it set
  for the transport or left to a header.  For TCP with an HTTP header the details show the host of
  the request; the parameters of the links carry it exactly if the response names no other host.\<close>

theorem shown_host_is_linked_host:
  assumes "holds_transport stream net"
  shows "\<exists>h. readNetworkHost stream (network_name net) = Some h \<and>
    (case net of
       NetTcp tcp \<Rightarrow>
         (case tcp_header tcp of
            Some (HeaderHttp (Some rq) response) \<Rightarrow>
              h = [] \<or> (params_get (writeNetworkParams net ps) ''host'' = Some h \<longleftrightarrow> response_host response \<in> {[], h})
          | _ \<Rightarrow> True)
     | _ \<Rightarrow> params_get (writeNetworkParams net ps) ''host'' = Some h \<and> js_get (vmess_network net kvs) ''host'' = JStr h)"
proof (cases net)
  case (NetTcp tcp)
  then obtain rq response where h: "tcp_header tcp = Some (HeaderHttp (Some rq) response)"
    "js_member (tcp_request_of stream) ''headers'' = JObj (tq_headers rq)" "wire_headers (tq_headers rq)"
    using assms by (auto simp: holds_transport_def Let_def split: option.splits tcp_header.splits)
  then show ?thesis
    by (auto simp: NetTcp readNetworkHost_def readHeader_wire writeNetworkParams_def set_nonempty_def http_host_def
      response_host_def Let_def split: option.splits if_splits)
next
  case (NetXHttp xh)
  have "host_or_header (js_get stream ''xhttpSettings'') = (if xh_host xh \<noteq> [] then xh_host xh else xhttpHostFallback xh)"
    unfolding xhttpHostFallback_def using assms by (intro host_or_header_eq) (simp_all add: NetXHttp holds_transport_def)
  then show ?thesis
    by (simp add: NetXHttp readNetworkHost_def writeNetworkParams_def vmess_network_def vmess_xhttp_host xhttp_host_param)
qed (use assms in \<open>simp_all add: holds_transport_def readNetworkHost_def writeNetworkParams_def vmess_network_def host_or_header_eq\<close>)

theorem shown_host_is_linked_host_witness:
  "readNetworkHost [(''wsSettings'', JObj [(''host'', JStr []), (''headers'', JObj [(''Host'', JArr [JStr ''a.com''])])])] ''ws'' =
   Some ''a.com''"
proof -
  let ?net = "NetWs \<lparr>ws_acceptProxyProtocol = False, ws_path = ''/'', ws_host = [],
    ws_headers = [(''Host'', JArr [JStr ''a.com''])], ws_heartbeatPeriod = 0\<rparr>"
  let ?stream = "[(''wsSettings'', JObj [(''host'', JStr []), (''headers'', JObj [(''Host'', JArr [JStr ''a.com''])])])]"
  have "getHeaderValue (JObj [(''Host'', JArr [JStr ''a.com''])]) ''host'' = ''a.com''" by code_simp
  then show ?thesis
    using shown_host_is_linked_host [of ?stream ?net "[]" "[]"]
    by (auto simp: holds_transport_def wire_headers_def js_member_def is_str_def writeNetworkParams_def)
qed

text \<open>With an HTTP header on TCP the links prefer the host of the response, which the details do not
  look at.\<close>

lemma tcp_host_differs:
  assumes "js_member (tcp_request_of stream) ''headers'' = JObj (tq_headers rq)" "wire_headers (tq_headers rq)"
    and "response_host response \<notin> {[], getHeaderValue (JObj (tq_headers rq)) ''host''}"
  shows "readNetworkHost stream ''tcp'' \<noteq> Some (http_host rq response)"
  using assms by (auto simp: readNetworkHost_def readHeader_wire http_host_def response_host_def Let_def split: option.splits if_splits)

end
