(* ===== verification/OutboundHelpers.thy ===== *)
theory OutboundHelpers
  imports OutboundForm Capabilities XraySetting
begin

text \<open>
  The helpers of the outbounds page: \<open>frontend/src/pages/xray/outbounds/outbound-form-helpers.ts\<close>,
  with the constants it uses, and \<open>outbounds-tab-helpers.ts\<close> beside it (whose \<open>isUntestable\<close>
  is in \<open>XraySetting\<close>).
\<close>

section \<open>The outbound form\<close>

definition isMuxAllowed :: "string \<Rightarrow> string \<Rightarrow> string \<Rightarrow> bool" where
  "isMuxAllowed protocol flow network =
     (if protocol \<notin> set MUX_PROTOCOLS then False
      else if protocol = ''vless'' \<and> flow \<noteq> [] then False
      else if network = ''xhttp'' then False
      else True)"

definition newStreamSlice :: "string \<Rightarrow> obj" where
  "newStreamSlice network =
     (if network = ''kcp''
      then [(''network'', JStr ''kcp''),
            (''kcpSettings'', JObj [(''mtu'', JInt 1350), (''tti'', JInt 20), (''uplinkCapacity'', JInt 5),
               (''downlinkCapacity'', JInt 20), (''cwndMultiplier'', JInt 1), (''maxSendingWindow'', JInt 2097152)])]
      else if network = ''ws''
      then [(''network'', JStr ''ws''),
            (''wsSettings'', JObj [(''path'', JStr ''/''), (''host'', JStr []), (''headers'', JObj []),
               (''heartbeatPeriod'', JInt 0)])]
      else if network = ''grpc''
      then [(''network'', JStr ''grpc''),
            (''grpcSettings'', JObj [(''serviceName'', JStr []), (''authority'', JStr []), (''multiMode'', JBool False)])]
      else if network = ''httpupgrade''
      then [(''network'', JStr ''httpupgrade''),
            (''httpupgradeSettings'', JObj [(''path'', JStr ''/''), (''host'', JStr []), (''headers'', JObj [])])]
      else if network = ''xhttp''
      then [(''network'', JStr ''xhttp''),
            (''xhttpSettings'', JObj [(''path'', JStr ''/''), (''host'', JStr []), (''mode'', JStr []),
               (''headers'', JArr []), (''xPaddingBytes'', JStr ''100-1000''), (''scMaxEachPostBytes'', JStr ''1000000'')])]
      else if network = ''hysteria''
      then [(''network'', JStr ''hysteria''),
            (''hysteriaSettings'', JObj [(''version'', JInt 2), (''auth'', JStr []), (''udpIdleTimeout'', JInt 60)])]
      else [(''network'', JStr ''tcp''), (''tcpSettings'', JObj [(''header'', JObj [(''type'', JStr ''none'')])])])"

definition hysteriaStreamSlice :: obj where
  "hysteriaStreamSlice =
     newStreamSlice ''hysteria'' @
     [(''security'', JStr ''tls''),
      (''tlsSettings'', JObj [(''serverName'', JStr []), (''alpn'', JArr [JStr ''h3'']), (''fingerprint'', JStr []),
         (''echConfigList'', JStr []), (''verifyPeerCertByName'', JStr []), (''pinnedPeerCertSha256'', JStr [])])]"

definition network_slice :: "string \<Rightarrow> string \<Rightarrow> protocol_slice" where
  "network_slice protocol network =
     \<lparr>sl_protocol = protocol, sl_stream = Some \<lparr>sl_network = Some network, sl_security = None\<rparr>\<rparr>"

text \<open>The capabilities do not read the security that the code passes along with the network.\<close>

definition newSecurity :: "string \<Rightarrow> js \<Rightarrow> string \<Rightarrow> js" where
  "newSecurity protocol currentSecurity network =
     (if currentSecurity = JStr ''tls'' \<and> \<not> canEnableTls (network_slice protocol network) then JStr ''none''
      else if currentSecurity = JStr ''reality'' \<and> \<not> canEnableReality (network_slice protocol network)
      then JStr ''none''
      else currentSecurity)"

definition applyNetworkChange :: "string \<Rightarrow> obj \<Rightarrow> string \<Rightarrow> obj" where
  "applyNetworkChange protocol stream network =
     (if network = ''hysteria'' then hysteriaStreamSlice
      else
        let security = newSecurity protocol (js_coalesce (js_get stream ''security'') (JStr ''none'')) network;
            s = js_put ''security'' security (newStreamSlice network)
        in if security = JStr ''tls'' \<and> truthy (js_get stream ''tlsSettings'')
           then js_put ''tlsSettings'' (js_get stream ''tlsSettings'') s
           else if security = JStr ''reality'' \<and> truthy (js_get stream ''realitySettings'')
           then js_put ''realitySettings'' (js_get stream ''realitySettings'') s
           else s)"

definition buildAddModeValues :: "(zschema \<Rightarrow> js \<Rightarrow> js option) \<Rightarrow> outbound_form option" where
  "buildAddModeValues P = rawOutboundToFormValues P []"

definition NETWORK_OPTIONS :: "(string \<times> string) list" where
  "NETWORK_OPTIONS =
     [(''tcp'', ''RAW''), (''kcp'', ''mKCP''), (''ws'', ''WebSocket''), (''grpc'', ''gRPC''),
      (''httpupgrade'', ''HTTPUpgrade''), (''xhttp'', ''XHTTP'')]"

definition SERVER_PROTOCOLS :: "string list" where
  "SERVER_PROTOCOLS = [''vmess'', ''vless'', ''trojan'', ''shadowsocks'', ''socks'', ''http'', ''hysteria'']"

section \<open>The outbounds tab\<close>

definition address_port :: "js \<Rightarrow> string" where
  "address_port s = js_string (js_member s ''address'') @ '':'' @ js_string (js_member s ''port'')"

definition listed_servers :: "js \<Rightarrow> string list" where
  "listed_servers v = (case v of JArr xs \<Rightarrow> map address_port xs | _ \<Rightarrow> [])"

definition js_either :: "js \<Rightarrow> js \<Rightarrow> js" where
  "js_either a b = js_or (js_or a b) (JStr [])"

definition outboundAddresses :: "js \<Rightarrow> string list" where
  "outboundAddresses out =
     (let settings' = js_member out ''settings'';
          protocol = js_member out ''protocol''
      in if protocol = JStr ''vmess'' then listed_servers (js_member settings' ''vnext'')
         else if protocol = JStr ''vless''
         then [js_string (js_or (js_member settings' ''address'') (JStr [])) @ '':'' @
               js_string (js_or (js_member settings' ''port'') (JStr []))]
         else if protocol \<in> {JStr ''http'', JStr ''socks'', JStr ''shadowsocks'', JStr ''trojan''}
         then listed_servers (js_member settings' ''servers'')
         else if protocol = JStr ''dns''
         then (let addr = js_either (js_member settings' ''rewriteAddress'') (js_member settings' ''address'');
                   prt = js_either (js_member settings' ''rewritePort'') (js_member settings' ''port'')
               in if truthy addr \<or> truthy prt then [js_string addr @ '':'' @ js_string prt] else [])
         else if protocol = JStr ''wireguard''
         then (case js_member settings' ''peers'' of
                 JArr ps \<Rightarrow> filter (\<lambda>e. e \<noteq> []) (map (\<lambda>p. js_string (js_or (js_member p ''endpoint'') (JStr []))) ps)
               | _ \<Rightarrow> [])
         else [])"

definition showSecurity :: "js \<Rightarrow> bool" where
  "showSecurity security \<longleftrightarrow> security = JStr ''tls'' \<or> security = JStr ''reality''"

definition hasBreakdown :: "js \<Rightarrow> bool" where
  "hasBreakdown r =
     (if \<not> truthy r then False
      else (case js_member r ''endpoints'' of JArr es \<Rightarrow> es \<noteq> [] | _ \<Rightarrow> False) \<or> truthy (js_member r ''error''))"

definition trafficFor :: "js list \<Rightarrow> js \<Rightarrow> js \<times> js" where
  "trafficFor outboundsTraffic out =
     (case find (\<lambda>x. js_member x ''tag'' = js_member out ''tag'') outboundsTraffic of
        None \<Rightarrow> (JInt 0, JInt 0)
      | Some tr \<Rightarrow> (js_or (js_member tr ''up'') (JInt 0), js_or (js_member tr ''down'') (JInt 0)))"

definition isTesting :: "(nat \<Rightarrow> test_state option) \<Rightarrow> nat \<Rightarrow> bool" where
  "isTesting states idx = (case states idx of Some s \<Rightarrow> tst_testing s | None \<Rightarrow> False)"

definition testResult :: "(nat \<Rightarrow> test_state option) \<Rightarrow> nat \<Rightarrow> js" where
  "testResult states idx =
     (case states idx of Some s \<Rightarrow> js_or (tst_result s) JNull | None \<Rightarrow> JNull)"

section \<open>Properties\<close>

definition form_flow :: "outbound_form \<Rightarrow> string" where
  "form_flow v = (case of_settings v of FVless s \<Rightarrow> lf_flow s | _ \<Rightarrow> [])"

definition form_network :: "outbound_form \<Rightarrow> string" where
  "form_network v = (case of_stream v of Some m \<Rightarrow> as_string (js_get m ''network'') | None \<Rightarrow> [])"

text \<open>The form and the adapter agree on when multiplexing is allowed, so that no setting that the form
  offers is dropped when the outbound is saved.\<close>

theorem mux_helpers_agree: "isMuxAllowed (form_protocol (of_settings v)) (form_flow v) (form_network v) = muxAllowed v"
proof -
  have n: "form_network v = ''xhttp'' \<longleftrightarrow>
      (case of_stream v of Some m \<Rightarrow> js_get m ''network'' = JStr ''xhttp'' | None \<Rightarrow> False)"
    by (auto simp: form_network_def as_string_or_def split: option.splits js.splits)
  show ?thesis
    by (cases "of_settings v"; cases "of_stream v") (auto simp: isMuxAllowed_def muxAllowed_def form_flow_def n)
qed

lemma slice_keys:
  "js_get (newStreamSlice n) ''security'' = JUndef" "js_get (newStreamSlice n) ''tlsSettings'' = JUndef"
  "js_get (newStreamSlice n) ''realitySettings'' = JUndef"
  by (simp_all add: newStreamSlice_def)

text \<open>A change of the network never leaves a security that the new network cannot have, and the
  settings of TLS and of REALITY are there only under their own security.\<close>

theorem network_change_valid:
  assumes "network \<noteq> ''hysteria''"
  defines "s \<equiv> \<lambda>protocol stream. applyNetworkChange protocol stream network"
  shows "(js_get (s protocol stream) ''security'' = JStr ''tls'' \<longrightarrow> canEnableTls (network_slice protocol network)) \<and>
    (js_get (s protocol stream) ''security'' = JStr ''reality'' \<longrightarrow> canEnableReality (network_slice protocol network)) \<and>
    (js_get (s protocol stream) ''tlsSettings'' \<noteq> JUndef \<longrightarrow> js_get (s protocol stream) ''security'' = JStr ''tls'') \<and>
    (js_get (s protocol stream) ''realitySettings'' \<noteq> JUndef \<longrightarrow>
       js_get (s protocol stream) ''security'' = JStr ''reality'')"
  using assms(1) by (auto simp: s_def applyNetworkChange_def Let_def newSecurity_def slice_keys)

lemma tls_kept:
  assumes "js_get stream ''security'' = JStr ''tls''" "truthy (js_get stream ''tlsSettings'')"
    and "network \<noteq> ''hysteria''" "canEnableTls (network_slice protocol network)"
  shows "js_get (applyNetworkChange protocol stream network) ''security'' = JStr ''tls'' \<and>
    js_get (applyNetworkChange protocol stream network) ''tlsSettings'' = js_get stream ''tlsSettings''"
  using assms by (simp add: applyNetworkChange_def Let_def newSecurity_def js_coalesce_def)

text \<open>C33. The TLS settings, with the server name, survive any number of changes of the network, as long as
  every network on the way can have TLS.\<close>

theorem tls_settings_survive:
  assumes "js_get stream ''security'' = JStr ''tls''" and "truthy (js_get stream ''tlsSettings'')"
    and "list_all (\<lambda>n. n \<noteq> ''hysteria'' \<and> canEnableTls (network_slice protocol n)) networks"
  shows "js_get (foldl (applyNetworkChange protocol) stream networks) ''security'' = JStr ''tls'' \<and>
    js_get (foldl (applyNetworkChange protocol) stream networks) ''tlsSettings'' = js_get stream ''tlsSettings''"
  using assms
proof (induction networks arbitrary: stream)
  case (Cons n ns)
  then show ?case using tls_kept [of stream n protocol] by simp
qed simp

theorem tls_settings_survive_witness:
  "js_get (foldl (applyNetworkChange ''vless'')
     [(''security'', JStr ''tls''), (''tlsSettings'', JObj [(''serverName'', JStr ''a.com'')])] [''ws'', ''grpc'', ''tcp''])
     ''tlsSettings'' = JObj [(''serverName'', JStr ''a.com'')]"
  using tls_settings_survive [of "[(''security'', JStr ''tls''), (''tlsSettings'', JObj [(''serverName'', JStr ''a.com'')])]"
      "''vless''" "[''ws'', ''grpc'', ''tcp'']"]
  by (simp add: network_slice_def canEnableTls_def slice_network_def TLS_ELIGIBLE_PROTOCOLS_def TLS_NETWORKS_def)

theorem network_change_valid_witness:
  "js_get (applyNetworkChange ''vmess'' [(''security'', JStr ''reality'')] ''kcp'') ''security'' \<noteq> JStr ''reality''"
  using network_change_valid [of "''kcp''" "''vmess''" "[(''security'', JStr ''reality'')]"]
  by (simp add: network_slice_def canEnableReality_def REALITY_ELIGIBLE_PROTOCOLS_def)

end
