(* ===== verification/PageHelpers.thy ===== *)
theory PageHelpers
  imports HubCalls
begin

text \<open>
  Small state and text of the pages: the shared calendar setting of
  \<open>frontend/src/hooks/useDatepicker.ts\<close>, the paths of \<open>pages/settings/uriPath.ts\<close> and the filters of
  \<open>pages/clients/filters.ts\<close>.
\<close>

section \<open>Paths of the settings\<close>

definition path_char :: "char \<Rightarrow> bool" where
  "path_char c \<longleftrightarrow> \<not> (c \<in> {CHR '':'', CHR ''*'', CHR '' '', CHR 0x5C} \<or> of_char c < (0x20 :: nat) \<or> of_char c = (0x7F :: nat))"

definition sanitizePath :: "string \<Rightarrow> string" where
  "sanitizePath input = filter path_char input"

text \<open>\<open>replace(/\\/+/g, '/')\<close>.\<close>

fun squeeze :: "string \<Rightarrow> string" where
  "squeeze [] = []"
| "squeeze [c] = [c]"
| "squeeze (c # d # s) = (if c = CHR ''/'' \<and> d = CHR ''/'' then squeeze (d # s) else c # squeeze (d # s))"

definition normalizePath :: "string \<Rightarrow> string" where
  "normalizePath input =
     (let p = (if input = [] then ''/'' else input);
          p = (if \<not> starts_with p ''/'' then CHR ''/'' # p else p);
          p = (if \<not> ends_with p ''/'' then p @ ''/'' else p)
      in squeeze p)"

section \<open>Filters of the client list\<close>

record client_filters =
  cf_buckets :: "string list"
  cf_protocols :: "string list"
  cf_inboundIds :: "rat list"
  cf_groups :: "string list"
  cf_expiryFrom :: "rat option"
  cf_expiryTo :: "rat option"
  cf_usageFromGB :: "rat option"
  cf_usageToGB :: "rat option"
  cf_autoRenew :: string
  cf_hasTgId :: string
  cf_hasComment :: string

definition emptyFilters :: client_filters where
  "emptyFilters = \<lparr>cf_buckets = [], cf_protocols = [], cf_inboundIds = [], cf_groups = [], cf_expiryFrom = None,
     cf_expiryTo = None, cf_usageFromGB = None, cf_usageToGB = None, cf_autoRenew = [], cf_hasTgId = [],
     cf_hasComment = []\<rparr>"

definition given_number :: "rat option \<Rightarrow> bool" where
  "given_number x = (case x of None \<Rightarrow> False | Some n \<Rightarrow> n \<noteq> 0)"

definition activeFilterCount :: "client_filters \<Rightarrow> nat" where
  "activeFilterCount f =
     (let n = 0;
          n = (if cf_buckets f \<noteq> [] then Suc n else n);
          n = (if cf_protocols f \<noteq> [] then Suc n else n);
          n = (if cf_inboundIds f \<noteq> [] then Suc n else n);
          n = (if cf_groups f \<noteq> [] then Suc n else n);
          n = (if given_number (cf_expiryFrom f) \<or> given_number (cf_expiryTo f) then Suc n else n);
          n = (if given_number (cf_usageFromGB f) \<or> given_number (cf_usageToGB f) then Suc n else n);
          n = (if cf_autoRenew f \<noteq> [] then Suc n else n);
          n = (if cf_hasTgId f \<noteq> [] then Suc n else n)
      in if cf_hasComment f \<noteq> [] then Suc n else n)"

section \<open>The calendar\<close>

text \<open>
  The variables of the module, the state of every component that uses the hook, and the
  requests sent.  A component renders with the cached value and starts to listen in its effect.
\<close>

record calendar =
  cal_cached :: string
  cal_fetched :: bool
  cal_pending :: bool
  cal_shown :: "nat \<Rightarrow> string option"
  cal_listening :: "nat set"
  cal_posts :: nat

definition new_calendar :: calendar where
  "new_calendar = \<lparr>cal_cached = ''gregorian'', cal_fetched = False, cal_pending = False, cal_shown = Map.empty,
     cal_listening = {}, cal_posts = 0\<rparr>"

definition notify :: "string \<Rightarrow> calendar \<Rightarrow> calendar" where
  "notify v c = c\<lparr>cal_shown := (\<lambda>i. if i \<in> cal_listening c \<and> cal_shown c i \<noteq> None then Some v else cal_shown c i)\<rparr>"

definition loadOnce :: "calendar \<Rightarrow> calendar" where
  "loadOnce c =
     (if cal_fetched c then c
      else if cal_pending c then c
      else c\<lparr>cal_pending := True, cal_posts := Suc (cal_posts c)\<rparr>)"

text \<open>The rest of \<open>loadOnce\<close>, once the hub has answered.\<close>

definition calendar_answered :: "(zschema \<Rightarrow> js \<Rightarrow> js option) \<Rightarrow> msg \<Rightarrow> calendar \<Rightarrow> calendar" where
  "calendar_answered P m c =
     (let c = (if msg_ok m
               then (let v = js_string (js_or (js_member (msg_obj (parseMsg P m DefaultsPayloadSchema)) ''datepicker'')
                                          (JStr ''gregorian''))
                     in notify v (c\<lparr>cal_cached := v\<rparr>))
               else c)
      in c\<lparr>cal_fetched := True, cal_pending := False\<rparr>)"

definition setDatepicker :: "string \<Rightarrow> calendar \<Rightarrow> calendar" where
  "setDatepicker v c =
     (let v = (if v = [] then ''gregorian'' else v)
      in notify v (c\<lparr>cal_fetched := True, cal_cached := v\<rparr>))"

definition calendar_render :: "nat \<Rightarrow> calendar \<Rightarrow> calendar" where
  "calendar_render i c = c\<lparr>cal_shown := (cal_shown c)(i \<mapsto> cal_cached c)\<rparr>"

definition calendar_effect :: "nat \<Rightarrow> calendar \<Rightarrow> calendar" where
  "calendar_effect i c = loadOnce (c\<lparr>cal_listening := insert i (cal_listening c)\<rparr>)"

definition calendar_cleanup :: "nat \<Rightarrow> calendar \<Rightarrow> calendar" where
  "calendar_cleanup i c =
     c\<lparr>cal_listening := cal_listening c - {i}, cal_shown := (cal_shown c)(i := None)\<rparr>"

datatype calendar_input =
    CalMount nat
  | CalUnmount nat
  | CalSet string
  | CalAnswer msg

definition calendar_step :: "(zschema \<Rightarrow> js \<Rightarrow> js option) \<Rightarrow> calendar \<Rightarrow> calendar_input \<Rightarrow> calendar" where
  "calendar_step P c e = (case e of
     CalMount i \<Rightarrow> calendar_effect i (calendar_render i c)
   | CalUnmount i \<Rightarrow> calendar_cleanup i c
   | CalSet v \<Rightarrow> setDatepicker v c
   | CalAnswer m \<Rightarrow> if cal_pending c then calendar_answered P m c else c)"

section \<open>Normal paths\<close>

definition normal_path :: "string \<Rightarrow> bool" where
  "normal_path p \<longleftrightarrow> hd p = CHR ''/'' \<and> last p = CHR ''/'' \<and> p \<noteq> [] \<and> squeeze p = p"

lemma squeeze_first: "squeeze (c # s) = c # tl (squeeze (c # s))"
proof (induction s arbitrary: c)
  case (Cons d s)
  show ?case
  proof (cases "c = CHR ''/'' \<and> d = CHR ''/''")
    case True
    then show ?thesis using Cons [of d] by simp
  qed auto
qed simp

lemma squeeze_idem [simp]: "squeeze (squeeze s) = squeeze s"
proof (induction s rule: squeeze.induct)
  case (3 c d s)
  show ?case
  proof (cases "c = CHR ''/'' \<and> d = CHR ''/''")
    case False
    have "squeeze (d # s) = d # tl (squeeze (d # s))" by (rule squeeze_first)
    then have "squeeze (c # squeeze (d # s)) = c # squeeze (squeeze (d # s))" using False
      by (metis squeeze.simps(3))
    then show ?thesis using False 3 by auto
  qed (use 3 in simp)
qed simp_all

lemma squeeze_ends: "s \<noteq> [] \<Longrightarrow> squeeze s \<noteq> [] \<and> hd (squeeze s) = hd s \<and> last (squeeze s) = last s"
  by (induction s rule: squeeze.induct) auto

lemma squeeze_set: "set (squeeze s) = set s"
  by (induction s rule: squeeze.induct) auto

text \<open>A normalized path starts and ends with a slash and has no empty segment, whatever was typed;
  normalizing changes nothing but slashes, so it keeps a sanitized path sanitized, and a path that is
  already normal is left as it is.\<close>

theorem paths_normalized:
  "normal_path (normalizePath p) \<and> (normal_path p \<longrightarrow> normalizePath p = p) \<and>
   filter (\<lambda>c. c \<noteq> CHR ''/'') (normalizePath p) = filter (\<lambda>c. c \<noteq> CHR ''/'') p \<and>
   sanitizePath (normalizePath (sanitizePath p)) = normalizePath (sanitizePath p)"
proof -
  have slashed: "starts_with s ''/'' \<longleftrightarrow> s \<noteq> [] \<and> hd s = CHR ''/''" "ends_with s ''/'' \<longleftrightarrow> s \<noteq> [] \<and> last s = CHR ''/''" for s
    by (cases s; simp add: starts_with_def) (cases s rule: rev_cases; simp add: ends_with_def)
  have sq: "filter (\<lambda>c. c \<noteq> CHR ''/'') (squeeze s) = filter (\<lambda>c. c \<noteq> CHR ''/'') s" for s
    by (induction s rule: squeeze.induct) auto
  have "normal_path (normalizePath q)" for q
  proof -
    define r where "r = (let q = (if q = [] then ''/'' else q); q = (if \<not> starts_with q ''/'' then CHR ''/'' # q else q)
      in if \<not> ends_with q ''/'' then q @ ''/'' else q)"
    have "r \<noteq> [] \<and> hd r = CHR ''/'' \<and> last r = CHR ''/''" by (auto simp: r_def Let_def slashed hd_append)
    moreover have "normalizePath q = squeeze r" by (simp add: normalizePath_def r_def Let_def)
    ultimately show ?thesis using squeeze_ends [of r] by (simp add: normal_path_def)
  qed
  moreover have "normal_path p \<longrightarrow> normalizePath p = p"
    by (simp add: normal_path_def normalizePath_def slashed)
  moreover have f: "filter (\<lambda>c. c \<noteq> CHR ''/'') (normalizePath q) = filter (\<lambda>c. c \<noteq> CHR ''/'') q" for q
    by (simp add: normalizePath_def Let_def sq)
  moreover have "sanitizePath (normalizePath (sanitizePath p)) = normalizePath (sanitizePath p)"
  proof -
    have "path_char c" if "c \<in> set (normalizePath (sanitizePath p))" for c
    proof (cases "c = CHR ''/''")
      case True
      then show ?thesis by (simp add: path_char_def)
    next
      case False
      with that have "c \<in> set (filter (\<lambda>c. c \<noteq> CHR ''/'') (normalizePath (sanitizePath p)))" by simp
      then show ?thesis by (simp only: f) (simp add: sanitizePath_def)
    qed
    then show ?thesis unfolding sanitizePath_def [of "normalizePath (sanitizePath p)"] by (simp add: filter_id_conv)
  qed
  ultimately show ?thesis by simp
qed

theorem paths_normalized_witness: "normalizePath ''/a b/'' = ''/a b/'' \<and> normal_path (normalizePath ''x//y'')"
proof -
  have "normal_path ''/a b/''" by (simp add: normal_path_def)
  then show ?thesis using paths_normalized [of "''/a b/''"] paths_normalized [of "''x//y''"] by blast
qed

section \<open>The calendar is asked for once\<close>

definition calendar_agrees :: "calendar \<Rightarrow> bool" where
  "calendar_agrees c \<longleftrightarrow>
     (\<forall>i. cal_shown c i = (if i \<in> cal_listening c then Some (cal_cached c) else None))"

definition calendar_inv :: "calendar \<Rightarrow> bool" where
  "calendar_inv c \<longleftrightarrow>
     cal_posts c \<le> 1 \<and> (cal_posts c = 1 \<longrightarrow> cal_fetched c \<or> cal_pending c) \<and>
     (cal_pending c \<longrightarrow> cal_posts c = 1) \<and> calendar_agrees c"

lemma notify_agrees: "calendar_agrees c \<Longrightarrow> calendar_agrees (notify v (c\<lparr>cal_cached := v\<rparr>))"
  by (auto simp: calendar_agrees_def notify_def)

lemma calendar_agrees_fields [simp]:
  "calendar_agrees (c\<lparr>cal_fetched := a\<rparr>) = calendar_agrees c" "calendar_agrees (c\<lparr>cal_pending := a\<rparr>) = calendar_agrees c"
  "calendar_agrees (c\<lparr>cal_posts := n\<rparr>) = calendar_agrees c"
  by (simp_all add: calendar_agrees_def)

lemma notify_fields [simp]:
  "cal_posts (notify v c) = cal_posts c" "cal_fetched (notify v c) = cal_fetched c"
  "cal_pending (notify v c) = cal_pending c" "cal_cached (notify v c) = cal_cached c"
  by (simp_all add: notify_def)

lemma calendar_step_inv: "calendar_inv c \<Longrightarrow> calendar_inv (calendar_step P c e)"
proof (cases e)
  case (CalMount i)
  assume c: "calendar_inv c"
  then have "calendar_agrees ((calendar_render i c)\<lparr>cal_listening := insert i (cal_listening c)\<rparr>)"
    by (simp add: calendar_inv_def calendar_agrees_def calendar_render_def)
  then show ?thesis using c CalMount
    by (auto simp: calendar_step_def calendar_effect_def calendar_inv_def loadOnce_def calendar_render_def)
next
  case (CalUnmount i)
  assume "calendar_inv c"
  then show ?thesis by (simp add: CalUnmount calendar_step_def calendar_cleanup_def calendar_inv_def calendar_agrees_def)
next
  case (CalSet v)
  assume c: "calendar_inv c"
  then have "calendar_agrees (notify w ((c\<lparr>cal_fetched := True\<rparr>)\<lparr>cal_cached := w\<rparr>))" for w
    by (intro notify_agrees) (simp add: calendar_inv_def)
  then show ?thesis using c by (simp add: CalSet calendar_step_def setDatepicker_def calendar_inv_def Let_def)
next
  case (CalAnswer m)
  assume c: "calendar_inv c"
  then have "calendar_agrees (notify w (c\<lparr>cal_cached := w\<rparr>))" for w
    by (intro notify_agrees) (simp add: calendar_inv_def)
  then show ?thesis using c by (auto simp add: CalAnswer calendar_step_def calendar_answered_def calendar_inv_def Let_def)
qed

interpretation calendar: machine "calendar_step P" calendar_inv for P
  by unfold_locales (rule calendar_step_inv)

text \<open>However often components that use the calendar appear and go, the setting is asked for at most
  once, and every one of them shows the value that is cached, provided its effect follows its
  rendering at once.\<close>

theorem calendar_asked_once:
  defines "c \<equiv> \<lambda>P es. foldl (calendar_step P) new_calendar es"
  shows "cal_posts (c P es) \<le> 1 \<and> (\<forall>i. cal_shown (c P es) i \<in> {None, Some (cal_cached (c P es))})"
proof -
  have "calendar_inv new_calendar" by (simp add: calendar_inv_def calendar_agrees_def new_calendar_def)
  then have "calendar_inv (c P es)" unfolding c_def by (rule calendar.run_inv)
  then show ?thesis by (simp add: calendar_inv_def calendar_agrees_def split: if_splits)
qed

text \<open>A change between the rendering and the effect is missed.\<close>

lemma calendar_missed:
  "cal_shown (calendar_effect 0 (setDatepicker ''jalalian'' (calendar_render 0 new_calendar))) 0 = Some ''gregorian''"
  by (simp add: calendar_effect_def calendar_render_def setDatepicker_def notify_def loadOnce_def new_calendar_def Let_def)

text \<open>A value that is set while the request is under way is overwritten by the answer.\<close>

lemma calendar_overwritten:
  "cal_cached (foldl (calendar_step (\<lambda>s v. Some v)) new_calendar
     [CalMount 0, CalSet ''jalalian'', CalAnswer (Msg True [] (JObj [(''datepicker'', JStr ''gregorian'')]))]) = ''gregorian''"
  by (simp add: calendar_step_def calendar_answered_def calendar_effect_def calendar_render_def setDatepicker_def
    notify_def loadOnce_def new_calendar_def Let_def msg_ok_def msg_obj_def parseMsg_def js_member_def js_or_def)

end
