(* ===== verification/SecurityActions.thy ===== *)
theory SecurityActions
  imports Models RandomUtil
begin

text \<open>
  The key and certificate actions of the security tab:
  \<open>frontend/src/pages/inbounds/form/useSecurityActions.ts\<close>.

  The form is antd's: \<open>setFieldValue\<close> and \<open>getFieldValue\<close> are parameters, with the laws that a value
  reads back where it was put, that fields apart from it keep theirs, and that a field inside a
  value is read from that value.  A form kept as one value, below, has these laws.
\<close>

section \<open>Fields of a form\<close>

datatype field_step = Name string | Index nat

type_synonym field_path = "field_step list"

fun apart :: "field_path \<Rightarrow> field_path \<Rightarrow> bool" where
  "apart (Name a # p) (Name b # q) = (if a = b then apart p q else True)"
| "apart (Index a # p) (Index b # q) = (if a = b then apart p q else True)"
| "apart _ _ = False"

definition field_items :: "js \<Rightarrow> js list" where
  "field_items v = (case v of JArr xs \<Rightarrow> xs | _ \<Rightarrow> [])"

definition item_at :: "js list \<Rightarrow> nat \<Rightarrow> js" where
  "item_at xs i = (if i < length xs then xs ! i else JUndef)"

definition put_item :: "nat \<Rightarrow> js \<Rightarrow> js list \<Rightarrow> js list" where
  "put_item i v xs = (if i < length xs then xs[i := v] else xs @ replicate (i - length xs) JUndef @ [v])"

fun read_field :: "field_path \<Rightarrow> js \<Rightarrow> js" where
  "read_field [] v = v"
| "read_field (Name k # p) v = read_field p (js_member v k)"
| "read_field (Index i # p) v = read_field p (item_at (field_items v) i)"

fun write_field :: "field_path \<Rightarrow> js \<Rightarrow> js \<Rightarrow> js" where
  "write_field [] w v = w"
| "write_field (Name k # p) w v = JObj (js_put k (write_field p w (js_member v k)) (js_members v))"
| "write_field (Index i # p) w v =
     JArr (put_item i (write_field p w (item_at (field_items v) i)) (field_items v))"

record 'f form_lib =
  setFieldValue :: "field_path \<Rightarrow> js \<Rightarrow> 'f \<Rightarrow> 'f"
  getFieldValue :: "field_path \<Rightarrow> 'f \<Rightarrow> js"

section \<open>The page\<close>

record ('f, 'h, 's) security_page =
  se_form :: 'f
  se_saving :: bool
  se_warnings :: "js list"
  se_app :: "('h, 's) app"

definition set_field :: "'f form_lib \<Rightarrow> field_path \<Rightarrow> js \<Rightarrow> ('f, 'h, 's) security_page \<Rightarrow> ('f, 'h, 's) security_page" where
  "set_field F path v p = p\<lparr>se_form := setFieldValue F path v (se_form p)\<rparr>"

definition reality_field :: "string list \<Rightarrow> field_path" where
  "reality_field ks = map Name ([''streamSettings'', ''realitySettings''] @ ks)"

definition tls_field :: "string list \<Rightarrow> field_path" where
  "tls_field ks = map Name ([''streamSettings'', ''tlsSettings''] @ ks)"

text \<open>
  A call of the hub between \<open>setSaving(true)\<close> and \<open>setSaving(false)\<close>, from the request to the use of
  its answer.  A promise that is never settled leaves the flag set.
\<close>

definition while_saving ::
  "(('h, 's) app \<Rightarrow> msg option \<times> ('h, 's) app) \<Rightarrow>
   (msg \<Rightarrow> ('f, 'h, 's) security_page \<Rightarrow> ('f, 'h, 's) security_page) \<Rightarrow>
   ('f, 'h, 's) security_page \<Rightarrow> ('f, 'h, 's) security_page" where
  "while_saving call use p =
     (let (m, a) = call (se_app p);
          p = p\<lparr>se_saving := True, se_app := a\<rparr>
      in case m of None \<Rightarrow> p | Some m \<Rightarrow> (use m p)\<lparr>se_saving := False\<rparr>)"

text \<open>A granted answer; reading a member of \<open>null\<close> throws, before anything is set.\<close>

definition got_object :: "msg \<Rightarrow> bool" where
  "got_object m \<longleftrightarrow> msg_ok m \<and> \<not> nullish (msg_obj m)"

definition put_keypair :: "'f form_lib \<Rightarrow> msg \<Rightarrow> ('f, 'h, 's) security_page \<Rightarrow> ('f, 'h, 's) security_page" where
  "put_keypair F m p =
     (if got_object m
      then set_field F (reality_field [''settings'', ''publicKey'']) (js_member (msg_obj m) ''publicKey'')
             (set_field F (reality_field [''privateKey'']) (js_member (msg_obj m) ''privateKey'') p)
      else p)"

definition genRealityKeypair ::
  "'f form_lib \<Rightarrow> ('h, 's) hub \<Rightarrow> ('f, 'h, 's) security_page \<Rightarrow> ('f, 'h, 's) security_page" where
  "genRealityKeypair F H p =
     while_saving (hub_get H False ''/panel/api/server/getNewX25519Cert'') (put_keypair F) p"

definition clearRealityKeypair :: "'f form_lib \<Rightarrow> ('f, 'h, 's) security_page \<Rightarrow> ('f, 'h, 's) security_page" where
  "clearRealityKeypair F p =
     set_field F (reality_field [''settings'', ''publicKey'']) (JStr [])
       (set_field F (reality_field [''privateKey'']) (JStr []) p)"

definition put_mldsa65 :: "'f form_lib \<Rightarrow> msg \<Rightarrow> ('f, 'h, 's) security_page \<Rightarrow> ('f, 'h, 's) security_page" where
  "put_mldsa65 F m p =
     (if got_object m
      then set_field F (reality_field [''settings'', ''mldsa65Verify'']) (js_member (msg_obj m) ''verify'')
             (set_field F (reality_field [''mldsa65Seed'']) (js_member (msg_obj m) ''seed'') p)
      else p)"

definition genMldsa65 ::
  "'f form_lib \<Rightarrow> ('h, 's) hub \<Rightarrow> ('f, 'h, 's) security_page \<Rightarrow> ('f, 'h, 's) security_page" where
  "genMldsa65 F H p = while_saving (hub_get H False ''/panel/api/server/getNewmldsa65'') (put_mldsa65 F) p"

definition clearMldsa65 :: "'f form_lib \<Rightarrow> ('f, 'h, 's) security_page \<Rightarrow> ('f, 'h, 's) security_page" where
  "clearMldsa65 F p =
     set_field F (reality_field [''settings'', ''mldsa65Verify'']) (JStr [])
       (set_field F (reality_field [''mldsa65Seed'']) (JStr []) p)"

text \<open>\<open>s.split(',').map(trim).filter(Boolean)\<close>.\<close>

definition comma_list :: "string \<Rightarrow> js" where
  "comma_list s = JArr (map JStr (filter (\<lambda>x. x \<noteq> []) (map js_trim (split_on CHR '','' s))))"

definition randomizeRealityTarget ::
  "'f form_lib \<Rightarrow> rat \<Rightarrow> ('f, 'h, 's) security_page \<Rightarrow> ('f, 'h, 's) security_page" where
  "randomizeRealityTarget F rnd p =
     (let (target, sni) = getRandomRealityTarget rnd
      in set_field F (reality_field [''serverNames'']) (comma_list sni)
           (set_field F (reality_field [''target'']) (JStr target) p))"

definition randomizeShortIds ::
  "'f form_lib \<Rightarrow> nat list \<Rightarrow> 32 word list \<Rightarrow> ('f, 'h, 's) security_page \<Rightarrow> ('f, 'h, 's) security_page" where
  "randomizeShortIds F lengths rs p =
     set_field F (reality_field [''shortIds'']) (comma_list (randomShortIds_text lengths rs)) p"

definition put_ech :: "'f form_lib \<Rightarrow> msg \<Rightarrow> ('f, 'h, 's) security_page \<Rightarrow> ('f, 'h, 's) security_page" where
  "put_ech F m p =
     (if got_object m
      then set_field F (tls_field [''settings'', ''echConfigList'']) (js_member (msg_obj m) ''echConfigList'')
             (set_field F (tls_field [''echServerKeys'']) (js_member (msg_obj m) ''echServerKeys'') p)
      else p)"

definition getNewEchCert ::
  "'f form_lib \<Rightarrow> ('h, 's) hub \<Rightarrow> ('f, 'h, 's) security_page \<Rightarrow> ('f, 'h, 's) security_page" where
  "getNewEchCert F H p =
     while_saving
       (hub_post H False ''/panel/api/server/getNewEchCert''
         (JObj [(''sni'', getFieldValue F (tls_field [''serverName'']) (se_form p))]) False)
       (put_ech F) p"

definition clearEchCert :: "'f form_lib \<Rightarrow> ('f, 'h, 's) security_page \<Rightarrow> ('f, 'h, 's) security_page" where
  "clearEchCert F p =
     set_field F (tls_field [''settings'', ''echConfigList'']) (JStr [])
       (set_field F (tls_field [''echServerKeys'']) (JStr []) p)"

definition hex_byte :: "8 word \<Rightarrow> string" where
  "hex_byte b = [''0123456789abcdef'' ! (unat b div 16), ''0123456789abcdef'' ! (unat b mod 16)]"

definition pin_hash :: "8 word list \<Rightarrow> string" where
  "pin_hash bytes = concat (map hex_byte bytes)"

definition pins_field :: field_path where
  "pins_field = tls_field [''settings'', ''pinnedPeerCertSha256'']"

definition generateRandomPinHash ::
  "'f form_lib \<Rightarrow> 8 word list \<Rightarrow> ('f, 'h, 's) security_page \<Rightarrow> ('f, 'h, 's) security_page" where
  "generateRandomPinHash F bytes p =
     set_field F pins_field
       (JArr (field_items (getFieldValue F pins_field (se_form p)) @ [JStr (pin_hash bytes)])) p"

definition cert_field :: "nat \<Rightarrow> string \<Rightarrow> field_path" where
  "cert_field certName k = tls_field [''certificates''] @ [Index certName, Name k]"

definition warn :: "js \<Rightarrow> ('f, 'h, 's) security_page \<Rightarrow> ('f, 'h, 's) security_page" where
  "warn v p = p\<lparr>se_warnings := se_warnings p @ [v]\<rparr>"

definition put_cert ::
  "'f form_lib \<Rightarrow> (string \<Rightarrow> string) \<Rightarrow> nat \<Rightarrow> msg \<Rightarrow> ('f, 'h, 's) security_page \<Rightarrow> ('f, 'h, 's) security_page" where
  "put_cert F t certName m p =
     (let empty_text = JStr (t ''pages.inbounds.setDefaultCertEmpty'');
          cert = js_member (msg_obj m) ''webCertFile'';
          key = js_member (msg_obj m) ''webKeyFile''
      in if \<not> msg_ok m then warn (js_or (msg_text m) empty_text) p
         else if \<not> truthy cert \<and> \<not> truthy key then warn empty_text p
         else set_field F (cert_field certName ''keyFile'') (js_coalesce key (JStr []))
                (set_field F (cert_field certName ''certificateFile'') (js_coalesce cert (JStr [])) p))"

definition setCertFromPanel ::
  "'f form_lib \<Rightarrow> ('h, 's) hub \<Rightarrow> (string \<Rightarrow> string) \<Rightarrow> rat option \<Rightarrow> nat \<Rightarrow>
   ('f, 'h, 's) security_page \<Rightarrow> ('f, 'h, 's) security_page" where
  "setCertFromPanel F H t nodeId certName p =
     while_saving
       (case nodeId of
          Some n \<Rightarrow> hub_get H True (''/panel/api/nodes/webCert/'' @ num_str (Fin n))
        | None \<Rightarrow> hub_post H True ''/panel/setting/all'' JUndef False)
       (put_cert F t certName) p"

definition clearCertFiles :: "'f form_lib \<Rightarrow> nat \<Rightarrow> ('f, 'h, 's) security_page \<Rightarrow> ('f, 'h, 's) security_page" where
  "clearCertFiles F certName p =
     set_field F (cert_field certName ''keyFile'') (JStr [])
       (set_field F (cert_field certName ''certificateFile'') (JStr []) p)"

section \<open>Changing the security\<close>

definition default_certificate :: js where
  "default_certificate = JObj
     [(''useFile'', JBool True), (''certificateFile'', JStr []), (''keyFile'', JStr []), (''certificate'', JArr []),
      (''key'', JArr []), (''ocspStapling'', JInt 3600), (''oneTimeLoading'', JBool False),
      (''usage'', JStr ''encipherment''), (''buildChain'', JBool False)]"

text \<open>\<open>Schema.parse({})\<close>; it throws where it is \<open>None\<close>.\<close>

definition schema_defaults :: "('h, 's) hub \<Rightarrow> zschema \<Rightarrow> obj option" where
  "schema_defaults H schema = (case hub_zod H schema (JObj []) of Some (JObj m) \<Rightarrow> Some m | _ \<Rightarrow> None)"

definition cleaned_stream :: "js \<Rightarrow> string \<Rightarrow> obj" where
  "cleaned_stream current security =
     js_del ''realitySettings'' (js_del ''tlsSettings'' (js_put ''security'' (JStr security) (js_members current)))"

definition with_reality :: "rat \<Rightarrow> nat list \<Rightarrow> 32 word list \<Rightarrow> obj \<Rightarrow> obj" where
  "with_reality rnd lengths rs reality =
     (let (target, sni) = getRandomRealityTarget rnd
      in js_put ''shortIds'' (comma_list (randomShortIds_text lengths rs))
           (js_put ''serverNames'' (comma_list sni) (js_put ''target'' (JStr target) reality)))"

definition switched_stream ::
  "('h, 's) hub \<Rightarrow> rat \<Rightarrow> nat list \<Rightarrow> 32 word list \<Rightarrow> js \<Rightarrow> string \<Rightarrow> obj option" where
  "switched_stream H rnd lengths rs current security =
     (let cleaned = cleaned_stream current security
      in if security = ''tls''
         then map_option (\<lambda>tls. js_put ''tlsSettings''
                (JObj (js_put ''certificates'' (JArr [default_certificate]) tls)) cleaned)
                (schema_defaults H TlsStreamSettingsSchema)
         else if security = ''reality''
         then map_option (\<lambda>reality. js_put ''realitySettings'' (JObj (with_reality rnd lengths rs reality)) cleaned)
                (schema_defaults H RealityStreamSettingsSchema)
         else Some cleaned)"

text \<open>
  \<open>onSecurityChange\<close> in its two parts.  Up to its \<open>await\<close> it puts the new settings into the form
  and, for REALITY, asks for a key pair; where a schema throws it does neither.
\<close>

definition switch_security ::
  "'f form_lib \<Rightarrow> ('h, 's) hub \<Rightarrow> rat \<Rightarrow> nat list \<Rightarrow> 32 word list \<Rightarrow> string \<Rightarrow>
   ('f, 'h, 's) security_page \<Rightarrow> ('f, 'h, 's) security_page \<times> bool" where
  "switch_security F H rnd lengths rs security p =
     (case switched_stream H rnd lengths rs (getFieldValue F [Name ''streamSettings''] (se_form p)) security of
        None \<Rightarrow> (p, False)
      | Some cleaned \<Rightarrow> (set_field F [Name ''streamSettings''] (JObj cleaned) p, security = ''reality''))"

text \<open>
  The rest runs when the answer \<open>m\<close> of \<open>HttpUtil.get\<close> is there, on the form as it is by then; what
  it throws is caught.
\<close>

definition reality_keys_answered ::
  "'f form_lib \<Rightarrow> msg \<Rightarrow> ('f, 'h, 's) security_page \<Rightarrow> ('f, 'h, 's) security_page" where
  "reality_keys_answered F m p = put_keypair F m p"

text \<open>Changes of the security and the answers they wait for, in any order; the number counts the
  requests under way.\<close>

datatype security_event =
    SecurityChanged rat "nat list" "32 word list" string
  | KeysAnswered msg

fun security_step ::
  "'f form_lib \<Rightarrow> ('h, 's) hub \<Rightarrow> ('f, 'h, 's) security_page \<times> nat \<Rightarrow> security_event \<Rightarrow> ('f, 'h, 's) security_page \<times> nat" where
  "security_step F H (p, waiting) (SecurityChanged rnd lengths rs security) =
     (let (p', asks) = switch_security F H rnd lengths rs security p
      in (p', if asks then Suc waiting else waiting))"
| "security_step F H (p, 0) (KeysAnswered m) = (p, 0)"
| "security_step F H (p, Suc waiting) (KeysAnswered m) = (reality_keys_answered F m p, waiting)"

section \<open>The laws of a form\<close>

locale antd_form =
  fixes put :: "field_path \<Rightarrow> js \<Rightarrow> 'f \<Rightarrow> 'f" and get :: "field_path \<Rightarrow> 'f \<Rightarrow> js"
  assumes get_put: "get p (put p v f) = v"
    and get_apart: "apart p q \<Longrightarrow> get q (put p v f) = get q f"
    and get_inside: "get (p @ q) f = read_field q (get p f)"
begin

lemma get_two:
  assumes "apart p q"
  shows "get p (put q w (put p v f)) = v" "get q (put q w (put p v f)) = w"
proof -
  have "apart q p" using assms by (induction p q rule: apart.induct) auto
  then show "get p (put q w (put p v f)) = v" by (simp add: get_apart get_put)
qed (rule get_put)

lemma member: "get (p @ [Name k]) f = js_member (get p f) k"
  by (simp add: get_inside)

end

lemma item_at_put: "item_at (put_item i v xs) j = (if j = i then v else item_at xs j)"
  by (auto simp: item_at_def put_item_def nth_append)

lemma read_write_same: "read_field p (write_field p v w) = v"
  by (induction p v w rule: write_field.induct) (simp_all add: js_member_def field_items_def item_at_put)

lemma read_write_apart: "apart p q \<Longrightarrow> read_field q (write_field p v w) = read_field q w"
proof (induction p q arbitrary: w rule: apart.induct)
  case (1 a p b q)
  have "js_member (JObj (js_put a u (js_members w))) b = (if b = a then u else js_member w b)" for u
    by (simp add: js_member_def js_members_def split: js.split)
  then show ?case using 1 by (cases "a = b") simp_all
next
  case (2 a p b q)
  then show ?case by (cases "a = b") (auto simp: field_items_def item_at_put)
qed simp_all

lemma read_append: "read_field (p @ q) v = read_field q (read_field p v)"
  by (induction p v rule: read_field.induct) simp_all

interpretation form_value: antd_form write_field read_field
  by unfold_locales (simp_all add: read_write_same read_write_apart read_append)

section \<open>Key pairs\<close>

lemma key_fields_apart: "apart (reality_field [''privateKey'']) (reality_field [''settings'', ''publicKey''])"
  by (simp add: reality_field_def)

text \<open>Generating the REALITY keys puts both keys of a granted answer into the form and touches no
  other field; a refusal changes nothing, and either way the saving flag is taken back.\<close>

theorem keypair_stored:
  assumes "antd_form (setFieldValue F) (getFieldValue F)"
    and "fst (hub_get H False ''/panel/api/server/getNewX25519Cert'' (se_app p)) = Some m"
  shows "\<not> se_saving (genRealityKeypair F H p) \<and>
    (got_object m \<longrightarrow>
       getFieldValue F (reality_field [''privateKey'']) (se_form (genRealityKeypair F H p)) = js_member (msg_obj m) ''privateKey'' \<and>
       getFieldValue F (reality_field [''settings'', ''publicKey'']) (se_form (genRealityKeypair F H p))
         = js_member (msg_obj m) ''publicKey'') \<and>
    (\<not> got_object m \<longrightarrow> se_form (genRealityKeypair F H p) = se_form p) \<and>
    (\<forall>q. apart (reality_field [''privateKey'']) q \<and> apart (reality_field [''settings'', ''publicKey'']) q \<longrightarrow>
       getFieldValue F q (se_form (genRealityKeypair F H p)) = getFieldValue F q (se_form p))"
proof -
  obtain a where a: "hub_get H False ''/panel/api/server/getNewX25519Cert'' (se_app p) = (Some m, a)"
    using assms(2) by (cases "hub_get H False ''/panel/api/server/getNewX25519Cert'' (se_app p)") auto
  note two = antd_form.get_two [OF assms(1) key_fields_apart]
  note ap = antd_form.get_apart [OF assms(1)]
  show ?thesis
    by (cases "got_object m") (simp_all add: genRealityKeypair_def while_saving_def a put_keypair_def set_field_def two ap)
qed

definition sample_security :: "(js, (string \<times> string) list, nat) security_page" where
  "sample_security = \<lparr>se_form = JObj [], se_saving = False, se_warnings = [], se_app = sample_app\<rparr>"

definition sample_keys :: js where
  "sample_keys = JObj [(''success'', JBool True), (''obj'', JObj [(''privateKey'', JStr ''a''), (''publicKey'', JStr ''b'')])]"

lemma sample_keys_granted: "fst (hub_get (sample_hub sample_keys) False ''/panel/api/server/getNewX25519Cert'' sample_app) =
   Some (Msg True [] (JObj [(''privateKey'', JStr ''a''), (''publicKey'', JStr ''b'')]))"
  by code_simp
definition value_form :: "js form_lib" where
  "value_form = \<lparr>setFieldValue = write_field, getFieldValue = read_field\<rparr>"

lemma value_form_laws: "antd_form (setFieldValue value_form) (getFieldValue value_form)"
  by (simp add: value_form_def form_value.antd_form_axioms)

theorem keypair_stored_witness:
  "getFieldValue value_form (reality_field [''privateKey''])
     (se_form (genRealityKeypair value_form (sample_hub sample_keys) sample_security)) = JStr ''a''"
  using keypair_stored [OF value_form_laws, of "sample_hub sample_keys" sample_security]
  by (simp add: sample_keys_granted sample_security_def got_object_def msg_ok_def msg_obj_def js_member_def)

section \<open>One security at a time\<close>

text \<open>The defaults of both schemas exist.\<close>

lemma security_defaults:
  assumes "zod (hub_zod H) u"
  shows "schema_defaults H TlsStreamSettingsSchema \<noteq> None" "schema_defaults H RealityStreamSettingsSchema \<noteq> None"
proof -
  have "hub_zod H TlsStreamSettingsSchema (JObj []) = zparse u TlsStreamSettingsSchema (JObj [])"
    "hub_zod H RealityStreamSettingsSchema (JObj []) = zparse u RealityStreamSettingsSchema (JObj [])"
    by (rule zod.laws_determine [OF assms]; simp)+
  then show "schema_defaults H TlsStreamSettingsSchema \<noteq> None" "schema_defaults H RealityStreamSettingsSchema \<noteq> None"
    by (simp_all add: schema_defaults_def schema_defs)
qed

lemma switched_members:
  assumes "schema_defaults H TlsStreamSettingsSchema \<noteq> None" "schema_defaults H RealityStreamSettingsSchema \<noteq> None"
  obtains cleaned where "switched_stream H rnd lengths rs current security = Some cleaned"
    "js_get cleaned ''security'' = JStr security"
    "js_get cleaned ''tlsSettings'' = JUndef \<longleftrightarrow> security \<noteq> ''tls''"
    "js_get cleaned ''realitySettings'' = JUndef \<longleftrightarrow> security \<noteq> ''reality''"
    "\<And>k. k \<notin> {''security'', ''tlsSettings'', ''realitySettings''} \<Longrightarrow> js_get cleaned k = js_member current k"
proof -
  have c: "js_get (cleaned_stream current sec) ''security'' = JStr sec"
    "js_get (cleaned_stream current sec) ''tlsSettings'' = JUndef"
    "js_get (cleaned_stream current sec) ''realitySettings'' = JUndef"
    "\<And>k. k \<notin> {''security'', ''tlsSettings'', ''realitySettings''} \<Longrightarrow>
       js_get (cleaned_stream current sec) k = js_member current k" for sec
    by (auto simp: cleaned_stream_def js_members_def js_member_def split: js.split)
  obtain x y where "schema_defaults H TlsStreamSettingsSchema = Some x"
    "schema_defaults H RealityStreamSettingsSchema = Some y" using assms by blast
  then have "switched_stream H rnd lengths rs current security =
      Some (if security = ''tls''
            then js_put ''tlsSettings'' (JObj (js_put ''certificates'' (JArr [default_certificate]) x)) (cleaned_stream current security)
            else if security = ''reality''
            then js_put ''realitySettings'' (JObj (with_reality rnd lengths rs y)) (cleaned_stream current security)
            else cleaned_stream current security)"
    by (simp add: switched_stream_def Let_def)
  then show ?thesis by (rule that) (auto simp: c)
qed

definition stream_setting :: "'f form_lib \<Rightarrow> string \<Rightarrow> ('f, 'h, 's) security_page \<Rightarrow> js" where
  "stream_setting F k p = getFieldValue F [Name ''streamSettings'', Name k] (se_form p)"

definition is_answer :: "security_event \<Rightarrow> bool" where
  "is_answer ev = (case ev of KeysAnswered m \<Rightarrow> True | _ \<Rightarrow> False)"

definition keys_refused :: "security_event \<Rightarrow> bool" where
  "keys_refused ev = (case ev of KeysAnswered m \<Rightarrow> \<not> got_object m | _ \<Rightarrow> False)"

lemma stream_member:
  "antd_form (setFieldValue F) (getFieldValue F) \<Longrightarrow>
   stream_setting F k p = js_member (getFieldValue F [Name ''streamSettings''] (se_form p)) k"
  using antd_form.member [of "setFieldValue F" "getFieldValue F" "[Name ''streamSettings'']" k] by (simp add: stream_setting_def)

lemma answer_keeps:
  assumes "antd_form (setFieldValue F) (getFieldValue F)" and "is_answer ev"
    and "k \<noteq> ''realitySettings'' \<or> keys_refused ev \<or> snd r = 0"
  shows "stream_setting F k (fst (security_step F H r ev)) = stream_setting F k (fst r)"
proof -
  obtain p n m where r: "r = (p, n)" "ev = KeysAnswered m" using assms(2) by (cases r; cases ev) (simp_all add: is_answer_def)
  show ?thesis using assms(3)
    by (cases n) (auto simp: r stream_setting_def keys_refused_def reality_keys_answered_def put_keypair_def set_field_def
      reality_field_def antd_form.get_apart [OF assms(1)])
qed

lemma answers_keep:
  assumes "antd_form (setFieldValue F) (getFieldValue F)" and "list_all is_answer evs"
    and "k \<noteq> ''realitySettings'' \<or> list_all keys_refused evs \<or> snd r = 0"
  shows "stream_setting F k (fst (foldl (security_step F H) r evs)) = stream_setting F k (fst r)"
  using assms(2,3)
proof (induction evs arbitrary: r)
  case (Cons ev evs)
  have "snd r = 0 \<Longrightarrow> snd (security_step F H r ev) = 0"
    using Cons.prems(1) by (cases r; cases ev) (simp_all add: is_answer_def)
  then have "stream_setting F k (fst (foldl (security_step F H) (security_step F H r ev) evs)) =
      stream_setting F k (fst (security_step F H r ev))" using Cons.prems by (intro Cons.IH) auto
  also have "\<dots> = stream_setting F k (fst r)" using Cons.prems by (intro answer_keeps [OF assms(1)]) auto
  finally show ?case by simp
qed simp

text \<open>C24. A change of the security leaves one security in the form: whatever changes and answers came
  before it and however many answers to requests for keys come after it, the form has the new
  security, TLS settings exactly under TLS, no REALITY settings under another security as long as
  no request of an earlier change was under way or the late answers to it were refusals, and every
  other stream setting as it was before the change.\<close>

theorem security_switched:
  assumes "antd_form (setFieldValue F) (getFieldValue F)" and "zod (hub_zod H) uuid_ok"
    and "(p, waiting) = foldl (security_step F H) start before"
    and "list_all is_answer rest"
    and "p' = fst (foldl (security_step F H) (p, waiting) (SecurityChanged rnd lengths rs security # rest))"
  shows "stream_setting F ''security'' p' = JStr security \<and>
    (stream_setting F ''tlsSettings'' p' = JUndef \<longleftrightarrow> security \<noteq> ''tls'') \<and>
    (security \<noteq> ''reality'' \<and> (waiting = 0 \<or> list_all keys_refused rest) \<longrightarrow> stream_setting F ''realitySettings'' p' = JUndef) \<and>
    (\<forall>k. k \<notin> {''security'', ''tlsSettings'', ''realitySettings''} \<longrightarrow> stream_setting F k p' = stream_setting F k p)"
proof -
  obtain cleaned where c: "switched_stream H rnd lengths rs (getFieldValue F [Name ''streamSettings''] (se_form p)) security = Some cleaned"
    "js_get cleaned ''security'' = JStr security"
    "js_get cleaned ''tlsSettings'' = JUndef \<longleftrightarrow> security \<noteq> ''tls''"
    "js_get cleaned ''realitySettings'' = JUndef \<longleftrightarrow> security \<noteq> ''reality''"
    "\<And>k. k \<notin> {''security'', ''tlsSettings'', ''realitySettings''} \<Longrightarrow>
       js_get cleaned k = js_member (getFieldValue F [Name ''streamSettings''] (se_form p)) k"
    by (rule switched_members [OF security_defaults [OF assms(2)]]) blast
  let ?r = "security_step F H (p, waiting) (SecurityChanged rnd lengths rs security)"
  have r: "?r = (set_field F [Name ''streamSettings''] (JObj cleaned) p, if security = ''reality'' then Suc waiting else waiting)"
    by (simp add: switch_security_def c(1))
  have new: "stream_setting F k (fst ?r) = js_get cleaned k" for k
    unfolding r by (simp add: stream_member [OF assms(1)] set_field_def antd_form.get_put [OF assms(1)] js_member_def)
  have kept: "stream_setting F k p' = js_get cleaned k"
    if "k \<noteq> ''realitySettings'' \<or> list_all keys_refused rest \<or> snd ?r = 0" for k
    using answers_keep [OF assms(1,4) that, of H] new [of k] assms(5) by simp
  have "snd ?r = 0" if "security \<noteq> ''reality''" "waiting = 0" using that unfolding r by simp
  then have "stream_setting F ''realitySettings'' p' = js_get cleaned ''realitySettings''"
    if "security \<noteq> ''reality''" "waiting = 0 \<or> list_all keys_refused rest" using kept [of "''realitySettings''"] that by blast
  then show ?thesis using c kept by (simp add: stream_member [OF assms(1)])
qed

theorem security_switched_witness:
  "let p = sample_security\<lparr>se_form := JObj [(''streamSettings'', JObj [(''realitySettings'', JObj [])])]\<rparr>;
       p' = fst (foldl (security_step value_form (sample_hub sample_keys)) (p, 0)
              [SecurityChanged 0 [] [] ''none'', KeysAnswered (Msg True [] (JObj []))])
   in stream_setting value_form ''realitySettings'' p' = JUndef"
proof -
  have z: "zod (hub_zod (sample_hub sample_keys)) (\<lambda>s. True)" by (simp add: sample_hub_def zod_reference.zod_axioms)
  let ?p = "sample_security\<lparr>se_form := JObj [(''streamSettings'', JObj [(''realitySettings'', JObj [])])]\<rparr>"
  have i: "list_all is_answer [KeysAnswered (Msg True [] (JObj []))]" by (simp add: is_answer_def)
  have b: "(?p, 0) = foldl (security_step value_form (sample_hub sample_keys)) (?p, 0) []" by simp
  from security_switched [OF value_form_laws z b i refl, of 0 "[]" "[]" "''none''"]
  show ?thesis by (simp add: Let_def)
qed

text \<open>
  An answer that comes after the security was changed again is not dropped: it puts the keys, and
  with them REALITY settings, into a form with another security.
\<close>

theorem late_keys_come_back:
  assumes "antd_form (setFieldValue F) (getFieldValue F)" and "zod (hub_zod H) uuid_ok" and "got_object m"
  shows "let p' = fst (foldl (security_step F H) (p, Suc waiting) [SecurityChanged rnd lengths rs ''none'', KeysAnswered m])
    in stream_setting F ''security'' p' = JStr ''none'' \<and>
       getFieldValue F (reality_field [''privateKey'']) (se_form p') = js_member (msg_obj m) ''privateKey''"
proof -
  let ?evs = "[SecurityChanged rnd lengths rs ''none'', KeysAnswered m]"
  let ?p = "fst (foldl (security_step F H) (p, Suc waiting) ?evs)"
  have "stream_setting F ''security'' ?p = JStr ''none''"
  proof -
    have sw: "\<exists>cleaned. switched_stream H rnd lengths rs v ''none'' = Some cleaned \<and> js_get cleaned ''security'' = JStr ''none''" for v
      by (rule switched_members [OF security_defaults [OF assms(2)]]) blast
    obtain q where q: "security_step F H (p, Suc waiting) (SecurityChanged rnd lengths rs ''none'') = (q, Suc waiting)"
      "stream_setting F ''security'' q = JStr ''none''"
      using sw [of "getFieldValue F [Name ''streamSettings''] (se_form p)"]
      by (auto simp: switch_security_def stream_member [OF assms(1)] set_field_def antd_form.get_put [OF assms(1)] js_member_def)
    have "stream_setting F ''security'' (fst (security_step F H (q, Suc waiting) (KeysAnswered m))) = stream_setting F ''security'' q"
      using answer_keeps [OF assms(1), of "KeysAnswered m" "''security''" "(q, Suc waiting)" H] by (simp add: is_answer_def)
    then show ?thesis using q by simp
  qed
  moreover obtain q n where "security_step F H (p, Suc waiting) (SecurityChanged rnd lengths rs ''none'') = (q, Suc n)"
    by (cases "switched_stream H rnd lengths rs (getFieldValue F [Name ''streamSettings''] (se_form p)) ''none''")
      (simp_all add: switch_security_def)
  then have "getFieldValue F (reality_field [''privateKey'']) (se_form ?p) = js_member (msg_obj m) ''privateKey''"
    using assms(3) antd_form.get_two [OF assms(1) key_fields_apart]
    by (simp add: reality_keys_answered_def put_keypair_def set_field_def)
  ultimately show ?thesis by (simp only: Let_def)
qed

end
