(* ===== verification/XrayTabs.thy ===== *)
theory XrayTabs
  imports Headers Routing SecurityActions XraySetting "HOL-Library.Multiset"
begin

text \<open>
  What the tabs of the Xray page do to the template: \<open>frontend/src/pages/xray/routing/RoutingTab.tsx\<close>,
  \<open>outbounds/OutboundsTab.tsx\<close>, \<open>balancers/BalancersTab.tsx\<close> and \<open>dns/DnsTab.tsx\<close>, their state without
  the markup.

  Every change is made on a clone of the template that \<open>setTemplateSettings\<close> then stores.
\<close>

section \<open>Changing the template\<close>

definition mutate_template :: "(js \<Rightarrow> js) \<Rightarrow> js \<Rightarrow> js" where
  "mutate_template mutator prev =
     (if \<not> truthy prev then prev
      else case json_clone prev of None \<Rightarrow> prev | Some clone \<Rightarrow> mutator clone)"

definition tab_edit :: "(js \<Rightarrow> js) \<Rightarrow> xray_editor \<Rightarrow> xray_editor" where
  "tab_edit mutator e = setTemplateSettings (mutate_template mutator) e"

text \<open>A change that may throw; \<open>None\<close> is the exception.\<close>

definition tab_try :: "(js \<Rightarrow> js option) \<Rightarrow> xray_editor \<Rightarrow> xray_editor option" where
  "tab_try mutator e =
     (if \<not> truthy (xe_template e) then Some (tab_edit (\<lambda>t. t) e)
      else case json_clone (xe_template e) of
          None \<Rightarrow> None
        | Some clone \<Rightarrow> map_option (\<lambda>next'. setTemplateSettings (\<lambda>_. next') e) (mutator clone))"

text \<open>Changes of a list in place; an index outside gives \<open>undefined\<close> and extends.\<close>

definition splice_out :: "nat \<Rightarrow> 'a list \<Rightarrow> 'a list" where
  "splice_out i xs = take i xs @ drop (Suc i) xs"

definition splice_in :: "nat \<Rightarrow> 'a \<Rightarrow> 'a list \<Rightarrow> 'a list" where
  "splice_in i x xs = take i xs @ x # drop i xs"

definition swap_items :: "nat \<Rightarrow> nat \<Rightarrow> js list \<Rightarrow> js list" where
  "swap_items i j xs = put_item j (item_at xs i) (put_item i (item_at xs j) xs)"

definition move_up :: "nat \<Rightarrow> js list \<Rightarrow> js list" where
  "move_up idx xs = (if idx = 0 then xs else swap_items (idx - 1) idx xs)"

definition move_down :: "nat \<Rightarrow> js list \<Rightarrow> js list" where
  "move_down idx xs = (if length xs \<le> Suc idx then xs else swap_items (Suc idx) idx xs)"

definition set_first :: "nat \<Rightarrow> js list \<Rightarrow> js list" where
  "set_first idx xs = item_at xs idx # splice_out idx xs"

definition drag_item :: "nat \<Rightarrow> nat \<Rightarrow> js list \<Rightarrow> js list" where
  "drag_item i j xs = (if i = j then xs else splice_in j (item_at xs i) (splice_out i xs))"

section \<open>Rules\<close>

definition on_rules :: "(js list \<Rightarrow> js list) \<Rightarrow> js \<Rightarrow> js" where
  "on_rules f t =
     (case js_member (js_member t ''routing'') ''rules'' of JArr rs \<Rightarrow> with_rules (f rs) t | _ \<Rightarrow> t)"

definition put_at :: "nat option \<Rightarrow> js \<Rightarrow> js list \<Rightarrow> js list" where
  "put_at editingIndex v xs = (case editingIndex of None \<Rightarrow> xs @ [v] | Some i \<Rightarrow> put_item i v xs)"

definition onRuleConfirm :: "nat option \<Rightarrow> js \<Rightarrow> xray_editor \<Rightarrow> xray_editor" where
  "onRuleConfirm editingIndex rule e =
     (if length (the (JSON_stringify rule)) \<le> 3 then e
      else tab_edit (\<lambda>t. with_rules (put_at editingIndex rule (rules_of t)) t) e)"

section \<open>Outbounds\<close>

definition on_outbounds :: "(js list \<Rightarrow> js list) \<Rightarrow> js \<Rightarrow> js" where
  "on_outbounds f t = (case js_member t ''outbounds'' of JArr obs \<Rightarrow> put_outbounds (f obs) t | _ \<Rightarrow> t)"

definition outbound_confirmed :: "nat option \<Rightarrow> js \<Rightarrow> js \<Rightarrow> js" where
  "outbound_confirmed editingIndex out t =
     (let obs = field_items (js_member t ''outbounds'')
      in case editingIndex of
           None \<Rightarrow> put_outbounds (if truthy (js_member out ''tag'') then obs @ [out] else obs) t
         | Some i \<Rightarrow> put_outbounds (put_item i out obs) t)"

text \<open>The operations on the lists of both tabs.\<close>

datatype list_op = Delete nat | SetFirst nat | MoveUp nat | MoveDown nat | Drag nat nat

fun list_edit :: "list_op \<Rightarrow> js list \<Rightarrow> js list" where
  "list_edit (Delete i) xs = splice_out i xs"
| "list_edit (SetFirst i) xs = set_first i xs"
| "list_edit (MoveUp i) xs = move_up i xs"
| "list_edit (MoveDown i) xs = move_down i xs"
| "list_edit (Drag i j) xs = drag_item i j xs"

text \<open>What returns before the template is touched: moving the first entry up, dropping an entry on itself.\<close>

fun idle :: "list_op \<Rightarrow> bool" where
  "idle (MoveUp i) \<longleftrightarrow> i = 0"
| "idle (Drag i j) \<longleftrightarrow> i = j"
| "idle _ \<longleftrightarrow> False"

definition edit_rules :: "list_op \<Rightarrow> xray_editor \<Rightarrow> xray_editor" where
  "edit_rules op e = (if idle op then e else tab_edit (on_rules (list_edit op)) e)"

definition edit_outbounds :: "list_op \<Rightarrow> xray_editor \<Rightarrow> xray_editor" where
  "edit_outbounds op e = (if idle op then e else tab_edit (on_outbounds (list_edit op)) e)"

definition onConfirm_outbound :: "nat option \<Rightarrow> js \<Rightarrow> xray_editor \<Rightarrow> xray_editor" where
  "onConfirm_outbound editingIndex out e = tab_edit (outbound_confirmed editingIndex out) e"

text \<open>The tags an outbound must not take, and the tags that the selectors of a rule offer.\<close>

definition existing_tags :: "nat option \<Rightarrow> js \<Rightarrow> js list" where
  "existing_tags editing t =
     (let obs = field_items (js_member t ''outbounds'')
      in filter truthy (map (\<lambda>ob. js_member ob ''tag'') (case editing of None \<Rightarrow> obs | Some i \<Rightarrow> splice_out i obs)))"

text \<open>The elements of a \<open>Set\<close>, in the order in which they were first added.\<close>

definition first_occurrences :: "'a list \<Rightarrow> 'a list" where
  "first_occurrences xs = rev (remdups (rev xs))"

definition reverse_tag :: "js \<Rightarrow> js" where
  "reverse_tag ob =
     (let settings = js_member ob ''settings''
      in js_or (js_or (js_member (js_member ob ''reverse'') ''tag'') (js_member (js_member settings ''reverse'') ''tag''))
           (js_member settings ''inboundTag''))"

definition inboundTagOptions :: "js list \<Rightarrow> js \<Rightarrow> js list" where
  "inboundTagOptions inboundTags t =
     first_occurrences (filter truthy
       (map (\<lambda>ib. js_member ib ''tag'') (field_items (js_member t ''inbounds'')) @ inboundTags @
        map reverse_tag (field_items (js_member t ''outbounds'')) @ [js_member (js_member t ''dns'') ''tag''] @
        map (\<lambda>s. js_member s ''tag'') (field_items (js_member (js_member t ''dns'') ''servers''))))"

definition outbound_tags :: "js list \<Rightarrow> js \<Rightarrow> js list" where
  "outbound_tags clientReverseTags t =
     filter truthy (map (\<lambda>ob. js_member ob ''tag'') (field_items (js_member t ''outbounds'')) @ clientReverseTags)"

definition outboundTagOptions :: "js list \<Rightarrow> js \<Rightarrow> js list" where
  "outboundTagOptions clientReverseTags t = first_occurrences (JStr [] # outbound_tags clientReverseTags t)"

definition balancerTagOptions :: "js \<Rightarrow> js list" where
  "balancerTagOptions t =
     JStr [] # filter truthy (map (\<lambda>b. js_member b ''tag'') (field_items (js_member (js_member t ''routing'') ''balancers'')))"

section \<open>Balancers\<close>

definition DEFAULT_OBSERVATORY :: obj where
  "DEFAULT_OBSERVATORY =
     [(''subjectSelector'', JArr []), (''probeURL'', JStr ''https://www.google.com/generate_204''),
      (''probeInterval'', JStr ''1m''), (''enableConcurrency'', JBool True)]"

definition DEFAULT_BURST_OBSERVATORY :: obj where
  "DEFAULT_BURST_OBSERVATORY =
     [(''subjectSelector'', JArr []),
      (''pingConfig'', JObj
         [(''destination'', JStr ''https://www.google.com/generate_204''), (''interval'', JStr ''1m''),
          (''connectivity'', JStr ''http://connectivitycheck.platform.hicloud.com/generate_204''),
          (''timeout'', JStr ''5s''), (''sampling'', JInt 2)])]"

definition collectSelectors :: "js list \<Rightarrow> js list" where
  "collectSelectors bs =
     first_occurrences (concat (map (\<lambda>b. filter truthy (field_items (js_member b ''selector''))) bs))"

definition balancers_of :: "js \<Rightarrow> js list" where
  "balancers_of t = field_items (js_member (js_member t ''routing'') ''balancers'')"

definition balancer_strategy :: "js \<Rightarrow> js" where
  "balancer_strategy b = js_member (js_member b ''strategy'') ''type''"

definition least_ping :: "js \<Rightarrow> bool" where
  "least_ping b \<longleftrightarrow> balancer_strategy b = JStr ''leastPing''"

definition burst_feeder :: "js \<Rightarrow> bool" where
  "burst_feeder b \<longleftrightarrow>
     js_or (balancer_strategy b) (JStr ''random'') \<in> {JStr ''leastLoad'', JStr ''random'', JStr ''roundRobin''}"

text \<open>
  A property of an array does not reach its JSON text, and one of a number, a boolean or a string throws.
\<close>

definition set_selectors :: "js list \<Rightarrow> js \<Rightarrow> js option" where
  "set_selectors tags v =
     (case v of JObj m \<Rightarrow> Some (JObj (js_put ''subjectSelector'' (JArr tags) m)) | JArr _ \<Rightarrow> Some v | _ \<Rightarrow> None)"

definition observe :: "string \<Rightarrow> obj \<Rightarrow> js list \<Rightarrow> js \<Rightarrow> js option" where
  "observe key default' bs t =
     (if bs = [] then Some (JObj (js_del key (js_members t)))
      else map_option (\<lambda>v. JObj (js_put key v (js_members t)))
             (set_selectors (collectSelectors bs) (js_or (js_member t key) (JObj default'))))"

definition syncObservatories :: "js \<Rightarrow> js option" where
  "syncObservatories t =
     (let balancers = balancers_of t
      in Option.bind (observe ''observatory'' DEFAULT_OBSERVATORY (filter least_ping balancers) t)
           (observe ''burstObservatory'' DEFAULT_BURST_OBSERVATORY (filter burst_feeder balancers)))"

definition with_balancers :: "js list \<Rightarrow> js \<Rightarrow> js" where
  "with_balancers bs t =
     JObj (js_put ''routing'' (JObj (js_put ''balancers'' (JArr bs)
       (if truthy (js_member t ''routing'') then js_members (js_member t ''routing'') else [(''rules'', JArr [])])))
       (js_members t))"

definition balancer_strategy_wire :: "js \<Rightarrow> js" where
  "balancer_strategy_wire form = JObj ((''type'', js_member form ''strategy'') #
     (if js_member form ''strategy'' = JStr ''leastLoad'' \<and> truthy (js_member form ''settings'')
      then [(''settings'', js_member form ''settings'')] else []))"

definition balancer_wire :: "js \<Rightarrow> js" where
  "balancer_wire form = JObj
     ([(''tag'', js_member form ''tag''), (''selector'', JArr (field_items (js_member form ''selector''))),
       (''fallbackTag'', js_or (js_member form ''fallbackTag'') (JStr []))] @
      (if truthy (js_member form ''strategy'') \<and> js_member form ''strategy'' \<noteq> JStr ''random''
       then [(''strategy'', balancer_strategy_wire form)] else []))"

definition rename_balancer :: "js \<Rightarrow> js \<Rightarrow> js \<Rightarrow> js" where
  "rename_balancer old_tag new_tag rule =
     (if js_member rule ''balancerTag'' = old_tag
      then JObj (js_put ''balancerTag'' new_tag (js_members rule)) else rule)"

definition balancer_confirmed :: "nat option \<Rightarrow> js \<Rightarrow> js \<Rightarrow> js option" where
  "balancer_confirmed editingIndex form t =
     (let wire = balancer_wire form; list = balancers_of t
      in syncObservatories
           (case editingIndex of
              None \<Rightarrow> with_balancers (list @ [wire]) t
            | Some i \<Rightarrow>
                let old_tag = js_member (item_at list i) ''tag'';
                    t = with_balancers (put_item i wire list) t
                in if truthy old_tag \<and> old_tag \<noteq> js_member form ''tag''
                   then on_rules (map (rename_balancer old_tag (js_member form ''tag''))) t else t))"

definition balancer_deleted :: "nat \<Rightarrow> js \<Rightarrow> js option" where
  "balancer_deleted idx t =
     (if truthy (js_member (js_member t ''routing'') ''balancers'')
      then syncObservatories (with_balancers (splice_out idx (balancers_of t)) t) else Some t)"

definition onConfirm_balancer :: "nat option \<Rightarrow> js \<Rightarrow> xray_editor \<Rightarrow> xray_editor option" where
  "onConfirm_balancer editingIndex form e = tab_try (balancer_confirmed editingIndex form) e"

definition delete_balancer :: "nat \<Rightarrow> xray_editor \<Rightarrow> xray_editor option" where
  "delete_balancer idx e = tab_try (balancer_deleted idx) e"

text \<open>The rows of the table, the tags that the form offers and refuses, and the text of an observatory.\<close>

definition balancer_row :: "nat \<Rightarrow> js \<Rightarrow> js" where
  "balancer_row idx b = JObj
     [(''key'', JInt (int idx)), (''tag'', js_or (js_member b ''tag'') (JStr [])),
      (''strategy'', js_coalesce (balancer_strategy b) (JStr ''random'')),
      (''selector'', js_or (js_member b ''selector'') (JArr [])),
      (''fallbackTag'', js_or (js_member b ''fallbackTag'') (JStr [])),
      (''settings'', js_member (js_member b ''strategy'') ''settings'')]"

definition balancer_rows :: "js \<Rightarrow> js list" where
  "balancer_rows t = map (\<lambda>(idx, b). balancer_row idx b) (enumerate 0 (balancers_of t))"

definition selectable_tags :: "js list \<Rightarrow> js \<Rightarrow> js list" where
  "selectable_tags clientReverseTags t = first_occurrences (outbound_tags clientReverseTags t)"

definition otherTags :: "nat option \<Rightarrow> js \<Rightarrow> js list" where
  "otherTags editingIndex t =
     filter truthy (map (\<lambda>r. js_member r ''tag'')
       (case editingIndex of None \<Rightarrow> balancer_rows t
        | Some i \<Rightarrow> filter (\<lambda>r. js_member r ''key'' \<noteq> JInt (int i)) (balancer_rows t)))"

definition shown_observatory :: "string \<Rightarrow> js \<Rightarrow> string" where
  "shown_observatory view t =
     (if view = ''observatory'' \<and> \<not> truthy (js_member t ''observatory'') \<and> truthy (js_member t ''burstObservatory'')
      then ''burstObservatory''
      else if view = ''burstObservatory'' \<and> \<not> truthy (js_member t ''burstObservatory'') \<and> truthy (js_member t ''observatory'')
      then ''observatory'' else view)"

definition obsText :: "string \<Rightarrow> js \<Rightarrow> js" where
  "obsText view t =
     (let src = js_member t (if view = ''observatory'' then ''observatory'' else ''burstObservatory'')
      in if truthy src then pretty src else JStr [])"

definition onObsTextChange :: "string \<Rightarrow> string \<Rightarrow> xray_editor \<Rightarrow> xray_editor" where
  "onObsTextChange view txt e =
     (case JSON_parse txt of
        None \<Rightarrow> e
      | Some parsed \<Rightarrow>
          tab_edit (\<lambda>t. JObj (js_put (if view = ''observatory'' then ''observatory'' else ''burstObservatory'')
                          parsed (js_members t))) e)"

section \<open>DNS\<close>

definition default_dns :: js where
  "default_dns = JObj
     [(''tag'', JStr ''dns_inbound''), (''queryStrategy'', JStr ''UseIP''), (''disableCache'', JBool False),
      (''disableFallback'', JBool False), (''disableFallbackIfMatch'', JBool False), (''useSystemHosts'', JBool False),
      (''enableParallelQuery'', JBool False), (''serveStale'', JBool False), (''serveExpiredTTL'', JInt 0),
      (''hosts'', JObj []), (''servers'', JArr [])]"

definition toggleDNS :: "bool \<Rightarrow> js \<Rightarrow> js" where
  "toggleDNS turned_on t =
     JObj (if turned_on then js_put ''fakedns'' JNull (js_put ''dns'' default_dns (js_members t))
           else js_del ''fakedns'' (js_del ''dns'' (js_members t)))"

definition on_dns :: "(obj \<Rightarrow> obj) \<Rightarrow> js \<Rightarrow> js" where
  "on_dns f t =
     (if truthy (js_member t ''dns'')
      then JObj (js_put ''dns'' (JObj (f (js_members (js_member t ''dns'')))) (js_members t)) else t)"

record host_row =
  hr_domain :: string
  hr_values :: "js list"

definition host_rows :: "js \<Rightarrow> host_row list" where
  "host_rows dns = map (\<lambda>(domain, val). \<lparr>hr_domain = domain,
       hr_values = (case val of JArr vs \<Rightarrow> vs | _ \<Rightarrow> [JStr (js_string val)])\<rparr>)
     (js_members (js_member dns ''hosts''))"

definition put_host :: "obj \<Rightarrow> host_row \<Rightarrow> obj" where
  "put_host hosts row =
     (let vals = filter truthy (hr_values row)
      in if hr_domain row = [] \<or> vals = [] then hosts
         else js_assign (hr_domain row) (case vals of [v] \<Rightarrow> v | _ \<Rightarrow> JArr vals) hosts)"

text \<open>The rows: those of the last change while DNS stays on, read again when it is switched.\<close>

definition hostsList :: "js \<Rightarrow> host_row list" where
  "hostsList t = (if truthy (js_member t ''dns'') then host_rows (js_member t ''dns'') else [])"

definition host_map :: "host_row list \<Rightarrow> obj" where
  "host_map rows = foldl put_host [] rows"

definition syncHosts :: "host_row list \<Rightarrow> js \<Rightarrow> js" where
  "syncHosts rows t =
     on_dns (\<lambda>dns. if host_map rows \<noteq> [] then js_put ''hosts'' (JObj (host_map rows)) dns else js_del ''hosts'' dns) t"

definition blank_value :: "js \<Rightarrow> bool" where
  "blank_value v \<longleftrightarrow> nullish v \<or> (case v of JStr s \<Rightarrow> js_trim s = [] | _ \<Rightarrow> False)"

definition setDnsField :: "string \<Rightarrow> js \<Rightarrow> bool \<Rightarrow> js \<Rightarrow> js" where
  "setDnsField key v omit t = on_dns (\<lambda>dns. if omit \<and> blank_value v then js_del key dns else js_put key v dns) t"

definition onServerConfirm :: "nat option \<Rightarrow> js \<Rightarrow> js \<Rightarrow> js" where
  "onServerConfirm editingIndex v t =
     on_dns (\<lambda>dns. js_put ''servers'' (JArr (put_at editingIndex v (field_items (js_get dns ''servers'')))) dns) t"

definition deleteServer :: "nat \<Rightarrow> js \<Rightarrow> js" where
  "deleteServer idx t =
     on_dns (\<lambda>dns. case js_get dns ''servers'' of
         JArr ss \<Rightarrow> js_put ''servers'' (JArr (splice_out idx ss)) dns | _ \<Rightarrow> dns) t"

definition set_servers :: "js list \<Rightarrow> js \<Rightarrow> js" where
  "set_servers ss t = on_dns (js_put ''servers'' (JArr ss)) t"

definition DEFAULT_FAKEDNS :: js where
  "DEFAULT_FAKEDNS = JObj [(''ipPool'', JStr ''198.18.0.0/15''), (''poolSize'', JInt 65535)]"

definition put_fakedns :: "js \<Rightarrow> js \<Rightarrow> js" where
  "put_fakedns v t = JObj (js_put ''fakedns'' v (js_members t))"

definition addFakedns :: "js \<Rightarrow> js" where
  "addFakedns t = put_fakedns (JArr (field_items (js_member t ''fakedns'') @ [DEFAULT_FAKEDNS])) t"

definition deleteFakedns :: "nat \<Rightarrow> js \<Rightarrow> js" where
  "deleteFakedns idx t =
     (case js_member t ''fakedns'' of
        JArr xs \<Rightarrow> put_fakedns (if splice_out idx xs = [] then JNull else JArr (splice_out idx xs)) t
      | _ \<Rightarrow> t)"

definition updateFakednsField :: "nat \<Rightarrow> string \<Rightarrow> js \<Rightarrow> js \<Rightarrow> js" where
  "updateFakednsField idx field v t =
     (case js_member t ''fakedns'' of
        JArr xs \<Rightarrow>
          if truthy (item_at xs idx)
          then put_fakedns (JArr (xs[idx := JObj (js_put field v (js_members (xs ! idx)))])) t else t
      | _ \<Rightarrow> t)"

section \<open>Moving the entries of a list\<close>

definition in_range :: "list_op \<Rightarrow> nat \<Rightarrow> bool" where
  "in_range op n = (case op of
     Delete i \<Rightarrow> i < n | SetFirst i \<Rightarrow> i < n | MoveUp i \<Rightarrow> i < n | MoveDown i \<Rightarrow> i < n | Drag i j \<Rightarrow> i < n \<and> j < n)"

lemma mset_splice: "i < length xs \<Longrightarrow> add_mset (xs ! i) (mset (splice_out i xs)) = mset xs"
proof -
  assume i: "i < length xs"
  then have "mset xs = mset (take i xs @ xs ! i # drop (Suc i) xs)" by (simp add: id_take_nth_drop [symmetric])
  then show ?thesis by (simp add: splice_out_def)
qed

lemma mset_splice_in: "mset (splice_in i x xs) = add_mset x (mset xs)"
proof -
  have "mset xs = mset (take i xs @ drop i xs)" by simp
  then show ?thesis unfolding splice_in_def by (simp del: append_take_drop_id)
qed

lemma swap_in_range: "i < length xs \<Longrightarrow> j < length xs \<Longrightarrow> swap_items i j xs = xs[i := xs ! j, j := xs ! i]"
  by (simp add: swap_items_def put_item_def item_at_def)

text \<open>Moving an entry of the rules or the outbounds loses and duplicates nothing: every move permutes
  the list, what is set first is first, what is dragged is where it was dropped, and a deletion takes
  exactly the entry named.\<close>

theorem moves_permute:
  assumes "in_range op (length xs)"
  shows "case op of
      Delete i \<Rightarrow> add_mset (xs ! i) (mset (list_edit op xs)) = mset xs
    | SetFirst i \<Rightarrow> mset (list_edit op xs) = mset xs \<and> hd (list_edit op xs) = xs ! i
    | Drag i j \<Rightarrow> mset (list_edit op xs) = mset xs \<and> list_edit op xs ! j = xs ! i
    | _ \<Rightarrow> mset (list_edit op xs) = mset xs"
proof (cases op)
  case (Drag i j)
  with assms have ij: "i < length xs" "j < length xs" by (simp_all add: in_range_def)
  have "length (splice_out i xs) = length xs - 1" using ij by (simp add: splice_out_def)
  then have "splice_in j (xs ! i) (splice_out i xs) ! j = xs ! i" using ij by (simp add: splice_in_def nth_append)
  then show ?thesis using ij mset_splice [of i xs] by (simp add: Drag drag_item_def item_at_def mset_splice_in)
next
  case (MoveDown i)
  with assms show ?thesis
    by (cases "length xs \<le> Suc i") (simp_all add: in_range_def move_down_def swap_in_range mset_swap)
next
  case (MoveUp i)
  with assms show ?thesis by (simp add: in_range_def move_up_def swap_in_range mset_swap)
qed (use assms mset_splice in \<open>simp_all add: in_range_def set_first_def item_at_def\<close>)

theorem moves_permute_witness:
  "list_edit (Drag 0 2) [JInt 1, JInt 2, JInt 3] ! 2 = JInt 1 \<and>
   list_edit (Drag 0 2) [JInt 1, JInt 2, JInt 3] = [JInt 2, JInt 3, JInt 1]"
proof -
  have "list_edit (Drag 0 2) [JInt 1, JInt 2, JInt 3] = [JInt 2, JInt 3, JInt 1]"
    by (simp add: drag_item_def splice_in_def splice_out_def item_at_def)
  then show ?thesis using moves_permute [of "Drag 0 2" "[JInt 1, JInt 2, JInt 3]"] by (simp add: in_range_def)
qed

section \<open>Balancers and observatories\<close>

definition observed :: "string \<Rightarrow> js list \<Rightarrow> js \<Rightarrow> bool" where
  "observed key bs t \<longleftrightarrow>
     (case js_member t key of
        JUndef \<Rightarrow> bs = []
      | JObj m \<Rightarrow> bs \<noteq> [] \<and> js_get m ''subjectSelector'' = JArr (collectSelectors bs)
      | _ \<Rightarrow> False)"

definition observatories_follow :: "js \<Rightarrow> bool" where
  "observatories_follow t \<longleftrightarrow>
     observed ''observatory'' (filter least_ping (balancers_of t)) t \<and>
     observed ''burstObservatory'' (filter burst_feeder (balancers_of t)) t"

definition plain_observatory :: "js \<Rightarrow> bool" where
  "plain_observatory v \<longleftrightarrow> \<not> truthy v \<or> v = JObj (js_members v)"

definition plain_observatories :: "js \<Rightarrow> bool" where
  "plain_observatories t \<longleftrightarrow>
     plain_observatory (js_member t ''observatory'') \<and> plain_observatory (js_member t ''burstObservatory'')"

lemma member_object [simp]: "js_member (JObj m) k = js_get m k"
  by (simp add: js_member_def)

lemma members_object [simp]: "js_members (JObj m) = m"
  by (simp add: js_members_def)

lemma observe_runs:
  assumes "plain_observatory (js_member t key)"
  shows "\<exists>t'. observe key d bs t = Some t' \<and> (\<forall>k. k \<noteq> key \<longrightarrow> js_member t' k = js_member t k) \<and>
    (case js_member t' key of
        JUndef \<Rightarrow> bs = []
      | JObj m \<Rightarrow> bs \<noteq> [] \<and> js_get m ''subjectSelector'' = JArr (collectSelectors bs)
      | _ \<Rightarrow> False)"
proof -
  obtain m where "js_or (js_member t key) (JObj d) = JObj m"
    using assms unfolding plain_observatory_def js_or_def by (metis js.inject(5))
  then show ?thesis by (auto simp: observe_def set_selectors_def js_get_members)
qed

lemma sync_follows:
  assumes "plain_observatories t"
  shows "\<exists>t'. syncObservatories t = Some t' \<and> observatories_follow t' \<and> balancers_of t' = balancers_of t"
proof -
  let ?lp = "filter least_ping (balancers_of t)" and ?bf = "filter burst_feeder (balancers_of t)"
  obtain a where a: "observe ''observatory'' DEFAULT_OBSERVATORY ?lp t = Some a"
    "\<forall>k. k \<noteq> ''observatory'' \<longrightarrow> js_member a k = js_member t k" "observed ''observatory'' ?lp a"
    using observe_runs [of t "''observatory''" DEFAULT_OBSERVATORY ?lp] assms
    unfolding plain_observatories_def observed_def by blast
  have "plain_observatory (js_member a ''burstObservatory'')" using a(2) assms by (simp add: plain_observatories_def)
  from observe_runs [OF this, of DEFAULT_BURST_OBSERVATORY ?bf]
  obtain b where b: "observe ''burstObservatory'' DEFAULT_BURST_OBSERVATORY ?bf a = Some b"
    "\<forall>k. k \<noteq> ''burstObservatory'' \<longrightarrow> js_member b k = js_member a k" "observed ''burstObservatory'' ?bf b"
    unfolding observed_def by blast
  have same: "balancers_of b = balancers_of t" using a(2) b(2) by (simp add: balancers_of_def)
  have "observed ''observatory'' ?lp b" using a(3) b(2) by (simp add: observed_def)
  then show ?thesis using a(1) b(1,3) same by (simp add: syncObservatories_def Let_def observatories_follow_def)
qed

text \<open>The handlers of the tabs, each on the template that it changes.\<close>

inductive tab_step :: "js \<Rightarrow> js \<Rightarrow> bool" where
  "balancer_confirmed i form t = Some t' \<Longrightarrow> tab_step t t'"
| "balancer_deleted idx t = Some t' \<Longrightarrow> tab_step t t'"
| "tab_step t (on_rules (list_edit op) t)"
| "tab_step t (with_rules (put_at i rule (rules_of t)) t)"
| "tab_step t (on_outbounds (list_edit op) t)"
| "tab_step t (outbound_confirmed i out t)"
| "tab_step t (toggleDNS b t)"
| "tab_step t (on_dns g t)"
| "tab_step t (put_fakedns v t)"

lemma follow_plain: "observatories_follow t \<Longrightarrow> plain_observatories t"
  by (auto simp: observatories_follow_def observed_def plain_observatories_def plain_observatory_def split: js.splits)

text \<open>What the changes leave alone: the two observatories, and the balancers except where they are changed.\<close>

definition keeps_observatories :: "js \<Rightarrow> js \<Rightarrow> bool" where
  "keeps_observatories t t' \<longleftrightarrow>
     js_member t' ''observatory'' = js_member t ''observatory'' \<and>
     js_member t' ''burstObservatory'' = js_member t ''burstObservatory''"

lemma keeps_plain: "keeps_observatories t t' \<Longrightarrow> plain_observatories t \<Longrightarrow> plain_observatories t'"
  by (simp add: keeps_observatories_def plain_observatories_def)

lemma keeps_trans: "keeps_observatories s t \<Longrightarrow> keeps_observatories t u \<Longrightarrow> keeps_observatories s u"
  by (simp add: keeps_observatories_def)

lemma keeps_follow:
  "keeps_observatories t t' \<Longrightarrow> balancers_of t' = balancers_of t \<Longrightarrow> observatories_follow t \<Longrightarrow> observatories_follow t'"
  by (simp add: keeps_observatories_def observatories_follow_def observed_def)

lemma keeps:
  "keeps_observatories t (with_balancers bs t)" "keeps_observatories t (with_rules rs t)"
  "keeps_observatories t (put_outbounds obs t)" "keeps_observatories t (toggleDNS b t)"
  "keeps_observatories t (on_dns g t)" "keeps_observatories t (put_fakedns v t)" "keeps_observatories t t"
  by (simp_all add: keeps_observatories_def with_balancers_def with_rules_def put_outbounds_def toggleDNS_def
      on_dns_def put_fakedns_def js_get_members)

lemma same_balancers:
  "balancers_of (with_rules rs t) = balancers_of t" "balancers_of (put_outbounds obs t) = balancers_of t"
  "balancers_of (toggleDNS b t) = balancers_of t" "balancers_of (on_dns g t) = balancers_of t"
  "balancers_of (put_fakedns v t) = balancers_of t"
  by (simp_all add: balancers_of_def with_rules_def put_outbounds_def toggleDNS_def on_dns_def put_fakedns_def
      js_get_members)

lemmas follow_simps = keeps_follow [OF keeps(2) same_balancers(1)] keeps_follow [OF keeps(3) same_balancers(2)]
  keeps_follow [OF keeps(4) same_balancers(3)] keeps_follow [OF keeps(5) same_balancers(4)]
  keeps_follow [OF keeps(6) same_balancers(5)]

lemma confirmed_sync:
  "\<exists>t'. balancer_confirmed i form t = syncObservatories t' \<and> keeps_observatories t t'"
  using keeps(1) [of t] keeps_trans [OF keeps(1) keeps(2), where s = t]
  by (auto simp: balancer_confirmed_def Let_def on_rules_def split: option.splits js.splits)

lemma balancers_follow:
  assumes "observatories_follow t"
  shows "\<exists>t'. balancer_confirmed i form t = Some t' \<and> observatories_follow t'"
    and "balancer_deleted idx t = Some t' \<Longrightarrow> observatories_follow t'"
proof -
  obtain s where "balancer_confirmed i form t = syncObservatories s" "keeps_observatories t s"
    using confirmed_sync by blast
  then show "\<exists>t'. balancer_confirmed i form t = Some t' \<and> observatories_follow t'"
    using sync_follows [OF keeps_plain] follow_plain [OF assms] by metis
  show "observatories_follow t'" if "balancer_deleted idx t = Some t'"
    using that sync_follows [OF keeps_plain [OF keeps(1) follow_plain [OF assms]]] assms
    by (auto simp: balancer_deleted_def split: if_splits) (metis option.inject)
qed

lemma tab_step_follows: "tab_step t t' \<Longrightarrow> observatories_follow t \<Longrightarrow> observatories_follow t'"
proof (induction rule: tab_step.induct)
  case (1 i form t t')
  then show ?case using balancers_follow(1) [of t i form] by auto
next
  case (2 idx t t')
  then show ?case using balancers_follow(2) by blast
qed (auto simp: on_rules_def on_outbounds_def outbound_confirmed_def Let_def intro: follow_simps
    split: js.split option.split)

text \<open>Through any sequence of changes on the tabs, an observatory is in the template exactly while some
  balancer needs it and observes the selectors of exactly those balancers, and no change of a balancer fails.\<close>

theorem observatories_follow_balancers:
  assumes "plain_observatories t" "syncObservatories t = Some t\<^sub>0" "tab_step\<^sup>*\<^sup>* t\<^sub>0 t'"
  shows "observatories_follow t' \<and> balancer_confirmed i form t' \<noteq> None \<and>
    (list_ex least_ping (balancers_of t') \<longleftrightarrow> js_member t' ''observatory'' \<noteq> JUndef) \<and>
    (list_ex burst_feeder (balancers_of t') \<longleftrightarrow> js_member t' ''burstObservatory'' \<noteq> JUndef)"
proof -
  have "observatories_follow t\<^sub>0" using sync_follows [OF assms(1)] assms(2) by auto
  with assms(3) have f: "observatories_follow t'"
    by (induction rule: rtranclp_induct) (auto intro: tab_step_follows)
  then have "list_ex least_ping (balancers_of t') \<longleftrightarrow> js_member t' ''observatory'' \<noteq> JUndef"
    "list_ex burst_feeder (balancers_of t') \<longleftrightarrow> js_member t' ''burstObservatory'' \<noteq> JUndef"
    by (auto simp: observatories_follow_def observed_def list_ex_iff filter_empty_conv split: js.splits)
  then show ?thesis using f balancers_follow(1) [OF f, of i form] by auto
qed

definition ping_form :: js where
  "ping_form = JObj [(''tag'', JStr ''b''), (''strategy'', JStr ''leastPing''), (''selector'', JArr [JStr ''a'']),
     (''fallbackTag'', JStr [])]"

theorem observatories_follow_balancers_witness:
  "case balancer_confirmed None ping_form (JObj []) of
     Some t \<Rightarrow> observatories_follow t \<and> js_member (js_member t ''observatory'') ''subjectSelector'' = JArr [JStr ''a'']
   | None \<Rightarrow> False"
proof -
  let ?t = "the (balancer_confirmed None ping_form (JObj []))"
  have s: "balancer_confirmed None ping_form (JObj []) = Some ?t" by code_simp
  have "tab_step\<^sup>*\<^sup>* (JObj []) ?t" using tab_step.intros(1) [OF s] by blast
  moreover have "syncObservatories (JObj []) = Some (JObj [])" by code_simp
  moreover have "plain_observatories (JObj [])" by code_simp
  ultimately have "observatories_follow ?t" using observatories_follow_balancers [of "JObj []" "JObj []" ?t] by blast
  moreover have "js_member (js_member ?t ''observatory'') ''subjectSelector'' = JArr [JStr ''a'']" by code_simp
  ultimately show ?thesis by (subst s) simp
qed

end
