(* ===== verification/XrayForms.thy ===== *)
theory XrayForms
  imports XrayTabs PanelSchemas
begin

text \<open>
  The forms of the Xray page: a rule (\<open>frontend/src/pages/xray/routing/RuleFormModal.tsx\<close>), a balancer
  (\<open>balancers/BalancerFormModal.tsx\<close>) and a DNS server (\<open>dns/DnsServerModal.tsx\<close>). Each reads what is stored
  into the state of its form and builds what is stored again from that state.
\<close>

section \<open>Rules\<close>

definition initialForm :: js where
  "initialForm = JObj
     [(''domain'', JStr []), (''ip'', JStr []), (''port'', JStr []), (''sourcePort'', JStr []), (''vlessRoute'', JStr []),
      (''network'', JStr []), (''sourceIP'', JStr []), (''user'', JStr []), (''inboundTag'', JArr []),
      (''protocol'', JArr []), (''attrs'', JArr []), (''outboundTag'', JStr []), (''balancerTag'', JStr [])]"

definition rule_csv :: "string \<Rightarrow> string list" where
  "rule_csv value = (if value = [] then [] else filter (\<lambda>s. s \<noteq> []) (map js_trim (split_on CHR '','' value)))"

definition rule_text :: "js \<Rightarrow> js" where
  "rule_text v = (case v of JArr _ \<Rightarrow> JStr (js_string v) | _ \<Rightarrow> js_or v (JStr []))"

definition rule_attrs :: "js \<Rightarrow> js" where
  "rule_attrs v = JArr (if truthy v then map (\<lambda>(k, w). JArr [JStr k, w]) (js_entries v) else [])"

definition rule_form :: "js \<Rightarrow> js" where
  "rule_form rule =
     (if \<not> truthy rule then initialForm
      else JObj
        [(''domain'', rule_text (js_member rule ''domain'')), (''ip'', rule_text (js_member rule ''ip'')),
         (''port'', js_or (js_member rule ''port'') (JStr [])),
         (''sourcePort'', js_or (js_member rule ''sourcePort'') (JStr [])),
         (''vlessRoute'', js_or (js_member rule ''vlessRoute'') (JStr [])),
         (''network'', js_or (js_member rule ''network'') (JStr [])),
         (''sourceIP'', rule_text (js_member rule ''sourceIP'')), (''user'', rule_text (js_member rule ''user'')),
         (''inboundTag'', js_or (js_member rule ''inboundTag'') (JArr [])),
         (''protocol'', js_or (js_member rule ''protocol'') (JArr [])),
         (''attrs'', rule_attrs (js_member rule ''attrs'')),
         (''outboundTag'', js_or (js_member rule ''outboundTag'') (JStr [])),
         (''balancerTag'', js_or (js_member rule ''balancerTag'') (JStr []))])"

definition update_rule :: "string \<Rightarrow> js \<Rightarrow> js \<Rightarrow> js" where
  "update_rule key v form = JObj (js_put key v (js_members form))"

definition strings :: "string list \<Rightarrow> js" where
  "strings ss = JArr (map JStr ss)"

definition csv_field :: "js \<Rightarrow> js" where
  "csv_field v = strings (rule_csv (js_string v))"

definition attr_object :: "js \<Rightarrow> js" where
  "attr_object v = JObj (js_put_all []
     (map (\<lambda>e. (js_string (item_at (field_items e) 0), item_at (field_items e) 1))
       (filter (\<lambda>e. truthy (item_at (field_items e) 0)) (field_items v))))"

definition given_text :: "js \<Rightarrow> js" where
  "given_text v = (if v = JStr [] then JUndef else v)"

definition built_rule :: "js \<Rightarrow> obj" where
  "built_rule v =
     [(''type'', JStr ''field''), (''domain'', csv_field (js_member v ''domain'')), (''ip'', csv_field (js_member v ''ip'')),
      (''port'', js_member v ''port''), (''sourcePort'', js_member v ''sourcePort''),
      (''vlessRoute'', js_member v ''vlessRoute''), (''network'', js_member v ''network''),
      (''sourceIP'', csv_field (js_member v ''sourceIP'')), (''user'', csv_field (js_member v ''user'')),
      (''inboundTag'', js_member v ''inboundTag''), (''protocol'', js_member v ''protocol''),
      (''attrs'', attr_object (js_member v ''attrs'')),
      (''outboundTag'', given_text (js_member v ''outboundTag'')),
      (''balancerTag'', given_text (js_member v ''balancerTag''))]"

definition blank_field :: "js \<Rightarrow> bool" where
  "blank_field v \<longleftrightarrow> nullish v \<or> v = JArr [] \<or> v = JObj [] \<or> v = JStr []"

definition rule_submit :: "(zschema \<Rightarrow> js \<Rightarrow> js option) \<Rightarrow> js \<Rightarrow> js option" where
  "rule_submit P form =
     (case P RuleFormSchema form of
        None \<Rightarrow> None
      | Some v \<Rightarrow> Some (JObj (filter (\<lambda>(k, w). \<not> blank_field w) (built_rule v))))"

section \<open>Balancers\<close>

definition balancer_state :: "js \<Rightarrow> js" where
  "balancer_state b =
     (if \<not> truthy b
      then JObj [(''tag'', JStr []), (''strategy'', JStr ''random''), (''selector'', JArr []), (''fallbackTag'', JStr [])]
      else JObj
        [(''tag'', js_coalesce (js_member b ''tag'') (JStr [])),
         (''strategy'', js_coalesce (js_member b ''strategy'') (JStr ''random'')),
         (''selector'', JArr (field_items (js_coalesce (js_member b ''selector'') (JArr [])))),
         (''fallbackTag'', js_coalesce (js_member b ''fallbackTag'') (JStr [])),
         (''settings'', js_member b ''settings'')])"

definition duplicateTag :: "js list \<Rightarrow> js \<Rightarrow> bool" where
  "duplicateTag others st =
     (let tag = js_trim (js_string (js_member st ''tag'')) in tag \<noteq> [] \<and> JStr tag \<in> set others)"

definition balancer_submit :: "(zschema \<Rightarrow> js \<Rightarrow> js option) \<Rightarrow> js list \<Rightarrow> js \<Rightarrow> js option" where
  "balancer_submit P others st =
     (case P BalancerFormSchema st of
        None \<Rightarrow> None
      | Some v \<Rightarrow>
          if duplicateTag others st then None
          else Some (JObj (if js_member v ''strategy'' \<noteq> JStr ''leastLoad'' then js_del ''settings'' (js_members v)
                           else js_members v)))"

definition updateSetting :: "string \<Rightarrow> js \<Rightarrow> js \<Rightarrow> js" where
  "updateSetting key v st =
     JObj (js_put ''settings'' (JObj (js_put key v (js_members (js_member st ''settings'')))) (js_members st))"

section \<open>DNS servers\<close>

definition defaultFormValues :: obj where
  "defaultFormValues =
     [(''address'', JStr ''localhost''), (''port'', JInt 53), (''domains'', JArr []), (''expectedIPs'', JArr []),
      (''unexpectedIPs'', JArr []), (''queryStrategy'', JStr ''UseIP''), (''skipFallback'', JBool False),
      (''disableCache'', JBool False), (''finalQuery'', JBool False), (''tag'', JStr []), (''clientIP'', JStr []),
      (''serveStale'', JBool False), (''serveExpiredTTL'', JInt 0), (''timeoutMs'', JInt 4000)]"

text \<open>\<open>data?.k ?? server.k ?? d\<close>; a failed parse is \<open>undefined\<close>.\<close>

definition of_either :: "string \<Rightarrow> js \<Rightarrow> js \<Rightarrow> js \<Rightarrow> js" where
  "of_either k d srv data' = js_coalesce (js_coalesce (js_member data' k) (js_member srv k)) d"

definition valuesFromServer :: "(zschema \<Rightarrow> js \<Rightarrow> js option) \<Rightarrow> js \<Rightarrow> obj" where
  "valuesFromServer P srv =
     (if nullish srv then defaultFormValues
      else case srv of
          JStr s \<Rightarrow> js_put ''address'' srv defaultFormValues
        | _ \<Rightarrow>
          (let data' = (case P DnsServerObjectSchema srv of Some d \<Rightarrow> d | None \<Rightarrow> JUndef);
               get = (\<lambda>k d. (k, of_either k d srv data'))
           in js_put_all (js_put_all defaultFormValues (js_members data'))
                [(''address'', js_or (of_either ''address'' JUndef srv data') (JStr ''localhost'')),
                 get ''domains'' (JArr []),
                 (''expectedIPs'', js_coalesce (of_either ''expectedIPs'' (js_member srv ''expectIPs'') srv data') (JArr [])),
                 get ''unexpectedIPs'' (JArr []), get ''queryStrategy'' (JStr ''UseIP''),
                 get ''skipFallback'' (JBool False), get ''disableCache'' (JBool False), get ''finalQuery'' (JBool False),
                 get ''tag'' (JStr []), get ''clientIP'' (JStr []), get ''serveStale'' (JBool False),
                 get ''serveExpiredTTL'' (JInt 0), get ''timeoutMs'' (JInt 4000)]))"

definition plain_server :: "obj \<Rightarrow> bool" where
  "plain_server v \<longleftrightarrow>
     js_get v ''domains'' = JArr [] \<and> js_get v ''expectedIPs'' = JArr [] \<and> js_get v ''unexpectedIPs'' = JArr [] \<and>
     js_get v ''port'' = JInt 53 \<and> js_get v ''queryStrategy'' = JStr ''UseIP'' \<and>
     js_get v ''skipFallback'' = JBool False \<and> js_get v ''disableCache'' = JBool False \<and>
     js_get v ''finalQuery'' = JBool False \<and> \<not> truthy (js_get v ''tag'') \<and> \<not> truthy (js_get v ''clientIP'') \<and>
     js_get v ''serveStale'' = JBool False \<and> js_get v ''serveExpiredTTL'' = JInt 0 \<and> js_get v ''timeoutMs'' = JInt 4000"

definition given_items :: "js \<Rightarrow> js" where
  "given_items v = JArr (filter truthy (field_items v))"

definition valuesToWire :: "obj \<Rightarrow> js" where
  "valuesToWire v =
     (if plain_server v then js_get v ''address''
      else JObj
        ([(''address'', js_get v ''address''), (''port'', js_get v ''port''),
          (''domains'', given_items (js_get v ''domains'')), (''expectedIPs'', given_items (js_get v ''expectedIPs'')),
          (''unexpectedIPs'', given_items (js_get v ''unexpectedIPs'')),
          (''queryStrategy'', js_get v ''queryStrategy''), (''skipFallback'', js_get v ''skipFallback''),
          (''disableCache'', js_get v ''disableCache''), (''finalQuery'', js_get v ''finalQuery''),
          (''serveStale'', js_get v ''serveStale''), (''serveExpiredTTL'', js_get v ''serveExpiredTTL''),
          (''timeoutMs'', js_get v ''timeoutMs'')] @
         (if truthy (js_get v ''tag'') then [(''tag'', js_get v ''tag'')] else []) @
         (if truthy (js_get v ''clientIP'') then [(''clientIP'', js_get v ''clientIP'')] else [])))"

section \<open>Editing a rule\<close>

lemma digits_of_val: "k \<noteq> [] \<Longrightarrow> list_all is_digit k \<Longrightarrow> k = ''0'' \<or> hd k \<noteq> CHR ''0'' \<Longrightarrow> nat_str (digits_val k) = k"
proof (induction k rule: rev_induct)
  case (snoc c k)
  have d: "digit_char (digit_val c) = c" "digit_val c < 10"
    using snoc.prems(2) by (auto simp: is_digit_def digit_char_def digit_val_def)
  show ?case
  proof (cases "k = []")
    case True
    then show ?thesis using d by (subst nat_str.simps) (simp add: digits_val_def)
  next
    case False
    with snoc have k: "nat_str (digits_val k) = k" "hd k \<noteq> CHR ''0''" by auto
    have "digits_val k \<noteq> 0" using k nat_str_0 False by (metis list.sel(1))
    then show ?thesis using d k(1) by (subst nat_str.simps) (simp add: digits_val_append)
  qed
qed simp

lemma put_index_enum:
  assumes "is_index_key k" "k \<notin> fst ` set m" "enum_order m"
  shows "enum_order (put_index k v m)"
  using assms(2,3)
proof (induction m)
  case (Cons a m)
  obtain k' v' where a: "a = (k', v')" by (cases a)
  have less: "digits_val k < digits_val l \<or> \<not> is_index_key l \<or> digits_val l < digits_val k" if "l \<noteq> k" for l
    using that assms(1) digits_of_val by (metis is_index_key_def nat_neq_iff)
  show ?case
  proof (cases "is_index_key k' \<and> digits_val k' < digits_val k")
    case True
    have "enum_order (put_index k v m)" using Cons a by (simp add: enum_order_def)
    moreover have "key_before k' l" if "l \<in> set (map fst (put_index k v m))" for l
    proof -
      have "l = k \<or> l \<in> set (map fst m)" using that keys_put_index [of k v m] by auto
      then show ?thesis using True Cons.prems a by (auto simp: enum_order_def key_before_def)
    qed
    ultimately show ?thesis using True a by (simp add: enum_order_def)
  next
    case False
    have ne: "k' \<noteq> k" using Cons.prems(1) a by auto
    have "key_before k l" if "l \<in> set (map fst (a # m))" for l
    proof (cases "l = k'")
      case True
      then show ?thesis using False assms(1) less [OF ne] ne by (auto simp: key_before_def)
    next
      case other: False
      then have "key_before k' l" using that Cons.prems(2) a by (auto simp: enum_order_def)
      moreover have "l \<noteq> k" using that Cons.prems(1) by auto
      ultimately show ?thesis using False assms(1) less [OF ne] by (auto simp: key_before_def)
    qed
    moreover have "put_index k v (a # m) = (k, v) # a # m" using False a by auto
    ultimately show ?thesis using Cons.prems(2) by (simp add: enum_order_def)
  qed
qed (simp add: enum_order_def)

lemma enum_order_put_any: "enum_order m \<Longrightarrow> enum_order (js_put k v m)"
proof (cases "is_index_key k")
  case True
  show "enum_order m \<Longrightarrow> ?thesis"
  proof (cases "js_has m k")
    case True
    then show "enum_order m \<Longrightarrow> ?thesis" by (simp add: js_put_def enum_order_def keys_replace_key)
  next
    case False
    then show "enum_order m \<Longrightarrow> ?thesis"
      using put_index_enum [OF True, of m] by (simp add: js_put_def True js_has_iff)
  qed
qed simp

lemma set_put_all: "set (js_put_all m new) \<subseteq> set m \<union> set new"
proof (induction new arbitrary: m)
  case (Cons a new)
  then show ?case using set_js_put [of "fst a" "snd a" m] by (cases a) (fastforce simp: js_put_all_simps)
qed (simp add: js_put_all_simps)

lemma enum_order_put_all: "enum_order m \<Longrightarrow> enum_order (js_put_all m new)"
  by (induction new arbitrary: m) (auto simp: js_put_all_simps intro: enum_order_put_any)

lemma strip_left_set: "set (strip_left sp s) \<subseteq> set s"
  using strip_left_suffix [of s sp] by (metis set_append Un_upper2)

lemma js_trim_set: "set (js_trim s) \<subseteq> set s"
proof -
  have "set (js_trim s) \<subseteq> set (rev (strip_left js_space s))"
    unfolding js_trim_def by (metis set_rev strip_left_set)
  then show ?thesis using strip_left_set [of js_space s] by simp
qed

lemma csv_read: "rule_csv (join '','' (rule_csv s)) = rule_csv s"
proof (cases "rule_csv s = []")
  case False
  have part: "CHR '','' \<notin> set x \<and> js_trim x = x \<and> x \<noteq> []" if "x \<in> set (rule_csv s)" for x
    using that split_on_parts js_trim_set by (fastforce simp: rule_csv_def split: if_splits)
  then have "split_on CHR '','' (join '','' (rule_csv s)) = rule_csv s" using False by (intro split_on_join) auto
  moreover have "map js_trim (rule_csv s) = rule_csv s" using part by (simp add: map_idI)
  moreover have "filter (\<lambda>x. x \<noteq> []) (rule_csv s) = rule_csv s" using part by (simp add: filter_id_conv)
  moreover have "join '','' (rule_csv s) \<noteq> []" using False part by (cases "rule_csv s" rule: remdups_adj.cases) auto
  ultimately show ?thesis by (simp add: rule_csv_def [of "join '','' (rule_csv s)"])
qed (simp add: rule_csv_def)

definition kept :: "js \<Rightarrow> js" where
  "kept w = (if blank_field w then JUndef else w)"

lemma get_kept: "obj_wf m \<Longrightarrow> js_get (filter (\<lambda>(k, w). \<not> blank_field w) m) k = kept (js_get m k)"
  by (auto simp: js_get_def obj_wf_def kept_def map_of_filter_distinct blank_field_def split: option.splits)

lemma text_read:
  "rule_text (kept (csv_field (JStr s))) = JStr (join '','' (rule_csv s))"
  "js_or (kept (JStr s)) (JStr []) = JStr s"
  "js_or (kept (given_text (JStr s))) (JStr []) = JStr s"
  "js_or (kept (JArr xs)) (JArr []) = JArr xs"
proof -
  have "map (\<lambda>x. if nullish x then [] else js_string x) (map JStr ss) = ss" for ss by (induction ss) auto
  then show "rule_text (kept (csv_field (JStr s))) = JStr (join '','' (rule_csv s))"
    by (auto simp: rule_text_def kept_def csv_field_def strings_def blank_field_def js_or_def)
qed (auto simp: kept_def blank_field_def given_text_def js_or_def)

definition attr_pairs :: "js list \<Rightarrow> bool" where
  "attr_pairs es \<longleftrightarrow> (\<forall>e \<in> set es. \<exists>k w. e = JArr [JStr k, JStr w])"

lemma attrs_read:
  assumes "attr_pairs es"
  obtains es' where "rule_attrs (kept (attr_object (JArr es))) = JArr es'" "attr_pairs es'"
    "attr_object (JArr es') = attr_object (JArr es)"
proof -
  let ?f = "\<lambda>e. (js_string (item_at (field_items e) 0), item_at (field_items e) 1)"
  let ?p = "\<lambda>e. truthy (item_at (field_items e) 0)"
  obtain m where m: "attr_object (JArr es) = JObj m" "m = js_put_all [] (map ?f (filter ?p es))"
    by (simp add: attr_object_def field_items_def)
  have enum: "enum_order m" unfolding m(2) by (rule enum_order_put_all) simp
  have "fst kv \<noteq> [] \<and> (\<exists>w. snd kv = JStr w)" if "kv \<in> set m" for kv
  proof -
    have "kv \<in> set (map ?f (filter ?p es))" using that m(2) set_put_all [of "[]" "map ?f (filter ?p es)"] by auto
    then show ?thesis using assms by (auto simp: attr_pairs_def field_items_def item_at_def)
  qed
  then have each: "\<forall>kv \<in> set m. fst kv \<noteq> [] \<and> (\<exists>w. snd kv = JStr w)" by blast
  let ?g = "\<lambda>(k, w). JArr [JStr k, w]"
  have again: "map ?f (filter ?p (map ?g m)) = m"
    using each by (induction m) (auto simp: field_items_def item_at_def)
  have "rule_attrs (kept (JObj m)) = JArr (map ?g m)"
    by (auto simp: rule_attrs_def kept_def blank_field_def js_entries_def)
  moreover have "attr_pairs (map ?g m)" using each by (fastforce simp: attr_pairs_def)
  moreover have "attr_object (JArr (map ?g m)) = JObj m"
    using again put_all_Nil [OF enum] by (simp add: attr_object_def field_items_def)
  ultimately show ?thesis using that m(1) by simp
qed

lemma elems_each: "elems_of f xs = Some ys \<Longrightarrow> y \<in> set ys \<Longrightarrow> \<exists>x. f x = Some y"
  by (induction xs arbitrary: ys) (auto split: option.splits)

lemma elems_same: "(\<And>x. x \<in> set xs \<Longrightarrow> f x = Some x) \<Longrightarrow> elems_of f xs = Some xs"
  by (induction xs) auto

lemma tuple_two: "tuple_of P [s, t] xs = Some ys \<Longrightarrow> \<exists>a b v w. P s a = Some v \<and> P t b = Some w \<and> ys = [v, w]"
  by (cases xs; cases "tl xs"; cases "tl (tl xs)") (auto split: option.splits)

definition string_items :: "js \<Rightarrow> bool" where
  "string_items v \<longleftrightarrow> (\<exists>xs. v = JArr xs \<and> list_all is_str xs)"

lemma parsed_rule_form:
  assumes "zparse u RuleFormSchema form = Some v"
  shows "\<forall>k \<in> {''domain'', ''ip'', ''port'', ''sourcePort'', ''vlessRoute'', ''network'', ''sourceIP'', ''user'',
      ''outboundTag'', ''balancerTag''}. \<exists>s. js_member v k = JStr s"
    and "string_items (js_member v ''inboundTag'')" "string_items (js_member v ''protocol'')"
    and "\<exists>es. js_member v ''attrs'' = JArr es \<and> attr_pairs es"
proof -
  obtain fs where fs: "RuleFormSchema = ZObject fs" "distinct (map fst fs)"
    "(''inboundTag'', ZArray AnyLen ZString) \<in> set fs" "(''protocol'', ZArray AnyLen ZString) \<in> set fs"
    "(''attrs'', ZArray AnyLen (ZTuple [ZString, ZString])) \<in> set fs"
    "\<forall>k \<in> {''domain'', ''ip'', ''port'', ''sourcePort'', ''vlessRoute'', ''network'', ''sourceIP'', ''user'',
      ''outboundTag'', ''balancerTag''}. (k, ZString) \<in> set fs"
    by (simp add: RuleFormSchema_def)
  obtain m r where r: "v = JObj r" "fields_of (zparse u) fs m = Some r"
    using assms by (auto simp: fs(1) split: js.splits)
  have g: "zparse u s (js_get m k) = Some (js_member v k)" if "(k, s) \<in> set fs" for k s
    using fields_of_get(1) [OF fs(2) r(2) that] r(1) by simp
  show "\<forall>k \<in> {''domain'', ''ip'', ''port'', ''sourcePort'', ''vlessRoute'', ''network'', ''sourceIP'', ''user'',
      ''outboundTag'', ''balancerTag''}. \<exists>s. js_member v k = JStr s"
    using fs(6) g by (fastforce simp: is_str_def split: js.splits)
  have strs: "string_items w" if "zparse u (ZArray AnyLen ZString) x = Some w" for w x
    using that by (fastforce simp: string_items_def list_all_iff split: js.splits dest: elems_each)
  show "string_items (js_member v ''inboundTag'')" "string_items (js_member v ''protocol'')"
    using strs g fs(3,4) by blast+
  have "\<exists>es. w = JArr es \<and> (\<forall>e \<in> set es. \<exists>x. zparse u s x = Some e)" if "zparse u (ZArray AnyLen s) x = Some w" for w x s
    using that by (cases x) (auto dest: elems_each)
  from this [OF g [OF fs(5)]] obtain es where es: "js_member v ''attrs'' = JArr es"
    "\<forall>e \<in> set es. \<exists>x. zparse u (ZTuple [ZString, ZString]) x = Some e" by blast
  have "\<exists>k w. e = JArr [JStr k, JStr w]" if "zparse u (ZTuple [ZString, ZString]) x = Some e" for x e
    using that by (cases x) (auto simp: is_str_def split: js.splits dest!: tuple_two)
  then show "\<exists>es. js_member v ''attrs'' = JArr es \<and> attr_pairs es" using es by (auto simp: attr_pairs_def)
qed

lemma kept_items: "string_items v \<Longrightarrow> js_or (kept v) (JArr []) = v"
  by (auto simp: string_items_def text_read)

lemma items_again: "string_items v \<Longrightarrow> zparse u (ZArray AnyLen ZString) v = Some v"
  by (auto simp: string_items_def list_all_iff intro!: elems_same)

lemma pairs_again:
  assumes "attr_pairs es"
  shows "zparse u (ZArray AnyLen (ZTuple [ZString, ZString])) (JArr es) = Some (JArr es)"
proof -
  have "zparse u (ZTuple [ZString, ZString]) e = Some e" if e: "e \<in> set es" for e
  proof -
    obtain k w where "e = JArr [JStr k, JStr w]" using assms e unfolding attr_pairs_def by blast
    then show ?thesis by (simp add: is_str_def keep_if_def)
  qed
  then have "elems_of (zparse u (ZTuple [ZString, ZString])) es = Some es" by (rule elems_same)
  then show ?thesis by (simp del: zparse.simps(13))
qed

lemma built_rule_wf: "obj_wf (built_rule v)"
  by (simp add: built_rule_def obj_wf_def)

lemma is_str_JStr [simp]: "is_str (JStr s)"
  by (simp add: is_str_def)

text \<open>A rule that the form has saved opens as it was saved: saving it again unchanged stores the
  same rule.\<close>

theorem rule_saved_again:
  assumes "zod P u" and "rule_submit P form = Some rule"
  shows "rule_submit P (rule_form rule) = Some rule"
proof -
  have P: "P RuleFormSchema w = zparse u RuleFormSchema w" for w by (rule zod.laws_determine [OF assms(1)]) simp
  obtain v where v: "zparse u RuleFormSchema form = Some v"
    and rule: "rule = JObj (filter (\<lambda>(k, w). \<not> blank_field w) (built_rule v))"
    using assms(2) by (auto simp: rule_submit_def P split: option.splits)
  have m: "js_member rule k = kept (js_get (built_rule v) k)" for k
    by (simp add: rule get_kept [OF built_rule_wf])
  obtain f where f: "\<forall>k \<in> {''domain'', ''ip'', ''port'', ''sourcePort'', ''vlessRoute'', ''network'', ''sourceIP'', ''user'',
      ''outboundTag'', ''balancerTag''}. js_member v k = JStr (f k)"
    using bchoice [OF parsed_rule_form(1) [OF v]] by blast
  then have strs: "js_member v ''domain'' = JStr (f ''domain'')" "js_member v ''ip'' = JStr (f ''ip'')"
    "js_member v ''port'' = JStr (f ''port'')" "js_member v ''sourcePort'' = JStr (f ''sourcePort'')"
    "js_member v ''vlessRoute'' = JStr (f ''vlessRoute'')" "js_member v ''network'' = JStr (f ''network'')"
    "js_member v ''sourceIP'' = JStr (f ''sourceIP'')" "js_member v ''user'' = JStr (f ''user'')"
    "js_member v ''outboundTag'' = JStr (f ''outboundTag'')" "js_member v ''balancerTag'' = JStr (f ''balancerTag'')"
    by simp_all
  obtain es where es: "js_member v ''attrs'' = JArr es" "attr_pairs es" using parsed_rule_form(4) [OF v] by blast
  obtain es' where es': "rule_attrs (kept (attr_object (JArr es))) = JArr es'" "attr_pairs es'"
    "attr_object (JArr es') = attr_object (JArr es)" using attrs_read [OF es(2)] by metis
  note items = parsed_rule_form(2,3) [OF v]
  let ?j = "\<lambda>k. JStr (join '','' (rule_csv (f k)))"
  let ?form = "JObj
     [(''domain'', ?j ''domain''), (''ip'', ?j ''ip''), (''port'', JStr (f ''port'')), (''sourcePort'', JStr (f ''sourcePort'')), (''vlessRoute'', JStr (f ''vlessRoute'')),
      (''network'', JStr (f ''network'')), (''sourceIP'', ?j ''sourceIP''), (''user'', ?j ''user''), (''inboundTag'', js_member v ''inboundTag''),
      (''protocol'', js_member v ''protocol''), (''attrs'', JArr es'), (''outboundTag'', JStr (f ''outboundTag'')), (''balancerTag'', JStr (f ''balancerTag''))]"
  have "truthy rule" by (simp add: rule)
  then have opened: "rule_form rule = ?form"
    by (simp add: rule_form_def m built_rule_def strs es(1) es'(1) text_read kept_items items)
  have "zparse u RuleFormSchema ?form = Some ?form"
    by (simp add: RuleFormSchema_def items_again [OF items(1)] items_again [OF items(2)] pairs_again [OF es'(2)] keep_if_def js_has_def
        del: zparse.simps(9))
  moreover have "built_rule ?form = built_rule v"
    by (simp add: built_rule_def strs es(1) es'(3) csv_field_def csv_read)
  ultimately show ?thesis unfolding opened by (simp add: rule_submit_def P rule del: zparse.simps)
qed

text \<open>A rule of the form, to which the editor gives its type.\<close>

theorem rule_saved_again_witness:
  "\<exists>rule. rule_submit (zparse (\<lambda>_. True)) (update_rule ''port'' (JStr ''443'') initialForm) = Some rule \<and>
     rule_submit (zparse (\<lambda>_. True)) (rule_form rule) = Some rule"
proof -
  have "rule_submit (zparse (\<lambda>_. True)) (update_rule ''port'' (JStr ''443'') initialForm) \<noteq> None"
    by (simp add: rule_submit_def update_rule_def initialForm_def RuleFormSchema_def js_members_def js_put_def js_has_def
      is_str_def keep_if_def is_index_key_def is_digit_def)
  then obtain rule where r: "rule_submit (zparse (\<lambda>_. True)) (update_rule ''port'' (JStr ''443'') initialForm) = Some rule"
    by blast
  from rule_saved_again [OF zod_reference.zod_axioms r] r show ?thesis by blast
qed

end
