(* ===== verification/Spec2Isabelle.thy ===== *)
theory Spec2Isabelle
  imports PanelVersion Capabilities InboundTag LinkRoundTrip OutboundFormProps InboundFormProps Bridge ApiProps
    RandomUtil FormatProps ClientsProps Defaults ModelsProps XrayRuns XrayEditorProps Fallbacks InboundsProps
    Routing Nodes InboundHelpers OutboundHelpers PageHelpers SecurityActions XrayForms
begin

text \<open>
  The panel of L-UI, a hub that manages Xray servers, is a TypeScript application under
  \<open>src/frontend/src\<close>.  This development models the code that decides something: the state of the
  connection to the hub, the calls and their retries, the query state of the pages, and the
  conversions between what the user edits, what goes over the wire and what a share link says.

  \<^bold>\<open>How the parts interact.\<close>  The hub publishes updates over a socket (\<open>api/websocket.ts\<close>); the bridge
  (\<open>api/websocketBridge.ts\<close>) turns them into changes and invalidations of the query cache; the data hooks
  read and change the hub through the HTTP layer (\<open>api/axios-init.ts\<close>, \<open>HttpUtil\<close>), validate answers by
  schemas and refresh the cache.  The editors convert stored configurations to form values and back
  (\<open>lib/xray/*-form-adapter.ts\<close>), and share links are generated from inbounds
  (\<open>lib/xray/inbound-link.ts\<close>) and parsed into outbounds (\<open>lib/xray/outbound-link-parser.ts\<close>).

  \<^bold>\<open>The platform.\<close>
  \<^item> \<open>Prelude\<close>: strings (bytes of UTF-8), decimal numerals, the interfaces \<open>codec\<close>, \<open>codec_comp\<close>, \<open>machine\<close>.
  \<^item> \<open>JsValue\<close>, \<open>JsOrder\<close>: JavaScript values, property lists and their order, conversions; the interface
    \<open>string_map\<close>, which plain objects and URL parameters share.
  \<^item> \<open>Json\<close>, \<open>Base64\<close>, \<open>WebUrl\<close>: \<open>JSON\<close>, \<open>btoa\<close>/\<open>atob\<close> and class \<open>Base64\<close> of \<open>utils/index.ts\<close>, \<open>URL\<close>,
    \<open>URLSearchParams\<close>, percent-encoding; each pair with its round trip, an interpretation of \<open>codec\<close>.
  \<^item> \<open>Schema\<close>: the schema language of Zod, its laws as the interface \<open>zod\<close>, and a reference parser that
    satisfies them; every lemma on validation holds for any parser with these laws.

  \<^bold>\<open>The data.\<close>  \<open>XrayTypes\<close> (inbounds as records), \<open>Schemas\<close> (\<open>schemas/primitives\<close>, \<open>schemas/protocols\<close>,
  \<open>schemas/forms\<close>), \<open>PanelSchemas\<close> (the other files of \<open>schemas\<close>).

  \<^bold>\<open>Links.\<close>  \<open>Headers\<close>, \<open>InboundLink\<close>, \<open>OutboundLinkParser\<close>; \<open>LinkRoundTrip\<close> shows which fields of which
  protocol survive a link, and which do not.

  \<^bold>\<open>Editors.\<close>  \<open>OutboundForm\<close> with \<open>OutboundFormProps\<close>, \<open>InboundForm\<close> with \<open>InboundFormProps\<close>: reading undoes
  writing for the forms that the wire format has room for, an inbound that is opened and saved again
  keeps its texts, written payloads are accepted, members of the form alone stay off the wire.  \<open>Defaults\<close>: the settings every editor starts from.  \<open>Capabilities\<close>, \<open>InboundTag\<close>,
  \<open>PanelVersion\<close>: the small decisions the editors take.

  \<^bold>\<open>The connection.\<close>  \<open>Websocket\<close> is class \<open>WebSocketClient\<close> as a state of sockets, timers and listeners with
  one function per operation and handler; \<open>WebsocketProps\<close> has its invariant and its refinement of a
  five-state automaton, \<open>WebsocketRuns\<close> its recovery, retry schedule, silence after \<open>disconnect\<close> and
  delivery.  \<open>Bridge\<close> is the bridge with the debounce timer and the tracker of
  \<open>api/invalidationTracker.ts\<close>, composed with the socket.  \<open>Api\<close> is the HTTP layer; \<open>ApiProps\<close> shows that
  a call ends after at most two requests, that the second is the first again, that tokens are attached
  and that the page is redirected once, exactly when some answer has status 401.  \<open>HubCalls\<close> is what the data hooks share.

  \<^bold>\<open>The data hooks.\<close>  \<open>Clients\<close> with \<open>ClientsProps\<close> (\<open>hooks/useClients.ts\<close>, and the summary that the server
  computes), \<open>Models\<close> with \<open>ModelsProps\<close> (\<open>ObjectUtil\<close>, \<open>models\<close>, \<open>api/queries/useAllSettings.ts\<close>),
  \<open>Inbounds\<close> with \<open>InboundsProps\<close> (\<open>pages/inbounds/useInbounds.ts\<close>: rows, statistics and counts under the
  events of the socket), \<open>Nodes\<close> (the node operations, totals, tokens and the small queries of
  \<open>api/queries\<close>), \<open>XraySetting\<close> with \<open>XrayTests\<close>, \<open>XrayRuns\<close> and \<open>XrayEditorProps\<close> (\<open>hooks/useXraySetting.ts\<close>: the
  template editor, and the run of the outbound tests in two lanes of workers, whose every interleaving
  of answers tests each row once).

  \<^bold>\<open>The pages.\<close>  What they decide apart from their markup: \<open>Fallbacks\<close> (fallback rows of an inbound),
  \<open>SecurityActions\<close> (keys and certificates, on any form with the laws of \<open>antd_form\<close>; a change of the
  security is split at its request for keys, whose answer may come after later changes), \<open>InboundHelpers\<close>
  (labels, details, messages of a rejected form), \<open>OutboundHelpers\<close> (change of the network, multiplexing,
  addresses), \<open>Routing\<close> (criteria of the basic routing, DNS and rule texts), \<open>PageHelpers\<close> (paths, filters, the
  shared calendar), \<open>XrayTabs\<close> (the changes that the tabs of \<open>pages/xray\<close> make to the template: rules,
  outbounds, balancers with their observatories, DNS; moving never loses an entry, the observatories
  follow the balancers) and \<open>XrayForms\<close> (the forms of a rule, a balancer and a DNS server; a saved rule
  that is opened and saved again is the same rule).

  \<^bold>\<open>Helpers.\<close>  \<open>Wireguard\<close> (Curve25519 keys; the limb arithmetic against integers modulo \<open>2^255 - 19\<close>),
  \<open>RandomUtil\<close>, \<open>Format\<close> with \<open>FormatProps\<close> (classes of \<open>utils/index.ts\<close>).

  \<^bold>\<open>Representation.\<close>  Typed objects are records, unions are datatypes, values of unknown type are \<open>js\<close>.  A
  thrown exception is \<open>None\<close> or a constructor of the result.  Finite numbers are rationals or integers:
  rounding to 53 bits and the sign of zero are not modelled, also not in the limbs of \<open>Wireguard\<close>, which
  are unbounded integers.  State that React or a class keeps is a
  record, every handler a function on it, and what the browser, the network or the user may do next
  is a datatype of events, so that a theorem about all event lists is one about all interleavings.

  \<^bold>\<open>Parameters.\<close>  Code that is not in the repository is an argument: the Zod parser (with the laws of
  \<open>zod\<close>), the HTTP library with its header maps and \<open>qs\<close> (record \<open>lib\<close>, with the hypothesis \<open>headers_ok\<close>,
  and, where a request is repeated, \<open>body_ok\<close>: the body of that request reads back from its own text), the
  transport, the form of antd, the time, random bytes and numbers, the UUID pattern, the
  text of a syntax error, translations.  Each hypothesis is witnessed by a concrete instance (\<open>zod_reference\<close>, \<open>sample_lib\<close>,
  \<open>sample_hub\<close>, \<open>value_form\<close>).

  \<^bold>\<open>Bounds.\<close>  The JSON parser has fuel \<open>2 * length s + 2\<close>, which \<open>JSON_parse_reads\<close> shows to be enough for the
  text of every value; all other recursions are structural or carry a measure.  Integers in JSON are
  those below \<open>10^21\<close>, which print without an exponent.

  \<^bold>\<open>Not modelled.\<close>  React components (\<open>pages/**/*.tsx\<close>, \<open>components\<close>, \<open>layouts\<close>) are, apart from the tabs and forms
  above, markup around the modelled hooks; \<open>pages/api-docs\<close> is documentation as data; \<open>generated\<close> is produced by a tool; the clipboard, file
  download, dates of \<open>Intl\<close> and \<open>dayjs\<close>, themes, media queries and translations call the browser or a
  library; \<open>CustomGeoFormSchema\<close> tests a URL of a scheme outside the modelled ones.  The server programs
  in Go are another language and appear only where the panel repeats their logic
  (\<open>buildClientsSummary\<close>).
\<close>

end
